(* ===== verification/Prelude.thy ===== *)
theory Prelude
  imports Complex_Main "HOL-Library.Word" "HOL-Library.Signed_Division" "HOL-Library.Sublist"
    "HOL-Library.Char_ord" "HOL-Library.List_Lexorder" "HOL-Library.Product_Lexorder"
begin

text \<open>
  Shared vocabulary of the development: Rust's fixed-width integers with their checked, saturating
  and wrapping operations, \<open>Result\<close> as a sum type with the combinators that model the \<open>?\<close>
  operator, and the string operations of the standard library that the sources use.

  Conventions. Signed integers (\<open>i64\<close>, \<open>i128\<close>) are \<open>int\<close> with the range written out; sequence
  numbers (\<open>u64\<close>) are \<open>64 word\<close>, so \<open>+ 1\<close> wraps as it does in the release build
  (Dockerfile, \<open>cargo build --release\<close>, no \<open>overflow-checks\<close>); event counters are \<open>nat\<close>. Strings are
  ASCII character lists: trimming removes the ASCII part of Unicode's White\_Space.
\<close>

named_theorems rust_arith \<open>definitions of the fixed-width integer operations\<close>
named_theorems result_simps \<open>evaluation rules of the Result combinators\<close>
named_theorems string_defs \<open>definitions of the string operations\<close>

type_synonym timestamp_ms = int
type_synonym u64 = "64 word"
type_synonym ('a, 'e) result = "'e + 'a"

section \<open>Fixed-width integers\<close>

definition i64_min :: int where "i64_min = - (2 ^ 63)"
definition i64_max :: int where "i64_max = 2 ^ 63 - 1"
definition i128_min :: int where "i128_min = - (2 ^ 127)"
definition i128_max :: int where "i128_max = 2 ^ 127 - 1"
definition u32_max :: nat where "u32_max = 2 ^ 32 - 1"
definition u64_max :: nat where "u64_max = 2 ^ 64 - 1"

definition in_i64 :: "int \<Rightarrow> bool" where
  "in_i64 x \<longleftrightarrow> i64_min \<le> x \<and> x \<le> i64_max"

definition in_i128 :: "int \<Rightarrow> bool" where
  "in_i128 x \<longleftrightarrow> i128_min \<le> x \<and> x \<le> i128_max"

text \<open>Two's complement wrap-around at 128 and at 64 bits: the plain operators of the release build.\<close>

definition wrap_i128 :: "int \<Rightarrow> int" where
  "wrap_i128 x = (x + 2 ^ 127) mod 2 ^ 128 - 2 ^ 127"

definition wrap_i64 :: "int \<Rightarrow> int" where
  "wrap_i64 x = (x + 2 ^ 63) mod 2 ^ 64 - 2 ^ 63"

definition sat_i64 :: "int \<Rightarrow> int" where
  "sat_i64 x = (if x < i64_min then i64_min else if i64_max < x then i64_max else x)"

definition i64_saturating_add :: "int \<Rightarrow> int \<Rightarrow> int" where
  "i64_saturating_add a b = sat_i64 (a + b)"

definition i64_saturating_sub :: "int \<Rightarrow> int \<Rightarrow> int" where
  "i64_saturating_sub a b = sat_i64 (a - b)"

definition i64_saturating_mul :: "int \<Rightarrow> int \<Rightarrow> int" where
  "i64_saturating_mul a b = sat_i64 (a * b)"

definition i128_checked_mul :: "int \<Rightarrow> int \<Rightarrow> int option" where
  "i128_checked_mul a b = (if in_i128 (a * b) then Some (a * b) else None)"

definition i128_checked_abs :: "int \<Rightarrow> int option" where
  "i128_checked_abs a = (if in_i128 \<bar>a\<bar> then Some \<bar>a\<bar> else None)"

definition u32_checked_add :: "nat \<Rightarrow> nat \<Rightarrow> nat option" where
  "u32_checked_add a b = (if a + b \<le> u32_max then Some (a + b) else None)"

definition u32_checked_sub :: "nat \<Rightarrow> nat \<Rightarrow> nat option" where
  "u32_checked_sub a b = (if b \<le> a then Some (a - b) else None)"

lemmas int_range_defs =
  i64_min_def i64_max_def i128_min_def i128_max_def u32_max_def u64_max_def in_i64_def in_i128_def

lemmas [rust_arith] =
  sat_i64_def i64_saturating_add_def i64_saturating_sub_def i64_saturating_mul_def
  i128_checked_mul_def i128_checked_abs_def u32_checked_add_def u32_checked_sub_def

lemma i128_consts: "i128_min = - 170141183460469231731687303715884105728"
    "i128_max = 170141183460469231731687303715884105727"
  by (simp_all add: i128_min_def i128_max_def)

lemma i64_consts: "i64_min = - 9223372036854775808" "i64_max = 9223372036854775807"
  by (simp_all add: i64_min_def i64_max_def)

lemma wrap_i128_id [simp]: "in_i128 x \<Longrightarrow> wrap_i128 x = x"
  by (simp add: wrap_i128_def int_range_defs mod_pos_pos_trivial)

lemma wrap_i128_in [simp]: "in_i128 (wrap_i128 x)"
proof -
  have "0 \<le> (x + 2 ^ 127) mod 2 ^ 128" "(x + 2 ^ 127) mod 2 ^ 128 < (2 ^ 128 :: int)"
    by (rule pos_mod_sign, simp) (rule pos_mod_bound, simp)
  then show ?thesis by (simp add: wrap_i128_def int_range_defs)
qed

lemma wrap_i64_id [simp]: "in_i64 x \<Longrightarrow> wrap_i64 x = x"
  by (simp add: wrap_i64_def int_range_defs mod_pos_pos_trivial)

lemma wrap_i64_in [simp]: "in_i64 (wrap_i64 x)"
proof -
  have "0 \<le> (x + 2 ^ 63) mod 2 ^ 64" "(x + 2 ^ 63) mod 2 ^ 64 < (2 ^ 64 :: int)"
    by (rule pos_mod_sign, simp) (rule pos_mod_bound, simp)
  then show ?thesis by (simp add: wrap_i64_def int_range_defs)
qed

lemma sat_i64_id [simp]: "in_i64 x \<Longrightarrow> sat_i64 x = x"
  by (simp add: sat_i64_def in_i64_def)

lemma sat_i64_in [simp]: "in_i64 (sat_i64 x)"
  by (simp add: sat_i64_def int_range_defs)

lemma sat_i64_mono: "x \<le> y \<Longrightarrow> sat_i64 x \<le> sat_i64 y"
  by (simp add: sat_i64_def int_range_defs)

lemma i128_checked_mul_Some [simp]:
  "i128_checked_mul a b = Some c \<longleftrightarrow> in_i128 (a * b) \<and> c = a * b"
  by (auto simp: i128_checked_mul_def)

lemma i128_checked_mul_None [simp]: "i128_checked_mul a b = None \<longleftrightarrow> \<not> in_i128 (a * b)"
  by (simp add: i128_checked_mul_def)

text \<open>Truncating division, the meaning of \<open>/\<close> on signed integers.\<close>

lemma sdiv_nonneg [simp]: "0 \<le> a \<Longrightarrow> 0 < b \<Longrightarrow> a sdiv b = a div (b :: int)"
  by (cases "a = 0") (simp_all add: signed_divide_int_def)

lemma smod_nonneg [simp]: "0 \<le> a \<Longrightarrow> 0 < b \<Longrightarrow> a smod b = a mod (b :: int)"
  by (cases "a = 0") (simp_all add: signed_modulo_int_def)

lemma abs_sdiv_le: "\<bar>a sdiv b\<bar> \<le> \<bar>a :: int\<bar>"
proof -
  have "\<bar>a sdiv b\<bar> \<le> \<bar>a\<bar> div \<bar>b\<bar>"
    by (auto simp: signed_divide_int_def abs_mult sgn_if pos_imp_zdiv_nonneg_iff)
  also have "\<dots> \<le> \<bar>a\<bar>"
    by (cases "b = 0") (simp_all add: int_div_less_self zdiv_mono2 [of "\<bar>a\<bar>" 1 "\<bar>b\<bar>", simplified])
  finally show ?thesis .
qed

lemma smod_abs_less: "b \<noteq> 0 \<Longrightarrow> \<bar>a smod b\<bar> < \<bar>b :: int\<bar>"
  by (cases "a = 0") (auto simp: signed_modulo_int_def abs_mult)

lemma sdiv_rat:
  fixes a b :: int
  assumes "b \<noteq> 0"
  shows "\<bar>of_int (a sdiv b) - (of_int a / of_int b :: rat)\<bar> < 1"
    and "\<bar>of_int (a sdiv b)\<bar> \<le> \<bar>of_int a / of_int b :: rat\<bar>"
proof -
  have "of_int a = (of_int (a sdiv b) * of_int b + of_int (a smod b) :: rat)"
    using arg_cong [OF sdiv_mult_smod_eq [of a b], of "of_int :: int \<Rightarrow> rat"] by simp
  then have q: "of_int a / of_int b = (of_int (a sdiv b) + of_int (a smod b) / of_int b :: rat)"
    using assms by (simp add: add_divide_distrib)
  have "(\<bar>of_int (a smod b)\<bar> :: rat) < \<bar>of_int b\<bar>"
    using smod_abs_less [OF assms, of a] by (metis of_int_abs of_int_less_iff)
  then show "\<bar>of_int (a sdiv b) - (of_int a / of_int b :: rat)\<bar> < 1"
    using assms by (simp add: q abs_divide)
  have "\<bar>a sdiv b\<bar> * \<bar>b\<bar> \<le> \<bar>a\<bar>"
  proof -
    have "\<bar>a sdiv b\<bar> \<le> \<bar>a\<bar> div \<bar>b\<bar>"
      by (auto simp: signed_divide_int_def abs_mult sgn_if pos_imp_zdiv_nonneg_iff)
    then have "\<bar>a sdiv b\<bar> * \<bar>b\<bar> \<le> \<bar>a\<bar> div \<bar>b\<bar> * \<bar>b\<bar>" by (rule mult_right_mono) simp
    also have "\<dots> \<le> \<bar>a\<bar>" using assms by (simp add: div_times_less_eq_dividend minus_mod_eq_div_mult [symmetric])
    finally show ?thesis .
  qed
  then have "(\<bar>of_int (a sdiv b)\<bar> * \<bar>of_int b\<bar> :: rat) \<le> \<bar>of_int a\<bar>"
    by (metis of_int_abs of_int_le_iff of_int_mult)
  then show "\<bar>of_int (a sdiv b)\<bar> \<le> \<bar>of_int a / of_int b :: rat\<bar>"
    using assms by (simp add: abs_divide pos_le_divide_eq)
qed

section \<open>Result\<close>

text \<open>\<open>and_then m f\<close> is \<open>let x = m?; f x\<close>: the error of \<open>m\<close> is returned at once.\<close>

definition and_then :: "('a, 'e) result \<Rightarrow> ('a \<Rightarrow> ('b, 'e) result) \<Rightarrow> ('b, 'e) result" where
  "and_then m f = (case m of Inl e \<Rightarrow> Inl e | Inr x \<Rightarrow> f x)"

definition map_err :: "('e \<Rightarrow> 'f) \<Rightarrow> ('a, 'e) result \<Rightarrow> ('a, 'f) result" where
  "map_err f m = (case m of Inl e \<Rightarrow> Inl (f e) | Inr x \<Rightarrow> Inr x)"

definition ok_or :: "'e \<Rightarrow> 'a option \<Rightarrow> ('a, 'e) result" where
  "ok_or e m = (case m of None \<Rightarrow> Inl e | Some x \<Rightarrow> Inr x)"

definition ok :: "('a, 'e) result \<Rightarrow> 'a option" where
  "ok m = (case m of Inl _ \<Rightarrow> None | Inr x \<Rightarrow> Some x)"

definition is_err :: "('a, 'e) result \<Rightarrow> bool" where
  "is_err m = (case m of Inl _ \<Rightarrow> True | Inr _ \<Rightarrow> False)"

definition guard_err :: "bool \<Rightarrow> 'e \<Rightarrow> (unit, 'e) result" where
  "guard_err b e = (if b then Inl e else Inr ())"

fun try_map :: "('a \<Rightarrow> ('b, 'e) result) \<Rightarrow> 'a list \<Rightarrow> ('b list, 'e) result" where
  "try_map f [] = Inr []"
| "try_map f (x # xs) = and_then (f x) (\<lambda>y. and_then (try_map f xs) (\<lambda>ys. Inr (y # ys)))"

fun try_fold :: "('s \<Rightarrow> 'a \<Rightarrow> ('s, 'e) result) \<Rightarrow> 's \<Rightarrow> 'a list \<Rightarrow> ('s, 'e) result" where
  "try_fold f s [] = Inr s"
| "try_fold f s (x # xs) = and_then (f s x) (\<lambda>s'. try_fold f s' xs)"

lemma and_then_simps [simp, result_simps]:
  "and_then (Inl e) f = Inl e" "and_then (Inr x) f = f x"
  by (simp_all add: and_then_def)

lemma map_err_simps [simp, result_simps]:
  "map_err g (Inl e) = Inl (g e)" "map_err g (Inr x) = Inr x"
  by (simp_all add: map_err_def)

lemma ok_or_simps [simp, result_simps]: "ok_or e None = Inl e" "ok_or e (Some x) = Inr x"
  by (simp_all add: ok_or_def)

lemma is_err_simps [simp, result_simps]: "is_err (Inl e)" "\<not> is_err (Inr x)"
  by (simp_all add: is_err_def)

lemma ok_simps [simp, result_simps]: "ok (Inl e) = None" "ok (Inr x) = Some x"
  by (simp_all add: ok_def)

lemma guard_err_Inr [simp]: "guard_err b e = Inr u \<longleftrightarrow> \<not> b"
  by (simp add: guard_err_def)

lemma guard_err_Inl [simp]: "guard_err b e = Inl e' \<longleftrightarrow> b \<and> e' = e"
  by (auto simp: guard_err_def)

lemma guard_err_simps [simp, result_simps]:
  "guard_err True e = Inl e" "guard_err False e = Inr ()"
  by (simp_all add: guard_err_def)

lemma and_then_eq_Inr [simp]: "and_then m f = Inr y \<longleftrightarrow> (\<exists>x. m = Inr x \<and> f x = Inr y)"
  by (cases m) auto

lemma and_then_eq_Inl [simp]:
  "and_then m f = Inl e \<longleftrightarrow> m = Inl e \<or> (\<exists>x. m = Inr x \<and> f x = Inl e)"
  by (cases m) auto

lemma map_err_eq_Inr [simp]: "map_err g m = Inr y \<longleftrightarrow> m = Inr y"
  by (cases m) auto

lemma map_err_eq_Inl [simp]: "map_err g m = Inl e \<longleftrightarrow> (\<exists>e'. m = Inl e' \<and> e = g e')"
  by (cases m) auto

lemma ok_or_eq_Inr [simp]: "ok_or e m = Inr y \<longleftrightarrow> m = Some y"
  by (cases m) auto

lemma ok_or_eq_Inl [simp]: "ok_or e m = Inl e' \<longleftrightarrow> m = None \<and> e' = e"
  by (cases m) auto

lemma is_err_iff: "is_err m \<longleftrightarrow> (\<exists>e. m = Inl e)"
  by (cases m) auto

lemma not_is_err_iff: "\<not> is_err m \<longleftrightarrow> (\<exists>x. m = Inr x)"
  by (cases m) auto

lemma try_map_Inr_iff: "try_map f xs = Inr ys \<longleftrightarrow> list_all2 (\<lambda>x y. f x = Inr y) xs ys"
  by (induction xs arbitrary: ys) (auto simp: list_all2_Cons1)

lemma try_map_length: "try_map f xs = Inr ys \<Longrightarrow> length ys = length xs"
  by (simp add: try_map_Inr_iff list_all2_lengthD)

lemma try_fold_append:
  "try_fold f s (xs @ ys) = and_then (try_fold f s xs) (\<lambda>s'. try_fold f s' ys)"
proof (induction xs arbitrary: s)
  case (Cons x xs)
  then show ?case by (cases "f s x") simp_all
qed simp

lemma try_fold_invariant:
  assumes "try_fold f s xs = Inr s'" and "I s"
    and "\<And>s x s'. x \<in> set xs \<Longrightarrow> I s \<Longrightarrow> f s x = Inr s' \<Longrightarrow> I s'"
  shows "I s'"
  using assms
proof (induction xs arbitrary: s)
  case (Cons x xs)
  from Cons.prems(1) obtain t where t: "f s x = Inr t" "try_fold f t xs = Inr s'" by auto
  from Cons.prems(2,3) t(1) have "I t" by (meson list.set_intros(1))
  then show ?case using Cons.IH [OF t(2)] Cons.prems(3) by (meson list.set_intros(2))
qed simp

section \<open>Strings\<close>

definition is_ws :: "char \<Rightarrow> bool" where
  "is_ws c \<longleftrightarrow> (let n = of_char c :: nat in n = 32 \<or> (9 \<le> n \<and> n \<le> 13))"

definition trim :: "string \<Rightarrow> string" where
  "trim s = rev (dropWhile is_ws (rev (dropWhile is_ws s)))"

definition is_ascii_digit :: "char \<Rightarrow> bool" where
  "is_ascii_digit c \<longleftrightarrow> (let n = of_char c :: nat in 48 \<le> n \<and> n \<le> 57)"

definition is_ascii_alphanumeric :: "char \<Rightarrow> bool" where
  "is_ascii_alphanumeric c \<longleftrightarrow> (let n = of_char c :: nat in
     (48 \<le> n \<and> n \<le> 57) \<or> (65 \<le> n \<and> n \<le> 90) \<or> (97 \<le> n \<and> n \<le> 122))"

definition digit_val :: "char \<Rightarrow> nat" where
  "digit_val c = of_char c - 48"

definition digit_char :: "nat \<Rightarrow> char" where
  "digit_char d = char_of (48 + d)"

definition to_upper :: "char \<Rightarrow> char" where
  "to_upper c = (let n = of_char c :: nat in if 97 \<le> n \<and> n \<le> 122 then char_of (n - 32) else c)"

definition to_lower :: "char \<Rightarrow> char" where
  "to_lower c = (let n = of_char c :: nat in if 65 \<le> n \<and> n \<le> 90 then char_of (n + 32) else c)"

definition to_ascii_uppercase :: "string \<Rightarrow> string" where
  "to_ascii_uppercase s = map to_upper s"

definition to_ascii_lowercase :: "string \<Rightarrow> string" where
  "to_ascii_lowercase s = map to_lower s"

definition starts_with :: "string \<Rightarrow> string \<Rightarrow> bool" where
  "starts_with p s = prefix p s"

definition contains_str :: "string \<Rightarrow> string \<Rightarrow> bool" where
  "contains_str p s = sublist p s"

text \<open>\<open>str::split\<close> on one character: always at least one piece.\<close>

fun split_on :: "char \<Rightarrow> string \<Rightarrow> string list" where
  "split_on d [] = [[]]"
| "split_on d (c # cs) =
     (if c = d then [] # split_on d cs
      else (case split_on d cs of [] \<Rightarrow> [[c]] | w # ws \<Rightarrow> (c # w) # ws))"

text \<open>\<open>str::split_once\<close>.\<close>

fun split_once :: "char \<Rightarrow> string \<Rightarrow> (string \<times> string) option" where
  "split_once d [] = None"
| "split_once d (c # cs) =
     (if c = d then Some ([], cs) else map_option (\<lambda>(a, b). (c # a, b)) (split_once d cs))"

text \<open>\<open>[T]::join\<close>.\<close>

fun join :: "string \<Rightarrow> string list \<Rightarrow> string" where
  "join sep [] = []"
| "join sep [s] = s"
| "join sep (s # t # ss) = s @ sep @ join sep (t # ss)"

definition digits_val :: "string \<Rightarrow> nat" where
  "digits_val s = foldl (\<lambda>a c. a * 10 + digit_val c) 0 s"

fun show_nat :: "nat \<Rightarrow> string" where
  "show_nat n = (if n < 10 then [digit_char n] else show_nat (n div 10) @ [digit_char (n mod 10)])"

declare show_nat.simps [simp del]

definition show_int :: "int \<Rightarrow> string" where
  "show_int i = (if i < 0 then CHR ''-'' # show_nat (nat (- i)) else show_nat (nat i))"

text \<open>\<open>{:0w}\<close> formatting of an unsigned number.\<close>

definition show_pad :: "nat \<Rightarrow> nat \<Rightarrow> string" where
  "show_pad w n = replicate (w - length (show_nat n)) (CHR ''0'') @ show_nat n"

text \<open>\<open>str::parse\<close> for signed integers: an optional sign, at least one digit, in range.\<close>

definition parse_signed :: "int \<Rightarrow> int \<Rightarrow> string \<Rightarrow> int option" where
  "parse_signed lo hi s =
     (let (neg, ds) = (case s of [] \<Rightarrow> (False, [])
                       | c # cs \<Rightarrow> if c = CHR ''-'' then (True, cs)
                                   else if c = CHR ''+'' then (False, cs) else (False, s));
          v = (if neg then - int (digits_val ds) else int (digits_val ds))
      in if ds = [] \<or> \<not> list_all is_ascii_digit ds \<or> v < lo \<or> hi < v then None else Some v)"

definition parse_i128 :: "string \<Rightarrow> int option" where
  "parse_i128 s = parse_signed i128_min i128_max s"

definition parse_i64 :: "string \<Rightarrow> int option" where
  "parse_i64 s = parse_signed i64_min i64_max s"

text \<open>\<open>str::parse\<close> for unsigned integers: a sign other than \<open>+\<close> is an invalid digit.\<close>

definition parse_unsigned_int :: "nat \<Rightarrow> string \<Rightarrow> nat option" where
  "parse_unsigned_int hi s =
     (let ds = (case s of [] \<Rightarrow> [] | c # cs \<Rightarrow> if c = CHR ''+'' then cs else s)
      in if ds = [] \<or> \<not> list_all is_ascii_digit ds \<or> hi < digits_val ds then None
         else Some (digits_val ds))"

lemmas [string_defs] =
  is_ws_def trim_def is_ascii_digit_def is_ascii_alphanumeric_def digit_val_def digit_char_def
  to_upper_def to_lower_def to_ascii_uppercase_def to_ascii_lowercase_def starts_with_def
  contains_str_def digits_val_def show_int_def show_pad_def parse_signed_def parse_i128_def
  parse_i64_def parse_unsigned_int_def

lemma split_on_not_Nil [simp]: "split_on d s \<noteq> []"
  by (induction s) (auto split: list.splits)

lemma split_on_none [simp]: "d \<notin> set s \<Longrightarrow> split_on d s = [s]"
  by (induction s) auto

lemma split_on_append: "d \<notin> set a \<Longrightarrow> split_on d (a @ d # b) = a # split_on d b"
  by (induction a) auto

lemma split_on_set: "c \<in> set s \<Longrightarrow> c = d \<or> (\<exists>w \<in> set (split_on d s). c \<in> set w)"
  by (induction s) (auto split: list.splits)

lemma split_once_append: "d \<notin> set a \<Longrightarrow> split_once d (a @ d # b) = Some (a, b)"
  by (induction a) auto

lemma split_once_Some: "split_once d s = Some (a, b) \<Longrightarrow> s = a @ d # b \<and> d \<notin> set a"
  by (induction s arbitrary: a) (auto split: if_splits)

lemma split_once_None: "split_once d s = None \<longleftrightarrow> d \<notin> set s"
  by (induction s) auto

lemma digit_char_facts [simp]:
  assumes "d < 10"
  shows "digit_val (digit_char d) = d" and "is_ascii_digit (digit_char d)"
proof -
  have "of_char (char_of (48 + d) :: char) = (48 + d :: nat)"
    using assms by (simp add: of_char_of)
  then show "digit_val (digit_char d) = d" "is_ascii_digit (digit_char d)"
    using assms by (simp_all add: digit_val_def digit_char_def is_ascii_digit_def)
qed

lemma digits_val_append1: "digits_val (s @ [c]) = digits_val s * 10 + digit_val c"
  by (simp add: digits_val_def)

lemma digits_val_Nil [simp]: "digits_val [] = 0"
  by (simp add: digits_val_def)

lemma digits_val_append:
  "digits_val (s @ t) = digits_val s * 10 ^ length t + digits_val t"
proof (induction t rule: rev_induct)
  case (snoc c t)
  then show ?case
    by (simp add: digits_val_append1 append_assoc [symmetric] del: append_assoc)
qed simp

lemma digits_val_zeros [simp]: "digits_val (replicate n (CHR ''0'')) = 0"
proof (induction n)
  case (Suc n)
  have "replicate (Suc n) (CHR ''0'') = replicate n (CHR ''0'') @ ''0''"
    by (simp add: replicate_append_same)
  then show ?case by (simp add: Suc digits_val_append1 digit_val_def del: replicate_Suc)
qed simp

lemma show_nat_roundtrip [simp]: "digits_val (show_nat n) = n"
proof (induction n rule: show_nat.induct)
  case (1 n)
  show ?case
  proof (cases "n < 10")
    case True
    then show ?thesis
      by (subst show_nat.simps) (simp add: digits_val_append1 [of "[]", simplified])
  next
    case False
    with 1 show ?thesis by (subst show_nat.simps) (simp add: digits_val_append1)
  qed
qed

lemma show_nat_digits: "list_all is_ascii_digit (show_nat n)"
proof (induction n rule: show_nat.induct)
  case (1 n)
  then show ?case by (subst show_nat.simps) (auto simp: list_all_iff)
qed

lemma show_nat_not_Nil [simp]: "show_nat n \<noteq> []"
  by (subst show_nat.simps) simp

lemma show_nat_inj [simp]: "show_nat m = show_nat n \<longleftrightarrow> m = n"
  by (metis show_nat_roundtrip)

lemma show_pad_inj [simp]: "show_pad w m = show_pad w n \<longleftrightarrow> m = n"
proof
  assume "show_pad w m = show_pad w n"
  then have "digits_val (show_pad w m) = digits_val (show_pad w n)" by simp
  then show "m = n" by (simp add: show_pad_def digits_val_append)
qed simp

lemma show_pad_digits: "list_all is_ascii_digit (show_pad w n)"
  using show_nat_digits [of n] by (auto simp: show_pad_def list_all_iff is_ascii_digit_def)

lemma digit_neq:
  assumes "list_all is_ascii_digit s" and "\<not> is_ascii_digit c"
  shows "c \<notin> set s"
  using assms by (auto simp: list_all_iff)

lemma show_int_inj [simp]: "show_int a = show_int b \<longleftrightarrow> a = b"
proof
  have m: "CHR ''-'' \<notin> set (show_nat n)" for n
    using show_nat_digits by (rule digit_neq) (simp add: is_ascii_digit_def)
  have h: "CHR ''-'' # s \<noteq> show_nat n" "show_nat n \<noteq> CHR ''-'' # s" for s n
    using m [of n] by (metis list.set_intros(1))+
  assume "show_int a = show_int b"
  then show "a = b" by (auto simp: show_int_def h split: if_splits)
qed simp

lemma show_int_chars: "c \<in> set (show_int i) \<Longrightarrow> c = CHR ''-'' \<or> is_ascii_digit c"
  using show_nat_digits by (auto simp: show_int_def list_all_iff split: if_splits)

lemma to_upper_idem [simp]: "to_upper (to_upper c) = to_upper c"
proof (cases "97 \<le> (of_char c :: nat) \<and> (of_char c :: nat) \<le> 122")
  case True
  then have "of_char (char_of (of_char c - 32 :: nat) :: char) = (of_char c - 32 :: nat)"
    unfolding of_char_of by (intro mod_less) arith
  with True show ?thesis by (auto simp: to_upper_def Let_def)
next
  case False
  then have "to_upper c = c" by (auto simp: to_upper_def Let_def)
  then show ?thesis by simp
qed

lemma to_ascii_uppercase_idem [simp]:
  "to_ascii_uppercase (to_ascii_uppercase s) = to_ascii_uppercase s"
  by (simp add: to_ascii_uppercase_def)

text \<open>Two concatenations with a separator that neither left part contains agree piecewise.\<close>

lemma sep_append_eq:
  fixes d :: char
  assumes "d \<notin> set a" and "d \<notin> set a'"
  shows "a @ d # b = a' @ d # b' \<longleftrightarrow> a = a' \<and> b = b'"
proof
  assume "a @ d # b = a' @ d # b'"
  then have "split_once d (a @ d # b) = split_once d (a' @ d # b')" by simp
  then show "a = a' \<and> b = b'" using assms by (simp add: split_once_append)
qed simp

lemma trim_empty_iff: "trim s = [] \<longleftrightarrow> list_all is_ws s"
proof
  assume "list_all is_ws s"
  then have "dropWhile is_ws s = []" unfolding dropWhile_eq_Nil_conv list_all_iff .
  then show "trim s = []" by (simp only: trim_def rev.simps dropWhile.simps)
next
  assume "trim s = []"
  then have "\<forall>c \<in> set (dropWhile is_ws s). is_ws c" by (simp add: trim_def dropWhile_eq_Nil_conv)
  then have "dropWhile is_ws s = []" by (metis hd_dropWhile list.set_sel(1))
  then show "list_all is_ws s" by (simp add: dropWhile_eq_Nil_conv list_all_iff)
qed

lemma dropWhile_fixed: "s = [] \<or> \<not> P (hd s) \<Longrightarrow> dropWhile P s = s"
  by (cases s) auto

lemma trim_ends:
  assumes "trim s \<noteq> []"
  shows "\<not> is_ws (hd (trim s))" and "\<not> is_ws (last (trim s))"
proof -
  define t where "t = dropWhile is_ws s"
  define u where "u = dropWhile is_ws (rev t)"
  have tr: "trim s = rev u" by (simp add: trim_def t_def u_def)
  with assms have "u \<noteq> []" by simp
  then have "\<not> is_ws (hd u)" unfolding u_def by (rule hd_dropWhile)
  then show "\<not> is_ws (last (trim s))" using tr \<open>u \<noteq> []\<close> by (simp add: last_rev)
  have "t \<noteq> []" using \<open>u \<noteq> []\<close> by (auto simp: u_def)
  then have "\<not> is_ws (hd t)" unfolding t_def by (rule hd_dropWhile)
  moreover have "t = rev u @ rev (takeWhile is_ws (rev t))"
    by (metis rev_append rev_rev_ident takeWhile_dropWhile_id u_def)
  ultimately show "\<not> is_ws (hd (trim s))" using \<open>u \<noteq> []\<close> tr by (metis hd_append2 rev_is_Nil_conv)
qed

lemma trim_fixed: "s = [] \<or> \<not> is_ws (hd s) \<and> \<not> is_ws (last s) \<Longrightarrow> trim s = s"
  by (cases "s = []") (simp_all add: trim_def dropWhile_fixed hd_rev)

lemma trim_idem [simp]: "trim (trim s) = trim s"
  by (rule trim_fixed) (use trim_ends [of s] in blast)

lemma trim_map: "(\<And>c. is_ws (f c) = is_ws c) \<Longrightarrow> trim (map f s) = map f (trim s)"
  by (simp add: trim_def dropWhile_map comp_def rev_map)

lemma is_ws_to_upper [simp]: "is_ws (to_upper c) = is_ws c"
proof (cases "97 \<le> (of_char c :: nat) \<and> (of_char c :: nat) \<le> 122")
  case True
  then have "of_char (char_of (of_char c - 32 :: nat) :: char) = (of_char c - 32 :: nat)"
    unfolding of_char_of by (intro mod_less) arith
  with True show ?thesis by (auto simp: to_upper_def is_ws_def Let_def)
next
  case False
  then have "to_upper c = c" by (auto simp: to_upper_def Let_def)
  then show ?thesis by simp
qed

lemma trim_uppercase [simp]: "trim (to_ascii_uppercase s) = to_ascii_uppercase (trim s)"
  by (simp add: to_ascii_uppercase_def trim_map)

lemma to_ascii_uppercase_Nil [simp]: "to_ascii_uppercase s = [] \<longleftrightarrow> s = []"
  by (simp add: to_ascii_uppercase_def)

lemma set_join: "set (join sep ss) \<subseteq> set sep \<union> \<Union> (set (map set ss))"
  by (induction sep ss rule: join.induct) auto

lemma split_on_snoc: "d \<notin> set b \<Longrightarrow> split_on d (a @ d # b) = split_on d a @ [b]"
  by (induction a) (auto split: list.splits)

lemma last_sep_append_eq:
  fixes d :: char
  assumes "a @ d # s = b @ d # t" and "d \<notin> set s" and "d \<notin> set t"
  shows "a = b \<and> s = t"
proof -
  have "rev s @ d # rev a = rev t @ d # rev b" using arg_cong [OF assms(1), of rev] by simp
  then show ?thesis using assms(2,3) by (simp add: sep_append_eq)
qed

lemma of_char_to_lower:
  "(of_char (to_lower c) :: nat) =
     (if 65 \<le> (of_char c :: nat) \<and> (of_char c :: nat) \<le> 90 then of_char c + 32 else of_char c)"
proof (cases "65 \<le> (of_char c :: nat) \<and> (of_char c :: nat) \<le> 90")
  case True
  then have "of_char (char_of (of_char c + 32 :: nat) :: char) = (of_char c + 32 :: nat)"
    unfolding of_char_of by (intro mod_less) arith
  with True show ?thesis by (simp add: to_lower_def Let_def)
qed (auto simp: to_lower_def Let_def)

end
