(* ===== verification/Storage_Error.thy ===== *)
theory Storage_Error
  imports Prelude
begin

text \<open>
  The error type of the storage layer (\<open>src/storage/mod.rs\<close>) and its display. The wrapped errors of the
  operating system, arrow, parquet and the JSON encoder are their messages.
\<close>

datatype storage_error =
    Io string
  | Arrow string
  | Parquet string
  | Aws string
  | JsonError string
  | InvalidConfig string
  | Nats string

definition storage_error_display :: "storage_error \<Rightarrow> string" where
  "storage_error_display e = (case e of
     Io m \<Rightarrow> ''storage io error: '' @ m
   | Arrow m \<Rightarrow> ''storage arrow error: '' @ m
   | Parquet m \<Rightarrow> ''storage parquet error: '' @ m
   | Aws m \<Rightarrow> ''storage aws error: '' @ m
   | JsonError m \<Rightarrow> ''storage json error: '' @ m
   | InvalidConfig m \<Rightarrow> ''storage invalid config: '' @ m
   | Nats m \<Rightarrow> ''storage nats error: '' @ m)"

text \<open>\<open>Option::filter\<close> and \<open>Option::or\<close>.\<close>

definition filter_opt :: "('a \<Rightarrow> bool) \<Rightarrow> 'a option \<Rightarrow> 'a option" where
  "filter_opt P x = (case x of Some a \<Rightarrow> if P a then Some a else None | None \<Rightarrow> None)"

definition or_else :: "'a option \<Rightarrow> 'a option \<Rightarrow> 'a option" where
  "or_else a b = (case a of Some x \<Rightarrow> Some x | None \<Rightarrow> b)"

lemma filter_opt_Some [simp]: "filter_opt P x = Some a \<longleftrightarrow> x = Some a \<and> P a"
  by (auto simp: filter_opt_def split: option.splits if_splits)

lemma upt_0_Suc: "[0 ..< Suc n] = 0 # map Suc [0 ..< n]"
  by (simp add: upt_conv_Cons map_Suc_upt del: upt_Suc)

lemma upt_1_Suc: "[1 ..< Suc n] = map Suc [0 ..< n]"
  by (simp add: map_Suc_upt)

end
