(* ===== verification/S3_Client.thy ===== *)
theory S3_Client
  imports Storage_Error "HOL-Library.Multiset"
begin

text \<open>
  The object-store client of \<open>src/storage/s3_upload\<close>: uploads with bounded retries and a deterministic
  back-off, the compare-and-set update of an index pointer, paginated listings, optional downloads and
  deletions. The AWS SDK is a record of request functions over a state \<open>'w\<close>; each one returns the answer
  and the state at a later instant, so that whatever other writers do in between is part of it. The lemmas
  show what a retried upload does for every sequence of answers, that its waiting time is bounded, that a
  pointer update never overwrites a version it has not seen, and that a listing visits every page once.
\<close>

section \<open>Requests, answers and errors (s3_upload.rs, errors.rs)\<close>

record sdk_error =
  se_code :: "string option"
  se_message :: "string option"
  se_service_display :: string
  se_display :: string

record put_request =
  pr_bucket :: string
  pr_key :: string
  pr_body :: string
  pr_content_type :: string
  pr_if_match :: "string option"
  pr_if_none_match :: "string option"

record s3_object =
  so_key :: "string option"
  so_last_modified_ms :: "int option"
  so_size :: "int option"

record list_page =
  pg_contents :: "s3_object list"
  pg_is_truncated :: "bool option"
  pg_next_token :: "string option"

record s3_object_summary =
  os_key :: string
  os_last_modified_ms :: "int option"
  os_size_bytes :: nat

record 'w s3_client =
  c_put :: "put_request \<Rightarrow> 'w \<Rightarrow> 'w \<times> (unit, sdk_error) result"
  c_head :: "string \<Rightarrow> 'w \<Rightarrow> 'w \<times> (string option, sdk_error) result"
  c_get :: "string \<Rightarrow> 'w \<Rightarrow> 'w \<times> ((string, string) result, sdk_error) result"
  c_list :: "string \<Rightarrow> string option \<Rightarrow> int option \<Rightarrow> 'w \<Rightarrow> 'w \<times> (list_page, sdk_error) result"
  c_delete :: "string \<Rightarrow> 'w \<Rightarrow> 'w \<times> (unit, sdk_error) result"

record 'w s3_uploader =
  client :: "'w s3_client"
  up_bucket :: string

definition MAX_PUT_OBJECT_ATTEMPTS :: nat where "MAX_PUT_OBJECT_ATTEMPTS = 4"
definition INITIAL_RETRY_DELAY_MS :: nat where "INITIAL_RETRY_DELAY_MS = 250"
definition MAX_RETRY_DELAY_MS :: nat where "MAX_RETRY_DELAY_MS = 2000"

definition is_not_found_code :: "string \<Rightarrow> bool" where
  "is_not_found_code code \<longleftrightarrow> code \<in> set [''404'', ''NoSuchKey'', ''NotFound'']"

definition is_not_found_message :: "string \<Rightarrow> bool" where
  "is_not_found_message message \<longleftrightarrow>
     contains_str ''NoSuchKey'' message \<or> contains_str ''NotFound'' message \<or> contains_str ''404'' message"

definition is_not_found_get_error :: "sdk_error \<Rightarrow> bool" where
  "is_not_found_get_error e \<longleftrightarrow>
     (case se_code e of Some code \<Rightarrow> is_not_found_code code | None \<Rightarrow> False) \<or> is_not_found_message (se_display e)"

definition is_not_found_head_error :: "sdk_error \<Rightarrow> bool" where
  "is_not_found_head_error e \<longleftrightarrow>
     (case se_code e of Some code \<Rightarrow> is_not_found_code code | None \<Rightarrow> False) \<or> is_not_found_message (se_display e)"

function split_whitespace :: "string \<Rightarrow> string list" where
  "split_whitespace s = (case dropWhile is_ws s of
     [] \<Rightarrow> []
   | c # cs \<Rightarrow> takeWhile (Not \<circ> is_ws) (c # cs) # split_whitespace (dropWhile (Not \<circ> is_ws) (c # cs)))"
  by pat_completeness auto
termination
proof (relation "measure length")
  fix s c cs
  assume s: "dropWhile is_ws s = c # cs"
  then have "\<not> is_ws c" by (metis hd_dropWhile list.distinct(1) list.sel(1))
  then have "length (dropWhile (Not \<circ> is_ws) (c # cs)) < Suc (length cs)"
    by (simp add: length_dropWhile_le less_Suc_eq_le)
  also have "Suc (length cs) \<le> length s" using length_dropWhile_le [of is_ws s] s by simp
  finally show "(dropWhile (Not \<circ> is_ws) (c # cs), s) \<in> measure length" by simp
qed simp

declare split_whitespace.simps [simp del]

definition compact_error_message :: "string \<Rightarrow> string" where
  "compact_error_message value = join '' '' (split_whitespace value)"

definition is_retryable_put_object_code :: "string \<Rightarrow> bool" where
  "is_retryable_put_object_code code \<longleftrightarrow>
     code \<in> set [''unknown'', ''InternalError'', ''RequestTimeout'', ''ServiceUnavailable'', ''SlowDown'',
       ''Throttling'', ''ThrottlingException'', ''TooManyRequestsException''] \<or> starts_with ''5'' code"

record put_object_failure =
  pf_bucket :: string
  pf_key :: string
  pf_code :: string
  pf_message :: string
  pf_retryable :: bool

definition failure_from_sdk_error :: "string \<Rightarrow> string \<Rightarrow> sdk_error \<Rightarrow> put_object_failure" where
  "failure_from_sdk_error bkt key e =
     (let code = (case filter_opt (\<lambda>v. v \<noteq> []) (se_code e) of Some c \<Rightarrow> c | None \<Rightarrow> ''unknown'');
          message = (case filter_opt (\<lambda>v. v \<noteq> []) (map_option compact_error_message (se_message e)) of
                       Some m \<Rightarrow> m | None \<Rightarrow> compact_error_message (se_service_display e))
      in \<lparr>pf_bucket = bkt, pf_key = key, pf_code = code, pf_message = message,
          pf_retryable = is_retryable_put_object_code code\<rparr>)"

definition failure_render :: "put_object_failure \<Rightarrow> nat \<Rightarrow> string" where
  "failure_render f attempts =
     ''put_object bucket='' @ pf_bucket f @ '' key='' @ pf_key f @ '' attempts='' @ show_nat attempts @
     '' code='' @ pf_code f @ '' message=\"'' @ pf_message f @ ''\"''"

definition u64_saturating_mul :: "nat \<Rightarrow> nat \<Rightarrow> nat" where
  "u64_saturating_mul a b = min (a * b) u64_max"

definition u64_saturating_add :: "nat \<Rightarrow> nat \<Rightarrow> nat" where
  "u64_saturating_add a b = min (a + b) u64_max"

definition u64_saturating_pow2 :: "nat \<Rightarrow> nat" where
  "u64_saturating_pow2 e = (if e < 64 then 2 ^ e else u64_max)"

definition stable_jitter_ms :: "string \<Rightarrow> nat" where
  "stable_jitter_ms key = unat (fold (\<lambda>c acc. acc + of_nat (of_char c)) key (0 :: u64)) mod 100"

definition retry_delay :: "nat \<Rightarrow> string \<Rightarrow> nat" where
  "retry_delay attempt key =
     (let exponent = min (attempt - 1) u32_max;
          backoff_ms = min (u64_saturating_mul INITIAL_RETRY_DELAY_MS (u64_saturating_pow2 exponent)) MAX_RETRY_DELAY_MS
      in u64_saturating_add backoff_ms (stable_jitter_ms key))"

section \<open>Uploads (put.rs)\<close>

definition put_request_for :: "string \<Rightarrow> string \<Rightarrow> string \<Rightarrow> string \<Rightarrow> string option \<Rightarrow> put_request" where
  "put_request_for bkt key bytes content_type expected_etag =
     (let request = \<lparr>pr_bucket = bkt, pr_key = key, pr_body = bytes, pr_content_type = content_type,
                      pr_if_match = None, pr_if_none_match = None\<rparr>
      in case expected_etag of
           Some etag \<Rightarrow> request\<lparr>pr_if_match := Some etag\<rparr>
         | None \<Rightarrow> if content_type = ''application/json'' \<and> starts_with ''l1_index/'' key
                   then request\<lparr>pr_if_none_match := Some ''*''\<rparr>
                   else request)"

text \<open>The body of the \<open>for attempt in 1..=MAX\_PUT\_OBJECT\_ATTEMPTS\<close> loop; the delays slept are returned in
  order.\<close>

fun put_attempts ::
    "'w s3_uploader \<Rightarrow> string \<Rightarrow> string \<Rightarrow> string \<Rightarrow> string option \<Rightarrow> nat list \<Rightarrow> 'w \<Rightarrow>
     'w \<times> nat list \<times> (unit, storage_error) result" where
  "put_attempts u key bytes content_type expected_etag [] w =
     (w, [], Inl (Aws (''put_object bucket='' @ up_bucket u @ '' key='' @ key @ '' attempts='' @
        show_nat MAX_PUT_OBJECT_ATTEMPTS @ '' code=unknown message=\"retry exhausted\"'')))"
| "put_attempts u key bytes content_type expected_etag (attempt # rest) w =
     (case c_put (client u) (put_request_for (up_bucket u) key bytes content_type expected_etag) w of
        (w', Inr _) \<Rightarrow> (w', [], Inr ())
      | (w', Inl error) \<Rightarrow>
          (let failure = failure_from_sdk_error (up_bucket u) key error in
           if MAX_PUT_OBJECT_ATTEMPTS \<le> attempt \<or> \<not> pf_retryable failure
           then (w', [], Inl (Aws (failure_render failure attempt)))
           else (case put_attempts u key bytes content_type expected_etag rest w' of
                   (w'', delays, r) \<Rightarrow> (w'', retry_delay attempt key # delays, r))))"

definition put_object_with_retry_guarded ::
    "'w s3_uploader \<Rightarrow> string \<Rightarrow> string \<Rightarrow> string \<Rightarrow> string option \<Rightarrow> 'w \<Rightarrow>
     'w \<times> nat list \<times> (unit, storage_error) result" where
  "put_object_with_retry_guarded u key bytes content_type expected_etag w =
     put_attempts u key bytes content_type expected_etag [1 ..< Suc MAX_PUT_OBJECT_ATTEMPTS] w"

definition put_object_with_retry ::
    "'w s3_uploader \<Rightarrow> string \<Rightarrow> string \<Rightarrow> string \<Rightarrow> 'w \<Rightarrow> 'w \<times> nat list \<times> (unit, storage_error) result" where
  "put_object_with_retry u key bytes content_type w = put_object_with_retry_guarded u key bytes content_type None w"

text \<open>\<open>upload_file\<close> reads the file first (\<open>file\<close> is the outcome of the read).\<close>

definition upload_file ::
    "'w s3_uploader \<Rightarrow> string \<Rightarrow> (string, string) result \<Rightarrow> 'w \<Rightarrow> 'w \<times> nat list \<times> (unit, storage_error) result" where
  "upload_file u key file w = (case file of
     Inl e \<Rightarrow> (w, [], Inl (Io e))
   | Inr bytes \<Rightarrow> put_object_with_retry u key bytes ''application/vnd.apache.parquet'' w)"

definition upload_json ::
    "'w s3_uploader \<Rightarrow> string \<Rightarrow> string \<Rightarrow> 'w \<Rightarrow> 'w \<times> nat list \<times> (unit, storage_error) result" where
  "upload_json u key bytes w = put_object_with_retry u key bytes ''application/json'' w"

definition head_etag :: "'w s3_uploader \<Rightarrow> string \<Rightarrow> 'w \<Rightarrow> 'w \<times> (string option, storage_error) result" where
  "head_etag u key w = (case c_head (client u) key w of
     (w', Inr e_tag) \<Rightarrow> (w', Inr e_tag)
   | (w', Inl error) \<Rightarrow>
       (w', if is_not_found_head_error error then Inr None
            else Inl (Aws (''head_object bucket='' @ up_bucket u @ '' key='' @ key @ '' error=\"'' @
                      compact_error_message (se_display error) @ ''\"''))))"

definition upload_json_if_pointer_current ::
    "'w s3_uploader \<Rightarrow> string \<Rightarrow> string \<Rightarrow> 'w \<Rightarrow> 'w \<times> nat list \<times> (unit, storage_error) result" where
  "upload_json_if_pointer_current u key bytes w = (case head_etag u key w of
     (w', Inl e) \<Rightarrow> (w', [], Inl e)
   | (w', Inr etag) \<Rightarrow> put_object_with_retry_guarded u key bytes ''application/json'' etag w')"

section \<open>Listings (list.rs)\<close>

definition summary_of :: "s3_object \<Rightarrow> s3_object_summary option" where
  "summary_of obj = map_option (\<lambda>key.
     \<lparr>os_key = key, os_last_modified_ms = so_last_modified_ms obj,
      os_size_bytes = (case so_size obj of Some n \<Rightarrow> nat n | None \<Rightarrow> 0)\<rparr>) (so_key obj)"

definition list_error :: "string \<Rightarrow> string \<Rightarrow> string \<Rightarrow> sdk_error \<Rightarrow> storage_error" where
  "list_error bkt pre extra e = Aws (''list_objects_v2 bucket='' @ bkt @ '' prefix='' @ pre @ extra @ '' error=\"'' @
     compact_error_message (se_display e) @ ''\"'')"

text \<open>Nothing in the loop bounds the number of pages, so not returning is the value \<open>None\<close>.\<close>

partial_function (option) for_each_page ::
    "'w s3_uploader \<Rightarrow> string \<Rightarrow> (s3_object_summary \<Rightarrow> 's \<Rightarrow> 's) \<Rightarrow> string option \<Rightarrow> 's \<Rightarrow> 'w \<Rightarrow>
     ('w \<times> 's \<times> (unit, storage_error) result) option" where
  "for_each_page u pre visit token s w = (case c_list (client u) pre token None w of
     (w', Inl e) \<Rightarrow> Some (w', s, Inl (list_error (up_bucket u) pre [] e))
   | (w', Inr page) \<Rightarrow>
       (let s' = fold visit (List.map_filter summary_of (pg_contents page)) s in
        if pg_is_truncated page \<noteq> Some True then Some (w', s', Inr ())
        else case pg_next_token page of
               None \<Rightarrow> Some (w', s', Inr ())
             | Some next_token \<Rightarrow> for_each_page u pre visit (Some next_token) s' w'))"

definition for_each_object_summary ::
    "'w s3_uploader \<Rightarrow> string \<Rightarrow> (s3_object_summary \<Rightarrow> 's \<Rightarrow> 's) \<Rightarrow> 's \<Rightarrow> 'w \<Rightarrow>
     ('w \<times> 's \<times> (unit, storage_error) result) option" where
  "for_each_object_summary u pre visit s w = for_each_page u pre visit None s w"

definition list_object_summaries ::
    "'w s3_uploader \<Rightarrow> string \<Rightarrow> 'w \<Rightarrow> ('w \<times> (s3_object_summary list, storage_error) result) option" where
  "list_object_summaries u pre w = map_option (\<lambda>(w', objects, r). (w', map_sum id (\<lambda>_. sort_key os_key objects) r))
     (for_each_object_summary u pre (\<lambda>object objects. objects @ [object]) [] w)"

definition list_keys :: "'w s3_uploader \<Rightarrow> string \<Rightarrow> 'w \<Rightarrow> ('w \<times> (string list, storage_error) result) option" where
  "list_keys u pre w = map_option (\<lambda>(w', r). (w', map_sum id (map os_key) r)) (list_object_summaries u pre w)"

definition list_keys_page ::
    "'w s3_uploader \<Rightarrow> string \<Rightarrow> int \<Rightarrow> 'w \<Rightarrow> 'w \<times> (string list, storage_error) result" where
  "list_keys_page u pre max_keys w = (case c_list (client u) pre None (Some max_keys) w of
     (w', Inl e) \<Rightarrow> (w', Inl (list_error (up_bucket u) pre ('' max_keys='' @ show_int max_keys) e))
   | (w', Inr page) \<Rightarrow> (w', Inr (sort (List.map_filter so_key (pg_contents page)))))"

section \<open>Downloads and deletions (download.rs)\<close>

definition get_error :: "string \<Rightarrow> string \<Rightarrow> string \<Rightarrow> string \<Rightarrow> storage_error" where
  "get_error operation bkt key message =
     Aws (operation @ '' bucket='' @ bkt @ '' key='' @ key @ '' error=\"'' @ compact_error_message message @ ''\"'')"

text \<open>\<open>mkdir\<close> and \<open>write\<close> are the outcomes of creating the parent directory and of writing the file.\<close>

definition download_file ::
    "'w s3_uploader \<Rightarrow> string \<Rightarrow> (unit, string) result \<Rightarrow> (string \<Rightarrow> (unit, string) result) \<Rightarrow> 'w \<Rightarrow>
     'w \<times> (unit, storage_error) result" where
  "download_file u key mkdir write w = (case c_get (client u) key w of
     (w', Inl e) \<Rightarrow> (w', Inl (get_error ''get_object'' (up_bucket u) key (se_display e)))
   | (w', Inr (Inl m)) \<Rightarrow> (w', Inl (get_error ''get_object_body'' (up_bucket u) key m))
   | (w', Inr (Inr bytes)) \<Rightarrow> (w', and_then (map_err Io mkdir) (\<lambda>_. map_err Io (write bytes))))"

definition download_json_optional ::
    "(string \<Rightarrow> ('t, storage_error) result) \<Rightarrow> 'w s3_uploader \<Rightarrow> string \<Rightarrow> 'w \<Rightarrow> 'w \<times> ('t option, storage_error) result" where
  "download_json_optional from_slice u key w = (case c_get (client u) key w of
     (w', Inl e) \<Rightarrow> (w', if is_not_found_get_error e then Inr None
                          else Inl (get_error ''get_object'' (up_bucket u) key (se_display e)))
   | (w', Inr (Inl m)) \<Rightarrow> (w', Inl (get_error ''get_object_body'' (up_bucket u) key m))
   | (w', Inr (Inr bytes)) \<Rightarrow> (w', and_then (from_slice bytes) (\<lambda>v. Inr (Some v))))"

definition delete_object :: "'w s3_uploader \<Rightarrow> string \<Rightarrow> 'w \<Rightarrow> 'w \<times> (unit, storage_error) result" where
  "delete_object u key w = (case c_delete (client u) key w of
     (w', r) \<Rightarrow> (w', map_err (\<lambda>e. get_error ''delete_object'' (up_bucket u) key (se_display e)) r))"

section \<open>The requests of one upload\<close>

fun put_world :: "'w s3_client \<Rightarrow> put_request \<Rightarrow> nat \<Rightarrow> 'w \<Rightarrow> 'w" where
  "put_world c req 0 w = w"
| "put_world c req (Suc n) w = put_world c req n (fst (c_put c req w))"

definition put_answer :: "'w s3_client \<Rightarrow> put_request \<Rightarrow> 'w \<Rightarrow> nat \<Rightarrow> (unit, sdk_error) result" where
  "put_answer c req w n = snd (c_put c req (put_world c req n w))"

definition retryable_answer :: "string \<Rightarrow> string \<Rightarrow> (unit, sdk_error) result \<Rightarrow> bool" where
  "retryable_answer bkt key a = (case a of Inl e \<Rightarrow> pf_retryable (failure_from_sdk_error bkt key e) | Inr _ \<Rightarrow> False)"

definition final_answer ::
    "string \<Rightarrow> string \<Rightarrow> nat \<Rightarrow> (unit, sdk_error) result \<Rightarrow> (unit, storage_error) result \<Rightarrow> bool" where
  "final_answer bkt key attempt a r = (case a of
     Inr _ \<Rightarrow> r = Inr ()
   | Inl e \<Rightarrow> (attempt = MAX_PUT_OBJECT_ATTEMPTS \<or> \<not> retryable_answer bkt key a) \<and>
              r = Inl (Aws (failure_render (failure_from_sdk_error bkt key e) attempt)))"

lemma MAX_attempts_pos: "1 \<le> MAX_PUT_OBJECT_ATTEMPTS"
  by (simp add: MAX_PUT_OBJECT_ATTEMPTS_def)

lemma put_world_Suc: "put_world c req (Suc n) w = fst (c_put c req (put_world c req n w))"
  by (induction n arbitrary: w) simp_all

lemma put_answer_Suc: "put_answer c req w (Suc n) = put_answer c req (fst (c_put c req w)) n"
  by (simp add: put_answer_def)

lemma put_attempts_spec:
  assumes "k \<le> MAX_PUT_OBJECT_ATTEMPTS" "req = put_request_for (up_bucket u) key bytes ct etag"
    and "put_attempts u key bytes ct etag [k ..< Suc MAX_PUT_OBJECT_ATTEMPTS] w = (w', ds, r)"
  shows "\<exists>n. k + n \<le> MAX_PUT_OBJECT_ATTEMPTS \<and> w' = put_world (client u) req (Suc n) w \<and>
           list_all (\<lambda>i. retryable_answer (up_bucket u) key (put_answer (client u) req w i)) [0 ..< n] \<and>
           ds = map (\<lambda>i. retry_delay i key) [k ..< k + n] \<and>
           final_answer (up_bucket u) key (k + n) (put_answer (client u) req w n) r"
  using assms
proof (induction "MAX_PUT_OBJECT_ATTEMPTS - k" arbitrary: k w w' ds r)
  case 0
  then have k: "k = MAX_PUT_OBJECT_ATTEMPTS" by simp
  obtain w1 a where a: "c_put (client u) req w = (w1, a)" by fastforce
  show ?case
    using "0.prems"(2,3) a
    by (intro exI [of _ 0]) (auto simp: k put_answer_def final_answer_def Let_def split: sum.splits)
next
  case (Suc d)
  then have up: "[k ..< Suc MAX_PUT_OBJECT_ATTEMPTS] = k # [Suc k ..< Suc MAX_PUT_OBJECT_ATTEMPTS]"
    and k: "k < MAX_PUT_OBJECT_ATTEMPTS" by (simp_all add: upt_conv_Cons)
  obtain w1 a where a: "c_put (client u) req w = (w1, a)" by fastforce
  show ?case
  proof (cases "retryable_answer (up_bucket u) key a")
    case False
    with Suc.prems(2,3) a k up show ?thesis
      by (intro exI [of _ 0])
        (auto simp: put_answer_def retryable_answer_def final_answer_def Let_def split: sum.splits)
  next
    case True
    then obtain e where e: "a = Inl e" by (auto simp: retryable_answer_def split: sum.splits)
    obtain ds' where rest: "put_attempts u key bytes ct etag [Suc k ..< Suc MAX_PUT_OBJECT_ATTEMPTS] w1 = (w', ds', r)"
        and ds: "ds = retry_delay k key # ds'"
      using Suc.prems(2,3) True a k unfolding up e
      by (auto simp: retryable_answer_def Let_def split: prod.splits)
    have "d = MAX_PUT_OBJECT_ATTEMPTS - Suc k" "Suc k \<le> MAX_PUT_OBJECT_ATTEMPTS" using Suc.hyps(2) k by simp_all
    from Suc.hyps(1) [OF this Suc.prems(2) rest] obtain n where n: "Suc k + n \<le> MAX_PUT_OBJECT_ATTEMPTS"
      "w' = put_world (client u) req (Suc n) w1"
      "list_all (\<lambda>i. retryable_answer (up_bucket u) key (put_answer (client u) req w1 i)) [0 ..< n]"
      "ds' = map (\<lambda>i. retry_delay i key) [Suc k ..< Suc k + n]"
      "final_answer (up_bucket u) key (Suc k + n) (put_answer (client u) req w1 n) r" by blast
    have "list_all (\<lambda>i. retryable_answer (up_bucket u) key (put_answer (client u) req w i)) [0 ..< Suc n]"
      unfolding upt_0_Suc using n(3) True a
      by (simp add: list.pred_map comp_def put_answer_Suc) (simp add: put_answer_def)
    moreover have "ds = map (\<lambda>i. retry_delay i key) [k ..< k + Suc n]"
      using ds n(4) by (simp add: upt_conv_Cons del: upt_Suc)
    ultimately show ?thesis
      using n a by (intro exI [of _ "Suc n"]) (simp add: put_answer_Suc)
  qed
qed

lemma retry_delay_closed:
  assumes "1 \<le> i" "i \<le> MAX_PUT_OBJECT_ATTEMPTS"
  shows "retry_delay i key = 250 * 2 ^ (i - 1) + stable_jitter_ms key"
proof -
  have "i - 1 = 0 \<or> i - 1 = 1 \<or> i - 1 = 2 \<or> i - 1 = 3" using assms by (auto simp: MAX_PUT_OBJECT_ATTEMPTS_def)
  moreover have "stable_jitter_ms key < 100" by (simp add: stable_jitter_ms_def)
  ultimately show ?thesis
    by (auto simp: retry_delay_def u64_saturating_mul_def u64_saturating_add_def u64_saturating_pow2_def
        INITIAL_RETRY_DELAY_MS_def MAX_RETRY_DELAY_MS_def int_range_defs Let_def)
qed

text \<open>What a store with conditional writes promises: a request that carries a condition only succeeds in a
  state that satisfies it (\<open>etag_of\<close> is the entity tag of the object a key holds, if any).\<close>

definition conditional_store :: "'w s3_client \<Rightarrow> ('w \<Rightarrow> string \<Rightarrow> string option) \<Rightarrow> bool" where
  "conditional_store c etag_of \<longleftrightarrow> (\<forall>req w w'. c_put c req w = (w', Inr ()) \<longrightarrow>
     (\<forall>t. pr_if_match req = Some t \<longrightarrow> etag_of w (pr_key req) = Some t) \<and>
     (pr_if_none_match req = Some ''*'' \<longrightarrow> etag_of w (pr_key req) = None))"

text \<open>A listing that the store answers with the pages \<open>ps\<close>: every page but the last is marked truncated and
  names the token of the next one.\<close>

fun list_run :: "'w s3_client \<Rightarrow> string \<Rightarrow> string option \<Rightarrow> 'w \<Rightarrow> list_page list \<Rightarrow> 'w \<Rightarrow> bool" where
  "list_run c pre token w [] w' \<longleftrightarrow> False"
| "list_run c pre token w (p # ps) w' \<longleftrightarrow>
     (case c_list c pre token None w of
        (w1, Inl e) \<Rightarrow> False
      | (w1, Inr page) \<Rightarrow> page = p \<and>
          (if pg_is_truncated p = Some True \<and> pg_next_token p \<noteq> None
           then list_run c pre (pg_next_token p) w1 ps w'
           else ps = [] \<and> w1 = w'))"

lemma for_each_page_run:
  assumes "list_run (client u) pre token w ps w'"
  shows "for_each_page u pre visit token s w =
    Some (w', fold visit (concat (map (\<lambda>p. List.map_filter summary_of (pg_contents p)) ps)) s, Inr ())"
  using assms
proof (induction ps arbitrary: token s w)
  case (Cons p ps)
  then obtain w1 where "c_list (client u) pre token None w = (w1, Inr p)"
    by (auto split: prod.splits sum.splits)
  with Cons show ?case by (subst for_each_page.simps) (auto simp: Let_def split: option.splits if_splits)
qed simp

lemma fold_snoc: "fold (\<lambda>x xs. xs @ [x]) ys xs = xs @ ys"
  by (induction ys arbitrary: xs) simp_all

lemma map_filter_summary: "map os_key (List.map_filter summary_of xs) = List.map_filter so_key xs"
  by (induction xs) (auto simp: List.map_filter_def summary_of_def)

section \<open>Properties\<close>

text \<open>for every sequence of answers of the store, an upload sends the same request between one and four
  times; all answers but the last are retryable failures, it waits the prescribed delay after each of them, and
  the last answer decides: success, or the error of that attempt, which was the fourth or not retryable. The
  \<open>retry exhausted\<close> branch after the loop is never reached.\<close>

theorem put_retry_exact:
  "\<exists>n w' r. n < 4 \<and>
     put_object_with_retry_guarded u key bytes ct etag w = (w', map (\<lambda>i. retry_delay i key) [1 ..< Suc n], r) \<and>
     w' = put_world (client u) (put_request_for (up_bucket u) key bytes ct etag) (Suc n) w \<and>
     list_all (\<lambda>i. retryable_answer (up_bucket u) key
       (put_answer (client u) (put_request_for (up_bucket u) key bytes ct etag) w i)) [0 ..< n] \<and>
     final_answer (up_bucket u) key (Suc n)
       (put_answer (client u) (put_request_for (up_bucket u) key bytes ct etag) w n) r"
proof -
  obtain w' ds r where "put_attempts u key bytes ct etag [1 ..< Suc MAX_PUT_OBJECT_ATTEMPTS] w = (w', ds, r)"
    by (metis prod_cases3)
  moreover from put_attempts_spec [OF MAX_attempts_pos refl this, unfolded plus_1_eq_Suc MAX_PUT_OBJECT_ATTEMPTS_def]
  obtain n where "n < 4"
    "w' = put_world (client u) (put_request_for (up_bucket u) key bytes ct etag) (Suc n) w"
    "list_all (\<lambda>i. retryable_answer (up_bucket u) key
       (put_answer (client u) (put_request_for (up_bucket u) key bytes ct etag) w i)) [0 ..< n]"
    "ds = map (\<lambda>i. retry_delay i key) [1 ..< Suc n]"
    "final_answer (up_bucket u) key (Suc n)
       (put_answer (client u) (put_request_for (up_bucket u) key bytes ct etag) w n) r"
    by (metis Suc_le_eq)
  ultimately show ?thesis unfolding put_object_with_retry_guarded_def by blast
qed

text \<open>the waits of one upload are at most three, each with a jitter below 100 ms that depends on the key
  only, and together stay below 2.1 seconds.\<close>

theorem put_delay_bound:
  assumes "put_object_with_retry_guarded u key bytes ct etag w = (w', ds, r)"
  shows "length ds \<le> 3 \<and> ds = map (\<lambda>i. 250 * 2 ^ i + stable_jitter_ms key) [0 ..< length ds] \<and>
         stable_jitter_ms key < 100 \<and> sum_list ds \<le> 2047"
proof -
  from put_attempts_spec [OF MAX_attempts_pos refl assms [unfolded put_object_with_retry_guarded_def]]
  obtain n where n: "1 + n \<le> MAX_PUT_OBJECT_ATTEMPTS" "ds = map (\<lambda>i. retry_delay i key) [1 ..< 1 + n]" by blast
  have ds: "ds = map (\<lambda>i. 250 * 2 ^ i + stable_jitter_ms key) [0 ..< n]"
    using n by (simp only: plus_1_eq_Suc upt_1_Suc) (simp add: retry_delay_closed)
  have j: "stable_jitter_ms key < 100" by (simp add: stable_jitter_ms_def)
  have "n = 0 \<or> n = 1 \<or> n = 2 \<or> n = 3" using n(1) by (auto simp: MAX_PUT_OBJECT_ATTEMPTS_def)
  then have "sum_list ds \<le> 2047" using j unfolding ds by (elim disjE) (simp_all add: upt_rec)
  with ds j n(1) show ?thesis by (simp add: MAX_PUT_OBJECT_ATTEMPTS_def)
qed

text \<open>C26: an index pointer is never overwritten blindly. When the guarded upload of a key under
  \<open>l1\_index/\<close> succeeds, the object it replaced still was the version the upload had read before (or still was
  absent), whatever other writers did between the read and any of the attempts.\<close>

theorem pointer_update_no_lost_write:
  assumes "conditional_store (client u) etag_of" "starts_with ''l1_index/'' key"
    and "upload_json_if_pointer_current u key bytes w = (w', ds, Inr ())"
  shows "\<exists>w1 seen wc. head_etag u key w = (w1, Inr seen) \<and> etag_of wc key = seen \<and>
    c_put (client u) (put_request_for (up_bucket u) key bytes ''application/json'' seen) wc = (w', Inr ())"
proof -
  from assms(3) obtain w1 seen where h: "head_etag u key w = (w1, Inr seen)"
    and p: "put_attempts u key bytes ''application/json'' seen [1 ..< Suc MAX_PUT_OBJECT_ATTEMPTS] w1 = (w', ds, Inr ())"
    by (auto simp: upload_json_if_pointer_current_def put_object_with_retry_guarded_def split: prod.splits sum.splits)
  let ?req = "put_request_for (up_bucket u) key bytes ''application/json'' seen"
  from put_attempts_spec [OF _ refl p] obtain n where
    w: "w' = fst (c_put (client u) ?req (put_world (client u) ?req n w1))" and
    f: "final_answer (up_bucket u) key (1 + n) (put_answer (client u) ?req w1 n) (Inr ())"
    by (auto simp: MAX_PUT_OBJECT_ATTEMPTS_def put_world_Suc simp del: put_world.simps(2) upt_Suc)
  then have c: "c_put (client u) ?req (put_world (client u) ?req n w1) = (w', Inr ())"
    by (auto simp: final_answer_def put_answer_def prod_eq_iff split: sum.splits)
  have "etag_of (put_world (client u) ?req n w1) key = seen"
    using assms(1,2) c unfolding conditional_store_def
    by (cases seen) (fastforce simp: put_request_for_def Let_def)+
  with h c show ?thesis by blast
qed

text \<open>a listing the store answers with finitely many pages ends and returns the keys of all its pages,
  each as often as listed, in byte order.\<close>

theorem list_keys_complete:
  assumes "list_run (client u) pre None w ps w'"
  shows "\<exists>ks. list_keys u pre w = Some (w', Inr ks) \<and> sorted ks \<and>
    mset ks = mset (concat (map (\<lambda>p. List.map_filter so_key (pg_contents p)) ps))"
proof -
  let ?objs = "concat (map (\<lambda>p. List.map_filter summary_of (pg_contents p)) ps)"
  have "list_keys u pre w = Some (w', Inr (map os_key (sort_key os_key ?objs)))"
    by (simp add: list_keys_def list_object_summaries_def for_each_object_summary_def
        for_each_page_run [OF assms] fold_snoc)
  moreover have "mset (map os_key (sort_key os_key ?objs)) = mset (map os_key ?objs)" by simp
  moreover have "map os_key ?objs = concat (map (\<lambda>p. List.map_filter so_key (pg_contents p)) ps)"
    by (simp add: map_concat map_filter_summary comp_def)
  ultimately show ?thesis using sorted_sort_key [of os_key ?objs] by auto
qed

section \<open>Witnesses\<close>

text \<open>A store with one bucket: an association of keys with entity tags; the first put of each run is
  throttled.\<close>

definition demo_slow_down :: sdk_error where
  "demo_slow_down = \<lparr>se_code = Some ''SlowDown'', se_message = None, se_service_display = [], se_display = ''service error''\<rparr>"

definition demo_precondition_failed :: sdk_error where
  "demo_precondition_failed = \<lparr>se_code = Some ''PreconditionFailed'', se_message = None, se_service_display = [],
     se_display = ''service error''\<rparr>"

definition demo_put :: "put_request \<Rightarrow> nat \<times> (string \<times> string) list \<Rightarrow> (nat \<times> (string \<times> string) list) \<times> (unit, sdk_error) result" where
  "demo_put req w = (case w of (n, m) \<Rightarrow>
     if n = 0 then ((Suc n, m), Inl demo_slow_down)
     else if (pr_if_match req \<noteq> None \<and> map_of m (pr_key req) \<noteq> pr_if_match req) \<or>
             (pr_if_none_match req \<noteq> None \<and> map_of m (pr_key req) \<noteq> None)
     then ((Suc n, m), Inl demo_precondition_failed)
     else ((Suc n, (pr_key req, pr_body req) # m), Inr ()))"

definition demo_page :: "string option \<Rightarrow> list_page" where
  "demo_page token = (if token = None
     then \<lparr>pg_contents = [\<lparr>so_key = Some ''b'', so_last_modified_ms = None, so_size = None\<rparr>],
            pg_is_truncated = Some True, pg_next_token = Some ''t''\<rparr>
     else \<lparr>pg_contents = [\<lparr>so_key = Some ''a'', so_last_modified_ms = Some 1, so_size = Some 5\<rparr>],
            pg_is_truncated = Some False, pg_next_token = None\<rparr>)"

definition demo_uploader :: "(nat \<times> (string \<times> string) list) s3_uploader" where
  "demo_uploader = \<lparr>client =
     \<lparr>c_put = demo_put, c_head = (\<lambda>k w. (w, Inr (map_of (snd w) k))), c_get = (\<lambda>k w. (w, Inr (Inl []))),
      c_list = (\<lambda>_ token _ w. (w, Inr (demo_page token))), c_delete = (\<lambda>_ w. (w, Inr ()))\<rparr>, up_bucket = ''b''\<rparr>"

lemmas demo_s3_defs = put_object_with_retry_guarded_def MAX_PUT_OBJECT_ATTEMPTS_def demo_uploader_def demo_put_def
  demo_slow_down_def put_request_for_def failure_from_sdk_error_def is_retryable_put_object_code_def filter_opt_def

theorem put_delay_bound_witness:
  "\<exists>w'. put_object_with_retry_guarded demo_uploader ''k'' ''x'' ''text/plain'' None (0, []) = (w', [retry_delay 1 ''k''], Inr ()) \<and>
     sum_list [retry_delay 1 ''k''] \<le> 2047"
proof -
  have r: "put_object_with_retry_guarded demo_uploader ''k'' ''x'' ''text/plain'' None (0, []) =
    ((2, [(''k'', ''x'')]), [retry_delay 1 ''k''], Inr ())" by (simp add: demo_s3_defs upt_rec)
  show ?thesis using r conjunct2 [OF conjunct2 [OF conjunct2 [OF put_delay_bound [OF r]]]] by blast
qed

lemma demo_conditional: "conditional_store (client demo_uploader) (\<lambda>w. map_of (snd w))"
  by (auto simp: conditional_store_def demo_uploader_def demo_put_def split: if_splits prod.splits)

theorem pointer_update_no_lost_write_witness:
  "\<exists>w' ds. upload_json_if_pointer_current demo_uploader ''l1_index/p'' ''v2'' (0, [(''l1_index/p'', ''v1'')]) = (w', ds, Inr ()) \<and>
     (\<exists>wc. map_of (snd wc) ''l1_index/p'' = Some ''v1'' \<and>
       c_put (client demo_uploader) (put_request_for ''b'' ''l1_index/p'' ''v2'' ''application/json'' (Some ''v1'')) wc = (w', Inr ()))"
proof -
  have h: "head_etag demo_uploader ''l1_index/p'' (0, [(''l1_index/p'', ''v1'')]) = ((0, [(''l1_index/p'', ''v1'')]), Inr (Some ''v1''))"
    by (simp add: head_etag_def demo_uploader_def)
  have "snd (snd (upload_json_if_pointer_current demo_uploader ''l1_index/p'' ''v2'' (0, [(''l1_index/p'', ''v1'')]))) = Inr ()"
    by (simp add: upload_json_if_pointer_current_def h) (simp add: demo_s3_defs upt_rec)
  then obtain w' ds where r: "upload_json_if_pointer_current demo_uploader ''l1_index/p'' ''v2'' (0, [(''l1_index/p'', ''v1'')]) = (w', ds, Inr ())"
    by (metis prod.collapse)
  have "starts_with ''l1_index/'' ''l1_index/p''" by code_simp
  from pointer_update_no_lost_write [OF demo_conditional this r] h r show ?thesis
    by (auto simp: demo_uploader_def)
qed

theorem list_keys_complete_witness:
  "\<exists>ks. list_keys demo_uploader ''p'' (0, []) = Some ((0, []), Inr ks) \<and> sorted ks \<and> mset ks = {#''b'', ''a''#}"
proof -
  have "list_run (client demo_uploader) ''p'' None (0, []) [demo_page None, demo_page (Some ''t'')] (0, [])"
    by (simp add: demo_uploader_def demo_page_def)
  from list_keys_complete [OF this] show ?thesis by (simp add: demo_page_def List.map_filter_def)
qed

end
