(* ===== verification/Retention.thy ===== *)
theory Retention
  imports S3_Client
begin

text \<open>
  The bucket retention pass (\<open>src/storage/retention\<close>): configurations of the two layers, the decision for
  one listed object, the bounded delete plan built while listing, and the deletions. The lemmas show that the
  plan equals a declarative description (the first expired, unprotected objects in listing order), that nothing
  younger than the retention period is ever deleted, and that the statistics add up.
\<close>

section \<open>Configuration (retention/config.rs)\<close>

record s3_retention_config =
  rc_bucket :: string
  rc_region :: string
  rc_profile :: "string option"
  rc_prefixes :: "string list"
  rc_protected_prefixes :: "string list"
  rc_retention_secs :: int
  rc_max_deletes_per_run :: nat

record s3_retention_stats =
  rs_scanned_object_count :: nat
  rs_missing_last_modified_count :: nat
  rs_protected_object_count :: nat
  rs_expired_object_count :: nat
  rs_deleted_object_count :: nat
  rs_failed_delete_count :: nat
  rs_deleted_bytes :: nat
  rs_max_deleted_age_secs :: int
  rs_stopped_at_delete_limit :: bool

definition retention_stats_default :: s3_retention_stats where
  "retention_stats_default = \<lparr>rs_scanned_object_count = 0, rs_missing_last_modified_count = 0,
     rs_protected_object_count = 0, rs_expired_object_count = 0, rs_deleted_object_count = 0,
     rs_failed_delete_count = 0, rs_deleted_bytes = 0, rs_max_deleted_age_secs = 0,
     rs_stopped_at_delete_limit = False\<rparr>"

definition default_l0_retention_prefixes :: "string list" where
  "default_l0_retention_prefixes = [''raw_market_event/'', ''source_health/'', ''symbol_health/'', ''gap_alert/'', ''runs/'']"

definition default_l1_retention_prefixes :: "string list" where
  "default_l1_retention_prefixes =
     [''normalized_market_slice/'', ''normalization_report/'', ''market_data_quality_summary/'',
      ''market_feature_delta/'', ''market_feature_delta_summary/'', ''market_regime_context/'',
      ''symbol_universe_snapshot/'', ''runs/'', ''l1_index/'']"

definition l0_s3_retention_config :: "string \<Rightarrow> string \<Rightarrow> string option \<Rightarrow> int \<Rightarrow> nat \<Rightarrow> s3_retention_config" where
  "l0_s3_retention_config bkt reg prof retention_days max_deletes_per_run =
     \<lparr>rc_bucket = bkt, rc_region = reg, rc_profile = prof, rc_prefixes = default_l0_retention_prefixes,
      rc_protected_prefixes = [], rc_retention_secs = i64_saturating_mul retention_days 86400,
      rc_max_deletes_per_run = max_deletes_per_run\<rparr>"

definition l1_s3_retention_config :: "string \<Rightarrow> string \<Rightarrow> string option \<Rightarrow> int \<Rightarrow> nat \<Rightarrow> s3_retention_config" where
  "l1_s3_retention_config bkt reg prof retention_days max_deletes_per_run =
     \<lparr>rc_bucket = bkt, rc_region = reg, rc_profile = prof, rc_prefixes = default_l1_retention_prefixes,
      rc_protected_prefixes = [], rc_retention_secs = i64_saturating_mul retention_days 86400,
      rc_max_deletes_per_run = max_deletes_per_run\<rparr>"

definition retention_validate_config :: "s3_retention_config \<Rightarrow> (unit, storage_error) result" where
  "retention_validate_config c =
     and_then (guard_err (trim (rc_bucket c) = []) (InvalidConfig ''s3 retention bucket is required'')) (\<lambda>_.
     and_then (guard_err (rc_prefixes c = []) (InvalidConfig ''s3 retention prefixes are required'')) (\<lambda>_.
     and_then (guard_err (rc_retention_secs c \<le> 0) (InvalidConfig ''s3 retention seconds must be positive'')) (\<lambda>_.
     guard_err (rc_max_deletes_per_run c = 0) (InvalidConfig ''s3 retention max deletes per run must be positive''))))"

section \<open>The plan (retention/planner.rs)\<close>

datatype retention_decision_t = Keep | MissingLastModified | Protected | Delete int

record retention_delete_candidate =
  dc_key :: string
  dc_size_bytes :: nat
  dc_age_secs :: int

definition is_protected_key :: "string \<Rightarrow> string list \<Rightarrow> bool" where
  "is_protected_key key protected_prefixes \<longleftrightarrow> list_ex (\<lambda>pre. pre \<noteq> [] \<and> starts_with pre key) protected_prefixes"

definition retention_decision :: "s3_retention_config \<Rightarrow> int \<Rightarrow> s3_object_summary \<Rightarrow> retention_decision_t" where
  "retention_decision c now_ms obj =
     (if is_protected_key (os_key obj) (rc_protected_prefixes c) then Protected
      else case os_last_modified_ms obj of
        None \<Rightarrow> MissingLastModified
      | Some last_modified_ms \<Rightarrow>
          (let age_ms = i64_saturating_sub now_ms last_modified_ms;
               retention_ms = i64_saturating_mul (rc_retention_secs c) 1000
           in if age_ms < retention_ms then Keep else Delete (age_ms sdiv 1000)))"

type_synonym retention_acc = "s3_retention_stats \<times> retention_delete_candidate list"

definition observe_retention_object ::
    "s3_retention_config \<Rightarrow> int \<Rightarrow> s3_object_summary \<Rightarrow> retention_acc \<Rightarrow> retention_acc" where
  "observe_retention_object c now_ms obj acc = (case acc of (stats0, delete_candidates) \<Rightarrow>
     (let stats = stats0\<lparr>rs_scanned_object_count := rs_scanned_object_count stats0 + 1\<rparr>
      in case retention_decision c now_ms obj of
           Keep \<Rightarrow> (stats, delete_candidates)
         | MissingLastModified \<Rightarrow>
             (stats\<lparr>rs_missing_last_modified_count := rs_missing_last_modified_count stats + 1\<rparr>, delete_candidates)
         | Protected \<Rightarrow> (stats\<lparr>rs_protected_object_count := rs_protected_object_count stats + 1\<rparr>, delete_candidates)
         | Delete age_secs \<Rightarrow>
             (let stats = stats\<lparr>rs_expired_object_count := rs_expired_object_count stats + 1\<rparr>
              in if rc_max_deletes_per_run c \<le> length delete_candidates
                 then (stats\<lparr>rs_stopped_at_delete_limit := True\<rparr>, delete_candidates)
                 else (stats, delete_candidates @
                        [\<lparr>dc_key = os_key obj, dc_size_bytes = os_size_bytes obj, dc_age_secs = age_secs\<rparr>]))))"

section \<open>The run (retention/runner.rs)\<close>

fun scan_prefixes ::
    "'w s3_uploader \<Rightarrow> s3_retention_config \<Rightarrow> int \<Rightarrow> string list \<Rightarrow> retention_acc \<Rightarrow> 'w \<Rightarrow>
     ('w \<times> retention_acc \<times> (unit, storage_error) result) option" where
  "scan_prefixes u c now_ms [] acc w = Some (w, acc, Inr ())"
| "scan_prefixes u c now_ms (pre # pres) acc w =
     (case for_each_object_summary u pre (observe_retention_object c now_ms) acc w of
        None \<Rightarrow> None
      | Some (w', acc', Inl e) \<Rightarrow> Some (w', acc', Inl e)
      | Some (w', acc', Inr _) \<Rightarrow> scan_prefixes u c now_ms pres acc' w')"

fun delete_candidates_loop ::
    "'w s3_uploader \<Rightarrow> retention_delete_candidate list \<Rightarrow> s3_retention_stats \<Rightarrow> 'w \<Rightarrow> 'w \<times> s3_retention_stats" where
  "delete_candidates_loop u [] stats w = (w, stats)"
| "delete_candidates_loop u (candidate # rest) stats w =
     (case delete_object u (dc_key candidate) w of
        (w', Inr _) \<Rightarrow> delete_candidates_loop u rest
          (stats\<lparr>rs_deleted_object_count := rs_deleted_object_count stats + 1,
                 rs_deleted_bytes := u64_saturating_add (rs_deleted_bytes stats) (dc_size_bytes candidate),
                 rs_max_deleted_age_secs := max (rs_max_deleted_age_secs stats) (dc_age_secs candidate)\<rparr>) w'
      | (w', Inl _) \<Rightarrow> delete_candidates_loop u rest
          (stats\<lparr>rs_failed_delete_count := rs_failed_delete_count stats + 1\<rparr>) w')"

definition run_s3_retention_once_with_uploader ::
    "s3_retention_config \<Rightarrow> int \<Rightarrow> 'w s3_uploader \<Rightarrow> 'w \<Rightarrow> ('w \<times> (s3_retention_stats, storage_error) result) option" where
  "run_s3_retention_once_with_uploader c now_ms u w =
     (case scan_prefixes u c now_ms (rc_prefixes c) (retention_stats_default, []) w of
        None \<Rightarrow> None
      | Some (w', _, Inl e) \<Rightarrow> Some (w', Inl e)
      | Some (w', (stats, delete_candidates), Inr _) \<Rightarrow>
          (case delete_candidates_loop u delete_candidates stats w' of (w'', stats') \<Rightarrow> Some (w'', Inr stats')))"

definition run_s3_retention_once ::
    "(string \<Rightarrow> string \<Rightarrow> string option \<Rightarrow> 'w s3_uploader) \<Rightarrow> s3_retention_config \<Rightarrow> int \<Rightarrow> 'w \<Rightarrow>
     ('w \<times> (s3_retention_stats, storage_error) result) option" where
  "run_s3_retention_once new_uploader c now_ms w =
     (case retention_validate_config c of
        Inl e \<Rightarrow> Some (w, Inl e)
      | Inr _ \<Rightarrow> run_s3_retention_once_with_uploader c now_ms
                  (new_uploader (rc_bucket c) (rc_region c) (rc_profile c)) w)"

section \<open>The plan as a declarative description\<close>

definition expired :: "s3_retention_config \<Rightarrow> int \<Rightarrow> s3_object_summary \<Rightarrow> retention_delete_candidate option" where
  "expired c now_ms obj = (case retention_decision c now_ms obj of
     Delete age \<Rightarrow> Some \<lparr>dc_key = os_key obj, dc_size_bytes = os_size_bytes obj, dc_age_secs = age\<rparr> | _ \<Rightarrow> None)"

definition count_decision :: "s3_retention_config \<Rightarrow> int \<Rightarrow> retention_decision_t \<Rightarrow> s3_object_summary list \<Rightarrow> nat" where
  "count_decision c now_ms d objs = length (filter (\<lambda>obj. retention_decision c now_ms obj = d) objs)"

definition plan_spec :: "s3_retention_config \<Rightarrow> int \<Rightarrow> s3_object_summary list \<Rightarrow> retention_acc" where
  "plan_spec c now_ms objs =
     (let dead = List.map_filter (expired c now_ms) objs
      in (retention_stats_default
            \<lparr>rs_scanned_object_count := length objs,
             rs_missing_last_modified_count := count_decision c now_ms MissingLastModified objs,
             rs_protected_object_count := count_decision c now_ms Protected objs,
             rs_expired_object_count := length dead,
             rs_stopped_at_delete_limit := rc_max_deletes_per_run c < length dead\<rparr>,
          take (rc_max_deletes_per_run c) dead))"

lemma map_filter_snoc:
  "List.map_filter f (xs @ [x]) = List.map_filter f xs @ (case f x of None \<Rightarrow> [] | Some y \<Rightarrow> [y])"
  by (simp add: List.map_filter_def split: option.splits)

lemma observe_plan_spec:
  "observe_retention_object c now_ms obj (plan_spec c now_ms objs) = plan_spec c now_ms (objs @ [obj])"
  by (cases "retention_decision c now_ms obj")
    (simp_all add: observe_retention_object_def plan_spec_def Let_def map_filter_snoc expired_def count_decision_def)

lemma fold_observe: "fold (observe_retention_object c now_ms) objs (plan_spec c now_ms objs0) = plan_spec c now_ms (objs0 @ objs)"
  by (induction objs arbitrary: objs0) (simp_all add: observe_plan_spec)

lemma plan_spec_Nil: "plan_spec c now_ms [] = (retention_stats_default, [])"
  by (simp add: plan_spec_def retention_stats_default_def List.map_filter_def count_decision_def)

text \<open>The listing of several prefixes, one after the other.\<close>

fun list_runs :: "'w s3_uploader \<Rightarrow> string list \<Rightarrow> 'w \<Rightarrow> list_page list list \<Rightarrow> 'w \<Rightarrow> bool" where
  "list_runs u [] w pss w' \<longleftrightarrow> pss = [] \<and> w' = w"
| "list_runs u (pre # pres) w [] w' \<longleftrightarrow> False"
| "list_runs u (pre # pres) w (ps # pss) w' \<longleftrightarrow> (\<exists>w1. list_run (client u) pre None w ps w1 \<and> list_runs u pres w1 pss w')"

definition listed :: "list_page list list \<Rightarrow> s3_object_summary list" where
  "listed pss = concat (map (\<lambda>p. List.map_filter summary_of (pg_contents p)) (concat pss))"

lemma scan_prefixes_run:
  assumes "list_runs u pres w pss w'"
  shows "scan_prefixes u c now_ms pres (plan_spec c now_ms objs) w = Some (w', plan_spec c now_ms (objs @ listed pss), Inr ())"
  using assms
proof (induction u pres w pss w' arbitrary: objs rule: list_runs.induct)
  case (3 u pre pres w ps pss w')
  then obtain w1 where "list_run (client u) pre None w ps w1" "list_runs u pres w1 pss w'" by auto
  with 3 show ?case
    by (simp add: for_each_object_summary_def for_each_page_run fold_observe listed_def)
qed (simp_all add: listed_def)

fun delete_world :: "'w s3_uploader \<Rightarrow> string list \<Rightarrow> 'w \<Rightarrow> 'w" where
  "delete_world u [] w = w"
| "delete_world u (k # ks) w = delete_world u ks (fst (c_delete (client u) k w))"

lemma delete_loop_spec:
  assumes "delete_candidates_loop u cands stats w = (w', stats')"
  shows "w' = delete_world u (map dc_key cands) w" and
    "rs_deleted_object_count stats' + rs_failed_delete_count stats' =
       rs_deleted_object_count stats + rs_failed_delete_count stats + length cands" and
    "rs_scanned_object_count stats' = rs_scanned_object_count stats \<and>
     rs_missing_last_modified_count stats' = rs_missing_last_modified_count stats \<and>
     rs_protected_object_count stats' = rs_protected_object_count stats \<and>
     rs_expired_object_count stats' = rs_expired_object_count stats \<and>
     rs_stopped_at_delete_limit stats' = rs_stopped_at_delete_limit stats"
  using assms
  by (induction u cands stats w rule: delete_candidates_loop.induct)
    (auto simp: delete_object_def map_err_def split: prod.splits sum.splits)

lemma sat_le_sat:
  assumes "sat_i64 y \<le> sat_i64 x"
  shows "min y i64_max \<le> x \<or> x < i64_min"
  using assms by (auto simp: sat_i64_def int_range_defs split: if_splits)

section \<open>Properties\<close>

text \<open>the plan built while listing is exactly the declarative one: the first
  \<open>max\_deletes\_per\_run\<close> expired objects in listing order, with counters that count every listed object
  once.\<close>

theorem retention_plan_exact:
  "fold (observe_retention_object c now_ms) objs (retention_stats_default, []) = plan_spec c now_ms objs"
  using fold_observe [of c now_ms objs "[]"] by (simp add: plan_spec_Nil)

text \<open>C27: only an unprotected object whose modification time is known and at least the retention period
  ago is ever planned for deletion (at the limits of the 64-bit clock, at least the largest representable
  period).\<close>

theorem retention_never_deletes_young:
  assumes "retention_decision c now_ms obj = Delete age" "0 < rc_retention_secs c"
  shows "\<exists>m. os_last_modified_ms obj = Some m \<and> \<not> is_protected_key (os_key obj) (rc_protected_prefixes c) \<and>
           min (rc_retention_secs c * 1000) i64_max \<le> now_ms - m \<and> 0 \<le> age"
proof -
  from assms(1) obtain m where m: "os_last_modified_ms obj = Some m"
      "\<not> is_protected_key (os_key obj) (rc_protected_prefixes c)"
      "sat_i64 (rc_retention_secs c * 1000) \<le> sat_i64 (now_ms - m)" "age = sat_i64 (now_ms - m) sdiv 1000"
    by (auto simp: retention_decision_def Let_def i64_saturating_sub_def i64_saturating_mul_def
        split: if_splits option.splits)
  have pos: "0 < sat_i64 (rc_retention_secs c * 1000)" using assms(2) by (simp add: sat_i64_def int_range_defs)
  with m(3) have "\<not> now_ms - m < i64_min" by (auto simp: sat_i64_def int_range_defs split: if_splits)
  with sat_le_sat [OF m(3)] have "min (rc_retention_secs c * 1000) i64_max \<le> now_ms - m" by blast
  moreover have "0 \<le> age" using m(3,4) pos by simp
  ultimately show ?thesis using m by blast
qed

text \<open>a pass over a store that answers its listings deletes exactly the planned keys, one request each
  and in order, never more than the limit; every planned key is counted as deleted or failed, and the pass
  returns.\<close>

theorem retention_run_exact:
  assumes "retention_validate_config c = Inr ()"
    and "list_runs (new_uploader (rc_bucket c) (rc_region c) (rc_profile c)) (rc_prefixes c) w pss w'"
  shows "\<exists>stats. run_s3_retention_once new_uploader c now_ms w =
      Some (delete_world (new_uploader (rc_bucket c) (rc_region c) (rc_profile c))
              (map dc_key (take (rc_max_deletes_per_run c) (List.map_filter (expired c now_ms) (listed pss)))) w', Inr stats) \<and>
    rs_scanned_object_count stats = length (listed pss) \<and>
    rs_expired_object_count stats = length (List.map_filter (expired c now_ms) (listed pss)) \<and>
    rs_deleted_object_count stats + rs_failed_delete_count stats =
      min (rs_expired_object_count stats) (rc_max_deletes_per_run c) \<and>
    rs_stopped_at_delete_limit stats = (rc_max_deletes_per_run c < rs_expired_object_count stats)"
proof -
  let ?u = "new_uploader (rc_bucket c) (rc_region c) (rc_profile c)"
  obtain stats cands where p: "plan_spec c now_ms (listed pss) = (stats, cands)" by fastforce
  obtain w'' stats' where d: "delete_candidates_loop ?u cands stats w' = (w'', stats')" by fastforce
  have "run_s3_retention_once new_uploader c now_ms w = Some (w'', Inr stats')"
    using assms(1) scan_prefixes_run [OF assms(2), of c now_ms "[]"] p d
    by (simp add: run_s3_retention_once_def run_s3_retention_once_with_uploader_def plan_spec_Nil)
  moreover have "cands = take (rc_max_deletes_per_run c) (List.map_filter (expired c now_ms) (listed pss))"
    "rs_scanned_object_count stats = length (listed pss)"
    "rs_expired_object_count stats = length (List.map_filter (expired c now_ms) (listed pss))"
    "rs_stopped_at_delete_limit stats = (rc_max_deletes_per_run c < rs_expired_object_count stats)"
    "rs_deleted_object_count stats = 0" "rs_failed_delete_count stats = 0"
    using p by (auto simp: plan_spec_def Let_def retention_stats_default_def)
  ultimately show ?thesis using delete_loop_spec [OF d] by (simp add: min.commute)
qed

section \<open>Witnesses\<close>

definition demo_retention :: s3_retention_config where
  "demo_retention = l0_s3_retention_config ''b'' ''r'' None 1 1"

definition demo_summary :: s3_object_summary where
  "demo_summary = \<lparr>os_key = ''raw_market_event/x'', os_last_modified_ms = Some 0, os_size_bytes = 7\<rparr>"

theorem retention_never_deletes_young_witness:
  "\<exists>m. os_last_modified_ms demo_summary = Some m \<and> min (rc_retention_secs demo_retention * 1000) i64_max \<le> 90000000 - m"
proof -
  have "retention_decision demo_retention 90000000 demo_summary = Delete 90000"
    by (simp add: retention_decision_def demo_retention_def demo_summary_def l0_s3_retention_config_def
        is_protected_key_def i64_saturating_sub_def i64_saturating_mul_def sat_i64_def i64_consts)
  moreover have "0 < rc_retention_secs demo_retention"
    by (simp add: demo_retention_def l0_s3_retention_config_def i64_saturating_mul_def sat_i64_def i64_consts)
  ultimately show ?thesis using retention_never_deletes_young [of demo_retention 90000000 demo_summary 90000] by blast
qed

definition demo_short :: s3_retention_config where
  "demo_short = demo_retention\<lparr>rc_prefixes := [''p'']\<rparr>"

theorem retention_run_exact_witness:
  "\<exists>stats w'. run_s3_retention_once (\<lambda>_ _ _. demo_uploader) demo_short 90000000 (0, []) = Some (w', Inr stats) \<and>
     rs_scanned_object_count stats = 2"
proof -
  have v: "retention_validate_config demo_short = Inr ()"
    by (simp add: demo_short_def demo_retention_def l0_s3_retention_config_def retention_validate_config_def
        trim_def is_ws_def i64_saturating_mul_def sat_i64_def i64_consts guard_err_def)
  have l: "list_runs ((\<lambda>_ _ _. demo_uploader) (rc_bucket demo_short) (rc_region demo_short) (rc_profile demo_short))
      (rc_prefixes demo_short) (0, []) [[demo_page None, demo_page (Some ''t'')]] (0, [])"
    by (simp add: demo_short_def demo_uploader_def demo_page_def)
  from retention_run_exact [OF v l, of 90000000] show ?thesis
    by (auto simp: listed_def demo_page_def List.map_filter_def summary_of_def)
qed

end
