(* ===== verification/File_Tree.thy ===== *)
theory File_Tree
  imports Storage_Error "HOL-Library.Multiset"
begin

text \<open>
  The part of the file system the spool maintenance uses: a tree of named entries with metadata, absolute
  paths as lists of components, lookup, unlink and rename, and the depth-first directory walk. A directory whose
  listing fails is a node of its own. The lemmas describe which paths an operation leaves alone.
\<close>

record fmeta =
  m_mtime_ms :: "nat option"
  m_len :: nat
  m_footer_ok :: bool

datatype fnode =
    FFile fmeta
  | FDir fmeta "(string \<times> fnode) list"
  | FUnreadable fmeta

type_synonym path = "string list"

definition node_meta :: "fnode \<Rightarrow> fmeta" where
  "node_meta n = (case n of FFile m \<Rightarrow> m | FDir m _ \<Rightarrow> m | FUnreadable m \<Rightarrow> m)"

definition is_dir :: "fnode \<Rightarrow> bool" where
  "is_dir n = (case n of FFile _ \<Rightarrow> False | _ \<Rightarrow> True)"

definition is_file :: "fnode \<Rightarrow> bool" where
  "is_file n = (case n of FFile _ \<Rightarrow> True | _ \<Rightarrow> False)"

fun node_at :: "path \<Rightarrow> fnode \<Rightarrow> fnode option" where
  "node_at [] n = Some n"
| "node_at (x # xs) (FDir m es) = (case map_of es x of None \<Rightarrow> None | Some n \<Rightarrow> node_at xs n)"
| "node_at (x # xs) n = None"

definition file_at :: "path \<Rightarrow> fnode \<Rightarrow> fmeta option" where
  "file_at p n = (case node_at p n of Some (FFile m) \<Rightarrow> Some m | _ \<Rightarrow> None)"

definition path_exists :: "path \<Rightarrow> fnode \<Rightarrow> bool" where
  "path_exists p n \<longleftrightarrow> node_at p n \<noteq> None"

text \<open>Unlinking: only plain files can be removed this way.\<close>

fun unlink :: "path \<Rightarrow> fnode \<Rightarrow> fnode" where
  "unlink [x] (FDir m es) = FDir m (filter (\<lambda>e. fst e = x \<longrightarrow> \<not> is_file (snd e)) es)"
| "unlink (x # y # ys) (FDir m es) = FDir m (map (\<lambda>(k, n). (k, if k = x then unlink (y # ys) n else n)) es)"
| "unlink p n = n"

text \<open>Writing a file into an existing directory; a file of that name is replaced.\<close>

fun put_file :: "path \<Rightarrow> fmeta \<Rightarrow> fnode \<Rightarrow> fnode" where
  "put_file [x] f (FDir m es) = FDir m ((x, FFile f) # filter (\<lambda>e. fst e \<noteq> x) es)"
| "put_file (x # y # ys) f (FDir m es) = FDir m (map (\<lambda>(k, n). (k, if k = x then put_file (y # ys) f n else n)) es)"
| "put_file p f n = n"

definition dir_meta :: fmeta where
  "dir_meta = \<lparr>m_mtime_ms = None, m_len = 0, m_footer_ok = False\<rparr>"

fun create_dir_all :: "path \<Rightarrow> fnode \<Rightarrow> fnode" where
  "create_dir_all [] n = n"
| "create_dir_all (x # xs) (FDir m es) =
     (case map_of es x of
        None \<Rightarrow> FDir m ((x, create_dir_all xs (FDir dir_meta [])) # es)
      | Some _ \<Rightarrow> FDir m (map (\<lambda>(k, n). (k, if k = x then create_dir_all xs n else n)) es))"
| "create_dir_all p n = n"

text \<open>\<open>Path::extension\<close> of a file name: the part after the last dot, unless that dot comes first.\<close>

definition extension :: "string \<Rightarrow> string option" where
  "extension name = (let r = rev name in
     if CHR ''.'' \<notin> set name then None
     else if tl (dropWhile (\<lambda>c. c \<noteq> CHR ''.'') r) = [] then None
     else Some (rev (takeWhile (\<lambda>c. c \<noteq> CHR ''.'') r)))"

definition has_parquet_extension :: "string \<Rightarrow> bool" where
  "has_parquet_extension name \<longleftrightarrow> extension name = Some ''parquet''"

text \<open>The walk visits the parquet files below a directory in listing order and stops at the first error.\<close>

fun walk_parquet :: "(path \<Rightarrow> 's \<Rightarrow> ('s, storage_error) result) \<Rightarrow> path \<Rightarrow> fnode \<Rightarrow> 's \<Rightarrow> ('s, storage_error) result"
and walk_entries ::
    "(path \<Rightarrow> 's \<Rightarrow> ('s, storage_error) result) \<Rightarrow> path \<Rightarrow> (string \<times> fnode) list \<Rightarrow> 's \<Rightarrow> ('s, storage_error) result" where
  "walk_parquet visit path (FDir m es) s = walk_entries visit path es s"
| "walk_parquet visit path (FUnreadable m) s = Inl (Io ''permission denied'')"
| "walk_parquet visit path (FFile m) s = Inl (Io ''not a directory'')"
| "walk_entries visit path [] s = Inr s"
| "walk_entries visit path ((name, n) # es) s =
     and_then (if is_dir n then walk_parquet visit (path @ [name]) n s
               else if is_file n \<and> has_parquet_extension name then visit (path @ [name]) s
               else Inr s)
       (walk_entries visit path es)"

section \<open>Lookup after an update\<close>

lemma map_of_map_value: "map_of (map (\<lambda>(k, n). (k, if k = x then f n else n)) es) y =
    (if y = x then map_option f (map_of es y) else map_of es y)"
  by (induction es) auto

text \<open>Directories with two entries of one name do not exist.\<close>

fun tree_ok :: "fnode \<Rightarrow> bool" where
  "tree_ok (FDir m es) \<longleftrightarrow> distinct (map fst es) \<and> list_all (\<lambda>e. tree_ok (snd e)) es"
| "tree_ok n = True"

lemma tree_ok_entry: "tree_ok (FDir m es) \<Longrightarrow> map_of es x = Some n \<Longrightarrow> tree_ok n"
  by (auto simp: list_all_iff dest!: map_of_SomeD)

lemma map_of_unlink:
  assumes "distinct (map fst es)"
  shows "map_of (filter (\<lambda>e. fst e = x \<longrightarrow> \<not> is_file (snd e)) es) y =
    (case map_of es y of None \<Rightarrow> None | Some n \<Rightarrow> if y = x \<and> is_file n then None else Some n)"
  using assms by (induction es) (auto simp: map_of_eq_None_iff image_iff split: option.splits)

lemma file_at_Cons: "file_at (x # xs) (FDir m es) = (case map_of es x of None \<Rightarrow> None | Some n \<Rightarrow> file_at xs n)"
  by (simp add: file_at_def split: option.splits)

lemma file_at_leaf [simp]: "file_at (x # xs) (FFile m) = None" "file_at (x # xs) (FUnreadable m) = None"
  by (simp_all add: file_at_def)

lemma file_at_leaf_path: "p \<noteq> [] \<Longrightarrow> file_at p (FFile m) = None" "p \<noteq> [] \<Longrightarrow> file_at p (FUnreadable m) = None"
  by (cases p; simp)+

lemma file_at_Nil: "file_at [] n = (case n of FFile m \<Rightarrow> Some m | _ \<Rightarrow> None)"
  by (simp add: file_at_def split: fnode.splits)

lemma file_at_is_file: "is_file n \<Longrightarrow> file_at (y # ys) n = None"
  by (cases n) (simp_all add: is_file_def)

lemma is_file_simps [simp]: "is_file (FFile m)" "\<not> is_file (FDir m es)" "\<not> is_file (FUnreadable m)"
  by (simp_all add: is_file_def)

lemma file_at_not_file: "\<not> is_file n \<Longrightarrow> file_at [] n = None"
  by (cases n) (simp_all add: is_file_def file_at_def)

lemma file_at_unlink:
  "tree_ok t \<Longrightarrow> p \<noteq> [] \<Longrightarrow> file_at q (unlink p t) = (if q = p then None else file_at q t)"
proof (induction p t arbitrary: q rule: unlink.induct)
  case (1 x m es)
  show ?case
  proof (cases q)
    case (Cons z zs)
    from 1 have d: "distinct (map fst es)" by simp
    show ?thesis
      by (cases "map_of es z"; cases zs)
        (simp_all add: Cons file_at_Cons map_of_unlink [OF d] file_at_not_file file_at_is_file)
  qed (simp add: file_at_Nil)
next
  case (2 x y ys m es)
  show ?case
  proof (cases q)
    case (Cons z zs)
    show ?thesis
    proof (cases "map_of es z")
      case (Some n)
      with 2 tree_ok_entry [OF "2.prems"(1) this] map_of_SomeD [OF this] Cons show ?thesis
        by (auto simp: file_at_Cons map_of_map_value)
    qed (auto simp: Cons file_at_Cons map_of_map_value)
  qed (simp add: file_at_Nil)
qed (auto simp: file_at_leaf_path)

lemma tree_ok_map:
  assumes "list_all (\<lambda>e. tree_ok (snd e)) es" "\<And>n. (x, n) \<in> set es \<Longrightarrow> tree_ok (f n)"
  shows "list_all (\<lambda>e. tree_ok (snd e)) (map (\<lambda>(k, n). (k, if k = x then f n else n)) es)"
  using assms by (force simp: list_all_iff)

lemma map_fst_map [simp]: "map (fst \<circ> (\<lambda>(k, n). (k, f k n))) es = map fst es"
  by (induction es) auto

lemma tree_ok_unlink: "tree_ok t \<Longrightarrow> tree_ok (unlink p t)"
proof (induction p t rule: unlink.induct)
  case (1 x m es)
  then show ?case by (auto simp: list_all_iff distinct_map_filter)
next
  case (2 x y ys m es)
  have "tree_ok (unlink (y # ys) n)" if "(x, n) \<in> set es" for n
    using 2 that by (auto simp: list_all_iff)
  with tree_ok_map [of es x "unlink (y # ys)"] "2.prems" show ?case by simp
qed auto

lemma unlink_file_at_None: "tree_ok t \<Longrightarrow> file_at p t = None \<Longrightarrow> p \<noteq> [] \<Longrightarrow> file_at q (unlink p t) = file_at q t"
  by (simp add: file_at_unlink)

section \<open>The files of a tree\<close>

fun tree_files :: "fnode \<Rightarrow> fmeta multiset" where
  "tree_files (FFile m) = {#m#}"
| "tree_files (FDir m es) = sum_list (map (\<lambda>e. tree_files (snd e)) es)"
| "tree_files (FUnreadable m) = {#}"

lemma files_split:
  assumes "distinct (map fst es)" "map_of es x = Some n"
  shows "\<exists>as bs. es = as @ (x, n) # bs \<and> x \<notin> fst ` set as \<and> x \<notin> fst ` set bs"
proof -
  from split_list [OF map_of_SomeD [OF assms(2)]] obtain as bs where "es = as @ (x, n) # bs" by blast
  with assms(1) show ?thesis by (intro exI [of _ as] exI [of _ bs]) auto
qed

lemma map_other: "x \<notin> fst ` set es \<Longrightarrow> map (\<lambda>(k, n). (k, if k = x then f n else n)) es = es"
  by (induction es) auto

lemma filter_other: "x \<notin> fst ` set es \<Longrightarrow> filter (\<lambda>e. fst e = x \<longrightarrow> P e) es = es"
  by (induction es) auto

lemma filter_other_name: "x \<notin> fst ` set es \<Longrightarrow> filter (\<lambda>e. fst e \<noteq> x) es = es"
  by (induction es) auto

lemma files_map_value:
  assumes "distinct (map fst es)" "map_of es x = Some n"
  shows "tree_files (FDir m (map (\<lambda>(k, n). (k, if k = x then f n else n)) es)) + tree_files n =
    tree_files (FDir m es) + tree_files (f n)"
  using files_split [OF assms] by (auto simp: map_other simp del: map_map)

lemma files_unlink:
  assumes "tree_ok t" "file_at p t = Some f" "p \<noteq> []"
  shows "tree_files (unlink p t) + {#f#} = tree_files t"
  using assms
proof (induction p t rule: unlink.induct)
  case (1 x m es)
  from "1.prems"(2) have "map_of es x = Some (FFile f)"
    by (simp add: file_at_Cons file_at_Nil split: option.splits fnode.splits)
  from files_split [OF _ this] "1.prems"(1) obtain as bs where "es = as @ (x, FFile f) # bs"
      "x \<notin> fst ` set as" "x \<notin> fst ` set bs" by auto
  then show ?case by (simp add: filter_other )
next
  case (2 x y ys m es)
  then obtain n where n: "map_of es x = Some n" "file_at (y # ys) n = Some f"
    by (auto simp: file_at_Cons split: option.splits)
  have "tree_files (unlink (y # ys) n) + {#f#} = tree_files n"
    using "2.IH" [OF _ _ _ tree_ok_entry [OF "2.prems"(1) n(1)] n(2)] map_of_SomeD [OF n(1)] by auto
  moreover have "tree_files (unlink (x # y # ys) (FDir m es)) + tree_files n =
      tree_files (FDir m es) + tree_files (unlink (y # ys) n)"
    using files_map_value [of es x n m "unlink (y # ys)"] n(1) "2.prems"(1) by (simp del: map_map)
  ultimately have "tree_files (unlink (x # y # ys) (FDir m es)) + {#f#} + tree_files (unlink (y # ys) n) =
      tree_files (FDir m es) + tree_files (unlink (y # ys) n)" by (metis add.commute add.left_commute)
  then show ?case by (rule add_right_imp_eq)
qed (auto simp: file_at_leaf_path)

lemma node_at_Cons_dir: "node_at (x # xs) t = Some n \<Longrightarrow> \<exists>m es n'. t = FDir m es \<and> map_of es x = Some n' \<and> node_at xs n' = Some n"
  by (cases t) (auto split: option.splits)

lemma put_file_spec:
  assumes "tree_ok t" "p \<noteq> []" "node_at (butlast p) t = Some (FDir m0 es0)" "node_at p t = None"
  shows "tree_files (put_file p f t) = tree_files t + {#f#} \<and> tree_ok (put_file p f t) \<and>
    (\<forall>q. file_at q (put_file p f t) = (if q = p then Some f else file_at q t))"
  using assms
proof (induction p f t rule: put_file.induct)
  case (1 x f m es)
  then have x: "map_of es x = None" by (auto split: option.splits)
  then have "x \<notin> fst ` set es" by (simp add: map_of_eq_None_iff)
  moreover have "file_at q (put_file [x] f (FDir m es)) = (if q = [x] then Some f else file_at q (FDir m es))" for q
    using x \<open>x \<notin> fst ` set es\<close>
    by (cases q; cases "tl q") (auto simp: filter_other_name file_at_Cons file_at_Nil split: option.splits)
  ultimately show ?case using 1 by (simp add: filter_other_name)
next
  case (2 x y ys f m es)
  from "2.prems"(3) obtain n where n: "map_of es x = Some n" "node_at (butlast (y # ys)) n = Some (FDir m0 es0)"
    by (auto split: option.splits)
  have d: "distinct (map fst es)" "tree_ok n" using "2.prems"(1) tree_ok_entry n(1) by auto
  have IH: "tree_files (put_file (y # ys) f n) = tree_files n + {#f#}" "tree_ok (put_file (y # ys) f n)"
      "\<And>q. file_at q (put_file (y # ys) f n) = (if q = y # ys then Some f else file_at q n)"
    using "2.IH" [OF _ _ _ d(2) _ n(2)] "2.prems"(4) n(1) map_of_SomeD [OF n(1)] by auto
  have one: "k = x \<Longrightarrow> (k, n') \<in> set es \<Longrightarrow> n' = n" for k n' using d(1) n(1) by (simp add: map_of_eq_Some_iff)
  have "tree_files (put_file (x # y # ys) f (FDir m es)) + tree_files n = tree_files (FDir m es) + {#f#} + tree_files n"
    using files_map_value [OF d(1) n(1), of m "put_file (y # ys) f"] IH(1) by (simp add: ac_simps)
  moreover have "tree_ok (put_file (x # y # ys) f (FDir m es))"
    using tree_ok_map [of es x "put_file (y # ys) f"] "2.prems"(1) IH(2) one by auto
  moreover have "file_at q (put_file (x # y # ys) f (FDir m es)) = (if q = x # y # ys then Some f else file_at q (FDir m es))" for q
    using n(1) IH(3) by (cases q) (auto simp: file_at_Nil file_at_Cons map_of_map_value split: option.splits)
  ultimately show ?case by simp
qed (auto simp: neq_Nil_conv dest: node_at_Cons_dir split: if_splits)

lemma create_dir_all_empty:
  "tree_files (create_dir_all p (FDir d [])) = {#}" "tree_ok (create_dir_all p (FDir d []))"
  "file_at q (create_dir_all p (FDir d [])) = None"
proof (induction p arbitrary: d q)
  case (Cons x xs)
  { case 1 show ?case using Cons(1) by simp }
  { case 2 show ?case using Cons(2) by simp }
  { case 3 show ?case using Cons(3) by (cases q) (simp_all add: file_at_Nil file_at_Cons) }
next
  case Nil
  { case 1 show ?case by simp }
  { case 2 show ?case by simp }
  { case 3 show ?case by (cases q) (simp_all add: file_at_Nil file_at_Cons) }
qed

lemma create_dir_all_spec:
  assumes "tree_ok t"
  shows "tree_files (create_dir_all p t) = tree_files t \<and> tree_ok (create_dir_all p t) \<and>
    (\<forall>q. file_at q (create_dir_all p t) = file_at q t)"
  using assms
proof (induction p t rule: create_dir_all.induct)
  case (2 x xs m es)
  show ?case
  proof (cases "map_of es x")
    case None
    then have "x \<notin> fst ` set es" by (simp add: map_of_eq_None_iff)
    moreover have "file_at q (create_dir_all (x # xs) (FDir m es)) = file_at q (FDir m es)" for q
      using None by (cases q) (auto simp: file_at_Nil file_at_Cons create_dir_all_empty split: option.splits)
    ultimately show ?thesis using 2 None by (simp add: create_dir_all_empty)
  next
    case (Some n)
    have d: "distinct (map fst es)" "tree_ok n" using "2.prems" tree_ok_entry Some by auto
    have IH: "tree_files (create_dir_all xs n) = tree_files n" "tree_ok (create_dir_all xs n)"
        "\<And>q. file_at q (create_dir_all xs n) = file_at q n"
      using "2.IH"(2) [OF Some _ _ _ d(2)] map_of_SomeD [OF Some] by auto
    have one: "tree_ok (create_dir_all xs n')" if "(x, n') \<in> set es" for n'
      using that d(1) Some IH(2) by (metis map_of_eq_Some_iff option.inject)
    have "file_at q (create_dir_all (x # xs) (FDir m es)) = file_at q (FDir m es)" for q
      using Some IH(3) by (cases q) (auto simp: file_at_Nil file_at_Cons map_of_map_value split: option.splits)
    moreover have "tree_ok (create_dir_all (x # xs) (FDir m es))"
      using tree_ok_map [of es x "create_dir_all xs", OF _ one] "2.prems" Some by simp
    moreover have "tree_files (create_dir_all (x # xs) (FDir m es)) + tree_files n = tree_files (FDir m es) + tree_files n"
      using files_map_value [OF d(1) Some, of m "create_dir_all xs"] Some IH(1) by (simp del: map_map)
    ultimately show ?thesis by (metis add_right_imp_eq)
  qed
qed auto

section \<open>What a walk visits\<close>

lemma node_at_append: "node_at (p @ q) t = Option.bind (node_at p t) (node_at q)"
  by (induction p t rule: node_at.induct) (auto split: option.splits)

lemma tree_ok_node_at: "tree_ok t \<Longrightarrow> node_at p t = Some n \<Longrightarrow> tree_ok n"
proof (induction p t rule: node_at.induct)
  case (2 x xs m es)
  then obtain n' where "map_of es x = Some n'" "node_at xs n' = Some n" by (auto split: option.splits)
  with 2 tree_ok_entry [OF "2.prems"(1) this(1)] show ?case by simp
qed auto

lemma node_at_entry:
  assumes "node_at p fs = Some (FDir m es)" "distinct (map fst es)" "(x, n) \<in> set es"
  shows "node_at (p @ [x]) fs = Some n"
  using assms by (simp add: node_at_append map_of_eq_Some_iff)

lemma walk_invariant:
  shows "walk_parquet visit path node s = Inr s' \<Longrightarrow>
      (\<And>p s s'. visit p s = Inr s' \<Longrightarrow> Q s \<Longrightarrow> file_at p fs \<noteq> None \<Longrightarrow> strict_prefix base p \<Longrightarrow>
        has_parquet_extension (last p) \<Longrightarrow> Q s') \<Longrightarrow>
      node_at path fs = Some node \<Longrightarrow> tree_ok node \<Longrightarrow> prefix base path \<Longrightarrow> Q s \<Longrightarrow> Q s'"
    and "walk_entries visit path es s = Inr s' \<Longrightarrow>
      (\<And>p s s'. visit p s = Inr s' \<Longrightarrow> Q s \<Longrightarrow> file_at p fs \<noteq> None \<Longrightarrow> strict_prefix base p \<Longrightarrow>
        has_parquet_extension (last p) \<Longrightarrow> Q s') \<Longrightarrow>
      (\<And>x n. (x, n) \<in> set es \<Longrightarrow> node_at (path @ [x]) fs = Some n \<and> tree_ok n) \<Longrightarrow>
      prefix base path \<Longrightarrow> Q s \<Longrightarrow> Q s'"
proof (induction visit path node s and visit path es s arbitrary: s' and s' rule: walk_parquet_walk_entries.induct)
  case (1 visit path m es s)
  have "node_at (path @ [x]) fs = Some n \<and> tree_ok n" if "(x, n) \<in> set es" for x n
    using node_at_entry [OF "1.prems"(3) _ that] "1.prems"(4) that by (auto simp: list_all_iff)
  from "1.IH" [OF _ "1.prems"(2) this "1.prems"(5,6)] "1.prems"(1) show ?case by simp
next
  case (5 visit path name n es s)
  from "5.prems"(1) obtain s1 where s1:
      "(if is_dir n then walk_parquet visit (path @ [name]) n s
        else if is_file n \<and> has_parquet_extension name then visit (path @ [name]) s else Inr s) = Inr s1"
      "walk_entries visit path es s1 = Inr s'" by auto
  have n: "node_at (path @ [name]) fs = Some n" "tree_ok n" using "5.prems"(3) by auto
  have pre: "strict_prefix base (path @ [name])" using "5.prems"(4) by (auto simp: strict_prefix_def prefix_def)
  have isf: "file_at (path @ [name]) fs \<noteq> None" if "is_file n"
    using that n(1) by (cases n) (simp_all add: is_file_def file_at_def)
  have "Q s1"
  proof (cases "is_dir n")
    case True
    with s1(1) "5.IH"(1) [OF True _ "5.prems"(2) n _ "5.prems"(5)] pre show ?thesis by (auto simp: strict_prefix_def)
  next
    case False
    show ?thesis
    proof (cases "is_file n \<and> has_parquet_extension name")
      case True
      with False s1(1) "5.prems"(2) [OF _ "5.prems"(5) isf pre] show ?thesis by simp
    qed (use False s1(1) "5.prems"(5) in \<open>simp split: if_splits\<close>)
  qed
  show ?case
  proof (rule "5.IH"(2) [OF s1(2) _ _ "5.prems"(4) \<open>Q s1\<close>])
    show "node_at (path @ [x]) fs = Some n' \<and> tree_ok n'" if "(x, n') \<in> set es" for x n'
      by (rule "5.prems"(3)) (simp add: that)
  qed (rule "5.prems"(2))
qed auto

section \<open>Renaming into a fresh place\<close>

lemma node_at_unlink:
  assumes "tree_ok t"
  shows "node_at p t = None \<Longrightarrow> node_at p (unlink q t) = None"
    and "node_at p t = Some (FDir m es) \<Longrightarrow> \<exists>es'. node_at p (unlink q t) = Some (FDir m es')"
  using assms
proof (induction q t arbitrary: p rule: unlink.induct)
  case (1 x m' es')
  { case 1 then show ?case by (cases p; cases "map_of es' (hd p)") (simp_all add: map_of_unlink) }
  { case 2 then show ?case
      by (cases p; cases "tl p"; cases "map_of es' (hd p)"; cases "the (map_of es' (hd p))")
        (simp_all add: map_of_unlink) }
next
  case (2 x y ys m' es')
  have IH: "node_at zs n = None \<Longrightarrow> node_at zs (unlink (y # ys) n) = None"
      "node_at zs n = Some (FDir m es) \<Longrightarrow> \<exists>es'. node_at zs (unlink (y # ys) n) = Some (FDir m es')"
    if "tree_ok (FDir m' es')" "map_of es' x = Some n" for n zs
    using "2.IH" [OF map_of_SomeD [OF that(2)] refl refl _ tree_ok_entry [OF that]] by blast+
  { case 1 then show ?case
      using IH(1) by (cases p; cases "map_of es' (hd p)") (auto simp: map_of_map_value simp del: map_of_eq_Some_iff) }
  { case 2 then show ?case
      using IH(2) by (cases p; cases "map_of es' (hd p)") (auto simp: map_of_map_value simp del: map_of_eq_Some_iff) }
qed auto

lemma node_at_create_empty: "p \<noteq> [] \<Longrightarrow> node_at p (create_dir_all (butlast p) (FDir d [])) = None"
  by (induction p arbitrary: d) (auto simp: neq_Nil_conv)

lemma node_at_create_None:
  assumes "p \<noteq> []" "node_at p t = None"
  shows "node_at p (create_dir_all (butlast p) t) = None"
  using assms
proof (induction p t rule: node_at.induct)
  case (2 x xs m es)
  show ?case
  proof (cases "map_of es x")
    case None
    then show ?thesis by (cases xs) (simp_all add: node_at_create_empty)
  next
    case (Some n)
    with 2 show ?thesis by (cases xs) (simp_all add: map_of_map_value)
  qed
qed auto

end
