(* ===== verification/Spool.thy ===== *)
theory Spool
  imports File_Tree
begin

text \<open>
  Maintenance of the local spool: the eviction of uploaded files when the disk fills up
  (\<open>src/storage/eviction\<close>), the quarantine of broken files left by a crash (\<open>src/storage/orphan\<close>) and the disk
  probe (\<open>src/storage/disk.rs\<close>). The lemmas show that eviction only removes sealed files that are old enough and
  outside the protected families, oldest first and no further than needed, and that the quarantine moves only
  unsealed, old and unreadable files and never loses one.
\<close>

section \<open>The disk probe (disk.rs)\<close>

record statvfs =
  f_blocks :: u64
  f_bfree :: u64
  f_frsize :: u64

text \<open>The products are \<open>u128\<close>; \<open>used * 100\<close> wraps at that width.\<close>

definition used_pct :: "statvfs \<Rightarrow> nat" where
  "used_pct st =
     (let total = unat (f_blocks st) * unat (f_frsize st);
          free = unat (f_bfree st) * unat (f_frsize st)
      in if total = 0 then 0
         else (let used = total - free in min (used * 100 mod 2 ^ 128 div total) 100))"

definition disk_used_pct :: "bool \<Rightarrow> (statvfs, string) result \<Rightarrow> (nat, string) result" where
  "disk_used_pct exists stat = (if \<not> exists then Inr 0 else and_then stat (\<lambda>st. Inr (used_pct st)))"

section \<open>Eviction (eviction.rs)\<close>

record evictable_file =
  ef_parquet_path :: path
  ef_sealed_path :: path
  ef_sealed_at_ms :: int
  ef_parquet_size :: nat

record eviction_config =
  ec_spool_root :: path
  ec_high_water_pct :: nat
  ec_emergency_pct :: nat
  ec_safety_floor_secs :: int

record eviction_stats =
  es_disk_used_pct_before :: nat
  es_disk_used_pct_after :: nat
  es_triggered :: bool
  es_emergency :: bool
  es_evicted_count :: nat
  es_evicted_bytes :: u64
  es_candidate_count :: nat

definition TARGET_OFFSET_PCT :: nat where "TARGET_OFFSET_PCT = 5"
definition PROTECTED_MARKERS :: "string list" where
  "PROTECTED_MARKERS = [''symbol_health/'', ''source_health/'', ''gap_alert/'']"

definition sealed_marker_path :: "path \<Rightarrow> path" where
  "sealed_marker_path p = butlast p @ [last p @ ''.sealed'']"

definition mtime_ms :: "fmeta \<Rightarrow> int" where
  "mtime_ms m = (case m_mtime_ms m of Some n \<Rightarrow> wrap_i64 (int n) | None \<Rightarrow> 0)"

definition collect_visit :: "fnode \<Rightarrow> path \<Rightarrow> evictable_file list \<Rightarrow> (evictable_file list, storage_error) result" where
  "collect_visit fs p files =
     (let sealed_path = sealed_marker_path p
      in case node_at sealed_path fs of
           None \<Rightarrow> Inr files
         | Some sealed_node \<Rightarrow>
             (case node_at p fs of
                None \<Rightarrow> Inl (Io ''not found'')
              | Some parquet_node \<Rightarrow>
                  Inr (files @ [\<lparr>ef_parquet_path = p, ef_sealed_path = sealed_path,
                     ef_sealed_at_ms = mtime_ms (node_meta sealed_node),
                     ef_parquet_size = m_len (node_meta parquet_node)\<rparr>])))"

definition collect_files_on_disk :: "path \<Rightarrow> fnode \<Rightarrow> (evictable_file list, storage_error) result" where
  "collect_files_on_disk rt fs = (case node_at rt fs of
     None \<Rightarrow> Inr []
   | Some node \<Rightarrow> walk_parquet (collect_visit fs) rt node [])"

definition safety_cutoff_ms :: "int \<Rightarrow> int \<Rightarrow> int" where
  "safety_cutoff_ms now_ms safety_floor_secs = i64_saturating_sub now_ms (i64_saturating_mul safety_floor_secs 1000)"

definition strip_prefix :: "path \<Rightarrow> path \<Rightarrow> path option" where
  "strip_prefix rt p = (if prefix rt p then Some (drop (length rt) p) else None)"

definition is_protected_path :: "path \<Rightarrow> path \<Rightarrow> bool" where
  "is_protected_path p rt = (case strip_prefix rt p of
     None \<Rightarrow> False
   | Some relative \<Rightarrow>
       (let normalized = map (\<lambda>c. if c = CHR 92 then CHR ''/'' else c) (join ''/'' relative)
        in list_ex (\<lambda>marker. contains_str marker normalized) PROTECTED_MARKERS))"

definition rank_evictable :: "evictable_file list \<Rightarrow> int \<Rightarrow> path \<Rightarrow> evictable_file list" where
  "rank_evictable files cutoff rt =
     sort_key ef_sealed_at_ms
       (filter (\<lambda>f. ef_sealed_at_ms f \<le> cutoff)
          (filter (\<lambda>f. \<not> is_protected_path (ef_parquet_path f) rt) files))"

text \<open>\<open>probe n fs\<close> is the answer of the \<open>n\<close>-th call of the probe; \<open>can_remove\<close> says which removals the
  operating system grants.\<close>

record disk_env =
  de_probe :: "nat \<Rightarrow> fnode \<Rightarrow> (nat, storage_error) result"
  de_can_remove :: "path \<Rightarrow> bool"

definition remove_file :: "disk_env \<Rightarrow> path \<Rightarrow> fnode \<Rightarrow> fnode \<times> bool" where
  "remove_file env p fs = (if file_at p fs \<noteq> None \<and> de_can_remove env p then (unlink p fs, True) else (fs, False))"

fun evict_loop ::
    "disk_env \<Rightarrow> nat \<Rightarrow> evictable_file list \<Rightarrow> nat \<Rightarrow> fnode \<Rightarrow> eviction_stats \<Rightarrow>
     fnode \<times> (nat \<times> eviction_stats, storage_error) result" where
  "evict_loop env target [] n fs stats = (fs, Inr (n, stats))"
| "evict_loop env target (candidate # rest) n fs stats =
     (case de_probe env n fs of
        Inl e \<Rightarrow> (fs, Inl e)
      | Inr current \<Rightarrow>
          if current < target then (fs, Inr (Suc n, stats))
          else (case remove_file env (ef_parquet_path candidate) fs of
                  (fs1, True) \<Rightarrow>
                    evict_loop env target rest (Suc n) (fst (remove_file env (ef_sealed_path candidate) fs1))
                      (stats\<lparr>es_evicted_count := es_evicted_count stats + 1,
                             es_evicted_bytes := es_evicted_bytes stats + of_nat (ef_parquet_size candidate)\<rparr>)
                | (fs1, False) \<Rightarrow> evict_loop env target rest (Suc n) fs1 stats))"

definition evict_once ::
    "disk_env \<Rightarrow> eviction_config \<Rightarrow> int \<Rightarrow> fnode \<Rightarrow> fnode \<times> (eviction_stats, storage_error) result" where
  "evict_once env c now_ms fs =
     (case de_probe env 0 fs of
        Inl e \<Rightarrow> (fs, Inl e)
      | Inr initial \<Rightarrow>
          (let stats = \<lparr>es_disk_used_pct_before = initial, es_disk_used_pct_after = initial, es_triggered = False,
                        es_emergency = False, es_evicted_count = 0, es_evicted_bytes = 0, es_candidate_count = 0\<rparr>
           in if initial < ec_high_water_pct c then (fs, Inr stats)
              else (case collect_files_on_disk (ec_spool_root c) fs of
                      Inl e \<Rightarrow> (fs, Inl e)
                    | Inr on_disk \<Rightarrow>
                        (let candidates = rank_evictable on_disk (safety_cutoff_ms now_ms (ec_safety_floor_secs c)) (ec_spool_root c);
                             stats = stats\<lparr>es_triggered := True, es_emergency := ec_emergency_pct c \<le> initial,
                                           es_candidate_count := length candidates\<rparr>;
                             target = ec_high_water_pct c - TARGET_OFFSET_PCT
                         in case evict_loop env target candidates 1 fs stats of
                              (fs', Inl e) \<Rightarrow> (fs', Inl e)
                            | (fs', Inr (n, stats')) \<Rightarrow>
                                (fs', and_then (de_probe env n fs') (\<lambda>after.
                                   Inr (stats'\<lparr>es_disk_used_pct_after := after\<rparr>)))))))"

section \<open>Quarantine of unsealed orphans (orphan.rs)\<close>

record unsealed_orphan_config =
  oc_spool_root :: path
  oc_safety_floor_secs :: int

record unsealed_orphan_stats =
  os_scanned_unsealed_count :: nat
  os_recent_unsealed_count :: nat
  os_valid_unsealed_count :: nat
  os_invalid_unsealed_count :: nat
  os_quarantined_count :: nat
  os_quarantined_bytes :: u64
  os_quarantine_root :: "path option"

text \<open>What the operating system answers besides the tree: whether a file can be opened, a directory created and
  a rename performed, and the clock in nanoseconds.\<close>

record orphan_env =
  oe_open_ok :: "path \<Rightarrow> bool"
  oe_mkdir_ok :: "path \<Rightarrow> bool"
  oe_rename_ok :: "path \<Rightarrow> path \<Rightarrow> bool"
  oe_nanos :: "fnode \<Rightarrow> nat"

definition quarantine_root :: "path \<Rightarrow> path" where
  "quarantine_root spool_root =
     (if spool_root = [] then spool_root @ [''orphaned-unsealed''] else butlast spool_root @ [''orphaned-unsealed''])"

definition with_suffix :: "path \<Rightarrow> nat \<Rightarrow> path" where
  "with_suffix p index = butlast p @ [last p @ ''.'' @ show_nat index]"

definition unique_path :: "orphan_env \<Rightarrow> fnode \<Rightarrow> path \<Rightarrow> path" where
  "unique_path env fs p =
     (if \<not> path_exists p fs then p
      else case List.find (\<lambda>index. \<not> path_exists (with_suffix p index) fs) [1 ..< 1000] of
        Some index \<Rightarrow> with_suffix p index
      | None \<Rightarrow> with_suffix p (oe_nanos env fs))"

definition quarantine_destination :: "orphan_env \<Rightarrow> fnode \<Rightarrow> path \<Rightarrow> path \<Rightarrow> path \<Rightarrow> (path, storage_error) result" where
  "quarantine_destination env fs spool_root qroot p =
     and_then (ok_or (InvalidConfig ''prefix not found'') (strip_prefix spool_root p)) (\<lambda>relative.
     Inr (unique_path env fs (qroot @ relative)))"

definition parquet_footer_is_valid :: "orphan_env \<Rightarrow> fnode \<Rightarrow> path \<Rightarrow> (bool, storage_error) result" where
  "parquet_footer_is_valid env fs p = (case file_at p fs of
     Some m \<Rightarrow> if oe_open_ok env p then Inr (m_footer_ok m) else Inl (Io ''open'')
   | None \<Rightarrow> Inl (Io ''open''))"

definition collect_parquet_files :: "path \<Rightarrow> fnode \<Rightarrow> path list \<Rightarrow> (path list, storage_error) result" where
  "collect_parquet_files p node files = walk_parquet (\<lambda>f fs. Inr (fs @ [f])) p node files"

definition parquet_files_under :: "path \<Rightarrow> fnode \<Rightarrow> (path list, storage_error) result" where
  "parquet_files_under p node = collect_parquet_files p node []"

definition rename_file :: "orphan_env \<Rightarrow> path \<Rightarrow> path \<Rightarrow> fnode \<Rightarrow> fnode \<times> (unit, storage_error) result" where
  "rename_file env src dst fs =
     (case (file_at src fs, node_at (butlast dst) fs) of
        (Some m, Some (FDir _ _)) \<Rightarrow>
          if oe_rename_ok env src dst \<and> \<not> (case node_at dst fs of Some n \<Rightarrow> is_dir n | None \<Rightarrow> False)
          then (put_file dst m (unlink src fs), Inr ())
          else (fs, Inl (Io ''rename''))
      | _ \<Rightarrow> (fs, Inl (Io ''rename'')))"

definition cleanup_step ::
    "orphan_env \<Rightarrow> path \<Rightarrow> int \<Rightarrow> path \<Rightarrow> fnode \<Rightarrow> unsealed_orphan_stats \<Rightarrow>
     fnode \<times> (unsealed_orphan_stats, storage_error) result" where
  "cleanup_step env spool_root cutoff p fs stats =
     (if path_exists (sealed_marker_path p) fs then (fs, Inr stats)
      else (let stats = stats\<lparr>os_scanned_unsealed_count := os_scanned_unsealed_count stats + 1\<rparr>
            in case node_at p fs of
                 None \<Rightarrow> (fs, Inl (Io ''metadata''))
               | Some node \<Rightarrow>
                   if cutoff < mtime_ms (node_meta node)
                   then (fs, Inr (stats\<lparr>os_recent_unsealed_count := os_recent_unsealed_count stats + 1\<rparr>))
                   else (case parquet_footer_is_valid env fs p of
                           Inl e \<Rightarrow> (fs, Inl e)
                         | Inr True \<Rightarrow> (fs, Inr (stats\<lparr>os_valid_unsealed_count := os_valid_unsealed_count stats + 1\<rparr>))
                         | Inr False \<Rightarrow>
                             (let stats = stats\<lparr>os_invalid_unsealed_count := os_invalid_unsealed_count stats + 1\<rparr>
                              in case quarantine_destination env fs spool_root (quarantine_root spool_root) p of
                                   Inl e \<Rightarrow> (fs, Inl e)
                                 | Inr destination \<Rightarrow>
                                     if \<not> oe_mkdir_ok env (butlast destination) then (fs, Inl (Io ''mkdir''))
                                     else (case rename_file env p destination (create_dir_all (butlast destination) fs) of
                                             (fs', Inl e) \<Rightarrow> (fs', Inl e)
                                           | (fs', Inr _) \<Rightarrow>
                                               (fs', Inr (stats\<lparr>os_quarantined_count := os_quarantined_count stats + 1,
                                                  os_quarantined_bytes := os_quarantined_bytes stats +
                                                    of_nat (m_len (node_meta node))\<rparr>)))))))"

fun cleanup_loop ::
    "orphan_env \<Rightarrow> path \<Rightarrow> int \<Rightarrow> path list \<Rightarrow> fnode \<Rightarrow> unsealed_orphan_stats \<Rightarrow>
     fnode \<times> (unsealed_orphan_stats, storage_error) result" where
  "cleanup_loop env spool_root cutoff [] fs stats = (fs, Inr stats)"
| "cleanup_loop env spool_root cutoff (p # ps) fs stats =
     (case cleanup_step env spool_root cutoff p fs stats of
        (fs', Inl e) \<Rightarrow> (fs', Inl e)
      | (fs', Inr stats') \<Rightarrow> cleanup_loop env spool_root cutoff ps fs' stats')"

definition orphan_stats_default :: unsealed_orphan_stats where
  "orphan_stats_default = \<lparr>os_scanned_unsealed_count = 0, os_recent_unsealed_count = 0, os_valid_unsealed_count = 0,
     os_invalid_unsealed_count = 0, os_quarantined_count = 0, os_quarantined_bytes = 0, os_quarantine_root = None\<rparr>"

definition cleanup_invalid_unsealed_once ::
    "orphan_env \<Rightarrow> unsealed_orphan_config \<Rightarrow> int \<Rightarrow> fnode \<Rightarrow> fnode \<times> (unsealed_orphan_stats, storage_error) result" where
  "cleanup_invalid_unsealed_once env c now_ms fs =
     (case node_at (oc_spool_root c) fs of
        None \<Rightarrow> (fs, Inr orphan_stats_default)
      | Some node \<Rightarrow>
          (let cutoff = i64_saturating_sub now_ms (i64_saturating_mul (oc_safety_floor_secs c) 1000)
           in case parquet_files_under (oc_spool_root c) node of
                Inl e \<Rightarrow> (fs, Inl e)
              | Inr files \<Rightarrow>
                  (case cleanup_loop env (oc_spool_root c) cutoff files fs orphan_stats_default of
                     (fs', Inl e) \<Rightarrow> (fs', Inl e)
                   | (fs', Inr stats) \<Rightarrow>
                       (fs', Inr (if 0 < os_quarantined_count stats
                                  then stats\<lparr>os_quarantine_root := Some (quarantine_root (oc_spool_root c))\<rparr>
                                  else stats)))))"

section \<open>What eviction removes\<close>

definition evict_file :: "disk_env \<Rightarrow> evictable_file \<Rightarrow> fnode \<Rightarrow> fnode" where
  "evict_file env f fs = (case remove_file env (ef_parquet_path f) fs of
     (fs1, True) \<Rightarrow> fst (remove_file env (ef_sealed_path f) fs1) | (fs1, False) \<Rightarrow> fs1)"

definition evictable :: "eviction_config \<Rightarrow> int \<Rightarrow> fnode \<Rightarrow> evictable_file \<Rightarrow> bool" where
  "evictable c now_ms fs f \<longleftrightarrow>
     strict_prefix (ec_spool_root c) (ef_parquet_path f) \<and> has_parquet_extension (last (ef_parquet_path f)) \<and>
     ef_sealed_path f = sealed_marker_path (ef_parquet_path f) \<and>
     (\<exists>marker. node_at (ef_sealed_path f) fs = Some marker \<and>
        mtime_ms (node_meta marker) \<le> safety_cutoff_ms now_ms (ec_safety_floor_secs c)) \<and>
     \<not> is_protected_path (ef_parquet_path f) (ec_spool_root c)"

definition candidates :: "eviction_config \<Rightarrow> int \<Rightarrow> fnode \<Rightarrow> (evictable_file list, storage_error) result" where
  "candidates c now_ms fs = and_then (collect_files_on_disk (ec_spool_root c) fs) (\<lambda>on_disk.
     Inr (rank_evictable on_disk (safety_cutoff_ms now_ms (ec_safety_floor_secs c)) (ec_spool_root c)))"

lemma remove_file_spec:
  assumes "tree_ok fs" "p \<noteq> []"
  shows "tree_ok (fst (remove_file env p fs)) \<and>
    (file_at q (fst (remove_file env p fs)) = file_at q fs \<or> q = p \<and> file_at q (fst (remove_file env p fs)) = None)"
  using assms by (auto simp: remove_file_def file_at_unlink tree_ok_unlink)

lemma evict_file_spec:
  assumes "tree_ok fs" "ef_parquet_path f \<noteq> []" "ef_sealed_path f \<noteq> []"
  shows "tree_ok (evict_file env f fs) \<and>
    (file_at q (evict_file env f fs) = file_at q fs \<or>
     (q = ef_parquet_path f \<or> q = ef_sealed_path f) \<and> file_at q (evict_file env f fs) = None)"
proof -
  obtain fs1 b where r: "remove_file env (ef_parquet_path f) fs = (fs1, b)" by fastforce
  have 1: "tree_ok fs1" "file_at q fs1 = file_at q fs \<or> q = ef_parquet_path f \<and> file_at q fs1 = None"
    using remove_file_spec [OF assms(1,2), of env q] r by auto
  from remove_file_spec [OF 1(1) assms(3), of env q] 1 show ?thesis
    by (cases b) (auto simp: evict_file_def r)
qed

lemma fold_evict_spec:
  assumes "tree_ok fs" "list_all (\<lambda>f. ef_parquet_path f \<noteq> [] \<and> ef_sealed_path f \<noteq> []) cs"
  shows "tree_ok (fold (evict_file env) cs fs) \<and>
    (file_at q (fold (evict_file env) cs fs) = file_at q fs \<or>
     (\<exists>f \<in> set cs. q = ef_parquet_path f \<or> q = ef_sealed_path f) \<and> file_at q (fold (evict_file env) cs fs) = None)"
  using assms
proof (induction cs arbitrary: fs)
  case (Cons f cs)
  then have f: "tree_ok (evict_file env f fs)" "file_at q (evict_file env f fs) = file_at q fs \<or>
      (q = ef_parquet_path f \<or> q = ef_sealed_path f) \<and> file_at q (evict_file env f fs) = None"
    using evict_file_spec [of fs f env q] by simp_all
  have "list_all (\<lambda>f. ef_parquet_path f \<noteq> [] \<and> ef_sealed_path f \<noteq> []) cs" using Cons.prems(2) by simp
  from Cons.IH [OF f(1) this] f(2) show ?case unfolding fold_simps list.set by (metis insert_iff)
qed simp

lemma evict_loop_step:
  assumes "de_probe env n fs = Inr current" "target \<le> current"
  shows "\<exists>stats1. evict_loop env target (c # cs) n fs stats = evict_loop env target cs (Suc n) (evict_file env c fs) stats1"
  using assms
  by (cases "remove_file env (ef_parquet_path c) fs"; cases "snd (remove_file env (ef_parquet_path c) fs)")
    (auto simp: evict_file_def)

lemma evict_loop_spec:
  assumes "evict_loop env target cs n fs stats = (fs', r)"
  shows "\<exists>k \<le> length cs. fs' = fold (evict_file env) (take k cs) fs \<and>
    list_all (\<lambda>i. \<exists>pct \<ge> target. de_probe env (n + i) (fold (evict_file env) (take i cs) fs) = Inr pct) [0 ..< k] \<and>
    (case r of Inl e \<Rightarrow> True
     | Inr (n', stats') \<Rightarrow> (k = length cs \<or> (\<exists>pct < target. de_probe env (n + k) fs' = Inr pct)))"
  using assms
proof (induction cs arbitrary: n fs stats fs' r)
  case (Cons c cs)
  show ?case
  proof (cases "\<exists>current \<ge> target. de_probe env n fs = Inr current")
    case False
    then have "(\<exists>e. de_probe env n fs = Inl e) \<or> (\<exists>current < target. de_probe env n fs = Inr current)"
      by (cases "de_probe env n fs") (auto simp: not_le)
    with Cons.prems show ?thesis by (intro exI [of _ 0]) auto
  next
    case True
    then obtain current where p: "de_probe env n fs = Inr current" "target \<le> current" by blast
    then obtain stats1 where "evict_loop env target cs (Suc n) (evict_file env c fs) stats1 = (fs', r)"
      using evict_loop_step [OF p] Cons.prems by metis
    from Cons.IH [OF this] obtain k where k: "k \<le> length cs" "fs' = fold (evict_file env) (take k cs) (evict_file env c fs)"
      "list_all (\<lambda>i. \<exists>pct \<ge> target. de_probe env (Suc n + i) (fold (evict_file env) (take i cs) (evict_file env c fs)) = Inr pct) [0 ..< k]"
      "case r of Inl e \<Rightarrow> True
       | Inr (n', stats') \<Rightarrow> (k = length cs \<or> (\<exists>pct < target. de_probe env (Suc n + k) fs' = Inr pct))" by blast
    have "list_all (\<lambda>i. \<exists>pct \<ge> target. de_probe env (n + i) (fold (evict_file env) (take i (c # cs)) fs) = Inr pct) [0 ..< Suc k]"
      unfolding upt_0_Suc using k(3) p by (auto simp: list.pred_map comp_def)
    with k(1,2,4) show ?thesis
      by (intro exI [of _ "Suc k"]) (simp split: sum.splits)
  qed
qed simp

lemma collect_sound:
  assumes "collect_files_on_disk rt fs = Inr files" "tree_ok fs"
  shows "list_all (\<lambda>f. strict_prefix rt (ef_parquet_path f) \<and> has_parquet_extension (last (ef_parquet_path f)) \<and>
    ef_sealed_path f = sealed_marker_path (ef_parquet_path f) \<and>
    (\<exists>marker. node_at (ef_sealed_path f) fs = Some marker \<and> ef_sealed_at_ms f = mtime_ms (node_meta marker))) files"
proof (cases "node_at rt fs")
  case (Some node)
  have "tree_ok node" using tree_ok_node_at [OF assms(2) Some] .
  show ?thesis
    by (rule walk_invariant(1) [where visit = "collect_visit fs" and path = rt and node = node and s = "[]" and fs = fs and base = rt])
      (use assms(1) Some \<open>tree_ok node\<close> in \<open>auto simp: collect_files_on_disk_def collect_visit_def Let_def split: option.splits\<close>)
qed (use assms in \<open>simp add: collect_files_on_disk_def\<close>)

lemma candidates_sound:
  assumes "candidates c now_ms fs = Inr cs" "tree_ok fs"
  shows "list_all (evictable c now_ms fs) cs" and "sorted (map ef_sealed_at_ms cs)"
proof -
  from assms(1) obtain files where f: "collect_files_on_disk (ec_spool_root c) fs = Inr files"
      "cs = rank_evictable files (safety_cutoff_ms now_ms (ec_safety_floor_secs c)) (ec_spool_root c)"
    by (auto simp: candidates_def)
  show "list_all (evictable c now_ms fs) cs"
    using collect_sound [OF f(1) assms(2)] unfolding f(2) rank_evictable_def list_all_iff evictable_def by auto
  show "sorted (map ef_sealed_at_ms cs)" unfolding f(2) rank_evictable_def by simp
qed

lemma evict_once_cases:
  assumes "evict_once env c now_ms fs = (fs', r)"
  obtains (idle) "fs' = fs" and "case r of Inl e \<Rightarrow> True | Inr st \<Rightarrow> \<not> es_triggered st"
  | (triggered) cs r' initial where "candidates c now_ms fs = Inr cs" and "de_probe env 0 fs = Inr initial"
      and "ec_high_water_pct c \<le> initial"
      and "\<exists>stats. evict_loop env (ec_high_water_pct c - TARGET_OFFSET_PCT) cs 1 fs stats = (fs', r')"
      and "is_err r' \<longrightarrow> is_err r"
proof (cases "de_probe env 0 fs")
  case (Inr initial)
  show ?thesis
  proof (cases "initial < ec_high_water_pct c \<or> is_err (collect_files_on_disk (ec_spool_root c) fs)")
    case True
    with assms Inr show ?thesis by (intro idle) (auto simp: evict_once_def Let_def is_err_iff split: if_splits)
  next
    case False
    then obtain files where f: "collect_files_on_disk (ec_spool_root c) fs = Inr files" by (auto simp: not_is_err_iff)
    define cs where "cs = rank_evictable files (safety_cutoff_ms now_ms (ec_safety_floor_secs c)) (ec_spool_root c)"
    define st where "st = \<lparr>es_disk_used_pct_before = initial, es_disk_used_pct_after = initial, es_triggered = True,
       es_emergency = ec_emergency_pct c \<le> initial, es_evicted_count = 0, es_evicted_bytes = 0, es_candidate_count = length cs\<rparr>"
    obtain fs1 r1 where l: "evict_loop env (ec_high_water_pct c - TARGET_OFFSET_PCT) cs 1 fs st = (fs1, r1)" by fastforce
    have "fs1 = fs' \<and> (is_err r1 \<longrightarrow> is_err r)"
      using assms Inr False f l by (auto simp: evict_once_def cs_def st_def Let_def is_err_iff split: sum.splits)
    with l Inr False f show ?thesis
      by (intro triggered [of cs initial r1]) (auto simp: candidates_def cs_def)
  qed
next
  case (Inl e)
  with assms have "fs' = fs" "r = Inl e" by (simp_all add: evict_once_def)
  then show ?thesis by (intro idle) simp_all
qed

lemma evictable_paths: "list_all (evictable c now_ms fs) cs \<Longrightarrow> list_all (\<lambda>f. ef_parquet_path f \<noteq> [] \<and> ef_sealed_path f \<noteq> []) cs"
  by (auto simp: list_all_iff evictable_def sealed_marker_path_def)

lemma list_all_take: "list_all P xs \<Longrightarrow> list_all P (take k xs)"
  by (auto simp: list_all_iff dest: in_set_takeD)

section \<open>What the quarantine moves\<close>

text \<open>The clock never names an existing file.\<close>

definition nanos_fresh :: "orphan_env \<Rightarrow> bool" where
  "nanos_fresh env \<longleftrightarrow> (\<forall>fs p. \<not> path_exists (with_suffix p (oe_nanos env fs)) fs)"

definition broken :: "path \<Rightarrow> int \<Rightarrow> fnode \<Rightarrow> path \<Rightarrow> bool" where
  "broken rt cutoff fs p \<longleftrightarrow> strict_prefix rt p \<and> has_parquet_extension (last p) \<and> file_at (sealed_marker_path p) fs = None \<and>
     (\<exists>m. file_at p fs = Some m \<and> mtime_ms m \<le> cutoff \<and> \<not> m_footer_ok m)"

lemma unique_path_fresh:
  assumes "nanos_fresh env" "p \<noteq> []"
  shows "node_at (unique_path env fs p) fs = None \<and> unique_path env fs p \<noteq> []"
proof (cases "List.find (\<lambda>index. \<not> path_exists (with_suffix p index) fs) [1 ..< 1000]")
  case None
  with assms show ?thesis by (auto simp: unique_path_def nanos_fresh_def path_exists_def with_suffix_def)
next
  case (Some index)
  then have "\<not> path_exists (with_suffix p index) fs" by (auto simp: find_Some_iff)
  with Some assms(2) show ?thesis by (auto simp: unique_path_def path_exists_def with_suffix_def)
qed

lemma rename_file_spec:
  assumes "rename_file env src dst fs = (fs', r)" "tree_ok fs" "src \<noteq> []" "dst \<noteq> []" "node_at dst fs = None"
  shows "tree_files fs' = tree_files fs \<and> tree_ok fs' \<and>
    (\<forall>q. file_at q fs' = file_at q fs \<or> q = src \<or> q = dst)"
proof (cases "fs' = fs")
  case False
  with assms(1) obtain m d es where m: "file_at src fs = Some m" "node_at (butlast dst) fs = Some (FDir d es)"
      "fs' = put_file dst m (unlink src fs)"
    by (auto simp: rename_file_def split: option.splits fnode.splits if_splits)
  obtain es' where d: "node_at (butlast dst) (unlink src fs) = Some (FDir d es')"
    using node_at_unlink(2) [OF assms(2) m(2)] by blast
  note p = put_file_spec [OF tree_ok_unlink [OF assms(2)] assms(4) d node_at_unlink(1) [OF assms(2,5)], of m]
  have "tree_files fs' = tree_files fs" using p files_unlink [OF assms(2) m(1) assms(3)] m(3) by simp
  with p m(3) show ?thesis by (simp add: file_at_unlink [OF assms(2,3)])
qed (use assms in simp)

lemma not_exists_file: "\<not> path_exists p fs \<Longrightarrow> file_at p fs = None"
  by (simp add: path_exists_def file_at_def)

lemma node_meta_file: "node_at p fs = Some n \<Longrightarrow> file_at p fs = Some m \<Longrightarrow> node_meta n = m"
  by (auto simp: file_at_def node_meta_def split: fnode.splits)

lemma quarantine_destination_fresh:
  assumes "quarantine_destination env fs rt (quarantine_root rt) p = Inr dst" "nanos_fresh env"
  shows "node_at dst fs = None \<and> dst \<noteq> []"
proof -
  from assms(1) have "dst = unique_path env fs (quarantine_root rt @ drop (length rt) p)"
    by (auto simp: quarantine_destination_def strip_prefix_def split: if_splits)
  then show ?thesis using unique_path_fresh [OF assms(2)] by (simp add: quarantine_root_def)
qed

lemma cleanup_step_cases:
  assumes "cleanup_step env rt cutoff p fs stats = (fs', r)" "nanos_fresh env"
    and "strict_prefix rt p" "has_parquet_extension (last p)"
  obtains (same) "fs' = fs"
  | (moved) dst r' where "broken rt cutoff fs p" and "dst \<noteq> []" and "node_at dst fs = None"
      and "rename_file env p dst (create_dir_all (butlast dst) fs) = (fs', r')"
proof (cases "fs' = fs")
  case False
  from assms(1) False obtain node where n: "\<not> path_exists (sealed_marker_path p) fs" "node_at p fs = Some node"
      "mtime_ms (node_meta node) \<le> cutoff" "parquet_footer_is_valid env fs p = Inr False"
    by (fastforce simp: cleanup_step_def Let_def split: if_splits option.splits sum.splits bool.splits)
  from assms(1) False n obtain dst where d: "quarantine_destination env fs rt (quarantine_root rt) p = Inr dst"
      "oe_mkdir_ok env (butlast dst)"
    by (auto simp: cleanup_step_def Let_def split: if_splits sum.splits)
  obtain fs1 r1 where r1: "rename_file env p dst (create_dir_all (butlast dst) fs) = (fs1, r1)" by fastforce
  with assms(1) n d have "fs1 = fs'" by (auto simp: cleanup_step_def Let_def split: sum.splits)
  moreover have "broken rt cutoff fs p"
    using n assms(3,4) not_exists_file [OF n(1)] node_meta_file [OF n(2)]
    by (auto simp: broken_def parquet_footer_is_valid_def split: option.splits if_splits)
  ultimately show ?thesis using quarantine_destination_fresh [OF d(1) assms(2)] r1 by (intro moved) auto
qed (rule same)

lemma cleanup_step_spec:
  assumes "cleanup_step env rt cutoff p fs stats = (fs', r)" "tree_ok fs" "nanos_fresh env"
    and "strict_prefix rt p" "has_parquet_extension (last p)"
  shows "tree_files fs' = tree_files fs" and "tree_ok fs'" and
    "file_at q fs' = file_at q fs \<or> file_at q fs = None \<or> q = p \<and> broken rt cutoff fs p"
proof -
  have "tree_files fs' = tree_files fs \<and> tree_ok fs' \<and>
      (file_at q fs' = file_at q fs \<or> file_at q fs = None \<or> q = p \<and> broken rt cutoff fs p)"
    using assms(1,3-5)
  proof (cases rule: cleanup_step_cases)
    case (moved dst r')
    have "p \<noteq> []" using assms(4) by auto
    with rename_file_spec [OF moved(4) _ _ moved(2) node_at_create_None [OF moved(2,3)]] create_dir_all_spec [OF assms(2)]
    have "tree_files fs' = tree_files fs" "tree_ok fs'" "file_at q fs' = file_at q fs \<or> q = p \<or> q = dst" by auto
    moreover have "file_at dst fs = None" using moved(3) by (simp add: file_at_def)
    ultimately show ?thesis using moved(1) by blast
  qed (use assms in simp)
  then show "tree_files fs' = tree_files fs" "tree_ok fs'"
    "file_at q fs' = file_at q fs \<or> file_at q fs = None \<or> q = p \<and> broken rt cutoff fs p" by blast+
qed

text \<open>What has happened since the start of a pass: every file is where it was, or it was broken.\<close>

definition only_broken_moved :: "path \<Rightarrow> int \<Rightarrow> fnode \<Rightarrow> fnode \<Rightarrow> bool" where
  "only_broken_moved rt cutoff fs0 fs \<longleftrightarrow>
     (\<forall>q. file_at q fs = file_at q fs0 \<or> file_at q fs0 = None \<or> broken rt cutoff fs0 q)"

lemma sealed_not_parquet: "\<not> has_parquet_extension (last (sealed_marker_path p))"
  by (simp add: sealed_marker_path_def has_parquet_extension_def extension_def Let_def)

lemma only_broken_step:
  assumes "only_broken_moved rt cutoff fs0 fs" "cleanup_step env rt cutoff p fs stats = (fs', r)" "tree_ok fs"
    and "nanos_fresh env" "strict_prefix rt p" "has_parquet_extension (last p)"
  shows "only_broken_moved rt cutoff fs0 fs'"
  unfolding only_broken_moved_def
proof
  fix q
  have q0: "file_at q fs = file_at q fs0 \<or> file_at q fs0 = None \<or> broken rt cutoff fs0 q" for q
    using assms(1) by (simp add: only_broken_moved_def)
  from cleanup_step_spec(3) [OF assms(2-6), of q]
  show "file_at q fs' = file_at q fs0 \<or> file_at q fs0 = None \<or> broken rt cutoff fs0 q"
  proof (elim disjE)
    assume b: "q = p \<and> broken rt cutoff fs p"
    have "file_at (sealed_marker_path p) fs0 = None"
      using q0 [of "sealed_marker_path p"] b sealed_not_parquet [of p] by (auto simp: broken_def)
    with b q0 [of p] show ?thesis by (auto simp: broken_def)
  qed (use q0 [of q] in auto)
qed

lemma cleanup_loop_spec:
  assumes "cleanup_loop env rt cutoff ps fs stats = (fs', r)" "tree_ok fs" "nanos_fresh env"
    and "list_all (\<lambda>p. strict_prefix rt p \<and> has_parquet_extension (last p)) ps" "only_broken_moved rt cutoff fs0 fs"
  shows "tree_files fs' = tree_files fs \<and> only_broken_moved rt cutoff fs0 fs'"
  using assms
proof (induction ps arbitrary: fs stats)
  case (Cons p ps)
  obtain fs1 r1 where s: "cleanup_step env rt cutoff p fs stats = (fs1, r1)" by fastforce
  have p: "strict_prefix rt p" "has_parquet_extension (last p)" using Cons.prems(4) by auto
  note one = cleanup_step_spec(1,2) [OF s Cons.prems(2,3) p] only_broken_step [OF Cons.prems(5) s Cons.prems(2,3) p]
  show ?case
  proof (cases r1)
    case (Inl e)
    with Cons.prems(1) s one show ?thesis by auto
  next
    case (Inr st)
    with Cons.prems(1) s have "cleanup_loop env rt cutoff ps fs1 st = (fs', r)" by simp
    from Cons.IH [OF this one(2) Cons.prems(3) _ one(3)] Cons.prems(4) one(1) show ?thesis by auto
  qed
qed auto

lemma parquet_files_sound:
  assumes "parquet_files_under rt node = Inr ps" "node_at rt fs = Some node" "tree_ok fs"
  shows "list_all (\<lambda>p. strict_prefix rt p \<and> has_parquet_extension (last p)) ps"
  using walk_invariant(1) [of "\<lambda>f fs. Inr (fs @ [f])" rt node "[]" ps
      "list_all (\<lambda>p. strict_prefix rt p \<and> has_parquet_extension (last p))" fs rt]
    assms tree_ok_node_at [OF assms(3,2)]
  by (simp add: parquet_files_under_def collect_parquet_files_def)

lemma cleanup_cases:
  assumes "cleanup_invalid_unsealed_once env c now_ms fs = (fs', r)"
  obtains (untouched) "fs' = fs" and "case r of Inl e \<Rightarrow> True | Inr st \<Rightarrow> st = orphan_stats_default"
  | (scanned) node ps r' where "node_at (oc_spool_root c) fs = Some node"
      and "parquet_files_under (oc_spool_root c) node = Inr ps"
      and "cleanup_loop env (oc_spool_root c)
             (i64_saturating_sub now_ms (i64_saturating_mul (oc_safety_floor_secs c) 1000)) ps fs orphan_stats_default = (fs', r')"
      and "case r of Inl e \<Rightarrow> r' = Inl e
           | Inr st \<Rightarrow> \<exists>st'. r' = Inr st' \<and> st = st'\<lparr>os_quarantine_root := os_quarantine_root st\<rparr>"
proof (cases "node_at (oc_spool_root c) fs")
  case None
  with assms have "fs' = fs" "r = Inr orphan_stats_default" by (simp_all add: cleanup_invalid_unsealed_once_def)
  then show ?thesis by (intro untouched) simp_all
next
  case (Some node)
  show ?thesis
  proof (cases "parquet_files_under (oc_spool_root c) node")
    case (Inl e)
    with assms Some show ?thesis by (intro untouched) (auto simp: cleanup_invalid_unsealed_once_def Let_def)
  next
    case (Inr ps)
    obtain fs1 r1 where l: "cleanup_loop env (oc_spool_root c)
        (i64_saturating_sub now_ms (i64_saturating_mul (oc_safety_floor_secs c) 1000)) ps fs orphan_stats_default = (fs1, r1)"
      by fastforce
    with assms Some Inr show ?thesis
      by (intro scanned [of node ps r1]) (auto simp: cleanup_invalid_unsealed_once_def Let_def split: sum.splits if_splits)
  qed
qed

definition orphan_balanced :: "unsealed_orphan_stats \<Rightarrow> bool" where
  "orphan_balanced st \<longleftrightarrow>
     os_scanned_unsealed_count st =
       os_recent_unsealed_count st + os_valid_unsealed_count st + os_invalid_unsealed_count st \<and>
     os_quarantined_count st = os_invalid_unsealed_count st"

lemma cleanup_step_balanced:
  "cleanup_step env rt cutoff p fs st = (fs', Inr st') \<Longrightarrow> orphan_balanced st \<Longrightarrow> orphan_balanced st'"
  by (auto simp: cleanup_step_def orphan_balanced_def Let_def
      split: if_splits option.splits sum.splits bool.splits prod.splits)

lemma cleanup_loop_balanced:
  "cleanup_loop env rt cutoff ps fs st = (fs', Inr st') \<Longrightarrow> orphan_balanced st \<Longrightarrow> orphan_balanced st'"
  by (induction ps arbitrary: fs st) (auto split: prod.splits sum.splits dest: cleanup_step_balanced)

section \<open>Properties\<close>

text \<open>the disk usage is a percentage, for every answer of the file system.\<close>

theorem disk_used_pct_range:
  "case disk_used_pct exists stat of Inl e \<Rightarrow> exists \<and> stat = Inl e | Inr pct \<Rightarrow> pct \<le> 100"
  by (cases stat) (auto simp: disk_used_pct_def used_pct_def Let_def)

text \<open>C28: eviction never touches a file that may still be needed. Whatever the probe answers and whichever
  removals fail, the only files that disappear are parquet files below the spool root whose sealed marker is at
  least the safety period old and which do not belong to a protected family, and their markers.\<close>

theorem evict_only_sealed_and_old:
  assumes "tree_ok fs" "evict_once env c now_ms fs = (fs', r)"
  shows "file_at q fs' = file_at q fs \<or>
    file_at q fs' = None \<and> (\<exists>f. evictable c now_ms fs f \<and> (q = ef_parquet_path f \<or> q = ef_sealed_path f))"
  using assms(2)
proof (cases rule: evict_once_cases)
  case (triggered cs r' initial)
  from triggered(4) obtain stats where "evict_loop env (ec_high_water_pct c - TARGET_OFFSET_PCT) cs 1 fs stats = (fs', r')" by blast
  from evict_loop_spec [OF this] obtain k where k: "fs' = fold (evict_file env) (take k cs) fs" by blast
  note ok = candidates_sound(1) [OF triggered(1) assms(1)]
  from fold_evict_spec [OF assms(1) evictable_paths [OF list_all_take [OF ok]], of env k q] k ok show ?thesis
    by (auto simp: list_all_iff dest: in_set_takeD)
qed simp

text \<open>eviction works from the oldest sealed file on and stops as soon as it may. A triggered pass that
  succeeds has handled a prefix of the candidates sorted by sealing time; before each of them the probe had
  answered at least the target, and it stopped because no candidate was left or the probe fell below the
  target.\<close>

theorem evict_oldest_first_and_stops:
  assumes "tree_ok fs" "evict_once env c now_ms fs = (fs', Inr stats)" "es_triggered stats"
  shows "\<exists>cs k. candidates c now_ms fs = Inr cs \<and> sorted (map ef_sealed_at_ms cs) \<and> k \<le> length cs \<and>
    fs' = fold (evict_file env) (take k cs) fs \<and>
    list_all (\<lambda>i. \<exists>pct \<ge> ec_high_water_pct c - 5.
      de_probe env (Suc i) (fold (evict_file env) (take i cs) fs) = Inr pct) [0 ..< k] \<and>
    (k = length cs \<or> (\<exists>pct < ec_high_water_pct c - 5. de_probe env (Suc k) fs' = Inr pct))"
  using assms(2)
proof (cases rule: evict_once_cases)
  case (triggered cs r' initial)
  from triggered(4) obtain st where l: "evict_loop env (ec_high_water_pct c - TARGET_OFFSET_PCT) cs 1 fs st = (fs', r')" by blast
  from triggered(5) obtain n' st' where "r' = Inr (n', st')" by (cases r') auto
  with evict_loop_spec [OF l] candidates_sound(2) [OF triggered(1) assms(1)] triggered(1) show ?thesis
    by (auto simp: TARGET_OFFSET_PCT_def)
qed (use assms(3) in simp)


text \<open>a file that is not where it was before the quarantine pass is a parquet file below the spool root
  that had no sealed marker, was at least the safety period old and had an unreadable footer.\<close>

theorem quarantine_moves_only_broken:
  assumes "tree_ok fs" "nanos_fresh env" "cleanup_invalid_unsealed_once env c now_ms fs = (fs', r)"
    and "file_at q fs = Some m" "file_at q fs' \<noteq> Some m"
  shows "broken (oc_spool_root c) (i64_saturating_sub now_ms (i64_saturating_mul (oc_safety_floor_secs c) 1000)) fs q"
  using assms(3)
proof (cases rule: cleanup_cases)
  case (scanned node ps r')
  from cleanup_loop_spec [OF scanned(3) assms(1,2) parquet_files_sound [OF scanned(2,1) assms(1)], of fs]
  have "file_at q fs' = file_at q fs \<or> file_at q fs = None \<or>
      broken (oc_spool_root c) (i64_saturating_sub now_ms (i64_saturating_mul (oc_safety_floor_secs c) 1000)) fs q"
    by (simp add: only_broken_moved_def)
  with assms(4,5) show ?thesis by auto
qed (use assms in simp)

text \<open>the counters of a successful quarantine pass add up: every unsealed file is recent, valid or
  invalid, and every invalid one was quarantined.\<close>

theorem quarantine_counts_balance:
  assumes "cleanup_invalid_unsealed_once env c now_ms fs = (fs', Inr st)"
  shows "os_scanned_unsealed_count st =
      os_recent_unsealed_count st + os_valid_unsealed_count st + os_invalid_unsealed_count st \<and>
    os_quarantined_count st = os_invalid_unsealed_count st"
proof -
  have d: "orphan_balanced orphan_stats_default" by (simp add: orphan_balanced_def orphan_stats_default_def)
  from assms have "orphan_balanced st"
  proof (cases rule: cleanup_cases)
    case (scanned node ps r')
    then obtain st' where "r' = Inr st'" "st = st'\<lparr>os_quarantine_root := os_quarantine_root st\<rparr>" by auto
    with cleanup_loop_balanced [of env "oc_spool_root c" _ ps fs orphan_stats_default fs' st'] scanned(3) d
    have "orphan_balanced st'" by simp
    then have "orphan_balanced (st'\<lparr>os_quarantine_root := x\<rparr>)" for x by (simp add: orphan_balanced_def)
    with \<open>st = _\<close> show ?thesis by metis
  qed (use d in simp)
  then show ?thesis by (simp add: orphan_balanced_def)
qed

section \<open>Witnesses\<close>

text \<open>A spool with one sealed and one broken unsealed file.\<close>

definition demo_meta :: "nat \<Rightarrow> bool \<Rightarrow> fmeta" where
  "demo_meta t footer_ok = \<lparr>m_mtime_ms = Some t, m_len = 3, m_footer_ok = footer_ok\<rparr>"

definition demo_fs :: fnode where
  "demo_fs = FDir dir_meta [(''s'', FDir dir_meta
     [(''a.parquet'', FFile (demo_meta 1 True)), (''a.parquet.sealed'', FFile (demo_meta 2 False)),
      (''b.parquet'', FFile (demo_meta 1 False))])]"

lemma demo_fs_ok: "tree_ok demo_fs"
  by (simp add: demo_fs_def)

definition demo_disk :: disk_env where
  "demo_disk = \<lparr>de_probe = (\<lambda>n _. Inr (if n < 2 then 90 else 50)), de_can_remove = (\<lambda>_. True)\<rparr>"

definition demo_evict :: eviction_config where
  "demo_evict = \<lparr>ec_spool_root = [''s''], ec_high_water_pct = 80, ec_emergency_pct = 95, ec_safety_floor_secs = 1\<rparr>"

lemma demo_evicts: "file_at [''s'', ''a.parquet''] (fst (evict_once demo_disk demo_evict 5000 demo_fs)) = None"
  by code_simp

theorem evict_only_sealed_and_old_witness:
  "\<exists>f. evictable demo_evict 5000 demo_fs f \<and>
     ([''s'', ''a.parquet''] = ef_parquet_path f \<or> [''s'', ''a.parquet''] = ef_sealed_path f)"
proof -
  obtain fs' r where e: "evict_once demo_disk demo_evict 5000 demo_fs = (fs', r)" by fastforce
  have "file_at [''s'', ''a.parquet''] fs' \<noteq> file_at [''s'', ''a.parquet''] demo_fs"
    using demo_evicts e by (simp add: demo_fs_def file_at_def)
  with evict_only_sealed_and_old [OF demo_fs_ok e, of "[''s'', ''a.parquet'']"] show ?thesis by blast
qed

theorem evict_oldest_first_and_stops_witness:
  "\<exists>cs. candidates demo_evict 5000 demo_fs = Inr cs \<and> sorted (map ef_sealed_at_ms cs)"
proof -
  have "case snd (evict_once demo_disk demo_evict 5000 demo_fs) of Inl e \<Rightarrow> False | Inr st \<Rightarrow> es_triggered st" by code_simp
  then obtain fs' st where e: "evict_once demo_disk demo_evict 5000 demo_fs = (fs', Inr st)" "es_triggered st"
    by (cases "evict_once demo_disk demo_evict 5000 demo_fs") (auto split: sum.splits)
  from evict_oldest_first_and_stops [OF demo_fs_ok e] show ?thesis by blast
qed

text \<open>A suffix longer than every name in the tree is fresh.\<close>

fun tree_names :: "fnode \<Rightarrow> nat" where
  "tree_names (FDir m es) = sum_list (map (\<lambda>e. length (fst e) + tree_names (snd e)) es)"
| "tree_names n = 0"

definition demo_orphan :: orphan_env where
  "demo_orphan = \<lparr>oe_open_ok = (\<lambda>_. True), oe_mkdir_ok = (\<lambda>_. True), oe_rename_ok = (\<lambda>_ _. True),
     oe_nanos = (\<lambda>fs. 10 ^ tree_names fs)\<rparr>"

lemma names_bound: "node_at p t = Some n \<Longrightarrow> p \<noteq> [] \<Longrightarrow> length (last p) \<le> tree_names t"
proof (induction p t rule: node_at.induct)
  case (2 x xs m es)
  then obtain n' where n': "map_of es x = Some n'" "node_at xs n' = Some n" by (auto split: option.splits)
  have "length x + tree_names n' \<le> tree_names (FDir m es)"
    using member_le_sum_list [of "length x + tree_names n'" "map (\<lambda>e. length (fst e) + tree_names (snd e)) es"]
      map_of_SomeD [OF n'(1)] by force
  moreover have "xs \<noteq> [] \<Longrightarrow> length (last xs) \<le> tree_names n'" using 2 n' by simp
  ultimately show ?case by (cases "xs = []") auto
qed auto

lemma show_power_length: "k < length (show_nat (10 ^ k))"
  by (induction k) (simp_all add: show_nat.simps)

lemma demo_nanos_fresh: "nanos_fresh demo_orphan"
  unfolding nanos_fresh_def path_exists_def
proof (intro allI notI)
  fix fs p
  assume "node_at (with_suffix p (oe_nanos demo_orphan fs)) fs \<noteq> None"
  with names_bound [of "with_suffix p (oe_nanos demo_orphan fs)" fs] show False
    using show_power_length [of "tree_names fs"] by (auto simp: with_suffix_def demo_orphan_def)
qed

definition demo_orphan_cfg :: unsealed_orphan_config where
  "demo_orphan_cfg = \<lparr>oc_spool_root = [''s''], oc_safety_floor_secs = 1\<rparr>"


theorem quarantine_moves_only_broken_witness:
  "broken [''s''] 4000 demo_fs [''s'', ''b.parquet'']"
proof -
  obtain fs' r where e: "cleanup_invalid_unsealed_once demo_orphan demo_orphan_cfg 5000 demo_fs = (fs', r)" by fastforce
  have "file_at [''s'', ''b.parquet''] (fst (cleanup_invalid_unsealed_once demo_orphan demo_orphan_cfg 5000 demo_fs)) = None"
    by code_simp
  with e have m: "file_at [''s'', ''b.parquet''] fs' \<noteq> Some (demo_meta 1 False)" by simp
  have "file_at [''s'', ''b.parquet''] demo_fs = Some (demo_meta 1 False)" by (simp add: demo_fs_def file_at_def)
  from quarantine_moves_only_broken [OF demo_fs_ok demo_nanos_fresh e this m] show ?thesis
    by (simp add: demo_orphan_cfg_def rust_arith i64_consts)
qed

theorem quarantine_counts_balance_witness:
  "\<exists>fs' st. cleanup_invalid_unsealed_once demo_orphan demo_orphan_cfg 5000 demo_fs = (fs', Inr st) \<and>
     os_quarantined_count st = os_invalid_unsealed_count st"
proof -
  have "\<not> is_err (snd (cleanup_invalid_unsealed_once demo_orphan demo_orphan_cfg 5000 demo_fs))" by code_simp
  then obtain fs' st where e: "cleanup_invalid_unsealed_once demo_orphan demo_orphan_cfg 5000 demo_fs = (fs', Inr st)"
    by (metis not_is_err_iff prod.collapse)
  with quarantine_counts_balance [OF e] show ?thesis by blast
qed

end
