(* ===== verification/BTree_Map.thy ===== *)
theory BTree_Map
  imports Prelude
begin

text \<open>
  The standard library's \<open>BTreeMap\<close>, as an association list kept in key order, and the interface
  its clients rely on. A map is searched with the key type's \<open>Ord::cmp\<close>: an insert whose key
  compares \<open>Equal\<close> to a stored one replaces the value and keeps the stored key. The locale
  \<open>btree_order\<close> states when that is well behaved: on the keys in use, \<open>cmp\<close> is the comparison of a
  rank in a linear order. \<open>FixedDecimal\<close> prices and the partition keys of the storage sink
  interpret it.
\<close>

datatype ordering = Less | Equal | Greater

definition cmp_by :: "('k \<Rightarrow> 'r::linorder) \<Rightarrow> 'k \<Rightarrow> 'k \<Rightarrow> ordering" where
  "cmp_by r a b = (if r a < r b then Less else if r a = r b then Equal else Greater)"

type_synonym ('k, 'v) btree = "('k \<times> 'v) list"

fun bt_get :: "('k \<Rightarrow> 'k \<Rightarrow> ordering) \<Rightarrow> 'k \<Rightarrow> ('k, 'v) btree \<Rightarrow> 'v option" where
  "bt_get cmp k [] = None"
| "bt_get cmp k ((k', v) # m) =
     (case cmp k k' of Less \<Rightarrow> None | Equal \<Rightarrow> Some v | Greater \<Rightarrow> bt_get cmp k m)"

fun bt_insert :: "('k \<Rightarrow> 'k \<Rightarrow> ordering) \<Rightarrow> 'k \<Rightarrow> 'v \<Rightarrow> ('k, 'v) btree \<Rightarrow> ('k, 'v) btree" where
  "bt_insert cmp k v [] = [(k, v)]"
| "bt_insert cmp k v ((k', v') # m) =
     (case cmp k k' of
        Less \<Rightarrow> (k, v) # (k', v') # m
      | Equal \<Rightarrow> (k', v) # m
      | Greater \<Rightarrow> (k', v') # bt_insert cmp k v m)"

fun bt_remove :: "('k \<Rightarrow> 'k \<Rightarrow> ordering) \<Rightarrow> 'k \<Rightarrow> ('k, 'v) btree \<Rightarrow> ('k, 'v) btree" where
  "bt_remove cmp k [] = []"
| "bt_remove cmp k ((k', v') # m) =
     (case cmp k k' of
        Less \<Rightarrow> (k', v') # m
      | Equal \<Rightarrow> m
      | Greater \<Rightarrow> (k', v') # bt_remove cmp k m)"

definition bt_contains_key :: "('k \<Rightarrow> 'k \<Rightarrow> ordering) \<Rightarrow> 'k \<Rightarrow> ('k, 'v) btree \<Rightarrow> bool" where
  "bt_contains_key cmp k m \<longleftrightarrow> bt_get cmp k m \<noteq> None"

definition bt_keys :: "('k, 'v) btree \<Rightarrow> 'k list" where
  "bt_keys m = map fst m"

definition bt_values :: "('k, 'v) btree \<Rightarrow> 'v list" where
  "bt_values m = map snd m"

text \<open>Sorted strictly by rank, every key in the domain on which the order is well behaved.\<close>

definition bt_wf :: "('k \<Rightarrow> 'r::linorder) \<Rightarrow> ('k \<Rightarrow> bool) \<Rightarrow> ('k, 'v) btree \<Rightarrow> bool" where
  "bt_wf rank good m \<longleftrightarrow>
     sorted_wrt (\<lambda>a b. rank a < rank b) (map fst m) \<and> (\<forall>k \<in> fst ` set m. good k)"

lemma bt_wf_Nil [simp]: "bt_wf rank good []"
  by (simp add: bt_wf_def)

lemma bt_wf_Cons:
  "bt_wf rank good ((k, v) # m) \<longleftrightarrow>
     good k \<and> bt_wf rank good m \<and> (\<forall>k' \<in> fst ` set m. rank k < rank k')"
  by (auto simp: bt_wf_def)

text \<open>The finite map a tree denotes, keyed by rank.\<close>

definition bt_map :: "('k \<Rightarrow> 'r) \<Rightarrow> ('k, 'v) btree \<Rightarrow> ('r \<rightharpoonup> 'v)" where
  "bt_map rank m = map_of (map (\<lambda>(k, v). (rank k, v)) m)"

lemma bt_map_simps [simp]:
  "bt_map rank [] = Map.empty" "bt_map rank ((k, v) # m) = (bt_map rank m)(rank k \<mapsto> v)"
  by (simp_all add: bt_map_def)

lemma bt_map_None: "rank k \<notin> rank ` fst ` set m \<Longrightarrow> bt_map rank m (rank k) = None"
  by (induction m) auto

lemma bt_values_insert: "snd ` set (bt_insert cmp k v m) \<subseteq> insert v (snd ` set m)"
  by (induction m) (force split: ordering.splits)+

lemma bt_values_remove: "snd ` set (bt_remove cmp k m) \<subseteq> snd ` set m"
  by (induction m) (force split: ordering.splits)+

locale btree_order =
  fixes cmp :: "'k \<Rightarrow> 'k \<Rightarrow> ordering"
    and rank :: "'k \<Rightarrow> 'r::linorder"
    and good :: "'k \<Rightarrow> bool"
  assumes cmp_rank: "good a \<Longrightarrow> good b \<Longrightarrow> cmp a b = cmp_by rank a b"
begin

lemma cmp_cases [simp]:
  assumes "good a" and "good b"
  shows "cmp a b = Less \<longleftrightarrow> rank a < rank b" and "cmp a b = Equal \<longleftrightarrow> rank a = rank b"
    and "cmp a b = Greater \<longleftrightarrow> rank b < rank a"
  using assms by (auto simp: cmp_rank cmp_by_def)

lemma keys_insert:
  "fst ` set (bt_insert cmp k v m) \<subseteq> insert k (fst ` set m)"
  by (induction m) (force split: ordering.splits)+

lemma keys_remove: "fst ` set (bt_remove cmp k m) \<subseteq> fst ` set m"
  by (induction m) (force split: ordering.splits)+

lemma rank_insert:
  assumes "good k" "\<forall>k' \<in> fst ` set m. good k'"
  shows "rank ` fst ` set (bt_insert cmp k v m) = insert (rank k) (rank ` fst ` set m)"
  using assms(2)
proof (induction m)
  case (Cons e m)
  obtain k' v' where e: "e = (k', v')" by (cases e)
  from Cons.prems e have "good k'" and IH: "rank ` fst ` set (bt_insert cmp k v m) =
      insert (rank k) (rank ` fst ` set m)" using Cons.IH by auto
  with assms(1) e show ?case by (auto split: ordering.splits)
qed simp

lemma wf_insert:
  assumes "bt_wf rank good m" and "good k"
  shows "bt_wf rank good (bt_insert cmp k v m)"
  using assms(1)
proof (induction m)
  case Nil
  then show ?case using assms(2) by (simp add: bt_wf_def)
next
  case (Cons e m)
  obtain k' v' where e: "e = (k', v')" by (cases e)
  from Cons.prems have wf: "bt_wf rank good m" and k': "good k'"
    and less: "\<forall>x \<in> fst ` set m. rank k' < rank x"
    by (auto simp: e bt_wf_Cons)
  from wf have ok: "\<forall>x \<in> fst ` set m. good x" by (simp add: bt_wf_def)
  have "\<forall>x \<in> fst ` set (bt_insert cmp k v m). rank k' < rank x" if "rank k' < rank k"
  proof
    fix x
    assume "x \<in> fst ` set (bt_insert cmp k v m)"
    then have "rank x \<in> insert (rank k) (rank ` fst ` set m)"
      unfolding rank_insert [OF assms(2) ok, of v, symmetric] by (rule imageI)
    with less that show "rank k' < rank x" by auto
  qed
  with Cons.IH [OF wf] k' less assms(2) wf show ?case
    by (auto simp: e bt_wf_Cons split: ordering.splits intro: less_trans)
qed

lemma wf_remove: "bt_wf rank good m \<Longrightarrow> bt_wf rank good (bt_remove cmp k m)"
proof (induction m)
  case (Cons e m)
  obtain k' v' where e: "e = (k', v')" by (cases e)
  from Cons.prems have wf: "bt_wf rank good m" and k': "good k'"
    and "\<forall>x \<in> fst ` set m. rank k' < rank x"
    by (auto simp: e bt_wf_Cons)
  then have "\<forall>x \<in> fst ` set (bt_remove cmp k m). rank k' < rank x"
    using keys_remove by blast
  with Cons.IH [OF wf] Cons.prems wf k' show ?case
    by (simp add: e bt_wf_Cons split: ordering.splits)
qed simp

lemma get_None_rank:
  assumes "bt_wf rank good m" and "good k"
  shows "bt_get cmp k m = None \<longleftrightarrow> rank k \<notin> rank ` fst ` set m"
  using assms(1)
proof (induction m)
  case (Cons e m)
  then show ?case using assms(2) by (cases e) (force simp: bt_wf_Cons split: ordering.splits)
qed simp

lemma get_insert:
  assumes "bt_wf rank good m" and "good k" and "good k'"
  shows "bt_get cmp k' (bt_insert cmp k v m) =
           (if rank k' = rank k then Some v else bt_get cmp k' m)"
  using assms(1)
proof (induction m)
  case Nil
  then show ?case using assms by (auto split: ordering.splits)
next
  case (Cons e m)
  obtain a b where e: "e = (a, b)" by (cases e)
  from Cons.prems have wf: "bt_wf rank good m" and a: "good a"
    by (auto simp: e bt_wf_Cons)
  show ?case using Cons.IH [OF wf] a assms(2,3)
    by (auto simp: e split: ordering.splits)
qed

lemma get_remove:
  assumes "bt_wf rank good m" and "good k" and "good k'"
  shows "bt_get cmp k' (bt_remove cmp k m) =
           (if rank k' = rank k then None else bt_get cmp k' m)"
  using assms(1)
proof (induction m)
  case (Cons e m)
  obtain a b where e: "e = (a, b)" by (cases e)
  from Cons.prems have wf: "bt_wf rank good m" and a: "good a"
    and less: "\<forall>x \<in> fst ` set m. rank a < rank x"
    by (auto simp: e bt_wf_Cons)
  have "bt_get cmp k' m = None" if "rank k' \<le> rank a"
    using get_None_rank [OF wf assms(3)] less that by (metis image_iff leD)
  with Cons.IH [OF wf] a assms(2,3) show ?case
    by (auto simp: e split: ordering.splits)
qed simp

lemma map_insert:
  assumes "bt_wf rank good m" and "good k"
  shows "bt_map rank (bt_insert cmp k v m) = (bt_map rank m)(rank k \<mapsto> v)"
  using assms(1)
proof (induction m)
  case (Cons e m)
  then show ?case using assms(2)
    by (cases e) (auto simp: bt_wf_Cons fun_eq_iff split: ordering.splits)
qed simp

lemma map_remove:
  assumes "bt_wf rank good m" and "good k"
  shows "bt_map rank (bt_remove cmp k m) = (bt_map rank m)(rank k := None)"
  using assms(1)
proof (induction m)
  case (Cons e m)
  obtain a b where e: "e = (a, b)" by (cases e)
  from Cons.prems have wf: "bt_wf rank good m" and a: "good a"
    and less: "\<forall>x \<in> fst ` set m. rank a < rank x"
    by (auto simp: e bt_wf_Cons)
  have none: "bt_map rank m (rank x) = None" if "rank x \<le> rank a" for x
    using less that by (intro bt_map_None) auto
  show ?case using Cons.IH [OF wf] a assms(2) none [of k] none [of a]
    by (auto simp: e fun_eq_iff split: ordering.splits)
qed simp

lemma get_map:
  assumes "bt_wf rank good m" and "good k"
  shows "bt_get cmp k m = bt_map rank m (rank k)"
  using assms(1)
proof (induction m)
  case (Cons e m)
  obtain a b where e: "e = (a, b)" by (cases e)
  from Cons.prems have wf: "bt_wf rank good m" and a: "good a"
    and less: "\<forall>x \<in> fst ` set m. rank a < rank x"
    by (auto simp: e bt_wf_Cons)
  have none: "bt_map rank m (rank k) = None" if "rank k < rank a"
    using less that by (intro bt_map_None) auto
  show ?case using Cons.IH [OF wf] a assms(2) none
    by (auto simp: e split: ordering.splits)
qed simp

lemma get_Some_mem:
  "bt_wf rank good m \<Longrightarrow> good k \<Longrightarrow> bt_get cmp k m = Some v \<Longrightarrow>
     \<exists>k'. (k', v) \<in> set m \<and> rank k' = rank k"
proof (induction m)
  case (Cons e m)
  then show ?case by (cases e) (auto simp: bt_wf_Cons split: ordering.splits)
qed simp

lemma get_mem:
  "bt_wf rank good m \<Longrightarrow> (k, v) \<in> set m \<Longrightarrow> bt_get cmp k m = Some v"
proof (induction m)
  case (Cons e m)
  obtain a b where e: "e = (a, b)" by (cases e)
  show ?case
  proof (cases "(k, v) = e")
    case True
    with Cons.prems show ?thesis by (simp add: e bt_wf_Cons split: ordering.splits)
  next
    case False
    with Cons.prems have m: "(k, v) \<in> set m" and wf: "bt_wf rank good m" and "good a"
      and "rank a < rank k" by (force simp: e bt_wf_Cons)+
    moreover from wf m have "good k" by (force simp: bt_wf_def)
    ultimately show ?thesis using Cons.IH by (auto simp: e split: ordering.splits)
  qed
qed simp

end

text \<open>A comparison defined from a rank is well behaved everywhere.\<close>

interpretation ranked: btree_order "cmp_by rank" rank "\<lambda>_. True" for rank :: "'k \<Rightarrow> 'r::linorder"
  by unfold_locales simp

end
