(* ===== verification/Fixed_Decimal.thy ===== *)
theory Fixed_Decimal
  imports BTree_Map
begin

text \<open>
  \<open>crates/crypto-domain/src/numeric\<close>: the fixed-point decimal that carries every price and
  quantity, \<open>value * 10 ^ -scale\<close> with an \<open>i128\<close> value and a \<open>u32\<close> scale. One definition per
  function of \<open>fixed_decimal.rs\<close>, \<open>scale.rs\<close>, \<open>parse.rs\<close>, \<open>comparison.rs\<close>, \<open>ordering.rs\<close>,
  \<open>arithmetic.rs\<close> and \<open>wire.rs\<close>. \<open>dec_rat\<close> is the abstraction: the rational number a decimal
  denotes. The lemmas relate every operation to it, and interpret the ordered-map interface for
  prices.
\<close>

section \<open>Data\<close>

record fixed_decimal =
  dec_value :: int
  dec_scale :: nat

text \<open>The last constructor is no variant of the source's enum: it stands for the panic of integer
  division on \<open>i128::MIN / -1\<close>, which aborts the task in every build profile.\<close>

datatype domain_error =
    EmptyDecimal
  | InvalidDecimal string
  | NegativeUnsignedDecimal string
  | ScaleOverflow
  | DivideByZero
  | InvalidSymbol string
  | InvalidMarketValue string
  | DivisionPanic

definition domain_error_display :: "domain_error \<Rightarrow> string" where
  "domain_error_display e = (case e of
     EmptyDecimal \<Rightarrow> ''decimal value is empty''
   | InvalidDecimal value \<Rightarrow> ''invalid decimal value: '' @ value
   | NegativeUnsignedDecimal value \<Rightarrow> ''unsigned decimal cannot be negative: '' @ value
   | ScaleOverflow \<Rightarrow> ''decimal scale overflow''
   | DivideByZero \<Rightarrow> ''cannot divide by zero''
   | InvalidSymbol value \<Rightarrow> ''invalid symbol: '' @ value
   | InvalidMarketValue value \<Rightarrow> ''invalid market value: '' @ value
   | DivisionPanic \<Rightarrow> ''attempt to divide with overflow'')"

record bps =
  bps_value :: int

definition bps_new :: "int \<Rightarrow> bps" where
  "bps_new v = \<lparr>bps_value = v\<rparr>"

definition dec_new :: "int \<Rightarrow> nat \<Rightarrow> fixed_decimal" where
  "dec_new value scale = \<lparr>dec_value = value, dec_scale = scale\<rparr>"

definition dec_zero :: fixed_decimal where
  "dec_zero = \<lparr>dec_value = 0, dec_scale = 0\<rparr>"

definition dec_one :: fixed_decimal where
  "dec_one = \<lparr>dec_value = 1, dec_scale = 0\<rparr>"

definition is_positive :: "fixed_decimal \<Rightarrow> bool" where
  "is_positive d \<longleftrightarrow> dec_value d > 0"

definition is_non_negative :: "fixed_decimal \<Rightarrow> bool" where
  "is_non_negative d \<longleftrightarrow> dec_value d \<ge> 0"

section \<open>Scaling (scale.rs)\<close>

text \<open>The loop \<open>for _ in 0..scale\<close> of \<open>pow10\<close>.\<close>

fun pow10_loop :: "nat \<Rightarrow> int \<Rightarrow> (int, domain_error) result" where
  "pow10_loop 0 value = Inr value"
| "pow10_loop (Suc n) value =
     and_then (ok_or ScaleOverflow (i128_checked_mul value 10)) (pow10_loop n)"

definition pow10 :: "nat \<Rightarrow> (int, domain_error) result" where
  "pow10 scale = pow10_loop scale 1"

definition align_value :: "fixed_decimal \<Rightarrow> nat \<Rightarrow> (int, domain_error) result" where
  "align_value d target_scale =
     and_then (ok_or ScaleOverflow (u32_checked_sub target_scale (dec_scale d))) (\<lambda>scale_delta.
     and_then (pow10 scale_delta) (\<lambda>p.
     ok_or ScaleOverflow (i128_checked_mul (dec_value d) p)))"

fun saturating_align :: "int \<Rightarrow> nat \<Rightarrow> int" where
  "saturating_align acc 0 = acc"
| "saturating_align acc (Suc scale_delta) =
     (case i128_checked_mul acc 10 of
        Some nxt \<Rightarrow> saturating_align nxt scale_delta
      | None \<Rightarrow> (if acc \<ge> 0 then i128_max else i128_min))"

section \<open>Ordering and comparison (ordering.rs, comparison.rs)\<close>

definition dec_cmp :: "fixed_decimal \<Rightarrow> fixed_decimal \<Rightarrow> ordering" where
  "dec_cmp a b =
     (let scale = max (dec_scale a) (dec_scale b);
          left = saturating_align (dec_value a) (scale - dec_scale a);
          right = saturating_align (dec_value b) (scale - dec_scale b)
      in cmp_by id left right)"

definition cmp_scaled :: "fixed_decimal \<Rightarrow> fixed_decimal \<Rightarrow> (ordering, domain_error) result" where
  "cmp_scaled a b =
     (let scale = max (dec_scale a) (dec_scale b)
      in and_then (align_value a scale) (\<lambda>left.
         and_then (align_value b scale) (\<lambda>right.
         Inr (cmp_by id left right))))"

definition checked_min :: "fixed_decimal \<Rightarrow> fixed_decimal \<Rightarrow> (fixed_decimal, domain_error) result" where
  "checked_min a b = and_then (cmp_scaled a b) (\<lambda>c. Inr (if c = Greater then b else a))"

definition checked_gt :: "fixed_decimal \<Rightarrow> fixed_decimal \<Rightarrow> (bool, domain_error) result" where
  "checked_gt a b = and_then (cmp_scaled a b) (\<lambda>c. Inr (c = Greater))"

definition checked_lt :: "fixed_decimal \<Rightarrow> fixed_decimal \<Rightarrow> (bool, domain_error) result" where
  "checked_lt a b = and_then (cmp_scaled a b) (\<lambda>c. Inr (c = Less))"

definition checked_eq :: "fixed_decimal \<Rightarrow> fixed_decimal \<Rightarrow> (bool, domain_error) result" where
  "checked_eq a b = and_then (cmp_scaled a b) (\<lambda>c. Inr (c = Equal))"

section \<open>Arithmetic (arithmetic.rs)\<close>

text \<open>\<open>/\<close> on \<open>i128\<close>: the quotient rounds towards zero; the one unrepresentable quotient panics.
  Every call site has a divisor that is not zero.\<close>

definition i128_div :: "int \<Rightarrow> int \<Rightarrow> (int, domain_error) result" where
  "i128_div a b = (if a = i128_min \<and> b = -1 then Inl DivisionPanic else Inr (a sdiv b))"

definition checked_add :: "fixed_decimal \<Rightarrow> fixed_decimal \<Rightarrow> (fixed_decimal, domain_error) result" where
  "checked_add a b =
     (let scale = max (dec_scale a) (dec_scale b)
      in and_then (align_value a scale) (\<lambda>left.
         and_then (align_value b scale) (\<lambda>right.
         Inr (dec_new (wrap_i128 (left + right)) scale))))"

definition checked_sub :: "fixed_decimal \<Rightarrow> fixed_decimal \<Rightarrow> (fixed_decimal, domain_error) result" where
  "checked_sub a b =
     (let scale = max (dec_scale a) (dec_scale b)
      in and_then (align_value a scale) (\<lambda>left.
         and_then (align_value b scale) (\<lambda>right.
         Inr (dec_new (wrap_i128 (left - right)) scale))))"

definition div_to_scale ::
    "fixed_decimal \<Rightarrow> fixed_decimal \<Rightarrow> nat \<Rightarrow> (fixed_decimal, domain_error) result" where
  "div_to_scale a b output_scale =
     (if dec_value b = 0 then Inl DivideByZero
      else and_then (pow10 (dec_scale b)) (\<lambda>p.
           and_then (ok_or ScaleOverflow
               (Option.bind (i128_checked_mul (dec_value a) p) (\<lambda>value.
                Option.bind (ok (pow10 output_scale)) (\<lambda>q. i128_checked_mul value q)))) (\<lambda>numerator.
           and_then (pow10 (dec_scale a)) (\<lambda>r.
           and_then (ok_or ScaleOverflow (i128_checked_mul (dec_value b) r)) (\<lambda>denominator.
           and_then (i128_div numerator denominator) (\<lambda>value.
           Inr (dec_new value output_scale)))))))"

definition mul_bps :: "fixed_decimal \<Rightarrow> bps \<Rightarrow> (fixed_decimal, domain_error) result" where
  "mul_bps a b =
     and_then (ok_or ScaleOverflow (i128_checked_mul (dec_value a) (bps_value b))) (\<lambda>m.
     Inr (dec_new (m sdiv 10000) (dec_scale a)))"

definition mul_to_scale ::
    "fixed_decimal \<Rightarrow> fixed_decimal \<Rightarrow> nat \<Rightarrow> (fixed_decimal, domain_error) result" where
  "mul_to_scale a b output_scale =
     and_then (ok_or ScaleOverflow (i128_checked_mul (dec_value a) (dec_value b))) (\<lambda>product.
     and_then (ok_or ScaleOverflow (u32_checked_add (dec_scale a) (dec_scale b))) (\<lambda>input_scale.
     and_then (if output_scale \<ge> input_scale
               then and_then (pow10 (output_scale - input_scale)) (\<lambda>p.
                    ok_or ScaleOverflow (i128_checked_mul product p))
               else and_then (pow10 (input_scale - output_scale)) (\<lambda>p. Inr (product sdiv p))) (\<lambda>value.
     Inr (dec_new value output_scale))))"

definition dec_abs :: "fixed_decimal \<Rightarrow> (fixed_decimal, domain_error) result" where
  "dec_abs a =
     and_then (ok_or ScaleOverflow (i128_checked_abs (dec_value a))) (\<lambda>v.
     Inr (dec_new v (dec_scale a)))"

section \<open>Parsing and the wire format (parse.rs, wire.rs)\<close>

definition from_str :: "string \<Rightarrow> (fixed_decimal, domain_error) result" where
  "from_str input =
     (let trimmed = trim input
      in if trimmed = [] then Inl EmptyDecimal
      else let negative = (hd trimmed = CHR ''-'');
               digits = (if negative then tl trimmed else trimmed)
           in if digits = [] then Inl (InvalidDecimal input)
              else let parts = split_on (CHR ''.'') digits;
                       whole = hd parts;
                       fraction = (case tl parts of [] \<Rightarrow> [] | f # _ \<Rightarrow> f)
                   in if length parts > 2 \<or> whole = []
                         \<or> \<not> list_all is_ascii_digit whole \<or> \<not> list_all is_ascii_digit fraction
                      then Inl (InvalidDecimal input)
                      else and_then (guard_err (length fraction > u32_max) ScaleOverflow) (\<lambda>_.
                           and_then (ok_or (InvalidDecimal input) (parse_i128 (whole @ fraction))) (\<lambda>value.
                           Inr \<lparr>dec_value = (if negative then - value else value),
                                dec_scale = length fraction\<rparr>)))"

definition parse_unsigned :: "string \<Rightarrow> (fixed_decimal, domain_error) result" where
  "parse_unsigned input =
     and_then (from_str input) (\<lambda>parsed.
     if dec_value parsed < 0 then Inl (NegativeUnsignedDecimal input) else Inr parsed)"

record fixed_decimal_wire =
  wire_value :: string
  wire_scale :: nat

definition serialize_dec :: "fixed_decimal \<Rightarrow> fixed_decimal_wire" where
  "serialize_dec d = \<lparr>wire_value = show_int (dec_value d), wire_scale = dec_scale d\<rparr>"

definition deserialize_dec :: "fixed_decimal_wire \<Rightarrow> fixed_decimal option" where
  "deserialize_dec w =
     map_option (\<lambda>value. \<lparr>dec_value = value, dec_scale = wire_scale w\<rparr>) (parse_i128 (wire_value w))"

lemmas dec_op_defs =
  align_value_def cmp_scaled_def checked_min_def checked_gt_def checked_lt_def checked_eq_def
  checked_add_def checked_sub_def div_to_scale_def mul_bps_def mul_to_scale_def dec_abs_def
  dec_new_def i128_div_def

section \<open>Abstraction\<close>

text \<open>The number a decimal denotes, the type invariant of the struct, and the range of
  market data for which alignment can never leave \<open>i128\<close>.\<close>

definition dec_rat :: "fixed_decimal \<Rightarrow> rat" where
  "dec_rat d = of_int (dec_value d) / 10 ^ dec_scale d"

definition dec_wf :: "fixed_decimal \<Rightarrow> bool" where
  "dec_wf d \<longleftrightarrow> in_i128 (dec_value d) \<and> dec_scale d \<le> u32_max"

definition dec_small :: "fixed_decimal \<Rightarrow> bool" where
  "dec_small d \<longleftrightarrow> \<bar>dec_value d\<bar> \<le> 10 ^ 19 \<and> dec_scale d \<le> 18"

definition sat_i128 :: "int \<Rightarrow> int" where
  "sat_i128 x = (if x < i128_min then i128_min else if i128_max < x then i128_max else x)"

section \<open>Scaling lemmas\<close>

lemma ten_pow_in_i128: "in_i128 (10 ^ n) \<longleftrightarrow> n \<le> 38"
proof
  assume "in_i128 (10 ^ n)"
  then have "(10::int) ^ n < 10 ^ 39" by (simp add: in_i128_def i128_consts)
  then have "n < 39" by (rule power_less_imp_less_exp [rotated]) simp
  then show "n \<le> 38" by simp
next
  assume "n \<le> 38"
  then have "(10::int) ^ n \<le> 10 ^ 38" by (intro power_increasing) simp_all
  then show "in_i128 (10 ^ n)"
    by (auto simp: in_i128_def i128_consts intro: order_trans [of _ 0])
qed

lemma in_i128_mul10: "in_i128 (v * 10) \<Longrightarrow> in_i128 v"
  by (auto simp: in_i128_def i128_consts)

lemma pow10_loop_eq:
  "0 < v \<Longrightarrow> in_i128 v \<Longrightarrow> pow10_loop n v =
     (if in_i128 (v * 10 ^ n) then Inr (v * 10 ^ n) else Inl ScaleOverflow)"
proof (induction n arbitrary: v)
  case (Suc n)
  have grow: "v * 10 \<le> v * 10 ^ Suc n"
    using Suc.prems(1) by (intro mult_left_mono) (simp_all add: self_le_power)
  have "v * 10 \<le> i128_max" if "in_i128 (v * 10 ^ Suc n)"
    using that grow unfolding in_i128_def by linarith
  moreover have "i128_min \<le> v * 10" using Suc.prems(1) by (simp add: i128_consts)
  ultimately have "in_i128 (v * 10)" if "in_i128 (v * 10 ^ Suc n)"
    using that by (simp add: in_i128_def)
  then show ?case
    using Suc.IH [of "v * 10"] Suc.prems(1)
    by (auto simp: i128_checked_mul_def mult.assoc)
qed simp

lemma pow10_eq: "pow10 scale = (if scale \<le> 38 then Inr (10 ^ scale) else Inl ScaleOverflow)"
  by (simp add: pow10_def pow10_loop_eq ten_pow_in_i128 in_i128_def i128_consts
      flip: ten_pow_in_i128)

lemma mul_ten_pow_mono:
  fixes v :: int
  shows "0 \<le> v \<Longrightarrow> v \<le> v * 10 ^ n" and "v \<le> 0 \<Longrightarrow> v * 10 ^ n \<le> v"
proof -
  have ge: "(1::int) \<le> 10 ^ n" by simp
  show "0 \<le> v \<Longrightarrow> v \<le> v * 10 ^ n" using mult_left_mono [OF ge, of v] by simp
  show "v \<le> 0 \<Longrightarrow> v * 10 ^ n \<le> v" using mult_left_mono_neg [OF ge, of v] by simp
qed

lemma saturating_align_eq:
  "in_i128 v \<Longrightarrow> saturating_align v n = sat_i128 (v * 10 ^ n)"
proof (induction n arbitrary: v)
  case 0
  then show ?case by (simp add: sat_i128_def in_i128_def)
next
  case (Suc n)
  show ?case
  proof (cases "in_i128 (v * 10)")
    case True
    then show ?thesis using Suc.IH [of "v * 10"] by (simp add: i128_checked_mul_def mult.assoc)
  next
    case False
    with Suc.prems consider "0 \<le> v" "i128_max < v * 10" | "v < 0" "v * 10 < i128_min"
      by (fastforce simp: in_i128_def i128_consts)
    then show ?thesis
    proof cases
      case 1
      then have "v * 10 \<le> v * 10 * 10 ^ n" by (intro mul_ten_pow_mono) simp
      with 1 have "i128_max < v * 10 ^ Suc n" by (simp add: mult.assoc)
      with 1 False show ?thesis
        by (auto simp: i128_checked_mul_def sat_i128_def i128_consts)
    next
      case 2
      then have "v * 10 * 10 ^ n \<le> v * 10" by (intro mul_ten_pow_mono) simp
      moreover have "v * 10 ^ Suc n = v * 10 * 10 ^ n" by simp
      ultimately have "v * 10 ^ Suc n < i128_min" using 2 by linarith
      with 2 False show ?thesis
        by (auto simp: i128_checked_mul_def sat_i128_def i128_consts)
    qed
  qed
qed

lemma align_value_Inr:
  "align_value d t = Inr v \<longleftrightarrow>
     dec_scale d \<le> t \<and> t - dec_scale d \<le> 38 \<and>
     in_i128 (dec_value d * 10 ^ (t - dec_scale d)) \<and> v = dec_value d * 10 ^ (t - dec_scale d)"
  by (auto simp: align_value_def u32_checked_sub_def pow10_eq)

lemma align_value_Inl:
  "align_value d t = Inl e \<Longrightarrow> e = ScaleOverflow"
  by (auto simp: align_value_def u32_checked_sub_def pow10_eq split: if_splits)

lemma scaled_rat:
  assumes "dec_scale d \<le> t"
  shows "of_int (dec_value d * 10 ^ (t - dec_scale d)) = dec_rat d * 10 ^ t"
proof -
  have "(10::rat) ^ t = 10 ^ (t - dec_scale d) * 10 ^ dec_scale d"
    using assms by (simp add: power_add [symmetric])
  then show ?thesis by (simp add: dec_rat_def)
qed

lemma align_value_rat: "align_value d t = Inr v \<Longrightarrow> of_int v = dec_rat d * 10 ^ t"
  using scaled_rat by (auto simp: align_value_Inr)

lemma cmp_by_scaled:
  assumes "of_int x = dec_rat a * 10 ^ t" and "of_int y = dec_rat b * 10 ^ t"
  shows "cmp_by id x y = cmp_by dec_rat a b"
proof -
  have "x < y \<longleftrightarrow> dec_rat a < dec_rat b"
  proof -
    have "x < y \<longleftrightarrow> (of_int x :: rat) < of_int y" by simp
    also have "\<dots> \<longleftrightarrow> dec_rat a < dec_rat b" unfolding assms by simp
    finally show ?thesis .
  qed
  moreover have "x = y \<longleftrightarrow> dec_rat a = dec_rat b"
  proof -
    have "x = y \<longleftrightarrow> (of_int x :: rat) = of_int y" by simp
    also have "\<dots> \<longleftrightarrow> dec_rat a = dec_rat b" unfolding assms by simp
    finally show ?thesis .
  qed
  ultimately show ?thesis by (simp add: cmp_by_def)
qed

lemma cmp_scaled_rat: "cmp_scaled a b = Inr c \<Longrightarrow> c = cmp_by dec_rat a b"
  by (auto simp: cmp_scaled_def Let_def dest!: align_value_rat intro: cmp_by_scaled)

lemma cmp_scaled_Inl: "cmp_scaled a b = Inl e \<Longrightarrow> e = ScaleOverflow"
  by (auto simp: cmp_scaled_def Let_def dest: align_value_Inl)

lemma cmp_scaled_total:
  "cmp_scaled a b = Inr (cmp_by dec_rat a b) \<or> cmp_scaled a b = Inl ScaleOverflow"
  using cmp_scaled_rat cmp_scaled_Inl by (cases "cmp_scaled a b") auto

section \<open>The order on prices\<close>

lemma dec_small_scaled:
  assumes "dec_small d" and "t \<le> 18" and "dec_scale d \<le> t"
  shows "\<bar>dec_value d * 10 ^ (t - dec_scale d)\<bar> \<le> 10 ^ 37"
    and "in_i128 (dec_value d * 10 ^ (t - dec_scale d))"
proof -
  have "\<bar>dec_value d * 10 ^ (t - dec_scale d)\<bar> = \<bar>dec_value d\<bar> * 10 ^ (t - dec_scale d)"
    by (simp add: abs_mult)
  also have "\<dots> \<le> 10 ^ 19 * 10 ^ 18"
    using assms by (intro mult_mono power_increasing) (simp_all add: dec_small_def)
  finally show le: "\<bar>dec_value d * 10 ^ (t - dec_scale d)\<bar> \<le> 10 ^ 37" by simp
  then show "in_i128 (dec_value d * 10 ^ (t - dec_scale d))"
    by (auto simp: in_i128_def i128_consts abs_le_iff)
qed

lemma dec_small_wf: "dec_small d \<Longrightarrow> dec_wf d"
  by (auto simp: dec_small_def dec_wf_def int_range_defs)

lemma dec_cmp_saturated:
  assumes "dec_wf a" and "dec_wf b"
  defines "t \<equiv> max (dec_scale a) (dec_scale b)"
  shows "dec_cmp a b = cmp_by id (sat_i128 (dec_value a * 10 ^ (t - dec_scale a)))
                                 (sat_i128 (dec_value b * 10 ^ (t - dec_scale b)))"
  using assms by (simp add: dec_cmp_def dec_wf_def saturating_align_eq Let_def)

lemma sat_i128_id: "in_i128 x \<Longrightarrow> sat_i128 x = x"
  by (simp add: sat_i128_def in_i128_def)

lemma dec_cmp_small:
  assumes "dec_small a" and "dec_small b"
  shows "dec_cmp a b = cmp_by dec_rat a b"
proof -
  define t where "t = max (dec_scale a) (dec_scale b)"
  have t: "t \<le> 18" "dec_scale a \<le> t" "dec_scale b \<le> t"
    using assms by (simp_all add: t_def dec_small_def)
  have "dec_cmp a b = cmp_by id (dec_value a * 10 ^ (t - dec_scale a))
                                (dec_value b * 10 ^ (t - dec_scale b))"
    using assms t
    by (simp add: dec_cmp_saturated dec_small_wf sat_i128_id dec_small_scaled flip: t_def)
  also have "\<dots> = cmp_by dec_rat a b"
    using t by (intro cmp_by_scaled [where t = t] scaled_rat)
  finally show ?thesis .
qed

interpretation price: btree_order dec_cmp dec_rat dec_small
  by unfold_locales (rule dec_cmp_small)

section \<open>Arithmetic lemmas\<close>

lemma pow10_Inr [simp]: "pow10 n = Inr p \<longleftrightarrow> n \<le> 38 \<and> p = 10 ^ n"
  by (auto simp: pow10_eq)

lemma ok_pow10 [simp]: "ok (pow10 n) = Some p \<longleftrightarrow> n \<le> 38 \<and> p = 10 ^ n"
  by (auto simp: pow10_eq)

lemma checked_add_exact:
  assumes "dec_small a" and "dec_small b"
  shows "\<exists>c. checked_add a b = Inr c \<and> dec_rat c = dec_rat a + dec_rat b"
    and "\<exists>c. checked_sub a b = Inr c \<and> dec_rat c = dec_rat a - dec_rat b"
proof -
  define t where "t = max (dec_scale a) (dec_scale b)"
  define x y where "x = dec_value a * 10 ^ (t - dec_scale a)" and "y = dec_value b * 10 ^ (t - dec_scale b)"
  have t: "t \<le> 18" "dec_scale a \<le> t" "dec_scale b \<le> t"
    using assms by (simp_all add: t_def dec_small_def)
  then have al: "align_value a t = Inr x" "align_value b t = Inr y"
    using assms dec_small_scaled(2) by (auto simp: align_value_Inr x_def y_def)
  have "\<bar>x\<bar> \<le> 10 ^ 37" "\<bar>y\<bar> \<le> 10 ^ 37"
    using assms t dec_small_scaled(1) by (auto simp: x_def y_def)
  then have i: "in_i128 (x + y)" "in_i128 (x - y)"
    by (auto simp: in_i128_def i128_consts abs_le_iff)
  have r: "of_int x = dec_rat a * 10 ^ t" "of_int y = dec_rat b * 10 ^ t"
    using al by (auto dest: align_value_rat)
  show "\<exists>c. checked_add a b = Inr c \<and> dec_rat c = dec_rat a + dec_rat b"
    using al i r unfolding checked_add_def t_def [symmetric]
    by (auto simp: dec_new_def Let_def dec_rat_def [of "\<lparr>dec_value = _, dec_scale = _\<rparr>"] add_divide_distrib)
  show "\<exists>c. checked_sub a b = Inr c \<and> dec_rat c = dec_rat a - dec_rat b"
    using al i r unfolding checked_sub_def t_def [symmetric]
    by (auto simp: dec_new_def Let_def dec_rat_def [of "\<lparr>dec_value = _, dec_scale = _\<rparr>"] diff_divide_distrib)
qed

lemma div_to_scale_value:
  assumes "div_to_scale a b n = Inr c"
  obtains num den where "dec_value b \<noteq> 0"
    and "num = dec_value a * 10 ^ dec_scale b * 10 ^ n" and "den = dec_value b * 10 ^ dec_scale a"
    and "c = dec_new (num sdiv den) n" and "in_i128 num" and "in_i128 den"
  using assms
  by (auto simp: div_to_scale_def i128_div_def Option.bind_eq_Some_conv split: if_splits)

text \<open>A value scaled by \<open>10 ^ n\<close> and truncated is less than one unit of the scale away, and never
  further from zero.\<close>

lemma truncated_scaled:
  fixes x y :: rat
  assumes cr: "x * 10 ^ n = of_int (u sdiv v)" and q: "of_int u / of_int v = y * 10 ^ n" and "v \<noteq> 0"
  shows "\<bar>x - y\<bar> < 1 / 10 ^ n" and "\<bar>x\<bar> \<le> \<bar>y\<bar>"
proof -
  have scale: "\<bar>z\<bar> * 10 ^ n = \<bar>z * 10 ^ n\<bar>" for z :: rat by (simp add: abs_mult)
  have "\<bar>x - y\<bar> * 10 ^ n = \<bar>of_int (u sdiv v) - of_int u / of_int v\<bar>"
    unfolding scale left_diff_distrib cr q by simp
  also have "\<dots> < 1" by (rule sdiv_rat(1) [OF assms(3)])
  finally show "\<bar>x - y\<bar> < 1 / 10 ^ n" by (simp add: pos_less_divide_eq)
  have "\<bar>x\<bar> * 10 ^ n \<le> \<bar>y\<bar> * 10 ^ n"
    using sdiv_rat(2) [OF assms(3), of u] unfolding scale cr q .
  then show "\<bar>x\<bar> \<le> \<bar>y\<bar>" by (rule mult_right_le_imp_le) simp
qed

lemma div_to_scale_approx:
  assumes "div_to_scale a b n = Inr c"
  shows "dec_scale c = n" and "\<bar>dec_rat c - dec_rat a / dec_rat b\<bar> < 1 / 10 ^ n"
    and "\<bar>dec_rat c\<bar> \<le> \<bar>dec_rat a / dec_rat b\<bar>"
proof -
  from assms obtain num den where nz: "dec_value b \<noteq> 0"
    and nd: "num = dec_value a * 10 ^ dec_scale b * 10 ^ n" "den = dec_value b * 10 ^ dec_scale a"
    and c: "c = dec_new (num sdiv den) n" by (rule div_to_scale_value)
  show "dec_scale c = n" by (simp add: c dec_new_def)
  have "of_int num / of_int den = dec_rat a / dec_rat b * 10 ^ n"
    by (simp add: nd dec_rat_def field_simps)
  moreover have "dec_rat c * 10 ^ n = of_int (num sdiv den)"
    by (simp add: c dec_rat_def dec_new_def)
  moreover have "den \<noteq> 0" using nz nd by simp
  ultimately show "\<bar>dec_rat c - dec_rat a / dec_rat b\<bar> < 1 / 10 ^ n"
    "\<bar>dec_rat c\<bar> \<le> \<bar>dec_rat a / dec_rat b\<bar>"
    using truncated_scaled [of "dec_rat c" n num den "dec_rat a / dec_rat b"] by blast+
qed

lemma div_to_scale_error:
  assumes "div_to_scale a b n = Inl e" and "0 \<le> dec_value b"
  shows "e = DivideByZero \<or> e = ScaleOverflow"
proof -
  have "dec_value b * 10 ^ k \<noteq> -1" for k
    using assms(2) by (metis neg_0_le_iff_le not_one_le_zero zero_le_mult_iff zero_le_numeral zero_le_power)
  with assms show ?thesis
    by (auto simp: div_to_scale_def i128_div_def pow10_eq split: if_splits)
qed

lemma mul_to_scale_approx:
  assumes "mul_to_scale a b n = Inr c"
  shows "dec_scale c = n" and "\<bar>dec_rat c - dec_rat a * dec_rat b\<bar> < 1 / 10 ^ n"
    and "\<bar>dec_rat c\<bar> \<le> \<bar>dec_rat a * dec_rat b\<bar>"
proof -
  define s where "s = dec_scale a + dec_scale b"
  define p where "p = dec_value a * dec_value b"
  have pr: "dec_rat a * dec_rat b = of_int p / 10 ^ s"
    by (simp add: dec_rat_def p_def s_def power_add)
  consider (up) "s \<le> n" "c = dec_new (p * 10 ^ (n - s)) n"
    | (down) "n < s" "c = dec_new (p sdiv 10 ^ (s - n)) n"
    using assms by (auto simp: mul_to_scale_def u32_checked_add_def p_def s_def split: if_splits)
  then have "dec_scale c = n \<and> \<bar>dec_rat c - dec_rat a * dec_rat b\<bar> < 1 / 10 ^ n
      \<and> \<bar>dec_rat c\<bar> \<le> \<bar>dec_rat a * dec_rat b\<bar>"
  proof cases
    case up
    then have "(10::rat) ^ n = 10 ^ (n - s) * 10 ^ s" by (simp add: power_add [symmetric])
    with up have "dec_rat c = dec_rat a * dec_rat b" unfolding pr by (simp add: dec_rat_def dec_new_def)
    with up show ?thesis by (simp add: dec_new_def)
  next
    case down
    have "(10::rat) ^ s = 10 ^ n * 10 ^ (s - n)" using down by (simp add: power_add [symmetric])
    then have "of_int p / of_int (10 ^ (s - n)) = dec_rat a * dec_rat b * 10 ^ n"
      by (simp add: pr)
    moreover have "dec_rat c * 10 ^ n = of_int (p sdiv 10 ^ (s - n))"
      by (simp add: down dec_rat_def dec_new_def)
    ultimately show ?thesis
      using truncated_scaled [of "dec_rat c" n p "10 ^ (s - n)" "dec_rat a * dec_rat b"]
      by (simp add: down dec_new_def)
  qed
  then show "dec_scale c = n" "\<bar>dec_rat c - dec_rat a * dec_rat b\<bar> < 1 / 10 ^ n"
    "\<bar>dec_rat c\<bar> \<le> \<bar>dec_rat a * dec_rat b\<bar>" by auto
qed

section \<open>Parsing lemmas\<close>

lemma parse_i128_digits:
  "ds \<noteq> [] \<Longrightarrow> list_all is_ascii_digit ds \<Longrightarrow>
     parse_i128 ds = (if int (digits_val ds) \<le> i128_max then Some (int (digits_val ds)) else None)"
proof -
  assume ds: "ds \<noteq> []" "list_all is_ascii_digit ds"
  then obtain c cs where [simp]: "ds = c # cs" by (cases ds) auto
  from ds have "c \<noteq> CHR ''-''" "c \<noteq> CHR ''+''" by (auto simp: is_ascii_digit_def)
  moreover have "i128_min \<le> int (digits_val ds)" by (simp add: i128_consts)
  ultimately show ?thesis
    using ds by (auto simp: parse_i128_def parse_signed_def Let_def)
qed

lemma parse_i128_show: "in_i128 v \<Longrightarrow> parse_i128 (show_int v) = Some v"
proof -
  assume v: "in_i128 v"
  have d: "list_all is_ascii_digit (show_nat n)" for n by (rule show_nat_digits)
  show ?thesis
  proof (cases "v < 0")
    case True
    with v d show ?thesis
      by (simp add: show_int_def parse_i128_def parse_signed_def Let_def in_i128_def)
  next
    case False
    with v d show ?thesis by (simp add: show_int_def parse_i128_digits in_i128_def)
  qed
qed

lemma trim_digits:
  assumes "s \<noteq> []" and "\<not> is_ws (hd s)" and "\<not> is_ws (last s)"
  shows "trim s = s"
proof -
  from assms(1,2) have "dropWhile is_ws s = s" by (cases s) auto
  moreover from assms(1,3) have "dropWhile is_ws (rev s) = rev s"
    by (metis dropWhile_eq_self_iff hd_rev)
  ultimately show ?thesis by (simp add: trim_def)
qed

lemma digit_facts:
  "is_ascii_digit c \<Longrightarrow> \<not> is_ws c" "is_ascii_digit c \<Longrightarrow> c \<noteq> CHR ''-''"
  "is_ascii_digit c \<Longrightarrow> c \<noteq> CHR ''.''"
  by (auto simp: is_ascii_digit_def is_ws_def Let_def)

lemma from_str_whole_fraction:
  assumes w: "w \<noteq> []" "list_all is_ascii_digit w" and f: "f \<noteq> []" "list_all is_ascii_digit f"
    and range: "int (digits_val (w @ f)) \<le> i128_max" "length f \<le> u32_max"
  shows "from_str (w @ CHR ''.'' # f) = Inr \<lparr>dec_value = int (digits_val (w @ f)), dec_scale = length f\<rparr>"
proof -
  from w f have ends: "\<not> is_ws (hd w)" "\<not> is_ws (last f)" "hd w \<noteq> CHR ''-''"
    by (auto simp: list_all_iff digit_facts)
  then have "trim (w @ CHR ''.'' # f) = w @ CHR ''.'' # f"
    using w f by (intro trim_digits) simp_all
  moreover have "CHR ''.'' \<notin> set w" "CHR ''.'' \<notin> set f"
    using w f digit_facts(3) by (auto simp: list_all_iff)
  ultimately show ?thesis
    using w f range ends
    by (simp add: from_str_def Let_def split_on_append parse_i128_digits list_all_append)
qed

lemma from_str_Inr:
  assumes "from_str s = Inr d"
  obtains neg ds w f where "ds = (if neg then tl (trim s) else trim s)" and "neg = (hd (trim s) = CHR ''-'')"
    and "trim s \<noteq> []"
    and "split_on (CHR ''.'') ds = [w] \<and> f = [] \<or> split_on (CHR ''.'') ds = [w, f]"
    and "w \<noteq> []" and "list_all is_ascii_digit w" and "list_all is_ascii_digit f"
    and "d = \<lparr>dec_value = (if neg then - int (digits_val (w @ f)) else int (digits_val (w @ f))),
              dec_scale = length f\<rparr>"
    and "int (digits_val (w @ f)) \<le> i128_max" and "length f \<le> u32_max"
proof -
  define neg where "neg = (hd (trim s) = CHR ''-'')"
  define ds where "ds = (if neg then tl (trim s) else trim s)"
  obtain w r where p: "split_on (CHR ''.'') ds = w # r" by (cases "split_on (CHR ''.'') ds") auto
  define f where "f = (case r of [] \<Rightarrow> [] | f # _ \<Rightarrow> f)"
  from assms have nn: "trim s \<noteq> []" by (auto simp: from_str_def Let_def)
  from assms p nn have g: "\<not> length (w # r) > 2" "w \<noteq> []" "list_all is_ascii_digit w"
      "list_all is_ascii_digit f" "length f \<le> u32_max"
    and v: "\<exists>value. parse_i128 (w @ f) = Some value \<and>
      d = \<lparr>dec_value = (if neg then - value else value), dec_scale = length f\<rparr>"
    by (auto simp: from_str_def Let_def neg_def ds_def f_def split: if_splits)
  from g v have "int (digits_val (w @ f)) \<le> i128_max"
      "d = \<lparr>dec_value = (if neg then - int (digits_val (w @ f)) else int (digits_val (w @ f))),
            dec_scale = length f\<rparr>"
    by (auto simp: parse_i128_digits list_all_append split: if_splits)
  moreover from g have "split_on (CHR ''.'') ds = [w] \<and> f = [] \<or> split_on (CHR ''.'') ds = [w, f]"
    by (cases r) (auto simp: p f_def)
  ultimately show thesis using that [OF ds_def neg_def nn] g by blast
qed

lemma from_str_wf: "from_str s = Inr d \<Longrightarrow> dec_wf d"
  by (erule from_str_Inr) (auto simp: dec_wf_def in_i128_def i128_consts)

lemma parse_unsigned_Inr:
  "parse_unsigned s = Inr d \<Longrightarrow> from_str s = Inr d \<and> dec_wf d \<and> 0 \<le> dec_value d"
  by (auto simp: parse_unsigned_def from_str_wf split: if_splits)

lemma from_str_chars:
  assumes "from_str s = Inr d" and "c \<in> set (trim s)"
  shows "is_ascii_digit c \<or> c = CHR ''.'' \<or> c = CHR ''-''"
  using assms(1)
proof (rule from_str_Inr)
  fix neg ds w f
  assume ds: "ds = (if neg then tl (trim s) else trim s)" "neg = (hd (trim s) = CHR ''-'')"
    "trim s \<noteq> []" and sp: "split_on (CHR ''.'') ds = [w] \<and> f = [] \<or> split_on (CHR ''.'') ds = [w, f]"
    and d: "list_all is_ascii_digit w" "list_all is_ascii_digit f"
  from ds assms(2) have "c = CHR ''-'' \<or> c \<in> set ds" by (cases "trim s") auto
  with split_on_set [of c ds "CHR ''.''"] sp d show ?thesis by (auto simp: list_all_iff)
qed

section \<open>Properties\<close>

text \<open>on market-sized decimals the \<open>Ord\<close> used for the book's price keys is exactly the order
  of the numbers denoted, whatever the two scales: \<open>99.9\<close> sorts before \<open>100.5\<close>, and \<open>1\<close>
  compares equal to \<open>1.00\<close>.\<close>

theorem ord_is_numeric:
  assumes "dec_small a" and "dec_small b"
  shows "dec_cmp a b = cmp_by dec_rat a b"
  using assms by (rule dec_cmp_small)

theorem ord_is_numeric_witness:
  "dec_small (dec_new 999 1) \<and> dec_small (dec_new 1005 1) \<and>
   dec_cmp (dec_new 999 1) (dec_new 1005 1) = Less"
  using ord_is_numeric [of "dec_new 999 1" "dec_new 1005 1"]
  by (simp add: dec_small_def dec_new_def cmp_by_def dec_rat_def)

text \<open>C1: the fallible comparisons never answer wrongly: each returns the comparison of the numbers
  denoted, or reports \<open>ScaleOverflow\<close>; no hypothesis on the operands.\<close>

theorem checked_comparisons_exact:
  "checked_gt a b \<in> {Inr (dec_rat b < dec_rat a), Inl ScaleOverflow} \<and>
   checked_lt a b \<in> {Inr (dec_rat a < dec_rat b), Inl ScaleOverflow} \<and>
   checked_eq a b \<in> {Inr (dec_rat a = dec_rat b), Inl ScaleOverflow} \<and>
   checked_min a b \<in> {Inr (if dec_rat b < dec_rat a then b else a), Inl ScaleOverflow}"
proof -
  have "cmp_by dec_rat a b = Greater \<longleftrightarrow> dec_rat b < dec_rat a"
    "cmp_by dec_rat a b = Less \<longleftrightarrow> dec_rat a < dec_rat b"
    "cmp_by dec_rat a b = Equal \<longleftrightarrow> dec_rat a = dec_rat b" by (auto simp: cmp_by_def)
  with cmp_scaled_total [of a b] show ?thesis
    unfolding checked_gt_def checked_lt_def checked_eq_def checked_min_def by (elim disjE) simp_all
qed

text \<open>the alignment loop of \<open>Ord\<close>, with its early return, computes the saturated product in
  closed form for every \<open>i128\<close> value and every scale difference.\<close>

theorem saturating_align_closed_form:
  assumes "in_i128 v"
  shows "saturating_align v n = max i128_min (min i128_max (v * 10 ^ n))"
  using assms
  by (simp add: saturating_align_eq sat_i128_def i128_consts max_def min_def)

theorem saturating_align_closed_form_witness:
  "in_i128 (10 ^ 38) \<and> saturating_align (10 ^ 38) 1 = i128_max"
proof -
  have i: "in_i128 (10 ^ 38)" by (simp add: in_i128_def i128_consts)
  have "max i128_min (min i128_max (10 ^ 38 * 10 ^ 1)) = i128_max" by (simp add: i128_consts)
  with i saturating_align_closed_form [OF i, of 1] show ?thesis by metis
qed

text \<open>outside that range \<open>Ord\<close> is not an order: \<open>Equal\<close> is not transitive, so the comment in
  \<open>ordering.rs\<close> that saturation keeps \<open>BTreeMap\<close> keys safe does not hold for extreme values.\<close>

theorem ord_equal_not_transitive:
  "dec_cmp (dec_new (10 ^ 38) 0) (dec_new i128_max 1) = Equal \<and>
   dec_cmp (dec_new i128_max 1) (dec_new (15 * 10 ^ 37) 0) = Equal \<and>
   dec_cmp (dec_new (10 ^ 38) 0) (dec_new (15 * 10 ^ 37) 0) = Less"
proof -
  have "dec_wf (dec_new (10 ^ 38) 0)" "dec_wf (dec_new i128_max 1)" "dec_wf (dec_new (15 * 10 ^ 37) 0)"
    by (simp_all add: dec_wf_def dec_new_def int_range_defs)
  then show ?thesis
    by (simp add: dec_cmp_saturated) (simp add: dec_new_def sat_i128_def cmp_by_def i128_consts)
qed

text \<open>addition and subtraction of market-sized decimals succeed and are exact.\<close>

theorem add_sub_exact:
  assumes "dec_small a" and "dec_small b"
  shows "\<exists>c d. checked_add a b = Inr c \<and> dec_rat c = dec_rat a + dec_rat b \<and>
               checked_sub a b = Inr d \<and> dec_rat d = dec_rat a - dec_rat b"
  using checked_add_exact [OF assms] by blast

theorem add_sub_exact_witness:
  "dec_small (dec_new 15 1) \<and> dec_small (dec_new 225 2) \<and>
   (\<exists>c d. checked_add (dec_new 15 1) (dec_new 225 2) = Inr c \<and> dec_rat c = 15 / 4 \<and>
          checked_sub (dec_new 15 1) (dec_new 225 2) = Inr d \<and> dec_rat d = - (3 / 4))"
proof -
  have s: "dec_small (dec_new 15 1)" "dec_small (dec_new 225 2)"
    by (simp_all add: dec_small_def dec_new_def)
  have "dec_rat (dec_new 15 1) + dec_rat (dec_new 225 2) = 15 / 4"
    "dec_rat (dec_new 15 1) - dec_rat (dec_new 225 2) = - (3 / 4)"
    by (simp_all add: dec_rat_def dec_new_def)
  with add_sub_exact [OF s] s show ?thesis by metis
qed

text \<open>\<open>checked_add\<close> checks the alignment but not the sum itself: in the release build the sum of
  two aligned values wraps around, and \<open>Ok\<close> carries a negative number.\<close>

theorem checked_add_wraps:
  "checked_add (dec_new i128_max 0) dec_one = Inr (dec_new i128_min 0)"
  by (simp add: checked_add_def align_value_def u32_checked_sub_def pow10_eq i128_checked_mul_def
      in_i128_def i128_consts dec_new_def dec_one_def wrap_i128_def)

text \<open>a successful division has the requested scale, is less than one unit of that scale away
  from the exact quotient, and is rounded towards zero.\<close>

theorem div_to_scale_correct:
  assumes "div_to_scale a b n = Inr c"
  shows "dec_scale c = n \<and> \<bar>dec_rat c - dec_rat a / dec_rat b\<bar> < 1 / 10 ^ n \<and>
         \<bar>dec_rat c\<bar> \<le> \<bar>dec_rat a / dec_rat b\<bar>"
  using div_to_scale_approx [OF assms] by simp

theorem div_to_scale_correct_witness:
  "div_to_scale (dec_new 10000000 2) (dec_new 5000000 2) 8 = Inr (dec_new 200000000 8) \<and>
   \<bar>dec_rat (dec_new 200000000 8) - dec_rat (dec_new 10000000 2) / dec_rat (dec_new 5000000 2)\<bar> < 1 / 10 ^ 8"
proof -
  have "div_to_scale (dec_new 10000000 2) (dec_new 5000000 2) 8 = Inr (dec_new 200000000 8)"
    by (simp add: div_to_scale_def pow10_eq i128_checked_mul_def in_i128_def i128_consts dec_new_def
        i128_div_def)
  then show ?thesis using div_to_scale_correct by blast
qed

text \<open>the same for multiplication, on both branches (scaling up is exact, scaling down truncates).\<close>

theorem mul_to_scale_correct:
  assumes "mul_to_scale a b n = Inr c"
  shows "dec_scale c = n \<and> \<bar>dec_rat c - dec_rat a * dec_rat b\<bar> < 1 / 10 ^ n \<and>
         \<bar>dec_rat c\<bar> \<le> \<bar>dec_rat a * dec_rat b\<bar>"
  using mul_to_scale_approx [OF assms] by simp

theorem mul_to_scale_correct_witness:
  "mul_to_scale (dec_new 5000000 2) (dec_new 200000000 8) 8 = Inr (dec_new 10000000000000 8) \<and>
   \<bar>dec_rat (dec_new 10000000000000 8) - dec_rat (dec_new 5000000 2) * dec_rat (dec_new 200000000 8)\<bar> < 1 / 10 ^ 8"
proof -
  have "mul_to_scale (dec_new 5000000 2) (dec_new 200000000 8) 8 = Inr (dec_new 10000000000000 8)"
    by (simp add: mul_to_scale_def pow10_eq i128_checked_mul_def in_i128_def i128_consts dec_new_def
        u32_checked_add_def u32_max_def)
  then show ?thesis using mul_to_scale_correct by blast
qed

text \<open>parsing is exact: digits, a point and digits denote the number they spell, with the
  fraction's length as the scale; and whatever is accepted is within \<open>i128\<close>/\<open>u32\<close> and was built
  from digits, points and signs only.\<close>

theorem parse_exact:
  assumes "w \<noteq> []" and "list_all is_ascii_digit w" and "f \<noteq> []" and "list_all is_ascii_digit f"
    and "int (digits_val (w @ f)) \<le> i128_max" and "length f \<le> u32_max"
  shows "\<exists>d. parse_unsigned (w @ ''.'' @ f) = Inr d \<and> dec_scale d = length f \<and>
             dec_rat d = of_nat (digits_val w) + of_nat (digits_val f) / 10 ^ length f"
proof -
  have "from_str (w @ ''.'' @ f) = Inr \<lparr>dec_value = int (digits_val (w @ f)), dec_scale = length f\<rparr>"
    using from_str_whole_fraction [OF assms] by simp
  then have "parse_unsigned (w @ ''.'' @ f) =
      Inr \<lparr>dec_value = int (digits_val (w @ f)), dec_scale = length f\<rparr>"
    unfolding parse_unsigned_def by simp
  then show ?thesis
    by (simp add: dec_rat_def digits_val_append add_divide_distrib)
qed

theorem parse_exact_witness:
  "\<exists>d. parse_unsigned (''123'' @ ''.'' @ ''45'') = Inr d \<and> dec_scale d = length ''45'' \<and>
       dec_rat d = 123 + 45 / 10 ^ 2"
  using parse_exact [of "''123''" "''45''"]
  by (simp add: is_ascii_digit_def digits_val_def digit_val_def i128_consts u32_max_def)

text \<open>whatever the parser accepts satisfies the type invariant, and it accepts no character
  other than digits, the point and the sign after trimming; \<open>parse_unsigned\<close> never returns a
  negative decimal.\<close>

theorem parse_sound:
  assumes "parse_unsigned s = Inr d"
  shows "dec_wf d \<and> 0 \<le> dec_value d \<and>
         (\<forall>c \<in> set (trim s). is_ascii_digit c \<or> c = CHR ''.'' \<or> c = CHR ''-'')"
  using parse_unsigned_Inr [OF assms] from_str_chars by blast

theorem parse_sound_witness:
  "parse_unsigned '' 0.99 '' = Inr (dec_new 99 2) \<and> dec_wf (dec_new 99 2)"
proof -
  have "parse_unsigned '' 0.99 '' = Inr (dec_new 99 2)"
    by (simp add: parse_unsigned_def from_str_def trim_def is_ws_def is_ascii_digit_def parse_i128_def
        parse_signed_def digits_val_def digit_val_def i128_consts u32_max_def dec_new_def)
  with parse_sound show ?thesis by blast
qed

text \<open>the JSON wire form (value as a decimal string, scale as a number) round-trips.\<close>

theorem wire_roundtrip:
  assumes "dec_wf d"
  shows "deserialize_dec (serialize_dec d) = Some d"
  using assms by (simp add: deserialize_dec_def serialize_dec_def parse_i128_show dec_wf_def)

theorem wire_roundtrip_witness:
  "deserialize_dec (serialize_dec (dec_new (- 12345) 2)) = Some (dec_new (- 12345) 2)"
  by (rule wire_roundtrip) (simp add: dec_wf_def dec_new_def int_range_defs)

end
