(* ===== verification/Depth_Sync.thy ===== *)
theory Depth_Sync
  imports Fixed_Decimal
begin

text \<open>
  \<open>crates/crypto-market-data/src/depth_sync\<close> with the message and statistics types it uses: the
  local order book per symbol, kept in step with Binance's diff-depth stream. A book is either
  buffering (no \<open>last_update_id\<close>) or synced; a REST snapshot turns it from the first state into the
  second, a sequence gap or an unparsable level turns it back. The HTTP client and URL parser are
  parameters; everything else is translated function by function. The lemmas give the book's
  invariant, its refinement of an abstract price map, and the gap-freedom of every replay.
\<close>

section \<open>Messages, errors and statistics\<close>

type_synonym raw_level = "string \<times> string"

record diff_depth_message =
  ddm_symbol :: string
  first_update_id :: u64
  final_update_id :: u64
  ddm_bids :: "raw_level list"
  ddm_asks :: "raw_level list"

record order_book_snapshot =
  snap_last_update_id :: u64
  snap_bids :: "raw_level list"
  snap_asks :: "raw_level list"

record gap_alert =
  gap_type :: string
  gap_symbol :: string
  detected_at_ms :: timestamp_ms
  expected_sequence_id :: "u64 option"
  observed_sequence_id :: "u64 option"
  heal_action :: string
  heal_status :: string

datatype market_data_error =
    JsonError string
  | DomainErr domain_error
  | HttpError string
  | WebSocketError string
  | UnknownSymbol string
  | InvalidMessage string

definition market_data_error_display :: "market_data_error \<Rightarrow> string" where
  "market_data_error_display e = (case e of
     JsonError error \<Rightarrow> ''json error: '' @ error
   | DomainErr error \<Rightarrow> ''domain error: '' @ domain_error_display error
   | HttpError error \<Rightarrow> ''http error: '' @ error
   | WebSocketError error \<Rightarrow> ''websocket error: '' @ error
   | UnknownSymbol symbol \<Rightarrow> ''unknown symbol: '' @ symbol
   | InvalidMessage message \<Rightarrow> ''invalid market data message: '' @ message)"

record local_order_book =
  last_update_id :: "u64 option"
  bids :: "(fixed_decimal, fixed_decimal) btree"
  asks :: "(fixed_decimal, fixed_decimal) btree"
  buffered_events :: "diff_depth_message list"

definition default_book :: local_order_book where
  "default_book = \<lparr>last_update_id = None, bids = [], asks = [], buffered_events = []\<rparr>"

definition MAX_BUFFERED_EVENTS :: nat where
  "MAX_BUFFERED_EVENTS = 1000"

definition is_synced :: "local_order_book \<Rightarrow> bool" where
  "is_synced book \<longleftrightarrow> last_update_id book \<noteq> None"

definition reset_for_resync :: "local_order_book \<Rightarrow> diff_depth_message \<Rightarrow> local_order_book" where
  "reset_for_resync book event =
     book\<lparr>last_update_id := None, bids := [], asks := [], buffered_events := [event]\<rparr>"

definition reset_after_overflow :: "local_order_book \<Rightarrow> local_order_book" where
  "reset_after_overflow book =
     book\<lparr>last_update_id := None, bids := [], asks := [], buffered_events := []\<rparr>"

definition buffered_at_capacity :: "local_order_book \<Rightarrow> bool" where
  "buffered_at_capacity book \<longleftrightarrow> length (buffered_events book) \<ge> MAX_BUFFERED_EVENTS"

text \<open>\<open>BTreeMap<String, _>\<close>: strings compare lexicographically.\<close>

type_synonym 'v str_map = "(string, 'v) btree"

abbreviation str_cmp :: "string \<Rightarrow> string \<Rightarrow> ordering" where
  "str_cmp \<equiv> cmp_by id"

record ingest_watch_stats =
  stream_url :: string
  planned_stream_count :: nat
  received_messages :: nat
  parsed_messages :: nat
  malformed_messages :: nat
  control_messages :: nat
  pings_received :: nat
  pongs_received :: nat
  close_messages :: nat
  kind_counts :: "nat str_map"
  symbol_counts :: "nat str_map"
  normalized_market_snapshots :: nat
  normalized_depth_snapshots :: nat
  normalization_errors :: nat
  sequence_anomalies :: nat
  source_health_status :: string
  source_health_events :: nat
  depth_delta_messages :: nat
  depth_snapshot_requests :: nat
  depth_snapshot_successes :: nat
  depth_snapshot_failures :: nat
  depth_books_synced :: nat
  depth_books_buffering :: nat
  buffer_overflow_count :: nat
  gap_alert_count :: nat
  recent_gap_alerts :: "gap_alert list"

definition stats_new :: "string \<Rightarrow> nat \<Rightarrow> ingest_watch_stats" where
  "stats_new url planned =
     \<lparr>stream_url = url, planned_stream_count = planned, received_messages = 0,
      parsed_messages = 0, malformed_messages = 0, control_messages = 0, pings_received = 0,
      pongs_received = 0, close_messages = 0, kind_counts = [], symbol_counts = [],
      normalized_market_snapshots = 0, normalized_depth_snapshots = 0, normalization_errors = 0,
      sequence_anomalies = 0, source_health_status = ''connected'', source_health_events = 1,
      depth_delta_messages = 0, depth_snapshot_requests = 0, depth_snapshot_successes = 0,
      depth_snapshot_failures = 0, depth_books_synced = 0, depth_books_buffering = 0,
      buffer_overflow_count = 0, gap_alert_count = 0, recent_gap_alerts = []\<rparr>"

definition update_depth_book_counts ::
    "local_order_book str_map \<Rightarrow> ingest_watch_stats \<Rightarrow> ingest_watch_stats" where
  "update_depth_book_counts books stats =
     (let synced = length (filter is_synced (bt_values books))
      in stats\<lparr>depth_books_synced := synced, depth_books_buffering := length books - synced\<rparr>)"

definition record_gap_alert :: "gap_alert \<Rightarrow> ingest_watch_stats \<Rightarrow> ingest_watch_stats" where
  "record_gap_alert alert stats =
     (let pushed = recent_gap_alerts stats @ [alert]
      in stats\<lparr>gap_alert_count := gap_alert_count stats + 1,
               recent_gap_alerts := (if length pushed > 20 then tl pushed else pushed)\<rparr>)"

section \<open>Applying levels (book.rs)\<close>

definition depth_level_parse_alert ::
    "string \<Rightarrow> string \<Rightarrow> string \<Rightarrow> string \<Rightarrow> u64 \<Rightarrow> gap_alert" where
  "depth_level_parse_alert side field value reason observed =
     \<lparr>gap_type = ''depth_level_parse_failed'', gap_symbol = [], detected_at_ms = 0,
      expected_sequence_id = None, observed_sequence_id = Some observed,
      heal_action = ''refetch_snapshot'',
      heal_status = ''side='' @ side @ '' field='' @ field @ '' value='' @ value @ '' reason='' @ reason\<rparr>"

fun parse_level_updates ::
    "raw_level list \<Rightarrow> string \<Rightarrow> diff_depth_message \<Rightarrow>
     ((fixed_decimal \<times> fixed_decimal) list, gap_alert) result" where
  "parse_level_updates [] side event = Inr []"
| "parse_level_updates ((price_str, quantity_str) # levels) side event =
     and_then (map_err (\<lambda>error. depth_level_parse_alert side ''price'' price_str
                 (domain_error_display error) (first_update_id event)) (parse_unsigned price_str)) (\<lambda>price.
     and_then (map_err (\<lambda>error. depth_level_parse_alert side ''quantity'' quantity_str
                 (domain_error_display error) (first_update_id event)) (parse_unsigned quantity_str)) (\<lambda>quantity.
     and_then (parse_level_updates levels side event) (\<lambda>parsed.
     Inr ((price, quantity) # parsed))))"

fun apply_parsed_level_updates ::
    "(fixed_decimal, fixed_decimal) btree \<Rightarrow> (fixed_decimal \<times> fixed_decimal) list \<Rightarrow>
     (fixed_decimal, fixed_decimal) btree" where
  "apply_parsed_level_updates book_side [] = book_side"
| "apply_parsed_level_updates book_side ((price, quantity) # levels) =
     apply_parsed_level_updates
       (if is_positive quantity then bt_insert dec_cmp price quantity book_side
        else bt_remove dec_cmp price book_side) levels"

definition apply_depth_delta ::
    "local_order_book \<Rightarrow> diff_depth_message \<Rightarrow> local_order_book \<times> (unit, gap_alert) result" where
  "apply_depth_delta book event =
     (case parse_level_updates (ddm_bids event) ''bid'' event of
        Inl alert \<Rightarrow> (book, Inl alert)
      | Inr bid_updates \<Rightarrow>
        (case parse_level_updates (ddm_asks event) ''ask'' event of
           Inl alert \<Rightarrow> (book, Inl alert)
         | Inr ask_updates \<Rightarrow>
           (book\<lparr>bids := apply_parsed_level_updates (bids book) bid_updates,
                 asks := apply_parsed_level_updates (asks book) ask_updates,
                 last_update_id := Some (final_update_id event)\<rparr>, Inr ())))"

fun parse_snapshot_levels_from ::
    "(fixed_decimal, fixed_decimal) btree \<Rightarrow> raw_level list \<Rightarrow>
     ((fixed_decimal, fixed_decimal) btree, string) result" where
  "parse_snapshot_levels_from parsed [] = Inr parsed"
| "parse_snapshot_levels_from parsed ((price_str, quantity_str) # levels) =
     and_then (map_err (\<lambda>error. ''invalid snapshot price '' @ price_str @ '': '' @ domain_error_display error)
                 (parse_unsigned price_str)) (\<lambda>price.
     and_then (map_err (\<lambda>error. ''invalid snapshot quantity '' @ quantity_str @ '': '' @ domain_error_display error)
                 (parse_unsigned quantity_str)) (\<lambda>quantity.
     parse_snapshot_levels_from
       (if is_positive quantity then bt_insert dec_cmp price quantity parsed else parsed) levels))"

definition parse_snapshot_levels ::
    "raw_level list \<Rightarrow> ((fixed_decimal, fixed_decimal) btree, string) result" where
  "parse_snapshot_levels levels = parse_snapshot_levels_from [] levels"

definition snapshot_parse_alert :: "string \<Rightarrow> gap_alert" where
  "snapshot_parse_alert reason =
     \<lparr>gap_type = ''snapshot_parse_failed'', gap_symbol = [], detected_at_ms = 0,
      expected_sequence_id = None, observed_sequence_id = None,
      heal_action = ''refetch_snapshot'', heal_status = reason\<rparr>"

definition sequence_mismatch_alert :: "string \<Rightarrow> u64 \<Rightarrow> u64 \<Rightarrow> gap_alert" where
  "sequence_mismatch_alert kind expected observed =
     \<lparr>gap_type = kind, gap_symbol = [], detected_at_ms = 0,
      expected_sequence_id = Some expected, observed_sequence_id = Some observed,
      heal_action = ''refetch_snapshot'', heal_status = ''pending''\<rparr>"

text \<open>The loop over the buffered events; the book's buffer has been taken, so it starts empty.\<close>

fun replay_buffered ::
    "local_order_book \<Rightarrow> diff_depth_message list \<Rightarrow> local_order_book \<times> (unit, gap_alert) result" where
  "replay_buffered book [] = (book, Inr ())"
| "replay_buffered book (event # events) =
     (let apply_it = (case apply_depth_delta book event of
                        (book', Inl alert) \<Rightarrow> (reset_after_overflow book', Inl alert)
                      | (book', Inr _) \<Rightarrow> replay_buffered book' events)
      in case last_update_id book of
           None \<Rightarrow> apply_it
         | Some l \<Rightarrow>
             if final_update_id event \<le> l then replay_buffered book events
             else if first_update_id event > l + 1
             then (book\<lparr>buffered_events := buffered_events book @ [event]\<rparr>,
                   Inl (sequence_mismatch_alert ''buffered_sequence_gap'' (l + 1) (first_update_id event)))
             else apply_it)"

definition sync_depth_book_from_snapshot ::
    "local_order_book \<Rightarrow> order_book_snapshot \<Rightarrow> local_order_book \<times> (unit, gap_alert) result" where
  "sync_depth_book_from_snapshot book0 snapshot =
     (let last = snap_last_update_id snapshot;
          book1 = book0\<lparr>last_update_id := Some last\<rparr>
      in case parse_snapshot_levels (snap_bids snapshot) of
           Inl reason \<Rightarrow> (book1, Inl (snapshot_parse_alert reason))
         | Inr new_bids \<Rightarrow>
           (let book2 = book1\<lparr>bids := new_bids\<rparr>
            in case parse_snapshot_levels (snap_asks snapshot) of
                 Inl reason \<Rightarrow> (book2, Inl (snapshot_parse_alert reason))
               | Inr new_asks \<Rightarrow>
                 (let kept = filter (\<lambda>event. final_update_id event > last) (buffered_events book0);
                      book3 = book2\<lparr>asks := new_asks, buffered_events := kept\<rparr>
                  in case kept of
                       [] \<Rightarrow> (book3, Inr ())
                     | first_event # _ \<Rightarrow>
                         if first_update_id first_event > last + 1
                         then (book3, Inl (sequence_mismatch_alert ''snapshot_alignment_gap'' (last + 1)
                                             (first_update_id first_event)))
                         else replay_buffered (book3\<lparr>buffered_events := []\<rparr>) kept)))"

section \<open>The snapshot request (sync/snapshot.rs)\<close>

text \<open>\<open>reqwest::Url\<close> as the components the source reads; \<open>url_parse\<close>, the query-pair encoder and the
  GET request are parameters.\<close>

record parsed_url =
  url_scheme :: string
  url_host :: "string option"
  url_username :: string
  url_password :: "string option"
  url_query :: "string option"
  url_fragment :: "string option"
  url_as_str :: string

record depth_sync_settings =
  rest_base_url :: string
  snapshot_limit :: nat

definition trim_end_slashes :: "string \<Rightarrow> string" where
  "trim_end_slashes s = rev (dropWhile (\<lambda>c. c = CHR ''/'') (rev s))"

definition validate_base_url :: "string \<Rightarrow> string \<Rightarrow> parsed_url \<Rightarrow> (unit, market_data_error) result" where
  "validate_base_url label scheme base =
     (if url_scheme base \<noteq> scheme then Inl (InvalidMessage (label @ '' must use '' @ scheme))
      else if url_host base = None then Inl (InvalidMessage (label @ '' must include a host''))
      else if url_username base \<noteq> [] \<or> url_password base \<noteq> None
      then Inl (InvalidMessage (label @ '' must not include credentials''))
      else if url_query base \<noteq> None \<or> url_fragment base \<noteq> None
      then Inl (InvalidMessage (label @ '' must not include query or fragment components''))
      else Inr ())"

definition validate_binance_depth_rest_base_url :: "parsed_url \<Rightarrow> (unit, market_data_error) result" where
  "validate_binance_depth_rest_base_url base =
     validate_base_url ''Binance depth REST base URL'' ''https'' base"

definition binance_depth_snapshot_url ::
    "(string \<Rightarrow> (parsed_url, string) result) \<Rightarrow> (parsed_url \<Rightarrow> (string \<times> string) list \<Rightarrow> parsed_url) \<Rightarrow>
     depth_sync_settings \<Rightarrow> string \<Rightarrow> (parsed_url, market_data_error) result" where
  "binance_depth_snapshot_url url_parse append_pairs depth_sync raw_symbol =
     and_then (map_err (\<lambda>error. InvalidMessage (''invalid Binance depth REST base URL: '' @ error))
                 (url_parse (trim (rest_base_url depth_sync)))) (\<lambda>base.
     and_then (validate_binance_depth_rest_base_url base) (\<lambda>_.
     and_then (map_err (\<lambda>error. InvalidMessage (''invalid Binance depth REST URL: '' @ error))
                 (url_parse (trim_end_slashes (url_as_str base) @ ''/api/v3/depth''))) (\<lambda>url.
     Inr (append_pairs url [(''symbol'', raw_symbol), (''limit'', show_nat (snapshot_limit depth_sync))]))))"

definition fetch_binance_depth_snapshot ::
    "(string \<Rightarrow> (parsed_url, string) result) \<Rightarrow> (parsed_url \<Rightarrow> (string \<times> string) list \<Rightarrow> parsed_url) \<Rightarrow>
     (parsed_url \<Rightarrow> (order_book_snapshot, market_data_error) result) \<Rightarrow> depth_sync_settings \<Rightarrow> string \<Rightarrow>
     (order_book_snapshot, market_data_error) result" where
  "fetch_binance_depth_snapshot url_parse append_pairs http_get depth_sync raw_symbol =
     and_then (binance_depth_snapshot_url url_parse append_pairs depth_sync raw_symbol) http_get"

section \<open>Handling events (sync.rs, sync/event.rs, sync/alerts.rs, sync/snapshot.rs)\<close>

record depth_state =
  ds_books :: "local_order_book str_map"
  ds_attempted :: "string set"
  ds_stats :: ingest_watch_stats

definition record_sequence_gap ::
    "string \<Rightarrow> timestamp_ms \<Rightarrow> u64 \<Rightarrow> u64 \<Rightarrow> ingest_watch_stats \<Rightarrow> ingest_watch_stats" where
  "record_sequence_gap raw_symbol received_time_ms expected observed stats =
     record_gap_alert
       \<lparr>gap_type = ''sequence_gap'', gap_symbol = raw_symbol, detected_at_ms = received_time_ms,
        expected_sequence_id = Some expected, observed_sequence_id = Some observed,
        heal_action = ''refetch_snapshot'', heal_status = ''resync_requested''\<rparr> stats"

definition record_delta_parse_gap ::
    "string \<Rightarrow> timestamp_ms \<Rightarrow> gap_alert \<Rightarrow> ingest_watch_stats \<Rightarrow> ingest_watch_stats" where
  "record_delta_parse_gap raw_symbol received_time_ms alert stats =
     record_gap_alert (alert\<lparr>gap_symbol := raw_symbol, detected_at_ms := received_time_ms\<rparr>) stats"

definition record_snapshot_fetch_failure ::
    "string \<Rightarrow> timestamp_ms \<Rightarrow> market_data_error \<Rightarrow> ingest_watch_stats \<Rightarrow> ingest_watch_stats" where
  "record_snapshot_fetch_failure raw_symbol received_time_ms error stats =
     record_gap_alert
       \<lparr>gap_type = ''snapshot_fetch_failed'', gap_symbol = raw_symbol,
        detected_at_ms = received_time_ms, expected_sequence_id = None, observed_sequence_id = None,
        heal_action = ''retry_snapshot'', heal_status = ''failed: '' @ market_data_error_display error\<rparr>
       (stats\<lparr>depth_snapshot_failures := depth_snapshot_failures stats + 1\<rparr>)"

definition handle_synced_depth_event ::
    "local_order_book \<Rightarrow> diff_depth_message \<Rightarrow> string \<Rightarrow> timestamp_ms \<Rightarrow> string set \<Rightarrow>
     ingest_watch_stats \<Rightarrow> local_order_book \<times> string set \<times> ingest_watch_stats" where
  "handle_synced_depth_event book event raw_symbol received_time_ms attempted stats =
     (case last_update_id book of
        None \<Rightarrow> (book, attempted, stats)
      | Some l \<Rightarrow>
          if final_update_id event \<le> l then (book, attempted, stats)
          else if first_update_id event > l + 1
          then (reset_for_resync book event, attempted - {raw_symbol},
                record_sequence_gap raw_symbol received_time_ms (l + 1) (first_update_id event) stats)
          else (case apply_depth_delta book event of
                  (book', Inl alert) \<Rightarrow>
                    (reset_after_overflow book', attempted - {raw_symbol},
                     record_delta_parse_gap raw_symbol received_time_ms alert stats)
                | (book', Inr _) \<Rightarrow> (book', attempted, stats)))"

definition buffer_unsynced_depth_event ::
    "local_order_book \<Rightarrow> diff_depth_message \<Rightarrow> string \<Rightarrow> timestamp_ms \<Rightarrow> string set \<Rightarrow>
     ingest_watch_stats \<Rightarrow> local_order_book \<times> string set \<times> ingest_watch_stats" where
  "buffer_unsynced_depth_event book event raw_symbol received_time_ms attempted stats =
     (let (book', attempted', stats') =
        (if buffered_at_capacity book
         then (let dropped_count = length (buffered_events book)
               in (reset_after_overflow book, attempted - {raw_symbol},
                   record_gap_alert
                     \<lparr>gap_type = ''buffered_overflow'', gap_symbol = raw_symbol,
                      detected_at_ms = received_time_ms, expected_sequence_id = None,
                      observed_sequence_id = Some (first_update_id event),
                      heal_action = ''refetch_snapshot'',
                      heal_status = ''dropped_count='' @ show_nat dropped_count\<rparr>
                     (stats\<lparr>buffer_overflow_count := buffer_overflow_count stats + 1\<rparr>)))
         else (book, attempted, stats))
      in (book'\<lparr>buffered_events := buffered_events book' @ [event]\<rparr>, attempted', stats'))"

definition should_fetch_snapshot ::
    "local_order_book str_map \<Rightarrow> string set \<Rightarrow> string \<Rightarrow> bool \<times> string set" where
  "should_fetch_snapshot books attempted raw_symbol =
     (case bt_get str_cmp raw_symbol books of
        Some book \<Rightarrow> if is_synced book then (False, attempted)
                     else (raw_symbol \<notin> attempted, insert raw_symbol attempted)
      | None \<Rightarrow> (False, attempted))"

definition sync_fetched_snapshot ::
    "string \<Rightarrow> timestamp_ms \<Rightarrow> order_book_snapshot \<Rightarrow> depth_state \<Rightarrow> depth_state" where
  "sync_fetched_snapshot raw_symbol received_time_ms snapshot st0 =
     (let stats1 = (ds_stats st0)\<lparr>depth_snapshot_successes := depth_snapshot_successes (ds_stats st0) + 1\<rparr>;
          st = st0\<lparr>ds_stats := stats1\<rparr>
      in case bt_get str_cmp raw_symbol (ds_books st) of
           None \<Rightarrow> st
         | Some book \<Rightarrow>
           (case sync_depth_book_from_snapshot book snapshot of
              (book', Inl alert) \<Rightarrow>
                st\<lparr>ds_books := bt_insert str_cmp raw_symbol book' (ds_books st),
                   ds_stats := record_delta_parse_gap raw_symbol received_time_ms alert stats1,
                   ds_attempted := ds_attempted st - {raw_symbol}\<rparr>
            | (book', Inr _) \<Rightarrow>
                st\<lparr>ds_books := bt_insert str_cmp raw_symbol book' (ds_books st)\<rparr>))"

text \<open>\<open>fetch\<close> stands for \<open>fetch_binance_depth_snapshot\<close> behind the HTTP client.\<close>

definition fetch_and_sync_snapshot ::
    "(string \<Rightarrow> (order_book_snapshot, market_data_error) result) \<Rightarrow> string \<Rightarrow> timestamp_ms \<Rightarrow>
     depth_state \<Rightarrow> depth_state" where
  "fetch_and_sync_snapshot fetch raw_symbol received_time_ms st =
     (let stats1 = (ds_stats st)\<lparr>depth_snapshot_requests := depth_snapshot_requests (ds_stats st) + 1\<rparr>;
          st1 = st\<lparr>ds_stats := stats1\<rparr>
      in case fetch raw_symbol of
           Inr snapshot \<Rightarrow> sync_fetched_snapshot raw_symbol received_time_ms snapshot st1
         | Inl error \<Rightarrow>
             st1\<lparr>ds_stats := record_snapshot_fetch_failure raw_symbol received_time_ms error stats1\<rparr>)"

definition handle_diff_depth_event ::
    "(string \<Rightarrow> (order_book_snapshot, market_data_error) result) \<Rightarrow> diff_depth_message \<Rightarrow>
     timestamp_ms \<Rightarrow> depth_state \<Rightarrow> depth_state" where
  "handle_diff_depth_event fetch event received_time_ms st =
     (let raw_symbol = to_ascii_uppercase (ddm_symbol event);
          book = (case bt_get str_cmp raw_symbol (ds_books st) of
                    Some b \<Rightarrow> b | None \<Rightarrow> default_book);
          (book', attempted', stats') =
            (if is_synced book
             then handle_synced_depth_event book event raw_symbol received_time_ms (ds_attempted st) (ds_stats st)
             else buffer_unsynced_depth_event book event raw_symbol received_time_ms (ds_attempted st) (ds_stats st));
          books' = bt_insert str_cmp raw_symbol book' (ds_books st);
          (fetch_now, attempted'') = should_fetch_snapshot books' attempted' raw_symbol;
          st' = st\<lparr>ds_books := books', ds_attempted := attempted'', ds_stats := stats'\<rparr>
      in if fetch_now then fetch_and_sync_snapshot fetch raw_symbol received_time_ms st' else st')"

section \<open>The invariant of one side of the book\<close>

definition side_wf :: "(fixed_decimal, fixed_decimal) btree \<Rightarrow> bool" where
  "side_wf m \<longleftrightarrow> bt_wf dec_rat dec_small m \<and> (\<forall>q \<in> snd ` set m. is_positive q)"

text \<open>Every price that parses is market-sized.\<close>

definition prices_small :: "raw_level list \<Rightarrow> bool" where
  "prices_small levels \<longleftrightarrow>
     list_all (\<lambda>(p, q). case parse_unsigned p of Inr d \<Rightarrow> dec_small d | Inl _ \<Rightarrow> True) levels"

definition event_small :: "diff_depth_message \<Rightarrow> bool" where
  "event_small e \<longleftrightarrow> prices_small (ddm_bids e) \<and> prices_small (ddm_asks e)"

definition snapshot_small :: "order_book_snapshot \<Rightarrow> bool" where
  "snapshot_small s \<longleftrightarrow> prices_small (snap_bids s) \<and> prices_small (snap_asks s)"

text \<open>The contract of a level update, on the map from numeric price to quantity.\<close>

definition spec_update ::
    "(rat \<rightharpoonup> fixed_decimal) \<Rightarrow> fixed_decimal \<times> fixed_decimal \<Rightarrow> (rat \<rightharpoonup> fixed_decimal)" where
  "spec_update M u = (case u of (price, quantity) \<Rightarrow>
     if is_positive quantity then M(dec_rat price \<mapsto> quantity) else M(dec_rat price := None))"

lemma side_wf_Nil [simp]: "side_wf []"
  by (simp add: side_wf_def)

lemma side_wf_insert: "side_wf m \<Longrightarrow> dec_small p \<Longrightarrow> is_positive q \<Longrightarrow> side_wf (bt_insert dec_cmp p q m)"
  using bt_values_insert [of dec_cmp p q m] unfolding side_wf_def by (blast intro: price.wf_insert)

lemma side_wf_remove: "side_wf m \<Longrightarrow> side_wf (bt_remove dec_cmp p m)"
  using bt_values_remove [of dec_cmp p m] unfolding side_wf_def by (blast intro: price.wf_remove)

lemma parse_level_updates_small:
  "parse_level_updates levels side e = Inr ups \<Longrightarrow> prices_small levels \<Longrightarrow>
     \<forall>(p, q) \<in> set ups. dec_small p"
proof (induction levels side e arbitrary: ups rule: parse_level_updates.induct)
  case (2 price_str quantity_str levels side event)
  from 2(2) obtain p q ps where ups: "ups = (p, q) # ps" and p: "parse_unsigned price_str = Inr p"
    and q: "parse_unsigned quantity_str = Inr q" and rest: "parse_level_updates levels side event = Inr ps"
    by auto
  from 2(3) have "prices_small levels" "dec_small p" by (auto simp: prices_small_def p)
  with 2(1) [OF rest] show ?case by (auto simp: ups)
qed simp

lemma apply_parsed_wf:
  "side_wf m \<Longrightarrow> \<forall>(p, q) \<in> set ups. dec_small p \<Longrightarrow> side_wf (apply_parsed_level_updates m ups)"
  by (induction m ups rule: apply_parsed_level_updates.induct)
    (auto simp: side_wf_insert side_wf_remove)

lemma apply_parsed_refines:
  "side_wf m \<Longrightarrow> \<forall>(p, q) \<in> set ups. dec_small p \<Longrightarrow>
     bt_map dec_rat (apply_parsed_level_updates m ups) = foldl spec_update (bt_map dec_rat m) ups"
proof (induction m ups rule: apply_parsed_level_updates.induct)
  case (2 m p q ups)
  then have "dec_small p" "bt_wf dec_rat dec_small m" by (auto simp: side_wf_def)
  moreover have "side_wf (if is_positive q then bt_insert dec_cmp p q m else bt_remove dec_cmp p m)"
    using 2 by (simp add: side_wf_insert side_wf_remove)
  ultimately show ?case
    using 2 by (auto simp: spec_update_def price.map_insert price.map_remove)
qed simp

lemma parse_snapshot_levels_from_wf:
  "parse_snapshot_levels_from m levels = Inr m' \<Longrightarrow> side_wf m \<Longrightarrow> prices_small levels \<Longrightarrow> side_wf m'"
proof (induction m levels arbitrary: m' rule: parse_snapshot_levels_from.induct)
  case (2 m price_str quantity_str levels)
  from 2(2) obtain p q where p: "parse_unsigned price_str = Inr p" and q: "parse_unsigned quantity_str = Inr q"
    and rest: "parse_snapshot_levels_from (if is_positive q then bt_insert dec_cmp p q m else m) levels = Inr m'"
    by auto
  from 2(4) have "prices_small levels" "dec_small p" by (auto simp: prices_small_def p)
  with 2(1) [OF rest] 2(3) side_wf_insert show ?case by auto
qed simp

section \<open>Replaying buffered events\<close>

text \<open>The events a replay from update \<open>l\<close> uses: those not already covered when their turn comes.\<close>

fun relevant :: "u64 \<Rightarrow> diff_depth_message list \<Rightarrow> diff_depth_message list" where
  "relevant l [] = []"
| "relevant l (e # es) =
     (if final_update_id e \<le> l then relevant l es else e # relevant (final_update_id e) es)"

text \<open>No update id is skipped between \<open>l\<close> and the events, in their order.\<close>

fun gap_free :: "u64 \<Rightarrow> diff_depth_message list \<Rightarrow> bool" where
  "gap_free l [] \<longleftrightarrow> True"
| "gap_free l (e # es) \<longleftrightarrow>
     l < final_update_id e \<and> unat (first_update_id e) \<le> unat l + 1 \<and> gap_free (final_update_id e) es"

definition event_parses :: "diff_depth_message \<Rightarrow> bool" where
  "event_parses e \<longleftrightarrow> \<not> is_err (parse_level_updates (ddm_bids e) ''bid'' e)
                   \<and> \<not> is_err (parse_level_updates (ddm_asks e) ''ask'' e)"

definition apply_deltas :: "local_order_book \<Rightarrow> diff_depth_message list \<Rightarrow> local_order_book" where
  "apply_deltas b es = foldl (\<lambda>b e. fst (apply_depth_delta b e)) b es"

lemma succ_no_wrap: "l < (m :: u64) \<Longrightarrow> unat (l + 1) = unat l + 1"
  using unsigned_less [of m, where 'a = nat] by (simp add: word_less_nat_alt unat_word_ariths)

lemma apply_depth_delta_cases:
  obtains (applied) "event_parses e" and "snd (apply_depth_delta b e) = Inr ()"
      and "last_update_id (fst (apply_depth_delta b e)) = Some (final_update_id e)"
      and "buffered_events (fst (apply_depth_delta b e)) = buffered_events b"
  | (failed) alert where "\<not> event_parses e" and "apply_depth_delta b e = (b, Inl alert)"
      and "gap_type alert = ''depth_level_parse_failed''"
proof -
  have gt: "gap_type a = ''depth_level_parse_failed''"
    if "parse_level_updates ls side e = Inl a" for ls side a
    using that by (induction ls side e rule: parse_level_updates.induct)
      (auto simp: depth_level_parse_alert_def)
  show thesis
    by (cases "parse_level_updates (ddm_bids e) ''bid'' e"; cases "parse_level_updates (ddm_asks e) ''ask'' e")
      (auto simp: apply_depth_delta_def event_parses_def intro: applied failed dest: gt)
qed

lemma replay_ok_iff:
  assumes "last_update_id b = Some l"
  shows "snd (replay_buffered b es) = Inr () \<longleftrightarrow>
           gap_free l (relevant l es) \<and> list_all event_parses (relevant l es)"
  using assms
proof (induction es arbitrary: b l)
  case (Cons e es)
  show ?case
  proof (cases "final_update_id e \<le> l")
    case True
    with Cons show ?thesis by simp
  next
    case False
    then have lt: "l < final_update_id e" by simp
    have gap: "first_update_id e > l + 1 \<longleftrightarrow> \<not> unat (first_update_id e) \<le> unat l + 1"
      using succ_no_wrap [OF lt] by (simp add: word_less_nat_alt not_le)
    show ?thesis
    proof (cases rule: apply_depth_delta_cases [of e b])
      case applied
      then obtain b' where b': "apply_depth_delta b e = (b', Inr ())"
        "last_update_id b' = Some (final_update_id e)" by (cases "apply_depth_delta b e") auto
      with Cons.IH [OF b'(2)] Cons.prems False applied lt gap show ?thesis by auto
    next
      case (failed alert)
      with Cons.prems False lt gap show ?thesis by auto
    qed
  qed
qed simp

lemma replay_result:
  assumes "last_update_id b = Some l" and "snd (replay_buffered b es) = Inr ()"
  shows "fst (replay_buffered b es) = apply_deltas b (relevant l es)"
  using assms
proof (induction es arbitrary: b l)
  case (Cons e es)
  show ?case
  proof (cases "final_update_id e \<le> l")
    case True
    with Cons show ?thesis by simp
  next
    case False
    show ?thesis
    proof (cases rule: apply_depth_delta_cases [of e b])
      case applied
      then obtain b' where b': "apply_depth_delta b e = (b', Inr ())"
        "last_update_id b' = Some (final_update_id e)" by (cases "apply_depth_delta b e") auto
      with Cons.IH [OF b'(2)] Cons.prems False show ?thesis
        by (auto simp: apply_deltas_def split: if_splits)
    next
      case (failed alert)
      with Cons.prems False show ?thesis by (auto split: if_splits)
    qed
  qed
qed (simp add: apply_deltas_def)

lemma relevant_filter:
  "L \<le> l \<Longrightarrow> relevant l (filter (\<lambda>e. final_update_id e > L) es) = relevant l es"
proof (induction es arbitrary: l)
  case (Cons e es)
  show ?case
  proof (cases "final_update_id e \<le> l")
    case True
    then show ?thesis using Cons by (cases "final_update_id e > L") auto
  next
    case False
    then have "L < final_update_id e" using Cons.prems by simp
    then show ?thesis using Cons.IH [of "final_update_id e"] False by simp
  qed
qed simp

lemma relevant_Nil_iff: "relevant l es = [] \<longleftrightarrow> filter (\<lambda>e. final_update_id e > l) es = []"
  by (induction es) (auto simp: not_le)

lemma sync_ok:
  assumes "sync_depth_book_from_snapshot b s = (b', Inr ())"
  defines "L \<equiv> snap_last_update_id s"
  defines "used \<equiv> relevant L (buffered_events b)"
  shows "\<exists>new_bids new_asks. parse_snapshot_levels (snap_bids s) = Inr new_bids \<and>
           parse_snapshot_levels (snap_asks s) = Inr new_asks \<and>
           b' = apply_deltas (b\<lparr>last_update_id := Some L, bids := new_bids, asks := new_asks,
                               buffered_events := []\<rparr>) used"
    and "gap_free L used \<and> list_all event_parses used"
proof -
  define kept where "kept = filter (\<lambda>e. final_update_id e > L) (buffered_events b)"
  from assms(1) obtain nb na where p: "parse_snapshot_levels (snap_bids s) = Inr nb"
    "parse_snapshot_levels (snap_asks s) = Inr na"
    by (auto simp: sync_depth_book_from_snapshot_def Let_def split: sum.splits)
  define b0 where "b0 = b\<lparr>last_update_id := Some L, bids := nb, asks := na, buffered_events := []\<rparr>"
  have used: "relevant L kept = used" by (simp add: kept_def used_def relevant_filter)
  have "b' = apply_deltas b0 used \<and> gap_free L used \<and> list_all event_parses used"
  proof (cases kept)
    case Nil
    moreover from Nil used have "used = []" by auto
    ultimately show ?thesis using assms(1) p
      by (simp add: sync_depth_book_from_snapshot_def Let_def kept_def L_def b0_def apply_deltas_def)
  next
    case (Cons e es)
    with assms(1) p have r: "replay_buffered b0 kept = (b', Inr ())"
      by (auto simp: sync_depth_book_from_snapshot_def Let_def kept_def [symmetric] L_def [symmetric]
          b0_def split: if_splits)
    have l: "last_update_id b0 = Some L" by (simp add: b0_def)
    from replay_ok_iff [OF l, of kept] replay_result [OF l, of kept] r used show ?thesis by simp
  qed
  with p show "\<exists>new_bids new_asks. parse_snapshot_levels (snap_bids s) = Inr new_bids \<and>
           parse_snapshot_levels (snap_asks s) = Inr new_asks \<and>
           b' = apply_deltas (b\<lparr>last_update_id := Some L, bids := new_bids, asks := new_asks,
                               buffered_events := []\<rparr>) used"
    and "gap_free L used \<and> list_all event_parses used"
    by (simp_all add: b0_def)
qed


section \<open>The book invariant\<close>

definition book_wf :: "local_order_book \<Rightarrow> bool" where
  "book_wf b \<longleftrightarrow> side_wf (bids b) \<and> side_wf (asks b) \<and>
     length (buffered_events b) \<le> MAX_BUFFERED_EVENTS \<and> list_all event_small (buffered_events b) \<and>
     (\<not> is_synced b \<longrightarrow> bids b = [] \<and> asks b = [])"

lemma book_wf_default [simp]: "book_wf default_book"
  by (simp add: book_wf_def default_book_def)

lemma book_wf_resets [simp]:
  "book_wf (reset_after_overflow b)" "event_small e \<Longrightarrow> book_wf (reset_for_resync b e)"
  by (simp_all add: book_wf_def reset_after_overflow_def reset_for_resync_def MAX_BUFFERED_EVENTS_def)

lemma apply_depth_delta_wf:
  assumes "book_wf b" "event_small e" "is_synced b"
  shows "book_wf (fst (apply_depth_delta b e))"
proof (cases "event_parses e")
  case True
  then obtain bu au where p: "parse_level_updates (ddm_bids e) ''bid'' e = Inr bu"
    "parse_level_updates (ddm_asks e) ''ask'' e = Inr au"
    by (auto simp: event_parses_def is_err_def split: sum.splits)
  with assms(2) parse_level_updates_small have "\<forall>(p, q) \<in> set bu. dec_small p" "\<forall>(p, q) \<in> set au. dec_small p"
    unfolding event_small_def by blast+
  with assms(1) p show ?thesis
    by (simp add: apply_depth_delta_def book_wf_def apply_parsed_wf is_synced_def)
next
  case False
  with assms(1) show ?thesis
    by (cases rule: apply_depth_delta_cases [of e b]) auto
qed

lemma apply_depth_delta_frame:
  "is_synced b \<Longrightarrow> is_synced (fst (apply_depth_delta b e))"
  "buffered_events (fst (apply_depth_delta b e)) = buffered_events b"
  by (auto simp: apply_depth_delta_def is_synced_def split: sum.splits)

lemma replay_buffered_wf:
  "book_wf b \<Longrightarrow> is_synced b \<Longrightarrow> buffered_events b = [] \<Longrightarrow> list_all event_small es \<Longrightarrow>
     book_wf (fst (replay_buffered b es))"
proof (induction es arbitrary: b)
  case (Cons e es)
  then have e: "event_small e" by simp
  obtain b' r where app: "apply_depth_delta b e = (b', r)" by (cases "apply_depth_delta b e")
  have b': "book_wf b'" "is_synced b'" "buffered_events b' = []"
    using apply_depth_delta_wf [OF Cons.prems(1) e Cons.prems(2)] apply_depth_delta_frame [of b e] Cons.prems app
    by simp_all
  then have "book_wf (fst (replay_buffered b' es))" using Cons by simp
  moreover have "book_wf (b\<lparr>buffered_events := [e]\<rparr>)"
    using Cons.prems e by (simp add: book_wf_def is_synced_def MAX_BUFFERED_EVENTS_def)
  ultimately show ?case
    using Cons app by (auto simp: Let_def split: option.splits sum.splits)
qed simp

lemma sync_wf:
  assumes "book_wf b" "snapshot_small s"
  shows "book_wf (fst (sync_depth_book_from_snapshot b s))"
proof -
  define kept where "kept = filter (\<lambda>e. final_update_id e > snap_last_update_id s) (buffered_events b)"
  have kept: "length kept \<le> MAX_BUFFERED_EVENTS" "list_all event_small kept"
    using assms(1) le_trans [OF length_filter_le]
    by (auto simp: kept_def book_wf_def list_all_iff)
  have parse: "side_wf m" if "parse_snapshot_levels ls = Inr m" "prices_small ls" for m ls
    using that parse_snapshot_levels_from_wf [of "[]" ls m] by (simp add: parse_snapshot_levels_def)
  define b0 where "b0 nb na k = b\<lparr>last_update_id := Some (snap_last_update_id s), bids := nb, asks := na,
    buffered_events := k\<rparr>" for nb na k
  have b0: "book_wf (b0 nb na k)" if "side_wf nb" "side_wf na" "length k \<le> MAX_BUFFERED_EVENTS"
    "list_all event_small k" for nb na k
    using that by (simp add: b0_def book_wf_def is_synced_def)
  have old: "side_wf (bids b)" "side_wf (asks b)" "length (buffered_events b) \<le> MAX_BUFFERED_EVENTS"
    "list_all event_small (buffered_events b)"
    using assms(1) by (simp_all add: book_wf_def)
  show ?thesis
  proof (cases "parse_snapshot_levels (snap_bids s)")
    case (Inl r)
    with b0 [OF old] show ?thesis by (simp add: sync_depth_book_from_snapshot_def Let_def b0_def)
  next
    case nb: (Inr nb)
    then have nb': "side_wf nb" using parse assms(2) by (simp add: snapshot_small_def)
    show ?thesis
    proof (cases "parse_snapshot_levels (snap_asks s)")
      case (Inl r)
      with nb b0 [OF nb' old(2-4)] show ?thesis
        by (simp add: sync_depth_book_from_snapshot_def Let_def b0_def)
    next
      case na: (Inr na)
      then have na': "side_wf na" using parse assms(2) by (simp add: snapshot_small_def)
      have "book_wf (fst (replay_buffered (b0 nb na []) kept))"
        using b0 [OF nb' na', of "[]"] kept(2)
        by (intro replay_buffered_wf) (simp_all add: b0_def is_synced_def)
      with nb na b0 [OF nb' na' kept] show ?thesis
        by (auto simp: sync_depth_book_from_snapshot_def Let_def b0_def kept_def [symmetric]
            split: list.splits)
    qed
  qed
qed

lemma handle_synced_wf:
  assumes "book_wf b" "event_small e" "handle_synced_depth_event b e raw t att st = (b', att', st')"
  shows "book_wf b'"
proof (cases "last_update_id b")
  case None
  with assms(1,3) show ?thesis by (simp add: handle_synced_depth_event_def)
next
  case (Some l)
  then have "is_synced b" by (simp add: is_synced_def)
  from apply_depth_delta_wf [OF assms(1,2) this] assms Some show ?thesis
    by (auto simp: handle_synced_depth_event_def split: if_splits prod.splits sum.splits)
qed

lemma buffer_unsynced_wf:
  assumes "book_wf b" "event_small e" "\<not> is_synced b"
    and "buffer_unsynced_depth_event b e raw t att st = (b', att', st')"
  shows "book_wf b'" "\<not> is_synced b'"
  using assms
  by (auto simp: buffer_unsynced_depth_event_def book_wf_def is_synced_def reset_after_overflow_def
      buffered_at_capacity_def MAX_BUFFERED_EVENTS_def split: if_splits)

section \<open>Reachable states of the depth synchroniser\<close>

definition depth_start :: "ingest_watch_stats \<Rightarrow> depth_state" where
  "depth_start stats = \<lparr>ds_books = [], ds_attempted = {}, ds_stats = stats\<rparr>"

definition depth_inv :: "depth_state \<Rightarrow> bool" where
  "depth_inv st \<longleftrightarrow> bt_wf id (\<lambda>_. True) (ds_books st) \<and> (\<forall>b \<in> snd ` set (ds_books st). book_wf b)"

definition fetch_small :: "(string \<Rightarrow> (order_book_snapshot, market_data_error) result) \<Rightarrow> bool" where
  "fetch_small fetch \<longleftrightarrow> (\<forall>raw s. fetch raw = Inr s \<longrightarrow> snapshot_small s)"

inductive depth_reachable :: "depth_state \<Rightarrow> bool" where
  start: "depth_reachable (depth_start stats)"
| event: "depth_reachable st \<Longrightarrow> event_small e \<Longrightarrow> fetch_small fetch \<Longrightarrow>
          depth_reachable (handle_diff_depth_event fetch e t st)"

lemma get_book_wf: "depth_inv st \<Longrightarrow> bt_get str_cmp raw (ds_books st) = Some b \<Longrightarrow> book_wf b"
  using ranked.get_Some_mem [of id] by (force simp: depth_inv_def)

lemma put_book_inv:
  assumes "depth_inv st" "book_wf b"
  shows "depth_inv (st\<lparr>ds_books := bt_insert str_cmp raw b (ds_books st)\<rparr>)"
proof -
  have "bt_wf id (\<lambda>_. True) (bt_insert str_cmp raw b (ds_books st))"
    using assms(1) by (intro ranked.wf_insert) (simp_all add: depth_inv_def)
  moreover have "\<forall>b' \<in> snd ` set (bt_insert str_cmp raw b (ds_books st)). book_wf b'"
    using assms bt_values_insert [of str_cmp raw b "ds_books st"] unfolding depth_inv_def by blast
  ultimately show ?thesis by (simp add: depth_inv_def)
qed

lemma depth_inv_frame [simp]:
  "depth_inv (st\<lparr>ds_stats := x\<rparr>) = depth_inv st"
  "depth_inv (st\<lparr>ds_attempted := a\<rparr>) = depth_inv st"
  "depth_inv (st\<lparr>ds_books := m, ds_stats := x\<rparr>) = depth_inv (st\<lparr>ds_books := m\<rparr>)"
  "depth_inv (st\<lparr>ds_books := m, ds_attempted := a\<rparr>) = depth_inv (st\<lparr>ds_books := m\<rparr>)"
  "depth_inv (st\<lparr>ds_books := m, ds_attempted := a, ds_stats := x\<rparr>) = depth_inv (st\<lparr>ds_books := m\<rparr>)"
  by (simp_all add: depth_inv_def)

lemma fetch_and_sync_inv:
  assumes "depth_inv st" "fetch_small fetch"
  shows "depth_inv (fetch_and_sync_snapshot fetch raw t st)"
proof (cases "fetch raw")
  case (Inl e)
  with assms(1) show ?thesis by (simp add: fetch_and_sync_snapshot_def Let_def)
next
  case (Inr s)
  show ?thesis
  proof (cases "bt_get str_cmp raw (ds_books st)")
    case None
    with Inr assms(1) show ?thesis
      by (simp add: fetch_and_sync_snapshot_def sync_fetched_snapshot_def Let_def)
  next
    case (Some b)
    have "book_wf (fst (sync_depth_book_from_snapshot b s))"
      using sync_wf get_book_wf [OF assms(1) Some] assms(2) Inr by (simp add: fetch_small_def)
    from put_book_inv [OF assms(1) this] Inr Some show ?thesis
      by (auto simp: fetch_and_sync_snapshot_def sync_fetched_snapshot_def Let_def depth_inv_def
          split: prod.splits sum.splits)
  qed
qed

lemma handle_event_inv:
  assumes "depth_inv st" "event_small e" "fetch_small fetch"
  shows "depth_inv (handle_diff_depth_event fetch e t st)"
proof -
  define raw where "raw = to_ascii_uppercase (ddm_symbol e)"
  define b where "b = (case bt_get str_cmp raw (ds_books st) of Some b \<Rightarrow> b | None \<Rightarrow> default_book)"
  have b: "book_wf b" using get_book_wf [OF assms(1)] by (auto simp: b_def split: option.splits)
  obtain b' att' stats' where step:
    "(if is_synced b then handle_synced_depth_event b e raw t (ds_attempted st) (ds_stats st)
      else buffer_unsynced_depth_event b e raw t (ds_attempted st) (ds_stats st)) = (b', att', stats')"
    by (metis prod_cases3)
  have "book_wf b'"
    using step handle_synced_wf [OF b assms(2)] buffer_unsynced_wf(1) [OF b assms(2)]
    by (auto split: if_splits)
  note inv = put_book_inv [OF assms(1) this, of raw]
  obtain now att'' where fetch_now:
    "should_fetch_snapshot (bt_insert str_cmp raw b' (ds_books st)) att' raw = (now, att'')" by fastforce
  show ?thesis
    unfolding handle_diff_depth_event_def raw_def [symmetric] Let_def b_def [symmetric] step
    using inv fetch_and_sync_inv [OF _ assms(3)] by (simp add: fetch_now)
qed

subsection \<open>Properties\<close>

text \<open>C2: in every state the synchroniser can reach, whatever the event order and the answers of
  the REST endpoint, each book's two sides are maps with one entry per numeric price in strictly
  increasing order and only positive quantities, the buffer never holds more than 1000 events, and a book that
  is not synced has no levels (prices being market-sized).\<close>

theorem reachable_books_wf:
  "depth_reachable st \<Longrightarrow> depth_inv st"
  by (induction rule: depth_reachable.induct)
    (auto simp: handle_event_inv, simp add: depth_start_def depth_inv_def)

text \<open>C3: a successfully parsed diff event updates each side exactly as the exchange's rule says: in
  order, a positive quantity replaces the level at that numeric price and a zero quantity deletes it; the
  book then stands at the event's final update id.\<close>

theorem delta_refines_price_map:
  assumes "book_wf b" "event_small e" "apply_depth_delta b e = (b', Inr ())"
  shows "\<exists>bu au. parse_level_updates (ddm_bids e) ''bid'' e = Inr bu \<and>
           parse_level_updates (ddm_asks e) ''ask'' e = Inr au \<and>
           bt_map dec_rat (bids b') = foldl spec_update (bt_map dec_rat (bids b)) bu \<and>
           bt_map dec_rat (asks b') = foldl spec_update (bt_map dec_rat (asks b)) au \<and>
           last_update_id b' = Some (final_update_id e)"
proof -
  from assms(3) obtain bu au where p: "parse_level_updates (ddm_bids e) ''bid'' e = Inr bu"
    "parse_level_updates (ddm_asks e) ''ask'' e = Inr au"
    by (auto simp: apply_depth_delta_def split: sum.splits)
  with assms(2) parse_level_updates_small have "\<forall>(p, q) \<in> set bu. dec_small p" "\<forall>(p, q) \<in> set au. dec_small p"
    unfolding event_small_def by blast+
  with assms p show ?thesis
    by (auto simp: apply_depth_delta_def book_wf_def apply_parsed_refines)
qed

text \<open>C4: when a snapshot sync reports success, the book is the snapshot's levels with exactly the
  buffered events that were still needed applied in arrival order, and these events leave no update id
  between the snapshot and the last of them uncovered.\<close>

theorem sync_success_gap_free:
  assumes "sync_depth_book_from_snapshot b s = (b', Inr ())"
  shows "gap_free (snap_last_update_id s) (relevant (snap_last_update_id s) (buffered_events b)) \<and>
         (\<exists>nb na. parse_snapshot_levels (snap_bids s) = Inr nb \<and> parse_snapshot_levels (snap_asks s) = Inr na \<and>
           b' = apply_deltas (b\<lparr>last_update_id := Some (snap_last_update_id s), bids := nb, asks := na,
                               buffered_events := []\<rparr>)
                  (relevant (snap_last_update_id s) (buffered_events b)))"
  using sync_ok [OF assms] by simp



subsection \<open>Witnesses\<close>

definition demo_event :: "u64 \<Rightarrow> u64 \<Rightarrow> diff_depth_message" where
  "demo_event a z = \<lparr>ddm_symbol = ''btcusdt'', first_update_id = a, final_update_id = z,
     ddm_bids = [(''100.5'', ''2''), (''99'', ''0.000'')], ddm_asks = [(''101'', ''3.25'')]\<rparr>"

definition demo_snapshot :: "u64 \<Rightarrow> order_book_snapshot" where
  "demo_snapshot l = \<lparr>snap_last_update_id = l, snap_bids = [(''99'', ''7'')], snap_asks = []\<rparr>"

definition demo_book :: local_order_book where
  "demo_book = \<lparr>last_update_id = Some 10, bids = [(dec_new 99 0, dec_new 7 0)], asks = [],
     buffered_events = []\<rparr>"

definition demo_stats :: ingest_watch_stats where
  "demo_stats = stats_new ''wss://x'' 1"

lemma demo_parses [simp]:
  "parse_unsigned ''100.5'' = Inr (dec_new 1005 1)" "parse_unsigned ''2'' = Inr (dec_new 2 0)"
  "parse_unsigned ''99'' = Inr (dec_new 99 0)" "parse_unsigned ''0.000'' = Inr (dec_new 0 3)"
  "parse_unsigned ''101'' = Inr (dec_new 101 0)" "parse_unsigned ''3.25'' = Inr (dec_new 325 2)"
  "parse_unsigned ''7'' = Inr (dec_new 7 0)"
  by (simp_all add: parse_unsigned_def from_str_def trim_def is_ws_def is_ascii_digit_def parse_i128_def
        parse_signed_def digits_val_def digit_val_def i128_consts u32_max_def dec_new_def)

lemma demo_small: "event_small (demo_event a z)" "snapshot_small (demo_snapshot l)"
  by (simp_all add: event_small_def snapshot_small_def demo_event_def demo_snapshot_def prices_small_def)
    (simp_all add: dec_small_def dec_new_def)

lemma demo_cmp [simp]:
  "dec_cmp (dec_new 1005 (Suc 0)) (dec_new 99 0) = Greater"
  "dec_cmp (dec_new 99 0) (dec_new 1005 (Suc 0)) = Less" "dec_cmp (dec_new 99 0) (dec_new 99 0) = Equal"
  by (simp_all add: dec_cmp_small dec_small_def dec_new_def cmp_by_def dec_rat_def)

lemma demo_positive [simp]: "is_positive (dec_new v s) \<longleftrightarrow> v > 0"
  by (simp add: is_positive_def dec_new_def)

lemmas demo_defs = demo_event_def demo_snapshot_def demo_book_def apply_depth_delta_def
  sync_depth_book_from_snapshot_def parse_snapshot_levels_def default_book_def

lemma demo_book_wf: "book_wf demo_book"
  by (simp add: book_wf_def demo_book_def side_wf_def bt_wf_Cons dec_small_def dec_new_def is_positive_def
      is_synced_def MAX_BUFFERED_EVENTS_def)

lemma demo_delta:
  "apply_depth_delta demo_book (demo_event 11 12) =
     (\<lparr>last_update_id = Some 12, bids = [(dec_new 1005 1, dec_new 2 0)],
       asks = [(dec_new 101 0, dec_new 325 2)], buffered_events = []\<rparr>, Inr ())"
  by (simp add: demo_defs)

theorem reachable_books_wf_witness:
  "depth_inv (handle_diff_depth_event (\<lambda>_. Inr (demo_snapshot 10)) (demo_event 11 12) 5 (depth_start demo_stats))"
  using demo_small by (intro reachable_books_wf depth_reachable.intros) (auto simp: fetch_small_def)

theorem delta_refines_price_map_witness:
  "\<exists>bu. bt_map dec_rat [(dec_new 1005 1, dec_new 2 0)] = foldl spec_update (bt_map dec_rat (bids demo_book)) bu"
  using delta_refines_price_map [OF demo_book_wf demo_small(1) demo_delta] by auto

definition demo_buffering :: "u64 \<Rightarrow> local_order_book" where
  "demo_buffering l = default_book\<lparr>buffered_events := [demo_event 8 9, demo_event l (l + 1)]\<rparr>"

theorem sync_success_gap_free_witness:
  "gap_free 10 (relevant 10 (buffered_events (demo_buffering 11)))"
proof -
  have "\<exists>b'. sync_depth_book_from_snapshot (demo_buffering 11) (demo_snapshot 10) = (b', Inr ())"
    by (rule exI [of _ "\<lparr>last_update_id = Some 12, bids = [(dec_new 1005 1, dec_new 2 0)],
       asks = [(dec_new 101 0, dec_new 325 2)], buffered_events = []\<rparr>"]) (simp add: demo_defs demo_buffering_def)
  with sync_success_gap_free [of "demo_buffering 11" "demo_snapshot 10"] show ?thesis
    by (auto simp: demo_snapshot_def)
qed



end
