(* ===== verification/Normalize_Args.thy ===== *)
theory Normalize_Args
  imports Storage_Error
begin

text \<open>
  Command line of the normalizer (\<open>src/normalize/args\<close>): defaults, options, validation. The lemmas show that
  whatever is accepted is safe for the scheduler: all intervals and limits positive (the window arithmetic divides
  by them), the watermark at least the scan margin, and paired options complete.
\<close>

record input_range =
  start_ms :: int
  end_ms :: int

record normalize_args =
  na_l0_s3_bucket :: string
  na_l0_local_root :: string
  na_l1_s3_bucket :: string
  na_aws_profile :: "string option"
  na_aws_region :: string
  na_input_start_ms :: "int option"
  na_input_end_ms :: "int option"
  na_schedule_interval_ms :: int
  na_window_ms :: int
  na_scan_margin_ms :: int
  na_projection_lookback_ms :: int
  na_watermark_delay_ms :: int
  na_clock_skew_margin_ms :: int
  na_max_latency_ms :: int
  na_l0_run_key_overlap_ms :: int
  na_spool_root :: string
  na_catchup_tmp_root :: string
  na_preflight :: bool
  na_audit_l1_index_start_ms :: "int option"
  na_audit_l1_index_end_ms :: "int option"
  na_max_windows_per_tick :: nat
  na_live_priority :: bool
  na_live_priority_only :: bool
  na_live_priority_lag_threshold_ms :: int
  na_s3_retention_enabled :: bool
  na_l0_s3_retention_days :: int
  na_l1_s3_retention_days :: int
  na_s3_retention_check_interval_secs :: nat
  na_s3_retention_max_deletes_per_run :: nat
  na_l1_index_upload_concurrency :: nat

definition normalize_with_defaults :: normalize_args where
  "normalize_with_defaults =
     \<lparr>na_l0_s3_bucket = [], na_l0_local_root = ''/opt/nangman-crypto/data/spool/market-ingest/l0'',
      na_l1_s3_bucket = [], na_aws_profile = None, na_aws_region = ''ap-northeast-2'',
      na_input_start_ms = None, na_input_end_ms = None, na_schedule_interval_ms = 900000, na_window_ms = 1000,
      na_scan_margin_ms = 300000, na_projection_lookback_ms = 3600000, na_watermark_delay_ms = 360000,
      na_clock_skew_margin_ms = 1000, na_max_latency_ms = 1000, na_l0_run_key_overlap_ms = 360000,
      na_spool_root = ''/opt/nangman-crypto/data/spool/market-ingest/l1'',
      na_catchup_tmp_root = ''/opt/nangman-crypto/data/spool/market-normalize/catchup'',
      na_preflight = False, na_audit_l1_index_start_ms = None, na_audit_l1_index_end_ms = None,
      na_max_windows_per_tick = 192, na_live_priority = False, na_live_priority_only = False,
      na_live_priority_lag_threshold_ms = 900000, na_s3_retention_enabled = True,
      na_l0_s3_retention_days = 45, na_l1_s3_retention_days = 240,
      na_s3_retention_check_interval_secs = 21600, na_s3_retention_max_deletes_per_run = 1000,
      na_l1_index_upload_concurrency = 1\<rparr>"

section \<open>Values (args/parse.rs)\<close>

definition parse_i64_arg :: "string option \<Rightarrow> string \<Rightarrow> (int, string) result" where
  "parse_i64_arg value name =
     and_then (ok_or (name @ '' requires an integer'') value) (\<lambda>v.
     ok_or (name @ '' must be an integer'') (parse_i64 v))"

definition parse_positive_i64 :: "string option \<Rightarrow> string \<Rightarrow> (int, string) result" where
  "parse_positive_i64 value name =
     and_then (parse_i64_arg value name) (\<lambda>parsed.
     and_then (guard_err (parsed \<le> 0) (name @ '' must be positive'')) (\<lambda>_. Inr parsed))"

text \<open>\<open>u64\<close> and \<open>usize\<close> are both 64 bits wide.\<close>

definition parse_positive_u64 :: "string option \<Rightarrow> string \<Rightarrow> (nat, string) result" where
  "parse_positive_u64 value name =
     and_then (ok_or (name @ '' requires a positive integer'') value) (\<lambda>v.
     and_then (ok_or (name @ '' must be a positive integer'') (parse_unsigned_int u64_max v)) (\<lambda>parsed.
     and_then (guard_err (parsed = 0) (name @ '' must be positive'')) (\<lambda>_. Inr parsed)))"

definition parse_positive_usize :: "string option \<Rightarrow> string \<Rightarrow> (nat, string) result" where
  "parse_positive_usize value name =
     and_then (ok_or (name @ '' requires a positive integer'') value) (\<lambda>v.
     and_then (ok_or (name @ '' must be a positive integer'') (parse_unsigned_int u64_max v)) (\<lambda>parsed.
     and_then (guard_err (parsed = 0) (name @ '' must be positive'')) (\<lambda>_. Inr parsed)))"

section \<open>Validation (args/validation.rs)\<close>

definition validate_real_bucket :: "string \<Rightarrow> string \<Rightarrow> (unit, string) result" where
  "validate_real_bucket name value =
     and_then (guard_err (trim value = []) (name @ '' requires a bucket'')) (\<lambda>_.
     guard_err (CHR ''<'' \<in> set value \<or> CHR ''>'' \<in> set value)
       (name @ '' must be a real bucket name, not a public-doc placeholder''))"

definition validate_parsed_args :: "normalize_args \<Rightarrow> (unit, string) result" where
  "validate_parsed_args parsed =
     and_then (guard_err (na_l0_s3_bucket parsed = []) ''--l0-s3-bucket is required'') (\<lambda>_.
     and_then (guard_err (na_l1_s3_bucket parsed = []) ''--l1-s3-bucket is required'') (\<lambda>_.
     and_then (validate_real_bucket ''--l0-s3-bucket'' (na_l0_s3_bucket parsed)) (\<lambda>_.
     and_then (validate_real_bucket ''--l1-s3-bucket'' (na_l1_s3_bucket parsed)) (\<lambda>_.
     and_then (guard_err (na_watermark_delay_ms parsed < na_scan_margin_ms parsed)
        ''--watermark-delay-ms must be >= --scan-margin-ms'') (\<lambda>_.
     and_then (guard_err ((na_input_start_ms parsed \<noteq> None) \<noteq> (na_input_end_ms parsed \<noteq> None))
        ''--input-start-ms and --input-end-ms must be provided together'') (\<lambda>_.
     guard_err ((na_audit_l1_index_start_ms parsed \<noteq> None) \<noteq> (na_audit_l1_index_end_ms parsed \<noteq> None))
        ''--audit-l1-index-start-ms and --audit-l1-index-end-ms must be provided together''))))))"

section \<open>Options (args/parse_cli.rs)\<close>

text \<open>The branches of the \<open>match\<close>: options without a value, and options that take the next argument.\<close>

definition set_flag :: "string \<Rightarrow> normalize_args \<Rightarrow> normalize_args option" where
  "set_flag arg p =
     (if arg = ''--preflight'' then Some (p\<lparr>na_preflight := True\<rparr>)
      else if arg = ''--live-priority'' then Some (p\<lparr>na_live_priority := True\<rparr>)
      else if arg = ''--live-priority-only'' then Some (p\<lparr>na_live_priority := True, na_live_priority_only := True\<rparr>)
      else if arg = ''--disable-s3-retention'' then Some (p\<lparr>na_s3_retention_enabled := False\<rparr>)
      else None)"

definition set_option ::
    "string \<Rightarrow> string option \<Rightarrow> normalize_args \<Rightarrow> (normalize_args, string) result option" where
  "set_option arg v p =
     (if arg = ''--l0-s3-bucket'' then
        Some (and_then (ok_or ''--l0-s3-bucket requires a bucket'' v) (\<lambda>x. Inr (p\<lparr>na_l0_s3_bucket := x\<rparr>)))
      else if arg = ''--l0-local-root'' then
        Some (and_then (ok_or ''--l0-local-root requires an absolute directory path'' v) (\<lambda>x. Inr (p\<lparr>na_l0_local_root := x\<rparr>)))
      else if arg = ''--l1-s3-bucket'' then
        Some (and_then (ok_or ''--l1-s3-bucket requires a bucket'' v) (\<lambda>x. Inr (p\<lparr>na_l1_s3_bucket := x\<rparr>)))
      else if arg = ''--aws-profile'' then
        Some (and_then (ok_or ''--aws-profile requires a profile'' v) (\<lambda>x. Inr (p\<lparr>na_aws_profile := Some x\<rparr>)))
      else if arg = ''--aws-region'' then
        Some (and_then (ok_or ''--aws-region requires a region'' v) (\<lambda>x. Inr (p\<lparr>na_aws_region := x\<rparr>)))
      else if arg = ''--input-start-ms'' then
        Some (and_then (parse_i64_arg v arg) (\<lambda>x. Inr (p\<lparr>na_input_start_ms := Some x\<rparr>)))
      else if arg = ''--input-end-ms'' then
        Some (and_then (parse_i64_arg v arg) (\<lambda>x. Inr (p\<lparr>na_input_end_ms := Some x\<rparr>)))
      else if arg = ''--schedule-interval-ms'' then
        Some (and_then (parse_positive_i64 v arg) (\<lambda>x. Inr (p\<lparr>na_schedule_interval_ms := x\<rparr>)))
      else if arg = ''--window-ms'' then
        Some (and_then (parse_positive_i64 v arg) (\<lambda>x. Inr (p\<lparr>na_window_ms := x\<rparr>)))
      else if arg = ''--scan-margin-ms'' then
        Some (and_then (parse_positive_i64 v arg) (\<lambda>x. Inr (p\<lparr>na_scan_margin_ms := x\<rparr>)))
      else if arg = ''--projection-lookback-ms'' then
        Some (and_then (parse_positive_i64 v arg) (\<lambda>x. Inr (p\<lparr>na_projection_lookback_ms := x\<rparr>)))
      else if arg = ''--watermark-delay-ms'' then
        Some (and_then (parse_positive_i64 v arg) (\<lambda>x. Inr (p\<lparr>na_watermark_delay_ms := x\<rparr>)))
      else if arg = ''--clock-skew-margin-ms'' then
        Some (and_then (parse_positive_i64 v arg) (\<lambda>x. Inr (p\<lparr>na_clock_skew_margin_ms := x\<rparr>)))
      else if arg = ''--max-latency-ms'' then
        Some (and_then (parse_positive_i64 v arg) (\<lambda>x. Inr (p\<lparr>na_max_latency_ms := x\<rparr>)))
      else if arg = ''--l0-run-key-overlap-ms'' then
        Some (and_then (parse_positive_i64 v arg) (\<lambda>x. Inr (p\<lparr>na_l0_run_key_overlap_ms := x\<rparr>)))
      else if arg = ''--spool-root'' then
        Some (and_then (ok_or ''--spool-root requires an absolute directory path'' v) (\<lambda>x. Inr (p\<lparr>na_spool_root := x\<rparr>)))
      else if arg = ''--catchup-tmp-root'' then
        Some (and_then (ok_or ''--catchup-tmp-root requires an absolute directory path'' v) (\<lambda>x. Inr (p\<lparr>na_catchup_tmp_root := x\<rparr>)))
      else if arg = ''--audit-l1-index-start-ms'' then
        Some (and_then (parse_i64_arg v arg) (\<lambda>x. Inr (p\<lparr>na_audit_l1_index_start_ms := Some x\<rparr>)))
      else if arg = ''--audit-l1-index-end-ms'' then
        Some (and_then (parse_i64_arg v arg) (\<lambda>x. Inr (p\<lparr>na_audit_l1_index_end_ms := Some x\<rparr>)))
      else if arg = ''--max-windows-per-tick'' then
        Some (and_then (parse_positive_usize v arg) (\<lambda>x. Inr (p\<lparr>na_max_windows_per_tick := x\<rparr>)))
      else if arg = ''--max-windows-per-invocation'' then
        Some (and_then (parse_positive_usize v arg) (\<lambda>x. Inr (p\<lparr>na_max_windows_per_tick := x\<rparr>)))
      else if arg = ''--live-priority-lag-threshold-ms'' then
        Some (and_then (parse_positive_i64 v arg) (\<lambda>x. Inr (p\<lparr>na_live_priority_lag_threshold_ms := x\<rparr>)))
      else if arg = ''--s3-retention-days'' then
        Some (and_then (parse_positive_i64 v arg) (\<lambda>x. Inr (p\<lparr>na_l0_s3_retention_days := x, na_l1_s3_retention_days := x\<rparr>)))
      else if arg = ''--l0-s3-retention-days'' then
        Some (and_then (parse_positive_i64 v arg) (\<lambda>x. Inr (p\<lparr>na_l0_s3_retention_days := x\<rparr>)))
      else if arg = ''--l1-s3-retention-days'' then
        Some (and_then (parse_positive_i64 v arg) (\<lambda>x. Inr (p\<lparr>na_l1_s3_retention_days := x\<rparr>)))
      else if arg = ''--s3-retention-check-interval-secs'' then
        Some (and_then (parse_positive_u64 v arg) (\<lambda>x. Inr (p\<lparr>na_s3_retention_check_interval_secs := x\<rparr>)))
      else if arg = ''--s3-retention-max-deletes-per-run'' then
        Some (and_then (parse_positive_usize v arg) (\<lambda>x. Inr (p\<lparr>na_s3_retention_max_deletes_per_run := x\<rparr>)))
      else if arg = ''--l1-index-upload-concurrency'' then
        Some (and_then (parse_positive_usize v arg) (\<lambda>x. Inr (p\<lparr>na_l1_index_upload_concurrency := x\<rparr>)))
      else None)"

fun parse_loop :: "normalize_args \<Rightarrow> string list \<Rightarrow> (normalize_args option, string) result" where
  "parse_loop p [] = Inr (Some p)"
| "parse_loop p (arg # rest) =
     (if arg = ''-h'' \<or> arg = ''--help'' then Inr None
      else case set_flag arg p of
        Some p' \<Rightarrow> parse_loop p' rest
      | None \<Rightarrow>
          (case set_option arg (case rest of [] \<Rightarrow> None | v # _ \<Rightarrow> Some v) p of
             None \<Rightarrow> Inl (''unknown argument: '' @ arg)
           | Some (Inl e) \<Rightarrow> Inl e
           | Some (Inr p') \<Rightarrow> parse_loop p' (tl rest)))"

definition parse_args :: "string list \<Rightarrow> (normalize_args option, string) result" where
  "parse_args args =
     and_then (parse_loop normalize_with_defaults args) (\<lambda>parsed. case parsed of
       None \<Rightarrow> Inr None
     | Some p \<Rightarrow> and_then (validate_parsed_args p) (\<lambda>_. Inr (Some p)))"

section \<open>What is accepted\<close>

definition args_positive :: "normalize_args \<Rightarrow> bool" where
  "args_positive p \<longleftrightarrow> 0 < na_schedule_interval_ms p \<and> 0 < na_window_ms p \<and> 0 < na_scan_margin_ms p \<and>
     0 < na_projection_lookback_ms p \<and> 0 < na_watermark_delay_ms p \<and> 0 < na_clock_skew_margin_ms p \<and>
     0 < na_max_latency_ms p \<and> 0 < na_l0_run_key_overlap_ms p \<and> 0 < na_max_windows_per_tick p \<and>
     0 < na_live_priority_lag_threshold_ms p \<and> 0 < na_l0_s3_retention_days p \<and> 0 < na_l1_s3_retention_days p \<and>
     0 < na_s3_retention_check_interval_secs p \<and> 0 < na_s3_retention_max_deletes_per_run p \<and>
     0 < na_l1_index_upload_concurrency p"

lemma parse_positive_Inr [dest!]:
  "parse_positive_i64 v n = Inr x \<Longrightarrow> 0 < x"
  "parse_positive_u64 v n = Inr k \<Longrightarrow> 0 < k"
  "parse_positive_usize v n = Inr k \<Longrightarrow> 0 < k"
  by (auto simp: parse_positive_i64_def parse_positive_u64_def parse_positive_usize_def)

lemma if_Some_cases:
  assumes "(if b then Some m else y) = Some r"
  obtains "m = r" | "y = Some r"
  using assms by (auto split: if_splits)

lemma set_option_positive: "set_option arg v p = Some (Inr p') \<Longrightarrow> args_positive p \<Longrightarrow> args_positive p'"
  unfolding set_option_def by (elim if_Some_cases) (auto simp: args_positive_def)

lemma set_flag_positive: "set_flag arg p = Some p' \<Longrightarrow> args_positive p' = args_positive p"
  by (auto simp: set_flag_def args_positive_def split: if_splits)

lemma parse_loop_positive: "parse_loop p args = Inr (Some p') \<Longrightarrow> args_positive p \<Longrightarrow> args_positive p'"
  by (induction p args rule: parse_loop.induct)
    (auto split: if_splits option.splits sum.splits dest: set_option_positive simp: set_flag_positive)

section \<open>Properties\<close>

text \<open>accepted arguments are safe: every interval, margin and limit is positive, the watermark covers the
  scan margin, both buckets are named, and range options come in pairs.\<close>

theorem parse_args_safe:
  assumes "parse_args args = Inr (Some p)"
  shows "args_positive p \<and> na_scan_margin_ms p \<le> na_watermark_delay_ms p \<and>
    trim (na_l0_s3_bucket p) \<noteq> [] \<and> trim (na_l1_s3_bucket p) \<noteq> [] \<and>
    (na_input_start_ms p = None \<longleftrightarrow> na_input_end_ms p = None) \<and>
    (na_audit_l1_index_start_ms p = None \<longleftrightarrow> na_audit_l1_index_end_ms p = None)"
proof -
  have d: "args_positive normalize_with_defaults" by (simp add: args_positive_def normalize_with_defaults_def)
  obtain l: "parse_loop normalize_with_defaults args = Inr (Some p)" and v: "validate_parsed_args p = Inr ()"
    using assms by (auto simp: parse_args_def split: option.splits)
  show ?thesis using parse_loop_positive [OF l d] v [unfolded validate_parsed_args_def validate_real_bucket_def]
    by auto
qed

theorem parse_args_safe_witness:
  "\<exists>p. parse_args [''--l0-s3-bucket'', ''a'', ''--l1-s3-bucket'', ''b'', ''--preflight''] = Inr (Some p) \<and> args_positive p"
proof -
  let ?args = "[''--l0-s3-bucket'', ''a'', ''--l1-s3-bucket'', ''b'', ''--preflight'']"
  have "parse_args ?args = Inr (Some (normalize_with_defaults
      \<lparr>na_l0_s3_bucket := ''a'', na_l1_s3_bucket := ''b'', na_preflight := True\<rparr>))"
    by (simp add: parse_args_def set_flag_def set_option_def validate_parsed_args_def validate_real_bucket_def
        normalize_with_defaults_def trim_def is_ws_def)
  with parse_args_safe [OF this] show ?thesis by blast
qed

end
