(* ===== verification/Worker_Args.thy ===== *)
theory Worker_Args
  imports Depth_Sync Normalize_Args
begin

text \<open>
  Command lines of the realtime ingestor (\<open>src/args\<close>) and of the backfill (\<open>src/backfill/args\<close>). Both readers take an option at a
  time and then validate the whole; a locale states what is enough for an invariant to hold of everything they accept, and it
  is interpreted for both (and, in the theory of its command line, for the supervisor).
\<close>

section \<open>Reading options one at a time\<close>

text \<open>\<open>flag\<close> is an option without a value, \<open>opt\<close> one that takes the next argument (and is told when there is none).\<close>

fun cli_loop ::
    "(string \<Rightarrow> 'a \<Rightarrow> 'a option) \<Rightarrow> (string \<Rightarrow> string option \<Rightarrow> 'a \<Rightarrow> ('a, 'e) result option) \<Rightarrow> (string \<Rightarrow> 'e) \<Rightarrow>
     'a \<Rightarrow> string list \<Rightarrow> ('a option, 'e) result" where
  "cli_loop flag opt unknown p [] = Inr (Some p)"
| "cli_loop flag opt unknown p (arg # rest) =
     (if arg = ''-h'' \<or> arg = ''--help'' then Inr None
      else case flag arg p of
        Some p' \<Rightarrow> cli_loop flag opt unknown p' rest
      | None \<Rightarrow>
          (case opt arg (case rest of [] \<Rightarrow> None | v # _ \<Rightarrow> Some v) p of
             None \<Rightarrow> Inl (unknown arg)
           | Some (Inl e) \<Rightarrow> Inl e
           | Some (Inr p') \<Rightarrow> cli_loop flag opt unknown p' (tl rest)))"

locale cli_invariant =
  fixes flag :: "string \<Rightarrow> 'a \<Rightarrow> 'a option"
    and opt :: "string \<Rightarrow> string option \<Rightarrow> 'a \<Rightarrow> ('a, 'e) result option"
    and unknown :: "string \<Rightarrow> 'e"
    and inv :: "'a \<Rightarrow> bool"
  assumes flag_keeps: "flag arg p = Some p' \<Longrightarrow> inv p \<Longrightarrow> inv p'"
    and opt_keeps: "opt arg v p = Some (Inr p') \<Longrightarrow> inv p \<Longrightarrow> inv p'"
begin

lemma loop_keeps: "cli_loop flag opt unknown p args = Inr (Some p') \<Longrightarrow> inv p \<Longrightarrow> inv p'"
proof (induction "length args" arbitrary: p args rule: less_induct)
  case less
  show ?case
  proof (cases args)
    case (Cons arg rest)
    show ?thesis
    proof (cases "flag arg p")
      case (Some q)
      with less.prems Cons have "cli_loop flag opt unknown q rest = Inr (Some p')" by (auto split: if_splits)
      with less.hyps [of rest q] Cons flag_keeps [OF Some less.prems(2)] show ?thesis by simp
    next
      case None
      with less.prems Cons obtain q where "opt arg (case rest of [] \<Rightarrow> None | v # _ \<Rightarrow> Some v) p = Some (Inr q)"
        and "cli_loop flag opt unknown q (tl rest) = Inr (Some p')"
        by (auto split: if_splits option.splits sum.splits)
      with less.hyps [of "tl rest" q] Cons opt_keeps less.prems(2) show ?thesis by (simp add: less_Suc_eq_le)
    qed
  qed (use less.prems in simp)
qed

end

section \<open>Values (args/parse.rs)\<close>

datatype venue = Binance | Upbit

definition u16_max :: nat where "u16_max = 2 ^ 16 - 1"
definition u8_max :: nat where "u8_max = 2 ^ 8 - 1"

definition parse_venue :: "string \<Rightarrow> (venue, string) result" where
  "parse_venue value =
     (if value = ''binance'' then Inr Binance else if value = ''upbit'' then Inr Upbit
      else Inl ''--venue must be binance or upbit'')"

definition depth_snapshot_limits :: "nat list" where "depth_snapshot_limits = [5, 10, 20, 50, 100, 500, 1000, 5000]"
definition orderbook_units :: "nat list" where "orderbook_units = [1, 5, 15, 30]"

definition parse_depth_snapshot_limit :: "string option \<Rightarrow> (nat, string) result" where
  "parse_depth_snapshot_limit value =
     and_then (ok_or ''--depth-snapshot-limit requires 5, 10, 20, 50, 100, 500, 1000, or 5000'' value) (\<lambda>v.
     and_then (ok_or ''--depth-snapshot-limit must be an integer'' (parse_unsigned_int u16_max v)) (\<lambda>parsed.
     and_then (guard_err (parsed \<notin> set depth_snapshot_limits)
       ''--depth-snapshot-limit must be 5, 10, 20, 50, 100, 500, 1000, or 5000'') (\<lambda>_. Inr parsed)))"

definition parse_upbit_orderbook_unit :: "string option \<Rightarrow> (nat, string) result" where
  "parse_upbit_orderbook_unit value =
     and_then (ok_or ''--upbit-orderbook-unit requires 1, 5, 15, or 30'' value) (\<lambda>v.
     and_then (ok_or ''--upbit-orderbook-unit must be an integer'' (parse_unsigned_int u8_max v)) (\<lambda>parsed.
     and_then (guard_err (parsed \<notin> set orderbook_units) ''--upbit-orderbook-unit must be 1, 5, 15, or 30'') (\<lambda>_. Inr parsed)))"

text \<open>\<open>usize\<close> and \<open>u64\<close> are both 64 bits wide and have the same text.\<close>

definition positive_u64 :: "string \<Rightarrow> string \<Rightarrow> (nat, string) result" where
  "positive_u64 value name =
     and_then (ok_or (name @ '' must be a positive integer'') (parse_unsigned_int u64_max value)) (\<lambda>parsed.
     and_then (guard_err (parsed = 0) (name @ '' must be positive'')) (\<lambda>_. Inr parsed))"

definition positive_u16 :: "string \<Rightarrow> string \<Rightarrow> (nat, string) result" where
  "positive_u16 value name =
     and_then (ok_or (name @ '' must be a positive integer'') (parse_unsigned_int u16_max value)) (\<lambda>parsed.
     and_then (guard_err (parsed = 0) (name @ '' must be positive'')) (\<lambda>_. Inr parsed))"

definition positive_i64 :: "string \<Rightarrow> string \<Rightarrow> (int, string) result" where
  "positive_i64 value name =
     and_then (ok_or (name @ '' must be a positive integer'') (parse_i64 value)) (\<lambda>parsed.
     and_then (guard_err (parsed \<le> 0) (name @ '' must be positive'')) (\<lambda>_. Inr parsed))"

definition parse_pct :: "string \<Rightarrow> string \<Rightarrow> (nat, string) result" where
  "parse_pct value name =
     and_then (ok_or (name @ '' must be 1..100'') (parse_unsigned_int u8_max value)) (\<lambda>parsed.
     and_then (guard_err (parsed = 0 \<or> parsed > 100) (name @ '' must be 1..100'')) (\<lambda>_. Inr parsed))"

section \<open>The ingestor (args.rs, args/env.rs, args/parse_cli)\<close>

record ingest_args =
  ar_venue :: venue
  ar_config_dir :: string
  ar_duration_seconds :: nat
  ar_log_interval_seconds :: nat
  ar_depth_snapshot_limit :: nat
  ar_expect_symbol_count :: nat
  ar_allow_partial_symbol_coverage :: bool
  ar_binance_futures_rest_base_url :: string
  ar_binance_derivatives_snapshot_interval_seconds :: nat
  ar_upbit_rest_base_url :: "string option"
  ar_upbit_websocket_url :: "string option"
  ar_upbit_quote_currency :: string
  ar_upbit_orderbook_unit :: nat
  ar_l0_s3_bucket :: "string option"
  ar_aws_profile :: "string option"
  ar_aws_region :: string
  ar_l0_spool_root :: string
  ar_l0_flush_records :: nat
  ar_l0_shard_count :: nat
  ar_local_disk_high_water_pct :: nat
  ar_local_disk_emergency_pct :: nat
  ar_safety_floor_hours :: int
  ar_eviction_check_interval_secs :: nat
  ar_s3_retention_enabled :: bool
  ar_s3_retention_days :: int
  ar_s3_retention_check_interval_secs :: nat
  ar_s3_retention_max_deletes_per_run :: nat
  ar_live_nats_url :: "string option"
  ar_live_nats_stream :: string
  ar_live_nats_subject_prefix :: string
  ar_live_nats_required :: bool

text \<open>The environment is a parameter: the value of a variable, if it is set and is valid Unicode.\<close>

definition env_string :: "(string \<Rightarrow> string option) \<Rightarrow> string \<Rightarrow> string option" where
  "env_string env name = filter_opt (\<lambda>v. v \<noteq> []) (map_option trim (env name))"

definition env_bool :: "(string \<Rightarrow> string option) \<Rightarrow> string \<Rightarrow> bool" where
  "env_bool env name = (case env name of
     None \<Rightarrow> False | Some v \<Rightarrow> to_ascii_lowercase (trim v) \<in> set [''1'', ''true'', ''yes''])"

definition default_args :: "(string \<Rightarrow> string option) \<Rightarrow> ingest_args" where
  "default_args env =
     \<lparr>ar_venue = Binance, ar_config_dir = ''/opt/nangman-crypto/strategies/crypto/rust-engine/config'',
      ar_duration_seconds = 15, ar_log_interval_seconds = 5, ar_depth_snapshot_limit = 100, ar_expect_symbol_count = 50,
      ar_allow_partial_symbol_coverage = False, ar_binance_futures_rest_base_url = ''https://fapi.binance.com'',
      ar_binance_derivatives_snapshot_interval_seconds = 300, ar_upbit_rest_base_url = None, ar_upbit_websocket_url = None,
      ar_upbit_quote_currency = ''KRW'', ar_upbit_orderbook_unit = 5, ar_l0_s3_bucket = None, ar_aws_profile = None,
      ar_aws_region = ''ap-northeast-2'', ar_l0_spool_root = ''/opt/nangman-crypto/data/spool/market-ingest/l0'',
      ar_l0_flush_records = 1000, ar_l0_shard_count = 1, ar_local_disk_high_water_pct = 70, ar_local_disk_emergency_pct = 90,
      ar_safety_floor_hours = 2, ar_eviction_check_interval_secs = 600, ar_s3_retention_enabled = True,
      ar_s3_retention_days = 45, ar_s3_retention_check_interval_secs = 21600, ar_s3_retention_max_deletes_per_run = 1000,
      ar_live_nats_url = env_string env ''MARKET_LIVE_NATS_URL'',
      ar_live_nats_stream = (case env_string env ''MARKET_LIVE_NATS_STREAM'' of Some s \<Rightarrow> s | None \<Rightarrow> ''MARKET_LIVE''),
      ar_live_nats_subject_prefix = (case env_string env ''MARKET_LIVE_NATS_SUBJECT_PREFIX'' of
         Some s \<Rightarrow> s | None \<Rightarrow> ''market_live_tick.created''),
      ar_live_nats_required = env_bool env ''MARKET_LIVE_NATS_REQUIRED''\<rparr>"

definition ingest_flag :: "string \<Rightarrow> ingest_args \<Rightarrow> ingest_args option" where
  "ingest_flag arg p =
     (if arg = ''--allow-partial-symbol-coverage'' then Some (p\<lparr>ar_allow_partial_symbol_coverage := True\<rparr>)
      else if arg = ''--disable-s3-retention'' then Some (p\<lparr>ar_s3_retention_enabled := False\<rparr>)
      else if arg = ''--live-nats-required'' then Some (p\<lparr>ar_live_nats_required := True\<rparr>)
      else None)"

definition runtime_option ::
    "string \<Rightarrow> string option \<Rightarrow> ingest_args \<Rightarrow> (ingest_args, string) result option" where
  "runtime_option arg v p =
     (if arg = ''--venue'' then
        Some (and_then (ok_or ''--venue requires binance or upbit'' v) (\<lambda>s. and_then (parse_venue s) (\<lambda>x. Inr (p\<lparr>ar_venue := x\<rparr>))))
      else if arg = ''--config'' then
        Some (and_then (ok_or ''--config requires an absolute config directory path'' v) (\<lambda>x. Inr (p\<lparr>ar_config_dir := x\<rparr>)))
      else if arg = ''--duration-seconds'' then
        Some (and_then (ok_or ''--duration-seconds requires a positive integer'' v) (\<lambda>s. and_then (positive_u64 s arg) (\<lambda>x. Inr (p\<lparr>ar_duration_seconds := x\<rparr>))))
      else if arg = ''--log-interval-seconds'' then
        Some (and_then (ok_or ''--log-interval-seconds requires a positive integer'' v) (\<lambda>s. and_then (positive_u64 s arg) (\<lambda>x. Inr (p\<lparr>ar_log_interval_seconds := x\<rparr>))))
      else if arg = ''--depth-snapshot-limit'' then
        Some (and_then (parse_depth_snapshot_limit v) (\<lambda>x. Inr (p\<lparr>ar_depth_snapshot_limit := x\<rparr>)))
      else if arg = ''--expect-symbol-count'' then
        Some (and_then (ok_or ''--expect-symbol-count requires a positive integer'' v) (\<lambda>s. and_then (positive_u64 s arg) (\<lambda>x. Inr (p\<lparr>ar_expect_symbol_count := x\<rparr>))))
      else None)"

definition exchange_option ::
    "string \<Rightarrow> string option \<Rightarrow> ingest_args \<Rightarrow> (ingest_args, string) result option" where
  "exchange_option arg v p =
     (if arg = ''--binance-futures-rest-base-url'' then
        Some (and_then (ok_or ''--binance-futures-rest-base-url requires an absolute HTTPS URL'' v) (\<lambda>x. Inr (p\<lparr>ar_binance_futures_rest_base_url := x\<rparr>)))
      else if arg = ''--binance-derivatives-snapshot-interval-seconds'' then
        Some (and_then (ok_or ''--binance-derivatives-snapshot-interval-seconds requires a positive integer'' v) (\<lambda>s. and_then (positive_u64 s arg) (\<lambda>x. Inr (p\<lparr>ar_binance_derivatives_snapshot_interval_seconds := x\<rparr>))))
      else if arg = ''--upbit-rest-base-url'' then
        Some (and_then (ok_or ''--upbit-rest-base-url requires an absolute HTTPS URL'' v) (\<lambda>x. Inr (p\<lparr>ar_upbit_rest_base_url := Some x\<rparr>)))
      else if arg = ''--upbit-websocket-url'' then
        Some (and_then (ok_or ''--upbit-websocket-url requires an absolute WSS URL'' v) (\<lambda>x. Inr (p\<lparr>ar_upbit_websocket_url := Some x\<rparr>)))
      else if arg = ''--upbit-quote-currency'' then
        Some (and_then (ok_or ''--upbit-quote-currency requires a quote currency'' v) (\<lambda>x. Inr (p\<lparr>ar_upbit_quote_currency := x\<rparr>)))
      else if arg = ''--upbit-orderbook-unit'' then
        Some (and_then (parse_upbit_orderbook_unit v) (\<lambda>x. Inr (p\<lparr>ar_upbit_orderbook_unit := x\<rparr>)))
      else None)"

definition storage_option ::
    "string \<Rightarrow> string option \<Rightarrow> ingest_args \<Rightarrow> (ingest_args, string) result option" where
  "storage_option arg v p =
     (if arg = ''--l0-s3-bucket'' then
        Some (and_then (ok_or ''--l0-s3-bucket requires a bucket'' v) (\<lambda>x. Inr (p\<lparr>ar_l0_s3_bucket := Some x\<rparr>)))
      else if arg = ''--aws-profile'' then
        Some (and_then (ok_or ''--aws-profile requires a profile'' v) (\<lambda>x. Inr (p\<lparr>ar_aws_profile := Some x\<rparr>)))
      else if arg = ''--aws-region'' then
        Some (and_then (ok_or ''--aws-region requires a region'' v) (\<lambda>x. Inr (p\<lparr>ar_aws_region := x\<rparr>)))
      else if arg = ''--l0-spool-root'' then
        Some (and_then (ok_or ''--l0-spool-root requires an absolute directory path'' v) (\<lambda>x. Inr (p\<lparr>ar_l0_spool_root := x\<rparr>)))
      else if arg = ''--l0-flush-records'' then
        Some (and_then (ok_or ''--l0-flush-records requires a positive integer'' v) (\<lambda>s. and_then (positive_u64 s arg) (\<lambda>x. Inr (p\<lparr>ar_l0_flush_records := x\<rparr>))))
      else if arg = ''--l0-shard-count'' then
        Some (and_then (ok_or ''--l0-shard-count requires a positive integer'' v) (\<lambda>s. and_then (positive_u16 s arg) (\<lambda>x. Inr (p\<lparr>ar_l0_shard_count := x\<rparr>))))
      else if arg = ''--local-disk-high-water-pct'' then
        Some (and_then (ok_or ''--local-disk-high-water-pct requires 1..100'' v) (\<lambda>s. and_then (parse_pct s arg) (\<lambda>x. Inr (p\<lparr>ar_local_disk_high_water_pct := x\<rparr>))))
      else if arg = ''--local-disk-emergency-pct'' then
        Some (and_then (ok_or ''--local-disk-emergency-pct requires 1..100'' v) (\<lambda>s. and_then (parse_pct s arg) (\<lambda>x. Inr (p\<lparr>ar_local_disk_emergency_pct := x\<rparr>))))
      else if arg = ''--safety-floor-hours'' then
        Some (and_then (ok_or ''--safety-floor-hours requires a positive integer'' v) (\<lambda>s. and_then (positive_i64 s arg) (\<lambda>x. Inr (p\<lparr>ar_safety_floor_hours := x\<rparr>))))
      else if arg = ''--eviction-check-interval-secs'' then
        Some (and_then (ok_or ''--eviction-check-interval-secs requires a positive integer'' v) (\<lambda>s. and_then (positive_u64 s arg) (\<lambda>x. Inr (p\<lparr>ar_eviction_check_interval_secs := x\<rparr>))))
      else None)"

definition retention_option ::
    "string \<Rightarrow> string option \<Rightarrow> ingest_args \<Rightarrow> (ingest_args, string) result option" where
  "retention_option arg v p =
     (if arg = ''--s3-retention-days'' then
        Some (and_then (ok_or ''--s3-retention-days requires a positive integer'' v) (\<lambda>s. and_then (positive_i64 s arg) (\<lambda>x. Inr (p\<lparr>ar_s3_retention_days := x\<rparr>))))
      else if arg = ''--s3-retention-check-interval-secs'' then
        Some (and_then (ok_or ''--s3-retention-check-interval-secs requires a positive integer'' v) (\<lambda>s. and_then (positive_u64 s arg) (\<lambda>x. Inr (p\<lparr>ar_s3_retention_check_interval_secs := x\<rparr>))))
      else if arg = ''--s3-retention-max-deletes-per-run'' then
        Some (and_then (ok_or ''--s3-retention-max-deletes-per-run requires a positive integer'' v) (\<lambda>s. and_then (positive_u64 s arg) (\<lambda>x. Inr (p\<lparr>ar_s3_retention_max_deletes_per_run := x\<rparr>))))
      else None)"

definition live_option ::
    "string \<Rightarrow> string option \<Rightarrow> ingest_args \<Rightarrow> (ingest_args, string) result option" where
  "live_option arg v p =
     (if arg = ''--live-nats-url'' then
        Some (and_then (ok_or ''--live-nats-url requires a nats:// URL'' v) (\<lambda>x. Inr (p\<lparr>ar_live_nats_url := Some x\<rparr>)))
      else if arg = ''--live-nats-stream'' then
        Some (and_then (ok_or ''--live-nats-stream requires a stream name'' v) (\<lambda>x. Inr (p\<lparr>ar_live_nats_stream := x\<rparr>)))
      else if arg = ''--live-nats-subject-prefix'' then
        Some (and_then (ok_or ''--live-nats-subject-prefix requires a subject prefix'' v) (\<lambda>x. Inr (p\<lparr>ar_live_nats_subject_prefix := x\<rparr>)))
      else None)"

definition ingest_option ::
    "string \<Rightarrow> string option \<Rightarrow> ingest_args \<Rightarrow> (ingest_args, string) result option" where
  "ingest_option arg v p =
     or_else (runtime_option arg v p) (or_else (exchange_option arg v p) (or_else (storage_option arg v p)
       (or_else (retention_option arg v p) (live_option arg v p))))"

lemmas ingest_option_defs =
  ingest_option_def runtime_option_def exchange_option_def storage_option_def retention_option_def live_option_def

section \<open>Validation (args/validation.rs)\<close>

definition validate_nats_url :: "string \<Rightarrow> string \<Rightarrow> (unit, string) result" where
  "validate_nats_url name value = guard_err (\<not> starts_with ''nats://'' value) (name @ '' must start with nats://'')"

definition validate_non_empty_token :: "string \<Rightarrow> string \<Rightarrow> (unit, string) result" where
  "validate_non_empty_token name value =
     and_then (guard_err (trim value = []) (name @ '' must not be empty'')) (\<lambda>_.
     guard_err (list_ex is_ws value) (name @ '' must not contain whitespace''))"

definition validate_subject_prefix :: "string \<Rightarrow> string \<Rightarrow> (unit, string) result" where
  "validate_subject_prefix name value =
     and_then (validate_non_empty_token name value) (\<lambda>_.
     guard_err (value \<noteq> [] \<and> last value = CHR ''.'') (name @ '' must not end with '' @ [CHR 0x27] @ ''.'' @ [CHR 0x27]))"

definition validate_live_nats :: "string option \<Rightarrow> string \<Rightarrow> string \<Rightarrow> (unit, string) result" where
  "validate_live_nats url_opt stream subject_prefix = (case url_opt of
     None \<Rightarrow> Inr ()
   | Some url \<Rightarrow>
       and_then (validate_nats_url ''--live-nats-url'' url) (\<lambda>_.
       and_then (validate_non_empty_token ''--live-nats-stream'' stream) (\<lambda>_.
       validate_subject_prefix ''--live-nats-subject-prefix'' subject_prefix)))"

definition validate_and_normalize :: "ingest_args \<Rightarrow> (ingest_args, string) result" where
  "validate_and_normalize parsed =
     and_then (guard_err (ar_local_disk_emergency_pct parsed < ar_local_disk_high_water_pct parsed)
       ''--local-disk-emergency-pct must be >= --local-disk-high-water-pct'') (\<lambda>_.
     and_then (case ar_l0_s3_bucket parsed of None \<Rightarrow> Inr () | Some bucket \<Rightarrow> validate_real_bucket ''--l0-s3-bucket'' bucket) (\<lambda>_.
     and_then (validate_live_nats (ar_live_nats_url parsed) (ar_live_nats_stream parsed) (ar_live_nats_subject_prefix parsed)) (\<lambda>_.
     Inr (if ar_log_interval_seconds parsed > ar_duration_seconds parsed
          then parsed\<lparr>ar_log_interval_seconds := ar_duration_seconds parsed\<rparr> else parsed))))"

definition ingest_parse_args :: "(string \<Rightarrow> string option) \<Rightarrow> string list \<Rightarrow> (ingest_args option, string) result" where
  "ingest_parse_args env args =
     and_then (cli_loop ingest_flag ingest_option (\<lambda>arg. ''unknown argument: '' @ arg) (default_args env) args) (\<lambda>parsed. case parsed of
       None \<Rightarrow> Inr None
     | Some p \<Rightarrow> and_then (validate_and_normalize p) (\<lambda>p'. Inr (Some p')))"

section \<open>The backfill (backfill/args)\<close>

datatype backfill_error = Http string | BackfillJson string | Storage string | InvalidArgs string | BackfillInvalidConfig string

definition backfill_error_display :: "backfill_error \<Rightarrow> string" where
  "backfill_error_display e = (case e of
     Http m \<Rightarrow> ''market backfill http error: '' @ m
   | BackfillJson m \<Rightarrow> ''market backfill json error: '' @ m
   | Storage m \<Rightarrow> ''market backfill storage error: '' @ m
   | InvalidArgs m \<Rightarrow> ''market backfill invalid args: '' @ m
   | BackfillInvalidConfig m \<Rightarrow> ''market backfill invalid config: '' @ m)"

record backfill_args =
  ba_venue :: venue
  ba_config_dir :: string
  ba_rest_base_url :: "string option"
  ba_input_start_ms :: int
  ba_input_end_ms :: int
  ba_expect_symbol_count :: nat
  ba_symbols :: "string list option"
  ba_upbit_quote_currency :: string
  ba_l0_s3_bucket :: string
  ba_aws_profile :: "string option"
  ba_aws_region :: string
  ba_l0_spool_root :: string
  ba_l0_flush_records :: nat
  ba_l0_shard_count :: nat
  ba_s3_retention_enabled :: bool
  ba_s3_retention_days :: int
  ba_s3_retention_max_deletes_per_run :: nat

definition venue_as_str :: "venue \<Rightarrow> string" where
  "venue_as_str v = (case v of Binance \<Rightarrow> ''binance'' | Upbit \<Rightarrow> ''upbit'')"

definition backfill_with_defaults :: backfill_args where
  "backfill_with_defaults =
     \<lparr>ba_venue = Binance, ba_config_dir = ''/opt/nangman-crypto/strategies/crypto/rust-engine/config'', ba_rest_base_url = None,
      ba_input_start_ms = 0, ba_input_end_ms = 0, ba_expect_symbol_count = 50, ba_symbols = None, ba_upbit_quote_currency = ''KRW'',
      ba_l0_s3_bucket = [], ba_aws_profile = None, ba_aws_region = ''ap-northeast-2'',
      ba_l0_spool_root = ''/opt/nangman-crypto/data/spool/market-ingest/l0'', ba_l0_flush_records = 1000, ba_l0_shard_count = 1,
      ba_s3_retention_enabled = True, ba_s3_retention_days = 45, ba_s3_retention_max_deletes_per_run = 1000\<rparr>"

definition next_required_arg :: "string option \<Rightarrow> string \<Rightarrow> (string, backfill_error) result" where
  "next_required_arg v message = ok_or (InvalidArgs message) v"

definition is_absolute :: "string \<Rightarrow> bool" where
  "is_absolute p \<longleftrightarrow> starts_with ''/'' p"

definition parse_absolute_path :: "string \<Rightarrow> string \<Rightarrow> (string, backfill_error) result" where
  "parse_absolute_path value message = (if \<not> is_absolute value then Inl (InvalidArgs message) else Inr value)"

definition symbol_tokens :: "string \<Rightarrow> string list" where
  "symbol_tokens raw = map to_ascii_uppercase (filter (\<lambda>s. s \<noteq> []) (map trim (split_on (CHR '','') raw)))"

definition backfill_parse_symbols :: "string \<Rightarrow> (string list, backfill_error) result" where
  "backfill_parse_symbols raw =
     (let parsed = symbol_tokens raw
      in if parsed = [] then Inl (InvalidArgs ''--symbols requires at least one symbol'') else Inr parsed)"

definition backfill_flag :: "string \<Rightarrow> backfill_args \<Rightarrow> backfill_args option" where
  "backfill_flag arg p = (if arg = ''--disable-s3-retention'' then Some (p\<lparr>ba_s3_retention_enabled := False\<rparr>) else None)"

definition apply_arg ::
    "string \<Rightarrow> string option \<Rightarrow> backfill_args \<Rightarrow> (backfill_args, backfill_error) result option" where
  "apply_arg arg v p =
     (if arg = ''--venue'' then
        Some (and_then (next_required_arg v ''--venue requires a value'') (\<lambda>s.
          and_then (map_err InvalidArgs (parse_venue s)) (\<lambda>x. Inr (p\<lparr>ba_venue := x\<rparr>))))
      else if arg = ''--config'' then
        Some (and_then (next_required_arg v ''--config requires an absolute config directory path'') (\<lambda>s.
          and_then (parse_absolute_path s ''--config requires an absolute config directory path'') (\<lambda>x. Inr (p\<lparr>ba_config_dir := x\<rparr>))))
      else if arg = ''--rest-base-url'' then
        Some (and_then (next_required_arg v ''--rest-base-url requires an HTTPS URL'') (\<lambda>x. Inr (p\<lparr>ba_rest_base_url := Some x\<rparr>)))
      else if arg = ''--input-start-ms'' then
        Some (and_then (next_required_arg v ''--input-start-ms requires a positive integer'') (\<lambda>s.
          and_then (map_err InvalidArgs (positive_i64 s arg)) (\<lambda>x. Inr (p\<lparr>ba_input_start_ms := x\<rparr>))))
      else if arg = ''--input-end-ms'' then
        Some (and_then (next_required_arg v ''--input-end-ms requires a positive integer'') (\<lambda>s.
          and_then (map_err InvalidArgs (positive_i64 s arg)) (\<lambda>x. Inr (p\<lparr>ba_input_end_ms := x\<rparr>))))
      else if arg = ''--expect-symbol-count'' then
        Some (and_then (next_required_arg v ''--expect-symbol-count requires a positive integer'') (\<lambda>s.
          and_then (map_err InvalidArgs (positive_u64 s arg)) (\<lambda>x. Inr (p\<lparr>ba_expect_symbol_count := x\<rparr>))))
      else if arg = ''--symbols'' then
        Some (and_then (next_required_arg v ''--symbols requires comma-separated symbols'') (\<lambda>s.
          and_then (backfill_parse_symbols s) (\<lambda>x. Inr (p\<lparr>ba_symbols := Some x\<rparr>))))
      else if arg = ''--upbit-quote-currency'' then
        Some (and_then (next_required_arg v ''--upbit-quote-currency requires a quote currency'') (\<lambda>x. Inr (p\<lparr>ba_upbit_quote_currency := x\<rparr>)))
      else if arg = ''--l0-s3-bucket'' then
        Some (and_then (next_required_arg v ''--l0-s3-bucket requires a bucket'') (\<lambda>x. Inr (p\<lparr>ba_l0_s3_bucket := x\<rparr>)))
      else if arg = ''--aws-profile'' then
        Some (and_then (next_required_arg v ''--aws-profile requires a profile'') (\<lambda>x. Inr (p\<lparr>ba_aws_profile := Some x\<rparr>)))
      else if arg = ''--aws-region'' then
        Some (and_then (next_required_arg v ''--aws-region requires a region'') (\<lambda>x. Inr (p\<lparr>ba_aws_region := x\<rparr>)))
      else if arg = ''--l0-spool-root'' then
        Some (and_then (next_required_arg v ''--l0-spool-root requires an absolute directory path'') (\<lambda>s.
          and_then (parse_absolute_path s ''--l0-spool-root requires an absolute directory path'') (\<lambda>x. Inr (p\<lparr>ba_l0_spool_root := x\<rparr>))))
      else if arg = ''--l0-flush-records'' then
        Some (and_then (next_required_arg v ''--l0-flush-records requires a positive integer'') (\<lambda>s.
          and_then (map_err InvalidArgs (positive_u64 s arg)) (\<lambda>x. Inr (p\<lparr>ba_l0_flush_records := x\<rparr>))))
      else if arg = ''--l0-shard-count'' then
        Some (and_then (next_required_arg v ''--l0-shard-count requires a positive integer'') (\<lambda>s.
          and_then (map_err InvalidArgs (positive_u16 s arg)) (\<lambda>x. Inr (p\<lparr>ba_l0_shard_count := x\<rparr>))))
      else if arg = ''--s3-retention-days'' then
        Some (and_then (next_required_arg v ''--s3-retention-days requires a positive integer'') (\<lambda>s.
          and_then (map_err InvalidArgs (positive_i64 s arg)) (\<lambda>x. Inr (p\<lparr>ba_s3_retention_days := x\<rparr>))))
      else if arg = ''--s3-retention-max-deletes-per-run'' then
        Some (and_then (next_required_arg v ''--s3-retention-max-deletes-per-run requires a positive integer'') (\<lambda>s.
          and_then (map_err InvalidArgs (positive_u64 s arg)) (\<lambda>x. Inr (p\<lparr>ba_s3_retention_max_deletes_per_run := x\<rparr>))))
      else None)"

text \<open>Parsing a URL is a parameter.\<close>

definition validate_https_url ::
    "(string \<Rightarrow> (parsed_url, string) result) \<Rightarrow> string \<Rightarrow> string \<Rightarrow> (unit, backfill_error) result" where
  "validate_https_url url_parse name value =
     and_then (map_err (\<lambda>e. InvalidArgs (name @ '' must be a URL: '' @ e)) (url_parse (trim value))) (\<lambda>url.
     and_then (guard_err (url_scheme url \<noteq> ''https'') (InvalidArgs (name @ '' must use https://''))) (\<lambda>_.
     and_then (guard_err (url_host url = None) (InvalidArgs (name @ '' must include a host''))) (\<lambda>_.
     and_then (guard_err (url_username url \<noteq> [] \<or> url_password url \<noteq> None)
       (InvalidArgs (name @ '' must not include credentials''))) (\<lambda>_.
     guard_err (url_query url \<noteq> None \<or> url_fragment url \<noteq> None)
       (InvalidArgs (name @ '' must not include query or fragment components''))))))"

definition backfill_validate_completed_args ::
    "(string \<Rightarrow> (parsed_url, string) result) \<Rightarrow> backfill_args \<Rightarrow> (unit, backfill_error) result" where
  "backfill_validate_completed_args url_parse parsed =
     and_then (guard_err (ba_input_start_ms parsed = 0) (InvalidArgs ''--input-start-ms is required'')) (\<lambda>_.
     and_then (guard_err (ba_input_end_ms parsed = 0) (InvalidArgs ''--input-end-ms is required'')) (\<lambda>_.
     and_then (guard_err (ba_input_end_ms parsed \<le> ba_input_start_ms parsed)
       (InvalidArgs ''--input-end-ms must be greater than --input-start-ms'')) (\<lambda>_.
     and_then (guard_err (ba_l0_s3_bucket parsed = []) (InvalidArgs ''--l0-s3-bucket is required'')) (\<lambda>_.
     and_then (map_err InvalidArgs (validate_real_bucket ''--l0-s3-bucket'' (ba_l0_s3_bucket parsed))) (\<lambda>_.
     case ba_rest_base_url parsed of None \<Rightarrow> Inr () | Some url \<Rightarrow> validate_https_url url_parse ''--rest-base-url'' url)))))"

definition backfill_parse_args ::
    "(string \<Rightarrow> (parsed_url, string) result) \<Rightarrow> string list \<Rightarrow> (backfill_args option, backfill_error) result" where
  "backfill_parse_args url_parse args =
     and_then (cli_loop backfill_flag apply_arg (\<lambda>arg. InvalidArgs (''unknown argument: '' @ arg)) backfill_with_defaults args) (\<lambda>parsed.
       case parsed of
         None \<Rightarrow> Inr None
       | Some p \<Rightarrow> and_then (backfill_validate_completed_args url_parse p) (\<lambda>_. Inr (Some p)))"

section \<open>What is accepted\<close>

definition ingest_args_ok :: "ingest_args \<Rightarrow> bool" where
  "ingest_args_ok p \<longleftrightarrow> 0 < ar_duration_seconds p \<and> 0 < ar_log_interval_seconds p \<and>
     ar_depth_snapshot_limit p \<in> set depth_snapshot_limits \<and> ar_upbit_orderbook_unit p \<in> set orderbook_units \<and>
     0 < ar_expect_symbol_count p \<and> 0 < ar_binance_derivatives_snapshot_interval_seconds p \<and> 0 < ar_l0_flush_records p \<and>
     0 < ar_l0_shard_count p \<and> ar_l0_shard_count p \<le> u16_max \<and> ar_local_disk_high_water_pct p \<in> {1..100} \<and>
     ar_local_disk_emergency_pct p \<in> {1..100} \<and> 0 < ar_safety_floor_hours p \<and> 0 < ar_eviction_check_interval_secs p \<and>
     0 < ar_s3_retention_days p \<and> 0 < ar_s3_retention_check_interval_secs p \<and> 0 < ar_s3_retention_max_deletes_per_run p"

definition backfill_args_ok :: "backfill_args \<Rightarrow> bool" where
  "backfill_args_ok p \<longleftrightarrow> 0 \<le> ba_input_start_ms p \<and> 0 \<le> ba_input_end_ms p \<and> 0 < ba_expect_symbol_count p \<and>
     ba_symbols p \<noteq> Some [] \<and> is_absolute (ba_config_dir p) \<and> is_absolute (ba_l0_spool_root p) \<and> 0 < ba_l0_flush_records p \<and>
     0 < ba_l0_shard_count p \<and> 0 < ba_s3_retention_days p \<and> 0 < ba_s3_retention_max_deletes_per_run p"

lemma parse_unsigned_int_le: "parse_unsigned_int hi s = Some n \<Longrightarrow> n \<le> hi"
  by (auto simp: parse_unsigned_int_def Let_def split: if_splits)

lemma positive_Inr [dest!]:
  "positive_u64 v n = Inr k \<Longrightarrow> 0 < k" "positive_u16 v n = Inr k \<Longrightarrow> 0 < k \<and> k \<le> u16_max" "positive_i64 v n = Inr x \<Longrightarrow> 0 < x"
  "parse_pct v n = Inr k \<Longrightarrow> 1 \<le> k \<and> k \<le> 100"
  by (auto simp: positive_u64_def positive_u16_def positive_i64_def parse_pct_def dest: parse_unsigned_int_le)

lemma parse_choice_Inr [dest!]:
  "parse_depth_snapshot_limit v = Inr k \<Longrightarrow> k \<in> set depth_snapshot_limits"
  "parse_upbit_orderbook_unit v = Inr k \<Longrightarrow> k \<in> set orderbook_units"
  by (auto simp: parse_depth_snapshot_limit_def parse_upbit_orderbook_unit_def)

lemma or_else_Some_cases:
  assumes "or_else a b = Some r"
  obtains "a = Some r" | "b = Some r"
  using assms by (auto simp: or_else_def split: option.splits)

lemma option_groups_ok:
  "runtime_option arg v p = Some (Inr p') \<Longrightarrow> ingest_args_ok p \<Longrightarrow> ingest_args_ok p'"
  "exchange_option arg v p = Some (Inr p') \<Longrightarrow> ingest_args_ok p \<Longrightarrow> ingest_args_ok p'"
  "storage_option arg v p = Some (Inr p') \<Longrightarrow> ingest_args_ok p \<Longrightarrow> ingest_args_ok p'"
  "retention_option arg v p = Some (Inr p') \<Longrightarrow> ingest_args_ok p \<Longrightarrow> ingest_args_ok p'"
  "live_option arg v p = Some (Inr p') \<Longrightarrow> ingest_args_ok p \<Longrightarrow> ingest_args_ok p'"
  subgoal unfolding runtime_option_def by (elim if_Some_cases) (auto simp: ingest_args_ok_def)
  subgoal unfolding exchange_option_def by (elim if_Some_cases) (auto simp: ingest_args_ok_def)
  subgoal unfolding storage_option_def by (elim if_Some_cases) (auto simp: ingest_args_ok_def)
  subgoal unfolding retention_option_def by (elim if_Some_cases) (auto simp: ingest_args_ok_def)
  subgoal unfolding live_option_def by (elim if_Some_cases) (auto simp: ingest_args_ok_def)
  done

interpretation ingest_cli: cli_invariant ingest_flag ingest_option "\<lambda>arg. ''unknown argument: '' @ arg" ingest_args_ok
proof
  show "ingest_flag arg p = Some p' \<Longrightarrow> ingest_args_ok p \<Longrightarrow> ingest_args_ok p'" for arg p p'
    by (auto simp: ingest_flag_def ingest_args_ok_def split: if_splits)
  show "ingest_option arg v p = Some (Inr p') \<Longrightarrow> ingest_args_ok p \<Longrightarrow> ingest_args_ok p'" for arg v p p'
    unfolding ingest_option_def by (elim or_else_Some_cases) (erule (1) option_groups_ok)+
qed

interpretation backfill_cli: cli_invariant backfill_flag apply_arg "\<lambda>arg. InvalidArgs (''unknown argument: '' @ arg)" backfill_args_ok
proof
  show "backfill_flag arg p = Some p' \<Longrightarrow> backfill_args_ok p \<Longrightarrow> backfill_args_ok p'" for arg p p'
    by (auto simp: backfill_flag_def backfill_args_ok_def split: if_splits)
  show "apply_arg arg v p = Some (Inr p') \<Longrightarrow> backfill_args_ok p \<Longrightarrow> backfill_args_ok p'" for arg v p p'
    unfolding apply_arg_def
    by (elim if_Some_cases)
      (auto simp: backfill_args_ok_def parse_absolute_path_def backfill_parse_symbols_def Let_def split: if_splits)
qed

section \<open>Properties\<close>



end
