(* ===== verification/Run_Mode.thy ===== *)
theory Run_Mode
  imports Normalize_Args
begin

text \<open>
  Which window a normalizer run processes (\<open>src/normalize/mode\<close>) and the loop that drains the ready windows of a
  tick (\<open>run/window.rs\<close>, \<open>run/worker/drain.rs\<close>, \<open>run/worker/schedule.rs\<close>). The loop is stated over the function that
  executes one decision, so the theory of the worker can put the whole read, build and publish step there. The lemmas
  show that a decision is one closed, aligned interval and that a tick processes consecutive intervals.
\<close>

section \<open>Ranges (mode/range.rs, mode/types.rs)\<close>

datatype run_mode = Live | CatchUp | Backfill

definition run_mode_as_str :: "run_mode \<Rightarrow> string" where
  "run_mode_as_str m = (case m of Live \<Rightarrow> ''LIVE'' | CatchUp \<Rightarrow> ''CATCH-UP'' | Backfill \<Rightarrow> ''BACKFILL'')"

record run_decision =
  rd_run_mode :: run_mode
  rd_input_range :: input_range

definition align_floor :: "int \<Rightarrow> int \<Rightarrow> int" where
  "align_floor v interval = (if interval \<le> 0 then v else i64_saturating_sub v (v mod interval))"

definition validate_range :: "int \<Rightarrow> int \<Rightarrow> int \<Rightarrow> int \<Rightarrow> (unit, string) result" where
  "validate_range s e window_ms schedule_interval_ms =
     and_then (guard_err (s < 0 \<or> e \<le> s) ''input range must be positive and non-empty'') (\<lambda>_.
     and_then (guard_err (window_ms > 0 \<and> (s smod window_ms \<noteq> 0 \<or> e smod window_ms \<noteq> 0))
       ''input range must align to window_ms'') (\<lambda>_.
     guard_err (schedule_interval_ms > 0 \<and> (s smod schedule_interval_ms \<noteq> 0 \<or> e smod schedule_interval_ms \<noteq> 0))
       ''input range must align to schedule_interval_ms''))"

section \<open>Decisions (mode/decision.rs)\<close>

definition ready_end :: "normalize_args \<Rightarrow> int \<Rightarrow> int" where
  "ready_end args now_ms = (now_ms sdiv na_schedule_interval_ms args) * na_schedule_interval_ms args"

definition decide_live_priority_mode ::
    "normalize_args \<Rightarrow> int \<Rightarrow> int option \<Rightarrow> (run_decision option, string) result" where
  "decide_live_priority_mode args now_ms last_l1_success_end_ms =
     (if \<not> na_live_priority args \<or> na_input_start_ms args \<noteq> None then Inr None
      else let interval = na_schedule_interval_ms args; ready_end_ms = ready_end args now_ms in
        if ready_end_ms \<le> 0 \<or> now_ms < i64_saturating_add ready_end_ms (na_watermark_delay_ms args) then Inr None
        else if (case last_l1_success_end_ms of
                   None \<Rightarrow> False
                 | Some last_end \<Rightarrow> last_end \<ge> ready_end_ms \<or>
                     i64_saturating_sub ready_end_ms last_end < na_live_priority_lag_threshold_ms args)
        then Inr None
        else let s = i64_saturating_sub ready_end_ms interval; e = ready_end_ms in
          and_then (validate_range s e (na_window_ms args) interval) (\<lambda>_.
          Inr (Some \<lparr>rd_run_mode = Live, rd_input_range = \<lparr>start_ms = s, end_ms = e\<rparr>\<rparr>)))"

definition decide_mode ::
    "normalize_args \<Rightarrow> int \<Rightarrow> int option \<Rightarrow> int option \<Rightarrow> (run_decision option, string) result" where
  "decide_mode args now_ms last_l1_success_end_ms oldest_l0_object_ms =
     (case (na_input_start_ms args, na_input_end_ms args) of
        (Some s, Some e) \<Rightarrow>
          and_then (validate_range s e (na_window_ms args) (na_schedule_interval_ms args)) (\<lambda>_.
          Inr (Some \<lparr>rd_run_mode = Backfill, rd_input_range = \<lparr>start_ms = s, end_ms = e\<rparr>\<rparr>))
      | _ \<Rightarrow>
          (let interval = na_schedule_interval_ms args; ready_end_ms = ready_end args now_ms in
           case (case last_l1_success_end_ms of
                   Some v \<Rightarrow> Some v
                 | None \<Rightarrow> map_option (\<lambda>v. align_floor v interval) oldest_l0_object_ms) of
             None \<Rightarrow> Inr None
           | Some next_start_candidate \<Rightarrow>
               (let next_start_ms = align_floor next_start_candidate interval in
                if i64_saturating_add next_start_ms interval > ready_end_ms then Inr None
                else let s = next_start_ms; e = i64_saturating_add next_start_ms interval in
                  and_then (validate_range s e (na_window_ms args) interval) (\<lambda>_.
                  let mode = if e = ready_end_ms then Live else CatchUp in
                  if mode = Live \<and> now_ms < i64_saturating_add ready_end_ms (na_watermark_delay_ms args) then Inr None
                  else Inr (Some \<lparr>rd_run_mode = mode, rd_input_range = \<lparr>start_ms = s, end_ms = e\<rparr>\<rparr>)))))"

section \<open>Draining the ready windows (run/window.rs, run/worker/drain.rs)\<close>

text \<open>The clock and the shutdown flag; \<open>wk_shutdown\<close> is constantly false when no handle is passed. A trace records what
  a tick did: \<open>Ran\<close> a decision, or \<open>Skipped\<close> it because the live-priority run of the tick was the same.\<close>

record 'w worker_env =
  wk_now :: "'w \<Rightarrow> 'w \<times> int"
  wk_shutdown :: "'w \<Rightarrow> bool"

datatype drain_event = Ran run_decision | Skipped run_decision

definition event_range :: "drain_event \<Rightarrow> input_range" where
  "event_range e = (case e of Ran d \<Rightarrow> rd_input_range d | Skipped d \<Rightarrow> rd_input_range d)"

text \<open>A decision may not return: a listing of the store can go on forever. That is the value \<open>None\<close>.\<close>

type_synonym 'w runner = "run_decision \<Rightarrow> int \<Rightarrow> 'w \<Rightarrow> ('w \<times> (unit, string) result) option"

definition run_live_priority_decision ::
    "'w runner \<Rightarrow> normalize_args \<Rightarrow> int \<Rightarrow> int option \<Rightarrow> 'w \<Rightarrow>
     ('w \<times> drain_event list \<times> (input_range option \<times> int option, string) result) option" where
  "run_live_priority_decision run args now_ms last_l1_success_end_ms w =
     (case decide_live_priority_mode args now_ms last_l1_success_end_ms of
        Inl e \<Rightarrow> Some (w, [], Inl e)
      | Inr None \<Rightarrow> Some (w, [], Inr (None, last_l1_success_end_ms))
      | Inr (Some d) \<Rightarrow>
          (let completed = rd_input_range d in
           case run d now_ms w of
             None \<Rightarrow> None
           | Some (w', Inl e) \<Rightarrow> Some (w', [Ran d], Inl e)
           | Some (w', Inr _) \<Rightarrow>
               Some (w', [Ran d], Inr (Some completed,
                  if last_l1_success_end_ms = Some (start_ms completed) then Some (end_ms completed)
                  else last_l1_success_end_ms))))"

definition run_next_ready_decision ::
    "'w runner \<Rightarrow> normalize_args \<Rightarrow> int \<Rightarrow> int option \<Rightarrow> int option \<Rightarrow> input_range option \<Rightarrow> 'w \<Rightarrow>
     ('w \<times> drain_event list \<times> (int option, string) result) option" where
  "run_next_ready_decision run args now_ms last_l1_success_end_ms oldest_l0_object_ms live_completed w =
     (case decide_mode args now_ms last_l1_success_end_ms oldest_l0_object_ms of
        Inl e \<Rightarrow> Some (w, [], Inl e)
      | Inr None \<Rightarrow> Some (w, [], Inr None)
      | Inr (Some d) \<Rightarrow>
          if live_completed = Some (rd_input_range d) then Some (w, [Skipped d], Inr (Some (end_ms (rd_input_range d))))
          else case run d now_ms w of
                 None \<Rightarrow> None
               | Some (w', Inl e) \<Rightarrow> Some (w', [Ran d], Inl e)
               | Some (w', Inr _) \<Rightarrow> Some (w', [Ran d], Inr (Some (end_ms (rd_input_range d)))))"

function drain_loop ::
    "'w worker_env \<Rightarrow> 'w runner \<Rightarrow> normalize_args \<Rightarrow> input_range option \<Rightarrow> int \<Rightarrow> int option \<Rightarrow> int option \<Rightarrow> nat \<Rightarrow> 'w \<Rightarrow>
     ('w \<times> drain_event list \<times> (unit, string) result) option" where
  "drain_loop env run args live_completed now_ms last_end oldest processed w =
     (if wk_shutdown env w then Some (w, [], Inr ())
      else if processed \<ge> na_max_windows_per_tick args then Some (w, [], Inr ())
      else case run_next_ready_decision run args now_ms last_end oldest live_completed w of
             None \<Rightarrow> None
           | Some (w1, ds, Inl e) \<Rightarrow> Some (w1, ds, Inl e)
           | Some (w1, ds, Inr None) \<Rightarrow> Some (w1, ds, Inr ())
           | Some (w1, ds, Inr (Some completed_end_ms)) \<Rightarrow>
               if wk_shutdown env w1 then Some (w1, ds, Inr ())
               else case wk_now env w1 of (w2, now') \<Rightarrow>
                 (case drain_loop env run args live_completed now' (Some completed_end_ms) None (Suc processed) w2 of
                    None \<Rightarrow> None
                  | Some (w3, ds', r) \<Rightarrow> Some (w3, ds @ ds', r)))"
  by auto
termination
  by (relation "measure (\<lambda>(env, run, args, lp, now, l, old, processed, w). na_max_windows_per_tick args - processed)") auto

declare drain_loop.simps [simp del]

definition worker_sleep_duration :: "normalize_args \<Rightarrow> (nat, string) result" where
  "worker_sleep_duration args =
     (let sleep_ms = if na_live_priority_only args then min (na_schedule_interval_ms args) 60000
                     else na_schedule_interval_ms args
      in if sleep_ms < 0 then Inl ''out of range integral type conversion attempted'' else Inr (nat sleep_ms))"

section \<open>Lemmas\<close>

lemma align_floor_facts:
  assumes "0 < i" and "0 \<le> v" and "v \<le> i64_max"
  shows "align_floor v i = v - v mod i" "align_floor v i mod i = 0" "align_floor v i \<le> v" "v < align_floor v i + i" "0 \<le> align_floor v i"
proof -
  have m: "0 \<le> v mod i" "v mod i < i" "v mod i \<le> v" using assms by (auto simp: zmod_le_nonneg_dividend)
  show e: "align_floor v i = v - v mod i"
    using assms m by (simp add: align_floor_def i64_saturating_sub_def sat_i64_def i64_consts)
  show "align_floor v i mod i = 0" by (simp add: e minus_mod_eq_mult_div)
  show "align_floor v i \<le> v" "v < align_floor v i + i" "0 \<le> align_floor v i" using m by (simp_all add: e)
qed

lemma align_floor_aligned: "0 < i \<Longrightarrow> 0 \<le> v \<Longrightarrow> v \<le> i64_max \<Longrightarrow> v mod i = 0 \<Longrightarrow> align_floor v i = v"
  using align_floor_facts(1) by simp

lemma ready_end_facts:
  assumes "0 < na_schedule_interval_ms args" and "0 \<le> now"
  shows "ready_end args now \<le> now" "ready_end args now mod na_schedule_interval_ms args = 0" "0 \<le> ready_end args now"
    "now < ready_end args now + na_schedule_interval_ms args"
proof -
  let ?i = "na_schedule_interval_ms args"
  have e: "ready_end args now = (now div ?i) * ?i" using assms by (simp add: ready_end_def)
  have "now = (now div ?i) * ?i + now mod ?i" "0 \<le> now mod ?i" "now mod ?i < ?i" using assms by simp_all
  then show "ready_end args now \<le> now" "now < ready_end args now + ?i" unfolding e by linarith+
  show "ready_end args now mod ?i = 0" by (simp add: e)
  show "0 \<le> ready_end args now" using assms by (simp add: e pos_imp_zdiv_nonneg_iff)
qed

lemma validate_range_Inr:
  assumes "validate_range s e w i = Inr ()" and "0 < w" and "0 < i"
  shows "0 \<le> s \<and> s < e \<and> s mod w = 0 \<and> e mod w = 0 \<and> s mod i = 0 \<and> e mod i = 0"
proof -
  have "0 \<le> s" "s < e" "s smod w = 0" "e smod w = 0" "s smod i = 0" "e smod i = 0"
    using assms by (auto simp: validate_range_def)
  then show ?thesis using assms(2,3) by simp
qed

text \<open>What a decision of the sequential scheduler is, without an explicit range.\<close>

lemma decide_mode_Some:
  assumes "decide_mode args now last_end oldest = Inr (Some d)" and "na_input_start_ms args = None"
    and w: "0 < na_window_ms args" and i: "0 < na_schedule_interval_ms args" and now: "0 \<le> now" "now \<le> i64_max"
  obtains v where "(case last_end of Some v \<Rightarrow> Some v | None \<Rightarrow> map_option (\<lambda>v. align_floor v (na_schedule_interval_ms args)) oldest) = Some v"
    and "start_ms (rd_input_range d) = align_floor v (na_schedule_interval_ms args)"
    and "end_ms (rd_input_range d) = start_ms (rd_input_range d) + na_schedule_interval_ms args"
    and "0 \<le> start_ms (rd_input_range d)" and "end_ms (rd_input_range d) \<le> ready_end args now"
    and "start_ms (rd_input_range d) mod na_schedule_interval_ms args = 0"
    and "start_ms (rd_input_range d) mod na_window_ms args = 0"
    and "rd_run_mode d = (if end_ms (rd_input_range d) = ready_end args now then Live else CatchUp)"
    and "rd_run_mode d = Live \<longrightarrow> i64_saturating_add (ready_end args now) (na_watermark_delay_ms args) \<le> now"
proof -
  let ?i = "na_schedule_interval_ms args" and ?r = "ready_end args now"
  obtain v where v: "(case last_end of Some v \<Rightarrow> Some v | None \<Rightarrow> map_option (\<lambda>v. align_floor v ?i) oldest) = Some v"
    using assms(1,2) by (auto simp: decide_mode_def Let_def split: option.splits)
  define s where "s = align_floor v ?i"
  define e where "e = i64_saturating_add s ?i"
  have d: "d = \<lparr>rd_run_mode = if e = ?r then Live else CatchUp, rd_input_range = \<lparr>start_ms = s, end_ms = e\<rparr>\<rparr>"
    and le: "e \<le> ?r" and ok: "validate_range s e (na_window_ms args) ?i = Inr ()"
    and live: "e = ?r \<Longrightarrow> i64_saturating_add ?r (na_watermark_delay_ms args) \<le> now"
    using assms(1,2) v unfolding decide_mode_def s_def e_def by (auto simp: Let_def split: if_splits option.splits)
  note f = validate_range_Inr [OF ok w i]
  have e: "e = s + ?i"
  proof (rule ccontr)
    assume ne: "e \<noteq> s + ?i"
    then have "e < s + ?i" using f i by (auto simp: e_def i64_saturating_add_def sat_i64_def i64_consts split: if_splits)
    moreover have "(e - s) mod ?i = 0" using f by (metis diff_zero mod_0 mod_diff_eq)
    ultimately show False using f by (metis diff_gt_0_iff_gt diff_less_eq less_irrefl mod_pos_pos_trivial add.commute less_le)
  qed
  show thesis
  proof (rule that [OF v])
    show "rd_run_mode d = Live \<longrightarrow> i64_saturating_add ?r (na_watermark_delay_ms args) \<le> now"
      using live by (auto simp: d split: if_splits)
  qed (use f le e in \<open>simp_all add: d s_def\<close>)
qed

text \<open>Windows of length \<open>i\<close> that follow each other from \<open>s\<close> on.\<close>

definition windows_from :: "int \<Rightarrow> int \<Rightarrow> nat \<Rightarrow> input_range list" where
  "windows_from i s n = map (\<lambda>k. \<lparr>start_ms = s + int k * i, end_ms = s + (int k + 1) * i\<rparr>) [0..<n]"

lemma windows_from_simps [simp]:
  "windows_from i s 0 = []" "windows_from i s (Suc n) = \<lparr>start_ms = s, end_ms = s + i\<rparr> # windows_from i (s + i) n"
  unfolding windows_from_def upt_conv_Cons [OF zero_less_Suc] map_Suc_upt [symmetric] by (simp_all add: algebra_simps)

definition sane_clock :: "'w worker_env \<Rightarrow> bool" where
  "sane_clock env \<longleftrightarrow> (\<forall>w. 0 \<le> snd (wk_now env w) \<and> snd (wk_now env w) \<le> i64_max)"

definition scheduler_args :: "normalize_args \<Rightarrow> bool" where
  "scheduler_args args \<longleftrightarrow> na_input_start_ms args = None \<and> 0 < na_window_ms args \<and> 0 < na_schedule_interval_ms args"

lemma next_decision_trace:
  assumes "run_next_ready_decision run args now (Some v) oldest lp w = Some (w', ds, r)" and a: "scheduler_args args"
    and "0 \<le> now" "now \<le> i64_max"
  shows "map event_range ds = windows_from (na_schedule_interval_ms args) (align_floor v (na_schedule_interval_ms args)) (length ds)"
    and "length ds \<le> 1"
    and "r = Inr (Some e) \<Longrightarrow> length ds = 1 \<and> e = align_floor v (na_schedule_interval_ms args) + na_schedule_interval_ms args \<and>
      0 \<le> e \<and> e \<le> i64_max \<and> e mod na_schedule_interval_ms args = 0"
proof -
  let ?i = "na_schedule_interval_ms args"
  have d: "rd_input_range d = \<lparr>start_ms = align_floor v ?i, end_ms = align_floor v ?i + ?i\<rparr> \<and> 0 \<le> align_floor v ?i + ?i \<and>
      align_floor v ?i + ?i \<le> i64_max \<and> (align_floor v ?i + ?i) mod ?i = 0"
    if dec: "decide_mode args now (Some v) oldest = Inr (Some d)" for d
  proof -
    have s: "na_input_start_ms args = None" "0 < na_window_ms args" "0 < ?i" using a by (simp_all add: scheduler_args_def)
    obtain v' where f: "start_ms (rd_input_range d) = align_floor v ?i"
        "end_ms (rd_input_range d) = start_ms (rd_input_range d) + ?i" "0 \<le> start_ms (rd_input_range d)"
        "end_ms (rd_input_range d) \<le> ready_end args now" "start_ms (rd_input_range d) mod ?i = 0"
      by (rule decide_mode_Some [OF dec s assms(3,4)]) simp
    with ready_end_facts(1) [OF s(3) assms(3)] assms(4) s(3) show ?thesis by (cases "rd_input_range d") auto
  qed
  have cases: "ds = [] \<and> (r = Inr None \<or> (\<exists>e. r = Inl e)) \<or>
      (\<exists>d. decide_mode args now (Some v) oldest = Inr (Some d) \<and> (ds = [Skipped d] \<or> ds = [Ran d]) \<and>
        (r = Inr (Some (end_ms (rd_input_range d))) \<or> (\<exists>e. r = Inl e)))"
    using assms(1) by (auto simp: run_next_ready_decision_def split: sum.splits option.splits if_splits prod.splits)
  then show "map event_range ds = windows_from ?i (align_floor v ?i) (length ds)" "length ds \<le> 1"
    by (auto simp: event_range_def dest!: d)
  show "length ds = 1 \<and> e = align_floor v ?i + ?i \<and> 0 \<le> e \<and> e \<le> i64_max \<and> e mod ?i = 0" if "r = Inr (Some e)"
    using cases that by (auto dest!: d)
qed

lemma drain_loop_trace:
  assumes "scheduler_args args" "sane_clock env"
  shows "drain_loop env run args lp now (Some v) oldest processed w = Some (w', ds, r) \<Longrightarrow> 0 \<le> now \<Longrightarrow> now \<le> i64_max \<Longrightarrow>
    map event_range ds = windows_from (na_schedule_interval_ms args) (align_floor v (na_schedule_interval_ms args)) (length ds) \<and>
    length ds \<le> na_max_windows_per_tick args - processed"
proof (induction "na_max_windows_per_tick args - processed" arbitrary: now v oldest processed w w' ds r)
  case 0
  then show ?case by (auto simp: drain_loop.simps [of env run args lp now] split: if_splits)
next
  case (Suc n)
  let ?i = "na_schedule_interval_ms args"
  note t = next_decision_trace [OF _ assms(1) Suc.prems(2,3), where v = v]
  have i: "0 < ?i" using assms(1) by (simp add: scheduler_args_def)
  consider "ds = []" | w1 r1 where "run_next_ready_decision run args now (Some v) oldest lp w = Some (w1, ds, r1)"
    | w1 ds1 e w2 now' ds2 r2 where "run_next_ready_decision run args now (Some v) oldest lp w = Some (w1, ds1, Inr (Some e))"
      "wk_now env w1 = (w2, now')"
      "drain_loop env run args lp now' (Some e) None (Suc processed) w2 = Some (w', ds2, r2)" "ds = ds1 @ ds2"
    using Suc.prems(1)
    by (subst (asm) drain_loop.simps) (auto split: if_splits sum.splits option.splits prod.splits)
  then show ?case
  proof cases
    case 1
    then show ?thesis by simp
  next
    case 2
    with t(1,2) [OF 2] Suc.hyps(2) show ?thesis by simp
  next
    case (3 w1 ds1 e w2 now' ds2 r2)
    note e = t(3) [OF 3(1) refl] and t1 = t(1) [OF 3(1)]
    have now': "0 \<le> now'" "now' \<le> i64_max" using assms(2) 3(2) unfolding sane_clock_def by (metis snd_conv)+
    have "align_floor e ?i = e" using e i by (intro align_floor_aligned) auto
    moreover have n: "n = na_max_windows_per_tick args - Suc processed" using Suc.hyps(2) by simp
    ultimately have IH: "map event_range ds2 = windows_from ?i e (length ds2)" "length ds2 \<le> n"
      using Suc.hyps(1) [OF n 3(3) now'] by simp_all
    obtain x where x: "ds1 = [x]" using e by (metis length_0_conv length_Suc_conv One_nat_def)
    show ?thesis using IH t1 e Suc.hyps(2) by (simp add: 3(4) x)
  qed
qed

lemma drain_loop_returns:
  assumes "\<And>d n w. (run d n w = None) = False"
  shows "drain_loop env run args lp now l oldest p w \<noteq> None"
proof (induction "na_max_windows_per_tick args - p" arbitrary: now l oldest p w)
  case 0
  then show ?case by (simp add: drain_loop.simps)
next
  case (Suc n)
  have n: "n = na_max_windows_per_tick args - Suc p" using Suc.hyps(2) by simp
  have IH: "(drain_loop env run args lp now' l' old' (Suc p) w' = None) = False" for now' l' old' w'
    using Suc.hyps(1) [OF n] by simp
  have "run_next_ready_decision run args now l oldest lp w \<noteq> None"
    by (auto simp: run_next_ready_decision_def assms split: sum.splits option.splits prod.splits)
  then show ?case by (subst drain_loop.simps) (auto simp: IH split: sum.splits option.splits prod.splits)
qed

section \<open>Properties\<close>

text \<open>without an explicit range the sequential scheduler only ever picks the one interval that follows what is
  published (or starts at the oldest L0 object): it has the length of the schedule, is aligned to schedule and
  window, lies entirely in the past, and the newest closed interval is only taken after the watermark delay.\<close>

theorem decision_closed_and_aligned:
  assumes "decide_mode args now last_end oldest = Inr (Some d)" and "scheduler_args args" and "0 \<le> now" "now \<le> i64_max"
  shows "\<exists>v. (last_end = Some v \<or> last_end = None \<and> oldest = Some v) \<and>
    (0 \<le> v \<longrightarrow> v \<le> i64_max \<longrightarrow> start_ms (rd_input_range d) \<le> v \<and> v < end_ms (rd_input_range d)) \<and>
    end_ms (rd_input_range d) = start_ms (rd_input_range d) + na_schedule_interval_ms args \<and>
    0 \<le> start_ms (rd_input_range d) \<and> end_ms (rd_input_range d) \<le> now \<and>
    start_ms (rd_input_range d) mod na_schedule_interval_ms args = 0 \<and> start_ms (rd_input_range d) mod na_window_ms args = 0 \<and>
    (rd_run_mode d = Live \<longrightarrow> i64_saturating_add (end_ms (rd_input_range d)) (na_watermark_delay_ms args) \<le> now) \<and>
    (rd_run_mode d = CatchUp \<longrightarrow> end_ms (rd_input_range d) + na_schedule_interval_ms args \<le> now)"
proof -
  let ?i = "na_schedule_interval_ms args" and ?rng = "rd_input_range d"
  have a: "na_input_start_ms args = None" "0 < na_window_ms args" "0 < ?i" using assms(2) by (simp_all add: scheduler_args_def)
  obtain v where v: "(case last_end of Some v \<Rightarrow> Some v | None \<Rightarrow> map_option (\<lambda>v. align_floor v ?i) oldest) = Some v"
    and f: "start_ms ?rng = align_floor v ?i" "end_ms ?rng = start_ms ?rng + ?i" "0 \<le> start_ms ?rng"
      "end_ms ?rng \<le> ready_end args now" "start_ms ?rng mod ?i = 0" "start_ms ?rng mod na_window_ms args = 0"
    and m: "rd_run_mode d = (if end_ms ?rng = ready_end args now then Live else CatchUp)"
      "rd_run_mode d = Live \<longrightarrow> i64_saturating_add (ready_end args now) (na_watermark_delay_ms args) \<le> now"
    by (rule decide_mode_Some [OF assms(1) a assms(3,4)]) (rule that; assumption)
  note r = ready_end_facts [OF a(3) assms(3)]
  have catch: "end_ms ?rng + ?i \<le> now" if "rd_run_mode d = CatchUp"
  proof -
    have "end_ms ?rng < ready_end args now" using that m(1) f(4) by (auto split: if_splits)
    moreover have "(ready_end args now - end_ms ?rng) mod ?i = 0" using f(2,5) r(2) by (metis diff_zero mod_0 mod_add_self2 mod_diff_eq)
    ultimately have "?i \<le> ready_end args now - end_ms ?rng"
      using mod_pos_pos_trivial [of "ready_end args now - end_ms ?rng" ?i] by fastforce
    with r(1) show ?thesis by simp
  qed
  obtain u where u: "last_end = Some u \<or> last_end = None \<and> oldest = Some u" and uv: "v = u \<or> v = align_floor u ?i"
    using v by (auto split: option.splits)
  have "start_ms ?rng \<le> u \<and> u < end_ms ?rng" if "0 \<le> u" "u \<le> i64_max"
  proof -
    note fu = align_floor_facts [OF a(3) that]
    have "align_floor v ?i = align_floor u ?i"
      using uv fu that(2) by (auto intro!: align_floor_aligned [OF a(3)])
    with fu f(1,2) show ?thesis by simp
  qed
  moreover have "end_ms ?rng \<le> now" using f(4) r(1) by simp
  moreover have "rd_run_mode d = Live \<Longrightarrow> end_ms ?rng = ready_end args now" using m(1) by (auto split: if_splits)
  ultimately show ?thesis using u f(2,3,5,6) catch m(2) by (intro exI [of _ u]) auto
qed

text \<open>a tick of the sequential scheduler processes consecutive intervals without a hole, starting at the one that
  contains the end of what is published, and no more than \<open>--max-windows-per-tick\<close> of them.\<close>

theorem drained_windows_contiguous:
  assumes "scheduler_args args" and "sane_clock env" and "0 \<le> now" "now \<le> i64_max"
    and "drain_loop env run args lp now (Some v) oldest processed w = Some (w', ds, r)"
  shows "map event_range ds = windows_from (na_schedule_interval_ms args) (align_floor v (na_schedule_interval_ms args)) (length ds) \<and>
    length ds \<le> na_max_windows_per_tick args - processed"
  by (rule drain_loop_trace [OF assms(1,2,5,3,4)])

section \<open>Witnesses\<close>

definition demo_worker :: "nat worker_env" where
  "demo_worker = \<lparr>wk_now = (\<lambda>w. (w, 3200000)), wk_shutdown = (\<lambda>w. False)\<rparr>"

definition demo_runner :: "nat runner" where
  "demo_runner d now w = Some (Suc w, Inr ())"

lemma default_scheduler_args: "scheduler_args normalize_with_defaults"
  by (simp add: scheduler_args_def normalize_with_defaults_def)

theorem decision_closed_and_aligned_witness:
  "\<exists>d. decide_mode normalize_with_defaults 3200000 (Some 900000) None = Inr (Some d) \<and> end_ms (rd_input_range d) \<le> 3200000"
proof -
  have "\<exists>d. decide_mode normalize_with_defaults 3200000 (Some 900000) None = Inr (Some d)"
    by (simp add: decide_mode_def normalize_with_defaults_def ready_end_def align_floor_def validate_range_def
        i64_saturating_sub_def i64_saturating_add_def sat_i64_def i64_consts)
  then show ?thesis using decision_closed_and_aligned [OF _ default_scheduler_args, of 3200000] by (force simp: i64_consts)
qed

theorem drained_windows_contiguous_witness:
  "\<exists>w' ds r. drain_loop demo_worker demo_runner normalize_with_defaults None 3200000 (Some 900000) None 0 0 = Some (w', ds, r) \<and>
     map event_range ds = windows_from 900000 900000 (length ds)"
proof -
  have "drain_loop demo_worker demo_runner normalize_with_defaults None 3200000 (Some 900000) None 0 0 \<noteq> None"
    by (rule drain_loop_returns) (simp add: demo_runner_def)
  then obtain w' ds r where d: "drain_loop demo_worker demo_runner normalize_with_defaults None 3200000 (Some 900000) None 0 0 = Some (w', ds, r)"
    by (metis not_Some_eq prod_cases3)
  have "sane_clock demo_worker" by (simp add: sane_clock_def demo_worker_def i64_consts)
  from drained_windows_contiguous [OF default_scheduler_args this _ _ d] d show ?thesis
    by (auto simp: i64_consts normalize_with_defaults_def align_floor_aligned)
qed

end
