(* ===== verification/Supervisor_Args.thy ===== *)
theory Supervisor_Args
  imports Worker_Args Run_Mode
begin

text \<open>
  Command line of the supervisor (\<open>src/supervisor/args\<close>) and the command lines it gives to its workers
  (\<open>src/supervisor/worker_args.rs\<close>). The results: what the supervisor accepts is accepted by every worker it starts (the
  backfill needs absolute paths on top), and the values arrive unchanged.
\<close>

section \<open>Arguments (args/types.rs, args/validation.rs)\<close>

record supervisor_args =
  sa_config_dir :: string
  sa_l0_s3_bucket :: string
  sa_l1_s3_bucket :: string
  sa_aws_profile :: "string option"
  sa_aws_region :: string
  sa_l0_spool_root :: string
  sa_l1_spool_root :: string
  sa_catchup_tmp_root :: string
  sa_realtime_bin :: string
  sa_backfill_bin :: string
  sa_normalize_bin :: string
  sa_realtime_venue :: string
  sa_realtime_venues :: "string list"
  sa_expect_symbol_count :: nat
  sa_realtime_duration_seconds :: nat
  sa_log_interval_seconds :: nat
  sa_l0_flush_records :: nat
  sa_l0_shard_count :: nat
  sa_bootstrap_enabled :: bool
  sa_bootstrap_lookback_days :: int
  sa_bootstrap_chunk_hours :: int
  sa_bootstrap_interval_secs :: nat
  sa_bootstrap_symbols :: "string list option"
  sa_normalize_schedule_interval_ms :: int
  sa_l0_run_key_overlap_ms :: int
  sa_normalize_max_windows_per_tick :: nat
  sa_l0_s3_retention_days :: int
  sa_l1_s3_retention_days :: int
  sa_s3_retention_check_interval_secs :: nat
  sa_s3_retention_max_deletes_per_run :: nat
  sa_restart_delay_secs :: nat
  sa_live_nats_url :: "string option"
  sa_live_nats_stream :: string
  sa_live_nats_subject_prefix :: string
  sa_live_nats_required :: bool

text \<open>Errors are messages; an error of \<open>str::parse\<close> carries the text it was given.\<close>

datatype supervisor_error = Message string | ParseInt string

definition supervisor_with_defaults :: "(string \<Rightarrow> string option) \<Rightarrow> supervisor_args" where
  "supervisor_with_defaults env =
     \<lparr>sa_config_dir = ''/opt/nangman-crypto/strategies/crypto/rust-engine/config'',
      sa_l0_s3_bucket = [],
      sa_l1_s3_bucket = [],
      sa_aws_profile = None,
      sa_aws_region = ''ap-northeast-2'',
      sa_l0_spool_root = ''/opt/nangman-crypto/data/spool/market-ingest/l0'',
      sa_l1_spool_root = ''/opt/nangman-crypto/data/spool/market-ingest/l1'',
      sa_catchup_tmp_root = ''/opt/nangman-crypto/data/spool/market-normalize/catchup'',
      sa_realtime_bin = ''/usr/local/bin/market-ingest-app'',
      sa_backfill_bin = ''/usr/local/bin/market-backfill'',
      sa_normalize_bin = ''/usr/local/bin/market-normalize'',
      sa_realtime_venue = ''binance'',
      sa_realtime_venues = [''binance''],
      sa_expect_symbol_count = 50,
      sa_realtime_duration_seconds = 31536000,
      sa_log_interval_seconds = 30,
      sa_l0_flush_records = 1000,
      sa_l0_shard_count = 1,
      sa_bootstrap_enabled = True,
      sa_bootstrap_lookback_days = 210,
      sa_bootstrap_chunk_hours = 24,
      sa_bootstrap_interval_secs = 60,
      sa_bootstrap_symbols = None,
      sa_normalize_schedule_interval_ms = 900000,
      sa_l0_run_key_overlap_ms = 360000,
      sa_normalize_max_windows_per_tick = 192,
      sa_l0_s3_retention_days = 45,
      sa_l1_s3_retention_days = 240,
      sa_s3_retention_check_interval_secs = 21600,
      sa_s3_retention_max_deletes_per_run = 1000,
      sa_restart_delay_secs = 15,
      sa_live_nats_url = env_string env ''MARKET_LIVE_NATS_URL'',
      sa_live_nats_stream = (case env_string env ''MARKET_LIVE_NATS_STREAM'' of Some s \<Rightarrow> s | None \<Rightarrow> ''MARKET_LIVE''),
      sa_live_nats_subject_prefix = (case env_string env ''MARKET_LIVE_NATS_SUBJECT_PREFIX'' of Some s \<Rightarrow> s | None \<Rightarrow> ''market_live_tick.created''),
      sa_live_nats_required = env_bool env ''MARKET_LIVE_NATS_REQUIRED''\<rparr>"

definition next_arg :: "string option \<Rightarrow> string \<Rightarrow> (string, supervisor_error) result" where
  "next_arg v name = ok_or (Message (name @ '' requires a value'')) v"

definition sup_positive_i64 :: "string \<Rightarrow> (int, supervisor_error) result" where
  "sup_positive_i64 value =
     and_then (ok_or (ParseInt value) (parse_i64 value)) (\<lambda>parsed.
     and_then (guard_err (parsed \<le> 0) (Message ''value must be positive'')) (\<lambda>_. Inr parsed))"

definition sup_positive_u64 :: "string \<Rightarrow> (nat, supervisor_error) result" where
  "sup_positive_u64 value =
     and_then (ok_or (ParseInt value) (parse_unsigned_int u64_max value)) (\<lambda>parsed.
     and_then (guard_err (parsed = 0) (Message ''value must be positive'')) (\<lambda>_. Inr parsed))"

definition sup_positive_u16 :: "string \<Rightarrow> (nat, supervisor_error) result" where
  "sup_positive_u16 value =
     and_then (ok_or (ParseInt value) (parse_unsigned_int u16_max value)) (\<lambda>parsed.
     and_then (guard_err (parsed = 0) (Message ''value must be positive'')) (\<lambda>_. Inr parsed))"

definition parse_symbols :: "string \<Rightarrow> string \<Rightarrow> (string list, supervisor_error) result" where
  "parse_symbols value name =
     (let symbols = symbol_tokens value
      in if symbols = [] then Inl (Message (name @ '' requires at least one symbol'')) else Inr symbols)"

definition validate_venue :: "string \<Rightarrow> string \<Rightarrow> (unit, supervisor_error) result" where
  "validate_venue value name =
     guard_err (value \<noteq> ''binance'' \<and> value \<noteq> ''upbit'') (Message (name @ '' must contain only binance or upbit''))"

definition parse_venues :: "string \<Rightarrow> (string list, supervisor_error) result" where
  "parse_venues value =
     (let venues = map to_ascii_lowercase (filter (\<lambda>s. s \<noteq> []) (map trim (split_on (CHR '','') value)))
      in if venues = [] then Inl (Message ''--realtime-venues requires at least one venue'')
         else and_then (try_fold (\<lambda>_ v. validate_venue v ''--realtime-venues'') () venues) (\<lambda>_. Inr venues))"

definition validate_bucket_arg :: "string \<Rightarrow> string \<Rightarrow> (unit, supervisor_error) result" where
  "validate_bucket_arg value name =
     and_then (guard_err (trim value = []) (Message (name @ '' is required''))) (\<lambda>_.
     guard_err (CHR ''<'' \<in> set value \<or> CHR ''>'' \<in> set value)
       (Message (name @ '' must be a real bucket name, not a public-doc placeholder'')))"

definition validate_completed_args :: "supervisor_args \<Rightarrow> (supervisor_args, supervisor_error) result" where
  "validate_completed_args parsed = (case sa_realtime_venues parsed of
     [] \<Rightarrow> Inl (Message ''--realtime-venues requires at least one venue'')
   | first_venue # _ \<Rightarrow>
       and_then (try_fold (\<lambda>_ v. validate_venue v ''--realtime-venues'') () (sa_realtime_venues parsed)) (\<lambda>_.
       and_then (validate_bucket_arg (sa_l0_s3_bucket parsed) ''--l0-s3-bucket'') (\<lambda>_.
       and_then (validate_bucket_arg (sa_l1_s3_bucket parsed) ''--l1-s3-bucket'') (\<lambda>_.
       and_then (map_err Message (validate_live_nats (sa_live_nats_url parsed) (sa_live_nats_stream parsed)
         (sa_live_nats_subject_prefix parsed))) (\<lambda>_.
       and_then (guard_err (sa_bootstrap_lookback_days parsed > 0 \<and> sa_bootstrap_chunk_hours parsed > 24)
         (Message ''--bootstrap-chunk-hours must be <= 24 to keep recovery chunks bounded'')) (\<lambda>_.
       and_then (guard_err (24 smod sa_bootstrap_chunk_hours parsed \<noteq> 0)
         (Message ''--bootstrap-chunk-hours must evenly divide 24 for stable UTC day partitions'')) (\<lambda>_.
       Inr (parsed\<lparr>sa_realtime_venue := first_venue\<rparr>))))))))"

section \<open>Options (args/parse.rs)\<close>

definition supervisor_flag :: "string \<Rightarrow> supervisor_args \<Rightarrow> supervisor_args option" where
  "supervisor_flag arg p =
     (if arg = ''--disable-bootstrap'' then Some (p\<lparr>sa_bootstrap_enabled := False\<rparr>)
      else if arg = ''--live-nats-required'' then Some (p\<lparr>sa_live_nats_required := True\<rparr>)
      else None)"

definition supervisor_option ::
    "string \<Rightarrow> string option \<Rightarrow> supervisor_args \<Rightarrow> (supervisor_args, supervisor_error) result option" where
  "supervisor_option arg v p =
     (if arg = ''--config'' then
        Some (and_then (next_arg v arg) (\<lambda>x. Inr (p\<lparr>sa_config_dir := x\<rparr>)))
      else if arg = ''--l0-s3-bucket'' then
        Some (and_then (next_arg v arg) (\<lambda>x. Inr (p\<lparr>sa_l0_s3_bucket := x\<rparr>)))
      else if arg = ''--l1-s3-bucket'' then
        Some (and_then (next_arg v arg) (\<lambda>x. Inr (p\<lparr>sa_l1_s3_bucket := x\<rparr>)))
      else if arg = ''--aws-profile'' then
        Some (and_then (next_arg v arg) (\<lambda>x. Inr (p\<lparr>sa_aws_profile := Some x\<rparr>)))
      else if arg = ''--aws-region'' then
        Some (and_then (next_arg v arg) (\<lambda>x. Inr (p\<lparr>sa_aws_region := x\<rparr>)))
      else if arg = ''--l0-spool-root'' then
        Some (and_then (next_arg v arg) (\<lambda>x. Inr (p\<lparr>sa_l0_spool_root := x\<rparr>)))
      else if arg = ''--l1-spool-root'' then
        Some (and_then (next_arg v arg) (\<lambda>x. Inr (p\<lparr>sa_l1_spool_root := x\<rparr>)))
      else if arg = ''--catchup-tmp-root'' then
        Some (and_then (next_arg v arg) (\<lambda>x. Inr (p\<lparr>sa_catchup_tmp_root := x\<rparr>)))
      else if arg = ''--realtime-bin'' then
        Some (and_then (next_arg v arg) (\<lambda>x. Inr (p\<lparr>sa_realtime_bin := x\<rparr>)))
      else if arg = ''--backfill-bin'' then
        Some (and_then (next_arg v arg) (\<lambda>x. Inr (p\<lparr>sa_backfill_bin := x\<rparr>)))
      else if arg = ''--normalize-bin'' then
        Some (and_then (next_arg v arg) (\<lambda>x. Inr (p\<lparr>sa_normalize_bin := x\<rparr>)))
      else if arg = ''--realtime-venue'' then
        Some (and_then (next_arg v arg) (\<lambda>x. Inr (p\<lparr>sa_realtime_venue := x, sa_realtime_venues := [x]\<rparr>)))
      else if arg = ''--realtime-venues'' then
        Some (and_then (next_arg v arg) (\<lambda>s. and_then (parse_venues s) (\<lambda>xs.
          Inr (p\<lparr>sa_realtime_venues := xs, sa_realtime_venue := (case xs of [] \<Rightarrow> ''binance'' | x # _ \<Rightarrow> x)\<rparr>))))
      else if arg = ''--expect-symbol-count'' then
        Some (and_then (next_arg v arg) (\<lambda>s. and_then (sup_positive_u64 s) (\<lambda>x. Inr (p\<lparr>sa_expect_symbol_count := x\<rparr>))))
      else if arg = ''--realtime-duration-seconds'' then
        Some (and_then (next_arg v arg) (\<lambda>s. and_then (sup_positive_u64 s) (\<lambda>x. Inr (p\<lparr>sa_realtime_duration_seconds := x\<rparr>))))
      else if arg = ''--log-interval-seconds'' then
        Some (and_then (next_arg v arg) (\<lambda>s. and_then (sup_positive_u64 s) (\<lambda>x. Inr (p\<lparr>sa_log_interval_seconds := x\<rparr>))))
      else if arg = ''--l0-flush-records'' then
        Some (and_then (next_arg v arg) (\<lambda>s. and_then (sup_positive_u64 s) (\<lambda>x. Inr (p\<lparr>sa_l0_flush_records := x\<rparr>))))
      else if arg = ''--l0-shard-count'' then
        Some (and_then (next_arg v arg) (\<lambda>s. and_then (sup_positive_u16 s) (\<lambda>x. Inr (p\<lparr>sa_l0_shard_count := x\<rparr>))))
      else if arg = ''--bootstrap-lookback-days'' then
        Some (and_then (next_arg v arg) (\<lambda>s. and_then (sup_positive_i64 s) (\<lambda>x. Inr (p\<lparr>sa_bootstrap_lookback_days := x\<rparr>))))
      else if arg = ''--bootstrap-chunk-hours'' then
        Some (and_then (next_arg v arg) (\<lambda>s. and_then (sup_positive_i64 s) (\<lambda>x. Inr (p\<lparr>sa_bootstrap_chunk_hours := x\<rparr>))))
      else if arg = ''--bootstrap-interval-secs'' then
        Some (and_then (next_arg v arg) (\<lambda>s. and_then (sup_positive_u64 s) (\<lambda>x. Inr (p\<lparr>sa_bootstrap_interval_secs := x\<rparr>))))
      else if arg = ''--bootstrap-symbols'' then
        Some (and_then (next_arg v arg) (\<lambda>s. and_then (parse_symbols s arg) (\<lambda>xs. Inr (p\<lparr>sa_bootstrap_symbols := Some xs\<rparr>))))
      else if arg = ''--normalize-schedule-interval-ms'' then
        Some (and_then (next_arg v arg) (\<lambda>s. and_then (sup_positive_i64 s) (\<lambda>x. Inr (p\<lparr>sa_normalize_schedule_interval_ms := x\<rparr>))))
      else if arg = ''--l0-run-key-overlap-ms'' then
        Some (and_then (next_arg v arg) (\<lambda>s. and_then (sup_positive_i64 s) (\<lambda>x. Inr (p\<lparr>sa_l0_run_key_overlap_ms := x\<rparr>))))
      else if arg = ''--normalize-max-windows-per-tick'' then
        Some (and_then (next_arg v arg) (\<lambda>s. and_then (sup_positive_u64 s) (\<lambda>x. Inr (p\<lparr>sa_normalize_max_windows_per_tick := x\<rparr>))))
      else if arg = ''--l0-s3-retention-days'' then
        Some (and_then (next_arg v arg) (\<lambda>s. and_then (sup_positive_i64 s) (\<lambda>x. Inr (p\<lparr>sa_l0_s3_retention_days := x\<rparr>))))
      else if arg = ''--l1-s3-retention-days'' then
        Some (and_then (next_arg v arg) (\<lambda>s. and_then (sup_positive_i64 s) (\<lambda>x. Inr (p\<lparr>sa_l1_s3_retention_days := x\<rparr>))))
      else if arg = ''--s3-retention-check-interval-secs'' then
        Some (and_then (next_arg v arg) (\<lambda>s. and_then (sup_positive_u64 s) (\<lambda>x. Inr (p\<lparr>sa_s3_retention_check_interval_secs := x\<rparr>))))
      else if arg = ''--s3-retention-max-deletes-per-run'' then
        Some (and_then (next_arg v arg) (\<lambda>s. and_then (sup_positive_u64 s) (\<lambda>x. Inr (p\<lparr>sa_s3_retention_max_deletes_per_run := x\<rparr>))))
      else if arg = ''--restart-delay-secs'' then
        Some (and_then (next_arg v arg) (\<lambda>s. and_then (sup_positive_u64 s) (\<lambda>x. Inr (p\<lparr>sa_restart_delay_secs := x\<rparr>))))
      else if arg = ''--live-nats-url'' then
        Some (and_then (next_arg v arg) (\<lambda>x. Inr (p\<lparr>sa_live_nats_url := Some x\<rparr>)))
      else if arg = ''--live-nats-stream'' then
        Some (and_then (next_arg v arg) (\<lambda>x. Inr (p\<lparr>sa_live_nats_stream := x\<rparr>)))
      else if arg = ''--live-nats-subject-prefix'' then
        Some (and_then (next_arg v arg) (\<lambda>x. Inr (p\<lparr>sa_live_nats_subject_prefix := x\<rparr>)))
      else None)"

definition supervisor_parse_args ::
    "(string \<Rightarrow> string option) \<Rightarrow> string list \<Rightarrow> (supervisor_args option, supervisor_error) result" where
  "supervisor_parse_args env args =
     and_then (cli_loop supervisor_flag supervisor_option (\<lambda>arg. Message (''unknown supervisor argument: '' @ arg))
       (supervisor_with_defaults env) args) (\<lambda>parsed. case parsed of
         None \<Rightarrow> Inr None
       | Some p \<Rightarrow> and_then (validate_completed_args p) (\<lambda>p'. Inr (Some p')))"

section \<open>Command lines of the workers (worker_args.rs)\<close>

text \<open>Paths are their text; \<open>display\<close> gives it back. A chunk is the range it covers.\<close>

definition profile_args :: "supervisor_args \<Rightarrow> string list" where
  "profile_args args = (case sa_aws_profile args of Some p \<Rightarrow> [''--aws-profile'', p] | None \<Rightarrow> [])"

definition realtime_args :: "supervisor_args \<Rightarrow> string \<Rightarrow> string list" where
  "realtime_args args venue =
     [''--venue'', venue, ''--config'', sa_config_dir args,
      ''--duration-seconds'', show_nat (sa_realtime_duration_seconds args),
      ''--log-interval-seconds'', show_nat (sa_log_interval_seconds args),
      ''--expect-symbol-count'', show_nat (sa_expect_symbol_count args),
      ''--allow-partial-symbol-coverage'', ''--l0-s3-bucket'', sa_l0_s3_bucket args, ''--aws-region'', sa_aws_region args,
      ''--l0-spool-root'', sa_l0_spool_root args, ''--l0-flush-records'', show_nat (sa_l0_flush_records args),
      ''--l0-shard-count'', show_nat (sa_l0_shard_count args), ''--s3-retention-days'', ''45'', ''--disable-s3-retention''] @
     (if venue = ''binance''
      then [''--depth-snapshot-limit'', ''100'', ''--binance-futures-rest-base-url'', ''https://fapi.binance.com''] else []) @
     (case sa_live_nats_url args of
        None \<Rightarrow> []
      | Some url \<Rightarrow>
          [''--live-nats-url'', url, ''--live-nats-stream'', sa_live_nats_stream args,
           ''--live-nats-subject-prefix'', sa_live_nats_subject_prefix args] @
          (if sa_live_nats_required args then [''--live-nats-required''] else [])) @
     profile_args args"

definition supervisor_backfill_args :: "supervisor_args \<Rightarrow> input_range \<Rightarrow> string list" where
  "supervisor_backfill_args args chunk =
     [''--venue'', ''binance'', ''--config'', sa_config_dir args, ''--input-start-ms'', show_int (start_ms chunk),
      ''--input-end-ms'', show_int (end_ms chunk), ''--expect-symbol-count'', show_nat (sa_expect_symbol_count args),
      ''--l0-s3-bucket'', sa_l0_s3_bucket args, ''--aws-region'', sa_aws_region args, ''--l0-spool-root'', sa_l0_spool_root args,
      ''--l0-flush-records'', show_nat (sa_l0_flush_records args), ''--l0-shard-count'', show_nat (sa_l0_shard_count args),
      ''--s3-retention-days'', ''45'', ''--disable-s3-retention''] @
     (case sa_bootstrap_symbols args of Some symbols \<Rightarrow> [''--symbols'', join '','' symbols] | None \<Rightarrow> []) @
     profile_args args"

definition supervisor_normalize_args :: "supervisor_args \<Rightarrow> string list" where
  "supervisor_normalize_args args =
     [''--l0-s3-bucket'', sa_l0_s3_bucket args, ''--l0-local-root'', sa_l0_spool_root args, ''--l1-s3-bucket'', sa_l1_s3_bucket args,
      ''--aws-region'', sa_aws_region args, ''--schedule-interval-ms'', show_int (sa_normalize_schedule_interval_ms args),
      ''--window-ms'', ''1000'', ''--scan-margin-ms'', ''300000'', ''--watermark-delay-ms'', ''360000'',
      ''--clock-skew-margin-ms'', ''1000'', ''--max-latency-ms'', ''1000'',
      ''--l0-run-key-overlap-ms'', show_int (sa_l0_run_key_overlap_ms args),
      ''--max-windows-per-tick'', show_nat (sa_normalize_max_windows_per_tick args), ''--live-priority'',
      ''--live-priority-lag-threshold-ms'', ''900000'', ''--spool-root'', sa_l1_spool_root args,
      ''--catchup-tmp-root'', sa_catchup_tmp_root args, ''--l0-s3-retention-days'', ''45'', ''--l1-s3-retention-days'', ''240'',
      ''--disable-s3-retention''] @ profile_args args"

definition live_priority_normalize_args :: "supervisor_args \<Rightarrow> string list" where
  "live_priority_normalize_args args =
     supervisor_normalize_args args @ [''--live-priority-only'', ''--max-windows-per-tick'', ''1'']"

definition normalize_backfill_args :: "supervisor_args \<Rightarrow> input_range \<Rightarrow> string list" where
  "normalize_backfill_args args chunk =
     supervisor_normalize_args args @ [''--input-start-ms'', show_int (start_ms chunk), ''--input-end-ms'', show_int (end_ms chunk)]"

section \<open>What the supervisor accepts\<close>

lemma parse_unsigned_show: "n \<le> hi \<Longrightarrow> parse_unsigned_int hi (show_nat n) = Some n"
proof -
  obtain c cs where c: "show_nat n = c # cs" by (meson list.exhaust show_nat_not_Nil)
  then have "is_ascii_digit c" using show_nat_digits [of n] by simp
  then have "c \<noteq> CHR ''+''" by (auto simp: is_ascii_digit_def)
  moreover assume "n \<le> hi"
  ultimately show ?thesis using c show_nat_digits [of n] show_nat_roundtrip [of n]
    by (simp add: parse_unsigned_int_def Let_def)
qed

lemma parse_i64_show: "in_i64 i \<Longrightarrow> parse_i64 (show_int i) = Some i"
proof -
  assume i: "in_i64 i"
  obtain c cs where c: "show_nat (nat i) = c # cs" by (meson list.exhaust show_nat_not_Nil)
  then have "is_ascii_digit c" using show_nat_digits [of "nat i"] by simp
  then have "c \<noteq> CHR ''+'' \<and> c \<noteq> CHR ''-''" by (auto simp: is_ascii_digit_def)
  then show ?thesis using i c show_nat_digits [of "nat i"] show_nat_roundtrip [of "nat i"] show_nat_digits [of "nat (- i)"]
    by (cases "i < 0") (auto simp: parse_i64_def parse_signed_def show_int_def Let_def in_i64_def)
qed

lemma positive_show:
  "0 < n \<Longrightarrow> n \<le> u64_max \<Longrightarrow> positive_u64 (show_nat n) name = Inr n"
  "0 < n \<Longrightarrow> n \<le> u16_max \<Longrightarrow> positive_u16 (show_nat n) name = Inr n"
  "0 < i \<Longrightarrow> i \<le> i64_max \<Longrightarrow> positive_i64 (show_int i) name = Inr i"
  "0 < i \<Longrightarrow> i \<le> i64_max \<Longrightarrow> parse_positive_i64 (Some (show_int i)) name = Inr i"
  "0 < n \<Longrightarrow> n \<le> u64_max \<Longrightarrow> parse_positive_usize (Some (show_nat n)) name = Inr n"
  "in_i64 i \<Longrightarrow> parse_i64_arg (Some (show_int i)) name = Inr i"
  by (simp_all add: positive_u64_def positive_u16_def positive_i64_def parse_positive_i64_def parse_positive_usize_def parse_i64_arg_def
      parse_unsigned_show parse_i64_show in_i64_def i64_consts)

text \<open>Symbols as the supervisor stores them: they survive being joined and split again.\<close>

definition symbol_ok :: "string \<Rightarrow> bool" where
  "symbol_ok s \<longleftrightarrow> s \<noteq> [] \<and> trim s = s \<and> to_ascii_uppercase s = s \<and> CHR '','' \<notin> set s"

lemma split_on_tokens: "w \<in> set (split_on d s) \<Longrightarrow> d \<notin> set w"
  by (induction s arbitrary: w) (auto split: list.splits if_splits)

lemma set_trim: "set (trim s) \<subseteq> set s"
  unfolding trim_def by (metis (no_types, lifting) set_dropWhileD set_rev subsetI)

lemma comma_uppercase: "CHR '','' \<in> set (to_ascii_uppercase s) \<Longrightarrow> CHR '','' \<in> set s"
proof -
  have "c = CHR '',''" if c: "to_upper c = CHR '',''" for c
  proof (rule ccontr)
    assume "c \<noteq> CHR '',''"
    with c have l: "97 \<le> (of_char c :: nat)" "of_char c \<le> (122 :: nat)" and e: "char_of ((of_char c :: nat) - 32) = CHR '',''"
      by (auto simp: to_upper_def Let_def split: if_splits)
    from arg_cong [OF e, where f = "of_char :: char \<Rightarrow> nat"] have "((of_char c :: nat) - 32) mod 256 = of_char (CHR '','')"
      by (simp only: of_char_of)
    with l show False by simp
  qed
  then show "CHR '','' \<in> set (to_ascii_uppercase s) \<Longrightarrow> CHR '','' \<in> set s"
    by (auto simp: to_ascii_uppercase_def) (metis)
qed

lemma symbol_tokens_ok: "list_all symbol_ok (symbol_tokens raw)"
proof -
  have "CHR '','' \<notin> set (to_ascii_uppercase (trim w))" if "w \<in> set (split_on (CHR '','') raw)" for w
    using split_on_tokens [OF that] set_trim [of w] comma_uppercase by blast
  then show ?thesis by (auto simp: list_all_iff symbol_tokens_def symbol_ok_def)
qed

lemma split_on_join: "xs \<noteq> [] \<Longrightarrow> list_all (\<lambda>s. d \<notin> set s) xs \<Longrightarrow> split_on d (join [d] xs) = xs"
proof (induction xs)
  case (Cons x xs)
  then show ?case by (cases xs) (simp_all add: split_on_append)
qed simp

lemma symbols_roundtrip: "xs \<noteq> [] \<Longrightarrow> list_all symbol_ok xs \<Longrightarrow> symbol_tokens (join '','' xs) = xs"
proof -
  assume xs: "xs \<noteq> []" "list_all symbol_ok xs"
  have "list_all (\<lambda>s. CHR '','' \<notin> set s) xs" using xs(2) by (auto simp: list_all_iff symbol_ok_def)
  then have "symbol_tokens (join '','' xs) = map to_ascii_uppercase (filter (\<lambda>s. s \<noteq> []) (map trim xs))"
    using split_on_join [OF xs(1)] by (simp add: symbol_tokens_def)
  also have "\<dots> = xs" using xs(2) by (induction xs) (simp_all add: symbol_ok_def)
  finally show ?thesis .
qed

definition positive_to :: "'a::linordered_semidom \<Rightarrow> 'a \<Rightarrow> bool" where
  "positive_to hi n \<longleftrightarrow> 0 < n \<and> n \<le> hi"

definition symbols_ok :: "string list option \<Rightarrow> bool" where
  "symbols_ok symbols = (case symbols of None \<Rightarrow> True | Some xs \<Rightarrow> xs \<noteq> [] \<and> list_all symbol_ok xs)"

definition supervisor_args_ok :: "supervisor_args \<Rightarrow> bool" where
  "supervisor_args_ok p \<longleftrightarrow>
     positive_to u64_max (sa_expect_symbol_count p) \<and> positive_to u64_max (sa_realtime_duration_seconds p) \<and>
     positive_to u64_max (sa_log_interval_seconds p) \<and> positive_to u64_max (sa_l0_flush_records p) \<and>
     positive_to u16_max (sa_l0_shard_count p) \<and> positive_to i64_max (sa_bootstrap_lookback_days p) \<and>
     positive_to i64_max (sa_bootstrap_chunk_hours p) \<and> positive_to i64_max (sa_normalize_schedule_interval_ms p) \<and>
     positive_to i64_max (sa_l0_run_key_overlap_ms p) \<and> positive_to u64_max (sa_normalize_max_windows_per_tick p) \<and>
     positive_to i64_max (sa_l0_s3_retention_days p) \<and> positive_to i64_max (sa_l1_s3_retention_days p) \<and>
     symbols_ok (sa_bootstrap_symbols p)"

lemma parse_i64_range: "parse_i64 s = Some i \<Longrightarrow> i \<le> i64_max"
  by (auto simp: parse_i64_def parse_signed_def Let_def split: if_splits prod.splits)

lemma sup_values_Inr:
  "sup_positive_u64 s = Inr k \<Longrightarrow> positive_to u64_max k" "sup_positive_u16 s = Inr k \<Longrightarrow> positive_to u16_max k"
  "sup_positive_i64 s = Inr i \<Longrightarrow> positive_to i64_max i" "parse_symbols s name = Inr xs \<Longrightarrow> symbols_ok (Some xs)"
  by (auto simp: sup_positive_u64_def sup_positive_u16_def sup_positive_i64_def positive_to_def parse_symbols_def symbols_ok_def
      Let_def symbol_tokens_ok dest: parse_unsigned_int_le parse_i64_range split: if_splits)

interpretation supervisor_cli: cli_invariant supervisor_flag supervisor_option
  "\<lambda>arg. Message (''unknown supervisor argument: '' @ arg)" supervisor_args_ok
proof
  show "supervisor_flag arg p = Some p' \<Longrightarrow> supervisor_args_ok p \<Longrightarrow> supervisor_args_ok p'" for arg p p'
    by (auto simp: supervisor_flag_def supervisor_args_ok_def split: if_splits)
  show "supervisor_option arg v p = Some (Inr p') \<Longrightarrow> supervisor_args_ok p \<Longrightarrow> supervisor_args_ok p'" for arg v p p'
    unfolding supervisor_option_def by (elim if_Some_cases) (auto simp: supervisor_args_ok_def dest!: sup_values_Inr)
qed

lemma supervisor_defaults_ok: "supervisor_args_ok (supervisor_with_defaults env)"
  by (simp add: supervisor_args_ok_def supervisor_with_defaults_def positive_to_def symbols_ok_def u64_max_def u16_max_def i64_consts)

section \<open>The workers accept their command lines\<close>

lemmas cli_values = positive_show positive_to_def

lemma profile_read:
  "cli_loop ingest_flag ingest_option unknown p (profile_args sa) =
     Inr (Some (case sa_aws_profile sa of None \<Rightarrow> p | Some x \<Rightarrow> p\<lparr>ar_aws_profile := Some x\<rparr>))"
  "cli_loop backfill_flag apply_arg unknown' b (profile_args sa) =
     Inr (Some (case sa_aws_profile sa of None \<Rightarrow> b | Some x \<Rightarrow> b\<lparr>ba_aws_profile := Some x\<rparr>))"
  "parse_loop n (profile_args sa @ rest) =
     parse_loop (case sa_aws_profile sa of None \<Rightarrow> n | Some x \<Rightarrow> n\<lparr>na_aws_profile := Some x\<rparr>) rest"
  by (simp_all add: profile_args_def ingest_flag_def ingest_option_defs or_else_def backfill_flag_def apply_arg_def next_required_arg_def
      set_flag_def set_option_def split: option.splits)

text \<open>The normalizer reads the common part of its command lines.\<close>

definition normalizer_of :: "supervisor_args \<Rightarrow> normalize_args" where
  "normalizer_of p = normalize_with_defaults
     \<lparr>na_l0_s3_bucket := sa_l0_s3_bucket p, na_l0_local_root := sa_l0_spool_root p, na_l1_s3_bucket := sa_l1_s3_bucket p,
      na_aws_region := sa_aws_region p, na_schedule_interval_ms := sa_normalize_schedule_interval_ms p,
      na_l0_run_key_overlap_ms := sa_l0_run_key_overlap_ms p, na_max_windows_per_tick := sa_normalize_max_windows_per_tick p,
      na_live_priority := True, na_spool_root := sa_l1_spool_root p, na_catchup_tmp_root := sa_catchup_tmp_root p,
      na_s3_retention_enabled := False, na_aws_profile := sa_aws_profile p\<rparr>"

lemma number_literals:
  "parse_positive_i64 (Some ''1000'') name = Inr 1000" "parse_positive_i64 (Some ''300000'') name = Inr 300000"
  "parse_positive_i64 (Some ''360000'') name = Inr 360000" "parse_positive_i64 (Some ''900000'') name = Inr 900000"
  "parse_positive_i64 (Some ''45'') name = Inr 45" "parse_positive_i64 (Some ''240'') name = Inr 240"
  "parse_positive_usize (Some ''1'') name = Inr 1" "positive_i64 ''45'' name = Inr 45"
  "parse_depth_snapshot_limit (Some ''100'') = Inr 100"
  by (simp_all add: parse_positive_i64_def parse_i64_arg_def parse_positive_usize_def positive_i64_def parse_depth_snapshot_limit_def
      depth_snapshot_limits_def parse_i64_def parse_signed_def parse_unsigned_int_def digits_val_def digit_val_def is_ascii_digit_def
      i64_consts u64_max_def u16_max_def)

lemma normalizer_reads:
  assumes "supervisor_args_ok p"
  shows "parse_loop normalize_with_defaults (supervisor_normalize_args p @ rest) = parse_loop (normalizer_of p) rest"
proof -
  let ?s = "show_int (sa_normalize_schedule_interval_ms p)" and ?o = "show_int (sa_l0_run_key_overlap_ms p)"
    and ?m = "show_nat (sa_normalize_max_windows_per_tick p)"
  have v: "parse_positive_i64 (Some ?s) name = Inr (sa_normalize_schedule_interval_ms p)"
    "parse_positive_i64 (Some ?o) name = Inr (sa_l0_run_key_overlap_ms p)"
    "parse_positive_usize (Some ?m) name = Inr (sa_normalize_max_windows_per_tick p)" for name
    using assms by (simp_all add: supervisor_args_ok_def cli_values)
  have "parse_loop normalize_with_defaults (supervisor_normalize_args p @ rest) =
      parse_loop (normalizer_of p\<lparr>na_aws_profile := None\<rparr>) (profile_args p @ rest)"
    by (simp add: supervisor_normalize_args_def set_flag_def set_option_def v number_literals normalizer_of_def normalize_with_defaults_def)
  then show ?thesis by (simp add: profile_read normalizer_of_def normalize_with_defaults_def split: option.splits)
qed

lemma supervisor_accepted:
  assumes "supervisor_parse_args env cl = Inr (Some p)"
  shows "supervisor_args_ok p" and "\<And>v. v \<in> set (sa_realtime_venues p) \<Longrightarrow> v = ''binance'' \<or> v = ''upbit''"
    and "\<And>name. validate_real_bucket name (sa_l0_s3_bucket p) = Inr ()" and "\<And>name. validate_real_bucket name (sa_l1_s3_bucket p) = Inr ()"
    and "validate_live_nats (sa_live_nats_url p) (sa_live_nats_stream p) (sa_live_nats_subject_prefix p) = Inr ()"
    and "24 mod sa_bootstrap_chunk_hours p = 0" and "sa_realtime_venues p \<noteq> []"
proof -
  obtain q where l: "cli_loop supervisor_flag supervisor_option (\<lambda>arg. Message (''unknown supervisor argument: '' @ arg))
      (supervisor_with_defaults env) cl = Inr (Some q)" and v: "validate_completed_args q = Inr p"
    using assms by (auto simp: supervisor_parse_args_def split: option.splits)
  obtain fv vs where vs: "sa_realtime_venues q = fv # vs" using v by (cases "sa_realtime_venues q") (auto simp: validate_completed_args_def)
  have q: "supervisor_args_ok q" by (rule supervisor_cli.loop_keeps [OF l supervisor_defaults_ok])
  have p: "p = q\<lparr>sa_realtime_venue := fv\<rparr>" using v vs by (auto simp: validate_completed_args_def)
  show "supervisor_args_ok p" using q by (simp add: p supervisor_args_ok_def)
  have f: "\<forall>v \<in> set xs. v = ''binance'' \<or> v = ''upbit''" if "try_fold (\<lambda>_ v. validate_venue v ''--realtime-venues'') () xs = Inr ()" for xs
    using that by (induction xs) (auto simp: validate_venue_def)
  show "\<And>v. v \<in> set (sa_realtime_venues p) \<Longrightarrow> v = ''binance'' \<or> v = ''upbit''"
    using v vs f [of "sa_realtime_venues q"] by (auto simp: p validate_completed_args_def)
  show "\<And>name. validate_real_bucket name (sa_l0_s3_bucket p) = Inr ()" "\<And>name. validate_real_bucket name (sa_l1_s3_bucket p) = Inr ()"
    using v vs by (auto simp: p validate_completed_args_def validate_bucket_arg_def validate_real_bucket_def)
  show "validate_live_nats (sa_live_nats_url p) (sa_live_nats_stream p) (sa_live_nats_subject_prefix p) = Inr ()"
    using v vs by (auto simp: p validate_completed_args_def)
  have "0 < sa_bootstrap_chunk_hours q" using q by (simp add: supervisor_args_ok_def positive_to_def)
  then show "24 mod sa_bootstrap_chunk_hours p = 0" using v vs by (auto simp: p validate_completed_args_def)
  show "sa_realtime_venues p \<noteq> []" by (simp add: p vs)
qed

lemma normalizer_valid:
  assumes "supervisor_parse_args env cl = Inr (Some p)"
  shows "parse_args (supervisor_normalize_args p) = Inr (Some (normalizer_of p))"
    and "parse_args (live_priority_normalize_args p) =
      Inr (Some (normalizer_of p\<lparr>na_live_priority_only := True, na_max_windows_per_tick := 1\<rparr>))"
    and "in_i64 (start_ms c) \<Longrightarrow> in_i64 (end_ms c) \<Longrightarrow> parse_args (normalize_backfill_args p c) =
      Inr (Some (normalizer_of p\<lparr>na_input_start_ms := Some (start_ms c), na_input_end_ms := Some (end_ms c)\<rparr>))"
proof -
  note a = supervisor_accepted [OF assms]
  have b: "sa_l0_s3_bucket p \<noteq> []" "sa_l1_s3_bucket p \<noteq> []"
    using a(3,4) [of "[]"] by (auto simp: validate_real_bucket_def trim_empty_iff)
  have v: "validate_parsed_args q = Inr ()" if "q = normalizer_of p \<or>
      q = normalizer_of p\<lparr>na_live_priority_only := True, na_max_windows_per_tick := 1\<rparr> \<or>
      q = normalizer_of p\<lparr>na_input_start_ms := Some (start_ms c), na_input_end_ms := Some (end_ms c)\<rparr>" for q
    using that a(3,4) b by (auto simp: validate_parsed_args_def normalizer_of_def normalize_with_defaults_def)
  show "parse_args (supervisor_normalize_args p) = Inr (Some (normalizer_of p))"
    using normalizer_reads [OF a(1), of "[]"] v by (simp add: parse_args_def)
  show "parse_args (live_priority_normalize_args p) =
      Inr (Some (normalizer_of p\<lparr>na_live_priority_only := True, na_max_windows_per_tick := 1\<rparr>))"
    using v by (simp add: parse_args_def live_priority_normalize_args_def normalizer_reads [OF a(1)] set_flag_def set_option_def
        number_literals normalizer_of_def)
  show "in_i64 (start_ms c) \<Longrightarrow> in_i64 (end_ms c) \<Longrightarrow> parse_args (normalize_backfill_args p c) =
      Inr (Some (normalizer_of p\<lparr>na_input_start_ms := Some (start_ms c), na_input_end_ms := Some (end_ms c)\<rparr>))"
    using v by (simp add: parse_args_def normalize_backfill_args_def normalizer_reads [OF a(1)] set_flag_def set_option_def
        positive_show)
qed

lemma realtime_reads:
  assumes "supervisor_args_ok p" and "venue = ''binance'' \<or> venue = ''upbit''"
  shows "\<exists>q. cli_loop ingest_flag ingest_option unknown (default_args env) (realtime_args p venue) = Inr (Some q) \<and>
    venue_as_str (ar_venue q) = venue \<and> ar_l0_s3_bucket q = Some (sa_l0_s3_bucket p) \<and>
    ar_expect_symbol_count q = sa_expect_symbol_count p \<and> ar_l0_shard_count q = sa_l0_shard_count p \<and>
    \<not> ar_s3_retention_enabled q \<and> ar_local_disk_high_water_pct q = 70 \<and> ar_local_disk_emergency_pct q = 90 \<and>
    (case sa_live_nats_url p of
       None \<Rightarrow> ar_live_nats_url q = ar_live_nats_url (default_args env)
     | Some url \<Rightarrow> ar_live_nats_url q = Some url \<and> ar_live_nats_stream q = sa_live_nats_stream p \<and>
         ar_live_nats_subject_prefix q = sa_live_nats_subject_prefix p)"
proof -
  define base where "base = (default_args env)\<lparr>ar_venue := (if venue = ''binance'' then Binance else Upbit),
      ar_config_dir := sa_config_dir p, ar_duration_seconds := sa_realtime_duration_seconds p,
      ar_log_interval_seconds := sa_log_interval_seconds p, ar_expect_symbol_count := sa_expect_symbol_count p,
      ar_allow_partial_symbol_coverage := True, ar_l0_s3_bucket := Some (sa_l0_s3_bucket p), ar_aws_region := sa_aws_region p,
      ar_l0_spool_root := sa_l0_spool_root p, ar_l0_flush_records := sa_l0_flush_records p,
      ar_l0_shard_count := sa_l0_shard_count p, ar_s3_retention_days := 45, ar_s3_retention_enabled := False\<rparr>"
  have v: "positive_u64 (show_nat (sa_realtime_duration_seconds p)) name = Inr (sa_realtime_duration_seconds p)"
    "positive_u64 (show_nat (sa_log_interval_seconds p)) name = Inr (sa_log_interval_seconds p)"
    "positive_u64 (show_nat (sa_expect_symbol_count p)) name = Inr (sa_expect_symbol_count p)"
    "positive_u64 (show_nat (sa_l0_flush_records p)) name = Inr (sa_l0_flush_records p)"
    "positive_u16 (show_nat (sa_l0_shard_count p)) name = Inr (sa_l0_shard_count p)" for name
    using assms(1) by (simp_all add: supervisor_args_ok_def cli_values)
  have ven: "parse_venue venue = Inr (if venue = ''binance'' then Binance else Upbit)"
    using assms(2) by (auto simp: parse_venue_def)
  let ?loop = "cli_loop ingest_flag ingest_option unknown"
  note defs = ingest_flag_def ingest_option_defs or_else_def
  have 1: "?loop (default_args env) ([''--venue'', venue, ''--config'', sa_config_dir p,
      ''--duration-seconds'', show_nat (sa_realtime_duration_seconds p),
      ''--log-interval-seconds'', show_nat (sa_log_interval_seconds p),
      ''--expect-symbol-count'', show_nat (sa_expect_symbol_count p),
      ''--allow-partial-symbol-coverage'', ''--l0-s3-bucket'', sa_l0_s3_bucket p, ''--aws-region'', sa_aws_region p,
      ''--l0-spool-root'', sa_l0_spool_root p, ''--l0-flush-records'', show_nat (sa_l0_flush_records p),
      ''--l0-shard-count'', show_nat (sa_l0_shard_count p), ''--s3-retention-days'', ''45'', ''--disable-s3-retention''] @ rest) =
      ?loop base rest" for rest
    by (simp add: defs v ven number_literals base_def)
  have 2: "?loop x ((if venue = ''binance''
      then [''--depth-snapshot-limit'', ''100'', ''--binance-futures-rest-base-url'', ''https://fapi.binance.com''] else []) @ rest) =
      ?loop (if venue = ''binance'' then x\<lparr>ar_depth_snapshot_limit := 100,
        ar_binance_futures_rest_base_url := ''https://fapi.binance.com''\<rparr> else x) rest" for x rest
    by (simp add: defs number_literals)
  have 3: "?loop x ((case sa_live_nats_url p of
        None \<Rightarrow> []
      | Some url \<Rightarrow>
          [''--live-nats-url'', url, ''--live-nats-stream'', sa_live_nats_stream p,
           ''--live-nats-subject-prefix'', sa_live_nats_subject_prefix p] @
          (if sa_live_nats_required p then [''--live-nats-required''] else [])) @ rest) =
      ?loop (case sa_live_nats_url p of None \<Rightarrow> x | Some url \<Rightarrow> x\<lparr>ar_live_nats_url := Some url,
        ar_live_nats_stream := sa_live_nats_stream p, ar_live_nats_subject_prefix := sa_live_nats_subject_prefix p,
        ar_live_nats_required := sa_live_nats_required p \<or> ar_live_nats_required x\<rparr>) rest" for x rest
    by (simp add: defs split: option.splits)
  show ?thesis
    unfolding realtime_args_def 1 2 3 profile_read(1)
    by (rule exI, rule conjI, rule refl) (use assms(2) in \<open>auto simp: base_def venue_as_str_def default_args_def split: option.splits\<close>)
qed

lemma backfill_reads:
  assumes "supervisor_args_ok p" and "0 < start_ms c" "start_ms c < end_ms c" "end_ms c \<le> i64_max"
  shows "cli_loop backfill_flag apply_arg unknown backfill_with_defaults (supervisor_backfill_args p c) =
    (if \<not> is_absolute (sa_config_dir p) then Inl (InvalidArgs ''--config requires an absolute config directory path'')
     else if \<not> is_absolute (sa_l0_spool_root p) then Inl (InvalidArgs ''--l0-spool-root requires an absolute directory path'')
     else Inr (Some (backfill_with_defaults\<lparr>ba_config_dir := sa_config_dir p, ba_input_start_ms := start_ms c, ba_input_end_ms := end_ms c,
       ba_expect_symbol_count := sa_expect_symbol_count p, ba_l0_s3_bucket := sa_l0_s3_bucket p, ba_aws_region := sa_aws_region p,
       ba_l0_spool_root := sa_l0_spool_root p, ba_l0_flush_records := sa_l0_flush_records p, ba_l0_shard_count := sa_l0_shard_count p,
       ba_s3_retention_days := 45, ba_s3_retention_enabled := False, ba_symbols := sa_bootstrap_symbols p,
       ba_aws_profile := sa_aws_profile p\<rparr>)))"
proof -
  have v: "positive_i64 (show_int (start_ms c)) name = Inr (start_ms c)" "positive_i64 (show_int (end_ms c)) name = Inr (end_ms c)"
    "positive_u64 (show_nat (sa_expect_symbol_count p)) name = Inr (sa_expect_symbol_count p)"
    "positive_u64 (show_nat (sa_l0_flush_records p)) name = Inr (sa_l0_flush_records p)"
    "positive_u16 (show_nat (sa_l0_shard_count p)) name = Inr (sa_l0_shard_count p)" for name
    using assms by (simp_all add: supervisor_args_ok_def cli_values)
  have s: "backfill_parse_symbols (join '','' xs) = Inr xs" if "sa_bootstrap_symbols p = Some xs" for xs
    using assms(1) that symbols_roundtrip [of xs] by (simp add: supervisor_args_ok_def symbols_ok_def backfill_parse_symbols_def)
  let ?loop = "cli_loop backfill_flag apply_arg unknown"
  note defs = backfill_flag_def apply_arg_def next_required_arg_def
  have 1: "?loop x ((case sa_bootstrap_symbols p of Some symbols \<Rightarrow> [''--symbols'', join '','' symbols] | None \<Rightarrow> []) @ rest) =
      ?loop (case sa_bootstrap_symbols p of Some symbols \<Rightarrow> x\<lparr>ba_symbols := Some symbols\<rparr> | None \<Rightarrow> x) rest" for x rest
    by (cases "sa_bootstrap_symbols p") (simp_all add: defs s)
  have venue: "parse_venue ''binance'' = Inr Binance" by (simp add: parse_venue_def)
  show ?thesis
    by (simp add: supervisor_backfill_args_def defs v venue number_literals parse_absolute_path_def 1 profile_read(2))
      (simp add: backfill_with_defaults_def split: option.splits)
qed

definition nats_known :: "(string \<Rightarrow> string option) \<Rightarrow> supervisor_args \<Rightarrow> bool" where
  "nats_known env p \<longleftrightarrow> sa_live_nats_url p = None \<longrightarrow> env_string env ''MARKET_LIVE_NATS_URL'' = None"

lemma nats_known_cong: "sa_live_nats_url p' = sa_live_nats_url p \<Longrightarrow> nats_known env p \<Longrightarrow> nats_known env p'"
  by (simp add: nats_known_def)

lemma nats_known_Some: "sa_live_nats_url p = Some u \<Longrightarrow> nats_known env p"
  by (simp add: nats_known_def)

interpretation nats_cli: cli_invariant supervisor_flag supervisor_option "\<lambda>arg. Message (''unknown supervisor argument: '' @ arg)"
  "nats_known env" for env
proof
  show "supervisor_flag arg p = Some p' \<Longrightarrow> nats_known env p \<Longrightarrow> nats_known env p'" for arg p p'
    by (auto simp: supervisor_flag_def split: if_splits intro: nats_known_cong)
  show "supervisor_option arg v p = Some (Inr p') \<Longrightarrow> nats_known env p \<Longrightarrow> nats_known env p'" for arg v p p'
    unfolding supervisor_option_def
    by (elim if_Some_cases; clarsimp; (rule nats_known_Some, simp; fail | rule nats_known_cong [of _ p], simp, assumption))
qed

lemma inherited_nats:
  assumes "supervisor_parse_args env cl = Inr (Some p)" and "sa_live_nats_url p = None"
  shows "env_string env ''MARKET_LIVE_NATS_URL'' = None"
proof -
  obtain q where l: "cli_loop supervisor_flag supervisor_option (\<lambda>arg. Message (''unknown supervisor argument: '' @ arg))
      (supervisor_with_defaults env) cl = Inr (Some q)" and v: "validate_completed_args q = Inr p"
    using assms(1) by (auto simp: supervisor_parse_args_def split: option.splits)
  have "sa_live_nats_url q = None" using v assms(2) by (auto simp: validate_completed_args_def split: list.splits)
  with nats_cli.loop_keeps [OF l, of env] show ?thesis by (simp add: supervisor_with_defaults_def nats_known_def)
qed

section \<open>Properties\<close>


section \<open>Witnesses\<close>

definition demo_command_line :: "string list" where
  "demo_command_line = [''--l0-s3-bucket'', ''a'', ''--l1-s3-bucket'', ''b'', ''--bootstrap-symbols'', ''btc, eth'']"

definition demo_supervisor :: supervisor_args where
  "demo_supervisor = (supervisor_with_defaults (\<lambda>_. None))\<lparr>sa_l0_s3_bucket := ''a'', sa_l1_s3_bucket := ''b'',
     sa_bootstrap_symbols := Some [''BTC'', ''ETH'']\<rparr>"

lemma demo_supervisor_parsed: "supervisor_parse_args (\<lambda>_. None) demo_command_line = Inr (Some demo_supervisor)"
proof -
  have "symbol_tokens ''btc, eth'' = [''BTC'', ''ETH'']"
    by code_simp
  then show ?thesis
    by (simp add: supervisor_parse_args_def demo_command_line_def demo_supervisor_def supervisor_flag_def supervisor_option_def next_arg_def
        parse_symbols_def validate_completed_args_def validate_venue_def validate_bucket_arg_def validate_live_nats_def
        supervisor_with_defaults_def env_string_def filter_opt_def trim_def is_ws_def)
qed


end
