(* ===== verification/F64.thy ===== *)
theory F64
  imports Prelude
begin

text \<open>
  Rust's \<open>f64\<close> as the sources use it: finite values are rationals, every arithmetic result is
  rounded to 53 bits with ties to even (subnormals down to \<open>2 ^ -1074\<close>), overflow gives an infinity,
  and comparisons with NaN are false. The sign of zero is not represented: the sources only compare
  zeros and divide behind a positivity test. \<open>parse_f64\<close> is \<open>str::parse\<close>, which also accepts the
  spellings of NaN and infinity.
\<close>

datatype f64 = NaN | PosInf | NegInf | Fin rat

definition pow2 :: "int \<Rightarrow> rat" where
  "pow2 e = (if e \<ge> 0 then 2 ^ nat e else 1 / 2 ^ nat (- e))"

fun bit_length :: "nat \<Rightarrow> nat" where
  "bit_length n = (if n = 0 then 0 else Suc (bit_length (n div 2)))"

declare bit_length.simps [simp del]

definition ilog2 :: "rat \<Rightarrow> int" where
  "ilog2 q = (case quotient_of q of (a, b) \<Rightarrow>
     let e = int (bit_length (nat a)) - int (bit_length (nat b))
     in if pow2 e \<le> q then e else e - 1)"

definition round_half_even :: "rat \<Rightarrow> int" where
  "round_half_even q = (let f = \<lfloor>q\<rfloor>; r = q - of_int f
     in if r < 1 / 2 then f else if 1 / 2 < r then f + 1 else if even f then f else f + 1)"

definition ulp_exp :: "rat \<Rightarrow> int" where
  "ulp_exp q = max (- 1074) (ilog2 \<bar>q\<bar> - 52)"

definition f64_round :: "rat \<Rightarrow> f64" where
  "f64_round q =
     (if q = 0 then Fin 0
      else let u = pow2 (ulp_exp q); r = of_int (round_half_even (q / u)) * u
           in if 2 ^ 1024 \<le> r then PosInf else if r \<le> - (2 ^ 1024) then NegInf else Fin r)"

fun f64_neg :: "f64 \<Rightarrow> f64" where
  "f64_neg NaN = NaN"
| "f64_neg PosInf = NegInf"
| "f64_neg NegInf = PosInf"
| "f64_neg (Fin x) = Fin (- x)"

fun f64_add :: "f64 \<Rightarrow> f64 \<Rightarrow> f64" where
  "f64_add (Fin x) (Fin y) = f64_round (x + y)"
| "f64_add NaN y = NaN"
| "f64_add x NaN = NaN"
| "f64_add PosInf NegInf = NaN"
| "f64_add NegInf PosInf = NaN"
| "f64_add PosInf y = PosInf"
| "f64_add NegInf y = NegInf"
| "f64_add (Fin x) y = y"

definition f64_sub :: "f64 \<Rightarrow> f64 \<Rightarrow> f64" where
  "f64_sub x y = f64_add x (f64_neg y)"

definition f64_inf_of_sign :: "rat \<Rightarrow> f64" where
  "f64_inf_of_sign s = (if s > 0 then PosInf else if s < 0 then NegInf else NaN)"

fun f64_sgn :: "f64 \<Rightarrow> rat" where
  "f64_sgn NaN = 0"
| "f64_sgn PosInf = 1"
| "f64_sgn NegInf = - 1"
| "f64_sgn (Fin x) = sgn x"

definition f64_mul :: "f64 \<Rightarrow> f64 \<Rightarrow> f64" where
  "f64_mul x y = (case (x, y) of
     (Fin a, Fin b) \<Rightarrow> f64_round (a * b)
   | (NaN, _) \<Rightarrow> NaN
   | (_, NaN) \<Rightarrow> NaN
   | _ \<Rightarrow> f64_inf_of_sign (f64_sgn x * f64_sgn y))"

text \<open>A zero divisor is taken as positive zero.\<close>

definition f64_div :: "f64 \<Rightarrow> f64 \<Rightarrow> f64" where
  "f64_div x y = (case (x, y) of
     (Fin a, Fin b) \<Rightarrow> if b = 0 then f64_inf_of_sign a else f64_round (a / b)
   | (NaN, _) \<Rightarrow> NaN
   | (_, NaN) \<Rightarrow> NaN
   | (Fin a, _) \<Rightarrow> Fin 0
   | (_, Fin b) \<Rightarrow> f64_inf_of_sign (f64_sgn x * (if b < 0 then - 1 else 1))
   | _ \<Rightarrow> NaN)"

fun f64_lt :: "f64 \<Rightarrow> f64 \<Rightarrow> bool" where
  "f64_lt (Fin x) (Fin y) \<longleftrightarrow> x < y"
| "f64_lt NaN y \<longleftrightarrow> False"
| "f64_lt x NaN \<longleftrightarrow> False"
| "f64_lt NegInf y \<longleftrightarrow> y \<noteq> NegInf"
| "f64_lt x PosInf \<longleftrightarrow> x \<noteq> PosInf"
| "f64_lt x y \<longleftrightarrow> False"

definition f64_eq :: "f64 \<Rightarrow> f64 \<Rightarrow> bool" where
  "f64_eq x y \<longleftrightarrow> x \<noteq> NaN \<and> x = y"

definition f64_le :: "f64 \<Rightarrow> f64 \<Rightarrow> bool" where
  "f64_le x y \<longleftrightarrow> f64_lt x y \<or> f64_eq x y"

definition is_finite :: "f64 \<Rightarrow> bool" where
  "is_finite x = (case x of Fin _ \<Rightarrow> True | _ \<Rightarrow> False)"

text \<open>\<open>f64::min\<close> and \<open>f64::max\<close>: NaN is ignored when the other operand is a number.\<close>

definition f64_min :: "f64 \<Rightarrow> f64 \<Rightarrow> f64" where
  "f64_min x y = (if x = NaN then y else if y = NaN then x else if f64_lt y x then y else x)"

definition f64_max :: "f64 \<Rightarrow> f64 \<Rightarrow> f64" where
  "f64_max x y = (if x = NaN then y else if y = NaN then x else if f64_lt x y then y else x)"

definition f64_abs :: "f64 \<Rightarrow> f64" where
  "f64_abs x = (case x of NaN \<Rightarrow> NaN | Fin a \<Rightarrow> Fin \<bar>a\<bar> | _ \<Rightarrow> PosInf)"

definition f64_of_int :: "int \<Rightarrow> f64" where
  "f64_of_int i = f64_round (of_int i)"

section \<open>Parsing\<close>

text \<open>The grammar of \<open>f64::from_str\<close>: an optional sign, then \<open>inf\<close>, \<open>infinity\<close> or \<open>nan\<close> in any case,
  or digits with an optional fraction (at least one digit in all) and an optional exponent.\<close>

definition parse_exponent :: "string \<Rightarrow> int option" where
  "parse_exponent s =
     (let (neg, ds) = (case s of [] \<Rightarrow> (False, [])
                       | c # cs \<Rightarrow> if c = CHR ''-'' then (True, cs)
                                   else if c = CHR ''+'' then (False, cs) else (False, s))
      in if ds = [] \<or> \<not> list_all is_ascii_digit ds then None
         else Some (if neg then - int (digits_val ds) else int (digits_val ds)))"

definition pow10_rat :: "int \<Rightarrow> rat" where
  "pow10_rat e = (if e \<ge> 0 then 10 ^ nat e else 1 / 10 ^ nat (- e))"

definition parse_decimal :: "string \<Rightarrow> rat option" where
  "parse_decimal s =
     (let (mant, exponent) = (case split_once (CHR ''e'') (to_ascii_lowercase s) of
                                None \<Rightarrow> (s, Some 0) | Some (m, e) \<Rightarrow> (m, parse_exponent e));
          (whole, fraction) = (case split_once (CHR ''.'') mant of None \<Rightarrow> (mant, []) | Some p \<Rightarrow> p)
      in if whole @ fraction = [] \<or> \<not> list_all is_ascii_digit (whole @ fraction) then None
         else map_option (\<lambda>e. of_nat (digits_val (whole @ fraction)) * pow10_rat (e - int (length fraction)))
                exponent)"

definition parse_f64_unsigned :: "string \<Rightarrow> f64 option" where
  "parse_f64_unsigned s =
     (let l = to_ascii_lowercase s
      in if l = ''inf'' \<or> l = ''infinity'' then Some PosInf
         else if l = ''nan'' then Some NaN
         else map_option f64_round (parse_decimal s))"

definition parse_f64 :: "string \<Rightarrow> f64 option" where
  "parse_f64 s = (case s of [] \<Rightarrow> None
     | c # cs \<Rightarrow> if c = CHR ''-'' then map_option f64_neg (parse_f64_unsigned cs)
                 else if c = CHR ''+'' then parse_f64_unsigned cs else parse_f64_unsigned s)"

section \<open>Lemmas\<close>

lemma pow2_pos [simp]: "0 < pow2 e"
  by (simp add: pow2_def)

lemma round_half_even_nonneg: "0 \<le> q \<Longrightarrow> 0 \<le> round_half_even q"
  by (auto simp: round_half_even_def Let_def)

lemma round_half_even_nonpos: "q \<le> 0 \<Longrightarrow> round_half_even q \<le> 0"
proof -
  assume q: "q \<le> 0"
  show ?thesis
  proof (cases "q = of_int \<lfloor>q\<rfloor>")
    case True
    then have "round_half_even q = \<lfloor>q\<rfloor>" by (simp add: round_half_even_def)
    with q show ?thesis by simp
  next
    case False
    with q have "\<lfloor>q\<rfloor> \<le> - 1" by linarith
    then show ?thesis by (auto simp: round_half_even_def Let_def)
  qed
qed

lemma f64_round_sign:
  "0 \<le> q \<Longrightarrow> f64_round q = PosInf \<or> (\<exists>r \<ge> 0. f64_round q = Fin r)"
  "q \<le> 0 \<Longrightarrow> f64_round q = NegInf \<or> (\<exists>r \<le> 0. f64_round q = Fin r)"
proof -
  define u where "u = pow2 (ulp_exp q)"
  have u: "0 < u" by (simp add: u_def)
  define r where "r = of_int (round_half_even (q / u)) * u"
  have eq: "f64_round q = (if q = 0 then Fin 0 else if 2 ^ 1024 \<le> r then PosInf
    else if r \<le> - (2 ^ 1024) then NegInf else Fin r)"
    by (simp add: f64_round_def u_def r_def Let_def)
  show "f64_round q = PosInf \<or> (\<exists>r \<ge> 0. f64_round q = Fin r)" if "0 \<le> q"
  proof -
    have "0 \<le> r" using that u round_half_even_nonneg [of "q / u"] by (simp add: r_def)
    moreover from this have "\<not> r \<le> - (2 ^ 1024)" by (simp add: not_le order_less_le_trans [of _ 0])
    ultimately show ?thesis by (auto simp: eq)
  qed
  show "f64_round q = NegInf \<or> (\<exists>r \<le> 0. f64_round q = Fin r)" if "q \<le> 0"
  proof -
    have "r \<le> 0" using that u round_half_even_nonpos [of "q / u"]
      by (simp add: r_def mult_nonpos_nonneg divide_nonpos_pos)
    moreover from this have "\<not> 2 ^ 1024 \<le> r" by (simp add: not_le order_le_less_trans [of _ 0])
    ultimately show ?thesis by (auto simp: eq)
  qed
qed

lemma f64_round_not_NaN [simp]: "f64_round q \<noteq> NaN"
  by (simp add: f64_round_def Let_def)

lemma f64_round_0 [simp]: "f64_round 0 = Fin 0"
  by (simp add: f64_round_def)

lemma f64_lt_irrefl [simp]: "\<not> f64_lt x x"
  by (cases x) auto

lemma f64_lt_trans: "f64_lt x y \<Longrightarrow> f64_lt y z \<Longrightarrow> f64_lt x z"
  by (cases x; cases y; cases z) auto

lemma f64_le_trans: "f64_le x y \<Longrightarrow> f64_le y z \<Longrightarrow> f64_le x z"
  by (cases x; cases y; cases z) (auto simp: f64_le_def f64_eq_def)

lemma f64_le_total: "x \<noteq> NaN \<Longrightarrow> y \<noteq> NaN \<Longrightarrow> f64_le x y \<or> f64_le y x"
  by (cases x; cases y) (auto simp: f64_le_def f64_eq_def)

lemma f64_le_refl [simp]: "f64_le x x \<longleftrightarrow> x \<noteq> NaN"
  by (simp add: f64_le_def f64_eq_def)

lemma f64_le_Fin [simp]: "f64_le (Fin x) (Fin y) \<longleftrightarrow> x \<le> y"
  by (auto simp: f64_le_def f64_eq_def)

lemma f64_NaN_cmp [simp]: "\<not> f64_le NaN y" "\<not> f64_le x NaN" "\<not> f64_lt NaN y" "\<not> f64_lt x NaN"
  by (cases x; simp add: f64_le_def f64_eq_def)+

end
