(* ===== verification/Json.thy ===== *)
theory Json
  imports F64
begin

text \<open>
  The value type of JSON documents and the accessors the sources call on it
  (\<open>get\<close>, \<open>as_u64\<close>, \<open>as_i64\<close>, \<open>as_f64\<close>, \<open>as_str\<close>, \<open>as_bool\<close>, \<open>as_array\<close>). Turning text into a
  value is a parameter of the definitions that need it.
\<close>

datatype json_number = PosInt nat | NegInt int | FloatNum f64

datatype json =
    JNull
  | JBool bool
  | JNumber json_number
  | JString string
  | JArray "json list"
  | JObject "(string \<times> json) list"

definition jget :: "string \<Rightarrow> json \<Rightarrow> json option" where
  "jget key v = (case v of JObject fields \<Rightarrow> map_of fields key | _ \<Rightarrow> None)"

definition as_u64 :: "json \<Rightarrow> nat option" where
  "as_u64 v = (case v of JNumber (PosInt n) \<Rightarrow> Some n | _ \<Rightarrow> None)"

definition as_i64 :: "json \<Rightarrow> int option" where
  "as_i64 v = (case v of
     JNumber (PosInt n) \<Rightarrow> if int n \<le> i64_max then Some (int n) else None
   | JNumber (NegInt i) \<Rightarrow> Some i
   | _ \<Rightarrow> None)"

definition number_as_f64 :: "json_number \<Rightarrow> f64 option" where
  "number_as_f64 n = Some (case n of
     PosInt m \<Rightarrow> f64_of_int (int m) | NegInt i \<Rightarrow> f64_of_int i | FloatNum x \<Rightarrow> x)"

definition as_f64 :: "json \<Rightarrow> f64 option" where
  "as_f64 v = (case v of JNumber n \<Rightarrow> number_as_f64 n | _ \<Rightarrow> None)"

definition as_str :: "json \<Rightarrow> string option" where
  "as_str v = (case v of JString s \<Rightarrow> Some s | _ \<Rightarrow> None)"

definition as_bool :: "json \<Rightarrow> bool option" where
  "as_bool v = (case v of JBool b \<Rightarrow> Some b | _ \<Rightarrow> None)"

definition as_array :: "json \<Rightarrow> json list option" where
  "as_array v = (case v of JArray xs \<Rightarrow> Some xs | _ \<Rightarrow> None)"

lemmas json_defs = jget_def as_u64_def as_i64_def number_as_f64_def as_f64_def as_str_def as_bool_def
  as_array_def

end
