(* ===== verification/L0_Record.thy ===== *)
theory L0_Record
  imports Depth_Sync Json Storage_Error
begin

text \<open>
  \<open>src/storage/record.rs\<close>, \<open>gap.rs\<close>, \<open>health.rs\<close>, \<open>symbol_health.rs\<close>, \<open>partition/\<close> and \<open>src/live\<close>: the
  four families of L0 records, their identifiers and object keys, and the live tick derived from a raw
  event. The hash functions, the calendar and the JSON parser are fields of \<open>l0_params\<close>. The lemmas
  show that identifiers and object keys are injective in what they encode and that published subjects
  and prices are well formed.
\<close>

text \<open>Code outside the repository: SHA-256, the standard library's unspecified default hasher, the
  calendar (date string and hour of a millisecond timestamp, \<open>None\<close> when out of range) and JSON
  parsing.\<close>

record l0_params =
  p_digest :: "string \<Rightarrow> nat list"
  p_hash :: "string \<Rightarrow> nat"
  p_calendar :: "timestamp_ms \<Rightarrow> (string \<times> nat) option"
  p_json :: "string \<Rightarrow> json option"

section \<open>Records\<close>

record raw_draft =
  rd_event_type :: string
  rd_venue :: string
  rd_source_role :: string
  rd_market_type :: string
  rd_symbol_native :: string
  rd_symbol_canonical :: string
  rd_base_asset :: string
  rd_quote_asset :: string
  rd_exchange_timestamp_ms :: timestamp_ms
  rd_ingest_timestamp_ms :: timestamp_ms
  rd_sequence_id :: string
  rd_sequence_tag :: string
  rd_exchange_sequence :: "int option"
  rd_diff_first_update_id :: "int option"
  rd_diff_final_update_id :: "int option"
  rd_is_snapshot :: bool
  rd_stream_type :: string
  rd_stream_phase :: string
  rd_payload_json :: string

record raw_record =
  rr_event_id :: string
  rr_producer_run_id :: string
  rr_venue :: string
  rr_source_role :: string
  rr_market_type :: string
  rr_event_type :: string
  rr_symbol_native :: string
  rr_symbol_canonical :: string
  rr_base_asset :: string
  rr_quote_asset :: string
  rr_exchange_timestamp_ms :: timestamp_ms
  rr_ingest_timestamp_ms :: timestamp_ms
  rr_sequence_id :: string
  rr_sequence_tag :: string
  rr_exchange_sequence :: "int option"
  rr_diff_first_update_id :: "int option"
  rr_diff_final_update_id :: "int option"
  rr_is_snapshot :: bool
  rr_stream_type :: string
  rr_stream_phase :: string
  rr_payload_json :: string
  rr_payload_sha256 :: string
  rr_schema_version :: string

definition hex_digit :: "nat \<Rightarrow> char" where
  "hex_digit n = (if n < 10 then char_of (48 + n) else char_of (87 + n))"

definition hex_byte :: "nat \<Rightarrow> string" where
  "hex_byte b = [hex_digit (b div 16), hex_digit (b mod 16)]"

definition sha256_hex :: "l0_params \<Rightarrow> string \<Rightarrow> string" where
  "sha256_hex params bytes = concat (map hex_byte (p_digest params bytes))"

definition raw_from_draft :: "l0_params \<Rightarrow> raw_draft \<Rightarrow> string \<Rightarrow> u64 \<Rightarrow> raw_record" where
  "raw_from_draft params d producer_run_id ordinal =
     \<lparr>rr_event_id = ''evt_'' @ rd_venue d @ ''_'' @ rd_event_type d @ ''_'' @
        show_int (rd_ingest_timestamp_ms d) @ ''_'' @ show_nat (unat ordinal),
      rr_producer_run_id = producer_run_id, rr_venue = rd_venue d, rr_source_role = rd_source_role d,
      rr_market_type = rd_market_type d, rr_event_type = rd_event_type d,
      rr_symbol_native = rd_symbol_native d, rr_symbol_canonical = rd_symbol_canonical d,
      rr_base_asset = rd_base_asset d, rr_quote_asset = rd_quote_asset d,
      rr_exchange_timestamp_ms = rd_exchange_timestamp_ms d,
      rr_ingest_timestamp_ms = rd_ingest_timestamp_ms d, rr_sequence_id = rd_sequence_id d,
      rr_sequence_tag = (if rd_sequence_tag d = [] then rd_sequence_id d else rd_sequence_tag d),
      rr_exchange_sequence = rd_exchange_sequence d,
      rr_diff_first_update_id = rd_diff_first_update_id d,
      rr_diff_final_update_id = rd_diff_final_update_id d, rr_is_snapshot = rd_is_snapshot d,
      rr_stream_type = rd_stream_type d, rr_stream_phase = rd_stream_phase d,
      rr_payload_json = rd_payload_json d, rr_payload_sha256 = sha256_hex params (rd_payload_json d),
      rr_schema_version = ''raw_market_event_v2''\<rparr>"

record gap_draft =
  gd_venue :: string
  gd_source_role :: string
  gd_symbol_native :: string
  gd_gap_type :: string
  gd_detected_at_ms :: timestamp_ms
  gd_expected_sequence_id :: "int option"
  gd_observed_sequence_id :: "int option"
  gd_heal_action :: string
  gd_heal_status :: string
  gd_payload_json :: string

record gap_record =
  gr_gap_id :: string
  gr_producer_run_id :: string
  gr_venue :: string
  gr_source_role :: string
  gr_symbol_native :: string
  gr_gap_type :: string
  gr_detected_at_ms :: timestamp_ms
  gr_expected_sequence_id :: string
  gr_observed_sequence_id :: string
  gr_heal_action :: string
  gr_heal_status :: string
  gr_payload_json :: string
  gr_payload_sha256 :: string
  gr_schema_version :: string

definition optional_i64 :: "int option \<Rightarrow> string" where
  "optional_i64 v = (case v of Some i \<Rightarrow> show_int i | None \<Rightarrow> [])"

definition gap_from_draft :: "l0_params \<Rightarrow> gap_draft \<Rightarrow> string \<Rightarrow> u64 \<Rightarrow> gap_record" where
  "gap_from_draft params d producer_run_id ordinal =
     \<lparr>gr_gap_id = ''gap_'' @ gd_venue d @ ''_'' @ gd_gap_type d @ ''_'' @ show_int (gd_detected_at_ms d)
        @ ''_'' @ show_nat (unat ordinal),
      gr_producer_run_id = producer_run_id, gr_venue = gd_venue d, gr_source_role = gd_source_role d,
      gr_symbol_native = gd_symbol_native d, gr_gap_type = gd_gap_type d,
      gr_detected_at_ms = gd_detected_at_ms d,
      gr_expected_sequence_id = optional_i64 (gd_expected_sequence_id d),
      gr_observed_sequence_id = optional_i64 (gd_observed_sequence_id d),
      gr_heal_action = gd_heal_action d, gr_heal_status = gd_heal_status d,
      gr_payload_json = gd_payload_json d, gr_payload_sha256 = sha256_hex params (gd_payload_json d),
      gr_schema_version = ''gap_alert_v1''\<rparr>"

record source_health_draft =
  sd_venue :: string
  sd_source_role :: string
  sd_observed_at_ms :: timestamp_ms
  sd_connection_status :: string
  sd_heartbeat_delay_ms :: int
  sd_stream_lag_ms :: int
  sd_recent_gap_count :: nat
  sd_book_rebuild_count :: nat
  sd_health_level :: string
  sd_payload_json :: string

record source_health_record =
  sr_health_event_id :: string
  sr_producer_run_id :: string
  sr_venue :: string
  sr_source_role :: string
  sr_observed_at_ms :: timestamp_ms
  sr_connection_status :: string
  sr_heartbeat_delay_ms :: int
  sr_stream_lag_ms :: int
  sr_recent_gap_count :: int
  sr_book_rebuild_count :: int
  sr_health_level :: string
  sr_payload_json :: string
  sr_payload_sha256 :: string
  sr_schema_version :: string

definition i64_of_count :: "nat \<Rightarrow> int" where
  "i64_of_count n = (if int n \<le> i64_max then int n else i64_max)"

definition health_from_draft :: "l0_params \<Rightarrow> source_health_draft \<Rightarrow> string \<Rightarrow> u64 \<Rightarrow> source_health_record" where
  "health_from_draft params d producer_run_id ordinal =
     \<lparr>sr_health_event_id = ''health_'' @ sd_venue d @ ''_'' @ show_int (sd_observed_at_ms d) @ ''_'' @
        show_nat (unat ordinal),
      sr_producer_run_id = producer_run_id, sr_venue = sd_venue d, sr_source_role = sd_source_role d,
      sr_observed_at_ms = sd_observed_at_ms d, sr_connection_status = sd_connection_status d,
      sr_heartbeat_delay_ms = sd_heartbeat_delay_ms d, sr_stream_lag_ms = sd_stream_lag_ms d,
      sr_recent_gap_count = i64_of_count (sd_recent_gap_count d),
      sr_book_rebuild_count = i64_of_count (sd_book_rebuild_count d),
      sr_health_level = sd_health_level d, sr_payload_json = sd_payload_json d,
      sr_payload_sha256 = sha256_hex params (sd_payload_json d),
      sr_schema_version = ''source_health_v2''\<rparr>"

record symbol_health_draft =
  yd_venue :: string
  yd_symbol_native :: string
  yd_observed_at_ms :: timestamp_ms
  yd_last_event_time_ms :: timestamp_ms
  yd_latency_ms :: int
  yd_is_tradeable :: bool
  yd_reason_codes :: "string list"

record symbol_health_record =
  yr_symbol_health_event_id :: string
  yr_producer_run_id :: string
  yr_venue :: string
  yr_symbol_native :: string
  yr_observed_at_ms :: timestamp_ms
  yr_last_event_time_ms :: timestamp_ms
  yr_latency_ms :: int
  yr_is_tradeable :: bool
  yr_reason_codes :: string
  yr_payload_sha256 :: string
  yr_schema_version :: string

definition symbol_health_from_draft ::
    "l0_params \<Rightarrow> symbol_health_draft \<Rightarrow> string \<Rightarrow> u64 \<Rightarrow> symbol_health_record" where
  "symbol_health_from_draft params d producer_run_id ordinal =
     (let reason_codes = join '';'' (yd_reason_codes d);
          payload = yd_venue d @ '':'' @ yd_symbol_native d @ '':'' @ show_int (yd_observed_at_ms d) @ '':''
                    @ reason_codes
      in \<lparr>yr_symbol_health_event_id = ''symbol_health_'' @ yd_venue d @ ''_'' @ yd_symbol_native d @ ''_'' @
            show_int (yd_observed_at_ms d) @ ''_'' @ show_nat (unat ordinal),
          yr_producer_run_id = producer_run_id, yr_venue = yd_venue d,
          yr_symbol_native = yd_symbol_native d, yr_observed_at_ms = yd_observed_at_ms d,
          yr_last_event_time_ms = yd_last_event_time_ms d, yr_latency_ms = yd_latency_ms d,
          yr_is_tradeable = yd_is_tradeable d, yr_reason_codes = reason_codes,
          yr_payload_sha256 = sha256_hex params payload, yr_schema_version = ''symbol_health_v1''\<rparr>)"

section \<open>Partitions and object keys (partition)\<close>

record raw_partition_key =
  rpk_venue :: string
  rpk_event_type :: string
  rpk_event_date :: string
  rpk_hour :: nat
  rpk_shard :: nat

record health_partition_key =
  hpk_venue :: string
  hpk_event_date :: string
  hpk_hour :: nat
  hpk_shard :: nat

record gap_partition_key =
  gpk_venue :: string
  gpk_gap_type :: string
  gpk_event_date :: string
  gpk_hour :: nat
  gpk_shard :: nat

definition time_parts :: "l0_params \<Rightarrow> timestamp_ms \<Rightarrow> string \<times> nat" where
  "time_parts params t = (case p_calendar params t of Some p \<Rightarrow> p | None \<Rightarrow> (''1970-01-01'', 0))"

definition shard_for :: "l0_params \<Rightarrow> string \<Rightarrow> nat \<Rightarrow> nat" where
  "shard_for params value shard_count = p_hash params value mod shard_count"

definition raw_partition_for :: "l0_params \<Rightarrow> raw_record \<Rightarrow> nat \<Rightarrow> raw_partition_key" where
  "raw_partition_for params r shard_count =
     (let (date, hour) = time_parts params (rr_exchange_timestamp_ms r)
      in \<lparr>rpk_venue = rr_venue r, rpk_event_type = rr_event_type r, rpk_event_date = date,
          rpk_hour = hour, rpk_shard = shard_for params (rr_symbol_native r) shard_count\<rparr>)"

definition health_partition_for :: "l0_params \<Rightarrow> source_health_record \<Rightarrow> nat \<Rightarrow> health_partition_key" where
  "health_partition_for params r shard_count =
     (let (date, hour) = time_parts params (sr_observed_at_ms r)
      in \<lparr>hpk_venue = sr_venue r, hpk_event_date = date, hpk_hour = hour,
          hpk_shard = shard_for params (sr_venue r) shard_count\<rparr>)"

definition symbol_health_partition_for :: "l0_params \<Rightarrow> symbol_health_record \<Rightarrow> nat \<Rightarrow> health_partition_key" where
  "symbol_health_partition_for params r shard_count =
     (let (date, hour) = time_parts params (yr_observed_at_ms r)
      in \<lparr>hpk_venue = yr_venue r, hpk_event_date = date, hpk_hour = hour,
          hpk_shard = shard_for params (yr_symbol_native r) shard_count\<rparr>)"

definition gap_partition_for :: "l0_params \<Rightarrow> gap_record \<Rightarrow> nat \<Rightarrow> gap_partition_key" where
  "gap_partition_for params r shard_count =
     (let (date, hour) = time_parts params (gr_detected_at_ms r)
      in \<lparr>gpk_venue = gr_venue r, gpk_gap_type = gr_gap_type r, gpk_event_date = date,
          gpk_hour = hour, gpk_shard = shard_for params (gr_symbol_native r) shard_count\<rparr>)"

text \<open>The derived \<open>Ord\<close> of the key structs: lexicographic in field order.\<close>

definition raw_rank :: "raw_partition_key \<Rightarrow> string \<times> string \<times> string \<times> nat \<times> nat" where
  "raw_rank k = (rpk_venue k, rpk_event_type k, rpk_event_date k, rpk_hour k, rpk_shard k)"

definition health_rank :: "health_partition_key \<Rightarrow> string \<times> string \<times> nat \<times> nat" where
  "health_rank k = (hpk_venue k, hpk_event_date k, hpk_hour k, hpk_shard k)"

definition gap_rank :: "gap_partition_key \<Rightarrow> string \<times> string \<times> string \<times> nat \<times> nat" where
  "gap_rank k = (gpk_venue k, gpk_gap_type k, gpk_event_date k, gpk_hour k, gpk_shard k)"

definition next_part_number ::
    "('k \<Rightarrow> 'k \<Rightarrow> ordering) \<Rightarrow> ('k, nat) btree \<Rightarrow> 'k \<Rightarrow> ('k, nat) btree \<times> nat" where
  "next_part_number cmp part_numbers part =
     (let n = (case bt_get cmp part part_numbers of Some n \<Rightarrow> n | None \<Rightarrow> 0) + 1
      in (bt_insert cmp part n part_numbers, n))"

definition part_suffix :: "string \<Rightarrow> nat \<Rightarrow> string" where
  "part_suffix run_id part_number = run_id @ ''-part-'' @ show_pad 6 part_number @ ''.parquet''"

definition raw_object_key :: "raw_partition_key \<Rightarrow> string \<Rightarrow> nat \<Rightarrow> string" where
  "raw_object_key p run_id part_number =
     ''raw_market_event/venue='' @ rpk_venue p @ ''/event_type='' @ rpk_event_type p @ ''/event_date='' @
     rpk_event_date p @ ''/hour='' @ show_pad 2 (rpk_hour p) @ ''/shard='' @ show_pad 2 (rpk_shard p) @
     ''/run_id='' @ part_suffix run_id part_number"

definition health_object_key :: "health_partition_key \<Rightarrow> string \<Rightarrow> nat \<Rightarrow> string" where
  "health_object_key p run_id part_number =
     ''source_health/venue='' @ hpk_venue p @ ''/event_date='' @ hpk_event_date p @ ''/hour='' @
     show_pad 2 (hpk_hour p) @ ''/shard='' @ show_pad 2 (hpk_shard p) @ ''/run_id='' @
     part_suffix run_id part_number"

definition symbol_health_object_key :: "health_partition_key \<Rightarrow> string \<Rightarrow> nat \<Rightarrow> string" where
  "symbol_health_object_key p run_id part_number =
     ''symbol_health/venue='' @ hpk_venue p @ ''/event_date='' @ hpk_event_date p @ ''/hour='' @
     show_pad 2 (hpk_hour p) @ ''/shard='' @ show_pad 2 (hpk_shard p) @ ''/run_id='' @
     part_suffix run_id part_number"

definition gap_object_key :: "gap_partition_key \<Rightarrow> string \<Rightarrow> nat \<Rightarrow> string" where
  "gap_object_key p run_id part_number =
     ''gap_alert/venue='' @ gpk_venue p @ ''/gap_type='' @ gpk_gap_type p @ ''/event_date='' @
     gpk_event_date p @ ''/hour='' @ show_pad 2 (gpk_hour p) @ ''/shard='' @ show_pad 2 (gpk_shard p) @
     ''/run_id='' @ part_suffix run_id part_number"

section \<open>Live ticks (src/live)\<close>

record quote_fields =
  q_price_source :: string
  q_last_price :: "f64 option"
  q_best_bid_price :: "f64 option"
  q_best_ask_price :: "f64 option"
  q_trade_volume :: "f64 option"

definition quote_default :: quote_fields where
  "quote_default = \<lparr>q_price_source = [], q_last_price = None, q_best_bid_price = None,
     q_best_ask_price = None, q_trade_volume = None\<rparr>"

definition positive_finite :: "f64 \<Rightarrow> bool" where
  "positive_finite x \<longleftrightarrow> is_finite x \<and> f64_lt (Fin 0) x"

definition parse_number_value :: "json \<Rightarrow> f64 option" where
  "parse_number_value v = filter_opt positive_finite (case v of
     JNumber n \<Rightarrow> number_as_f64 n | JString s \<Rightarrow> parse_f64 s | _ \<Rightarrow> None)"

definition numeric_field :: "json \<Rightarrow> string \<Rightarrow> f64 option" where
  "numeric_field v field = Option.bind (jget field v) (\<lambda>x.
     filter_opt positive_finite (case x of JNumber n \<Rightarrow> number_as_f64 n | JString s \<Rightarrow> parse_f64 s | _ \<Rightarrow> None))"

definition first_level_price :: "json \<Rightarrow> string \<Rightarrow> f64 option" where
  "first_level_price v field =
     Option.bind (Option.bind (jget field v) as_array) (\<lambda>levels.
     case levels of [] \<Rightarrow> None
     | first # _ \<Rightarrow> (case first of
         JArray items \<Rightarrow> (case items of [] \<Rightarrow> None | i # _ \<Rightarrow> parse_number_value i)
       | JObject _ \<Rightarrow> numeric_field first ''price''
       | _ \<Rightarrow> None))"

definition midpoint :: "f64 option \<Rightarrow> f64 option \<Rightarrow> f64 option" where
  "midpoint bid ask = (case (bid, ask) of
     (Some b, Some a) \<Rightarrow> if f64_le b a then Some (f64_div (f64_add b a) (Fin 2)) else None
   | (Some b, None) \<Rightarrow> Some b
   | (None, Some a) \<Rightarrow> Some a
   | (None, None) \<Rightarrow> None)"

definition quote_from_binance_payload :: "string \<Rightarrow> json \<Rightarrow> quote_fields option" where
  "quote_from_binance_payload event_type payload =
     (let data = (case jget ''data'' payload of Some d \<Rightarrow> d | None \<Rightarrow> payload)
      in if event_type = ''trade'' then Some (quote_default\<lparr>q_price_source := ''trade'',
              q_last_price := numeric_field data ''p'', q_trade_volume := numeric_field data ''q''\<rparr>)
         else if event_type = ''ticker'' then Some (quote_default\<lparr>q_price_source := ''ticker_last'',
              q_last_price := numeric_field data ''c'', q_trade_volume := numeric_field data ''v''\<rparr>)
         else if event_type = ''book_ticker'' then Some (quote_default\<lparr>q_price_source := ''book_ticker_mid'',
              q_best_bid_price := numeric_field data ''b'', q_best_ask_price := numeric_field data ''a''\<rparr>)
         else if event_type = ''depth_delta'' \<or> event_type = ''depth_snapshot''
         then Some (quote_default\<lparr>q_price_source := ''depth_top_mid'',
              q_best_bid_price := or_else (first_level_price data ''b'') (first_level_price data ''bids''),
              q_best_ask_price := or_else (first_level_price data ''a'') (first_level_price data ''asks'')\<rparr>)
         else None)"

definition quote_from_upbit_payload :: "string \<Rightarrow> json \<Rightarrow> quote_fields option" where
  "quote_from_upbit_payload event_type payload =
     (if event_type = ''trade'' then Some \<lparr>q_price_source = ''trade'',
          q_last_price = numeric_field payload ''trade_price'',
          q_best_bid_price = numeric_field payload ''best_bid_price'',
          q_best_ask_price = numeric_field payload ''best_ask_price'',
          q_trade_volume = numeric_field payload ''trade_volume''\<rparr>
      else if event_type = ''ticker'' then Some (quote_default\<lparr>q_price_source := ''ticker_trade_price'',
          q_last_price := numeric_field payload ''trade_price'',
          q_trade_volume := numeric_field payload ''acc_trade_volume_24h''\<rparr>)
      else if event_type = ''depth_snapshot'' then
        (let top = Option.bind (Option.bind (jget ''orderbook_units'' payload) as_array) (\<lambda>items.
                     case items of [] \<Rightarrow> None | i # _ \<Rightarrow> Some i)
         in Some (quote_default\<lparr>q_price_source := ''orderbook_top_mid'',
              q_best_bid_price := Option.bind top (\<lambda>v. numeric_field v ''bid_price''),
              q_best_ask_price := Option.bind top (\<lambda>v. numeric_field v ''ask_price'')\<rparr>))
      else None)"

definition quote_from_payload :: "raw_record \<Rightarrow> json \<Rightarrow> quote_fields option" where
  "quote_from_payload r payload =
     (if rr_venue r = ''binance'' then quote_from_binance_payload (rr_event_type r) payload
      else if rr_venue r = ''upbit'' then quote_from_upbit_payload (rr_event_type r) payload
      else None)"

record market_live_tick =
  lt_schema_version :: string
  lt_event_id :: string
  lt_producer_run_id :: string
  lt_venue :: string
  lt_source_role :: string
  lt_market_type :: string
  lt_event_type :: string
  lt_symbol_native :: string
  lt_symbol_canonical :: string
  lt_base_asset :: string
  lt_quote_asset :: string
  lt_exchange_timestamp_ms :: timestamp_ms
  lt_ingest_timestamp_ms :: timestamp_ms
  lt_latency_ms :: int
  lt_sequence_id :: string
  lt_sequence_tag :: string
  lt_price_source :: string
  lt_last_price :: "f64 option"
  lt_best_bid_price :: "f64 option"
  lt_best_ask_price :: "f64 option"
  lt_mark_price :: "f64 option"
  lt_trade_volume :: "f64 option"
  lt_payload_sha256 :: string

definition from_raw_market_event :: "l0_params \<Rightarrow> raw_record \<Rightarrow> market_live_tick" where
  "from_raw_market_event params r =
     (let quote = (case Option.bind (p_json params (rr_payload_json r)) (quote_from_payload r) of
                     Some q \<Rightarrow> q | None \<Rightarrow> quote_default);
          mark_price = or_else (q_last_price quote) (midpoint (q_best_bid_price quote) (q_best_ask_price quote))
      in \<lparr>lt_schema_version = ''market_live_tick_v1'', lt_event_id = rr_event_id r,
          lt_producer_run_id = rr_producer_run_id r, lt_venue = rr_venue r,
          lt_source_role = rr_source_role r, lt_market_type = rr_market_type r,
          lt_event_type = rr_event_type r, lt_symbol_native = rr_symbol_native r,
          lt_symbol_canonical = rr_symbol_canonical r, lt_base_asset = rr_base_asset r,
          lt_quote_asset = rr_quote_asset r, lt_exchange_timestamp_ms = rr_exchange_timestamp_ms r,
          lt_ingest_timestamp_ms = rr_ingest_timestamp_ms r,
          lt_latency_ms = i64_saturating_sub (rr_ingest_timestamp_ms r) (rr_exchange_timestamp_ms r),
          lt_sequence_id = rr_sequence_id r, lt_sequence_tag = rr_sequence_tag r,
          lt_price_source = q_price_source quote, lt_last_price = q_last_price quote,
          lt_best_bid_price = q_best_bid_price quote, lt_best_ask_price = q_best_ask_price quote,
          lt_mark_price = mark_price, lt_trade_volume = q_trade_volume quote,
          lt_payload_sha256 = rr_payload_sha256 r\<rparr>)"

definition has_mark_price :: "market_live_tick \<Rightarrow> bool" where
  "has_mark_price t = (case lt_mark_price t of Some v \<Rightarrow> positive_finite v | None \<Rightarrow> False)"

definition subject_token :: "string \<Rightarrow> string" where
  "subject_token value = map (\<lambda>ch. if is_ascii_alphanumeric ch \<or> ch = CHR ''-'' \<or> ch = CHR ''_''
     then to_lower ch else CHR ''_'') value"

record live_nats_config =
  ln_url :: string
  ln_stream :: string
  ln_subject_prefix :: string
  ln_required :: bool

definition tick_subject :: "live_nats_config \<Rightarrow> market_live_tick \<Rightarrow> string" where
  "tick_subject cfg t =
     ln_subject_prefix cfg @ ''.'' @ subject_token (lt_venue t) @ ''.'' @ subject_token (lt_symbol_canonical t)"

text \<open>\<open>send\<close> publishes on a subject and returns the stream named in the acknowledgement.\<close>

definition publish_tick ::
    "(string \<Rightarrow> market_live_tick \<Rightarrow> (string, string) result) \<Rightarrow> live_nats_config \<Rightarrow> market_live_tick \<Rightarrow>
     (unit, string) result" where
  "publish_tick send cfg t =
     (if \<not> has_mark_price t then Inr ()
      else and_then (send (tick_subject cfg t) t) (\<lambda>ack_stream.
           if ack_stream \<noteq> ln_stream cfg
           then Inl (''NATS JetStream ack stream mismatch: expected '' @ ln_stream cfg @ '', got '' @ ack_stream)
           else Inr ()))"

section \<open>Identifiers\<close>

lemma show_nat_no: "\<not> is_ascii_digit c \<Longrightarrow> c \<notin> set (show_nat n)"
  using show_nat_digits by (rule digit_neq)

lemma show_pad_no: "\<not> is_ascii_digit c \<Longrightarrow> c \<notin> set (show_pad w n)"
  using show_pad_digits by (rule digit_neq)

lemma ordinal_suffix_inj:
  assumes "a @ ''_'' @ show_nat (unat o1) = b @ ''_'' @ show_nat (unat (o2 :: u64))"
  shows "a = b \<and> o1 = o2"
proof -
  have "CHR ''_'' \<notin> set (show_nat n)" for n by (rule show_nat_no) (simp add: is_ascii_digit_def)
  with last_sep_append_eq [of a "CHR ''_''" "show_nat (unat o1)" b "show_nat (unat o2)"] assms
  show ?thesis by (simp add: word_unat_eq_iff)
qed

text \<open>C18: two records of one family with the same identifier were given the same ordinal by the
  sink, so identifiers are unique within a run whatever the field values are.\<close>

theorem record_ids_unique:
  "(rr_event_id (raw_from_draft p d run o1) = rr_event_id (raw_from_draft p d' run' o2) \<longrightarrow> o1 = o2) \<and>
   (gr_gap_id (gap_from_draft p g run o1) = gr_gap_id (gap_from_draft p g' run' o2) \<longrightarrow> o1 = o2) \<and>
   (sr_health_event_id (health_from_draft p h run o1) = sr_health_event_id (health_from_draft p h' run' o2)
      \<longrightarrow> o1 = o2) \<and>
   (yr_symbol_health_event_id (symbol_health_from_draft p y run o1) =
      yr_symbol_health_event_id (symbol_health_from_draft p y' run' o2) \<longrightarrow> o1 = o2)"
  using ordinal_suffix_inj [of "''evt_'' @ rd_venue d @ ''_'' @ rd_event_type d @ ''_'' @ show_int (rd_ingest_timestamp_ms d)"
      o1 "''evt_'' @ rd_venue d' @ ''_'' @ rd_event_type d' @ ''_'' @ show_int (rd_ingest_timestamp_ms d')" o2]
    ordinal_suffix_inj [of "''gap_'' @ gd_venue g @ ''_'' @ gd_gap_type g @ ''_'' @ show_int (gd_detected_at_ms g)"
      o1 "''gap_'' @ gd_venue g' @ ''_'' @ gd_gap_type g' @ ''_'' @ show_int (gd_detected_at_ms g')" o2]
    ordinal_suffix_inj [of "''health_'' @ sd_venue h @ ''_'' @ show_int (sd_observed_at_ms h)"
      o1 "''health_'' @ sd_venue h' @ ''_'' @ show_int (sd_observed_at_ms h')" o2]
    ordinal_suffix_inj [of "''symbol_health_'' @ yd_venue y @ ''_'' @ yd_symbol_native y @ ''_'' @ show_int (yd_observed_at_ms y)"
      o1 "''symbol_health_'' @ yd_venue y' @ ''_'' @ yd_symbol_native y' @ ''_'' @ show_int (yd_observed_at_ms y')" o2]
  by (simp add: raw_from_draft_def gap_from_draft_def health_from_draft_def symbol_health_from_draft_def Let_def)

section \<open>Object keys\<close>

definition no_slash :: "string \<Rightarrow> bool" where
  "no_slash s \<longleftrightarrow> CHR ''/'' \<notin> set s"

definition raw_key_ok :: "raw_partition_key \<Rightarrow> bool" where
  "raw_key_ok k \<longleftrightarrow> no_slash (rpk_venue k) \<and> no_slash (rpk_event_type k) \<and> no_slash (rpk_event_date k)"

definition health_key_ok :: "health_partition_key \<Rightarrow> bool" where
  "health_key_ok k \<longleftrightarrow> no_slash (hpk_venue k) \<and> no_slash (hpk_event_date k)"

definition gap_key_ok :: "gap_partition_key \<Rightarrow> bool" where
  "gap_key_ok k \<longleftrightarrow> no_slash (gpk_venue k) \<and> no_slash (gpk_gap_type k) \<and> no_slash (gpk_event_date k)"

lemma show_pad_slash: "CHR ''/'' \<notin> set (show_pad w n)"
  by (rule show_pad_no) (simp add: is_ascii_digit_def)

lemmas key_defs = raw_object_key_def health_object_key_def symbol_health_object_key_def gap_object_key_def
  part_suffix_def

lemma raw_object_key_inj:
  "raw_key_ok p \<Longrightarrow> raw_key_ok q \<Longrightarrow> raw_object_key p run n = raw_object_key q run m \<longleftrightarrow> p = q \<and> n = m"
  by (auto simp: key_defs raw_key_ok_def no_slash_def sep_append_eq show_pad_slash)

lemma health_object_key_inj:
  "health_key_ok p \<Longrightarrow> health_key_ok q \<Longrightarrow>
     health_object_key p run n = health_object_key q run m \<longleftrightarrow> p = q \<and> n = m"
  by (auto simp: key_defs health_key_ok_def no_slash_def sep_append_eq show_pad_slash)

lemma symbol_health_object_key_inj:
  "health_key_ok p \<Longrightarrow> health_key_ok q \<Longrightarrow>
     symbol_health_object_key p run n = symbol_health_object_key q run m \<longleftrightarrow> p = q \<and> n = m"
  by (auto simp: key_defs health_key_ok_def no_slash_def sep_append_eq show_pad_slash)

lemma gap_object_key_inj:
  "gap_key_ok p \<Longrightarrow> gap_key_ok q \<Longrightarrow> gap_object_key p run n = gap_object_key q run m \<longleftrightarrow> p = q \<and> n = m"
  by (auto simp: key_defs gap_key_ok_def no_slash_def sep_append_eq show_pad_slash)

lemma family_keys_disjoint [simp]:
  "raw_object_key p r n \<noteq> health_object_key q r' m" "raw_object_key p r n \<noteq> symbol_health_object_key q r' m"
  "raw_object_key p r n \<noteq> gap_object_key g r' m" "health_object_key q r n \<noteq> symbol_health_object_key q' r' m"
  "health_object_key q r n \<noteq> gap_object_key g r' m" "symbol_health_object_key q r n \<noteq> gap_object_key g r' m"
  by (simp_all add: key_defs)

section \<open>Live ticks\<close>

lemma pred_option_intro: "(\<And>x. o1 = Some x \<Longrightarrow> P x) \<Longrightarrow> pred_option P o1"
  by (cases o1) auto

lemma or_else_pred: "pred_option P a \<Longrightarrow> pred_option P b \<Longrightarrow> pred_option P (or_else a b)"
  by (cases a) (simp_all add: or_else_def)

lemma numeric_field_positive: "pred_option positive_finite (numeric_field v f)"
  by (rule pred_option_intro) (auto simp: numeric_field_def Option.bind_eq_Some_conv)

lemma parse_number_positive: "pred_option positive_finite (parse_number_value v)"
  by (rule pred_option_intro) (auto simp: parse_number_value_def)

lemma bind_pred: "(\<And>x. pred_option P (f x)) \<Longrightarrow> pred_option P (Option.bind m f)"
  by (cases m) auto

lemma first_level_positive: "pred_option positive_finite (first_level_price v f)"
  unfolding first_level_price_def
  by (rule bind_pred) (auto simp: parse_number_positive numeric_field_positive split: list.splits json.splits)

lemmas price_preds = numeric_field_positive first_level_positive or_else_pred bind_pred

definition quote_ok :: "quote_fields \<Rightarrow> bool" where
  "quote_ok q \<longleftrightarrow> pred_option positive_finite (q_last_price q) \<and> pred_option positive_finite (q_best_bid_price q) \<and>
     pred_option positive_finite (q_best_ask_price q) \<and> pred_option positive_finite (q_trade_volume q)"

lemma quote_default_ok: "quote_ok quote_default"
  by (simp add: quote_ok_def quote_default_def)

lemma quote_binance_ok:
  assumes "quote_from_binance_payload e j = Some q"
  shows "quote_ok q"
proof -
  define data where "data = (case jget ''data'' j of Some d \<Rightarrow> d | None \<Rightarrow> j)"
  have depth: "pred_option positive_finite (or_else (first_level_price data a) (first_level_price data b))" for a b
    by (intro or_else_pred first_level_positive)
  show ?thesis
    using assms
    unfolding quote_from_binance_payload_def data_def [symmetric] Let_def
    by (simp add: quote_ok_def quote_default_def split: if_split_asm)
      (hypsubst, simp add: numeric_field_positive depth)+
qed

lemma quote_upbit_ok: "quote_from_upbit_payload e j = Some q \<Longrightarrow> quote_ok q"
  unfolding quote_from_upbit_payload_def Let_def
  by (auto simp: quote_ok_def quote_default_def simp del: bind.simps split: if_splits
      intro!: price_preds)

lemma quote_from_payload_ok: "quote_from_payload r j = Some q \<Longrightarrow> quote_ok q"
  by (simp add: quote_from_payload_def quote_binance_ok quote_upbit_ok split: if_splits)

lemma to_lower_token:
  assumes "is_ascii_alphanumeric c \<or> c = CHR ''-'' \<or> c = CHR ''_''"
  shows "to_lower c \<noteq> CHR ''.''"
proof
  assume "to_lower c = CHR ''.''"
  then have "(of_char (to_lower c) :: nat) = 46" by simp
  then have "(of_char c :: nat) = 46" using of_char_to_lower [of c] by (auto split: if_splits)
  with assms show False by (auto simp: is_ascii_alphanumeric_def)
qed

lemma subject_token_no_dot: "CHR ''.'' \<notin> set (subject_token v)"
proof
  assume "CHR ''.'' \<in> set (subject_token v)"
  then obtain ch where "CHR ''.'' = (if is_ascii_alphanumeric ch \<or> ch = CHR ''-'' \<or> ch = CHR ''_''
      then to_lower ch else CHR ''_'')"
    unfolding subject_token_def set_map by blast
  then show False using to_lower_token [of ch] by (simp split: if_splits)
qed

text \<open>a published subject consists of the configured prefix followed by exactly two tokens, the
  venue's and the symbol's; neither can introduce another level or a wildcard.\<close>

theorem tick_subject_shape:
  "split_on (CHR ''.'') (tick_subject cfg t) =
     split_on (CHR ''.'') (ln_subject_prefix cfg) @ [subject_token (lt_venue t), subject_token (lt_symbol_canonical t)]"
proof -
  have "tick_subject cfg t = (ln_subject_prefix cfg @ CHR ''.'' # subject_token (lt_venue t)) @
      CHR ''.'' # subject_token (lt_symbol_canonical t)"
    by (simp add: tick_subject_def)
  then show ?thesis
    by (simp only: split_on_snoc [OF subject_token_no_dot]) simp
qed

text \<open>every price and volume a live tick carries as last, bid, ask or volume is finite and
  positive, and a tick is only sent to the broker when its mark price is.\<close>

theorem live_tick_prices_positive:
  "pred_option positive_finite (lt_last_price (from_raw_market_event p r)) \<and>
   pred_option positive_finite (lt_best_bid_price (from_raw_market_event p r)) \<and>
   pred_option positive_finite (lt_best_ask_price (from_raw_market_event p r)) \<and>
   pred_option positive_finite (lt_trade_volume (from_raw_market_event p r)) \<and>
   ((\<exists>v. lt_mark_price t = Some v \<and> positive_finite v) \<or> publish_tick send cfg t = Inr ())"
proof -
  define q where "q = (case Option.bind (p_json p (rr_payload_json r)) (quote_from_payload r) of
      Some q \<Rightarrow> q | None \<Rightarrow> quote_default)"
  have "quote_ok q"
  proof (cases "Option.bind (p_json p (rr_payload_json r)) (quote_from_payload r)")
    case (Some x)
    then show ?thesis using quote_from_payload_ok by (auto simp: q_def Option.bind_eq_Some_conv)
  qed (simp add: q_def quote_default_ok)
  moreover have "has_mark_price t \<Longrightarrow> \<exists>v. lt_mark_price t = Some v \<and> positive_finite v"
    by (cases "lt_mark_price t") (simp_all add: has_mark_price_def)
  ultimately show ?thesis
    by (auto simp: from_raw_market_event_def q_def [symmetric] Let_def quote_ok_def publish_tick_def)
qed

end
