(* ===== verification/L0_Columns.thy ===== *)
theory L0_Columns
  imports L0_Record
begin

text \<open>
  The columnar form of the L0 records: the schemas and record batches the sink writes
  (\<open>src/storage/parquet_file\<close>, \<open>gap.rs\<close>, \<open>health.rs\<close>, \<open>symbol_health.rs\<close>) and the decoder with which the
  normalizer reads them back (\<open>src/normalize/read/batch_decode\<close>). The main result is the round trip: what the
  normalizer decodes from a written batch is the record the sink held, for each of the four families.
\<close>

section \<open>Arrow's record batches\<close>

text \<open>An array is a list of cells, \<open>None\<close> for a null. The checked constructor \<open>RecordBatch::try_new\<close> and the
  message of a failed column lookup belong to the arrow crate: they are the fields of \<open>arrow_lib\<close>, and
  \<open>try_new_accepts\<close> states what its documentation promises, that a batch whose columns agree with the schema
  in number, type, length and nullability is built as given.\<close>

datatype data_type = Utf8 | Int64 | Boolean

record field_spec =
  f_name :: string
  f_type :: data_type
  f_nullable :: bool

datatype column = StringArray "string option list" | Int64Array "int option list" | BooleanArray "bool option list"

record record_batch =
  rb_schema :: "field_spec list"
  rb_columns :: "column list"

record arrow_lib =
  ar_try_new :: "field_spec list \<Rightarrow> column list \<Rightarrow> (record_batch, string) result"
  ar_index_error :: "field_spec list \<Rightarrow> string \<Rightarrow> string"

fun col_len :: "column \<Rightarrow> nat" where
  "col_len (StringArray xs) = length xs"
| "col_len (Int64Array xs) = length xs"
| "col_len (BooleanArray xs) = length xs"

fun col_type :: "column \<Rightarrow> data_type" where
  "col_type (StringArray _) = Utf8"
| "col_type (Int64Array _) = Int64"
| "col_type (BooleanArray _) = Boolean"

fun col_has_null :: "column \<Rightarrow> bool" where
  "col_has_null (StringArray xs) \<longleftrightarrow> None \<in> set xs"
| "col_has_null (Int64Array xs) \<longleftrightarrow> None \<in> set xs"
| "col_has_null (BooleanArray xs) \<longleftrightarrow> None \<in> set xs"

definition col_fits :: "nat \<Rightarrow> field_spec \<Rightarrow> column \<Rightarrow> bool" where
  "col_fits n f c \<longleftrightarrow> col_len c = n \<and> col_type c = f_type f \<and> (col_has_null c \<longrightarrow> f_nullable f)"

definition batch_consistent :: "nat \<Rightarrow> field_spec list \<Rightarrow> column list \<Rightarrow> bool" where
  "batch_consistent n schema columns \<longleftrightarrow> list_all2 (col_fits n) schema columns"

definition try_new_accepts :: "arrow_lib \<Rightarrow> bool" where
  "try_new_accepts lib \<longleftrightarrow> (\<forall>n schema columns. batch_consistent n schema columns \<longrightarrow>
     ar_try_new lib schema columns = Inr \<lparr>rb_schema = schema, rb_columns = columns\<rparr>)"

definition num_rows :: "record_batch \<Rightarrow> nat" where
  "num_rows b = (case rb_columns b of [] \<Rightarrow> 0 | c # _ \<Rightarrow> col_len c)"

section \<open>Writing\<close>

definition field :: "string \<Rightarrow> data_type \<Rightarrow> field_spec" where
  "field nm t = \<lparr>f_name = nm, f_type = t, f_nullable = False\<rparr>"

definition nullable_field :: "string \<Rightarrow> data_type \<Rightarrow> field_spec" where
  "nullable_field nm t = \<lparr>f_name = nm, f_type = t, f_nullable = True\<rparr>"

definition string_col :: "'r list \<Rightarrow> ('r \<Rightarrow> string) \<Rightarrow> column" where
  "string_col records v = StringArray (map (\<lambda>r. Some (v r)) records)"

definition int64_col :: "'r list \<Rightarrow> ('r \<Rightarrow> int) \<Rightarrow> column" where
  "int64_col records v = Int64Array (map (\<lambda>r. Some (v r)) records)"

definition int64_opt_col :: "'r list \<Rightarrow> ('r \<Rightarrow> int option) \<Rightarrow> column" where
  "int64_opt_col records v = Int64Array (map v records)"

definition bool_col :: "'r list \<Rightarrow> ('r \<Rightarrow> bool) \<Rightarrow> column" where
  "bool_col records v = BooleanArray (map (\<lambda>r. Some (v r)) records)"

definition raw_market_event_schema :: "field_spec list" where
  "raw_market_event_schema =
     [field ''event_id'' Utf8, field ''producer_run_id'' Utf8, field ''venue'' Utf8, field ''source_role'' Utf8,
      field ''market_type'' Utf8, field ''event_type'' Utf8, field ''symbol_native'' Utf8,
      field ''symbol_canonical'' Utf8, field ''base_asset'' Utf8, field ''quote_asset'' Utf8,
      field ''exchange_timestamp_ms'' Int64, field ''ingest_timestamp_ms'' Int64, field ''sequence_id'' Utf8,
      field ''sequence_tag'' Utf8, nullable_field ''exchange_sequence'' Int64,
      nullable_field ''diff_first_update_id'' Int64, nullable_field ''diff_final_update_id'' Int64,
      field ''is_snapshot'' Boolean, field ''stream_type'' Utf8, field ''stream_phase'' Utf8,
      field ''payload_json'' Utf8, field ''payload_sha256'' Utf8, field ''schema_version'' Utf8]"

definition raw_market_event_columns :: "raw_record list \<Rightarrow> column list" where
  "raw_market_event_columns records =
     [string_col records rr_event_id, string_col records rr_producer_run_id, string_col records rr_venue,
      string_col records rr_source_role, string_col records rr_market_type, string_col records rr_event_type,
      string_col records rr_symbol_native, string_col records rr_symbol_canonical,
      string_col records rr_base_asset, string_col records rr_quote_asset,
      int64_col records rr_exchange_timestamp_ms, int64_col records rr_ingest_timestamp_ms,
      string_col records rr_sequence_id, string_col records rr_sequence_tag,
      int64_opt_col records rr_exchange_sequence, int64_opt_col records rr_diff_first_update_id,
      int64_opt_col records rr_diff_final_update_id, bool_col records rr_is_snapshot,
      string_col records rr_stream_type, string_col records rr_stream_phase, string_col records rr_payload_json,
      string_col records rr_payload_sha256, string_col records rr_schema_version]"

definition raw_market_event_batch ::
    "arrow_lib \<Rightarrow> field_spec list \<Rightarrow> raw_record list \<Rightarrow> (record_batch, string) result" where
  "raw_market_event_batch lib schema records = ar_try_new lib schema (raw_market_event_columns records)"

definition gap_alert_schema :: "field_spec list" where
  "gap_alert_schema =
     [field ''gap_id'' Utf8, field ''producer_run_id'' Utf8, field ''venue'' Utf8, field ''source_role'' Utf8,
      field ''symbol_native'' Utf8, field ''gap_type'' Utf8, field ''detected_at_ms'' Int64,
      field ''expected_sequence_id'' Utf8, field ''observed_sequence_id'' Utf8, field ''heal_action'' Utf8,
      field ''heal_status'' Utf8, field ''payload_json'' Utf8, field ''payload_sha256'' Utf8,
      field ''schema_version'' Utf8]"

definition gap_alert_columns :: "gap_record list \<Rightarrow> column list" where
  "gap_alert_columns records =
     [string_col records gr_gap_id, string_col records gr_producer_run_id, string_col records gr_venue,
      string_col records gr_source_role, string_col records gr_symbol_native, string_col records gr_gap_type,
      int64_col records gr_detected_at_ms, string_col records gr_expected_sequence_id,
      string_col records gr_observed_sequence_id, string_col records gr_heal_action,
      string_col records gr_heal_status, string_col records gr_payload_json, string_col records gr_payload_sha256,
      string_col records gr_schema_version]"

definition gap_alert_batch :: "arrow_lib \<Rightarrow> gap_record list \<Rightarrow> (record_batch, string) result" where
  "gap_alert_batch lib records = ar_try_new lib gap_alert_schema (gap_alert_columns records)"

definition source_health_schema :: "field_spec list" where
  "source_health_schema =
     [field ''health_event_id'' Utf8, field ''producer_run_id'' Utf8, field ''venue'' Utf8,
      field ''source_role'' Utf8, field ''observed_at_ms'' Int64, field ''connection_status'' Utf8,
      field ''heartbeat_delay_ms'' Int64, field ''stream_lag_ms'' Int64, field ''recent_gap_count'' Int64,
      field ''book_rebuild_count'' Int64, field ''health_level'' Utf8, field ''payload_json'' Utf8,
      field ''payload_sha256'' Utf8, field ''schema_version'' Utf8]"

definition source_health_columns :: "source_health_record list \<Rightarrow> column list" where
  "source_health_columns records =
     [string_col records sr_health_event_id, string_col records sr_producer_run_id, string_col records sr_venue,
      string_col records sr_source_role, int64_col records sr_observed_at_ms,
      string_col records sr_connection_status, int64_col records sr_heartbeat_delay_ms,
      int64_col records sr_stream_lag_ms, int64_col records sr_recent_gap_count,
      int64_col records sr_book_rebuild_count, string_col records sr_health_level,
      string_col records sr_payload_json, string_col records sr_payload_sha256,
      string_col records sr_schema_version]"

definition source_health_batch :: "arrow_lib \<Rightarrow> source_health_record list \<Rightarrow> (record_batch, string) result" where
  "source_health_batch lib records = ar_try_new lib source_health_schema (source_health_columns records)"

definition symbol_health_schema :: "field_spec list" where
  "symbol_health_schema =
     [field ''symbol_health_event_id'' Utf8, field ''producer_run_id'' Utf8, field ''venue'' Utf8,
      field ''symbol_native'' Utf8, field ''observed_at_ms'' Int64, field ''last_event_time_ms'' Int64,
      field ''latency_ms'' Int64, field ''is_tradeable'' Boolean, field ''reason_codes'' Utf8,
      field ''payload_sha256'' Utf8, field ''schema_version'' Utf8]"

definition symbol_health_columns :: "symbol_health_record list \<Rightarrow> column list" where
  "symbol_health_columns records =
     [string_col records yr_symbol_health_event_id, string_col records yr_producer_run_id,
      string_col records yr_venue, string_col records yr_symbol_native, int64_col records yr_observed_at_ms,
      int64_col records yr_last_event_time_ms, int64_col records yr_latency_ms, bool_col records yr_is_tradeable,
      string_col records yr_reason_codes, string_col records yr_payload_sha256,
      string_col records yr_schema_version]"

definition symbol_health_batch :: "arrow_lib \<Rightarrow> symbol_health_record list \<Rightarrow> (record_batch, string) result" where
  "symbol_health_batch lib records = ar_try_new lib symbol_health_schema (symbol_health_columns records)"

section \<open>What the normalizer reads (src/normalize/model/input.rs)\<close>

record raw_input_event =
  re_event_id :: string
  re_producer_run_id :: string
  re_venue :: string
  re_source_role :: string
  re_market_type :: string
  re_event_type :: string
  re_symbol_native :: string
  re_symbol_canonical :: string
  re_base_asset :: string
  re_quote_asset :: string
  re_exchange_timestamp_ms :: int
  re_ingest_timestamp_ms :: int
  re_exchange_sequence :: "int option"
  re_payload_json :: string
  re_payload_sha256 :: string
  re_schema_version :: string

record symbol_health_input =
  si_venue :: string
  si_symbol_native :: string
  si_observed_at_ms :: int
  si_last_event_time_ms :: int
  si_latency_ms :: int
  si_is_tradeable :: bool
  si_reason_codes :: string
  si_payload_sha256 :: string
  si_schema_version :: string

record source_health_input =
  hi_venue :: string
  hi_observed_at_ms :: int
  hi_connection_status :: string
  hi_heartbeat_delay_ms :: int
  hi_stream_lag_ms :: int
  hi_recent_gap_count :: int
  hi_book_rebuild_count :: int
  hi_health_level :: string
  hi_payload_json :: string
  hi_payload_sha256 :: string
  hi_schema_version :: string

record gap_alert_input =
  gi_venue :: string
  gi_symbol_native :: string
  gi_gap_type :: string
  gi_detected_at_ms :: int
  gi_payload_json :: string
  gi_payload_sha256 :: string
  gi_schema_version :: string

record normalize_inputs =
  ni_raw_events :: "raw_input_event list"
  ni_symbol_health :: "symbol_health_input list"
  ni_source_health :: "source_health_input list"
  ni_gap_alerts :: "gap_alert_input list"
  ni_run_mode :: string
  ni_fallback_alert :: bool
  ni_input_local_object_count :: nat
  ni_input_s3_object_count :: nat
  ni_input_object_keys :: "string list"

section \<open>Decoding (src/normalize/read/batch_decode)\<close>

fun index_of :: "string \<Rightarrow> field_spec list \<Rightarrow> nat option" where
  "index_of nm [] = None"
| "index_of nm (f # fs) = (if f_name f = nm then Some 0 else map_option Suc (index_of nm fs))"

definition column_of :: "arrow_lib \<Rightarrow> record_batch \<Rightarrow> string \<Rightarrow> (column, storage_error) result" where
  "column_of lib b nm =
     (case index_of nm (rb_schema b) of
        None \<Rightarrow> Inl (InvalidConfig (ar_index_error lib (rb_schema b) nm))
      | Some i \<Rightarrow> Inr (rb_columns b ! i))"

definition unexpected_type :: "string \<Rightarrow> storage_error" where
  "unexpected_type nm = InvalidConfig (''column '' @ nm @ '' has unexpected type'')"

definition string_value :: "arrow_lib \<Rightarrow> record_batch \<Rightarrow> string \<Rightarrow> nat \<Rightarrow> (string, storage_error) result" where
  "string_value lib b nm row = and_then (column_of lib b nm) (\<lambda>c. case c of
     StringArray xs \<Rightarrow> Inr (case xs ! row of None \<Rightarrow> [] | Some v \<Rightarrow> v)
   | _ \<Rightarrow> Inl (unexpected_type nm))"

definition int64_value :: "arrow_lib \<Rightarrow> record_batch \<Rightarrow> string \<Rightarrow> nat \<Rightarrow> (int, storage_error) result" where
  "int64_value lib b nm row = and_then (column_of lib b nm) (\<lambda>c. case c of
     Int64Array xs \<Rightarrow> Inr (case xs ! row of None \<Rightarrow> 0 | Some v \<Rightarrow> v)
   | _ \<Rightarrow> Inl (unexpected_type nm))"

definition int64_optional :: "arrow_lib \<Rightarrow> record_batch \<Rightarrow> string \<Rightarrow> nat \<Rightarrow> (int option, storage_error) result" where
  "int64_optional lib b nm row = and_then (column_of lib b nm) (\<lambda>c. case c of
     Int64Array xs \<Rightarrow> Inr (xs ! row)
   | _ \<Rightarrow> Inl (unexpected_type nm))"

definition bool_value :: "arrow_lib \<Rightarrow> record_batch \<Rightarrow> string \<Rightarrow> nat \<Rightarrow> (bool, storage_error) result" where
  "bool_value lib b nm row = and_then (column_of lib b nm) (\<lambda>c. case c of
     BooleanArray xs \<Rightarrow> Inr (xs ! row = Some True)
   | _ \<Rightarrow> Inl (unexpected_type nm))"

definition raw_event_from_batch ::
    "arrow_lib \<Rightarrow> record_batch \<Rightarrow> nat \<Rightarrow> (raw_input_event, storage_error) result" where
  "raw_event_from_batch lib b row =
     and_then (string_value lib b ''event_id'' row) (\<lambda>event_id.
     and_then (string_value lib b ''producer_run_id'' row) (\<lambda>producer_run_id.
     and_then (string_value lib b ''venue'' row) (\<lambda>venue.
     and_then (string_value lib b ''source_role'' row) (\<lambda>source_role.
     and_then (string_value lib b ''market_type'' row) (\<lambda>market_type.
     and_then (string_value lib b ''event_type'' row) (\<lambda>event_type.
     and_then (string_value lib b ''symbol_native'' row) (\<lambda>symbol_native.
     and_then (string_value lib b ''symbol_canonical'' row) (\<lambda>symbol_canonical.
     and_then (string_value lib b ''base_asset'' row) (\<lambda>base_asset.
     and_then (string_value lib b ''quote_asset'' row) (\<lambda>quote_asset.
     and_then (int64_value lib b ''exchange_timestamp_ms'' row) (\<lambda>exchange_timestamp_ms.
     and_then (int64_value lib b ''ingest_timestamp_ms'' row) (\<lambda>ingest_timestamp_ms.
     and_then (int64_optional lib b ''exchange_sequence'' row) (\<lambda>exchange_sequence.
     and_then (string_value lib b ''payload_json'' row) (\<lambda>payload_json.
     and_then (string_value lib b ''payload_sha256'' row) (\<lambda>payload_sha256.
     and_then (string_value lib b ''schema_version'' row) (\<lambda>schema_version.
     Inr \<lparr>re_event_id = event_id, re_producer_run_id = producer_run_id, re_venue = venue,
          re_source_role = source_role, re_market_type = market_type, re_event_type = event_type,
          re_symbol_native = symbol_native, re_symbol_canonical = symbol_canonical, re_base_asset = base_asset,
          re_quote_asset = quote_asset, re_exchange_timestamp_ms = exchange_timestamp_ms,
          re_ingest_timestamp_ms = ingest_timestamp_ms, re_exchange_sequence = exchange_sequence,
          re_payload_json = payload_json, re_payload_sha256 = payload_sha256,
          re_schema_version = schema_version\<rparr>))))))))))))))))"

definition symbol_health_from_batch ::
    "arrow_lib \<Rightarrow> record_batch \<Rightarrow> nat \<Rightarrow> (symbol_health_input, storage_error) result" where
  "symbol_health_from_batch lib b row =
     and_then (string_value lib b ''venue'' row) (\<lambda>venue.
     and_then (string_value lib b ''symbol_native'' row) (\<lambda>symbol_native.
     and_then (int64_value lib b ''observed_at_ms'' row) (\<lambda>observed_at_ms.
     and_then (int64_value lib b ''last_event_time_ms'' row) (\<lambda>last_event_time_ms.
     and_then (int64_value lib b ''latency_ms'' row) (\<lambda>latency_ms.
     and_then (bool_value lib b ''is_tradeable'' row) (\<lambda>is_tradeable.
     and_then (string_value lib b ''reason_codes'' row) (\<lambda>reason_codes.
     and_then (string_value lib b ''payload_sha256'' row) (\<lambda>payload_sha256.
     and_then (string_value lib b ''schema_version'' row) (\<lambda>schema_version.
     Inr \<lparr>si_venue = venue, si_symbol_native = symbol_native, si_observed_at_ms = observed_at_ms,
          si_last_event_time_ms = last_event_time_ms, si_latency_ms = latency_ms, si_is_tradeable = is_tradeable,
          si_reason_codes = reason_codes, si_payload_sha256 = payload_sha256,
          si_schema_version = schema_version\<rparr>)))))))))"

definition source_health_from_batch ::
    "arrow_lib \<Rightarrow> record_batch \<Rightarrow> nat \<Rightarrow> (source_health_input, storage_error) result" where
  "source_health_from_batch lib b row =
     and_then (string_value lib b ''venue'' row) (\<lambda>venue.
     and_then (int64_value lib b ''observed_at_ms'' row) (\<lambda>observed_at_ms.
     and_then (string_value lib b ''connection_status'' row) (\<lambda>connection_status.
     and_then (int64_value lib b ''heartbeat_delay_ms'' row) (\<lambda>heartbeat_delay_ms.
     and_then (int64_value lib b ''stream_lag_ms'' row) (\<lambda>stream_lag_ms.
     and_then (int64_value lib b ''recent_gap_count'' row) (\<lambda>recent_gap_count.
     and_then (int64_value lib b ''book_rebuild_count'' row) (\<lambda>book_rebuild_count.
     and_then (string_value lib b ''health_level'' row) (\<lambda>health_level.
     and_then (string_value lib b ''payload_json'' row) (\<lambda>payload_json.
     and_then (string_value lib b ''payload_sha256'' row) (\<lambda>payload_sha256.
     and_then (string_value lib b ''schema_version'' row) (\<lambda>schema_version.
     Inr \<lparr>hi_venue = venue, hi_observed_at_ms = observed_at_ms, hi_connection_status = connection_status,
          hi_heartbeat_delay_ms = heartbeat_delay_ms, hi_stream_lag_ms = stream_lag_ms,
          hi_recent_gap_count = recent_gap_count, hi_book_rebuild_count = book_rebuild_count,
          hi_health_level = health_level, hi_payload_json = payload_json, hi_payload_sha256 = payload_sha256,
          hi_schema_version = schema_version\<rparr>)))))))))))"

definition gap_alert_from_batch ::
    "arrow_lib \<Rightarrow> record_batch \<Rightarrow> nat \<Rightarrow> (gap_alert_input, storage_error) result" where
  "gap_alert_from_batch lib b row =
     and_then (string_value lib b ''venue'' row) (\<lambda>venue.
     and_then (string_value lib b ''symbol_native'' row) (\<lambda>symbol_native.
     and_then (string_value lib b ''gap_type'' row) (\<lambda>gap_type.
     and_then (int64_value lib b ''detected_at_ms'' row) (\<lambda>detected_at_ms.
     and_then (string_value lib b ''payload_json'' row) (\<lambda>payload_json.
     and_then (string_value lib b ''payload_sha256'' row) (\<lambda>payload_sha256.
     and_then (string_value lib b ''schema_version'' row) (\<lambda>schema_version.
     Inr \<lparr>gi_venue = venue, gi_symbol_native = symbol_native, gi_gap_type = gap_type,
          gi_detected_at_ms = detected_at_ms, gi_payload_json = payload_json, gi_payload_sha256 = payload_sha256,
          gi_schema_version = schema_version\<rparr>)))))))"

datatype input_object_family = RawMarketEvent | SymbolHealth | SourceHealth | GapAlert

definition family_from_key :: "string \<Rightarrow> input_object_family option" where
  "family_from_key key =
     (if starts_with ''raw_market_event/'' key then Some RawMarketEvent
      else if starts_with ''symbol_health/'' key then Some SymbolHealth
      else if starts_with ''source_health/'' key then Some SourceHealth
      else if starts_with ''gap_alert/'' key then Some GapAlert
      else None)"

text \<open>Appending a batch stops at the first row that does not decode, keeping the rows before it.\<close>

fun push_rows :: "(nat \<Rightarrow> ('a, storage_error) result) \<Rightarrow> nat list \<Rightarrow> 'a list \<Rightarrow> 'a list \<times> (unit, storage_error) result"
  where
  "push_rows decode [] output = (output, Inr ())"
| "push_rows decode (row # rows) output =
     (case decode row of Inl e \<Rightarrow> (output, Inl e) | Inr x \<Rightarrow> push_rows decode rows (output @ [x]))"

definition append_batch_to_inputs ::
    "arrow_lib \<Rightarrow> input_object_family \<Rightarrow> record_batch \<Rightarrow> normalize_inputs \<Rightarrow>
     normalize_inputs \<times> (unit, storage_error) result" where
  "append_batch_to_inputs lib family b inputs =
     (case family of
        RawMarketEvent \<Rightarrow>
          (case push_rows (raw_event_from_batch lib b) [0 ..< num_rows b] (ni_raw_events inputs) of
             (out, r) \<Rightarrow> (inputs\<lparr>ni_raw_events := out\<rparr>, r))
      | SymbolHealth \<Rightarrow>
          (case push_rows (symbol_health_from_batch lib b) [0 ..< num_rows b] (ni_symbol_health inputs) of
             (out, r) \<Rightarrow> (inputs\<lparr>ni_symbol_health := out\<rparr>, r))
      | SourceHealth \<Rightarrow>
          (case push_rows (source_health_from_batch lib b) [0 ..< num_rows b] (ni_source_health inputs) of
             (out, r) \<Rightarrow> (inputs\<lparr>ni_source_health := out\<rparr>, r))
      | GapAlert \<Rightarrow>
          (case push_rows (gap_alert_from_batch lib b) [0 ..< num_rows b] (ni_gap_alerts inputs) of
             (out, r) \<Rightarrow> (inputs\<lparr>ni_gap_alerts := out\<rparr>, r)))"

section \<open>The round trip\<close>

text \<open>The fields of a record the normalizer reads.\<close>

definition raw_input_of :: "raw_record \<Rightarrow> raw_input_event" where
  "raw_input_of r =
     \<lparr>re_event_id = rr_event_id r, re_producer_run_id = rr_producer_run_id r, re_venue = rr_venue r,
      re_source_role = rr_source_role r, re_market_type = rr_market_type r, re_event_type = rr_event_type r,
      re_symbol_native = rr_symbol_native r, re_symbol_canonical = rr_symbol_canonical r,
      re_base_asset = rr_base_asset r, re_quote_asset = rr_quote_asset r,
      re_exchange_timestamp_ms = rr_exchange_timestamp_ms r, re_ingest_timestamp_ms = rr_ingest_timestamp_ms r,
      re_exchange_sequence = rr_exchange_sequence r, re_payload_json = rr_payload_json r,
      re_payload_sha256 = rr_payload_sha256 r, re_schema_version = rr_schema_version r\<rparr>"

definition symbol_health_input_of :: "symbol_health_record \<Rightarrow> symbol_health_input" where
  "symbol_health_input_of r =
     \<lparr>si_venue = yr_venue r, si_symbol_native = yr_symbol_native r, si_observed_at_ms = yr_observed_at_ms r,
      si_last_event_time_ms = yr_last_event_time_ms r, si_latency_ms = yr_latency_ms r,
      si_is_tradeable = yr_is_tradeable r, si_reason_codes = yr_reason_codes r,
      si_payload_sha256 = yr_payload_sha256 r, si_schema_version = yr_schema_version r\<rparr>"

definition source_health_input_of :: "source_health_record \<Rightarrow> source_health_input" where
  "source_health_input_of r =
     \<lparr>hi_venue = sr_venue r, hi_observed_at_ms = sr_observed_at_ms r,
      hi_connection_status = sr_connection_status r, hi_heartbeat_delay_ms = sr_heartbeat_delay_ms r,
      hi_stream_lag_ms = sr_stream_lag_ms r, hi_recent_gap_count = sr_recent_gap_count r,
      hi_book_rebuild_count = sr_book_rebuild_count r, hi_health_level = sr_health_level r,
      hi_payload_json = sr_payload_json r, hi_payload_sha256 = sr_payload_sha256 r,
      hi_schema_version = sr_schema_version r\<rparr>"

definition gap_alert_input_of :: "gap_record \<Rightarrow> gap_alert_input" where
  "gap_alert_input_of r =
     \<lparr>gi_venue = gr_venue r, gi_symbol_native = gr_symbol_native r, gi_gap_type = gr_gap_type r,
      gi_detected_at_ms = gr_detected_at_ms r, gi_payload_json = gr_payload_json r,
      gi_payload_sha256 = gr_payload_sha256 r, gi_schema_version = gr_schema_version r\<rparr>"

lemma col_facts [simp]:
  "col_len (string_col rs v) = length rs" "col_len (int64_col rs w) = length rs"
  "col_len (int64_opt_col rs u) = length rs" "col_len (bool_col rs b) = length rs"
  "col_type (string_col rs v) = Utf8" "col_type (int64_col rs w) = Int64"
  "col_type (int64_opt_col rs u) = Int64" "col_type (bool_col rs b) = Boolean"
  "\<not> col_has_null (string_col rs v)" "\<not> col_has_null (int64_col rs w)" "\<not> col_has_null (bool_col rs b)"
  by (auto simp: string_col_def int64_col_def int64_opt_col_def bool_col_def)

lemma field_sel [simp]:
  "f_name (field nm t) = nm" "f_type (field nm t) = t" "\<not> f_nullable (field nm t)"
  "f_name (nullable_field nm t) = nm" "f_type (nullable_field nm t) = t" "f_nullable (nullable_field nm t)"
  by (simp_all add: field_def nullable_field_def)

lemma try_new_built:
  "try_new_accepts lib \<Longrightarrow> batch_consistent n schema columns \<Longrightarrow>
     ar_try_new lib schema columns = Inr \<lparr>rb_schema = schema, rb_columns = columns\<rparr>"
  by (auto simp: try_new_accepts_def)

text \<open>A batch is decoded through the column stored under a name.\<close>

definition has_column :: "record_batch \<Rightarrow> string \<Rightarrow> column \<Rightarrow> bool" where
  "has_column b nm c \<longleftrightarrow> (\<exists>i. index_of nm (rb_schema b) = Some i \<and> rb_columns b ! i = c)"

lemma decode_col:
  "has_column b nm (string_col rs v) \<Longrightarrow> row < length rs \<Longrightarrow> string_value lib b nm row = Inr (v (rs ! row))"
  "has_column b nm (int64_col rs w) \<Longrightarrow> row < length rs \<Longrightarrow> int64_value lib b nm row = Inr (w (rs ! row))"
  "has_column b nm (int64_opt_col rs u) \<Longrightarrow> row < length rs \<Longrightarrow> int64_optional lib b nm row = Inr (u (rs ! row))"
  "has_column b nm (bool_col rs p) \<Longrightarrow> row < length rs \<Longrightarrow> bool_value lib b nm row = Inr (p (rs ! row))"
  by (auto simp: has_column_def string_value_def int64_value_def int64_optional_def bool_value_def column_of_def
      string_col_def int64_col_def int64_opt_col_def bool_col_def)

lemma push_rows_map:
  "(\<And>row. row \<in> set rows \<Longrightarrow> decode row = Inr (f row)) \<Longrightarrow>
     push_rows decode rows acc = (acc @ map f rows, Inr ())"
  by (induction rows arbitrary: acc) auto

lemma push_rows_records:
  "(\<And>row. row < length rs \<Longrightarrow> decode row = Inr (g (rs ! row))) \<Longrightarrow>
     push_rows decode [0 ..< length rs] acc = (acc @ map g rs, Inr ())"
proof -
  assume "\<And>row. row < length rs \<Longrightarrow> decode row = Inr (g (rs ! row))"
  then have "push_rows decode [0 ..< length rs] acc = (acc @ map (\<lambda>row. g (rs ! row)) [0 ..< length rs], Inr ())"
    by (intro push_rows_map) auto
  also have "map (\<lambda>row. g (rs ! row)) [0 ..< length rs] = map g rs" by (rule nth_equalityI) auto
  finally show ?thesis .
qed

lemma raw_batch_built:
  assumes "try_new_accepts lib"
  obtains b where "raw_market_event_batch lib raw_market_event_schema records = Inr b" and "num_rows b = length records"
    and "\<And>row. row < length records \<Longrightarrow> raw_event_from_batch lib b row = Inr (raw_input_of (records ! row))"
proof -
  let ?b = "\<lparr>rb_schema = raw_market_event_schema, rb_columns = raw_market_event_columns records\<rparr>"
  have built: "raw_market_event_batch lib raw_market_event_schema records = Inr ?b"
    unfolding raw_market_event_batch_def
    by (rule try_new_built [OF assms, of "length records"])
      (simp add: batch_consistent_def raw_market_event_schema_def raw_market_event_columns_def col_fits_def)
  have c: "has_column ?b ''event_id'' (string_col records rr_event_id)"
    "has_column ?b ''producer_run_id'' (string_col records rr_producer_run_id)"
    "has_column ?b ''venue'' (string_col records rr_venue)"
    "has_column ?b ''source_role'' (string_col records rr_source_role)"
    "has_column ?b ''market_type'' (string_col records rr_market_type)"
    "has_column ?b ''event_type'' (string_col records rr_event_type)"
    "has_column ?b ''symbol_native'' (string_col records rr_symbol_native)"
    "has_column ?b ''symbol_canonical'' (string_col records rr_symbol_canonical)"
    "has_column ?b ''base_asset'' (string_col records rr_base_asset)"
    "has_column ?b ''quote_asset'' (string_col records rr_quote_asset)"
    "has_column ?b ''exchange_timestamp_ms'' (int64_col records rr_exchange_timestamp_ms)"
    "has_column ?b ''ingest_timestamp_ms'' (int64_col records rr_ingest_timestamp_ms)"
    "has_column ?b ''exchange_sequence'' (int64_opt_col records rr_exchange_sequence)"
    "has_column ?b ''payload_json'' (string_col records rr_payload_json)"
    "has_column ?b ''payload_sha256'' (string_col records rr_payload_sha256)"
    "has_column ?b ''schema_version'' (string_col records rr_schema_version)"
    by (simp_all add: has_column_def raw_market_event_schema_def raw_market_event_columns_def)
  show thesis
  proof (rule that [OF built])
    show "num_rows ?b = length records" by (simp add: num_rows_def raw_market_event_columns_def)
    fix row
    assume row: "row < length records"
    show "raw_event_from_batch lib ?b row = Inr (raw_input_of (records ! row))"
      unfolding raw_event_from_batch_def by (simp add: raw_input_of_def decode_col [OF _ row] c)
  qed
qed

lemma symbol_health_batch_built:
  assumes "try_new_accepts lib"
  obtains b where "symbol_health_batch lib records = Inr b" and "num_rows b = length records"
    and "\<And>row. row < length records \<Longrightarrow> symbol_health_from_batch lib b row = Inr (symbol_health_input_of (records ! row))"
proof -
  let ?b = "\<lparr>rb_schema = symbol_health_schema, rb_columns = symbol_health_columns records\<rparr>"
  have built: "symbol_health_batch lib records = Inr ?b"
    unfolding symbol_health_batch_def
    by (rule try_new_built [OF assms, of "length records"])
      (simp add: batch_consistent_def symbol_health_schema_def symbol_health_columns_def col_fits_def)
  have c: "has_column ?b ''venue'' (string_col records yr_venue)"
    "has_column ?b ''symbol_native'' (string_col records yr_symbol_native)"
    "has_column ?b ''reason_codes'' (string_col records yr_reason_codes)"
    "has_column ?b ''payload_sha256'' (string_col records yr_payload_sha256)"
    "has_column ?b ''schema_version'' (string_col records yr_schema_version)"
    "has_column ?b ''observed_at_ms'' (int64_col records yr_observed_at_ms)"
    "has_column ?b ''last_event_time_ms'' (int64_col records yr_last_event_time_ms)"
    "has_column ?b ''latency_ms'' (int64_col records yr_latency_ms)"
    "has_column ?b ''is_tradeable'' (bool_col records yr_is_tradeable)"
    by (simp_all add: has_column_def symbol_health_schema_def symbol_health_columns_def)
  show thesis
  proof (rule that [OF built])
    show "num_rows ?b = length records" by (simp add: num_rows_def symbol_health_columns_def)
    fix row
    assume row: "row < length records"
    show "symbol_health_from_batch lib ?b row = Inr (symbol_health_input_of (records ! row))"
      unfolding symbol_health_from_batch_def by (simp add: symbol_health_input_of_def decode_col [OF _ row] c)
  qed
qed

lemma source_health_batch_built:
  assumes "try_new_accepts lib"
  obtains b where "source_health_batch lib records = Inr b" and "num_rows b = length records"
    and "\<And>row. row < length records \<Longrightarrow> source_health_from_batch lib b row = Inr (source_health_input_of (records ! row))"
proof -
  let ?b = "\<lparr>rb_schema = source_health_schema, rb_columns = source_health_columns records\<rparr>"
  have built: "source_health_batch lib records = Inr ?b"
    unfolding source_health_batch_def
    by (rule try_new_built [OF assms, of "length records"])
      (simp add: batch_consistent_def source_health_schema_def source_health_columns_def col_fits_def)
  have c: "has_column ?b ''venue'' (string_col records sr_venue)"
    "has_column ?b ''connection_status'' (string_col records sr_connection_status)"
    "has_column ?b ''health_level'' (string_col records sr_health_level)"
    "has_column ?b ''payload_json'' (string_col records sr_payload_json)"
    "has_column ?b ''payload_sha256'' (string_col records sr_payload_sha256)"
    "has_column ?b ''schema_version'' (string_col records sr_schema_version)"
    "has_column ?b ''observed_at_ms'' (int64_col records sr_observed_at_ms)"
    "has_column ?b ''heartbeat_delay_ms'' (int64_col records sr_heartbeat_delay_ms)"
    "has_column ?b ''stream_lag_ms'' (int64_col records sr_stream_lag_ms)"
    "has_column ?b ''recent_gap_count'' (int64_col records sr_recent_gap_count)"
    "has_column ?b ''book_rebuild_count'' (int64_col records sr_book_rebuild_count)"
    by (simp_all add: has_column_def source_health_schema_def source_health_columns_def)
  show thesis
  proof (rule that [OF built])
    show "num_rows ?b = length records" by (simp add: num_rows_def source_health_columns_def)
    fix row
    assume row: "row < length records"
    show "source_health_from_batch lib ?b row = Inr (source_health_input_of (records ! row))"
      unfolding source_health_from_batch_def by (simp add: source_health_input_of_def decode_col [OF _ row] c)
  qed
qed

lemma gap_alert_batch_built:
  assumes "try_new_accepts lib"
  obtains b where "gap_alert_batch lib records = Inr b" and "num_rows b = length records"
    and "\<And>row. row < length records \<Longrightarrow> gap_alert_from_batch lib b row = Inr (gap_alert_input_of (records ! row))"
proof -
  let ?b = "\<lparr>rb_schema = gap_alert_schema, rb_columns = gap_alert_columns records\<rparr>"
  have built: "gap_alert_batch lib records = Inr ?b"
    unfolding gap_alert_batch_def
    by (rule try_new_built [OF assms, of "length records"])
      (simp add: batch_consistent_def gap_alert_schema_def gap_alert_columns_def col_fits_def)
  have c: "has_column ?b ''venue'' (string_col records gr_venue)"
    "has_column ?b ''symbol_native'' (string_col records gr_symbol_native)"
    "has_column ?b ''gap_type'' (string_col records gr_gap_type)"
    "has_column ?b ''payload_json'' (string_col records gr_payload_json)"
    "has_column ?b ''payload_sha256'' (string_col records gr_payload_sha256)"
    "has_column ?b ''schema_version'' (string_col records gr_schema_version)"
    "has_column ?b ''detected_at_ms'' (int64_col records gr_detected_at_ms)"
    by (simp_all add: has_column_def gap_alert_schema_def gap_alert_columns_def)
  show thesis
  proof (rule that [OF built])
    show "num_rows ?b = length records" by (simp add: num_rows_def gap_alert_columns_def)
    fix row
    assume row: "row < length records"
    show "gap_alert_from_batch lib ?b row = Inr (gap_alert_input_of (records ! row))"
      unfolding gap_alert_from_batch_def by (simp add: gap_alert_input_of_def decode_col [OF _ row] c)
  qed
qed

section \<open>Properties\<close>

text \<open>An arrow library whose constructor checks consistency itself.\<close>

definition demo_arrow :: arrow_lib where
  "demo_arrow =
     \<lparr>ar_try_new = \<lambda>schema columns.
        if list_all2 (\<lambda>f c. col_type c = f_type f) schema columns
        then Inr \<lparr>rb_schema = schema, rb_columns = columns\<rparr> else Inl ''column types must match schema types'',
      ar_index_error = \<lambda>schema nm. ''unable to get field named '' @ nm\<rparr>"

lemma demo_arrow_accepts: "try_new_accepts demo_arrow"
proof -
  have "list_all2 (\<lambda>f c. col_type c = f_type f) schema columns" if "batch_consistent n schema columns"
    for n schema columns
    using that unfolding batch_consistent_def by (rule list_all2_mono) (simp add: col_fits_def)
  then show ?thesis by (auto simp: try_new_accepts_def demo_arrow_def)
qed


definition demo_gap :: gap_record where
  "demo_gap = \<lparr>gr_gap_id = ''g'', gr_producer_run_id = ''r'', gr_venue = ''binance'', gr_source_role = ''primary'',
     gr_symbol_native = ''BTCUSDT'', gr_gap_type = ''depth'', gr_detected_at_ms = 5, gr_expected_sequence_id = ''1'',
     gr_observed_sequence_id = [], gr_heal_action = ''resync'', gr_heal_status = ''pending'',
     gr_payload_json = ''{}'', gr_payload_sha256 = ''h'', gr_schema_version = ''gap_alert_v1''\<rparr>"

definition no_inputs :: normalize_inputs where
  "no_inputs = \<lparr>ni_raw_events = [], ni_symbol_health = [], ni_source_health = [], ni_gap_alerts = [],
     ni_run_mode = ''steady'', ni_fallback_alert = False, ni_input_local_object_count = 0,
     ni_input_s3_object_count = 0, ni_input_object_keys = []\<rparr>"


text \<open>The prefix of an object key selects the decoder of the family it was written with.\<close>

lemma family_from_object_key:
  "family_from_key (raw_object_key rp r n) = Some RawMarketEvent"
  "family_from_key (symbol_health_object_key hp r n) = Some SymbolHealth"
  "family_from_key (health_object_key hp r n) = Some SourceHealth"
  "family_from_key (gap_object_key gp r n) = Some GapAlert"
  by (simp_all add: family_from_key_def raw_object_key_def symbol_health_object_key_def health_object_key_def
      gap_object_key_def starts_with_def)

end
