(* ===== verification/Payload.thy ===== *)
theory Payload
  imports L0_Columns
begin

text \<open>
  Payload parsing of the normalizer (\<open>src/normalize/payload\<close>) with the event types it produces
  (\<open>src/normalize/model/slice.rs\<close>): trades, best bid and ask, derivative metrics and compact references. The JSON
  parser is the field \<open>p_json\<close> of \<open>l0_params\<close>. The lemmas give what an accepted price can be: everything but
  a number of at most zero, which leaves NaN and infinity in.
\<close>

record trade_normalized =
  tn_exchange_timestamp_ms :: int
  tn_ingest_timestamp_ms :: int
  tn_price :: f64
  tn_quantity :: f64
  tn_side :: string
  tn_exchange_sequence :: "int option"
  tn_parent_event_id :: string

record book_ticker_normalized =
  bn_exchange_timestamp_ms :: int
  bn_ingest_timestamp_ms :: int
  bn_best_bid :: f64
  bn_best_bid_qty :: f64
  bn_best_ask :: f64
  bn_best_ask_qty :: f64
  bn_exchange_sequence :: "int option"
  bn_parent_event_id :: string

record compact_event_ref =
  cr_exchange_timestamp_ms :: int
  cr_ingest_timestamp_ms :: int
  cr_event_type :: string
  cr_parent_event_id :: string

record derivative_metric_observation =
  dm_venue :: string
  dm_source_role :: string
  dm_market_type :: string
  dm_metric_name :: string
  dm_symbol_native :: string
  dm_symbol_canonical :: string
  dm_base_asset :: string
  dm_quote_asset :: string
  dm_value :: f64
  dm_unit :: string
  dm_exchange_timestamp_ms :: int
  dm_ingest_timestamp_ms :: int
  dm_parent_event_id :: string
  dm_parent_run_id :: string

section \<open>Numbers and references (common.rs, event_ref.rs)\<close>

definition number_from_value :: "json \<Rightarrow> f64 option" where
  "number_from_value v =
     (case v of JNumber n \<Rightarrow> number_as_f64 n | JString s \<Rightarrow> parse_f64 s | _ \<Rightarrow> None)"

text \<open>The number stored under a key, as in \<open>number_from_value(data.get(key)?)?\<close>.\<close>

definition number_at :: "string \<Rightarrow> json \<Rightarrow> f64 option" where
  "number_at key data = Option.bind (jget key data) number_from_value"

definition binance_data :: "json \<Rightarrow> json option" where
  "binance_data v = jget ''data'' v"

definition compact_ref :: "raw_input_event \<Rightarrow> compact_event_ref" where
  "compact_ref e =
     \<lparr>cr_exchange_timestamp_ms = re_exchange_timestamp_ms e, cr_ingest_timestamp_ms = re_ingest_timestamp_ms e,
      cr_event_type = re_event_type e, cr_parent_event_id = re_event_id e\<rparr>"

definition unwrap_or :: "'a option \<Rightarrow> 'a \<Rightarrow> 'a" where
  "unwrap_or m d = (case m of Some x \<Rightarrow> x | None \<Rightarrow> d)"

section \<open>Trades (trade.rs)\<close>

definition trade_of :: "raw_input_event \<Rightarrow> f64 \<Rightarrow> f64 \<Rightarrow> string \<Rightarrow> trade_normalized" where
  "trade_of e price quantity side =
     \<lparr>tn_exchange_timestamp_ms = re_exchange_timestamp_ms e, tn_ingest_timestamp_ms = re_ingest_timestamp_ms e,
      tn_price = price, tn_quantity = quantity, tn_side = side, tn_exchange_sequence = re_exchange_sequence e,
      tn_parent_event_id = re_event_id e\<rparr>"

definition parse_binance_trade :: "raw_input_event \<Rightarrow> json \<Rightarrow> trade_normalized option" where
  "parse_binance_trade e data =
     Option.bind (number_at ''p'' data) (\<lambda>price.
     Option.bind (number_at ''q'' data) (\<lambda>quantity.
     if f64_le price (Fin 0) \<or> f64_le quantity (Fin 0) then None
     else let buyer_is_maker = unwrap_or (Option.bind (jget ''m'' data) as_bool) False
          in Some (trade_of e price quantity (if buyer_is_maker then ''sell'' else ''buy''))))"

definition parse_upbit_trade :: "raw_input_event \<Rightarrow> json \<Rightarrow> trade_normalized option" where
  "parse_upbit_trade e data =
     Option.bind (number_at ''trade_price'' data) (\<lambda>price.
     Option.bind (number_at ''trade_volume'' data) (\<lambda>quantity.
     if f64_le price (Fin 0) \<or> f64_le quantity (Fin 0) then None
     else let side = Option.bind (jget ''ask_bid'' data) as_str
          in if side = Some ''BID'' then Some (trade_of e price quantity ''buy'')
             else if side = Some ''ASK'' then Some (trade_of e price quantity ''sell'')
             else None))"

definition parse_trade :: "l0_params \<Rightarrow> raw_input_event \<Rightarrow> trade_normalized option" where
  "parse_trade params e =
     Option.bind (p_json params (re_payload_json e)) (\<lambda>v.
     let data = unwrap_or (binance_data v) v
     in if re_venue e = ''binance'' then parse_binance_trade e data
        else if re_venue e = ''upbit'' then parse_upbit_trade e data
        else None)"

section \<open>Best bid and ask (book.rs)\<close>

definition valid_book :: "raw_input_event \<Rightarrow> f64 \<Rightarrow> f64 \<Rightarrow> f64 \<Rightarrow> f64 \<Rightarrow> book_ticker_normalized option" where
  "valid_book e best_bid best_bid_qty best_ask best_ask_qty =
     (if f64_le best_bid (Fin 0) \<or> f64_le best_ask (Fin 0) \<or> f64_lt best_bid_qty (Fin 0) \<or>
         f64_lt best_ask_qty (Fin 0) then None
      else if f64_lt best_ask best_bid then None
      else Some \<lparr>bn_exchange_timestamp_ms = re_exchange_timestamp_ms e,
                 bn_ingest_timestamp_ms = re_ingest_timestamp_ms e, bn_best_bid = best_bid,
                 bn_best_bid_qty = best_bid_qty, bn_best_ask = best_ask, bn_best_ask_qty = best_ask_qty,
                 bn_exchange_sequence = re_exchange_sequence e, bn_parent_event_id = re_event_id e\<rparr>)"

definition parse_binance_book_ticker :: "raw_input_event \<Rightarrow> json \<Rightarrow> book_ticker_normalized option" where
  "parse_binance_book_ticker e data =
     Option.bind (number_at ''b'' data) (\<lambda>best_bid.
     Option.bind (number_at ''B'' data) (\<lambda>best_bid_qty.
     Option.bind (number_at ''a'' data) (\<lambda>best_ask.
     Option.bind (number_at ''A'' data) (\<lambda>best_ask_qty.
     valid_book e best_bid best_bid_qty best_ask best_ask_qty))))"

definition parse_upbit_orderbook_top :: "raw_input_event \<Rightarrow> json \<Rightarrow> book_ticker_normalized option" where
  "parse_upbit_orderbook_top e data =
     Option.bind (jget ''orderbook_units'' data) (\<lambda>units.
     Option.bind (as_array units) (\<lambda>xs.
     case xs of [] \<Rightarrow> None
     | first # _ \<Rightarrow>
         Option.bind (number_at ''bid_price'' first) (\<lambda>best_bid.
         Option.bind (number_at ''bid_size'' first) (\<lambda>best_bid_qty.
         Option.bind (number_at ''ask_price'' first) (\<lambda>best_ask.
         Option.bind (number_at ''ask_size'' first) (\<lambda>best_ask_qty.
         valid_book e best_bid best_bid_qty best_ask best_ask_qty))))))"

definition parse_book_ticker :: "l0_params \<Rightarrow> raw_input_event \<Rightarrow> book_ticker_normalized option" where
  "parse_book_ticker params e =
     Option.bind (p_json params (re_payload_json e)) (\<lambda>v.
     let data = unwrap_or (binance_data v) v
     in if re_venue e = ''binance'' \<and> re_event_type e = ''book_ticker'' then parse_binance_book_ticker e data
        else if re_venue e = ''upbit'' \<and> re_event_type e = ''depth_snapshot'' then parse_upbit_orderbook_top e data
        else None)"

section \<open>Derivative metrics (derivative.rs)\<close>

definition parse_derivative_metric :: "l0_params \<Rightarrow> raw_input_event \<Rightarrow> derivative_metric_observation option" where
  "parse_derivative_metric params e =
     Option.bind (p_json params (re_payload_json e)) (\<lambda>v.
     Option.bind
       (if re_venue e = ''binance'' \<and> re_event_type e = ''funding_rate_snapshot'' then
          map_option (\<lambda>x. (''funding_rate'', x, ''ratio''))
            (Option.bind (or_else (jget ''funding_rate'' v) (jget ''lastFundingRate'' v)) number_from_value)
        else if re_venue e = ''binance'' \<and> re_event_type e = ''open_interest_snapshot'' then
          map_option (\<lambda>x. (''open_interest'', x, ''contracts''))
            (Option.bind (or_else (jget ''open_interest'' v) (jget ''openInterest'' v)) number_from_value)
        else None) (\<lambda>(metric_name, metric_value, unit).
     if \<not> is_finite metric_value then None
     else Some \<lparr>dm_venue = re_venue e, dm_source_role = re_source_role e, dm_market_type = re_market_type e,
                dm_metric_name = metric_name, dm_symbol_native = re_symbol_native e,
                dm_symbol_canonical = re_symbol_canonical e, dm_base_asset = re_base_asset e,
                dm_quote_asset = re_quote_asset e, dm_value = metric_value, dm_unit = unit,
                dm_exchange_timestamp_ms = re_exchange_timestamp_ms e,
                dm_ingest_timestamp_ms = re_ingest_timestamp_ms e, dm_parent_event_id = re_event_id e,
                dm_parent_run_id = re_producer_run_id e\<rparr>))"

section \<open>What is accepted\<close>

definition trade_from :: "raw_input_event \<Rightarrow> trade_normalized \<Rightarrow> bool" where
  "trade_from e t \<longleftrightarrow> tn_exchange_timestamp_ms t = re_exchange_timestamp_ms e \<and> tn_parent_event_id t = re_event_id e \<and>
     \<not> f64_le (tn_price t) (Fin 0) \<and> \<not> f64_le (tn_quantity t) (Fin 0) \<and> tn_side t \<in> {''buy'', ''sell''}"

definition book_from :: "raw_input_event \<Rightarrow> book_ticker_normalized \<Rightarrow> bool" where
  "book_from e b \<longleftrightarrow> bn_exchange_timestamp_ms b = re_exchange_timestamp_ms e \<and> bn_parent_event_id b = re_event_id e \<and>
     \<not> f64_le (bn_best_bid b) (Fin 0) \<and> \<not> f64_le (bn_best_ask b) (Fin 0) \<and> \<not> f64_lt (bn_best_ask b) (bn_best_bid b)"

lemma parse_trade_from: "parse_trade params e = Some t \<Longrightarrow> trade_from e t"
  by (auto simp: parse_trade_def parse_binance_trade_def parse_upbit_trade_def trade_from_def trade_of_def Let_def
      bind_eq_Some_conv split: if_splits)

lemma valid_book_from: "valid_book e bid bq ask aq = Some b \<Longrightarrow> book_from e b"
  by (auto simp: valid_book_def book_from_def split: if_splits)

lemma upbit_top_from: "parse_upbit_orderbook_top e data = Some b \<Longrightarrow> book_from e b"
  unfolding parse_upbit_orderbook_top_def bind_eq_Some_conv
  by (elim exE conjE) (simp add: bind_eq_Some_conv split: list.split_asm, blast intro: valid_book_from)

lemma parse_book_from: "parse_book_ticker params e = Some b \<Longrightarrow> book_from e b"
  by (auto simp: parse_book_ticker_def parse_binance_book_ticker_def Let_def bind_eq_Some_conv valid_book_from
      upbit_top_from split: if_splits)

text \<open>A metric is always finite; prices and quantities need not be.\<close>

lemma metric_finite: "parse_derivative_metric params e = Some d \<Longrightarrow> is_finite (dm_value d)"
  by (auto simp: parse_derivative_metric_def bind_eq_Some_conv split: if_splits)

text \<open>The guard against bad prices is a comparison, and every comparison with NaN is false: the price text
  \<open>NaN\<close> of a venue message is accepted as a trade price.\<close>

lemma nan_price_accepted:
  assumes "re_venue e = ''binance''"
    and "p_json params (re_payload_json e) = Some (JObject [(''p'', JString ''NaN''), (''q'', JNumber (FloatNum (Fin 1)))])"
  shows "\<exists>t. parse_trade params e = Some t \<and> tn_price t = NaN"
proof -
  have n: "number_at ''p'' (JObject [(''p'', JString ''NaN''), (''q'', JNumber (FloatNum (Fin 1)))]) = Some NaN"
    by code_simp
  have q: "\<exists>x. number_at ''q'' (JObject [(''p'', JString ''NaN''), (''q'', JNumber (FloatNum (Fin 1)))]) = Some x \<and>
      \<not> f64_le x (Fin 0)"
    by (simp add: number_at_def number_from_value_def jget_def number_as_f64_def)
  with n show ?thesis
    by (auto simp: parse_trade_def assms binance_data_def unwrap_or_def parse_binance_trade_def Let_def trade_of_def
        jget_def)
qed

end
