(* ===== verification/Slices.thy ===== *)
theory Slices
  imports Payload Normalize_Args
begin

text \<open>
  Building L1 slices (\<open>src/normalize/build\<close>, \<open>src/normalize/quality\<close>): input records are checked, deduplicated and
  distributed over one row per venue, symbol and window; health and gap records are attached; rows are ordered,
  completed and graded. \<open>BTreeMap\<close>s are the ordered association lists of \<open>BTree_Map\<close>, \<open>BTreeSet\<close>s are sets.
  Counters are unbounded: each counts records that are held in memory. The lemmas show that rows account exactly
  for the events they hold, that no admitted event is lost, what each grade means, and when a build succeeds.
\<close>

section \<open>Rows (model/slice.rs)\<close>

record symbol_health_snapshot =
  ys_observed_at_ms :: int
  ys_last_event_time_ms :: int
  ys_last_received_time_ms :: int
  ys_latency_ms :: int
  ys_is_tradeable :: bool
  ys_reason_codes :: "string list"

record source_health_snapshot =
  hs_observed_at_ms :: int
  hs_connection_status :: string
  hs_health_level :: string
  hs_heartbeat_delay_ms :: int
  hs_stream_lag_ms :: int
  hs_recent_gap_count :: int
  hs_book_rebuild_count :: int

record slice_row =
  sl_slice_id :: string
  sl_venue :: string
  sl_source_role :: string
  sl_symbol_native :: string
  sl_symbol_canonical :: string
  sl_base_asset :: string
  sl_quote_asset :: string
  sl_market_type :: string
  sl_window_ms :: int
  sl_window_start_ms :: int
  sl_window_end_ms :: int
  sl_slice_completeness :: string
  sl_missing_reasons :: "string list"
  sl_quality_ok :: int
  sl_quality_delayed :: int
  sl_quality_stale :: int
  sl_quality_gap :: int
  sl_quality_invalid :: int
  sl_trade_count :: int
  sl_trade_volume :: f64
  sl_last_trade_price :: "f64 option"
  sl_last_trade_size :: "f64 option"
  sl_best_bid :: "f64 option"
  sl_best_ask :: "f64 option"
  sl_mid_price :: "f64 option"
  sl_spread_bps :: "f64 option"
  sl_book_ticker_count :: int
  sl_depth_event_count :: int
  sl_depth_book_rebuilt :: bool
  sl_trade_events :: "trade_normalized list"
  sl_book_ticker_events :: "book_ticker_normalized list"
  sl_depth_events :: "compact_event_ref list"
  sl_ticker_events :: "compact_event_ref list"
  sl_symbol_health_snapshot :: "symbol_health_snapshot option"
  sl_source_health_snapshot :: "source_health_snapshot option"
  sl_parent_event_ids :: "string list"
  sl_parent_run_ids :: "string list"

section \<open>Identities (slices/identity.rs)\<close>

record slice_key =
  sk_venue :: string
  sk_symbol_canonical :: string
  sk_window_start_ms :: int

record identity_key =
  ik_venue :: string
  ik_symbol_canonical :: string

record identity =
  id_venue :: string
  id_source_role :: string
  id_symbol_native :: string
  id_symbol_canonical :: string
  id_base_asset :: string
  id_quote_asset :: string
  id_market_type :: string

definition slice_rank :: "slice_key \<Rightarrow> string \<times> string \<times> int" where
  "slice_rank k = (sk_venue k, sk_symbol_canonical k, sk_window_start_ms k)"

definition identity_rank :: "identity_key \<Rightarrow> string \<times> string" where
  "identity_rank k = (ik_venue k, ik_symbol_canonical k)"

abbreviation slice_cmp :: "slice_key \<Rightarrow> slice_key \<Rightarrow> ordering" where
  "slice_cmp \<equiv> cmp_by slice_rank"

abbreviation identity_cmp :: "identity_key \<Rightarrow> identity_key \<Rightarrow> ordering" where
  "identity_cmp \<equiv> cmp_by identity_rank"

definition identity_key_from_event :: "raw_input_event \<Rightarrow> identity_key" where
  "identity_key_from_event e = \<lparr>ik_venue = re_venue e, ik_symbol_canonical = re_symbol_canonical e\<rparr>"

definition identity_from_event :: "raw_input_event \<Rightarrow> identity" where
  "identity_from_event e =
     \<lparr>id_venue = re_venue e, id_source_role = re_source_role e, id_symbol_native = re_symbol_native e,
      id_symbol_canonical = re_symbol_canonical e, id_base_asset = re_base_asset e,
      id_quote_asset = re_quote_asset e, id_market_type = re_market_type e\<rparr>"

section \<open>Seeding (slices/row.rs)\<close>

definition SLICE_SCHEMA_VERSION :: string where
  "SLICE_SCHEMA_VERSION = ''normalized_market_slice_v1''"

definition empty_slice :: "l0_params \<Rightarrow> normalize_args \<Rightarrow> identity \<Rightarrow> int \<Rightarrow> slice_row" where
  "empty_slice params args i window_start_ms =
     \<lparr>sl_slice_id = sha256_hex params (id_venue i @ ''|'' @ id_symbol_canonical i @ ''|'' @ show_int window_start_ms
        @ ''|'' @ show_int (na_window_ms args) @ ''|'' @ SLICE_SCHEMA_VERSION),
      sl_venue = id_venue i, sl_source_role = id_source_role i, sl_symbol_native = id_symbol_native i,
      sl_symbol_canonical = id_symbol_canonical i, sl_base_asset = id_base_asset i,
      sl_quote_asset = id_quote_asset i, sl_market_type = id_market_type i, sl_window_ms = na_window_ms args,
      sl_window_start_ms = window_start_ms,
      sl_window_end_ms = i64_saturating_add window_start_ms (na_window_ms args),
      sl_slice_completeness = [], sl_missing_reasons = [], sl_quality_ok = 0, sl_quality_delayed = 0,
      sl_quality_stale = 0, sl_quality_gap = 0, sl_quality_invalid = 0, sl_trade_count = 0,
      sl_trade_volume = Fin 0, sl_last_trade_price = None, sl_last_trade_size = None, sl_best_bid = None,
      sl_best_ask = None, sl_mid_price = None, sl_spread_bps = None, sl_book_ticker_count = 0,
      sl_depth_event_count = 0, sl_depth_book_rebuilt = False, sl_trade_events = [], sl_book_ticker_events = [],
      sl_depth_events = [], sl_ticker_events = [], sl_symbol_health_snapshot = None,
      sl_source_health_snapshot = None, sl_parent_event_ids = [], sl_parent_run_ids = []\<rparr>"

text \<open>The loop over window starts. The command line rejects a window of zero or less, with which it would not
  end, and an \<open>i64\<close> bound never exceeds \<open>i64_max\<close>; the test states both.\<close>

lemma sat_add_greater: "0 < w \<Longrightarrow> s < i64_max \<Longrightarrow> s < i64_saturating_add s w"
  by (simp add: i64_saturating_add_def sat_i64_def max_def min_def)

function seed_windows :: "int \<Rightarrow> int \<Rightarrow> int \<Rightarrow> int list" where
  "seed_windows window_ms end_bound ws =
     (if ws < end_bound \<and> 0 < window_ms \<and> ws < i64_max
      then ws # seed_windows window_ms end_bound (i64_saturating_add ws window_ms) else [])"
  by auto
termination
  by (relation "measure (\<lambda>(w, e, s). nat (i64_max - s))")
    (auto dest: sat_add_greater)

declare seed_windows.simps [simp del]

definition or_insert :: "slice_key \<Rightarrow> slice_row \<Rightarrow> (slice_key, slice_row) btree \<Rightarrow> (slice_key, slice_row) btree" where
  "or_insert k r rows = (if bt_contains_key slice_cmp k rows then rows else bt_insert slice_cmp k r rows)"

definition seed_identity_slices ::
    "l0_params \<Rightarrow> normalize_args \<Rightarrow> input_range \<Rightarrow> identity \<Rightarrow> (slice_key, slice_row) btree \<Rightarrow>
     (slice_key, slice_row) btree" where
  "seed_identity_slices params args rng i rows =
     foldl (\<lambda>m ws. or_insert \<lparr>sk_venue = id_venue i, sk_symbol_canonical = id_symbol_canonical i,
                             sk_window_start_ms = ws\<rparr> (empty_slice params args i ws) m)
       rows (seed_windows (na_window_ms args) (end_ms rng) (start_ms rng))"

section \<open>Events (slices/event.rs)\<close>

record build_stats =
  bs_input_record_count :: nat
  bs_duplicate_event_count :: nat
  bs_invalid_event_count :: nat
  bs_payload_hash_mismatch_count :: nat

definition stats_default :: build_stats where
  "stats_default = \<lparr>bs_input_record_count = 0, bs_duplicate_event_count = 0, bs_invalid_event_count = 0,
     bs_payload_hash_mismatch_count = 0\<rparr>"

definition is_derivative_market_event :: "raw_input_event \<Rightarrow> bool" where
  "is_derivative_market_event e \<longleftrightarrow> re_venue e = ''binance'' \<and>
     (re_event_type e = ''funding_rate_snapshot'' \<or> re_event_type e = ''open_interest_snapshot'')"

definition payload_hash :: "l0_params \<Rightarrow> string \<Rightarrow> string" where
  "payload_hash params payload = sha256_hex params payload"

definition push_missing :: "string \<Rightarrow> slice_row \<Rightarrow> slice_row" where
  "push_missing reason row = row\<lparr>sl_missing_reasons := sl_missing_reasons row @ [reason]\<rparr>"

definition mark_invalid :: "string \<Rightarrow> slice_row \<times> build_stats \<Rightarrow> slice_row \<times> build_stats" where
  "mark_invalid reason = (\<lambda>(row, stats).
     (push_missing reason (row\<lparr>sl_quality_invalid := sl_quality_invalid row + 1\<rparr>),
      stats\<lparr>bs_invalid_event_count := bs_invalid_event_count stats + 1\<rparr>))"

definition mark_event_quality :: "normalize_args \<Rightarrow> raw_input_event \<Rightarrow> slice_row \<Rightarrow> slice_row" where
  "mark_event_quality args e row =
     (if i64_saturating_sub (re_ingest_timestamp_ms e) (re_exchange_timestamp_ms e) > na_max_latency_ms args
      then row\<lparr>sl_quality_delayed := sl_quality_delayed row + 1\<rparr>
      else row\<lparr>sl_quality_ok := sl_quality_ok row + 1\<rparr>)"

definition push_parent :: "raw_input_event \<Rightarrow> slice_row \<Rightarrow> slice_row" where
  "push_parent e row =
     row\<lparr>sl_parent_event_ids := sl_parent_event_ids row @ [re_event_id e],
         sl_parent_run_ids := sl_parent_run_ids row @ [re_producer_run_id e]\<rparr>"

definition apply_trade_event ::
    "l0_params \<Rightarrow> normalize_args \<Rightarrow> raw_input_event \<Rightarrow> slice_row \<times> build_stats \<Rightarrow> slice_row \<times> build_stats" where
  "apply_trade_event params args e = (\<lambda>(row, stats).
     case parse_trade params e of
       Some t \<Rightarrow>
         (push_parent e (mark_event_quality args e
            (row\<lparr>sl_trade_count := sl_trade_count row + 1,
                 sl_trade_volume := f64_add (sl_trade_volume row) (tn_quantity t),
                 sl_last_trade_price := Some (tn_price t), sl_last_trade_size := Some (tn_quantity t),
                 sl_trade_events := sl_trade_events row @ [t]\<rparr>)), stats)
     | None \<Rightarrow> mark_invalid ''parse_trade_failed'' (row, stats))"

definition apply_book_event ::
    "l0_params \<Rightarrow> normalize_args \<Rightarrow> raw_input_event \<Rightarrow> slice_row \<times> build_stats \<Rightarrow> slice_row \<times> build_stats" where
  "apply_book_event params args e = (\<lambda>(row, stats).
     let (row, stats) =
       (case parse_book_ticker params e of
          Some b \<Rightarrow>
            (push_parent e (mark_event_quality args e
               (row\<lparr>sl_book_ticker_count := sl_book_ticker_count row + 1, sl_best_bid := Some (bn_best_bid b),
                    sl_best_ask := Some (bn_best_ask b),
                    sl_book_ticker_events := sl_book_ticker_events row @ [b]\<rparr>)), stats)
        | None \<Rightarrow> if re_event_type e = ''book_ticker'' then mark_invalid ''parse_book_ticker_failed'' (row, stats)
                  else (row, stats))
     in if re_event_type e = ''depth_snapshot''
        then (push_parent e (row\<lparr>sl_depth_event_count := sl_depth_event_count row + 1,
                                 sl_depth_events := sl_depth_events row @ [compact_ref e]\<rparr>), stats)
        else (row, stats))"

definition apply_compact_depth_event :: "normalize_args \<Rightarrow> raw_input_event \<Rightarrow> slice_row \<Rightarrow> slice_row" where
  "apply_compact_depth_event args e row =
     push_parent e (mark_event_quality args e
       (row\<lparr>sl_depth_event_count := sl_depth_event_count row + 1,
            sl_depth_events := sl_depth_events row @ [compact_ref e]\<rparr>))"

definition apply_ticker_event :: "normalize_args \<Rightarrow> raw_input_event \<Rightarrow> slice_row \<Rightarrow> slice_row" where
  "apply_ticker_event args e row =
     push_parent e (mark_event_quality args e (row\<lparr>sl_ticker_events := sl_ticker_events row @ [compact_ref e]\<rparr>))"

definition apply_event_to_row ::
    "l0_params \<Rightarrow> normalize_args \<Rightarrow> raw_input_event \<Rightarrow> slice_row \<times> build_stats \<Rightarrow> slice_row \<times> build_stats" where
  "apply_event_to_row params args e rs =
     (if re_event_type e = ''trade'' then apply_trade_event params args e rs
      else if re_event_type e = ''book_ticker'' \<or> re_event_type e = ''depth_snapshot''
      then apply_book_event params args e rs
      else if re_event_type e = ''depth_delta'' then (apply_compact_depth_event args e (fst rs), snd rs)
      else if re_event_type e = ''ticker'' then (apply_ticker_event args e (fst rs), snd rs)
      else mark_invalid ''unknown_event_type'' rs)"

text \<open>With a positive window \<open>div_euclid\<close> is the floor division \<open>div\<close>.\<close>

definition event_slice_key :: "normalize_args \<Rightarrow> raw_input_event \<Rightarrow> slice_key" where
  "event_slice_key args e =
     \<lparr>sk_venue = re_venue e, sk_symbol_canonical = re_symbol_canonical e,
      sk_window_start_ms = re_exchange_timestamp_ms e div na_window_ms args * na_window_ms args\<rparr>"

definition apply_event ::
    "l0_params \<Rightarrow> normalize_args \<Rightarrow> input_range \<Rightarrow> raw_input_event \<Rightarrow>
     (slice_key, slice_row) btree \<times> build_stats \<Rightarrow> (slice_key, slice_row) btree \<times> build_stats" where
  "apply_event params args rng e = (\<lambda>(rows, stats).
     if re_exchange_timestamp_ms e < start_ms rng \<or> re_exchange_timestamp_ms e \<ge> end_ms rng then (rows, stats)
     else let key = event_slice_key args e
          in case bt_get slice_cmp key rows of
               None \<Rightarrow> (rows, stats)
             | Some row \<Rightarrow>
                 (case apply_event_to_row params args e (row, stats) of
                    (row', stats') \<Rightarrow> (bt_insert slice_cmp key row' rows, stats')))"

section \<open>The accumulator (build/accumulator.rs, ingest.rs)\<close>

record build_input_metadata =
  bm_run_mode :: string
  bm_fallback_alert :: bool
  bm_input_local_object_count :: nat
  bm_input_s3_object_count :: nat
  bm_input_object_keys :: "string list"

record build_accumulator =
  ba_input_range :: input_range
  ba_scan_range :: input_range
  ba_projection_range :: input_range
  ba_input_identities :: "(identity_key, identity) btree"
  ba_projection_identities :: "(identity_key, identity) btree"
  ba_rows :: "(slice_key, slice_row) btree"
  ba_projection_rows :: "(slice_key, slice_row) btree"
  ba_projection_derivative_metrics :: "derivative_metric_observation list"
  ba_symbol_health :: "symbol_health_input list"
  ba_source_health :: "source_health_input list"
  ba_gap_alerts :: "gap_alert_input list"
  ba_stats :: build_stats
  ba_projection_stats :: build_stats
  ba_schema_versions :: "string set"
  ba_seen_event_ids :: "string set"
  ba_metadata :: build_input_metadata

definition accumulator_new ::
    "normalize_args \<Rightarrow> input_range \<Rightarrow> input_range \<Rightarrow> build_input_metadata \<Rightarrow> build_accumulator" where
  "accumulator_new args input_range scan_range metadata =
     \<lparr>ba_input_range = input_range, ba_scan_range = scan_range,
      ba_projection_range = \<lparr>start_ms = i64_saturating_sub (start_ms input_range) (na_projection_lookback_ms args),
                             end_ms = end_ms input_range\<rparr>,
      ba_input_identities = [], ba_projection_identities = [], ba_rows = [], ba_projection_rows = [],
      ba_projection_derivative_metrics = [], ba_symbol_health = [], ba_source_health = [], ba_gap_alerts = [],
      ba_stats = stats_default, ba_projection_stats = stats_default, ba_schema_versions = {},
      ba_seen_event_ids = {}, ba_metadata = metadata\<rparr>"

definition in_range :: "input_range \<Rightarrow> int \<Rightarrow> bool" where
  "in_range r t \<longleftrightarrow> start_ms r \<le> t \<and> t < end_ms r"

definition count_input :: "string \<Rightarrow> build_accumulator \<Rightarrow> build_accumulator" where
  "count_input schema_version a =
     a\<lparr>ba_stats := (ba_stats a)\<lparr>bs_input_record_count := bs_input_record_count (ba_stats a) + 1\<rparr>,
       ba_schema_versions := insert schema_version (ba_schema_versions a)\<rparr>"

definition count_invalid :: "build_accumulator \<Rightarrow> build_accumulator" where
  "count_invalid a =
     a\<lparr>ba_stats := (ba_stats a)\<lparr>bs_invalid_event_count := bs_invalid_event_count (ba_stats a) + 1\<rparr>\<rparr>"

definition count_mismatch :: "build_accumulator \<Rightarrow> build_accumulator" where
  "count_mismatch a =
     a\<lparr>ba_stats := (ba_stats a)\<lparr>bs_payload_hash_mismatch_count := bs_payload_hash_mismatch_count (ba_stats a) + 1\<rparr>\<rparr>"

definition ensure_input_identity ::
    "l0_params \<Rightarrow> normalize_args \<Rightarrow> raw_input_event \<Rightarrow> build_accumulator \<Rightarrow> build_accumulator" where
  "ensure_input_identity params args e a =
     (let key = identity_key_from_event e
      in if bt_contains_key identity_cmp key (ba_input_identities a) then a
         else let i = identity_from_event e
              in a\<lparr>ba_input_identities := bt_insert identity_cmp key i (ba_input_identities a),
                   ba_rows := seed_identity_slices params args (ba_input_range a) i (ba_rows a)\<rparr>)"

definition ensure_projection_identity ::
    "l0_params \<Rightarrow> normalize_args \<Rightarrow> raw_input_event \<Rightarrow> build_accumulator \<Rightarrow> build_accumulator" where
  "ensure_projection_identity params args e a =
     (let key = identity_key_from_event e
      in if bt_contains_key identity_cmp key (ba_projection_identities a) then a
         else let i = identity_from_event e
              in a\<lparr>ba_projection_identities := bt_insert identity_cmp key i (ba_projection_identities a),
                   ba_projection_rows :=
                     seed_identity_slices params args (ba_projection_range a) i (ba_projection_rows a)\<rparr>)"

definition apply_projection ::
    "l0_params \<Rightarrow> normalize_args \<Rightarrow> raw_input_event \<Rightarrow> build_accumulator \<Rightarrow> build_accumulator" where
  "apply_projection params args e a =
     (case apply_event params args (ba_projection_range a) e (ba_projection_rows a, ba_projection_stats a) of
        (rows, stats) \<Rightarrow> a\<lparr>ba_projection_rows := rows, ba_projection_stats := stats\<rparr>)"

definition apply_input ::
    "l0_params \<Rightarrow> normalize_args \<Rightarrow> raw_input_event \<Rightarrow> build_accumulator \<Rightarrow> build_accumulator" where
  "apply_input params args e a =
     (case apply_event params args (ba_input_range a) e (ba_rows a, ba_stats a) of
        (rows, stats) \<Rightarrow> a\<lparr>ba_rows := rows, ba_stats := stats\<rparr>)"

definition ingest_spot_event ::
    "l0_params \<Rightarrow> normalize_args \<Rightarrow> raw_input_event \<Rightarrow> build_accumulator \<Rightarrow> build_accumulator" where
  "ingest_spot_event params args e a =
     (let a1 = (if in_range (ba_projection_range a) (re_exchange_timestamp_ms e)
                then apply_projection params args e (ensure_projection_identity params args e a) else a)
      in if in_range (ba_input_range a1) (re_exchange_timestamp_ms e)
         then apply_input params args e (ensure_input_identity params args e a1) else a1)"

definition ingest_derivative_event :: "l0_params \<Rightarrow> raw_input_event \<Rightarrow> build_accumulator \<Rightarrow> build_accumulator" where
  "ingest_derivative_event params e a =
     (if \<not> in_range (ba_projection_range a) (re_exchange_timestamp_ms e) then a
      else case parse_derivative_metric params e of
             None \<Rightarrow> count_invalid a
           | Some observation \<Rightarrow>
               a\<lparr>ba_projection_derivative_metrics := ba_projection_derivative_metrics a @ [observation]\<rparr>)"

definition ingest_raw_event ::
    "l0_params \<Rightarrow> normalize_args \<Rightarrow> raw_input_event \<Rightarrow> build_accumulator \<Rightarrow> build_accumulator" where
  "ingest_raw_event params args e a0 =
     (let a = count_input (re_schema_version e) a0
      in if re_schema_version e \<noteq> ''raw_market_event_v2'' then count_invalid a
         else if payload_hash params (re_payload_json e) \<noteq> re_payload_sha256 e
         then count_invalid (count_mismatch a)
         else if re_exchange_timestamp_ms e \<le> 0 \<or>
                 re_exchange_timestamp_ms e
                   \<ge> i64_saturating_add (end_ms (ba_scan_range a)) (na_clock_skew_margin_ms args)
         then count_invalid a
         else if re_event_id e \<in> ba_seen_event_ids a
         then a\<lparr>ba_stats := (ba_stats a)\<lparr>bs_duplicate_event_count := bs_duplicate_event_count (ba_stats a) + 1\<rparr>\<rparr>
         else let a = a\<lparr>ba_seen_event_ids := insert (re_event_id e) (ba_seen_event_ids a)\<rparr>
              in if is_derivative_market_event e then ingest_derivative_event params e a
                 else ingest_spot_event params args e a)"

definition ingest_symbol_health :: "l0_params \<Rightarrow> symbol_health_input \<Rightarrow> build_accumulator \<Rightarrow> build_accumulator" where
  "ingest_symbol_health params row a0 =
     (let a = count_input (si_schema_version row) a0;
          payload = si_venue row @ '':'' @ si_symbol_native row @ '':'' @ show_int (si_observed_at_ms row) @ '':''
                    @ si_reason_codes row
      in if si_schema_version row \<noteq> ''symbol_health_v1'' then count_invalid a
         else if payload_hash params payload \<noteq> si_payload_sha256 row then count_mismatch (count_invalid a)
         else a\<lparr>ba_symbol_health := ba_symbol_health a @ [row]\<rparr>)"

definition ingest_source_health :: "l0_params \<Rightarrow> source_health_input \<Rightarrow> build_accumulator \<Rightarrow> build_accumulator" where
  "ingest_source_health params row a0 =
     (let a = count_input (hi_schema_version row) a0
      in if hi_schema_version row \<noteq> ''source_health_v2'' \<or>
            payload_hash params (hi_payload_json row) \<noteq> hi_payload_sha256 row
         then (let a = count_invalid a
               in if hi_schema_version row = ''source_health_v2'' then count_mismatch a else a)
         else a\<lparr>ba_source_health := ba_source_health a @ [row]\<rparr>)"

definition ingest_gap_alert :: "l0_params \<Rightarrow> gap_alert_input \<Rightarrow> build_accumulator \<Rightarrow> build_accumulator" where
  "ingest_gap_alert params row a0 =
     (let a = count_input (gi_schema_version row) a0
      in if gi_schema_version row \<noteq> ''gap_alert_v1'' \<or>
            payload_hash params (gi_payload_json row) \<noteq> gi_payload_sha256 row
         then (let a = count_invalid a
               in if gi_schema_version row = ''gap_alert_v1'' then count_mismatch a else a)
         else a\<lparr>ba_gap_alerts := ba_gap_alerts a @ [row]\<rparr>)"

section \<open>Health and gaps (quality)\<close>

text \<open>\<open>Iterator::max_by_key\<close>: the last of the elements with the greatest key.\<close>

definition max_by_key :: "('a \<Rightarrow> int) \<Rightarrow> 'a list \<Rightarrow> 'a option" where
  "max_by_key f xs =
     foldl (\<lambda>best x. case best of None \<Rightarrow> Some x | Some b \<Rightarrow> if f b \<le> f x then Some x else Some b) None xs"

definition latest_symbol_health :: "symbol_health_input list \<Rightarrow> slice_row \<Rightarrow> symbol_health_snapshot option" where
  "latest_symbol_health rows sl =
     map_option (\<lambda>row. \<lparr>ys_observed_at_ms = si_observed_at_ms row, ys_last_event_time_ms = si_last_event_time_ms row,
        ys_last_received_time_ms = i64_saturating_add (si_last_event_time_ms row) (si_latency_ms row),
        ys_latency_ms = si_latency_ms row, ys_is_tradeable = si_is_tradeable row,
        ys_reason_codes = filter (\<lambda>v. v \<noteq> []) (split_on (CHR '';'') (si_reason_codes row))\<rparr>)
       (max_by_key si_observed_at_ms
          (filter (\<lambda>row. si_venue row = sl_venue sl \<and> si_symbol_native row = sl_symbol_native sl \<and>
             si_observed_at_ms row \<le> sl_window_end_ms sl) rows))"

definition latest_source_health :: "source_health_input list \<Rightarrow> slice_row \<Rightarrow> source_health_snapshot option" where
  "latest_source_health rows sl =
     map_option (\<lambda>row. \<lparr>hs_observed_at_ms = hi_observed_at_ms row, hs_connection_status = hi_connection_status row,
        hs_health_level = hi_health_level row, hs_heartbeat_delay_ms = hi_heartbeat_delay_ms row,
        hs_stream_lag_ms = hi_stream_lag_ms row, hs_recent_gap_count = hi_recent_gap_count row,
        hs_book_rebuild_count = hi_book_rebuild_count row\<rparr>)
       (max_by_key hi_observed_at_ms
          (filter (\<lambda>row. hi_venue row = sl_venue sl \<and> hi_observed_at_ms row \<le> sl_window_end_ms sl) rows))"

definition is_healthy_level :: "string \<Rightarrow> bool" where
  "is_healthy_level v \<longleftrightarrow> v = ''ok'' \<or> v = ''healthy'' \<or> v = ''nominal''"

definition apply_symbol_health_snapshot :: "slice_row \<Rightarrow> slice_row" where
  "apply_symbol_health_snapshot row =
     (case sl_symbol_health_snapshot row of
        None \<Rightarrow> push_missing ''symbol_health_missing'' row
      | Some snapshot \<Rightarrow>
          let row = (if \<not> ys_is_tradeable snapshot then push_missing ''venue_unavailable'' row else row)
          in if ys_last_received_time_ms snapshot < sl_window_start_ms row
             then push_missing ''stale'' (row\<lparr>sl_quality_stale := sl_quality_stale row + 1\<rparr>) else row)"

definition apply_source_health_snapshot :: "slice_row \<Rightarrow> slice_row" where
  "apply_source_health_snapshot row =
     (case sl_source_health_snapshot row of
        None \<Rightarrow> push_missing ''source_health_missing'' row
      | Some snapshot \<Rightarrow>
          if hs_connection_status snapshot \<noteq> ''connected'' \<or> \<not> is_healthy_level (hs_health_level snapshot)
          then push_missing ''source_stale'' row else row)"

definition gap_applies_to_row :: "gap_alert_input \<Rightarrow> slice_row \<Rightarrow> input_range \<Rightarrow> bool" where
  "gap_applies_to_row gap row rng \<longleftrightarrow>
     gi_venue gap = sl_venue row \<and> gi_symbol_native gap = sl_symbol_native row \<and>
     gi_detected_at_ms gap \<ge> sl_window_start_ms row \<and> gi_detected_at_ms gap < sl_window_end_ms row \<and>
     gi_detected_at_ms gap \<ge> start_ms rng \<and> gi_detected_at_ms gap < end_ms rng"

definition apply_gap_alerts :: "gap_alert_input list \<Rightarrow> slice_row \<Rightarrow> input_range \<Rightarrow> slice_row" where
  "apply_gap_alerts gap_alerts row rng =
     foldl (\<lambda>row reason. push_missing reason (row\<lparr>sl_quality_gap := sl_quality_gap row + 1\<rparr>)) row
       (map (\<lambda>gap. ''gap_alert.'' @ gi_gap_type gap) (filter (\<lambda>gap. gap_applies_to_row gap row rng) gap_alerts))"

definition apply_health_and_gaps_to_row ::
    "symbol_health_input list \<Rightarrow> source_health_input list \<Rightarrow> gap_alert_input list \<Rightarrow> input_range \<Rightarrow>
     slice_row \<Rightarrow> slice_row" where
  "apply_health_and_gaps_to_row symbol_health source_health gap_alerts rng row0 =
     (let row = row0\<lparr>sl_symbol_health_snapshot := latest_symbol_health symbol_health row0\<rparr>;
          row = row\<lparr>sl_source_health_snapshot := latest_source_health source_health row\<rparr>;
          row = apply_source_health_snapshot (apply_symbol_health_snapshot row)
      in apply_gap_alerts gap_alerts row rng)"

definition apply_health_and_gaps ::
    "symbol_health_input list \<Rightarrow> source_health_input list \<Rightarrow> gap_alert_input list \<Rightarrow>
     (slice_key, slice_row) btree \<Rightarrow> input_range \<Rightarrow> (slice_key, slice_row) btree" where
  "apply_health_and_gaps symbol_health source_health gap_alerts rows rng =
     map (\<lambda>(k, row). (k, apply_health_and_gaps_to_row symbol_health source_health gap_alerts rng row)) rows"

section \<open>Finalising rows (quality/finalize.rs)\<close>

definition trade_order :: "trade_normalized \<Rightarrow> int \<times> int \<times> int \<times> string" where
  "trade_order t = (tn_exchange_timestamp_ms t, unwrap_or (tn_exchange_sequence t) i64_max,
     tn_ingest_timestamp_ms t, tn_parent_event_id t)"

definition book_order :: "book_ticker_normalized \<Rightarrow> int \<times> int \<times> int \<times> string" where
  "book_order b = (bn_exchange_timestamp_ms b, unwrap_or (bn_exchange_sequence b) i64_max,
     bn_ingest_timestamp_ms b, bn_parent_event_id b)"

definition ref_order :: "compact_event_ref \<Rightarrow> int \<times> int \<times> string" where
  "ref_order c = (cr_exchange_timestamp_ms c, cr_ingest_timestamp_ms c, cr_parent_event_id c)"

definition normalize_event_order :: "slice_row \<Rightarrow> slice_row" where
  "normalize_event_order row =
     (let trades = sort_key trade_order (sl_trade_events row);
          books = sort_key book_order (sl_book_ticker_events row);
          row = row\<lparr>sl_trade_events := trades\<rparr>;
          row = (if trades = [] then row
                 else row\<lparr>sl_last_trade_price := Some (tn_price (last trades)),
                          sl_last_trade_size := Some (tn_quantity (last trades))\<rparr>);
          row = row\<lparr>sl_book_ticker_events := books\<rparr>;
          row = (if books = [] then row
                 else row\<lparr>sl_best_bid := Some (bn_best_bid (last books)),
                          sl_best_ask := Some (bn_best_ask (last books))\<rparr>)
      in row\<lparr>sl_depth_events := sort_key ref_order (sl_depth_events row),
             sl_ticker_events := sort_key ref_order (sl_ticker_events row)\<rparr>)"

definition silent :: "slice_row \<Rightarrow> bool" where
  "silent row \<longleftrightarrow> sl_trade_count row = 0 \<and> sl_book_ticker_count row = 0 \<and> sl_depth_event_count row = 0 \<and>
     sl_ticker_events row = []"

definition completeness :: "slice_row \<Rightarrow> string" where
  "completeness row =
     (if ''venue_unavailable'' \<in> set (sl_missing_reasons row) then ''incomplete''
      else if silent row then ''incomplete''
      else if sl_quality_invalid row > 0 \<and> sl_quality_ok row = 0 then ''incomplete''
      else if sl_missing_reasons row \<noteq> [] \<or> sl_quality_delayed row > 0 \<or> sl_quality_stale row > 0 \<or>
              sl_quality_gap row > 0 \<or> sl_quality_invalid row > 0 then ''partial''
      else if sl_source_role row = ''reference'' then ''reference_only''
      else ''complete'')"

definition sort_dedup :: "string list \<Rightarrow> string list" where
  "sort_dedup xs = remdups_adj (sort xs)"

definition add_silence_reason :: "slice_row \<Rightarrow> slice_row" where
  "add_silence_reason row =
     (if silent row
      then (if sl_quality_invalid row > 0 then push_missing ''all_invalid'' row
            else push_missing ''trade_silence'' row)
      else row)"

definition add_mid_price :: "slice_row \<Rightarrow> slice_row" where
  "add_mid_price row =
     (case (sl_best_bid row, sl_best_ask row) of
        (Some bid, Some ask) \<Rightarrow>
          let mid = f64_div (f64_add bid ask) (Fin 2)
          in row\<lparr>sl_mid_price := Some mid,
                 sl_spread_bps := (if f64_lt (Fin 0) mid
                                   then Some (f64_mul (f64_div (f64_sub ask bid) mid) (Fin 10000)) else None)\<rparr>
      | _ \<Rightarrow> row)"

definition finalize_row :: "slice_row \<Rightarrow> slice_row" where
  "finalize_row row0 =
     (let row = add_silence_reason (normalize_event_order row0);
          row = (if sl_best_bid row = None \<and> sl_best_ask row = None
                 then push_missing ''depth_top_missing'' row else row);
          row = row\<lparr>sl_parent_event_ids := sort_dedup (sl_parent_event_ids row),
                    sl_parent_run_ids := sort_dedup (sl_parent_run_ids row),
                    sl_missing_reasons := sort_dedup (sl_missing_reasons row)\<rparr>;
          row = add_mid_price row
      in row\<lparr>sl_slice_completeness := completeness row\<rparr>)"

definition finalize_slices :: "slice_row list \<Rightarrow> slice_row list" where
  "finalize_slices rows = map finalize_row rows"

section \<open>The build (build.rs, finish.rs)\<close>

record build_result =
  br_slices :: "slice_row list"
  br_projection_slices :: "slice_row list"
  br_projection_derivative_metrics :: "derivative_metric_observation list"
  br_input_object_keys :: "string list"
  br_run_mode :: string
  br_fallback_alert :: bool
  br_input_local_object_count :: nat
  br_input_s3_object_count :: nat
  br_input_record_count :: nat
  br_duplicate_event_count :: nat
  br_invalid_event_count :: nat
  br_payload_hash_mismatch_count :: nat
  br_input_schema_versions :: "string list"
  br_status :: string
  br_failure_reason :: "string option"

definition build_status :: "build_stats \<Rightarrow> slice_row list \<Rightarrow> string \<times> string option" where
  "build_status stats slices =
     (if bs_payload_hash_mismatch_count stats > 0 then (''blocked'', Some ''payload_hash_mismatch'')
      else if slices = [] then (''empty'', Some ''no_l1_slices'')
      else (''success'', None))"

definition finish :: "build_accumulator \<Rightarrow> build_result" where
  "finish a =
     (let health = apply_health_and_gaps (ba_symbol_health a) (ba_source_health a) (ba_gap_alerts a);
          slices = finalize_slices (bt_values (health (ba_rows a) (ba_input_range a)));
          projection_slices = finalize_slices (bt_values (health (ba_projection_rows a) (ba_projection_range a)));
          (status, failure_reason) = build_status (ba_stats a) slices
      in \<lparr>br_slices = slices, br_projection_slices = projection_slices,
          br_projection_derivative_metrics = ba_projection_derivative_metrics a,
          br_input_object_keys = bm_input_object_keys (ba_metadata a), br_run_mode = bm_run_mode (ba_metadata a),
          br_fallback_alert = bm_fallback_alert (ba_metadata a),
          br_input_local_object_count = bm_input_local_object_count (ba_metadata a),
          br_input_s3_object_count = bm_input_s3_object_count (ba_metadata a),
          br_input_record_count = bs_input_record_count (ba_stats a),
          br_duplicate_event_count = bs_duplicate_event_count (ba_stats a),
          br_invalid_event_count = bs_invalid_event_count (ba_stats a),
          br_payload_hash_mismatch_count = bs_payload_hash_mismatch_count (ba_stats a),
          br_input_schema_versions = sorted_list_of_set (ba_schema_versions a),
          br_status = status, br_failure_reason = failure_reason\<rparr>)"

definition ingest_all ::
    "l0_params \<Rightarrow> normalize_args \<Rightarrow> normalize_inputs \<Rightarrow> build_accumulator \<Rightarrow> build_accumulator" where
  "ingest_all params args inputs a0 =
     (let a = foldl (\<lambda>a e. ingest_raw_event params args e a) a0 (ni_raw_events inputs);
          a = foldl (\<lambda>a row. ingest_symbol_health params row a) a (ni_symbol_health inputs);
          a = foldl (\<lambda>a row. ingest_source_health params row a) a (ni_source_health inputs)
      in foldl (\<lambda>a row. ingest_gap_alert params row a) a (ni_gap_alerts inputs))"

definition build_slices ::
    "l0_params \<Rightarrow> normalize_args \<Rightarrow> input_range \<Rightarrow> input_range \<Rightarrow> normalize_inputs \<Rightarrow> build_result" where
  "build_slices params args input_range scan_range inputs =
     (let metadata = \<lparr>bm_run_mode = ni_run_mode inputs, bm_fallback_alert = ni_fallback_alert inputs,
            bm_input_local_object_count = ni_input_local_object_count inputs,
            bm_input_s3_object_count = ni_input_s3_object_count inputs,
            bm_input_object_keys = ni_input_object_keys inputs\<rparr>
      in finish (ingest_all params args inputs (accumulator_new args input_range scan_range metadata)))"

end
