(* ===== verification/Slice_Rows.thy ===== *)
theory Slice_Rows
  imports Slices
begin

text \<open>
  Invariants of the slice builder: a row accounts exactly for the events it holds, all of them lie in its
  window, windows are seeded for every identity, and rows only grow.
\<close>

lemma slice_rank_eq [simp]: "slice_rank k = slice_rank k' \<longleftrightarrow> k = k'"
  by (auto simp: slice_rank_def)

lemma identity_rank_eq [simp]: "identity_rank k = identity_rank k' \<longleftrightarrow> k = k'"
  by (auto simp: identity_rank_def)

section \<open>Rows account for their events\<close>

definition in_window :: "slice_row \<Rightarrow> int \<Rightarrow> bool" where
  "in_window r t \<longleftrightarrow> sl_window_start_ms r \<le> t \<and> t < sl_window_start_ms r + sl_window_ms r"

definition row_counts_ok :: "slice_row \<Rightarrow> bool" where
  "row_counts_ok r \<longleftrightarrow>
     sl_trade_count r = int (length (sl_trade_events r)) \<and>
     sl_book_ticker_count r = int (length (sl_book_ticker_events r)) \<and>
     sl_depth_event_count r = int (length (sl_depth_events r)) \<and>
     sl_quality_ok r + sl_quality_delayed r = sl_trade_count r + sl_book_ticker_count r +
       int (length (sl_ticker_events r)) +
       int (length (filter (\<lambda>c. cr_event_type c = ''depth_delta'') (sl_depth_events r))) \<and>
     0 \<le> sl_quality_ok r \<and> 0 \<le> sl_quality_delayed r \<and> 0 \<le> sl_quality_stale r \<and> 0 \<le> sl_quality_gap r \<and>
     0 \<le> sl_quality_invalid r"

definition row_events_ok :: "slice_row \<Rightarrow> bool" where
  "row_events_ok r \<longleftrightarrow>
     (\<forall>t \<in> set (sl_trade_events r). in_window r (tn_exchange_timestamp_ms t) \<and> \<not> f64_le (tn_price t) (Fin 0) \<and>
        \<not> f64_le (tn_quantity t) (Fin 0)) \<and>
     (\<forall>b \<in> set (sl_book_ticker_events r). in_window r (bn_exchange_timestamp_ms b) \<and>
        \<not> f64_lt (bn_best_ask b) (bn_best_bid b)) \<and>
     (\<forall>c \<in> set (sl_depth_events r). in_window r (cr_exchange_timestamp_ms c)) \<and>
     (\<forall>c \<in> set (sl_ticker_events r). in_window r (cr_exchange_timestamp_ms c))"

definition row_key_ok :: "normalize_args \<Rightarrow> slice_key \<Rightarrow> slice_row \<Rightarrow> bool" where
  "row_key_ok args k r \<longleftrightarrow> sl_venue r = sk_venue k \<and> sl_symbol_canonical r = sk_symbol_canonical k \<and>
     sl_window_start_ms r = sk_window_start_ms k \<and> sl_window_ms r = na_window_ms args \<and>
     sl_window_end_ms r = i64_saturating_add (sk_window_start_ms k) (na_window_ms args)"

definition row_ok :: "normalize_args \<Rightarrow> slice_key \<Rightarrow> slice_row \<Rightarrow> bool" where
  "row_ok args k r \<longleftrightarrow> row_key_ok args k r \<and> row_counts_ok r \<and> row_events_ok r"

lemmas row_ok_defs = row_key_ok_def row_counts_ok_def row_events_ok_def in_window_def

lemma empty_slice_ok:
  "id_venue i = sk_venue k \<Longrightarrow> id_symbol_canonical i = sk_symbol_canonical k \<Longrightarrow> ws = sk_window_start_ms k \<Longrightarrow>
     row_ok args k (empty_slice params args i ws)"
  by (simp add: row_ok_def row_ok_defs empty_slice_def)

lemmas event_defs = push_parent_def mark_event_quality_def mark_invalid_def push_missing_def compact_ref_def

lemma apply_trade_ok:
  assumes "row_ok args k r" and "in_window r (re_exchange_timestamp_ms e)"
  shows "row_ok args k (fst (apply_trade_event params args e (r, st)))"
proof (cases "parse_trade params e")
  case None
  then show ?thesis using assms by (auto simp: apply_trade_event_def row_ok_def row_ok_defs event_defs)
next
  case (Some t)
  from parse_trade_from [OF Some] show ?thesis using assms Some
    by (auto simp: apply_trade_event_def row_ok_def row_ok_defs event_defs trade_from_def)
qed

lemma apply_book_ok:
  assumes "row_ok args k r" and "in_window r (re_exchange_timestamp_ms e)"
    and "re_event_type e = ''book_ticker'' \<or> re_event_type e = ''depth_snapshot''"
  shows "row_ok args k (fst (apply_book_event params args e (r, st)))"
proof (cases "parse_book_ticker params e")
  case None
  then show ?thesis using assms by (auto simp: apply_book_event_def row_ok_def row_ok_defs event_defs)
next
  case (Some b)
  from parse_book_from [OF Some] show ?thesis using assms Some
    by (auto simp: apply_book_event_def row_ok_def row_ok_defs event_defs book_from_def)
qed

lemma apply_depth_ok:
  assumes "row_ok args k r" and "in_window r (re_exchange_timestamp_ms e)" and "re_event_type e = ''depth_delta''"
  shows "row_ok args k (apply_compact_depth_event args e r)"
  using assms by (auto simp: apply_compact_depth_event_def row_ok_def row_ok_defs event_defs)

lemma apply_ticker_ok:
  assumes "row_ok args k r" and "in_window r (re_exchange_timestamp_ms e)"
  shows "row_ok args k (apply_ticker_event args e r)"
  using assms by (auto simp: apply_ticker_event_def row_ok_def row_ok_defs event_defs)

lemma mark_invalid_ok: "row_ok args k r \<Longrightarrow> row_ok args k (fst (mark_invalid reason (r, st)))"
  by (auto simp: row_ok_def row_ok_defs event_defs)

lemma apply_event_to_row_ok:
  assumes "row_ok args k r" and "in_window r (re_exchange_timestamp_ms e)"
  shows "row_ok args k (fst (apply_event_to_row params args e (r, st)))"
  unfolding apply_event_to_row_def
  using assms by (simp add: apply_trade_ok apply_book_ok apply_depth_ok apply_ticker_ok mark_invalid_ok)

section \<open>The map of rows\<close>

definition rows_ok :: "normalize_args \<Rightarrow> (slice_key, slice_row) btree \<Rightarrow> bool" where
  "rows_ok args rows \<longleftrightarrow> bt_wf slice_rank (\<lambda>_. True) rows \<and> (\<forall>(k, r) \<in> set rows. row_ok args k r)"

lemma bt_insert_entries:
  "(k', v') \<in> set (bt_insert slice_cmp k v m) \<Longrightarrow> (k', v') \<in> set m \<or> k' = k \<and> v' = v"
  by (induction m) (auto simp: cmp_by_def split: if_splits)

lemma bt_get_entry: "rows_ok args rows \<Longrightarrow> bt_get slice_cmp k rows = Some r \<Longrightarrow> (k, r) \<in> set rows"
  using ranked.get_Some_mem [of slice_rank rows k r] by (auto simp: rows_ok_def)

lemma rows_ok_insert: "rows_ok args rows \<Longrightarrow> row_ok args k r \<Longrightarrow> rows_ok args (bt_insert slice_cmp k r rows)"
  by (auto simp: rows_ok_def ranked.wf_insert dest!: bt_insert_entries)

lemma get_insert_row:
  "rows_ok args rows \<Longrightarrow> bt_get slice_cmp k' (bt_insert slice_cmp k r rows) =
     (if k' = k then Some r else bt_get slice_cmp k' rows)"
  by (simp add: rows_ok_def ranked.get_insert)

lemma rows_ok_or_insert: "rows_ok args rows \<Longrightarrow> row_ok args k r \<Longrightarrow> rows_ok args (or_insert k r rows)"
  by (simp add: or_insert_def rows_ok_insert)

lemma seed_rows_ok:
  assumes "rows_ok args rows"
  shows "rows_ok args (seed_identity_slices params args rng i rows)"
proof -
  have "rows_ok args (foldl (\<lambda>m ws. or_insert \<lparr>sk_venue = id_venue i, sk_symbol_canonical = id_symbol_canonical i,
      sk_window_start_ms = ws\<rparr> (empty_slice params args i ws) m) rows wss)" for wss
    using assms by (induction wss arbitrary: rows) (simp_all add: rows_ok_or_insert empty_slice_ok)
  then show ?thesis by (simp add: seed_identity_slices_def)
qed

lemma floor_window:
  assumes "0 < (w :: int)"
  shows "t div w * w \<le> t" "t < t div w * w + w"
  using assms div_mult_mod_eq [of t w] pos_mod_sign [OF assms, of t] pos_mod_bound [OF assms, of t] by linarith+

lemma event_in_window:
  "0 < na_window_ms args \<Longrightarrow> row_ok args (event_slice_key args e) r \<Longrightarrow> in_window r (re_exchange_timestamp_ms e)"
  using floor_window [of "na_window_ms args" "re_exchange_timestamp_ms e"]
  by (simp add: row_ok_def row_key_ok_def in_window_def event_slice_key_def)

lemma apply_event_rows_ok:
  assumes "0 < na_window_ms args" and "rows_ok args rows"
  shows "rows_ok args (fst (apply_event params args rng e (rows, st)))"
proof (cases "bt_get slice_cmp (event_slice_key args e) rows")
  case None
  then show ?thesis using assms by (simp add: apply_event_def Let_def)
next
  case (Some r)
  from bt_get_entry [OF assms(2) Some] assms(2) have r: "row_ok args (event_slice_key args e) r"
    by (auto simp: rows_ok_def)
  from apply_event_to_row_ok [OF r event_in_window [OF assms(1) r]]
  have "row_ok args (event_slice_key args e) (fst (apply_event_to_row params args e (r, st)))" .
  then show ?thesis using assms(2) Some
    by (auto simp: apply_event_def Let_def rows_ok_insert split: prod.splits)
qed

section \<open>Rows only grow\<close>

definition parents :: "slice_row \<Rightarrow> string set" where
  "parents r = set (sl_parent_event_ids r)"

definition grows :: "(slice_key, slice_row) btree \<Rightarrow> (slice_key, slice_row) btree \<Rightarrow> bool" where
  "grows m m' \<longleftrightarrow> (\<forall>k r. bt_get slice_cmp k m = Some r \<longrightarrow>
     (\<exists>r'. bt_get slice_cmp k m' = Some r' \<and> parents r \<subseteq> parents r'))"

lemma grows_refl [simp]: "grows m m"
  by (auto simp: grows_def)

lemma grows_trans [trans]: "grows a b \<Longrightarrow> grows b c \<Longrightarrow> grows a c"
  unfolding grows_def by (meson subset_trans)

lemma grows_get: "grows m m' \<Longrightarrow> bt_get slice_cmp k m = Some r \<Longrightarrow> \<exists>r'. bt_get slice_cmp k m' = Some r' \<and> parents r \<subseteq> parents r'"
  by (simp add: grows_def)

lemma grows_contains: "grows m m' \<Longrightarrow> bt_contains_key slice_cmp k m \<Longrightarrow> bt_contains_key slice_cmp k m'"
  by (fastforce simp: bt_contains_key_def dest: grows_get)

lemma or_insert_grows: "rows_ok args rows \<Longrightarrow> grows rows (or_insert k r rows)"
  by (auto simp: grows_def or_insert_def get_insert_row bt_contains_key_def)

lemma or_insert_contains: "rows_ok args rows \<Longrightarrow> bt_contains_key slice_cmp k (or_insert k r rows)"
  by (auto simp: or_insert_def get_insert_row bt_contains_key_def)

lemma seed_fold:
  fixes params args i
  defines "f \<equiv> \<lambda>m ws. or_insert \<lparr>sk_venue = id_venue i, sk_symbol_canonical = id_symbol_canonical i,
      sk_window_start_ms = ws\<rparr> (empty_slice params args i ws) m"
  assumes "rows_ok args rows"
  shows "grows rows (foldl f rows wss) \<and> (ws \<in> set wss \<longrightarrow>
    bt_contains_key slice_cmp \<lparr>sk_venue = id_venue i, sk_symbol_canonical = id_symbol_canonical i,
      sk_window_start_ms = ws\<rparr> (foldl f rows wss))"
  using assms(2)
proof (induction wss arbitrary: rows)
  case (Cons w wss)
  have ok: "rows_ok args (f rows w)" unfolding f_def
    by (rule rows_ok_or_insert [OF Cons.prems]) (simp add: empty_slice_ok)
  have g: "grows rows (f rows w)" unfolding f_def by (rule or_insert_grows [OF Cons.prems])
  have c: "bt_contains_key slice_cmp \<lparr>sk_venue = id_venue i, sk_symbol_canonical = id_symbol_canonical i,
      sk_window_start_ms = w\<rparr> (f rows w)" unfolding f_def by (rule or_insert_contains [OF Cons.prems])
  from Cons.IH [OF ok] g c show ?case by (auto intro: grows_trans grows_contains)
qed simp

lemma seed_grows: "rows_ok args rows \<Longrightarrow> grows rows (seed_identity_slices params args rng i rows)"
  unfolding seed_identity_slices_def using seed_fold by blast

lemma seed_contains:
  "rows_ok args rows \<Longrightarrow> ws \<in> set (seed_windows (na_window_ms args) (end_ms rng) (start_ms rng)) \<Longrightarrow>
     bt_contains_key slice_cmp \<lparr>sk_venue = id_venue i, sk_symbol_canonical = id_symbol_canonical i,
       sk_window_start_ms = ws\<rparr> (seed_identity_slices params args rng i rows)"
  unfolding seed_identity_slices_def using seed_fold by blast

lemma apply_event_to_row_parents: "parents r \<subseteq> parents (fst (apply_event_to_row params args e (r, st)))"
  by (auto simp: apply_event_to_row_def apply_trade_event_def apply_book_event_def apply_compact_depth_event_def
      apply_ticker_event_def event_defs parents_def split: option.splits)

lemma apply_event_grows:
  assumes "rows_ok args rows"
  shows "grows rows (fst (apply_event params args rng e (rows, st)))"
proof (cases "bt_get slice_cmp (event_slice_key args e) rows")
  case None
  then show ?thesis by (simp add: apply_event_def Let_def)
next
  case (Some r)
  then show ?thesis using apply_event_to_row_parents [of r params args e st] assms
    by (auto simp: apply_event_def Let_def grows_def get_insert_row split: prod.splits)
qed

text \<open>An event leaves a trace in its row unless its payload does not parse or its type is unknown.\<close>

definition recordable :: "l0_params \<Rightarrow> raw_input_event \<Rightarrow> bool" where
  "recordable params e \<longleftrightarrow>
     (if re_event_type e = ''trade'' then parse_trade params e \<noteq> None
      else if re_event_type e = ''book_ticker'' then parse_book_ticker params e \<noteq> None
      else re_event_type e \<in> {''depth_snapshot'', ''depth_delta'', ''ticker''})"

lemma apply_event_to_row_records:
  "recordable params e \<Longrightarrow> re_event_id e \<in> parents (fst (apply_event_to_row params args e (r, st)))"
  by (auto simp: apply_event_to_row_def apply_trade_event_def apply_book_event_def apply_compact_depth_event_def
      apply_ticker_event_def event_defs parents_def recordable_def split: option.splits if_splits)

lemma apply_event_records:
  assumes "rows_ok args rows" and "recordable params e" and "in_range rng (re_exchange_timestamp_ms e)"
    and "bt_contains_key slice_cmp (event_slice_key args e) rows"
  shows "\<exists>r. bt_get slice_cmp (event_slice_key args e) (fst (apply_event params args rng e (rows, st))) = Some r \<and>
    re_event_id e \<in> parents r"
proof -
  from assms(4) obtain r where r: "bt_get slice_cmp (event_slice_key args e) rows = Some r"
    by (auto simp: bt_contains_key_def)
  obtain r' st' where a: "apply_event_to_row params args e (r, st) = (r', st')" by fastforce
  from apply_event_to_row_records [OF assms(2), of args r st] a have "re_event_id e \<in> parents r'" by simp
  then show ?thesis using assms(1,3) r a by (simp add: apply_event_def Let_def in_range_def get_insert_row)
qed

text \<open>With an aligned start the seeded windows are those the events are assigned to.\<close>

lemma seed_windows_cover:
  assumes "0 < w" and "e \<le> i64_max" and "i64_min \<le> s" and "s mod w = 0" and "s \<le> t" and "t < e"
  shows "t div w * w \<in> set (seed_windows w e s)"
  using assms
proof (induction w e s rule: seed_windows.induct)
  case (1 w e s)
  let ?t = "t div w * w"
  from "1.prems" have f: "?t \<le> t" "t < ?t + w" by (simp_all add: floor_window)
  from "1.prems" obtain q where q: "s = q * w" by (metis mod_0_imp_dvd dvd_def mult.commute)
  have "q \<le> t div w" using "1.prems"(1,5) q by (metis div_mult_self_is_m zdiv_mono1 less_numeral_extra(3) nonzero_mult_div_cancel_right)
  then have qt: "q = t div w \<or> s + w \<le> ?t"
    using "1.prems"(1) q by (metis add.commute add1_zle_eq le_less mult_right_mono order_less_imp_le ring_class.ring_distribs(2) mult_1)
  have cond: "s < e \<and> 0 < w \<and> s < i64_max" using "1.prems" by simp
  show ?case
  proof (cases "q = t div w")
    case True
    then show ?thesis using q cond by (subst seed_windows.simps) simp
  next
    case False
    with qt f have le: "s + w \<le> t" by simp
    have sat: "i64_saturating_add s w = s + w"
      using "1.prems" le by (simp add: i64_saturating_add_def in_i64_def)
    have "?t \<in> set (seed_windows w e (s + w))"
      using "1.IH" [OF cond] "1.prems" le by (simp add: sat)
    then show ?thesis using cond sat by (subst seed_windows.simps) simp
  qed
qed

text \<open>With a start off the grid no seeded window is one an event is assigned to.\<close>

lemma misaligned_windows_missed:
  assumes "s mod w \<noteq> 0" and "e \<le> i64_max" and "i64_min \<le> s"
  shows "t div w * w \<notin> set (seed_windows w e s)"
proof -
  have "ws \<in> set (seed_windows w e s) \<Longrightarrow> e \<le> i64_max \<Longrightarrow> i64_min \<le> s \<Longrightarrow> ws mod w = s mod w" for ws
  proof (induction w e s rule: seed_windows.induct)
    case (1 w e s)
    show ?case
    proof (cases "s < e \<and> 0 < w \<and> s < i64_max")
      case c: True
      consider "ws = s" | "ws \<in> set (seed_windows w e (i64_saturating_add s w))"
        using "1.prems"(1) c by (subst (asm) seed_windows.simps) auto
      then show ?thesis
      proof cases
        case 2
        then have lt: "i64_saturating_add s w < e" using seed_windows.simps [of w e "i64_saturating_add s w"]
          by (auto split: if_splits)
        have "s + w \<le> i64_max"
          using lt "1.prems"(2,3) c by (auto simp: i64_saturating_add_def sat_i64_def split: if_splits)
        then have "i64_saturating_add s w = s + w"
          using "1.prems"(3) c by (simp add: i64_saturating_add_def in_i64_def)
        with "1.IH" [OF c 2 "1.prems"(2)] "1.prems"(3) c show ?thesis by simp
      qed simp
    next
      case False
      with "1.prems"(1) show ?thesis by (subst (asm) seed_windows.simps) simp
    qed
  qed
  with assms show ?thesis by force
qed

section \<open>The accumulator\<close>

definition seeded :: "normalize_args \<Rightarrow> input_range \<Rightarrow> (identity_key, identity) btree \<Rightarrow> (slice_key, slice_row) btree \<Rightarrow> bool"
  where
  "seeded args rng ids rows \<longleftrightarrow>
     (\<forall>ik \<in> fst ` set ids. \<forall>ws \<in> set (seed_windows (na_window_ms args) (end_ms rng) (start_ms rng)).
        bt_contains_key slice_cmp \<lparr>sk_venue = ik_venue ik, sk_symbol_canonical = ik_symbol_canonical ik,
          sk_window_start_ms = ws\<rparr> rows)"

definition acc_ok :: "normalize_args \<Rightarrow> build_accumulator \<Rightarrow> bool" where
  "acc_ok args a \<longleftrightarrow> rows_ok args (ba_rows a) \<and> rows_ok args (ba_projection_rows a) \<and>
     bt_wf identity_rank (\<lambda>_. True) (ba_input_identities a) \<and>
     seeded args (ba_input_range a) (ba_input_identities a) (ba_rows a)"

lemma seeded_grows: "seeded args rng ids rows \<Longrightarrow> grows rows rows' \<Longrightarrow> seeded args rng ids rows'"
  by (auto simp: seeded_def intro: grows_contains)

lemma identity_insert_entries:
  "fst ` set (bt_insert identity_cmp k v m) \<subseteq> insert k (fst ` set m)"
  by (rule ranked.keys_insert)

lemma identity_insert_mem: "k \<in> fst ` set (bt_insert identity_cmp k v m)"
  by (induction m) (force simp: cmp_by_def)+

text \<open>Steps that leave the rows alone.\<close>

lemma count_facts [simp]:
  "ba_rows (count_input v a) = ba_rows a" "ba_rows (count_invalid a) = ba_rows a" "ba_rows (count_mismatch a) = ba_rows a"
  "ba_input_range (count_input v a) = ba_input_range a" "ba_input_range (count_invalid a) = ba_input_range a"
  "ba_input_range (count_mismatch a) = ba_input_range a"
  "ba_scan_range (count_input v a) = ba_scan_range a"
  "acc_ok args (count_input v a) = acc_ok args a" "acc_ok args (count_invalid a) = acc_ok args a"
  "acc_ok args (count_mismatch a) = acc_ok args a"
  by (simp_all add: count_input_def count_invalid_def count_mismatch_def acc_ok_def)

lemma ensure_input_identity_step:
  fixes params e
  assumes "acc_ok args a"
  defines "a' \<equiv> ensure_input_identity params args e a"
  shows "acc_ok args a'" and "grows (ba_rows a) (ba_rows a')" and "ba_input_range a' = ba_input_range a"
    and "identity_key_from_event e \<in> fst ` set (ba_input_identities a')"
proof -
  let ?k = "identity_key_from_event e" and ?i = "identity_from_event e"
  have wf: "bt_wf identity_rank (\<lambda>_. True) (ba_input_identities a)"
    and ok: "rows_ok args (ba_rows a)" and sd: "seeded args (ba_input_range a) (ba_input_identities a) (ba_rows a)"
    using assms(1) by (simp_all add: acc_ok_def)
  show r: "ba_input_range a' = ba_input_range a"
    by (simp add: a'_def ensure_input_identity_def Let_def)
  show g: "grows (ba_rows a) (ba_rows a')"
    using seed_grows [OF ok] by (simp add: a'_def ensure_input_identity_def Let_def)
  show k: "?k \<in> fst ` set (ba_input_identities a')"
  proof (cases "bt_contains_key identity_cmp ?k (ba_input_identities a)")
    case True
    then show ?thesis using ranked.get_None_rank [OF wf, of ?k]
      by (auto simp: a'_def ensure_input_identity_def bt_contains_key_def image_iff)
  next
    case False
    then show ?thesis using identity_insert_mem by (simp add: a'_def ensure_input_identity_def Let_def)
  qed
  have "seeded args (ba_input_range a) (ba_input_identities a') (ba_rows a')"
  proof (cases "bt_contains_key identity_cmp ?k (ba_input_identities a)")
    case True
    then show ?thesis using sd by (simp add: a'_def ensure_input_identity_def)
  next
    case False
    have "seeded args (ba_input_range a) (ba_input_identities a) (ba_rows a')" by (rule seeded_grows [OF sd g])
    moreover have "bt_contains_key slice_cmp \<lparr>sk_venue = ik_venue ?k, sk_symbol_canonical = ik_symbol_canonical ?k,
        sk_window_start_ms = ws\<rparr> (ba_rows a')"
      if "ws \<in> set (seed_windows (na_window_ms args) (end_ms (ba_input_range a)) (start_ms (ba_input_range a)))" for ws
      using seed_contains [OF ok that, of ?i params] False
      by (simp add: a'_def ensure_input_identity_def identity_key_from_event_def identity_from_event_def Let_def)
    moreover have "fst ` set (ba_input_identities a') \<subseteq> insert ?k (fst ` set (ba_input_identities a))"
      using False identity_insert_entries by (simp add: a'_def ensure_input_identity_def Let_def)
    ultimately show ?thesis unfolding seeded_def
      by (metis (no_types, lifting) insertE subsetD)
  qed
  moreover have "rows_ok args (ba_rows a')"
    using ok by (simp add: a'_def ensure_input_identity_def Let_def seed_rows_ok)
  moreover have "ba_projection_rows a' = ba_projection_rows a"
    by (simp add: a'_def ensure_input_identity_def Let_def)
  moreover have "bt_wf identity_rank (\<lambda>_. True) (ba_input_identities a')"
    using wf by (simp add: a'_def ensure_input_identity_def Let_def ranked.wf_insert)
  ultimately show "acc_ok args a'" using assms(1) r by (simp add: acc_ok_def)
qed

lemma projection_step:
  assumes "0 < na_window_ms args" and "acc_ok args a"
  shows "acc_ok args (apply_projection params args e (ensure_projection_identity params args e a))"
    and "ba_rows (apply_projection params args e (ensure_projection_identity params args e a)) = ba_rows a"
    and "ba_input_range (apply_projection params args e (ensure_projection_identity params args e a)) = ba_input_range a"
proof -
  let ?a = "ensure_projection_identity params args e a"
  have f: "ba_rows ?a = ba_rows a" "ba_input_range ?a = ba_input_range a"
    "ba_input_identities ?a = ba_input_identities a" "rows_ok args (ba_projection_rows ?a)"
    using assms(2) by (auto simp: ensure_projection_identity_def Let_def acc_ok_def seed_rows_ok)
  from apply_event_rows_ok [OF assms(1) f(4)] f assms(2)
  show "acc_ok args (apply_projection params args e ?a)" "ba_rows (apply_projection params args e ?a) = ba_rows a"
    "ba_input_range (apply_projection params args e ?a) = ba_input_range a"
    by (auto simp: apply_projection_def acc_ok_def split: prod.splits) (metis fst_conv)
qed

lemma apply_input_step:
  assumes "0 < na_window_ms args" and "acc_ok args a"
  shows "acc_ok args (apply_input params args e a)" and "grows (ba_rows a) (ba_rows (apply_input params args e a))"
    and "ba_input_range (apply_input params args e a) = ba_input_range a"
    and "ba_rows (apply_input params args e a) =
      fst (apply_event params args (ba_input_range a) e (ba_rows a, ba_stats a))"
proof -
  obtain rows st where x: "apply_event params args (ba_input_range a) e (ba_rows a, ba_stats a) = (rows, st)"
    by fastforce
  have ok: "rows_ok args (ba_rows a)" using assms(2) by (simp add: acc_ok_def)
  from apply_event_rows_ok [OF assms(1) ok, of params "ba_input_range a" e "ba_stats a"] x
  have r: "rows_ok args rows" by simp
  from apply_event_grows [OF ok, of params "ba_input_range a" e "ba_stats a"] x have g: "grows (ba_rows a) rows" by simp
  show "acc_ok args (apply_input params args e a)" "grows (ba_rows a) (ba_rows (apply_input params args e a))"
    "ba_input_range (apply_input params args e a) = ba_input_range a"
    "ba_rows (apply_input params args e a) =
      fst (apply_event params args (ba_input_range a) e (ba_rows a, ba_stats a))"
    using x r g assms(2) by (auto simp: apply_input_def acc_ok_def intro: seeded_grows)
qed

lemma spot_event_step:
  assumes "0 < na_window_ms args" and "acc_ok args a"
  shows "acc_ok args (ingest_spot_event params args e a) \<and>
    grows (ba_rows a) (ba_rows (ingest_spot_event params args e a)) \<and>
    ba_input_range (ingest_spot_event params args e a) = ba_input_range a"
proof -
  let ?a1 = "if in_range (ba_projection_range a) (re_exchange_timestamp_ms e)
    then apply_projection params args e (ensure_projection_identity params args e a) else a"
  have a1: "acc_ok args ?a1" "ba_rows ?a1 = ba_rows a" "ba_input_range ?a1 = ba_input_range a"
    using projection_step [OF assms] assms(2) by auto
  note i = ensure_input_identity_step [OF a1(1), where params = params and e = e]
  note s = apply_input_step [OF assms(1) i(1), of params e]
  show ?thesis unfolding ingest_spot_event_def Let_def
    using a1 i s grows_trans [OF i(2) s(2)] by (auto split del: if_split split: if_split)
qed

text \<open>The admission tests of a raw event, up to duplicates.\<close>

definition admissible :: "l0_params \<Rightarrow> normalize_args \<Rightarrow> input_range \<Rightarrow> raw_input_event \<Rightarrow> bool" where
  "admissible params args scan_range e \<longleftrightarrow> re_schema_version e = ''raw_market_event_v2'' \<and>
     payload_hash params (re_payload_json e) = re_payload_sha256 e \<and> 0 < re_exchange_timestamp_ms e \<and>
     re_exchange_timestamp_ms e < i64_saturating_add (end_ms scan_range) (na_clock_skew_margin_ms args)"

lemma ingest_raw_event_cases:
  obtains (rejected) "ba_rows (ingest_raw_event params args e a) = ba_rows a"
      "ba_input_range (ingest_raw_event params args e a) = ba_input_range a"
      "acc_ok args (ingest_raw_event params args e a) = acc_ok args a"
      "\<not> (admissible params args (ba_scan_range a) e \<and> re_event_id e \<notin> ba_seen_event_ids a \<and>
          \<not> is_derivative_market_event e)"
  | (spot) b where "ingest_raw_event params args e a = ingest_spot_event params args e b"
      "ba_rows b = ba_rows a" "ba_input_range b = ba_input_range a" "acc_ok args b = acc_ok args a"
proof (cases "admissible params args (ba_scan_range a) e \<and> re_event_id e \<notin> ba_seen_event_ids a \<and>
    \<not> is_derivative_market_event e")
  case True
  let ?b = "(count_input (re_schema_version e) a)\<lparr>ba_seen_event_ids :=
    insert (re_event_id e) (ba_seen_event_ids (count_input (re_schema_version e) a))\<rparr>"
  have "ba_seen_event_ids (count_input (re_schema_version e) a) = ba_seen_event_ids a" by (simp add: count_input_def)
  with True have "ingest_raw_event params args e a = ingest_spot_event params args e ?b"
    by (simp add: ingest_raw_event_def admissible_def Let_def not_le)
  then show ?thesis by (rule spot) (simp_all add: count_input_def acc_ok_def)
next
  case False
  show ?thesis
  proof (rule rejected [OF _ _ _ False])
    show "ba_rows (ingest_raw_event params args e a) = ba_rows a"
      "ba_input_range (ingest_raw_event params args e a) = ba_input_range a"
      "acc_ok args (ingest_raw_event params args e a) = acc_ok args a"
      using False
      by (auto simp: ingest_raw_event_def ingest_derivative_event_def admissible_def count_input_def
          count_invalid_def count_mismatch_def acc_ok_def Let_def not_le split: option.splits)
  qed
qed

lemma ingest_raw_step:
  assumes "0 < na_window_ms args" and "acc_ok args a"
  shows "acc_ok args (ingest_raw_event params args e a) \<and>
    grows (ba_rows a) (ba_rows (ingest_raw_event params args e a)) \<and>
    ba_input_range (ingest_raw_event params args e a) = ba_input_range a"
proof (cases rule: ingest_raw_event_cases [of params args e a])
  case rejected
  then show ?thesis using assms(2) by simp
next
  case (spot b)
  with spot_event_step [OF assms(1), of b params e] assms(2) show ?thesis by simp
qed

lemma ingest_raw_fold:
  fixes params
  assumes "0 < na_window_ms args" and "acc_ok args a"
  defines "f \<equiv> \<lambda>a e. ingest_raw_event params args e a"
  shows "acc_ok args (foldl f a es) \<and> grows (ba_rows a) (ba_rows (foldl f a es)) \<and>
    ba_input_range (foldl f a es) = ba_input_range a"
  using assms(2)
proof (induction es arbitrary: a)
  case (Cons e es)
  from ingest_raw_step [OF assms(1) Cons.prems, of params e] Cons.IH [of "f a e"]
  show ?case by (auto simp: f_def intro: grows_trans)
qed simp

lemma other_ingests [simp]:
  "ba_rows (ingest_symbol_health params y a) = ba_rows a" "ba_rows (ingest_source_health params h a) = ba_rows a"
  "ba_rows (ingest_gap_alert params g a) = ba_rows a"
  by (simp_all add: ingest_symbol_health_def ingest_source_health_def ingest_gap_alert_def Let_def)

lemma foldl_rows [simp]:
  assumes "\<And>x a. ba_rows (f a x) = ba_rows a"
  shows "ba_rows (foldl f a xs) = ba_rows a"
  by (induction xs arbitrary: a) (simp_all add: assms)

lemma ingest_all_rows:
  "ba_rows (ingest_all params args inputs a) =
     ba_rows (foldl (\<lambda>a e. ingest_raw_event params args e a) a (ni_raw_events inputs))"
  by (simp add: ingest_all_def Let_def)

lemma accumulator_new_ok: "acc_ok args (accumulator_new args irange srange metadata)"
  by (simp add: acc_ok_def accumulator_new_def rows_ok_def seeded_def)

section \<open>Finalised rows\<close>

lemma push_missing_ok [simp]: "row_ok args k (push_missing reason r) = row_ok args k r"
  by (simp add: row_ok_def row_ok_defs push_missing_def)

lemma push_missing_sel [simp]:
  "parents (push_missing reason r) = parents r" "sl_missing_reasons (push_missing reason r) = sl_missing_reasons r @ [reason]"
  by (simp_all add: parents_def push_missing_def)

lemma row_ok_gap: "row_ok args k r \<Longrightarrow> row_ok args k (r\<lparr>sl_quality_gap := sl_quality_gap r + 1\<rparr>)"
  by (auto simp: row_ok_def row_ok_defs)

lemma row_ok_stale: "row_ok args k r \<Longrightarrow> row_ok args k (r\<lparr>sl_quality_stale := sl_quality_stale r + 1\<rparr>)"
  by (auto simp: row_ok_def row_ok_defs)

lemma row_ok_neutral [simp]:
  "row_ok args k (r\<lparr>sl_symbol_health_snapshot := y\<rparr>) = row_ok args k r"
  "row_ok args k (r\<lparr>sl_source_health_snapshot := h\<rparr>) = row_ok args k r"
  "row_ok args k (r\<lparr>sl_slice_completeness := c\<rparr>) = row_ok args k r"
  "row_ok args k (r\<lparr>sl_mid_price := m, sl_spread_bps := b\<rparr>) = row_ok args k r"
  "row_ok args k (r\<lparr>sl_parent_event_ids := ps, sl_parent_run_ids := rs, sl_missing_reasons := ms\<rparr>) = row_ok args k r"
  by (auto simp: row_ok_def row_ok_defs)

lemma apply_gap_fold:
  "row_ok args k r \<Longrightarrow>
     row_ok args k (foldl (\<lambda>row reason. push_missing reason (row\<lparr>sl_quality_gap := sl_quality_gap row + 1\<rparr>)) r rs)"
  by (induction rs arbitrary: r) (simp_all add: row_ok_gap)

lemma symbol_snapshot_ok: "row_ok args k r \<Longrightarrow> row_ok args k (apply_symbol_health_snapshot r)"
  by (simp add: apply_symbol_health_snapshot_def Let_def row_ok_stale split: option.split)

lemma source_snapshot_ok: "row_ok args k r \<Longrightarrow> row_ok args k (apply_source_health_snapshot r)"
  by (simp add: apply_source_health_snapshot_def split: option.split)

lemma health_row_ok:
  "row_ok args k r \<Longrightarrow> row_ok args k (apply_health_and_gaps_to_row sh so gs rng r)"
  unfolding apply_health_and_gaps_to_row_def apply_gap_alerts_def Let_def
  by (intro apply_gap_fold source_snapshot_ok symbol_snapshot_ok) simp

lemma sort_key_empty [simp]: "sort_key f xs = [] \<longleftrightarrow> xs = []"
  by (metis length_0_conv length_sort)

lemma order_row_ok: "row_ok args k r \<Longrightarrow> row_ok args k (normalize_event_order r)"
  by (auto simp: normalize_event_order_def row_ok_def row_ok_defs Let_def filter_sort)

lemma finalize_row_ok:
  assumes "row_ok args k r"
  shows "row_ok args k (finalize_row r)"
proof -
  let ?r1 = "add_silence_reason (normalize_event_order r)"
  have 1: "row_ok args k ?r1" using order_row_ok [OF assms] by (simp add: add_silence_reason_def)
  then show ?thesis
    by (simp add: finalize_row_def add_mid_price_def Let_def split: option.split)
qed

lemma parents_gap_fold:
  "parents (foldl (\<lambda>row reason. push_missing reason (row\<lparr>sl_quality_gap := sl_quality_gap row + 1\<rparr>)) r rs) = parents r"
  by (induction rs arbitrary: r) (auto simp: parents_def push_missing_def)

lemma parents_final: "parents (finalize_row (apply_health_and_gaps_to_row sh so gs rng r)) = parents r"
proof -
  have "parents (apply_health_and_gaps_to_row sh so gs rng r) = parents r"
    unfolding apply_health_and_gaps_to_row_def apply_gap_alerts_def Let_def parents_gap_fold
    by (simp add: parents_def apply_symbol_health_snapshot_def apply_source_health_snapshot_def push_missing_def Let_def
        split: option.splits)
  moreover have "parents (finalize_row r) = parents r" for r
    by (simp add: parents_def finalize_row_def add_mid_price_def add_silence_reason_def normalize_event_order_def
        push_missing_def sort_dedup_def Let_def split: option.splits)
  ultimately show ?thesis by simp
qed

text \<open>The slices of a build are the finalised rows.\<close>

definition final_rows :: "build_accumulator \<Rightarrow> (slice_key \<times> slice_row) list" where
  "final_rows a = map (\<lambda>(k, r). (k, finalize_row (apply_health_and_gaps_to_row (ba_symbol_health a)
     (ba_source_health a) (ba_gap_alerts a) (ba_input_range a) r))) (ba_rows a)"

lemma finish_slices: "br_slices (finish a) = map snd (final_rows a)"
  by (simp add: finish_def final_rows_def apply_health_and_gaps_def finalize_slices_def bt_values_def Let_def comp_def
      case_prod_beta split: prod.splits)

lemma final_rows_ok: "rows_ok args (ba_rows a) \<Longrightarrow> (k, r) \<in> set (final_rows a) \<Longrightarrow> row_ok args k r"
  by (auto simp: final_rows_def rows_ok_def intro!: finalize_row_ok health_row_ok)

end
