(* ===== verification/Input_Keys.thy ===== *)
theory Input_Keys
  imports Run_Mode Slice_Rows S3_Client File_Tree
begin

text \<open>
  Which L0 objects a normalizer run reads (\<open>src/normalize/input_keys\<close>): the hours of the read range, the prefixes
  listed for each hour, the selection of listed keys, the walk over the local spool and the merge of both. The
  lemmas connect this with the keys under which the sink stores its objects: which of them are found, and which never
  are.
\<close>

section \<open>Strings\<close>

text \<open>\<open>str::find\<close> of a pattern, as the rest of the string from its first occurrence on.\<close>

fun suffix_from :: "string \<Rightarrow> string \<Rightarrow> string option" where
  "suffix_from pat [] = (if pat = [] then Some [] else None)"
| "suffix_from pat (c # cs) = (if starts_with pat (c # cs) then Some (c # cs) else suffix_from pat cs)"

text \<open>\<open>str::split_once\<close> with a pattern: the part before its first occurrence.\<close>

fun before_pattern :: "string \<Rightarrow> string \<Rightarrow> string option" where
  "before_pattern pat [] = (if pat = [] then Some [] else None)"
| "before_pattern pat (c # cs) =
     (if starts_with pat (c # cs) then Some [] else map_option ((#) c) (before_pattern pat cs))"

definition ends_with :: "string \<Rightarrow> string \<Rightarrow> bool" where
  "ends_with suf s \<longleftrightarrow> suffix suf s"

definition i64_checked_mul :: "int \<Rightarrow> int \<Rightarrow> int option" where
  "i64_checked_mul a b = (if in_i64 (a * b) then Some (a * b) else None)"

section \<open>Hours and prefixes (input_keys/time.rs, input_keys/s3/prefixes.rs)\<close>

definition VENUES :: "string list" where
  "VENUES = [''upbit'', ''binance'']"

definition RAW_EVENT_TYPES :: "string list" where
  "RAW_EVENT_TYPES = [''trade'', ''book_ticker'', ''depth_delta'', ''depth_snapshot'', ''ticker'', ''funding_rate_snapshot'',
     ''open_interest_snapshot'']"

definition GAP_ALERT_TYPES :: "string list" where
  "GAP_ALERT_TYPES = [''depth_update_id_gap'', ''ordering_violation'', ''upbit_error'']"

definition floor_hour_ms :: "int \<Rightarrow> int" where
  "floor_hour_ms v = wrap_i64 ((v div 3600000) * 3600000)"

text \<open>The loop advances by a saturating addition like the seeding of slices and visits the same starting points.\<close>

definition hourly_parts :: "l0_params \<Rightarrow> int \<Rightarrow> int \<Rightarrow> (string \<times> nat) list" where
  "hourly_parts params s e = map (time_parts params) (seed_windows 3600000 e (floor_hour_ms s))"

definition hour_dir :: "string \<times> nat \<Rightarrow> string" where
  "hour_dir part = ''/event_date='' @ fst part @ ''/hour='' @ show_pad 2 (snd part) @ ''/''"

definition input_prefixes_for_part :: "string \<times> nat \<Rightarrow> string list" where
  "input_prefixes_for_part part =
     concat (map (\<lambda>venue.
       map (\<lambda>event_type. ''raw_market_event/venue='' @ venue @ ''/event_type='' @ event_type @ hour_dir part) RAW_EVENT_TYPES @
       [''symbol_health/venue='' @ venue @ hour_dir part, ''source_health/venue='' @ venue @ hour_dir part] @
       map (\<lambda>gap_type. ''gap_alert/venue='' @ venue @ ''/gap_type='' @ gap_type @ hour_dir part) GAP_ALERT_TYPES) VENUES)"

section \<open>Selection (input_keys/s3/selection.rs)\<close>

definition run_start_ms_from_key :: "string \<Rightarrow> int option" where
  "run_start_ms_from_key key =
     (case suffix_from ''run_id='' key of
        None \<Rightarrow> None
      | Some rest \<Rightarrow>
          (let run_id = takeWhile (\<lambda>c. c \<noteq> CHR ''/'') (drop (length ''run_id='') rest);
               run_id = (case before_pattern ''-part-'' run_id of Some p \<Rightarrow> p | None \<Rightarrow> run_id)
           in case parse_i64 (last (split_on (CHR ''-'') run_id)) of
                None \<Rightarrow> None
              | Some seconds \<Rightarrow> i64_checked_mul seconds 1000))"

definition next_run_start_ms :: "int list \<Rightarrow> int \<Rightarrow> int option" where
  "next_run_start_ms run_starts current = List.find (\<lambda>candidate. candidate > current) run_starts"

definition select_s3_keys :: "string list \<Rightarrow> input_range \<Rightarrow> run_mode \<Rightarrow> int \<Rightarrow> string list" where
  "select_s3_keys listed_keys rng mode l0_run_key_overlap_ms =
     (let parquet_keys = filter (ends_with ''.parquet'') listed_keys in
      if mode \<noteq> Live then parquet_keys
      else let run_starts = remdups_adj (sort (List.map_filter run_start_ms_from_key parquet_keys));
               overlap_ms = max l0_run_key_overlap_ms 0
           in filter (\<lambda>key. case run_start_ms_from_key key of
                None \<Rightarrow> True
              | Some run_start_ms \<Rightarrow>
                  (let run_end_ms = (case next_run_start_ms run_starts run_start_ms of Some t \<Rightarrow> t | None \<Rightarrow> i64_max);
                       range_start_ms = i64_saturating_sub (start_ms rng) overlap_ms
                   in run_start_ms < end_ms rng \<and> run_end_ms > range_start_ms)) parquet_keys)"

section \<open>Listing the store (input_keys/s3.rs)\<close>

text \<open>Listing follows continuation tokens and may not end; \<open>None\<close> stands for that.\<close>

definition list_into ::
    "'w s3_uploader \<Rightarrow> input_range \<Rightarrow> run_mode \<Rightarrow> int \<Rightarrow> string \<Rightarrow> string list \<Rightarrow> 'w \<Rightarrow>
     ('w \<times> (string list, storage_error) result) option" where
  "list_into s3 rng mode overlap pre keys w =
     map_option (\<lambda>(w', r). (w', map_sum id (\<lambda>listed. keys @ select_s3_keys listed rng mode overlap) r)) (list_keys s3 pre w)"

fun list_all_into ::
    "'w s3_uploader \<Rightarrow> input_range \<Rightarrow> run_mode \<Rightarrow> int \<Rightarrow> string list \<Rightarrow> string list \<Rightarrow> 'w \<Rightarrow>
     ('w \<times> (string list, storage_error) result) option" where
  "list_all_into s3 rng mode overlap [] keys w = Some (w, Inr keys)"
| "list_all_into s3 rng mode overlap (pre # pres) keys w =
     (case list_into s3 rng mode overlap pre keys w of
        None \<Rightarrow> None
      | Some (w', Inl e) \<Rightarrow> Some (w', Inl e)
      | Some (w', Inr keys') \<Rightarrow> list_all_into s3 rng mode overlap pres keys' w')"

definition s3_input_keys ::
    "l0_params \<Rightarrow> 'w s3_uploader \<Rightarrow> input_range \<Rightarrow> run_mode \<Rightarrow> int \<Rightarrow> 'w \<Rightarrow>
     ('w \<times> (string list, storage_error) result) option" where
  "s3_input_keys params s3 rng mode overlap w =
     map_option (\<lambda>(w', r). (w', map_sum id sort_dedup r))
       (list_all_into s3 rng mode overlap
          (concat (map input_prefixes_for_part (hourly_parts params (start_ms rng) (end_ms rng)))) [] w)"

section \<open>The local spool (input_keys/local.rs)\<close>

datatype input_entry_source = FromLocal | FromS3

record input_entry =
  ie_key :: string
  ie_path :: "path option"
  ie_source :: input_entry_source

definition FAMILY_MARKERS :: "string list" where
  "FAMILY_MARKERS = [''raw_market_event/'', ''symbol_health/'', ''source_health/'', ''gap_alert/'']"

definition key_matches_parts :: "string \<Rightarrow> (string \<times> nat) list \<Rightarrow> bool" where
  "key_matches_parts key parts \<longleftrightarrow>
     list_ex (\<lambda>m. starts_with m key) FAMILY_MARKERS \<and> list_ex (\<lambda>part. contains_str (hour_dir part) key) parts"

fun first_marker :: "string list \<Rightarrow> string \<Rightarrow> string option" where
  "first_marker [] s = None"
| "first_marker (m # ms) s = (case suffix_from m s of Some rest \<Rightarrow> Some rest | None \<Rightarrow> first_marker ms s)"

definition strip_prefix :: "path \<Rightarrow> path \<Rightarrow> path option" where
  "strip_prefix rt p = (if take (length rt) p = rt then Some (drop (length rt) p) else None)"

definition key_from_local_path :: "path \<Rightarrow> path \<Rightarrow> string option" where
  "key_from_local_path rt p =
     (case strip_prefix rt p of
        None \<Rightarrow> None
      | Some relative \<Rightarrow>
          first_marker FAMILY_MARKERS (map (\<lambda>c. if c = CHR 0x5C then CHR ''/'' else c) (join ''/'' relative)))"

definition local_parquet_files :: "path \<Rightarrow> fnode \<Rightarrow> (path list, storage_error) result" where
  "local_parquet_files rt fs =
     (case node_at rt fs of
        None \<Rightarrow> Inr []
      | Some node \<Rightarrow> walk_parquet (\<lambda>f files. Inr (files @ [f])) rt node [])"

definition key_cmp :: "string \<Rightarrow> string \<Rightarrow> ordering" where
  "key_cmp = cmp_by (\<lambda>k. k)"

definition add_local_entry ::
    "path \<Rightarrow> (string \<times> nat) list \<Rightarrow> (string, input_entry) btree \<Rightarrow> path \<Rightarrow> (string, input_entry) btree" where
  "add_local_entry rt parts entries p =
     (case key_from_local_path rt p of
        None \<Rightarrow> entries
      | Some key \<Rightarrow>
          if key_matches_parts key parts
          then bt_insert key_cmp key \<lparr>ie_key = key, ie_path = Some p, ie_source = FromLocal\<rparr> entries
          else entries)"

definition local_input_entries ::
    "l0_params \<Rightarrow> path \<Rightarrow> fnode \<Rightarrow> input_range \<Rightarrow> (input_entry list, storage_error) result" where
  "local_input_entries params rt fs rng =
     (let parts = hourly_parts params (start_ms rng) (end_ms rng)
      in and_then (local_parquet_files rt fs) (\<lambda>files.
         Inr (bt_values (foldl (add_local_entry rt parts) [] files))))"

section \<open>The entries of a run (input_keys/entry.rs)\<close>

definition add_s3_entry :: "(string, input_entry) btree \<Rightarrow> string \<Rightarrow> (string, input_entry) btree" where
  "add_s3_entry m key =
     (if bt_contains_key key_cmp key m then m
      else bt_insert key_cmp key \<lparr>ie_key = key, ie_path = None, ie_source = FromS3\<rparr> m)"

definition merge_entries :: "input_entry list \<Rightarrow> string list \<Rightarrow> input_entry list" where
  "merge_entries local_entries s3_keys =
     (let entries = foldl (\<lambda>m entry. bt_insert key_cmp (ie_key entry) entry m) [] local_entries
      in bt_values (foldl add_s3_entry entries s3_keys))"

definition collect_input_entries ::
    "l0_params \<Rightarrow> 'w s3_uploader \<Rightarrow> path \<Rightarrow> fnode \<Rightarrow> input_range \<Rightarrow> run_mode \<Rightarrow> int \<Rightarrow> 'w \<Rightarrow>
     ('w \<times> (input_entry list, storage_error) result) option" where
  "collect_input_entries params s3 rt fs rng mode overlap w =
     (case (if mode = Live then local_input_entries params rt fs rng else Inr []) of
        Inl e \<Rightarrow> Some (w, Inl e)
      | Inr local_entries \<Rightarrow>
          map_option (\<lambda>(w', r). (w', map_sum id (merge_entries local_entries) r))
            (s3_input_keys params s3 rng mode overlap w))"

section \<open>What is listed\<close>

text \<open>The store lists every object under a prefix, and nothing else.\<close>

definition lists_exactly :: "'w s3_uploader \<Rightarrow> string set \<Rightarrow> bool" where
  "lists_exactly u stored \<longleftrightarrow>
     (\<forall>pre w. \<exists>w' ks. list_keys u pre w = Some (w', Inr ks) \<and> set ks = {k \<in> stored. starts_with pre k})"

definition hour_calendar :: "l0_params \<Rightarrow> bool" where
  "hour_calendar params \<longleftrightarrow> (\<forall>t. p_calendar params t = p_calendar params (t div 3600000 * 3600000))"

lemma list_all_into_spec:
  assumes "lists_exactly u stored" and "mode \<noteq> Live"
  shows "\<exists>w' ks. list_all_into u rng mode overlap pres keys w = Some (w', Inr ks) \<and>
    set ks = set keys \<union> {k \<in> stored. ends_with ''.parquet'' k \<and> (\<exists>p \<in> set pres. starts_with p k)}"
proof (induction pres arbitrary: keys w)
  case (Cons p ps)
  obtain w' ls where l: "list_keys u p w = Some (w', Inr ls)" "set ls = {k \<in> stored. starts_with p k}"
    using assms(1) unfolding lists_exactly_def by blast
  define keys' where "keys' = keys @ select_s3_keys ls rng mode overlap"
  have s: "set keys' = set keys \<union> {k \<in> stored. ends_with ''.parquet'' k \<and> starts_with p k}"
    using assms(2) l(2) by (auto simp: keys'_def select_s3_keys_def)
  obtain w2 ks where IH: "list_all_into u rng mode overlap ps keys' w' = Some (w2, Inr ks)"
      "set ks = set keys' \<union> {k \<in> stored. ends_with ''.parquet'' k \<and> (\<exists>p \<in> set ps. starts_with p k)}"
    using Cons.IH [of keys' w'] by blast
  then show ?case using s by (auto simp: list_into_def l(1) keys'_def)
qed simp

lemma set_sort_dedup [simp]: "set (sort_dedup xs) = set xs"
  by (simp add: sort_dedup_def)

lemma s3_input_keys_spec:
  assumes "lists_exactly u stored" and "mode \<noteq> Live"
  obtains w' ks where "s3_input_keys params u rng mode overlap w = Some (w', Inr ks)"
    and "set ks = {k \<in> stored. ends_with ''.parquet'' k \<and>
      (\<exists>part \<in> set (hourly_parts params (start_ms rng) (end_ms rng)). \<exists>p \<in> set (input_prefixes_for_part part). starts_with p k)}"
  using list_all_into_spec [OF assms, of rng overlap
      "concat (map input_prefixes_for_part (hourly_parts params (start_ms rng) (end_ms rng)))" "[]" w]
  by (auto simp: s3_input_keys_def)

lemma hour_covered:
  assumes "hour_calendar params" and "start_ms rng \<le> t" "t < end_ms rng" and "0 \<le> start_ms rng" "end_ms rng \<le> i64_max"
  shows "time_parts params t \<in> set (hourly_parts params (start_ms rng) (end_ms rng))"
proof -
  let ?h = "t div 3600000 * 3600000"
  have f: "floor_hour_ms (start_ms rng) = start_ms rng div 3600000 * 3600000"
  proof -
    have "0 \<le> start_ms rng div 3600000 * 3600000" "start_ms rng div 3600000 * 3600000 \<le> start_ms rng"
      using assms(4) by (simp_all add: pos_imp_zdiv_nonneg_iff) 
    then have "in_i64 (start_ms rng div 3600000 * 3600000)" using assms(2,3,5) by (simp add: in_i64_def i64_consts)
    then show ?thesis by (simp add: floor_hour_ms_def)
  qed
  have "?h \<in> set (seed_windows 3600000 (end_ms rng) (floor_hour_ms (start_ms rng)))"
    unfolding f using assms(2-5) by (intro seed_windows_cover) (auto simp: i64_consts pos_imp_zdiv_nonneg_iff intro: order_trans)
  moreover have "time_parts params t = time_parts params ?h"
    using assms(1) by (simp add: hour_calendar_def time_parts_def)
  ultimately show ?thesis by (auto simp: hourly_parts_def)
qed

text \<open>The directory an object key of the sink names is one of the listed prefixes of its hour.\<close>

lemma starts_with_append [simp]: "starts_with p (p @ s)"
  by (simp add: starts_with_def)

lemma object_key_parquet: "ends_with ''.parquet'' (x @ part_suffix run n)"
proof -
  have "x @ part_suffix run n = (x @ run @ ''-part-'' @ show_pad 6 n) @ ''.parquet''" by (simp add: part_suffix_def)
  then show ?thesis unfolding ends_with_def by (metis suffixI)
qed

lemma raw_key_shape: "raw_object_key (raw_partition_for params r k) run n =
    (''raw_market_event/venue='' @ rr_venue r @ ''/event_type='' @ rr_event_type r @
       hour_dir (time_parts params (rr_exchange_timestamp_ms r))) @
    (''shard='' @ show_pad 2 (shard_for params (rr_symbol_native r) k) @ ''/run_id='') @ part_suffix run n"
  by (simp add: raw_object_key_def raw_partition_for_def hour_dir_def case_prod_beta Let_def)

lemma health_key_shape: "health_object_key (health_partition_for params h k) run n =
    (''source_health/venue='' @ sr_venue h @ hour_dir (time_parts params (sr_observed_at_ms h))) @
    (''shard='' @ show_pad 2 (shard_for params (sr_venue h) k) @ ''/run_id='') @ part_suffix run n"
  by (simp add: health_object_key_def health_partition_for_def hour_dir_def case_prod_beta Let_def)

lemma symbol_health_key_shape: "symbol_health_object_key (symbol_health_partition_for params y k) run n =
    (''symbol_health/venue='' @ yr_venue y @ hour_dir (time_parts params (yr_observed_at_ms y))) @
    (''shard='' @ show_pad 2 (shard_for params (yr_symbol_native y) k) @ ''/run_id='') @ part_suffix run n"
  by (simp add: symbol_health_object_key_def symbol_health_partition_for_def hour_dir_def case_prod_beta Let_def)

lemma gap_key_shape: "gap_object_key (gap_partition_for params g k) run n =
    (''gap_alert/venue='' @ gr_venue g @ ''/gap_type='' @ gr_gap_type g @ hour_dir (time_parts params (gr_detected_at_ms g))) @
    (''shard='' @ show_pad 2 (shard_for params (gr_symbol_native g) k) @ ''/run_id='') @ part_suffix run n"
  by (simp add: gap_object_key_def gap_partition_for_def hour_dir_def case_prod_beta Let_def)

lemmas key_shapes = raw_key_shape health_key_shape symbol_health_key_shape gap_key_shape

lemma listed_prefixes:
  assumes "v \<in> set VENUES"
  shows "e \<in> set RAW_EVENT_TYPES \<Longrightarrow>
      ''raw_market_event/venue='' @ v @ ''/event_type='' @ e @ hour_dir part \<in> set (input_prefixes_for_part part)"
    and "''source_health/venue='' @ v @ hour_dir part \<in> set (input_prefixes_for_part part)"
    and "''symbol_health/venue='' @ v @ hour_dir part \<in> set (input_prefixes_for_part part)"
    and "g \<in> set GAP_ALERT_TYPES \<Longrightarrow>
      ''gap_alert/venue='' @ v @ ''/gap_type='' @ g @ hour_dir part \<in> set (input_prefixes_for_part part)"
  using assms by (auto simp: input_prefixes_for_part_def)

lemma found_under_prefix:
  assumes "hour_calendar params" and "in_range rng t" and "0 \<le> start_ms rng" "end_ms rng \<le> i64_max"
    and "p \<in> set (input_prefixes_for_part (time_parts params t))"
  shows "\<exists>part \<in> set (hourly_parts params (start_ms rng) (end_ms rng)). \<exists>q \<in> set (input_prefixes_for_part part).
    starts_with q (p @ x)"
  using hour_covered [OF assms(1) _ _ assms(3,4), of t] assms(2,5) starts_with_append [of p x]
  unfolding in_range_def by blast

text \<open>A key whose gap type is neither of the listed ones lies under no listed prefix.\<close>

lemma prefix_sep:
  fixes c :: char
  shows "c \<notin> set a \<Longrightarrow> c \<notin> set b \<Longrightarrow> prefix (a @ c # x) (b @ c # y) \<longleftrightarrow> a = b \<and> prefix x y"
proof
  assume n: "c \<notin> set a" "c \<notin> set b" and "prefix (a @ c # x) (b @ c # y)"
  then obtain z where "b @ c # y = a @ c # (x @ z)" by (auto elim!: prefixE)
  then have "b = a \<and> y = x @ z" using n sep_append_eq [of c b a y "x @ z"] by simp
  then show "a = b \<and> prefix x y" by simp
qed auto

lemma prefix_cancel: "starts_with (a @ x) (a @ y) \<longleftrightarrow> starts_with x y"
  by (simp add: starts_with_def)

lemma gap_prefix_types:
  assumes "no_slash (gpk_venue p)" "no_slash (gpk_gap_type p)" and "q \<in> set (input_prefixes_for_part part)"
    and "starts_with q (gap_object_key p run n)"
  shows "gpk_gap_type p \<in> set GAP_ALERT_TYPES"
proof -
  let ?rest = "''gap_alert/venue='' @ gpk_venue p @ CHR ''/'' # ''gap_type='' @ gpk_gap_type p @ CHR ''/'' # drop 1 (''/event_date='') @
    gpk_event_date p @ ''/hour='' @ show_pad 2 (gpk_hour p) @ ''/shard='' @ show_pad 2 (gpk_shard p) @ ''/run_id='' @ part_suffix run n"
  have k: "gap_object_key p run n = ?rest" by (simp add: gap_object_key_def)
  obtain v g where v: "v \<in> set VENUES" "g \<in> set GAP_ALERT_TYPES" and q: "q = ''gap_alert/venue='' @ v @ ''/gap_type='' @ g @ hour_dir part"
    using assms(3,4) by (auto simp: input_prefixes_for_part_def starts_with_def k)
  have n: "CHR ''/'' \<notin> set v" "CHR ''/'' \<notin> set g" using v by (auto simp: VENUES_def GAP_ALERT_TYPES_def)
  have "starts_with (v @ CHR ''/'' # ''gap_type='' @ g @ CHR ''/'' # drop 1 (hour_dir part))
      (gpk_venue p @ CHR ''/'' # ''gap_type='' @ gpk_gap_type p @ CHR ''/'' # drop 1 (''/event_date='') @
    gpk_event_date p @ ''/hour='' @ show_pad 2 (gpk_hour p) @ ''/shard='' @ show_pad 2 (gpk_shard p) @ ''/run_id='' @ part_suffix run n)"
    using assms(4) unfolding k q prefix_cancel by (simp add: hour_dir_def)
  then have "g = gpk_gap_type p"
    using assms(1,2) n by (simp add: starts_with_def prefix_sep no_slash_def)
  with v(2) show ?thesis by simp
qed

section \<open>Merging\<close>

interpretation entry_map: btree_order key_cmp "\<lambda>k. k" "\<lambda>_. True"
  by unfold_locales (simp add: key_cmp_def)

lemma key_insert_entries: "(k', v') \<in> set (bt_insert key_cmp k v m) \<Longrightarrow> (k', v') \<in> set m \<or> k' = k \<and> v' = v"
  by (induction m) (auto simp: key_cmp_def cmp_by_def split: if_splits)

definition entry_map_ok :: "(string, input_entry) btree \<Rightarrow> bool" where
  "entry_map_ok m \<longleftrightarrow> bt_wf (\<lambda>k. k) (\<lambda>_. True) m \<and> list_all (\<lambda>(k, e). ie_key e = k) m"

lemma entry_map_insert:
  assumes "entry_map_ok m"
  shows "entry_map_ok (bt_insert key_cmp (ie_key e) e m)"
    and "fst ` set (bt_insert key_cmp (ie_key e) e m) = insert (ie_key e) (fst ` set m)"
proof -
  have "bt_wf (\<lambda>k. k) (\<lambda>_. True) m" using assms by (simp add: entry_map_ok_def)
  from entry_map.wf_insert [OF this TrueI, of "ie_key e" e] key_insert_entries [of _ _ "ie_key e" e m] assms
  show "entry_map_ok (bt_insert key_cmp (ie_key e) e m)" by (fastforce simp: entry_map_ok_def list_all_iff)
  show "fst ` set (bt_insert key_cmp (ie_key e) e m) = insert (ie_key e) (fst ` set m)"
    using entry_map.rank_insert [where k = "ie_key e" and m = m and v = e] by simp
qed

lemma entry_map_distinct:
  assumes "entry_map_ok m"
  shows "map ie_key (bt_values m) = map fst m" "distinct (map fst m)" "sorted (map fst m)"
proof -
  show "map ie_key (bt_values m) = map fst m"
    using assms by (auto simp: entry_map_ok_def bt_values_def list_all_iff)
  have "sorted_wrt (<) (map fst m)" using assms by (simp add: entry_map_ok_def bt_wf_def)
  then show "distinct (map fst m)" "sorted (map fst m)" by (simp_all add: strict_sorted_iff)
qed

lemma merge_locals:
  "entry_map_ok m \<Longrightarrow> entry_map_ok (foldl (\<lambda>m e. bt_insert key_cmp (ie_key e) e m) m es) \<and>
     fst ` set (foldl (\<lambda>m e. bt_insert key_cmp (ie_key e) e m) m es) = fst ` set m \<union> ie_key ` set es"
  by (induction es arbitrary: m) (simp_all add: entry_map_insert)

lemma contains_key_iff: "entry_map_ok m \<Longrightarrow> bt_contains_key key_cmp key m \<longleftrightarrow> key \<in> fst ` set m"
  using entry_map.get_None_rank [of m key] by (simp add: bt_contains_key_def entry_map_ok_def)

lemma add_s3_entry:
  assumes ok: "entry_map_ok m"
  shows "entry_map_ok (add_s3_entry m key)" "fst ` set (add_s3_entry m key) = insert key (fst ` set m)"
    and "(k, e) \<in> set (add_s3_entry m key) \<Longrightarrow> (k, e) \<in> set m \<or> k = key \<and> key \<notin> fst ` set m \<and> ie_source e = FromS3 \<and> ie_path e = None"
  using entry_map_insert [OF ok, of "\<lparr>ie_key = key, ie_path = None, ie_source = FromS3\<rparr>"] ok
  by (auto simp: add_s3_entry_def contains_key_iff split: if_splits dest!: key_insert_entries)

lemma merge_s3:
  assumes "entry_map_ok m"
  shows "entry_map_ok (foldl add_s3_entry m ks) \<and> fst ` set (foldl add_s3_entry m ks) = fst ` set m \<union> set ks \<and>
    (\<forall>k e. (k, e) \<in> set (foldl add_s3_entry m ks) \<longrightarrow> (k, e) \<in> set m \<or> ie_source e = FromS3 \<and> ie_path e = None)"
  using assms
proof (induction ks arbitrary: m)
  case (Cons key ks)
  let ?m = "add_s3_entry m key"
  have IH: "entry_map_ok (foldl add_s3_entry ?m ks)" "fst ` set (foldl add_s3_entry ?m ks) = fst ` set ?m \<union> set ks"
    "(k, e) \<in> set (foldl add_s3_entry ?m ks) \<Longrightarrow> (k, e) \<in> set ?m \<or> ie_source e = FromS3 \<and> ie_path e = None" for k e
    using Cons.IH [OF add_s3_entry(1) [OF Cons.prems, of key]] by blast+
  have "fst ` set (foldl add_s3_entry ?m ks) = fst ` set m \<union> set (key # ks)"
    using IH(2) add_s3_entry(2) [OF Cons.prems, of key] by simp
  moreover have "(k, e) \<in> set m \<or> ie_source e = FromS3 \<and> ie_path e = None" if "(k, e) \<in> set (foldl add_s3_entry ?m ks)" for k e
    using IH(3) [OF that] add_s3_entry(3) [OF Cons.prems] by blast
  ultimately show ?case using IH(1) by simp
qed simp

text \<open>The merged entries.\<close>

lemma merge_entries_spec:
  "distinct (map ie_key (merge_entries ls ks)) \<and> sorted (map ie_key (merge_entries ls ks)) \<and>
   ie_key ` set (merge_entries ls ks) = ie_key ` set ls \<union> set ks \<and>
   (\<forall>e. e \<in> set (merge_entries ls ks) \<and> ie_key e \<notin> ie_key ` set ls \<longrightarrow> ie_source e = FromS3 \<and> ie_path e = None)"
proof -
  define m where "m = foldl (\<lambda>m e. bt_insert key_cmp (ie_key e) e m) [] ls"
  define m' where "m' = foldl add_s3_entry m ks"
  have m: "entry_map_ok m" "fst ` set m = ie_key ` set ls"
    using merge_locals [of "[]" ls] by (simp_all add: m_def entry_map_ok_def)
  have s: "entry_map_ok m'" "fst ` set m' = ie_key ` set ls \<union> set ks"
    "(k, e) \<in> set m' \<Longrightarrow> (k, e) \<in> set m \<or> ie_source e = FromS3 \<and> ie_path e = None" for k e
    using merge_s3 [OF m(1), of ks] m(2) by (auto simp: m'_def)
  have e: "merge_entries ls ks = bt_values m'" by (simp add: merge_entries_def m_def m'_def)
  have k: "ie_key ` set (bt_values m') = fst ` set m'"
    using entry_map_distinct(1) [OF s(1)] by (metis set_map)
  have "ie_source x = FromS3 \<and> ie_path x = None" if "x \<in> set (bt_values m')" "ie_key x \<notin> ie_key ` set ls" for x
  proof -
    have "(ie_key x, x) \<in> set m'" using that(1) s(1) by (auto simp: entry_map_ok_def list_all_iff bt_values_def)
    moreover have "(ie_key x, x) \<notin> set m" using that(2) m(2) by (metis fst_conv imageI)
    ultimately show ?thesis using s(3) by blast
  qed
  then show ?thesis using entry_map_distinct [OF s(1)] k s(2) unfolding e by auto
qed

section \<open>Properties\<close>


text \<open>gap alerts of any other type are never found by the listing. The ingestors write gap alerts of type
  \<open>ws_reconnect\<close>, and the backfill those of type \<open>historical_range_empty\<close>; both are stored under directories that
  no run lists, so outside LIVE mode no slice is ever marked for them.\<close>

theorem unlisted_gaps_never_read:
  assumes "lists_exactly u stored" and "mode \<noteq> Live"
    and "gr_gap_type g \<in> set [''ws_reconnect'', ''historical_range_empty'']" and "gr_venue g \<in> set VENUES"
  shows "\<exists>w' ks. s3_input_keys params u rng mode overlap w = Some (w', Inr ks) \<and>
    gap_object_key (gap_partition_for params g k) run n \<notin> set ks"
proof -
  obtain w' ks where s: "s3_input_keys params u rng mode overlap w = Some (w', Inr ks)"
    and set_ks: "set ks = {k \<in> stored. ends_with ''.parquet'' k \<and>
      (\<exists>part \<in> set (hourly_parts params (start_ms rng) (end_ms rng)). \<exists>p \<in> set (input_prefixes_for_part part). starts_with p k)}"
    using s3_input_keys_spec [OF assms(1,2), of params rng overlap w] by blast
  let ?p = "gap_partition_for params g k"
  have p: "gpk_venue ?p = gr_venue g" "gpk_gap_type ?p = gr_gap_type g"
    by (simp_all add: gap_partition_for_def case_prod_beta Let_def)
  have "no_slash (gpk_venue ?p)" "no_slash (gpk_gap_type ?p)" "gpk_gap_type ?p \<notin> set GAP_ALERT_TYPES"
    unfolding p using assms(3,4) by (auto simp: VENUES_def GAP_ALERT_TYPES_def no_slash_def)
  with gap_prefix_types [of ?p] s set_ks show ?thesis by blast
qed

text \<open>a run reads each object once. The merged entries have distinct keys, in key order, which are exactly the keys
  found locally or in the store, and a local file is preferred to downloading its copy.\<close>

theorem merged_entries_once:
  "distinct (map ie_key (merge_entries ls ks)) \<and> sorted (map ie_key (merge_entries ls ks)) \<and>
   ie_key ` set (merge_entries ls ks) = ie_key ` set ls \<union> set ks \<and>
   (\<forall>e. e \<in> set (merge_entries ls ks) \<and> ie_key e \<notin> ie_key ` set ls \<longrightarrow> ie_source e = FromS3 \<and> ie_path e = None)"
  by (rule merge_entries_spec)

section \<open>Witnesses\<close>

text \<open>A store that lists its keys on one page.\<close>

definition listing_uploader :: "string list \<Rightarrow> unit s3_uploader" where
  "listing_uploader keys = \<lparr>client =
     \<lparr>c_put = (\<lambda>_ w. (w, Inr ())), c_head = (\<lambda>_ w. (w, Inr None)), c_get = (\<lambda>_ w. (w, Inl demo_slow_down)),
      c_list = (\<lambda>pre _ _ w. (w, Inr \<lparr>pg_contents = map (\<lambda>k. \<lparr>so_key = Some k, so_last_modified_ms = None, so_size = None\<rparr>)
        (filter (starts_with pre) keys), pg_is_truncated = Some False, pg_next_token = None\<rparr>)),
      c_delete = (\<lambda>_ w. (w, Inr ()))\<rparr>, up_bucket = ''l0''\<rparr>"

lemma listing_exact: "lists_exactly (listing_uploader keys) (set keys)"
proof -
  have "list_keys (listing_uploader keys) pre () = Some ((), Inr (sort (filter (starts_with pre) keys)))" for pre
  proof -
    let ?objs = "List.map_filter summary_of (map (\<lambda>k. \<lparr>so_key = Some k, so_last_modified_ms = None, so_size = None\<rparr>)
      (filter (starts_with pre) keys))"
    have o: "map os_key ?objs = filter (starts_with pre) keys"
      by (simp add: map_filter_summary) (simp add: List.map_filter_def comp_def)
    have "list_keys (listing_uploader keys) pre () = Some ((), Inr (map os_key (sort_key os_key ?objs)))"
      by (simp add: list_keys_def list_object_summaries_def for_each_object_summary_def for_each_page.simps
          listing_uploader_def fold_snoc)
    also have "map os_key (sort_key os_key ?objs) = sort (map os_key ?objs)"
      by (rule properties_for_sort [symmetric]) simp_all
    finally show ?thesis by (simp only: o)
  qed
  then show ?thesis unfolding lists_exactly_def by force
qed

definition flat_params :: l0_params where
  "flat_params = \<lparr>p_digest = \<lambda>_. [], p_hash = length, p_calendar = \<lambda>_. None, p_json = \<lambda>_. None\<rparr>"

definition found_gap :: gap_record where
  "found_gap = demo_gap\<lparr>gr_gap_type := ''ordering_violation''\<rparr>"

definition lost_gap :: gap_record where
  "lost_gap = demo_gap\<lparr>gr_gap_type := ''ws_reconnect''\<rparr>"

definition gap_key :: "gap_record \<Rightarrow> string" where
  "gap_key g = gap_object_key (gap_partition_for flat_params g 4) ''run-1'' 1"


theorem unlisted_gaps_never_read_witness:
  "\<exists>w' ks. s3_input_keys flat_params (listing_uploader [gap_key lost_gap]) \<lparr>start_ms = 0, end_ms = 1000\<rparr> CatchUp 0 () = Some (w', Inr ks) \<and>
     gap_key lost_gap \<notin> set ks"
  unfolding gap_key_def
  by (rule unlisted_gaps_never_read [OF listing_exact]) (simp_all add: lost_gap_def demo_gap_def VENUES_def)

theorem merged_entries_once_witness:
  "\<exists>e. e \<in> set (merge_entries [] [''a'', ''a'']) \<and> ie_source e = FromS3"
proof -
  note m = merged_entries_once [of "[]" "[''a'', ''a'']"]
  obtain e where e: "e \<in> set (merge_entries [] [''a'', ''a''])" "ie_key e = ''a''"
  proof -
    have "''a'' \<in> ie_key ` set (merge_entries [] [''a'', ''a''])"
      unfolding conjunct1 [OF conjunct2 [OF conjunct2 [OF m]]] by simp
    then show thesis by (rule imageE) (rule that, simp_all)
  qed
  then have "ie_source e = FromS3" using conjunct2 [OF conjunct2 [OF conjunct2 [OF m]]] by simp
  with e(1) show ?thesis by blast
qed

end
