(* ===== verification/Slice_Build.thy ===== *)
theory Slice_Build
  imports Slice_Rows
begin

text \<open>
  Properties of a whole build: accounting and uniqueness of slices, no admitted event lost, the exact status, the
  meaning of the grade \<open>complete\<close>, and the composition with the sink, whose records never block a build.
\<close>

section \<open>Counters\<close>

lemma stats_mark [simp]:
  "bs_payload_hash_mismatch_count (snd (mark_invalid reason rs)) = bs_payload_hash_mismatch_count (snd rs)"
  "bs_input_record_count (snd (mark_invalid reason rs)) = bs_input_record_count (snd rs)"
  by (simp_all add: mark_invalid_def split: prod.splits)

lemma stats_row:
  "bs_payload_hash_mismatch_count (snd (apply_event_to_row params args e rs)) = bs_payload_hash_mismatch_count (snd rs)"
  "bs_input_record_count (snd (apply_event_to_row params args e rs)) = bs_input_record_count (snd rs)"
  by (cases rs; simp add: apply_event_to_row_def apply_trade_event_def apply_book_event_def Let_def
      split: option.split prod.split; fastforce dest: arg_cong [where f = snd])+

lemma stats_event:
  "bs_payload_hash_mismatch_count (snd (apply_event params args rng e (rows, st))) = bs_payload_hash_mismatch_count st"
  "bs_input_record_count (snd (apply_event params args rng e (rows, st))) = bs_input_record_count st"
  using stats_row [of params args e "(the (bt_get slice_cmp (event_slice_key args e) rows), st)"]
  by (auto simp: apply_event_def Let_def split: option.split prod.split)

definition attachments :: "build_accumulator \<Rightarrow> symbol_health_input list \<times> source_health_input list \<times> gap_alert_input list" where
  "attachments a = (ba_symbol_health a, ba_source_health a, ba_gap_alerts a)"

lemma spot_frame:
  "bs_payload_hash_mismatch_count (ba_stats (ingest_spot_event params args e a)) =
     bs_payload_hash_mismatch_count (ba_stats a)"
  "bs_input_record_count (ba_stats (ingest_spot_event params args e a)) = bs_input_record_count (ba_stats a)"
  "ba_seen_event_ids (ingest_spot_event params args e a) = ba_seen_event_ids a"
  "ba_scan_range (ingest_spot_event params args e a) = ba_scan_range a"
  "attachments (ingest_spot_event params args e a) = attachments a"
proof -
  have p: "ba_stats (apply_projection params args e (ensure_projection_identity params args e a)) = ba_stats a"
    "ba_seen_event_ids (apply_projection params args e (ensure_projection_identity params args e a)) = ba_seen_event_ids a"
    "ba_scan_range (apply_projection params args e (ensure_projection_identity params args e a)) = ba_scan_range a"
    "attachments (apply_projection params args e (ensure_projection_identity params args e a)) = attachments a" for a
    by (auto simp: attachments_def apply_projection_def ensure_projection_identity_def Let_def split: prod.split)
  have i: "bs_payload_hash_mismatch_count (ba_stats (apply_input params args e (ensure_input_identity params args e a))) =
      bs_payload_hash_mismatch_count (ba_stats a)"
    "bs_input_record_count (ba_stats (apply_input params args e (ensure_input_identity params args e a))) =
      bs_input_record_count (ba_stats a)"
    "ba_seen_event_ids (apply_input params args e (ensure_input_identity params args e a)) = ba_seen_event_ids a"
    "ba_scan_range (apply_input params args e (ensure_input_identity params args e a)) = ba_scan_range a"
    "attachments (apply_input params args e (ensure_input_identity params args e a)) = attachments a" for a
    using stats_event [of params args _ e _ "ba_stats a"]
    by (auto simp: attachments_def apply_input_def ensure_input_identity_def Let_def split: prod.split) (metis snd_conv)+
  show "bs_payload_hash_mismatch_count (ba_stats (ingest_spot_event params args e a)) =
      bs_payload_hash_mismatch_count (ba_stats a)"
    "bs_input_record_count (ba_stats (ingest_spot_event params args e a)) = bs_input_record_count (ba_stats a)"
    "ba_seen_event_ids (ingest_spot_event params args e a) = ba_seen_event_ids a"
    "ba_scan_range (ingest_spot_event params args e a) = ba_scan_range a"
    "attachments (ingest_spot_event params args e a) = attachments a"
    by (simp_all add: ingest_spot_event_def Let_def p i)
qed

definition raw_mismatch :: "l0_params \<Rightarrow> raw_input_event \<Rightarrow> bool" where
  "raw_mismatch params e \<longleftrightarrow> re_schema_version e = ''raw_market_event_v2'' \<and>
     payload_hash params (re_payload_json e) \<noteq> re_payload_sha256 e"

definition symbol_payload :: "symbol_health_input \<Rightarrow> string" where
  "symbol_payload row = si_venue row @ '':'' @ si_symbol_native row @ '':'' @ show_int (si_observed_at_ms row) @ '':''
     @ si_reason_codes row"

definition symbol_mismatch :: "l0_params \<Rightarrow> symbol_health_input \<Rightarrow> bool" where
  "symbol_mismatch params row \<longleftrightarrow> si_schema_version row = ''symbol_health_v1'' \<and>
     payload_hash params (symbol_payload row) \<noteq> si_payload_sha256 row"

definition source_mismatch :: "l0_params \<Rightarrow> source_health_input \<Rightarrow> bool" where
  "source_mismatch params row \<longleftrightarrow> hi_schema_version row = ''source_health_v2'' \<and>
     payload_hash params (hi_payload_json row) \<noteq> hi_payload_sha256 row"

definition gap_mismatch :: "l0_params \<Rightarrow> gap_alert_input \<Rightarrow> bool" where
  "gap_mismatch params row \<longleftrightarrow> gi_schema_version row = ''gap_alert_v1'' \<and>
     payload_hash params (gi_payload_json row) \<noteq> gi_payload_sha256 row"

definition gap_valid :: "l0_params \<Rightarrow> gap_alert_input \<Rightarrow> bool" where
  "gap_valid params row \<longleftrightarrow> gi_schema_version row = ''gap_alert_v1'' \<and>
     payload_hash params (gi_payload_json row) = gi_payload_sha256 row"

definition mismatches :: "l0_params \<Rightarrow> normalize_inputs \<Rightarrow> nat" where
  "mismatches params inputs =
     length (filter (raw_mismatch params) (ni_raw_events inputs)) +
     length (filter (symbol_mismatch params) (ni_symbol_health inputs)) +
     length (filter (source_mismatch params) (ni_source_health inputs)) +
     length (filter (gap_mismatch params) (ni_gap_alerts inputs))"

text \<open>The fields of the accumulator that count: mismatches, input records.\<close>

definition tallies :: "build_accumulator \<Rightarrow> nat \<times> nat" where
  "tallies a = (bs_payload_hash_mismatch_count (ba_stats a), bs_input_record_count (ba_stats a))"

definition bump :: "bool \<Rightarrow> nat \<times> nat \<Rightarrow> nat \<times> nat" where
  "bump b t = (fst t + (if b then 1 else 0), snd t + 1)"

lemma ingest_tallies:
  "tallies (ingest_raw_event params args e a) = bump (raw_mismatch params e) (tallies a)"
  "tallies (ingest_symbol_health params y a) = bump (symbol_mismatch params y) (tallies a)"
  "tallies (ingest_source_health params h a) = bump (source_mismatch params h) (tallies a)"
  "tallies (ingest_gap_alert params g a) = bump (gap_mismatch params g) (tallies a)"
  by (auto simp: ingest_raw_event_def ingest_derivative_event_def ingest_symbol_health_def ingest_source_health_def
      ingest_gap_alert_def tallies_def bump_def raw_mismatch_def symbol_mismatch_def symbol_payload_def
      source_mismatch_def gap_mismatch_def count_input_def count_invalid_def count_mismatch_def spot_frame Let_def
      split: option.splits)

lemma fold_tallies:
  assumes "\<And>x a. tallies (f a x) = bump (P x) (tallies a)"
  shows "tallies (foldl f a xs) = (fst (tallies a) + length (filter P xs), snd (tallies a) + length xs)"
  by (induction xs arbitrary: a) (simp_all add: assms bump_def)

lemma tallies_new: "tallies (accumulator_new args ir sr md) = (0, 0)"
  by (simp add: tallies_def accumulator_new_def stats_default_def)

lemma ingest_all_tallies:
  "tallies (ingest_all params args inputs (accumulator_new args ir sr md)) =
     (mismatches params inputs,
      length (ni_raw_events inputs) + length (ni_symbol_health inputs) + length (ni_source_health inputs) +
      length (ni_gap_alerts inputs))"
  by (simp add: ingest_all_def Let_def fold_tallies [OF ingest_tallies(1)] fold_tallies [OF ingest_tallies(2)]
      fold_tallies [OF ingest_tallies(3)] fold_tallies [OF ingest_tallies(4)] mismatches_def
      tallies_new)

text \<open>C32: the outcome of a build is exact: it counts every input record and every record of a known schema whose
  payload does not hash to its stated digest, and it is blocked if there is one, empty if there is no slice, and
  successful otherwise.\<close>

theorem build_status_exact:
  "br_input_record_count (build_slices params args ir sr inputs) =
     length (ni_raw_events inputs) + length (ni_symbol_health inputs) + length (ni_source_health inputs) +
     length (ni_gap_alerts inputs) \<and>
   br_payload_hash_mismatch_count (build_slices params args ir sr inputs) = mismatches params inputs \<and>
   br_status (build_slices params args ir sr inputs) =
     (if 0 < mismatches params inputs then ''blocked''
      else if br_slices (build_slices params args ir sr inputs) = [] then ''empty'' else ''success'')"
  using ingest_all_tallies [of params args inputs ir sr]
  by (simp add: build_slices_def finish_def build_status_def tallies_def Let_def split: prod.split)

section \<open>Records of the sink never block a build\<close>

text \<open>Every input is what the normalizer decodes from a record the sink made from a draft.\<close>

definition written_by_sink :: "l0_params \<Rightarrow> normalize_inputs \<Rightarrow> bool" where
  "written_by_sink params inputs \<longleftrightarrow>
     (\<forall>e \<in> set (ni_raw_events inputs). \<exists>d run n. e = raw_input_of (raw_from_draft params d run n)) \<and>
     (\<forall>y \<in> set (ni_symbol_health inputs). \<exists>d run n. y = symbol_health_input_of (symbol_health_from_draft params d run n)) \<and>
     (\<forall>h \<in> set (ni_source_health inputs). \<exists>d run n. h = source_health_input_of (health_from_draft params d run n)) \<and>
     (\<forall>g \<in> set (ni_gap_alerts inputs). \<exists>d run n. g = gap_alert_input_of (gap_from_draft params d run n))"

lemma sink_digests:
  "\<not> raw_mismatch params (raw_input_of (raw_from_draft params d run n))"
  "\<not> symbol_mismatch params (symbol_health_input_of (symbol_health_from_draft params y run n))"
  "\<not> source_mismatch params (source_health_input_of (health_from_draft params h run n))"
  "\<not> gap_mismatch params (gap_alert_input_of (gap_from_draft params g run n))"
  by (simp_all add: raw_mismatch_def raw_input_of_def raw_from_draft_def symbol_mismatch_def symbol_payload_def
      symbol_health_input_of_def symbol_health_from_draft_def source_mismatch_def source_health_input_of_def
      health_from_draft_def gap_mismatch_def gap_alert_input_of_def gap_from_draft_def payload_hash_def Let_def)

lemma written_no_mismatch: "written_by_sink params inputs \<Longrightarrow> mismatches params inputs = 0"
  unfolding written_by_sink_def mismatches_def by (auto simp: filter_empty_conv) (metis sink_digests)+

text \<open>composition of sink and normalizer. A build whose inputs all come from records the sink created is
  never blocked by a digest: it succeeds exactly when it has a slice.\<close>

theorem sink_records_never_block:
  assumes "written_by_sink params inputs"
  shows "br_payload_hash_mismatch_count (build_slices params args ir sr inputs) = 0 \<and>
    (br_status (build_slices params args ir sr inputs) = ''success'' \<longleftrightarrow>
       br_slices (build_slices params args ir sr inputs) \<noteq> [])"
  using written_no_mismatch [OF assms] ingest_all_tallies [of params args inputs ir sr]
  by (simp add: build_slices_def finish_def build_status_def tallies_def Let_def split: prod.split)

section \<open>Slices account for their events\<close>

definition slice_ident :: "slice_row \<Rightarrow> string \<times> string \<times> int" where
  "slice_ident s = (sl_venue s, sl_symbol_canonical s, sl_window_start_ms s)"

lemma built_rows:
  assumes "0 < na_window_ms args"
  shows "rows_ok args (ba_rows (ingest_all params args inputs (accumulator_new args ir sr md)))"
  using ingest_raw_fold [OF assms accumulator_new_ok, of params] by (simp add: ingest_all_rows acc_ok_def)

lemma final_idents:
  assumes "rows_ok args (ba_rows a)"
  shows "map (slice_ident \<circ> snd) (final_rows a) = map (slice_rank \<circ> fst) (ba_rows a)"
proof -
  have "map (slice_ident \<circ> snd) (final_rows a) = map (slice_rank \<circ> fst) (final_rows a)"
    using final_rows_ok [OF assms]
    by (auto simp: slice_ident_def slice_rank_def row_ok_def row_key_ok_def)
  also have "\<dots> = map (slice_rank \<circ> fst) (ba_rows a)" by (auto simp: final_rows_def)
  finally show ?thesis .
qed


section \<open>No admitted event is lost\<close>

lemma seen_step:
  "ba_seen_event_ids (ingest_raw_event params args e a) \<subseteq> insert (re_event_id e) (ba_seen_event_ids a)"
  "ba_scan_range (ingest_raw_event params args e a) = ba_scan_range a"
  by (auto simp: ingest_raw_event_def ingest_derivative_event_def count_input_def count_invalid_def count_mismatch_def
      spot_frame Let_def split: option.splits)

lemma seen_fold:
  "ba_seen_event_ids (foldl (\<lambda>a e. ingest_raw_event params args e a) a es) \<subseteq> re_event_id ` set es \<union> ba_seen_event_ids a"
  "ba_scan_range (foldl (\<lambda>a e. ingest_raw_event params args e a) a es) = ba_scan_range a"
proof (induction es arbitrary: a)
  case (Cons e es)
  { case 1 then show ?case using Cons.IH(1) [of "ingest_raw_event params args e a"] seen_step(1) [of params args e a]
      by auto
  next
    case 2 then show ?case using Cons.IH(2) by (simp add: seen_step) }
qed simp_all

lemma spot_event_recorded:
  assumes w: "0 < na_window_ms args" and ok: "acc_ok args a"
    and rng: "start_ms (ba_input_range a) mod na_window_ms args = 0" "i64_min \<le> start_ms (ba_input_range a)"
      "end_ms (ba_input_range a) \<le> i64_max"
    and e: "in_range (ba_input_range a) (re_exchange_timestamp_ms e)" "recordable params e"
  shows "\<exists>r. bt_get slice_cmp (event_slice_key args e) (ba_rows (ingest_spot_event params args e a)) = Some r \<and>
    re_event_id e \<in> parents r"
proof -
  define a1 where "a1 = (if in_range (ba_projection_range a) (re_exchange_timestamp_ms e)
    then apply_projection params args e (ensure_projection_identity params args e a) else a)"
  have a1: "acc_ok args a1" "ba_input_range a1 = ba_input_range a"
    using projection_step [OF w ok] ok by (auto simp: a1_def)
  define a2 where "a2 = ensure_input_identity params args e a1"
  have a2: "acc_ok args a2" "ba_input_range a2 = ba_input_range a"
    "identity_key_from_event e \<in> fst ` set (ba_input_identities a2)"
    using ensure_input_identity_step [OF a1(1), where params = params and e = e] a1(2) by (auto simp: a2_def)
  have "re_exchange_timestamp_ms e div na_window_ms args * na_window_ms args
      \<in> set (seed_windows (na_window_ms args) (end_ms (ba_input_range a)) (start_ms (ba_input_range a)))"
    using w rng e(1) by (intro seed_windows_cover) (auto simp: in_range_def)
  with a2 have "bt_contains_key slice_cmp (event_slice_key args e) (ba_rows a2)"
    by (force simp: acc_ok_def seeded_def event_slice_key_def identity_key_from_event_def)
  from apply_event_records [OF _ e(2) _ this, of "ba_input_range a2" "ba_stats a2"] a2 e(1)
  have "\<exists>r. bt_get slice_cmp (event_slice_key args e) (ba_rows (apply_input params args e a2)) = Some r \<and>
      re_event_id e \<in> parents r"
    by (simp add: acc_ok_def apply_input_step(4) [OF w a2(1)])
  then show ?thesis using e(1) a1(2) by (simp add: ingest_spot_event_def a1_def a2_def Let_def)
qed

lemma final_row_recorded:
  assumes "rows_ok args (ba_rows a)" and "bt_get slice_cmp k (ba_rows a) = Some r" and "x \<in> parents r"
  shows "\<exists>s. (k, s) \<in> set (final_rows a) \<and> x \<in> parents s"
  using bt_get_entry [OF assms(1,2)] assms(3) by (force simp: final_rows_def parents_final)

text \<open>no admitted event is lost. When the input range starts on a window boundary, every spot event that
  passes the checks, is the first with its identifier, lies in the range and parses, is a parent of the slice of
  its venue, symbol and window.\<close>

theorem admitted_event_recorded:
  assumes w: "0 < na_window_ms args" and "start_ms ir mod na_window_ms args = 0"
    and "i64_min \<le> start_ms ir" and "end_ms ir \<le> i64_max"
    and raws: "ni_raw_events inputs = pre @ e # post"
    and new: "re_event_id e \<notin> re_event_id ` set pre" and adm: "admissible params args sr e"
    and "\<not> is_derivative_market_event e" and "in_range ir (re_exchange_timestamp_ms e)" and "recordable params e"
  shows "\<exists>s \<in> set (br_slices (build_slices params args ir sr inputs)).
    slice_ident s = slice_rank (event_slice_key args e) \<and> in_window s (re_exchange_timestamp_ms e) \<and>
    re_event_id e \<in> set (sl_parent_event_ids s)"
proof -
  let ?f = "\<lambda>a e. ingest_raw_event params args e a" and ?k = "event_slice_key args e"
  obtain md where md: "build_slices params args ir sr inputs =
      finish (ingest_all params args inputs (accumulator_new args ir sr md))" by (simp add: build_slices_def Let_def)
  let ?a0 = "accumulator_new args ir sr md"
  define a1 where "a1 = foldl ?f ?a0 pre"
  have a1: "acc_ok args a1" "ba_input_range a1 = ir"
    using ingest_raw_fold [OF w accumulator_new_ok, of params] by (auto simp: a1_def accumulator_new_def)
  have "ba_scan_range a1 = sr" "re_event_id e \<notin> ba_seen_event_ids a1"
    using seen_fold [of params args ?a0 pre] new by (auto simp: a1_def accumulator_new_def)
  then obtain b where b: "ingest_raw_event params args e a1 = ingest_spot_event params args e b"
      "ba_input_range b = ir" "acc_ok args b"
    using assms(8) adm a1 by (cases rule: ingest_raw_event_cases [of params args e a1]) auto
  obtain r where r: "bt_get slice_cmp ?k (ba_rows (ingest_raw_event params args e a1)) = Some r" "re_event_id e \<in> parents r"
    using spot_event_recorded [OF w b(3), of e params] assms b by auto
  define a2 where "a2 = foldl ?f (ingest_raw_event params args e a1) post"
  have a2: "acc_ok args a2" "grows (ba_rows (ingest_raw_event params args e a1)) (ba_rows a2)"
    using ingest_raw_fold [OF w, of _ params post] ingest_raw_step [OF w a1(1)] by (auto simp: a2_def)
  define a3 where "a3 = ingest_all params args inputs ?a0"
  have rows: "ba_rows a3 = ba_rows a2" by (simp add: a3_def ingest_all_rows raws a2_def a1_def)
  have ok: "rows_ok args (ba_rows a3)" using a2 rows by (simp add: acc_ok_def)
  obtain r' where r': "bt_get slice_cmp ?k (ba_rows a3) = Some r'" "re_event_id e \<in> parents r'"
    using grows_get [OF a2(2) r(1)] r(2) rows by auto
  obtain s where s: "(?k, s) \<in> set (final_rows a3)" "re_event_id e \<in> parents s"
    using final_row_recorded [OF ok r'] by blast
  have sk: "row_ok args ?k s" by (rule final_rows_ok [OF ok s(1)])
  from s have "s \<in> set (br_slices (build_slices params args ir sr inputs))"
    by (force simp: md finish_slices a3_def)
  moreover have "slice_ident s = slice_rank ?k" using sk
    by (simp add: slice_ident_def slice_rank_def row_ok_def row_key_ok_def)
  ultimately show ?thesis using event_in_window [OF w sk] s(2) by (auto simp: parents_def)
qed

section \<open>The grade complete\<close>

definition symbol_reasons :: "slice_row \<Rightarrow> symbol_health_snapshot option \<Rightarrow> string list" where
  "symbol_reasons r y = (case y of None \<Rightarrow> [''symbol_health_missing'']
     | Some x \<Rightarrow> (if ys_is_tradeable x then [] else [''venue_unavailable'']) @
         (if ys_last_received_time_ms x < sl_window_start_ms r then [''stale''] else []))"

definition source_reasons :: "source_health_snapshot option \<Rightarrow> string list" where
  "source_reasons h = (case h of None \<Rightarrow> [''source_health_missing'']
     | Some x \<Rightarrow> if hs_connection_status x \<noteq> ''connected'' \<or> \<not> is_healthy_level (hs_health_level x)
         then [''source_stale''] else [])"

text \<open>What the health pass does to the fields the grade looks at.\<close>

lemma gap_fold_sel:
  "sl_missing_reasons (foldl (\<lambda>row reason. push_missing reason (row\<lparr>sl_quality_gap := sl_quality_gap row + 1\<rparr>)) r rs) =
     sl_missing_reasons r @ rs"
  "sl_symbol_health_snapshot (foldl (\<lambda>row reason. push_missing reason (row\<lparr>sl_quality_gap := sl_quality_gap row + 1\<rparr>)) r rs)
     = sl_symbol_health_snapshot r"
  "sl_source_health_snapshot (foldl (\<lambda>row reason. push_missing reason (row\<lparr>sl_quality_gap := sl_quality_gap row + 1\<rparr>)) r rs)
     = sl_source_health_snapshot r"
  "sl_window_start_ms (foldl (\<lambda>row reason. push_missing reason (row\<lparr>sl_quality_gap := sl_quality_gap row + 1\<rparr>)) r rs)
     = sl_window_start_ms r"
  "sl_symbol_native (foldl (\<lambda>row reason. push_missing reason (row\<lparr>sl_quality_gap := sl_quality_gap row + 1\<rparr>)) r rs)
     = sl_symbol_native r"
  by (induction rs arbitrary: r; simp add: push_missing_def)+

lemma gap_applies_frame [simp]:
  "gap_applies_to_row g (apply_symbol_health_snapshot r) rng = gap_applies_to_row g r rng"
  "gap_applies_to_row g (apply_source_health_snapshot r) rng = gap_applies_to_row g r rng"
  "gap_applies_to_row g (r\<lparr>sl_symbol_health_snapshot := y\<rparr>) rng = gap_applies_to_row g r rng"
  "gap_applies_to_row g (r\<lparr>sl_source_health_snapshot := h\<rparr>) rng = gap_applies_to_row g r rng"
  by (simp_all add: gap_applies_to_row_def apply_symbol_health_snapshot_def apply_source_health_snapshot_def
      push_missing_def Let_def split: option.split)

lemma health_sel:
  fixes sh so gs rng r
  defines "r' \<equiv> apply_health_and_gaps_to_row sh so gs rng r"
  shows "sl_missing_reasons r' = sl_missing_reasons r @ symbol_reasons r (sl_symbol_health_snapshot r') @
      source_reasons (sl_source_health_snapshot r') @
      map (\<lambda>g. ''gap_alert.'' @ gi_gap_type g) (filter (\<lambda>g. gap_applies_to_row g r rng) gs)"
    and "sl_symbol_health_snapshot r' = latest_symbol_health sh r"
    and "sl_source_health_snapshot r' = latest_source_health so r"
    and "sl_window_start_ms r' = sl_window_start_ms r" and "sl_symbol_native r' = sl_symbol_native r"
proof -
  have so: "latest_source_health so (r\<lparr>sl_symbol_health_snapshot := y\<rparr>) = latest_source_health so r" for y
    by (simp add: latest_source_health_def)
  show y: "sl_symbol_health_snapshot r' = latest_symbol_health sh r"
    and h: "sl_source_health_snapshot r' = latest_source_health so r"
    and "sl_window_start_ms r' = sl_window_start_ms r" and "sl_symbol_native r' = sl_symbol_native r"
    unfolding r'_def apply_health_and_gaps_to_row_def apply_gap_alerts_def Let_def gap_fold_sel
    by (simp_all add: so Let_def apply_symbol_health_snapshot_def apply_source_health_snapshot_def push_missing_def split: option.split)
  show "sl_missing_reasons r' = sl_missing_reasons r @ symbol_reasons r (sl_symbol_health_snapshot r') @
      source_reasons (sl_source_health_snapshot r') @
      map (\<lambda>g. ''gap_alert.'' @ gi_gap_type g) (filter (\<lambda>g. gap_applies_to_row g r rng) gs)"
    unfolding y h unfolding r'_def apply_health_and_gaps_to_row_def apply_gap_alerts_def Let_def gap_fold_sel
      gap_applies_frame so
    by (simp add: apply_symbol_health_snapshot_def apply_source_health_snapshot_def push_missing_def symbol_reasons_def
        source_reasons_def Let_def split: option.split)
qed

lemma order_sel:
  "sl_missing_reasons (normalize_event_order r) = sl_missing_reasons r"
  "sl_symbol_health_snapshot (normalize_event_order r) = sl_symbol_health_snapshot r"
  "sl_source_health_snapshot (normalize_event_order r) = sl_source_health_snapshot r"
  "sl_window_start_ms (normalize_event_order r) = sl_window_start_ms r"
  "sl_symbol_native (normalize_event_order r) = sl_symbol_native r"
  by (simp_all add: normalize_event_order_def Let_def)

lemma completeness_frame: "completeness (r\<lparr>sl_slice_completeness := c\<rparr>) = completeness r"
  by (simp add: completeness_def silent_def)

lemma mid_sel:
  "sl_missing_reasons (add_mid_price r) = sl_missing_reasons r"
  "sl_symbol_health_snapshot (add_mid_price r) = sl_symbol_health_snapshot r"
  "sl_source_health_snapshot (add_mid_price r) = sl_source_health_snapshot r"
  "sl_window_start_ms (add_mid_price r) = sl_window_start_ms r"
  "sl_symbol_native (add_mid_price r) = sl_symbol_native r"
  "sl_best_bid (add_mid_price r) = sl_best_bid r" "sl_best_ask (add_mid_price r) = sl_best_ask r"
  by (simp_all add: add_mid_price_def Let_def split: option.split)

lemma silence_sel:
  "sl_missing_reasons (add_silence_reason r) = [] \<Longrightarrow> sl_missing_reasons r = []"
  "sl_symbol_health_snapshot (add_silence_reason r) = sl_symbol_health_snapshot r"
  "sl_source_health_snapshot (add_silence_reason r) = sl_source_health_snapshot r"
  "sl_window_start_ms (add_silence_reason r) = sl_window_start_ms r"
  "sl_symbol_native (add_silence_reason r) = sl_symbol_native r"
  by (simp_all add: add_silence_reason_def push_missing_def split: if_splits)

lemma sort_dedup_empty [simp]: "sort_dedup xs = [] \<longleftrightarrow> xs = []"
  by (simp add: sort_dedup_def)

lemma finalize_sel:
  "sl_missing_reasons (finalize_row r) = [] \<Longrightarrow> sl_missing_reasons r = [] \<and>
     (sl_best_bid (finalize_row r) \<noteq> None \<or> sl_best_ask (finalize_row r) \<noteq> None)"
  "sl_slice_completeness (finalize_row r) = completeness (finalize_row r)"
  "sl_symbol_health_snapshot (finalize_row r) = sl_symbol_health_snapshot r"
  "sl_source_health_snapshot (finalize_row r) = sl_source_health_snapshot r"
  "sl_window_start_ms (finalize_row r) = sl_window_start_ms r"
  "sl_symbol_native (finalize_row r) = sl_symbol_native r"
  using silence_sel(1) [of "normalize_event_order r"]
  by (simp_all add: finalize_row_def Let_def mid_sel order_sel silence_sel(2-5) completeness_frame push_missing_def
      split: if_splits)

lemma completeness_complete:
  "completeness r = ''complete'' \<Longrightarrow> \<not> silent r \<and> sl_missing_reasons r = [] \<and> sl_quality_delayed r \<le> 0 \<and>
     sl_quality_stale r \<le> 0 \<and> sl_quality_gap r \<le> 0 \<and> sl_quality_invalid r \<le> 0 \<and> sl_source_role r \<noteq> ''reference''"
  by (auto simp: completeness_def split: if_splits)

definition symbol_valid :: "l0_params \<Rightarrow> symbol_health_input \<Rightarrow> bool" where
  "symbol_valid params row \<longleftrightarrow> si_schema_version row = ''symbol_health_v1'' \<and>
     payload_hash params (symbol_payload row) = si_payload_sha256 row"

definition source_valid :: "l0_params \<Rightarrow> source_health_input \<Rightarrow> bool" where
  "source_valid params row \<longleftrightarrow> hi_schema_version row = ''source_health_v2'' \<and>
     payload_hash params (hi_payload_json row) = hi_payload_sha256 row"

lemma ingest_frame:
  "attachments (ingest_raw_event params args e a) = attachments a"
  "attachments (ingest_symbol_health params y a) =
     (ba_symbol_health a @ (if symbol_valid params y then [y] else []), ba_source_health a, ba_gap_alerts a)"
  "attachments (ingest_source_health params h a) =
     (ba_symbol_health a, ba_source_health a @ (if source_valid params h then [h] else []), ba_gap_alerts a)"
  "attachments (ingest_gap_alert params g a) =
     (ba_symbol_health a, ba_source_health a, ba_gap_alerts a @ (if gap_valid params g then [g] else []))"
  "ba_input_range (ingest_symbol_health params y a) = ba_input_range a"
  "ba_input_range (ingest_source_health params h a) = ba_input_range a"
  "ba_input_range (ingest_gap_alert params g a) = ba_input_range a"
  by (auto simp: ingest_raw_event_def ingest_derivative_event_def ingest_symbol_health_def ingest_source_health_def
      ingest_gap_alert_def count_input_def count_invalid_def count_mismatch_def gap_valid_def
      symbol_valid_def symbol_payload_def source_valid_def attachments_def Let_def
      spot_frame(5) [unfolded attachments_def, simplified] split: option.splits)

lemma fold_same: "(\<And>x a. g (f a x) = g a) \<Longrightarrow> g (foldl f a xs) = g a"
  by (induction xs arbitrary: a) simp_all

lemma fold_attachments:
  "attachments (foldl (\<lambda>a row. ingest_symbol_health params row a) a ys) =
     (ba_symbol_health a @ filter (symbol_valid params) ys, ba_source_health a, ba_gap_alerts a)"
  "attachments (foldl (\<lambda>a row. ingest_source_health params row a) a hs) =
     (ba_symbol_health a, ba_source_health a @ filter (source_valid params) hs, ba_gap_alerts a)"
  "attachments (foldl (\<lambda>a row. ingest_gap_alert params row a) a gs) =
     (ba_symbol_health a, ba_source_health a, ba_gap_alerts a @ filter (gap_valid params) gs)"
proof -
  note sel = ingest_frame(2-4) [unfolded attachments_def, simplified]
  show "attachments (foldl (\<lambda>a row. ingest_symbol_health params row a) a ys) =
      (ba_symbol_health a @ filter (symbol_valid params) ys, ba_source_health a, ba_gap_alerts a)"
    by (induction ys arbitrary: a) (simp_all add: sel attachments_def)
  show "attachments (foldl (\<lambda>a row. ingest_source_health params row a) a hs) =
      (ba_symbol_health a, ba_source_health a @ filter (source_valid params) hs, ba_gap_alerts a)"
    by (induction hs arbitrary: a) (simp_all add: sel attachments_def)
  show "attachments (foldl (\<lambda>a row. ingest_gap_alert params row a) a gs) =
      (ba_symbol_health a, ba_source_health a, ba_gap_alerts a @ filter (gap_valid params) gs)"
    by (induction gs arbitrary: a) (simp_all add: sel attachments_def)
qed

lemma ingest_all_attachments:
  "attachments (ingest_all params args inputs (accumulator_new args ir sr md)) =
     (filter (symbol_valid params) (ni_symbol_health inputs), filter (source_valid params) (ni_source_health inputs),
      filter (gap_valid params) (ni_gap_alerts inputs))"
proof -
  have "attachments (foldl (\<lambda>a e. ingest_raw_event params args e a) (accumulator_new args ir sr md) es) = ([], [], [])" for es
    by (simp add: fold_same [where g = attachments] ingest_frame(1)) (simp add: attachments_def accumulator_new_def)
  then show ?thesis
    using fold_attachments [of params] by (simp add: ingest_all_def Let_def attachments_def)
qed

lemma ingest_all_range:
  assumes "0 < na_window_ms args"
  shows "ba_input_range (ingest_all params args inputs (accumulator_new args ir sr md)) = ir"
  using ingest_raw_fold [OF assms accumulator_new_ok, of params]
  by (simp add: ingest_all_def Let_def fold_same [where g = ba_input_range] ingest_frame accumulator_new_def)


section \<open>A concrete build\<close>

text \<open>One best bid and ask with matching health records, over one window of a second. The digest is constant.\<close>

definition demo_params :: l0_params where
  "demo_params = \<lparr>p_digest = \<lambda>_. [7], p_hash = \<lambda>_. 0, p_calendar = \<lambda>_. None,
     p_json = \<lambda>_. Some (JObject [(''b'', JNumber (FloatNum (Fin 96))), (''B'', JNumber (FloatNum (Fin 1))),
       (''a'', JNumber (FloatNum (Fin 160))), (''A'', JNumber (FloatNum (Fin 1)))])\<rparr>"

definition demo_args :: normalize_args where
  "demo_args = normalize_with_defaults\<lparr>na_l0_s3_bucket := ''l0'', na_l1_s3_bucket := ''l1'',
     na_projection_lookback_ms := 1000\<rparr>"

definition demo_draft :: raw_draft where
  "demo_draft = \<lparr>rd_event_type = ''book_ticker'', rd_venue = ''binance'', rd_source_role = ''primary'',
     rd_market_type = ''spot'', rd_symbol_native = ''BTCUSDT'', rd_symbol_canonical = ''BTC-USDT'',
     rd_base_asset = ''BTC'', rd_quote_asset = ''USDT'', rd_exchange_timestamp_ms = 1500,
     rd_ingest_timestamp_ms = 1510, rd_sequence_id = ''1'', rd_sequence_tag = [], rd_exchange_sequence = Some 1,
     rd_diff_first_update_id = None, rd_diff_final_update_id = None, rd_is_snapshot = False,
     rd_stream_type = ''ws'', rd_stream_phase = ''live'', rd_payload_json = ''{}''\<rparr>"

definition demo_symbol_draft :: symbol_health_draft where
  "demo_symbol_draft = \<lparr>yd_venue = ''binance'', yd_symbol_native = ''BTCUSDT'', yd_observed_at_ms = 1900,
     yd_last_event_time_ms = 1500, yd_latency_ms = 10, yd_is_tradeable = True, yd_reason_codes = []\<rparr>"

definition demo_health_draft :: source_health_draft where
  "demo_health_draft = \<lparr>sd_venue = ''binance'', sd_source_role = ''primary'', sd_observed_at_ms = 1900,
     sd_connection_status = ''connected'', sd_heartbeat_delay_ms = 0, sd_stream_lag_ms = 0, sd_recent_gap_count = 0,
     sd_book_rebuild_count = 0, sd_health_level = ''ok'', sd_payload_json = ''{}''\<rparr>"

definition demo_quote :: raw_input_event where
  "demo_quote = raw_input_of (raw_from_draft demo_params demo_draft ''run'' 0)"

definition demo_inputs :: normalize_inputs where
  "demo_inputs = no_inputs\<lparr>ni_raw_events := [demo_quote],
     ni_symbol_health := [symbol_health_input_of (symbol_health_from_draft demo_params demo_symbol_draft ''run'' 0)],
     ni_source_health := [source_health_input_of (health_from_draft demo_params demo_health_draft ''run'' 0)]\<rparr>"

definition demo_range :: input_range where
  "demo_range = \<lparr>start_ms = 1000, end_ms = 2000\<rparr>"

definition demo_build :: build_result where
  "demo_build = build_slices demo_params demo_args demo_range \<lparr>start_ms = 0, end_ms = 3000\<rparr> demo_inputs"

lemma demo_windows: "seed_windows 1000 2000 1000 = [1000]"
  by code_simp

lemma demo_digest: "sha256_hex demo_params x = ''07''"
  by (simp add: sha256_hex_def demo_params_def) code_simp

lemma demo_quote_value:
  "demo_quote = \<lparr>re_event_id = ''evt_binance_book_ticker_1510_0'', re_producer_run_id = ''run'', re_venue = ''binance'',
     re_source_role = ''primary'', re_market_type = ''spot'', re_event_type = ''book_ticker'',
     re_symbol_native = ''BTCUSDT'', re_symbol_canonical = ''BTC-USDT'', re_base_asset = ''BTC'',
     re_quote_asset = ''USDT'', re_exchange_timestamp_ms = 1500, re_ingest_timestamp_ms = 1510,
     re_exchange_sequence = Some 1, re_payload_json = ''{}'', re_payload_sha256 = ''07'',
     re_schema_version = ''raw_market_event_v2''\<rparr>"
  by code_simp

lemma demo_sel:
  "re_event_id demo_quote = ''evt_binance_book_ticker_1510_0''" "re_venue demo_quote = ''binance''"
  "re_symbol_native demo_quote = ''BTCUSDT''" "re_symbol_canonical demo_quote = ''BTC-USDT''"
  "re_source_role demo_quote = ''primary''" "re_event_type demo_quote = ''book_ticker''"
  "re_exchange_timestamp_ms demo_quote = 1500" "re_ingest_timestamp_ms demo_quote = 1510"
  "na_window_ms demo_args = 1000" "na_max_latency_ms demo_args = 1000"
  "start_ms demo_range = 1000" "end_ms demo_range = 2000"
  by (simp_all add: demo_quote_value demo_args_def normalize_with_defaults_def demo_range_def)

lemma demo_book:
  "parse_book_ticker demo_params demo_quote = Some \<lparr>bn_exchange_timestamp_ms = 1500, bn_ingest_timestamp_ms = 1510,
     bn_best_bid = Fin 96, bn_best_bid_qty = Fin 1, bn_best_ask = Fin 160, bn_best_ask_qty = Fin 1,
     bn_exchange_sequence = Some 1, bn_parent_event_id = ''evt_binance_book_ticker_1510_0''\<rparr>"
  by code_simp

text \<open>The first spot event of a build seeds its windows and is applied to them.\<close>

lemma first_event_rows:
  assumes "ba_input_identities a = []" and "in_range (ba_input_range a) (re_exchange_timestamp_ms e)"
  shows "\<exists>st. ba_rows (ingest_spot_event params args e a) = fst (apply_event params args (ba_input_range a) e
    (seed_identity_slices params args (ba_input_range a) (identity_from_event e) (ba_rows a), st))"
proof -
  define a1 where "a1 = (if in_range (ba_projection_range a) (re_exchange_timestamp_ms e)
    then apply_projection params args e (ensure_projection_identity params args e a) else a)"
  have a1: "ba_rows a1 = ba_rows a" "ba_input_range a1 = ba_input_range a" "ba_input_identities a1 = []"
    using assms(1) by (auto simp: a1_def apply_projection_def ensure_projection_identity_def Let_def split: prod.split)
  have "ba_rows (ingest_spot_event params args e a) = fst (apply_event params args (ba_input_range a) e
      (seed_identity_slices params args (ba_input_range a) (identity_from_event e) (ba_rows a), ba_stats a1))"
    using assms(2) a1 unfolding ingest_spot_event_def Let_def a1_def [symmetric]
    by (simp add: apply_input_def ensure_input_identity_def bt_contains_key_def Let_def split: prod.split)
  then show ?thesis ..
qed

lemma demo_admissible:
  "admissible demo_params demo_args \<lparr>start_ms = 0, end_ms = 3000\<rparr> demo_quote" "\<not> is_derivative_market_event demo_quote"
  by (simp_all add: admissible_def demo_quote_value payload_hash_def demo_digest demo_args_def normalize_with_defaults_def
      i64_saturating_add_def sat_i64_def i64_consts is_derivative_market_event_def)

definition demo_slice :: slice_row where
  "demo_slice = fst (apply_book_event demo_params demo_args demo_quote
     (empty_slice demo_params demo_args (identity_from_event demo_quote) 1000, stats_default))"

lemma demo_rows:
  "ba_rows (ingest_all demo_params demo_args demo_inputs
     (accumulator_new demo_args demo_range \<lparr>start_ms = 0, end_ms = 3000\<rparr> md)) =
   [(event_slice_key demo_args demo_quote, demo_slice)]"
proof -
  let ?a0 = "accumulator_new demo_args demo_range \<lparr>start_ms = 0, end_ms = 3000\<rparr> md"
  define a where "a = (count_input (re_schema_version demo_quote) ?a0)
    \<lparr>ba_seen_event_ids := insert (re_event_id demo_quote) {}\<rparr>"
  have a: "ingest_raw_event demo_params demo_args demo_quote ?a0 = ingest_spot_event demo_params demo_args demo_quote a"
    using demo_admissible by (simp add: ingest_raw_event_def admissible_def a_def count_input_def accumulator_new_def Let_def
        not_le)
  have sel: "ba_rows a = []" "ba_input_identities a = []" "ba_input_range a = demo_range"
    by (simp_all add: a_def count_input_def accumulator_new_def)
  obtain st where st: "ba_rows (ingest_spot_event demo_params demo_args demo_quote a) =
      fst (apply_event demo_params demo_args demo_range demo_quote
        (seed_identity_slices demo_params demo_args demo_range (identity_from_event demo_quote) [], st))"
    using first_event_rows [OF sel(2), of demo_quote demo_params demo_args] sel(1,3)
    by (auto simp: in_range_def demo_sel)
  have seed: "seed_identity_slices demo_params demo_args demo_range (identity_from_event demo_quote) [] =
      [(event_slice_key demo_args demo_quote, empty_slice demo_params demo_args (identity_from_event demo_quote) 1000)]"
    by (simp add: seed_identity_slices_def demo_sel demo_windows or_insert_def bt_contains_key_def event_slice_key_def
        identity_from_event_def)
  have "fst (apply_event_to_row demo_params demo_args demo_quote (empty_slice demo_params demo_args
      (identity_from_event demo_quote) 1000, st)) = demo_slice"
    by (simp add: apply_event_to_row_def demo_slice_def apply_book_event_def demo_book Let_def demo_sel)
  then obtain st' where "apply_event_to_row demo_params demo_args demo_quote (empty_slice demo_params demo_args
      (identity_from_event demo_quote) 1000, st) = (demo_slice, st')" by (metis prod.collapse)
  then show ?thesis unfolding ingest_all_rows
    by (simp add: demo_inputs_def a st seed apply_event_def demo_sel cmp_by_def Let_def
        split: prod.split)
qed

lemma finalize_complete:
  assumes "sl_missing_reasons r = []" and "sl_book_ticker_count r = 1" and "sl_best_bid r = Some x"
    and "sl_quality_delayed r = 0" and "sl_quality_stale r = 0" and "sl_quality_gap r = 0"
    and "sl_quality_invalid r = 0" and "sl_source_role r = ''primary''"
  shows "sl_slice_completeness (finalize_row r) = ''complete''"
proof -
  let ?o = "normalize_event_order r"
  have o: "sl_missing_reasons ?o = []" "sl_book_ticker_count ?o = 1" "sl_best_bid ?o \<noteq> None"
    "sl_quality_delayed ?o = 0" "sl_quality_stale ?o = 0" "sl_quality_gap ?o = 0" "sl_quality_invalid ?o = 0"
    "sl_source_role ?o = ''primary''"
    using assms by (simp_all add: normalize_event_order_def Let_def)
  have c: "completeness (add_mid_price u) = completeness u" for u
    by (cases "sl_best_bid u"; cases "sl_best_ask u") (simp_all add: completeness_def silent_def add_mid_price_def Let_def)
  show ?thesis using o
    by (simp add: finalize_row_def add_silence_reason_def silent_def c Let_def)
      (simp add: completeness_def silent_def sort_dedup_def)
qed

lemma demo_slice_fields:
  "sl_venue demo_slice = ''binance''" "sl_symbol_native demo_slice = ''BTCUSDT''" "sl_window_start_ms demo_slice = 1000"
  "sl_window_end_ms demo_slice = 2000" "sl_missing_reasons demo_slice = []" "sl_book_ticker_count demo_slice = 1"
  "sl_quality_delayed demo_slice = 0" "sl_quality_stale demo_slice = 0" "sl_quality_gap demo_slice = 0"
  "sl_quality_invalid demo_slice = 0" "sl_source_role demo_slice = ''primary''"
  "sl_best_bid demo_slice = Some (Fin 96)" "sl_trade_events demo_slice = []"
  "length (sl_book_ticker_events demo_slice) = 1"
  by (simp_all add: demo_slice_def apply_book_event_def demo_book demo_sel event_defs empty_slice_def
      identity_from_event_def i64_saturating_add_def i64_saturating_sub_def sat_i64_def i64_consts Let_def)

text \<open>The health records of the demonstration leave the row as it is, apart from the snapshots.\<close>

lemma demo_health:
  fixes a
  defines "r \<equiv> apply_health_and_gaps_to_row (ni_symbol_health demo_inputs) (ni_source_health demo_inputs) [] demo_range
    demo_slice"
  shows "sl_slice_completeness (finalize_row r) = ''complete''"
proof -
  obtain y h where r: "r = demo_slice\<lparr>sl_symbol_health_snapshot := Some y, sl_source_health_snapshot := Some h\<rparr>"
    by (simp add: r_def apply_health_and_gaps_to_row_def latest_symbol_health_def latest_source_health_def
        max_by_key_def demo_inputs_def symbol_health_input_of_def symbol_health_from_draft_def demo_symbol_draft_def
        source_health_input_of_def health_from_draft_def demo_health_draft_def demo_slice_fields Let_def
        apply_symbol_health_snapshot_def apply_source_health_snapshot_def apply_gap_alerts_def is_healthy_level_def
        i64_saturating_add_def sat_i64_def i64_consts)
  show ?thesis by (rule finalize_complete) (simp_all add: r demo_slice_fields)
qed

lemma demo_built:
  "\<exists>s. s \<in> set (br_slices demo_build) \<and> sl_slice_completeness s = ''complete''"
proof -
  let ?s = "finalize_row (apply_health_and_gaps_to_row (ni_symbol_health demo_inputs) (ni_source_health demo_inputs) []
    demo_range demo_slice)"
  obtain md where md: "demo_build = finish (ingest_all demo_params demo_args demo_inputs
      (accumulator_new demo_args demo_range \<lparr>start_ms = 0, end_ms = 3000\<rparr> md))"
    by (simp add: demo_build_def build_slices_def Let_def)
  define a where "a = ingest_all demo_params demo_args demo_inputs
    (accumulator_new demo_args demo_range \<lparr>start_ms = 0, end_ms = 3000\<rparr> md)"
  have a: "ba_symbol_health a = ni_symbol_health demo_inputs" "ba_source_health a = ni_source_health demo_inputs"
      "ba_gap_alerts a = []" "ba_input_range a = demo_range"
    using ingest_all_attachments [of demo_params demo_args demo_inputs demo_range _ md]
      ingest_all_range [of demo_args demo_params demo_inputs demo_range _ md]
    by (simp_all add: a_def attachments_def demo_sel demo_inputs_def no_inputs_def symbol_valid_def source_valid_def
        payload_hash_def demo_digest symbol_health_input_of_def symbol_health_from_draft_def
        source_health_input_of_def health_from_draft_def Let_def)
  have "?s \<in> set (br_slices demo_build)"
    by (simp add: md finish_slices final_rows_def demo_rows a [unfolded a_def])
  with demo_health show ?thesis by blast
qed

theorem sink_records_never_block_witness:
  "written_by_sink demo_params demo_inputs \<and> br_status demo_build = ''success''"
proof -
  have "written_by_sink demo_params demo_inputs"
    by (auto simp: written_by_sink_def demo_inputs_def no_inputs_def demo_quote_def)
  then show ?thesis
    using sink_records_never_block [of demo_params demo_inputs demo_args demo_range "\<lparr>start_ms = 0, end_ms = 3000\<rparr>"]
      demo_built by (auto simp: demo_build_def)
qed


theorem admitted_event_recorded_witness:
  "\<exists>s. s \<in> set (br_slices demo_build) \<and> sl_window_start_ms s = 1000 \<and> re_event_id demo_quote \<in> set (sl_parent_event_ids s)"
proof -
  have "\<exists>s \<in> set (br_slices demo_build). slice_ident s = slice_rank (event_slice_key demo_args demo_quote) \<and>
      in_window s (re_exchange_timestamp_ms demo_quote) \<and> re_event_id demo_quote \<in> set (sl_parent_event_ids s)"
    unfolding demo_build_def
  proof (rule admitted_event_recorded [where pre = "[]" and post = "[]"])
    show "ni_raw_events demo_inputs = [] @ demo_quote # []" by (simp add: demo_inputs_def)
  qed (simp_all add: demo_sel demo_admissible recordable_def demo_book in_range_def i64_consts)
  then show ?thesis
    by (auto simp: slice_ident_def slice_rank_def event_slice_key_def demo_sel)
qed


end
