(* ===== verification/L1_Index.thy ===== *)
theory L1_Index
  imports Slice_Build S3_Client
begin

text \<open>
  Publication and reading of L1 runs (\<open>src/normalize/publish\<close>, \<open>write/keys.rs\<close>, \<open>admissibility\<close>,
  \<open>l1_reader.rs\<close>): a run's report and manifest are uploaded and one pointer per window is written; a reader
  follows the pointer of its first window to the manifest and the report and accepts them only when all three
  agree. JSON encoding is a parameter (\<open>l1_codec\<close>), the object store is a locale. The main result is the round
  trip: what a successful run publishes, a reader of any window of the run accepts.
\<close>

section \<open>Object keys (write/keys.rs)\<close>

definition time_part :: "l0_params \<Rightarrow> int \<Rightarrow> string \<times> nat" where
  "time_part params t = (case p_calendar params t of Some p \<Rightarrow> p | None \<Rightarrow> (''1970-01-01'', 0))"

definition slice_object_key :: "l0_params \<Rightarrow> string \<Rightarrow> int \<Rightarrow> int \<Rightarrow> string \<Rightarrow> string" where
  "slice_object_key params venue window_start_ms window_ms run_id =
     (let (date, hour) = time_part params window_start_ms
      in ''normalized_market_slice/venue='' @ venue @ ''/event_date='' @ date @ ''/hour='' @ show_pad 2 hour @
         ''/window_ms='' @ show_int window_ms @ ''/shard=00/run_id='' @ run_id @ ''-part-000001.parquet'')"

definition report_object_key :: "string \<Rightarrow> string" where
  "report_object_key run_id = ''normalization_report/run_id='' @ run_id @ ''/report.json''"

definition manifest_object_key :: "string \<Rightarrow> string" where
  "manifest_object_key run_id = ''runs/run_id='' @ run_id @ ''/manifest.json''"

definition index_pointer_key :: "l0_params \<Rightarrow> int \<Rightarrow> int \<Rightarrow> string" where
  "index_pointer_key params window_ms window_start_ms =
     (let (date, hour) = time_part params window_start_ms
      in ''l1_index/window_ms='' @ show_int window_ms @ ''/event_date='' @ date @ ''/hour='' @ show_pad 2 hour @
         ''/window_start_ms='' @ show_int window_start_ms @ ''.json'')"

section \<open>Documents (model/report.rs, admissibility/types.rs, publish.rs)\<close>

record l1_manifest =
  mf_schema_version :: string
  mf_l1_run_id :: string
  mf_status :: string
  mf_input_time_range_start_ms :: int
  mf_input_time_range_end_ms :: int
  mf_schema_version_emitted :: string
  mf_report_key :: string
  mf_output_object_keys :: "string list"
  mf_market_data_quality_summary_key :: "string option"
  mf_market_feature_delta_key :: "string option"
  mf_market_feature_delta_summary_key :: "string option"
  mf_market_regime_context_key :: "string option"
  mf_symbol_universe_snapshot_key :: "string option"
  mf_symbol_universe_bootstrap_rollup_key :: "string option"
  mf_output_record_count :: nat
  mf_slice_count_total :: nat
  mf_finished_at_ms :: int

record normalization_report =
  rp_schema_version :: string
  rp_l1_run_id :: string
  rp_input_time_range_start_ms :: int
  rp_input_time_range_end_ms :: int
  rp_run_mode :: string
  rp_fallback_alert :: bool
  rp_input_schema_versions :: "string list"
  rp_input_local_object_count :: nat
  rp_input_s3_object_count :: nat
  rp_input_object_keys :: "string list"
  rp_input_record_count :: nat
  rp_duplicate_event_count :: nat
  rp_invalid_event_count :: nat
  rp_payload_hash_mismatch_count :: nat
  rp_slice_count_total :: nat
  rp_slice_count_complete :: nat
  rp_slice_count_partial :: nat
  rp_slice_count_incomplete :: nat
  rp_slice_count_reference_only :: nat
  rp_output_object_keys :: "string list"
  rp_market_data_quality_summary_key :: "string option"
  rp_market_feature_delta_key :: "string option"
  rp_market_feature_delta_summary_key :: "string option"
  rp_market_regime_context_key :: "string option"
  rp_symbol_universe_snapshot_key :: "string option"
  rp_symbol_universe_bootstrap_rollup_key :: "string option"
  rp_status :: string
  rp_failure_reason :: "string option"
  rp_manifest_key :: string
  rp_started_at_ms :: int
  rp_finished_at_ms :: int
  rp_runner_git_sha :: string
  rp_runner_git_dirty :: bool
  rp_runner_build_profile :: string
  rp_schema_version_emitted :: string

record l1_index_pointer =
  ip_schema_version :: string
  ip_canonical_manifest_key :: string
  ip_l1_run_id :: string
  ip_status :: string
  ip_finished_at_ms :: int
  ip_input_time_range_start_ms :: int
  ip_input_time_range_end_ms :: int
  ip_indexed_window_start_ms :: "int option"
  ip_indexed_window_end_ms :: "int option"
  ip_schema_version_emitted :: string

record l1_read_request =
  rq_input_range :: input_range
  rq_schema_version_emitted :: string

record l1_read_plan =
  pl_l1_run_id :: string
  pl_manifest_key :: string
  pl_report_key :: string
  pl_output_object_keys :: "string list"
  pl_market_data_quality_summary_key :: "string option"
  pl_market_feature_delta_key :: "string option"
  pl_market_feature_delta_summary_key :: "string option"
  pl_market_regime_context_key :: "string option"
  pl_symbol_universe_snapshot_key :: "string option"

record published_output_keys =
  pk_slice_output_keys :: "string list"
  pk_market_data_quality_summary_key :: "string option"
  pk_market_feature_delta_key :: "string option"
  pk_market_feature_delta_summary_key :: "string option"
  pk_market_regime_context_key :: "string option"
  pk_symbol_universe_snapshot_key :: "string option"
  pk_symbol_universe_bootstrap_rollup_key :: "string option"

record run_timing =
  tm_started_at_ms :: int
  tm_finished_at_ms :: int

text \<open>Values fixed when the program is compiled.\<close>

record runner_info =
  ri_git_sha :: string
  ri_git_dirty :: bool
  ri_build_profile :: string

definition REPORT_SCHEMA_VERSION :: string where "REPORT_SCHEMA_VERSION = ''normalization_report_v1''"
definition MANIFEST_SCHEMA_VERSION :: string where "MANIFEST_SCHEMA_VERSION = ''l1_manifest_v1''"
definition POINTER_SCHEMA_VERSION :: string where "POINTER_SCHEMA_VERSION = ''l1_index_pointer_v1''"

definition normalized_market_slice :: "input_range \<Rightarrow> l1_read_request" where
  "normalized_market_slice rng = \<lparr>rq_input_range = rng, rq_schema_version_emitted = SLICE_SCHEMA_VERSION\<rparr>"

section \<open>Building the documents (publish/manifest_index/records.rs, index.rs)\<close>

definition count_grade :: "string \<Rightarrow> slice_row list \<Rightarrow> nat" where
  "count_grade grade slices = length (filter (\<lambda>s. sl_slice_completeness s = grade) slices)"

definition report ::
    "runner_info \<Rightarrow> build_result \<Rightarrow> string \<Rightarrow> input_range \<Rightarrow> run_timing \<Rightarrow> string \<Rightarrow> published_output_keys \<Rightarrow>
     normalization_report" where
  "report ri build l1_run_id rng timing manifest_key keys =
     \<lparr>rp_schema_version = REPORT_SCHEMA_VERSION, rp_l1_run_id = l1_run_id,
      rp_input_time_range_start_ms = start_ms rng, rp_input_time_range_end_ms = end_ms rng,
      rp_run_mode = br_run_mode build, rp_fallback_alert = br_fallback_alert build,
      rp_input_schema_versions = br_input_schema_versions build,
      rp_input_local_object_count = br_input_local_object_count build,
      rp_input_s3_object_count = br_input_s3_object_count build, rp_input_object_keys = br_input_object_keys build,
      rp_input_record_count = br_input_record_count build, rp_duplicate_event_count = br_duplicate_event_count build,
      rp_invalid_event_count = br_invalid_event_count build,
      rp_payload_hash_mismatch_count = br_payload_hash_mismatch_count build,
      rp_slice_count_total = length (br_slices build),
      rp_slice_count_complete = count_grade ''complete'' (br_slices build),
      rp_slice_count_partial = count_grade ''partial'' (br_slices build),
      rp_slice_count_incomplete = length (filter (\<lambda>s. sl_slice_completeness s \<noteq> ''complete'' \<and>
        sl_slice_completeness s \<noteq> ''partial'' \<and> sl_slice_completeness s \<noteq> ''reference_only'') (br_slices build)),
      rp_slice_count_reference_only = count_grade ''reference_only'' (br_slices build),
      rp_output_object_keys = pk_slice_output_keys keys,
      rp_market_data_quality_summary_key = pk_market_data_quality_summary_key keys,
      rp_market_feature_delta_key = pk_market_feature_delta_key keys,
      rp_market_feature_delta_summary_key = pk_market_feature_delta_summary_key keys,
      rp_market_regime_context_key = pk_market_regime_context_key keys,
      rp_symbol_universe_snapshot_key = pk_symbol_universe_snapshot_key keys,
      rp_symbol_universe_bootstrap_rollup_key = pk_symbol_universe_bootstrap_rollup_key keys,
      rp_status = br_status build, rp_failure_reason = br_failure_reason build, rp_manifest_key = manifest_key,
      rp_started_at_ms = tm_started_at_ms timing, rp_finished_at_ms = tm_finished_at_ms timing,
      rp_runner_git_sha = ri_git_sha ri, rp_runner_git_dirty = ri_git_dirty ri,
      rp_runner_build_profile = ri_build_profile ri, rp_schema_version_emitted = SLICE_SCHEMA_VERSION\<rparr>"

definition manifest ::
    "normalization_report \<Rightarrow> string \<Rightarrow> input_range \<Rightarrow> string \<Rightarrow> published_output_keys \<Rightarrow> run_timing \<Rightarrow> l1_manifest" where
  "manifest rep l1_run_id rng report_key keys timing =
     \<lparr>mf_schema_version = MANIFEST_SCHEMA_VERSION, mf_l1_run_id = l1_run_id, mf_status = rp_status rep,
      mf_input_time_range_start_ms = start_ms rng, mf_input_time_range_end_ms = end_ms rng,
      mf_schema_version_emitted = SLICE_SCHEMA_VERSION, mf_report_key = report_key,
      mf_output_object_keys = pk_slice_output_keys keys,
      mf_market_data_quality_summary_key = pk_market_data_quality_summary_key keys,
      mf_market_feature_delta_key = pk_market_feature_delta_key keys,
      mf_market_feature_delta_summary_key = pk_market_feature_delta_summary_key keys,
      mf_market_regime_context_key = pk_market_regime_context_key keys,
      mf_symbol_universe_snapshot_key = pk_symbol_universe_snapshot_key keys,
      mf_symbol_universe_bootstrap_rollup_key = pk_symbol_universe_bootstrap_rollup_key keys,
      mf_output_record_count = rp_slice_count_total rep, mf_slice_count_total = rp_slice_count_total rep,
      mf_finished_at_ms = tm_finished_at_ms timing\<rparr>"

definition index_pointer_json :: "string \<Rightarrow> string \<Rightarrow> string \<Rightarrow> int \<Rightarrow> input_range \<Rightarrow> int \<Rightarrow> int \<Rightarrow> l1_index_pointer" where
  "index_pointer_json manifest_key l1_run_id status finished_at_ms rng indexed_window_start_ms window_ms =
     \<lparr>ip_schema_version = POINTER_SCHEMA_VERSION, ip_canonical_manifest_key = manifest_key, ip_l1_run_id = l1_run_id,
      ip_status = status, ip_finished_at_ms = finished_at_ms, ip_input_time_range_start_ms = start_ms rng,
      ip_input_time_range_end_ms = end_ms rng, ip_indexed_window_start_ms = Some indexed_window_start_ms,
      ip_indexed_window_end_ms = Some (i64_saturating_add indexed_window_start_ms window_ms),
      ip_schema_version_emitted = SLICE_SCHEMA_VERSION\<rparr>"

definition i64_checked_add :: "int \<Rightarrow> int \<Rightarrow> int option" where
  "i64_checked_add a b = (if in_i64 (a + b) then Some (a + b) else None)"

function window_starts_from :: "int \<Rightarrow> int \<Rightarrow> int \<Rightarrow> int list" where
  "window_starts_from window_ms end_bound current =
     (if current < end_bound
      then current # (case i64_checked_add current window_ms of
                        None \<Rightarrow> []
                      | Some nxt \<Rightarrow> if nxt \<le> current then [] else window_starts_from window_ms end_bound nxt)
      else [])"
  by auto
termination
  by (relation "measure (\<lambda>(w, e, c). nat (e - c))") auto

declare window_starts_from.simps [simp del]

definition index_window_starts :: "input_range \<Rightarrow> int \<Rightarrow> int list" where
  "index_window_starts rng window_ms =
     (if window_ms \<le> 0 \<or> end_ms rng \<le> start_ms rng then []
      else window_starts_from window_ms (end_ms rng) (start_ms rng))"

definition should_publish_index_pointers :: "string \<Rightarrow> bool" where
  "should_publish_index_pointers status \<longleftrightarrow> status = ''success'' \<or> status = ''empty''"

text \<open>The slice files of a run: the rows of one venue, day and hour share a file; the map is ordered by key.\<close>

definition group_slices :: "l0_params \<Rightarrow> string \<Rightarrow> int \<Rightarrow> slice_row list \<Rightarrow> (string, nat list) btree" where
  "group_slices params run_id window_ms slices =
     foldl (\<lambda>grouped (index, s).
       let key = slice_object_key params (sl_venue s) (sl_window_start_ms s) window_ms run_id
       in bt_insert (cmp_by id) key
            ((case bt_get (cmp_by id) key grouped of Some is \<Rightarrow> is | None \<Rightarrow> []) @ [index]) grouped)
       [] (enumerate 0 slices)"

section \<open>Publication (publish/manifest_index.rs, verify.rs)\<close>

text \<open>JSON encoding and decoding of the three documents, and the local files a download goes through: \<open>fe_read key
  bytes\<close> is what reading the file of \<open>key\<close> gives after \<open>bytes\<close> were written to it.\<close>

record l1_codec =
  en_report :: "normalization_report \<Rightarrow> string"
  en_manifest :: "l1_manifest \<Rightarrow> string"
  en_pointer :: "l1_index_pointer \<Rightarrow> string"
  de_report :: "string \<Rightarrow> (normalization_report, string) result"
  de_manifest :: "string \<Rightarrow> (l1_manifest, string) result"
  de_pointer :: "string \<Rightarrow> (l1_index_pointer, string) result"

record file_env =
  fe_mkdir :: "string \<Rightarrow> (unit, string) result"
  fe_write :: "string \<Rightarrow> string \<Rightarrow> (unit, string) result"
  fe_read :: "string \<Rightarrow> string \<Rightarrow> (string, string) result"

definition downloaded :: "'w s3_uploader \<Rightarrow> string \<Rightarrow> 'w \<Rightarrow> string" where
  "downloaded u key w = (case snd (c_get (client u) key w) of Inr (Inr bytes) \<Rightarrow> bytes | _ \<Rightarrow> [])"

definition verify_manifest ::
    "'w s3_uploader \<Rightarrow> file_env \<Rightarrow> l1_codec \<Rightarrow> string \<Rightarrow> 'w \<Rightarrow> 'w \<times> (unit, storage_error) result" where
  "verify_manifest u env cd manifest_key w =
     (case download_file u manifest_key (fe_mkdir env manifest_key) (fe_write env manifest_key) w of
        (w', Inl e) \<Rightarrow> (w', Inl e)
      | (w', Inr _) \<Rightarrow>
          (w', and_then (map_err Io (fe_read env manifest_key (downloaded u manifest_key w))) (\<lambda>bytes.
               and_then (map_err JsonError (de_manifest cd bytes)) (\<lambda>m.
               guard_err (mf_schema_version m \<noteq> MANIFEST_SCHEMA_VERSION)
                 (InvalidConfig ''manifest verification failed'')))))"

text \<open>Every pointer upload is attempted, also after a failure; the program runs up to
  \<open>l1_index_upload_concurrency\<close> of them at a time, here they follow each other in window order.\<close>

fun upload_pointers ::
    "'w s3_uploader \<Rightarrow> (int \<Rightarrow> string) \<Rightarrow> (int \<Rightarrow> string) \<Rightarrow> int list \<Rightarrow> 'w \<Rightarrow>
     'w \<times> (unit, storage_error) result list" where
  "upload_pointers u key_of body_of [] w = (w, [])"
| "upload_pointers u key_of body_of (ws # rest) w =
     (case upload_json_if_pointer_current u (key_of ws) (body_of ws) w of
        (w1, _, r) \<Rightarrow> (case upload_pointers u key_of body_of rest w1 of (w2, rs) \<Rightarrow> (w2, r # rs)))"

fun first_error :: "(unit, 'e) result list \<Rightarrow> (unit, 'e) result" where
  "first_error [] = Inr ()"
| "first_error (Inl e # rs) = Inl e"
| "first_error (Inr _ # rs) = first_error rs"

definition publish_index_pointers ::
    "'w s3_uploader \<Rightarrow> l0_params \<Rightarrow> l1_codec \<Rightarrow> normalize_args \<Rightarrow> string \<Rightarrow> string \<Rightarrow> string \<Rightarrow> int \<Rightarrow> input_range \<Rightarrow>
     'w \<Rightarrow> 'w \<times> (nat, storage_error) result" where
  "publish_index_pointers u params cd args manifest_key l1_run_id status finished_at_ms rng w =
     (let window_starts = index_window_starts rng (na_window_ms args)
      in case upload_pointers u (index_pointer_key params (na_window_ms args))
                (\<lambda>ws. en_pointer cd (index_pointer_json manifest_key l1_run_id status finished_at_ms rng ws
                        (na_window_ms args))) window_starts w of
           (w', rs) \<Rightarrow> (w', and_then (first_error rs) (\<lambda>_. Inr (length window_starts))))"

definition publish_manifest_and_index ::
    "'w s3_uploader \<Rightarrow> l0_params \<Rightarrow> runner_info \<Rightarrow> l1_codec \<Rightarrow> file_env \<Rightarrow> normalize_args \<Rightarrow> string \<Rightarrow> input_range \<Rightarrow>
     build_result \<Rightarrow> run_timing \<Rightarrow> published_output_keys \<Rightarrow> 'w \<Rightarrow> 'w \<times> (nat, storage_error) result" where
  "publish_manifest_and_index u params ri cd env args l1_run_id rng build timing keys w =
     (let report_key = report_object_key l1_run_id;
          manifest_key = manifest_object_key l1_run_id;
          rep = report ri build l1_run_id rng timing manifest_key keys
      in case upload_json u report_key (en_report cd rep) w of
           (w1, _, Inl e) \<Rightarrow> (w1, Inl e)
         | (w1, _, Inr _) \<Rightarrow>
             (case upload_json u manifest_key (en_manifest cd (manifest rep l1_run_id rng report_key keys timing)) w1 of
                (w2, _, Inl e) \<Rightarrow> (w2, Inl e)
              | (w2, _, Inr _) \<Rightarrow>
                  (case verify_manifest u env cd manifest_key w2 of
                     (w3, Inl e) \<Rightarrow> (w3, Inl e)
                   | (w3, Inr _) \<Rightarrow>
                       if should_publish_index_pointers (rp_status rep)
                       then publish_index_pointers u params cd args manifest_key l1_run_id (rp_status rep)
                              (tm_finished_at_ms timing) rng w3
                       else (w3, Inr 0))))"

section \<open>Admissibility\<close>

datatype l1_admissibility_error =
    PointerSchemaMismatch string
  | PointerNotSuccess string
  | PointerSchemaEmittedMismatch string string
  | PointerTimeRangeMismatch int int int int
  | ManifestSchemaMismatch string
  | ManifestRunIdMismatch string string
  | ManifestNotSuccess string
  | ManifestSchemaEmittedMismatch string string
  | ManifestTimeRangeMismatch int int int int
  | ManifestHasNoOutputObjects
  | ManifestRecordCountMismatch nat nat
  | ReportSchemaMismatch string
  | ReportRunIdMismatch string string
  | ReportStatusMismatch string string
  | ReportTimeRangeMismatch int int int int
  | ReportSchemaEmittedMismatch string string
  | ReportManifestKeyMismatch string string
  | ReportOutputObjectsMismatch
  | ReportProjectionObjectsMismatch

definition show_range :: "int \<Rightarrow> int \<Rightarrow> string" where
  "show_range a b = ''['' @ show_int a @ '','' @ show_int b @ '')''"

definition format_admissibility_error :: "l1_admissibility_error \<Rightarrow> string" where
  "format_admissibility_error error = (case error of
     PointerSchemaMismatch actual \<Rightarrow> ''l1 pointer schema mismatch: '' @ actual
   | PointerNotSuccess status \<Rightarrow> ''l1 pointer is not success: '' @ status
   | PointerSchemaEmittedMismatch actual expected \<Rightarrow>
       ''l1 pointer emitted schema mismatch: actual='' @ actual @ '' expected='' @ expected
   | PointerTimeRangeMismatch a b c d \<Rightarrow>
       ''l1 pointer time range mismatch: actual='' @ show_range a b @ '' expected='' @ show_range c d
   | ManifestSchemaMismatch actual \<Rightarrow> ''l1 manifest schema mismatch: '' @ actual
   | ManifestRunIdMismatch p m \<Rightarrow> ''l1 manifest run id mismatch: pointer='' @ p @ '' manifest='' @ m
   | ManifestNotSuccess status \<Rightarrow> ''l1 manifest is not success: '' @ status
   | ManifestSchemaEmittedMismatch actual expected \<Rightarrow>
       ''l1 manifest emitted schema mismatch: actual='' @ actual @ '' expected='' @ expected
   | ManifestTimeRangeMismatch a b c d \<Rightarrow>
       ''l1 manifest time range mismatch: actual='' @ show_range a b @ '' expected='' @ show_range c d
   | ManifestHasNoOutputObjects \<Rightarrow> ''l1 manifest has no output object keys''
   | ManifestRecordCountMismatch o' t \<Rightarrow>
       ''l1 manifest count mismatch: output_record_count='' @ show_nat o' @ '' slice_count_total='' @ show_nat t
   | ReportSchemaMismatch actual \<Rightarrow> ''l1 report schema mismatch: '' @ actual
   | ReportRunIdMismatch r m \<Rightarrow> ''l1 report run id mismatch: report='' @ r @ '' manifest='' @ m
   | ReportStatusMismatch r m \<Rightarrow> ''l1 report status mismatch: report='' @ r @ '' manifest='' @ m
   | ReportTimeRangeMismatch a b c d \<Rightarrow>
       ''l1 report time range mismatch: report='' @ show_range a b @ '' manifest='' @ show_range c d
   | ReportSchemaEmittedMismatch r m \<Rightarrow> ''l1 report emitted schema mismatch: report='' @ r @ '' manifest='' @ m
   | ReportManifestKeyMismatch r m \<Rightarrow> ''l1 report manifest key mismatch: report='' @ r @ '' manifest='' @ m
   | ReportOutputObjectsMismatch \<Rightarrow> ''l1 report output objects differ from manifest''
   | ReportProjectionObjectsMismatch \<Rightarrow> ''l1 report projection object keys differ from manifest'')"

definition validate_time_range :: "int \<Rightarrow> int \<Rightarrow> input_range \<Rightarrow> (unit, int \<times> int \<times> int \<times> int) result" where
  "validate_time_range actual_start_ms actual_end_ms expected =
     (if actual_start_ms \<le> start_ms expected \<and> actual_end_ms \<ge> end_ms expected then Inr ()
      else Inl (actual_start_ms, actual_end_ms, start_ms expected, end_ms expected))"

definition validate_pointer :: "l1_index_pointer \<Rightarrow> l1_read_request \<Rightarrow> (unit, l1_admissibility_error) result" where
  "validate_pointer p rq =
     and_then (guard_err (ip_schema_version p \<noteq> POINTER_SCHEMA_VERSION)
        (PointerSchemaMismatch (ip_schema_version p))) (\<lambda>_.
     and_then (guard_err (ip_status p \<noteq> ''success'') (PointerNotSuccess (ip_status p))) (\<lambda>_.
     and_then (guard_err (ip_schema_version_emitted p \<noteq> rq_schema_version_emitted rq)
        (PointerSchemaEmittedMismatch (ip_schema_version_emitted p) (rq_schema_version_emitted rq))) (\<lambda>_.
     map_err (\<lambda>(a, b, c, d). PointerTimeRangeMismatch a b c d)
       (validate_time_range (ip_input_time_range_start_ms p) (ip_input_time_range_end_ms p) (rq_input_range rq)))))"

definition validate_manifest ::
    "l1_index_pointer \<Rightarrow> l1_manifest \<Rightarrow> l1_read_request \<Rightarrow> (unit, l1_admissibility_error) result" where
  "validate_manifest p m rq =
     and_then (guard_err (mf_schema_version m \<noteq> MANIFEST_SCHEMA_VERSION)
        (ManifestSchemaMismatch (mf_schema_version m))) (\<lambda>_.
     and_then (guard_err (mf_l1_run_id m \<noteq> ip_l1_run_id p)
        (ManifestRunIdMismatch (ip_l1_run_id p) (mf_l1_run_id m))) (\<lambda>_.
     and_then (guard_err (mf_status m \<noteq> ''success'') (ManifestNotSuccess (mf_status m))) (\<lambda>_.
     and_then (guard_err (mf_schema_version_emitted m \<noteq> rq_schema_version_emitted rq)
        (ManifestSchemaEmittedMismatch (mf_schema_version_emitted m) (rq_schema_version_emitted rq))) (\<lambda>_.
     and_then (map_err (\<lambda>(a, b, c, d). ManifestTimeRangeMismatch a b c d)
        (validate_time_range (mf_input_time_range_start_ms m) (mf_input_time_range_end_ms m) (rq_input_range rq))) (\<lambda>_.
     and_then (guard_err (mf_output_object_keys m = []) ManifestHasNoOutputObjects) (\<lambda>_.
     guard_err (mf_output_record_count m \<noteq> mf_slice_count_total m)
       (ManifestRecordCountMismatch (mf_output_record_count m) (mf_slice_count_total m))))))))"

definition projection_keys_agree :: "normalization_report \<Rightarrow> l1_manifest \<Rightarrow> bool" where
  "projection_keys_agree r m \<longleftrightarrow>
     rp_market_data_quality_summary_key r = mf_market_data_quality_summary_key m \<and>
     rp_market_feature_delta_key r = mf_market_feature_delta_key m \<and>
     rp_market_feature_delta_summary_key r = mf_market_feature_delta_summary_key m \<and>
     rp_market_regime_context_key r = mf_market_regime_context_key m \<and>
     rp_symbol_universe_snapshot_key r = mf_symbol_universe_snapshot_key m \<and>
     rp_symbol_universe_bootstrap_rollup_key r = mf_symbol_universe_bootstrap_rollup_key m"

definition validate_report ::
    "normalization_report \<Rightarrow> l1_manifest \<Rightarrow> string \<Rightarrow> (unit, l1_admissibility_error) result" where
  "validate_report r m manifest_key =
     and_then (guard_err (rp_schema_version r \<noteq> REPORT_SCHEMA_VERSION)
        (ReportSchemaMismatch (rp_schema_version r))) (\<lambda>_.
     and_then (guard_err (rp_l1_run_id r \<noteq> mf_l1_run_id m)
        (ReportRunIdMismatch (rp_l1_run_id r) (mf_l1_run_id m))) (\<lambda>_.
     and_then (guard_err (rp_status r \<noteq> mf_status m) (ReportStatusMismatch (rp_status r) (mf_status m))) (\<lambda>_.
     and_then (guard_err (rp_input_time_range_start_ms r \<noteq> mf_input_time_range_start_ms m \<or>
          rp_input_time_range_end_ms r \<noteq> mf_input_time_range_end_ms m)
        (ReportTimeRangeMismatch (rp_input_time_range_start_ms r) (rp_input_time_range_end_ms r)
           (mf_input_time_range_start_ms m) (mf_input_time_range_end_ms m))) (\<lambda>_.
     and_then (guard_err (rp_schema_version_emitted r \<noteq> mf_schema_version_emitted m)
        (ReportSchemaEmittedMismatch (rp_schema_version_emitted r) (mf_schema_version_emitted m))) (\<lambda>_.
     and_then (guard_err (rp_manifest_key r \<noteq> manifest_key)
        (ReportManifestKeyMismatch (rp_manifest_key r) manifest_key)) (\<lambda>_.
     and_then (guard_err (rp_output_object_keys r \<noteq> mf_output_object_keys m) ReportOutputObjectsMismatch) (\<lambda>_.
     guard_err (\<not> projection_keys_agree r m) ReportProjectionObjectsMismatch)))))))"

definition build_read_plan ::
    "l1_index_pointer \<Rightarrow> l1_manifest \<Rightarrow> normalization_report \<Rightarrow> string \<Rightarrow> l1_read_request \<Rightarrow>
     (l1_read_plan, l1_admissibility_error) result" where
  "build_read_plan p m r manifest_key rq =
     and_then (validate_pointer p rq) (\<lambda>_.
     and_then (validate_manifest p m rq) (\<lambda>_.
     and_then (validate_report r m manifest_key) (\<lambda>_.
     Inr \<lparr>pl_l1_run_id = mf_l1_run_id m, pl_manifest_key = manifest_key, pl_report_key = mf_report_key m,
          pl_output_object_keys = mf_output_object_keys m,
          pl_market_data_quality_summary_key = mf_market_data_quality_summary_key m,
          pl_market_feature_delta_key = mf_market_feature_delta_key m,
          pl_market_feature_delta_summary_key = mf_market_feature_delta_summary_key m,
          pl_market_regime_context_key = mf_market_regime_context_key m,
          pl_symbol_universe_snapshot_key = mf_symbol_universe_snapshot_key m\<rparr>)))"

section \<open>Reading (l1_reader.rs)\<close>

datatype l1_reader_error = RStorage storage_error | RIo string | RJson string | RAdmissibility l1_admissibility_error

definition reader_error_display :: "l1_reader_error \<Rightarrow> string" where
  "reader_error_display e = (case e of
     RStorage x \<Rightarrow> storage_error_display x
   | RIo m \<Rightarrow> ''l1 reader io error: '' @ m
   | RJson m \<Rightarrow> ''l1 reader json error: '' @ m
   | RAdmissibility x \<Rightarrow> format_admissibility_error x)"

definition download_json ::
    "'w s3_uploader \<Rightarrow> file_env \<Rightarrow> (string \<Rightarrow> ('t, string) result) \<Rightarrow> string \<Rightarrow> 'w \<Rightarrow>
     'w \<times> ('t, l1_reader_error) result" where
  "download_json u env decode key w =
     (case download_file u key (fe_mkdir env key) (fe_write env key) w of
        (w', Inl e) \<Rightarrow> (w', Inl (RStorage e))
      | (w', Inr _) \<Rightarrow>
          (w', and_then (map_err RIo (fe_read env key (downloaded u key w))) (\<lambda>bytes.
               map_err RJson (decode bytes))))"

definition read_plan ::
    "'w s3_uploader \<Rightarrow> l0_params \<Rightarrow> file_env \<Rightarrow> l1_codec \<Rightarrow> int \<Rightarrow> input_range \<Rightarrow> 'w \<Rightarrow>
     'w \<times> (l1_read_plan, l1_reader_error) result" where
  "read_plan u params env cd window_ms rng w =
     (case download_json u env (de_pointer cd) (index_pointer_key params window_ms (start_ms rng)) w of
        (w1, Inl e) \<Rightarrow> (w1, Inl e)
      | (w1, Inr p) \<Rightarrow>
          (case download_json u env (de_manifest cd) (ip_canonical_manifest_key p) w1 of
             (w2, Inl e) \<Rightarrow> (w2, Inl e)
           | (w2, Inr m) \<Rightarrow>
               (case download_json u env (de_report cd) (mf_report_key m) w2 of
                  (w3, Inl e) \<Rightarrow> (w3, Inl e)
                | (w3, Inr r) \<Rightarrow>
                    (w3, map_err RAdmissibility
                       (build_read_plan p m r (ip_canonical_manifest_key p) (normalized_market_slice rng))))))"

section \<open>The store\<close>

text \<open>What the object store promises, for a ghost function that gives the body stored under a key: a read returns
  it, a successful write replaces it, and no write touches another key.\<close>

definition store_ok :: "'w s3_client \<Rightarrow> ('w \<Rightarrow> string \<Rightarrow> string option) \<Rightarrow> bool" where
  "store_ok c body \<longleftrightarrow>
     (\<forall>w k b. body w k = Some b \<longrightarrow> (\<exists>w'. c_get c k w = (w', Inr (Inr b)) \<and> body w' = body w)) \<and>
     (\<forall>req w w'. c_put c req w = (w', Inr ()) \<longrightarrow> body w' (pr_key req) = Some (pr_body req)) \<and>
     (\<forall>req w w' r k. c_put c req w = (w', r) \<longrightarrow> k \<noteq> pr_key req \<longrightarrow> body w' k = body w k) \<and>
     (\<forall>k w w' r. c_head c k w = (w', r) \<longrightarrow> body w' = body w)"

text \<open>The JSON encoding of these three documents is read back by the decoder.\<close>

definition codec_ok :: "l1_codec \<Rightarrow> normalization_report \<Rightarrow> l1_manifest \<Rightarrow> l1_index_pointer \<Rightarrow> bool" where
  "codec_ok cd r m p \<longleftrightarrow> de_report cd (en_report cd r) = Inr r \<and> de_manifest cd (en_manifest cd m) = Inr m \<and>
     de_pointer cd (en_pointer cd p) = Inr p"

definition files_ok :: "file_env \<Rightarrow> bool" where
  "files_ok env \<longleftrightarrow> (\<forall>k. fe_mkdir env k = Inr ()) \<and> (\<forall>k b. fe_write env k b = Inr ()) \<and> (\<forall>k b. fe_read env k b = Inr b)"

lemma put_request_sel [simp]:
  "pr_key (put_request_for b k y ct et) = k" "pr_body (put_request_for b k y ct et) = y"
  by (simp_all add: put_request_for_def Let_def split: option.split)

lemma put_attempts_store:
  assumes "store_ok (client u) body"
  shows "(k \<noteq> key \<longrightarrow> body (fst (put_attempts u key bytes ct et ns w)) k = body w k) \<and>
    (snd (snd (put_attempts u key bytes ct et ns w)) = Inr () \<longrightarrow>
      body (fst (put_attempts u key bytes ct et ns w)) key = Some bytes)"
proof (induction ns arbitrary: w)
  case (Cons n ns)
  let ?req = "put_request_for (up_bucket u) key bytes ct et"
  obtain w1 r where p: "c_put (client u) ?req w = (w1, r)" by fastforce
  have other: "k \<noteq> key \<Longrightarrow> body w1 k = body w k"
    using assms p unfolding store_ok_def by (metis put_request_sel(1))
  have stored: "r = Inr () \<Longrightarrow> body w1 key = Some bytes"
    using assms p unfolding store_ok_def by (metis put_request_sel)
  obtain w2 ds r2 where q: "put_attempts u key bytes ct et ns w1 = (w2, ds, r2)" by (metis prod_cases3)
  from Cons.IH [of w1] other stored show ?case by (cases r) (auto simp: p q Let_def)
qed simp

lemma upload_json_store:
  assumes "store_ok (client u) body"
  shows "k \<noteq> key \<Longrightarrow> body (fst (upload_json u key bytes w)) k = body w k"
    and "snd (snd (upload_json u key bytes w)) = Inr () \<Longrightarrow> body (fst (upload_json u key bytes w)) key = Some bytes"
  using put_attempts_store [OF assms, of k key]
  by (simp_all add: upload_json_def put_object_with_retry_def put_object_with_retry_guarded_def)

lemma upload_pointer_store:
  assumes "store_ok (client u) body"
  shows "k \<noteq> key \<Longrightarrow> body (fst (upload_json_if_pointer_current u key bytes w)) k = body w k"
    and "snd (snd (upload_json_if_pointer_current u key bytes w)) = Inr () \<Longrightarrow>
      body (fst (upload_json_if_pointer_current u key bytes w)) key = Some bytes"
proof -
  obtain w1 r where h: "c_head (client u) key w = (w1, r)" by fastforce
  have b: "body w1 = body w" using assms h unfolding store_ok_def by blast
  show "k \<noteq> key \<Longrightarrow> body (fst (upload_json_if_pointer_current u key bytes w)) k = body w k"
    "snd (snd (upload_json_if_pointer_current u key bytes w)) = Inr () \<Longrightarrow>
      body (fst (upload_json_if_pointer_current u key bytes w)) key = Some bytes"
    using put_attempts_store [OF assms] h b
    by (auto simp: upload_json_if_pointer_current_def head_etag_def put_object_with_retry_guarded_def split: sum.splits)
qed

lemma first_error_ok: "first_error rs = Inr () \<Longrightarrow> r \<in> set rs \<Longrightarrow> r = Inr ()"
  by (induction rs rule: first_error.induct) auto

lemma upload_pointers_frame:
  assumes "store_ok (client u) body"
  shows "k \<notin> key_of ` set wss \<Longrightarrow> body (fst (upload_pointers u key_of body_of wss w)) k = body w k"
proof (induction wss arbitrary: w)
  case (Cons v wss)
  obtain w1 ds r where p: "upload_json_if_pointer_current u (key_of v) (body_of v) w = (w1, ds, r)" by (metis prod_cases3)
  obtain w2 rs where q: "upload_pointers u key_of body_of wss w1 = (w2, rs)" by fastforce
  have "body w1 k = body w k"
    using upload_pointer_store(1) [OF assms, of k "key_of v" "body_of v" w] Cons.prems by (simp add: p)
  with Cons.IH [of w1] Cons.prems show ?case by (simp add: p q)
qed simp

lemma upload_pointers_stored:
  assumes "store_ok (client u) body"
  shows "distinct (map key_of wss) \<Longrightarrow> \<forall>r \<in> set (snd (upload_pointers u key_of body_of wss w)). r = Inr () \<Longrightarrow> ws \<in> set wss \<Longrightarrow>
      body (fst (upload_pointers u key_of body_of wss w)) (key_of ws) = Some (body_of ws)"
proof (induction wss arbitrary: w)
  case (Cons v wss)
  obtain w1 ds r where p: "upload_json_if_pointer_current u (key_of v) (body_of v) w = (w1, ds, r)" by (metis prod_cases3)
  obtain w2 rs where q: "upload_pointers u key_of body_of wss w1 = (w2, rs)" by fastforce
  have d: "key_of v \<notin> key_of ` set wss" "distinct (map key_of wss)" and r: "r = Inr ()" "\<forall>r \<in> set rs. r = Inr ()"
    using Cons.prems by (auto simp: p q)
  have "body w1 (key_of v) = Some (body_of v)"
    using upload_pointer_store(2) [OF assms, of "key_of v" "body_of v" w] by (simp add: p r(1))
  moreover have "body w2 (key_of v) = body w1 (key_of v)"
    using upload_pointers_frame [OF assms d(1), of body_of w1] by (simp add: q)
  moreover have "body w2 (key_of ws) = Some (body_of ws)" if "ws \<in> set wss"
    using Cons.IH [OF d(2) _ that, of w1] r(2) by (simp add: q)
  ultimately show ?case using Cons.prems(3) by (auto simp: p q)
qed simp

lemma download_json_store:
  assumes "store_ok (client u) body" and "files_ok env" and "body w key = Some bytes"
  obtains w' where "download_json u env decode key w = (w', map_err RJson (decode bytes))" and "body w' = body w"
proof -
  obtain w' where g: "c_get (client u) key w = (w', Inr (Inr bytes))" "body w' = body w"
    using assms(1,3) unfolding store_ok_def by blast
  show thesis
    by (rule that [of w']) (use g assms(2) in \<open>simp_all add: download_json_def download_file_def downloaded_def files_ok_def\<close>)
qed

lemma verify_manifest_store:
  assumes "store_ok (client u) body" and "body w key = Some bytes" and "verify_manifest u env cd key w = (w', r)"
  shows "body w' = body w"
proof -
  obtain w1 where g: "c_get (client u) key w = (w1, Inr (Inr bytes))" "body w1 = body w"
    using assms(1,2) unfolding store_ok_def by blast
  then show ?thesis using assms(3) by (auto simp: verify_manifest_def download_file_def split: sum.splits)
qed

section \<open>Keys of a run\<close>

lemma index_pointer_key_inj [simp]: "index_pointer_key params w a = index_pointer_key params w b \<longleftrightarrow> a = b"
proof
  have "CHR ''='' \<notin> set (show_int i)" for i
    using show_int_chars [of "CHR ''=''" i] by (auto simp: is_ascii_digit_def)
  then have n: "CHR ''='' \<notin> set (show_int i @ ''.json'')" for i by simp
  assume e: "index_pointer_key params w a = index_pointer_key params w b"
  have "\<exists>p. index_pointer_key params w i = p @ CHR ''='' # (show_int i @ ''.json'')" for i
  proof -
    obtain date hour where t: "time_part params i = (date, hour)" by fastforce
    have "index_pointer_key params w i = (''l1_index/window_ms='' @ show_int w @ ''/event_date='' @ date @ ''/hour='' @
        show_pad 2 hour @ ''/window_start_ms'') @ CHR ''='' # (show_int i @ ''.json'')"
      by (simp add: index_pointer_key_def t)
    then show ?thesis by blast
  qed
  then obtain p q where "index_pointer_key params w a = p @ CHR ''='' # (show_int a @ ''.json'')"
    and "index_pointer_key params w b = q @ CHR ''='' # (show_int b @ ''.json'')" by blast
  with e have "show_int a @ ''.json'' = show_int b @ ''.json''" using last_sep_append_eq n by metis
  then show "a = b" by simp
qed simp

lemma run_keys_differ:
  "index_pointer_key params w a \<noteq> report_object_key r" "index_pointer_key params w a \<noteq> manifest_object_key r"
  "report_object_key r \<noteq> manifest_object_key r'"
  by (auto simp: index_pointer_key_def report_object_key_def manifest_object_key_def Let_def split: prod.splits)

lemma window_starts_sorted:
  "sorted_wrt (<) (window_starts_from w e c) \<and> (\<forall>x \<in> set (window_starts_from w e c). c \<le> x \<and> x < e)"
proof (induction w e c rule: window_starts_from.induct)
  case (1 w e c)
  show ?case
  proof (cases "\<exists>nxt. i64_checked_add c w = Some nxt \<and> c < nxt \<and> c < e")
    case True
    then obtain nxt where n: "i64_checked_add c w = Some nxt" "c < nxt" "c < e" by blast
    have IH: "sorted_wrt (<) (window_starts_from w e nxt) \<and> (\<forall>x \<in> set (window_starts_from w e nxt). nxt \<le> x \<and> x < e)"
      using "1.IH" [OF n(3,1)] n(2) by simp
    have "window_starts_from w e c = c # window_starts_from w e nxt"
      using n by (subst window_starts_from.simps) simp
    with IH n show ?thesis by auto
  next
    case False
    have "window_starts_from w e c = (if c < e then [c] else [])"
    proof (cases "i64_checked_add c w")
      case (Some nxt)
      then have "nxt \<le> c \<or> \<not> c < e" using False by auto
      then show ?thesis by (subst window_starts_from.simps) (auto simp: Some)
    qed (subst window_starts_from.simps, simp)
    then show ?thesis by simp
  qed
qed

lemma index_window_starts_facts:
  "distinct (index_window_starts rng w)"
  "ws \<in> set (index_window_starts rng w) \<Longrightarrow> start_ms rng \<le> ws \<and> ws < end_ms rng"
  using window_starts_sorted [of w "end_ms rng" "start_ms rng"]
  by (auto simp: index_window_starts_def strict_sorted_iff split: if_splits)

text \<open>What the store holds after a successful publication.\<close>

lemma published_documents:
  fixes ri build run rng timing keys params cd args
  defines "rep \<equiv> report ri build run rng timing (manifest_object_key run) keys"
  assumes st: "store_ok (client u) body"
    and pub: "publish_manifest_and_index u params ri cd env args run rng build timing keys w = (w', Inr n)"
  shows "body w' (report_object_key run) = Some (en_report cd rep)"
    and "body w' (manifest_object_key run) =
      Some (en_manifest cd (manifest rep run rng (report_object_key run) keys timing))"
    and "should_publish_index_pointers (br_status build) \<Longrightarrow> ws \<in> set (index_window_starts rng (na_window_ms args)) \<Longrightarrow>
      body w' (index_pointer_key params (na_window_ms args) ws) = Some (en_pointer cd (index_pointer_json
        (manifest_object_key run) run (br_status build) (tm_finished_at_ms timing) rng ws (na_window_ms args)))"
proof -
  let ?rk = "report_object_key run" and ?mk = "manifest_object_key run" and ?W = "na_window_ms args"
  let ?m = "manifest rep run rng ?rk keys timing"
  let ?pk = "index_pointer_key params ?W"
  let ?pb = "\<lambda>ws. en_pointer cd (index_pointer_json ?mk run (br_status build) (tm_finished_at_ms timing) rng ws ?W)"
  let ?wss = "index_window_starts rng ?W"
  have status: "rp_status rep = br_status build" by (simp add: rep_def report_def)
  obtain w1 d1 where 1: "upload_json u ?rk (en_report cd rep) w = (w1, d1, Inr ())"
    using pub by (auto simp: publish_manifest_and_index_def Let_def rep_def split: prod.splits sum.splits)
  obtain w2 d2 where 2: "upload_json u ?mk (en_manifest cd ?m) w1 = (w2, d2, Inr ())"
    using pub 1 by (auto simp: publish_manifest_and_index_def Let_def rep_def split: prod.splits sum.splits)
  obtain w3 where 3: "verify_manifest u env cd ?mk w2 = (w3, Inr ())"
    using pub 1 2 by (auto simp: publish_manifest_and_index_def Let_def rep_def split: prod.splits sum.splits)
  have pub': "(if should_publish_index_pointers (br_status build)
      then publish_index_pointers u params cd args ?mk run (br_status build) (tm_finished_at_ms timing) rng w3
      else (w3, Inr 0)) = (w', Inr n)"
    using pub 1 2 3 status by (simp add: publish_manifest_and_index_def Let_def rep_def [symmetric] split: if_splits)
  have b2: "body w2 ?mk = Some (en_manifest cd ?m)" "body w2 ?rk = Some (en_report cd rep)"
    using upload_json_store [OF st, of ?mk] upload_json_store(2) [OF st, of ?rk "en_report cd rep" w]
      upload_json_store(1) [OF st, of ?rk ?mk "en_manifest cd ?m" w1]
      upload_json_store(2) [OF st, of ?mk "en_manifest cd ?m" w1] 1 2 run_keys_differ by simp_all
  have b3: "body w3 = body w2" by (rule verify_manifest_store [OF st b2(1) 3])
  have frame: "body w' k = body w3 k" if "k \<notin> ?pk ` set ?wss" for k
    using pub' upload_pointers_frame [OF st that, of ?pb w3]
    by (auto simp: publish_index_pointers_def Let_def split: if_splits prod.splits)
  have "?rk \<notin> ?pk ` set ?wss" "?mk \<notin> ?pk ` set ?wss"
    using run_keys_differ(1) [of params ?W _ run, symmetric] run_keys_differ(2) [of params ?W _ run, symmetric]
    by auto
  then show "body w' ?rk = Some (en_report cd rep)" "body w' ?mk = Some (en_manifest cd ?m)"
    using frame b2 b3 by auto
  assume ok: "should_publish_index_pointers (br_status build)" and ws: "ws \<in> set ?wss"
  obtain rs where up: "upload_pointers u ?pk ?pb ?wss w3 = (w', rs)" and e: "first_error rs = Inr ()"
    using pub' ok by (auto simp: publish_index_pointers_def Let_def split: prod.splits)
  have "distinct (map ?pk ?wss)" using index_window_starts_facts(1) by (simp add: distinct_map inj_on_def)
  from upload_pointers_stored [OF st this _ ws, of ?pb w3] first_error_ok [OF e]
  show "body w' (?pk ws) = Some (?pb ws)" by (simp add: up)
qed

text \<open>C12: what a successful run publishes, a reader accepts. After a successful publication of a run with status
  success and at least one output file, reading any range that starts at a window of the run and ends within it
  yields a plan with the run's identifier, manifest, report and output files.\<close>

theorem published_run_readable:
  fixes ri build run rng timing keys args ws
  defines "rep \<equiv> report ri build run rng timing (manifest_object_key run) keys"
    and "ptr \<equiv> index_pointer_json (manifest_object_key run) run ''success'' (tm_finished_at_ms timing) rng ws (na_window_ms args)"
  assumes st: "store_ok (client u) body" and fs: "files_ok env"
    and cd: "codec_ok cd rep (manifest rep run rng (report_object_key run) keys timing) ptr"
    and pub: "publish_manifest_and_index u params ri cd env args run rng build timing keys w = (w', Inr n)"
    and ok: "br_status build = ''success''" and files: "pk_slice_output_keys keys \<noteq> []"
    and ws: "ws \<in> set (index_window_starts rng (na_window_ms args))" and e: "e \<le> end_ms rng"
  shows "\<exists>w'' plan. read_plan u params env cd (na_window_ms args) \<lparr>start_ms = ws, end_ms = e\<rparr> w' = (w'', Inr plan) \<and>
    pl_l1_run_id plan = run \<and> pl_manifest_key plan = manifest_object_key run \<and>
    pl_report_key plan = report_object_key run \<and> pl_output_object_keys plan = pk_slice_output_keys keys"
proof -
  note d = published_documents [OF st pub, folded rep_def]
  let ?m = "manifest rep run rng (report_object_key run) keys timing"
  have p: "body w' (index_pointer_key params (na_window_ms args) ws) = Some (en_pointer cd ptr)"
    using d(3) [OF _ ws] ok by (simp add: should_publish_index_pointers_def ptr_def)
  obtain w1 where 1: "download_json u env (de_pointer cd) (index_pointer_key params (na_window_ms args) ws) w' = (w1, Inr ptr)"
      "body w1 = body w'"
    using download_json_store [OF st fs p, of "de_pointer cd"] cd by (auto simp: codec_ok_def)
  obtain w2 where 2: "download_json u env (de_manifest cd) (manifest_object_key run) w1 = (w2, Inr ?m)" "body w2 = body w1"
    using download_json_store [OF st fs d(2) [folded 1(2)], of "de_manifest cd"] cd by (auto simp: codec_ok_def)
  obtain w3 where 3: "download_json u env (de_report cd) (report_object_key run) w2 = (w3, Inr rep)" "body w3 = body w2"
    using download_json_store [OF st fs d(1) [folded 1(2), folded 2(2)], of "de_report cd"] cd by (auto simp: codec_ok_def)
  have sel: "ip_canonical_manifest_key ptr = manifest_object_key run" "mf_report_key ?m = report_object_key run"
    by (simp_all add: ptr_def index_pointer_json_def manifest_def)
  obtain plan where plan: "build_read_plan ptr ?m rep (manifest_object_key run)
      (normalized_market_slice \<lparr>start_ms = ws, end_ms = e\<rparr>) = Inr plan" "pl_l1_run_id plan = run"
      "pl_manifest_key plan = manifest_object_key run" "pl_report_key plan = report_object_key run"
      "pl_output_object_keys plan = pk_slice_output_keys keys"
    using ok files e index_window_starts_facts(2) [OF ws]
    by (simp add: build_read_plan_def validate_pointer_def validate_manifest_def validate_report_def
        validate_time_range_def normalized_market_slice_def ptr_def index_pointer_json_def manifest_def rep_def report_def
        projection_keys_agree_def)
  show ?thesis unfolding read_plan_def using 1(1) 2(1) 3(1) plan by (simp add: sel)
qed


text \<open>the windows that get a pointer are exactly the windows the build seeds with rows.\<close>

theorem indexed_windows_are_seeded:
  assumes "0 < w" and "i64_min \<le> start_ms rng" and "end_ms rng \<le> i64_max"
  shows "index_window_starts rng w = seed_windows w (end_ms rng) (start_ms rng)"
proof -
  have "window_starts_from w e c = seed_windows w e c" if "0 < w" "e \<le> i64_max" "i64_min \<le> c" for w e c
    using that
  proof (induction w e c rule: window_starts_from.induct)
    case (1 w e c)
    show ?case
    proof (cases "c < e")
      case c: True
      have sat: "i64_saturating_add c w = (if c + w \<le> i64_max then c + w else i64_max)"
        using "1.prems" by (simp add: i64_saturating_add_def sat_i64_def)
      have chk: "i64_checked_add c w = (if c + w \<le> i64_max then Some (c + w) else None)"
        using "1.prems" by (simp add: i64_checked_add_def in_i64_def)
      have stop: "seed_windows w e i64_max = []" using "1.prems" by (subst seed_windows.simps) simp
      have "c + w \<le> i64_max \<Longrightarrow> window_starts_from w e (c + w) = seed_windows w e (c + w)"
        using "1.IH" [OF c, of "c + w"] "1.prems" by (simp add: chk)
      then show ?thesis using c "1.prems"
        by (subst window_starts_from.simps, subst seed_windows.simps) (simp add: sat chk stop)
    next
      case False
      then show ?thesis by (subst window_starts_from.simps, subst seed_windows.simps) simp
    qed
  qed
  then show ?thesis using assms by (auto simp: index_window_starts_def seed_windows.simps)
qed

section \<open>Witnesses\<close>

text \<open>A store held as a map, and a codec for the documents of one run.\<close>

definition map_client :: "(string \<Rightarrow> string option) s3_client" where
  "map_client = \<lparr>c_put = (\<lambda>req w. (w(pr_key req := Some (pr_body req)), Inr ())),
     c_head = (\<lambda>k w. (w, Inr (w k))), c_get = (\<lambda>k w. (w, case w k of Some b \<Rightarrow> Inr (Inr b) | None \<Rightarrow> Inl demo_slow_down)),
     c_list = (\<lambda>_ _ _ w. (w, Inl demo_slow_down)), c_delete = (\<lambda>k w. (w(k := None), Inr ()))\<rparr>"

definition map_uploader :: "(string \<Rightarrow> string option) s3_uploader" where
  "map_uploader = \<lparr>client = map_client, up_bucket = ''l1''\<rparr>"

definition plain_files :: file_env where
  "plain_files = \<lparr>fe_mkdir = (\<lambda>_. Inr ()), fe_write = (\<lambda>_ _. Inr ()), fe_read = (\<lambda>_ b. Inr b)\<rparr>"

definition pub_build :: build_result where
  "pub_build = \<lparr>br_slices = [], br_projection_slices = [], br_projection_derivative_metrics = [], br_input_object_keys = [],
     br_run_mode = ''s3'', br_fallback_alert = False, br_input_local_object_count = 0, br_input_s3_object_count = 1,
     br_input_record_count = 1, br_duplicate_event_count = 0, br_invalid_event_count = 0,
     br_payload_hash_mismatch_count = 0, br_input_schema_versions = [], br_status = ''success'', br_failure_reason = None\<rparr>"

definition pub_keys :: published_output_keys where
  "pub_keys = \<lparr>pk_slice_output_keys = [''slices''], pk_market_data_quality_summary_key = None,
     pk_market_feature_delta_key = None, pk_market_feature_delta_summary_key = None, pk_market_regime_context_key = None,
     pk_symbol_universe_snapshot_key = None, pk_symbol_universe_bootstrap_rollup_key = None\<rparr>"

definition pub_timing :: run_timing where "pub_timing = \<lparr>tm_started_at_ms = 5, tm_finished_at_ms = 6\<rparr>"
definition pub_runner :: runner_info where "pub_runner = \<lparr>ri_git_sha = ''sha'', ri_git_dirty = False, ri_build_profile = ''release''\<rparr>"

definition pub_report :: normalization_report where
  "pub_report = report pub_runner pub_build ''r1'' demo_range pub_timing (manifest_object_key ''r1'') pub_keys"

definition pub_manifest :: l1_manifest where
  "pub_manifest = manifest pub_report ''r1'' demo_range (report_object_key ''r1'') pub_keys pub_timing"

definition pub_pointer :: l1_index_pointer where
  "pub_pointer = index_pointer_json (manifest_object_key ''r1'') ''r1'' ''success'' 6 demo_range 1000 1000"

definition pub_codec :: l1_codec where
  "pub_codec = \<lparr>en_report = (\<lambda>_. ''report''), en_manifest = (\<lambda>_. ''manifest''), en_pointer = (\<lambda>_. ''pointer''),
     de_report = (\<lambda>s. if s = ''report'' then Inr pub_report else Inl ''json''),
     de_manifest = (\<lambda>s. if s = ''manifest'' then Inr pub_manifest else Inl ''json''),
     de_pointer = (\<lambda>s. if s = ''pointer'' then Inr pub_pointer else Inl ''json'')\<rparr>"

lemma pub_oks:
  "store_ok (client map_uploader) id" "files_ok plain_files" "codec_ok pub_codec pub_report pub_manifest pub_pointer"
  by (auto simp: store_ok_def map_uploader_def map_client_def files_ok_def plain_files_def codec_ok_def pub_codec_def
      split: option.splits)

lemma pub_windows: "index_window_starts demo_range (na_window_ms demo_args) = [1000]"
  by (simp add: demo_sel index_window_starts_def window_starts_from.simps i64_checked_add_def in_i64_def i64_min_def i64_max_def)

lemma pub_put: "upload_json map_uploader k b w = (w(k := Some b), [], Inr ())"
  by (simp add: upload_json_def put_object_with_retry_def put_object_with_retry_guarded_def MAX_PUT_OBJECT_ATTEMPTS_def
      map_uploader_def map_client_def upt_rec)

lemma pub_pointer_put: "\<exists>d. upload_json_if_pointer_current map_uploader k b w = (w(k := Some b), d, Inr ())"
  by (cases "w k") (simp_all add: upload_json_if_pointer_current_def head_etag_def put_object_with_retry_guarded_def
      MAX_PUT_OBJECT_ATTEMPTS_def map_uploader_def map_client_def upt_rec)

lemma pub_verify:
  "w k = Some ''manifest'' \<Longrightarrow> verify_manifest map_uploader plain_files pub_codec k w = (w, Inr ())"
  by (simp add: verify_manifest_def download_file_def map_uploader_def map_client_def plain_files_def downloaded_def
      pub_codec_def pub_manifest_def manifest_def)

lemma pub_published:
  "\<exists>w'. publish_manifest_and_index map_uploader demo_params pub_runner pub_codec plain_files demo_args ''r1'' demo_range
     pub_build pub_timing pub_keys Map.empty = (w', Inr 1)"
proof -
  obtain d where d: "upload_json_if_pointer_current map_uploader (index_pointer_key demo_params 1000 1000) ''pointer'' w =
      (w(index_pointer_key demo_params 1000 1000 := Some ''pointer''), d w, Inr ())" for w
    using pub_pointer_put by metis
  have s: "rp_status (report ri pub_build r g t mk ks) = ''success''" for ri r g t mk ks
    by (simp add: report_def pub_build_def)
  have e: "en_report pub_codec x = ''report''" "en_manifest pub_codec y = ''manifest''" "en_pointer pub_codec z = ''pointer''"
    for x y z by (simp_all add: pub_codec_def)
  show ?thesis
    by (simp add: publish_manifest_and_index_def Let_def pub_put e pub_verify s should_publish_index_pointers_def
        publish_index_pointers_def pub_windows [simplified demo_sel] d demo_sel)
qed

theorem published_run_readable_witness:
  "\<exists>w w'' plan. read_plan map_uploader demo_params plain_files pub_codec 1000 demo_range w = (w'', Inr plan) \<and>
     pl_l1_run_id plan = ''r1'' \<and> pl_output_object_keys plan = [''slices'']"
proof -
  obtain w' where pub: "publish_manifest_and_index map_uploader demo_params pub_runner pub_codec plain_files demo_args ''r1''
      demo_range pub_build pub_timing pub_keys Map.empty = (w', Inr 1)"
    using pub_published by blast
  have "br_status pub_build = ''success''" "pk_slice_output_keys pub_keys \<noteq> []" "1000 \<in> set (index_window_starts demo_range (na_window_ms demo_args))"
    "(2000 :: int) \<le> end_ms demo_range"
    unfolding pub_windows by (simp_all add: pub_build_def pub_keys_def demo_sel)
  from published_run_readable [OF pub_oks(1,2) _ pub this] pub_oks(3)
  show ?thesis
    by (force simp: pub_report_def pub_manifest_def pub_pointer_def demo_sel demo_range_def pub_keys_def pub_timing_def)
qed


theorem indexed_windows_are_seeded_witness:
  "index_window_starts \<lparr>start_ms = 0, end_ms = 2500\<rparr> 1000 = seed_windows 1000 2500 0"
  using indexed_windows_are_seeded [of 1000 "\<lparr>start_ms = 0, end_ms = 2500\<rparr>"] by (simp add: i64_min_def i64_max_def)

end
