(* ===== verification/L0_Read.thy ===== *)
theory L0_Read
  imports Input_Keys L1_Index
begin

text \<open>
  Reading the L0 objects of a run (\<open>src/normalize/read\<close>): entries are materialised (local file or download), their
  parquet batches decoded and either collected (\<open>read_inputs\<close>) or folded into the accumulator as they arrive
  (\<open>read_and_build_slices\<close>, the path a run takes). Downloads finish in any order, so the order of arrival is an argument. The
  main result: folding in any order of arrival builds what \<open>build_slices\<close> builds from the collected inputs.
\<close>

section \<open>Rows into the accumulator (read/batch_decode/append.rs)\<close>

definition append_accumulator_row ::
    "arrow_lib \<Rightarrow> l0_params \<Rightarrow> normalize_args \<Rightarrow> input_object_family \<Rightarrow> record_batch \<Rightarrow> nat \<Rightarrow> build_accumulator \<Rightarrow>
     (build_accumulator, storage_error) result" where
  "append_accumulator_row lib params args family b row a = (case family of
     RawMarketEvent \<Rightarrow> and_then (raw_event_from_batch lib b row) (\<lambda>e. Inr (ingest_raw_event params args e a))
   | SymbolHealth \<Rightarrow> and_then (symbol_health_from_batch lib b row) (\<lambda>y. Inr (ingest_symbol_health params y a))
   | SourceHealth \<Rightarrow> and_then (source_health_from_batch lib b row) (\<lambda>h. Inr (ingest_source_health params h a))
   | GapAlert \<Rightarrow> and_then (gap_alert_from_batch lib b row) (\<lambda>g. Inr (ingest_gap_alert params g a)))"

definition append_batch_to_accumulator ::
    "arrow_lib \<Rightarrow> l0_params \<Rightarrow> normalize_args \<Rightarrow> input_object_family \<Rightarrow> record_batch \<Rightarrow> build_accumulator \<Rightarrow>
     (build_accumulator, storage_error) result" where
  "append_batch_to_accumulator lib params args family b a =
     try_fold (\<lambda>a row. append_accumulator_row lib params args family b row a) a [0 ..< num_rows b]"

section \<open>Files (read/batch_decode.rs)\<close>

text \<open>The parquet reader of a file is a parameter: it rejects the file, or yields its batches, each of which may fail.\<close>

type_synonym parquet_reader = "string \<Rightarrow> ((record_batch, string) result list, string) result"

definition append_batches ::
    "arrow_lib \<Rightarrow> parquet_reader \<Rightarrow> string \<Rightarrow> (string, string) result \<Rightarrow> normalize_inputs \<Rightarrow>
     (normalize_inputs, storage_error) result" where
  "append_batches lib reader key file_bytes inputs =
     and_then (map_err Io file_bytes) (\<lambda>bytes.
     and_then (map_err Parquet (reader bytes)) (\<lambda>batches.
     try_fold (\<lambda>inputs batch.
       and_then (map_err Arrow batch) (\<lambda>b.
         case family_from_key key of
           None \<Rightarrow> Inr inputs
         | Some family \<Rightarrow> (case append_batch_to_inputs lib family b inputs of (inputs', r) \<Rightarrow> and_then r (\<lambda>_. Inr inputs'))))
       inputs batches))"

definition append_batches_to_accumulator ::
    "arrow_lib \<Rightarrow> parquet_reader \<Rightarrow> l0_params \<Rightarrow> normalize_args \<Rightarrow> string \<Rightarrow> (string, string) result \<Rightarrow> build_accumulator \<Rightarrow>
     (build_accumulator, storage_error) result" where
  "append_batches_to_accumulator lib reader params args key file_bytes a =
     and_then (map_err Io file_bytes) (\<lambda>bytes.
     and_then (map_err Parquet (reader bytes)) (\<lambda>batches.
     case family_from_key key of
       None \<Rightarrow> Inr a
     | Some family \<Rightarrow>
         try_fold (\<lambda>a batch. and_then (map_err Arrow batch) (\<lambda>b. append_batch_to_accumulator lib params args family b a))
           a batches))"

section \<open>Entries (read/materialize.rs, read/metadata.rs)\<close>

text \<open>What reading needs from outside: the bytes of a local file, the temporary file of a download (by key), the parquet
  reader and arrow.\<close>

record read_env =
  rv_local :: "path \<Rightarrow> (string, string) result"
  rv_files :: file_env
  rv_parquet :: parquet_reader
  rv_arrow :: arrow_lib

text \<open>\<open>mt_file\<close> is what opening the local path of the entry gives.\<close>

record materialized_input_entry =
  mt_entry :: input_entry
  mt_file :: "(string, string) result"
  mt_remove_after_read :: bool
  mt_downloaded_bytes :: nat

definition materialize_entry ::
    "read_env \<Rightarrow> 'w s3_uploader \<Rightarrow> input_entry \<Rightarrow> 'w \<Rightarrow> 'w \<times> (materialized_input_entry, storage_error) result" where
  "materialize_entry env s3 entry w = (case ie_path entry of
     Some p \<Rightarrow> (w, Inr \<lparr>mt_entry = entry, mt_file = rv_local env p, mt_remove_after_read = False, mt_downloaded_bytes = 0\<rparr>)
   | None \<Rightarrow>
       (let key = ie_key entry; files = rv_files env; contents = fe_read files key (downloaded s3 key w) in
        case download_file s3 key (fe_mkdir files key) (fe_write files key) w of
          (w', Inl e) \<Rightarrow> (w', Inl e)
        | (w', Inr _) \<Rightarrow>
            (w', Inr \<lparr>mt_entry = entry, mt_file = contents, mt_remove_after_read = True,
                      mt_downloaded_bytes = (case contents of Inr bytes \<Rightarrow> length bytes | Inl _ \<Rightarrow> 0)\<rparr>)))"

record read_input_metadata =
  rm_input_object_keys :: "string list"
  rm_input_local_object_count :: nat
  rm_input_s3_object_count :: nat
  rm_fallback_alert :: bool

definition metadata_from_entries :: "input_entry list \<Rightarrow> run_mode \<Rightarrow> read_input_metadata" where
  "metadata_from_entries entries mode =
     (let s3_count = length (filter (\<lambda>e. ie_source e = FromS3) entries)
      in \<lparr>rm_input_object_keys = map ie_key entries,
          rm_input_local_object_count = length (filter (\<lambda>e. ie_source e = FromLocal) entries),
          rm_input_s3_object_count = s3_count, rm_fallback_alert = (mode = Live \<and> s3_count > 0)\<rparr>)"

definition into_normalize_inputs :: "read_input_metadata \<Rightarrow> run_mode \<Rightarrow> normalize_inputs" where
  "into_normalize_inputs md mode =
     \<lparr>ni_raw_events = [], ni_symbol_health = [], ni_source_health = [], ni_gap_alerts = [],
      ni_run_mode = run_mode_as_str mode, ni_fallback_alert = rm_fallback_alert md,
      ni_input_local_object_count = rm_input_local_object_count md,
      ni_input_s3_object_count = rm_input_s3_object_count md, ni_input_object_keys = rm_input_object_keys md\<rparr>"

definition into_build_metadata :: "read_input_metadata \<Rightarrow> run_mode \<Rightarrow> build_input_metadata" where
  "into_build_metadata md mode =
     \<lparr>bm_run_mode = run_mode_as_str mode, bm_fallback_alert = rm_fallback_alert md,
      bm_input_local_object_count = rm_input_local_object_count md,
      bm_input_s3_object_count = rm_input_s3_object_count md, bm_input_object_keys = rm_input_object_keys md\<rparr>"

section \<open>Reading a range (read/range.rs, read/downloads.rs, read/fold.rs)\<close>

fun materialize_entries ::
    "read_env \<Rightarrow> 'w s3_uploader \<Rightarrow> input_entry list \<Rightarrow> 'w \<Rightarrow> 'w \<times> (materialized_input_entry list, storage_error) result" where
  "materialize_entries env s3 [] w = (w, Inr [])"
| "materialize_entries env s3 (entry # entries) w =
     (case materialize_entry env s3 entry w of
        (w', Inl e) \<Rightarrow> (w', Inl e)
      | (w', Inr m) \<Rightarrow>
          (case materialize_entries env s3 entries w' of
             (w'', Inl e) \<Rightarrow> (w'', Inl e)
           | (w'', Inr ms) \<Rightarrow> (w'', Inr (m # ms))))"

definition append_materialized :: "read_env \<Rightarrow> normalize_inputs \<Rightarrow> materialized_input_entry \<Rightarrow> (normalize_inputs, storage_error) result" where
  "append_materialized env inputs m =
     append_batches (rv_arrow env) (rv_parquet env) (ie_key (mt_entry m)) (mt_file m) inputs"

text \<open>The entries of \<open>read_range\<close> are appended in key order, whatever order their downloads finish in.\<close>

definition read_range ::
    "read_env \<Rightarrow> l0_params \<Rightarrow> 'w s3_uploader \<Rightarrow> path \<Rightarrow> fnode \<Rightarrow> input_range \<Rightarrow> run_mode \<Rightarrow> int \<Rightarrow> 'w \<Rightarrow>
     ('w \<times> (normalize_inputs, storage_error) result) option" where
  "read_range env params s3 rt fs rng mode overlap w =
     (case collect_input_entries params s3 rt fs rng mode overlap w of
        None \<Rightarrow> None
      | Some (w1, Inl e) \<Rightarrow> Some (w1, Inl e)
      | Some (w1, Inr entries) \<Rightarrow>
          Some (case materialize_entries env s3 entries w1 of
                  (w2, Inl e) \<Rightarrow> (w2, Inl e)
                | (w2, Inr ms) \<Rightarrow>
                    (w2, try_fold (append_materialized env)
                           (into_normalize_inputs (metadata_from_entries entries mode) mode) ms)))"

text \<open>\<open>fold_range\<close> appends each entry as soon as it has arrived.\<close>

fun fold_entries ::
    "read_env \<Rightarrow> l0_params \<Rightarrow> normalize_args \<Rightarrow> 'w s3_uploader \<Rightarrow> input_entry list \<Rightarrow> build_accumulator \<Rightarrow> 'w \<Rightarrow>
     'w \<times> (build_accumulator, storage_error) result" where
  "fold_entries env params args s3 [] a w = (w, Inr a)"
| "fold_entries env params args s3 (entry # entries) a w =
     (case materialize_entry env s3 entry w of
        (w', Inl e) \<Rightarrow> (w', Inl e)
      | (w', Inr m) \<Rightarrow>
          (case append_batches_to_accumulator (rv_arrow env) (rv_parquet env) params args (ie_key (mt_entry m)) (mt_file m) a of
             Inl e \<Rightarrow> (w', Inl e)
           | Inr a' \<Rightarrow> fold_entries env params args s3 entries a' w'))"

definition fold_range ::
    "read_env \<Rightarrow> (input_entry list \<Rightarrow> input_entry list) \<Rightarrow> l0_params \<Rightarrow> normalize_args \<Rightarrow> 'w s3_uploader \<Rightarrow> path \<Rightarrow> fnode \<Rightarrow>
     input_range \<Rightarrow> input_range \<Rightarrow> input_range \<Rightarrow> run_mode \<Rightarrow> int \<Rightarrow> 'w \<Rightarrow> ('w \<times> (build_result, storage_error) result) option" where
  "fold_range env arrival params args s3 rt fs ir sr rr mode overlap w =
     (case collect_input_entries params s3 rt fs rr mode overlap w of
        None \<Rightarrow> None
      | Some (w1, Inl e) \<Rightarrow> Some (w1, Inl e)
      | Some (w1, Inr entries) \<Rightarrow>
          (let metadata = into_build_metadata (metadata_from_entries entries mode) mode;
               a = accumulator_new args ir sr metadata
           in Some (case fold_entries env params args s3 (arrival entries) a w1 of
                      (w2, Inl e) \<Rightarrow> (w2, Inl e)
                    | (w2, Inr a') \<Rightarrow> (w2, Inr (finish a')))))"

section \<open>Commuting ingestions\<close>

text \<open>Health records and gap alerts only add to counters, schema versions and their own list. Such an addition commutes
  with the ingestion of every other family.\<close>

definition plus_stats :: "build_stats \<Rightarrow> nat \<times> nat \<times> nat \<Rightarrow> build_stats" where
  "plus_stats st d = (case d of (n, v, m) \<Rightarrow>
     st\<lparr>bs_input_record_count := bs_input_record_count st + n, bs_invalid_event_count := bs_invalid_event_count st + v,
        bs_payload_hash_mismatch_count := bs_payload_hash_mismatch_count st + m\<rparr>)"

definition attach ::
    "nat \<times> nat \<times> nat \<Rightarrow> string set \<Rightarrow> symbol_health_input list \<Rightarrow> source_health_input list \<Rightarrow> gap_alert_input list \<Rightarrow>
     build_accumulator \<Rightarrow> build_accumulator" where
  "attach d S ys hs gs a =
     a\<lparr>ba_symbol_health := ba_symbol_health a @ ys, ba_source_health := ba_source_health a @ hs,
       ba_gap_alerts := ba_gap_alerts a @ gs, ba_stats := plus_stats (ba_stats a) d,
       ba_schema_versions := S \<union> ba_schema_versions a\<rparr>"

lemma attach_symbol:
  "ingest_symbol_health params y a =
     attach (1, if symbol_valid params y then 0 else 1, if symbol_mismatch params y then 1 else 0) {si_schema_version y}
       (if symbol_valid params y then [y] else []) [] [] a"
  by (simp add: ingest_symbol_health_def attach_def plus_stats_def count_input_def count_invalid_def count_mismatch_def Let_def
      symbol_valid_def symbol_mismatch_def symbol_payload_def)

lemma attach_source:
  "ingest_source_health params h a =
     attach (1, if source_valid params h then 0 else 1, if source_mismatch params h then 1 else 0) {hi_schema_version h}
       [] (if source_valid params h then [h] else []) [] a"
  by (auto simp: ingest_source_health_def attach_def plus_stats_def count_input_def count_invalid_def count_mismatch_def Let_def
      source_valid_def source_mismatch_def)

lemma attach_gap:
  "ingest_gap_alert params g a =
     attach (1, if gap_valid params g then 0 else 1, if gap_mismatch params g then 1 else 0) {gi_schema_version g}
       [] [] (if gap_valid params g then [g] else []) a"
  by (auto simp: ingest_gap_alert_def attach_def plus_stats_def count_input_def count_invalid_def count_mismatch_def Let_def
      gap_valid_def gap_mismatch_def)

lemma mark_invalid_plus: "mark_invalid reason (row, plus_stats st d) = map_prod id (\<lambda>s. plus_stats s d) (mark_invalid reason (row, st))"
  by (simp add: mark_invalid_def plus_stats_def split: prod.splits)

lemma row_plus:
  "apply_event_to_row params args e (row, plus_stats st d) = map_prod id (\<lambda>s. plus_stats s d) (apply_event_to_row params args e (row, st))"
  by (simp add: apply_event_to_row_def apply_trade_event_def apply_book_event_def mark_invalid_plus Let_def
      split: option.split prod.split)

lemma event_plus:
  "apply_event params args rng e (rows, plus_stats st d) = map_prod id (\<lambda>s. plus_stats s d) (apply_event params args rng e (rows, st))"
  by (simp add: apply_event_def row_plus Let_def split: option.split prod.split)

lemma attach_sel [simp]:
  "ba_input_range (attach d S ys hs gs a) = ba_input_range a" "ba_projection_range (attach d S ys hs gs a) = ba_projection_range a"
  "ba_scan_range (attach d S ys hs gs a) = ba_scan_range a" "ba_seen_event_ids (attach d S ys hs gs a) = ba_seen_event_ids a"
  by (simp_all add: attach_def)

lemma attach_counts:
  "count_input v (attach d S ys hs gs a) = attach d S ys hs gs (count_input v a)"
  "count_invalid (attach d S ys hs gs a) = attach d S ys hs gs (count_invalid a)"
  "count_mismatch (attach d S ys hs gs a) = attach d S ys hs gs (count_mismatch a)"
  by (cases d; simp add: attach_def plus_stats_def count_input_def count_invalid_def count_mismatch_def)+

lemma attach_identities:
  "ensure_input_identity params args e (attach d S ys hs gs a) = attach d S ys hs gs (ensure_input_identity params args e a)"
  "ensure_projection_identity params args e (attach d S ys hs gs a) = attach d S ys hs gs (ensure_projection_identity params args e a)"
  by (simp_all add: attach_def ensure_input_identity_def ensure_projection_identity_def Let_def)

lemma attach_applications:
  "apply_input params args e (attach d S ys hs gs a) = attach d S ys hs gs (apply_input params args e a)"
  "apply_projection params args e (attach d S ys hs gs a) = attach d S ys hs gs (apply_projection params args e a)"
  by (simp_all add: attach_def apply_input_def apply_projection_def event_plus split: prod.split)

lemma raw_commutes_attach:
  "ingest_raw_event params args e (attach d S ys hs gs a) = attach d S ys hs gs (ingest_raw_event params args e a)"
proof -
  have spot: "ingest_spot_event params args e (attach d S ys hs gs b) = attach d S ys hs gs (ingest_spot_event params args e b)" for b
    by (simp add: ingest_spot_event_def attach_identities attach_applications Let_def)
  have deriv: "ingest_derivative_event params e (attach d S ys hs gs b) = attach d S ys hs gs (ingest_derivative_event params e b)" for b
    by (simp add: ingest_derivative_event_def attach_counts split: option.split) (simp add: attach_def)
  have seen: "(attach d S ys hs gs b)\<lparr>ba_seen_event_ids := x\<rparr> = attach d S ys hs gs (b\<lparr>ba_seen_event_ids := x\<rparr>)" for b x
    by (simp add: attach_def)
  have dup: "(attach d S ys hs gs b)\<lparr>ba_stats := (ba_stats (attach d S ys hs gs b))
      \<lparr>bs_duplicate_event_count := bs_duplicate_event_count (ba_stats (attach d S ys hs gs b)) + 1\<rparr>\<rparr> =
      attach d S ys hs gs (b\<lparr>ba_stats := (ba_stats b)\<lparr>bs_duplicate_event_count := bs_duplicate_event_count (ba_stats b) + 1\<rparr>\<rparr>)" for b
    by (cases d) (simp add: attach_def plus_stats_def)
  show ?thesis unfolding ingest_raw_event_def Let_def attach_counts attach_sel
    by (simp only: spot deriv seen dup attach_sel if_distrib [of "attach d S ys hs gs"])
qed

lemma attach_attach:
  "attach d S ys hs gs (attach d' S' ys' hs' gs' a) =
     attach (case d of (n, v, m) \<Rightarrow> case d' of (n', v', m') \<Rightarrow> (n' + n, v' + v, m' + m)) (S \<union> S') (ys' @ ys) (hs' @ hs) (gs' @ gs) a"
  by (cases d; cases d'; simp add: attach_def plus_stats_def Un_assoc)

lemma sides_commute:
  "ingest_source_health params h (ingest_symbol_health params y a) = ingest_symbol_health params y (ingest_source_health params h a)"
  "ingest_gap_alert params g (ingest_symbol_health params y a) = ingest_symbol_health params y (ingest_gap_alert params g a)"
  "ingest_gap_alert params g (ingest_source_health params h a) = ingest_source_health params h (ingest_gap_alert params g a)"
  by (simp_all add: attach_symbol attach_source attach_gap attach_attach insert_commute)

lemma raw_sides_commute:
  "ingest_symbol_health params y (ingest_raw_event params args e a) = ingest_raw_event params args e (ingest_symbol_health params y a)"
  "ingest_source_health params h (ingest_raw_event params args e a) = ingest_raw_event params args e (ingest_source_health params h a)"
  "ingest_gap_alert params g (ingest_raw_event params args e a) = ingest_raw_event params args e (ingest_gap_alert params g a)"
  by (simp_all add: attach_symbol attach_source attach_gap raw_commutes_attach)

lemma foldl_commute: "(\<And>a x. f (h a) x = h (f a x)) \<Longrightarrow> foldl f (h a) xs = h (foldl f a xs)"
  by (induction xs arbitrary: a) simp_all

text \<open>Ingesting one more record of any family after all others is ingesting it last within its family.\<close>

lemma ingest_all_snoc:
  "ingest_all params args (i\<lparr>ni_raw_events := raws @ [e]\<rparr>) a =
     ingest_raw_event params args e (ingest_all params args (i\<lparr>ni_raw_events := raws\<rparr>) a)"
  "ingest_all params args (i\<lparr>ni_symbol_health := ys @ [y]\<rparr>) a =
     ingest_symbol_health params y (ingest_all params args (i\<lparr>ni_symbol_health := ys\<rparr>) a)"
  "ingest_all params args (i\<lparr>ni_source_health := hs @ [h]\<rparr>) a =
     ingest_source_health params h (ingest_all params args (i\<lparr>ni_source_health := hs\<rparr>) a)"
  "ingest_all params args (i\<lparr>ni_gap_alerts := gs @ [g]\<rparr>) a =
     ingest_gap_alert params g (ingest_all params args (i\<lparr>ni_gap_alerts := gs\<rparr>) a)"
  by (simp_all add: ingest_all_def Let_def foldl_commute raw_sides_commute sides_commute)

lemma fold_push:
  assumes "\<And>acc x. G (acc @ [x]) = ing x (G acc)"
  shows "try_fold (\<lambda>a row. and_then (decode row) (\<lambda>x. Inr (ing x a))) (G acc) rows =
    (case push_rows decode rows acc of (out, r) \<Rightarrow> and_then r (\<lambda>_. Inr (G out)))"
proof (induction rows arbitrary: acc)
  case (Cons row rows)
  then show ?case by (cases "decode row") (simp_all flip: assms)
qed simp

lemma batch_streams:
  "append_batch_to_accumulator lib params args family b (ingest_all params args i a) =
     (case append_batch_to_inputs lib family b i of (i', r) \<Rightarrow> and_then r (\<lambda>_. Inr (ingest_all params args i' a)))"
proof (cases family)
  case RawMarketEvent
  show ?thesis
    using fold_push [where G = "\<lambda>raws. ingest_all params args (i\<lparr>ni_raw_events := raws\<rparr>) a" and ing = "ingest_raw_event params args"
        and decode = "raw_event_from_batch lib b" and acc = "ni_raw_events i" and rows = "[0 ..< num_rows b]"]
    by (simp add: RawMarketEvent append_batch_to_accumulator_def append_accumulator_row_def append_batch_to_inputs_def
        ingest_all_snoc split: prod.splits)
next
  case SymbolHealth
  show ?thesis
    using fold_push [where G = "\<lambda>ys. ingest_all params args (i\<lparr>ni_symbol_health := ys\<rparr>) a" and ing = "ingest_symbol_health params"
        and decode = "symbol_health_from_batch lib b" and acc = "ni_symbol_health i" and rows = "[0 ..< num_rows b]"]
    by (simp add: SymbolHealth append_batch_to_accumulator_def append_accumulator_row_def append_batch_to_inputs_def
        ingest_all_snoc split: prod.splits)
next
  case SourceHealth
  show ?thesis
    using fold_push [where G = "\<lambda>hs. ingest_all params args (i\<lparr>ni_source_health := hs\<rparr>) a" and ing = "ingest_source_health params"
        and decode = "source_health_from_batch lib b" and acc = "ni_source_health i" and rows = "[0 ..< num_rows b]"]
    by (simp add: SourceHealth append_batch_to_accumulator_def append_accumulator_row_def append_batch_to_inputs_def
        ingest_all_snoc split: prod.splits)
next
  case GapAlert
  show ?thesis
    using fold_push [where G = "\<lambda>gs. ingest_all params args (i\<lparr>ni_gap_alerts := gs\<rparr>) a" and ing = "ingest_gap_alert params"
        and decode = "gap_alert_from_batch lib b" and acc = "ni_gap_alerts i" and rows = "[0 ..< num_rows b]"]
    by (simp add: GapAlert append_batch_to_accumulator_def append_accumulator_row_def append_batch_to_inputs_def
        ingest_all_snoc split: prod.splits)
qed

lemma file_streams:
  assumes "family_from_key key \<noteq> None"
  shows "append_batches_to_accumulator lib reader params args key fb (ingest_all params args i a) =
     and_then (append_batches lib reader key fb i) (\<lambda>i'. Inr (ingest_all params args i' a))"
proof -
  obtain family where f: "family_from_key key = Some family" using assms by auto
  have *: "try_fold (\<lambda>a batch. and_then (map_err Arrow batch) (\<lambda>b. append_batch_to_accumulator lib params args family b a))
      (ingest_all params args i a) batches =
    and_then (try_fold (\<lambda>inputs batch. and_then (map_err Arrow batch) (\<lambda>b.
        case append_batch_to_inputs lib family b inputs of (inputs', r) \<Rightarrow> and_then r (\<lambda>_. Inr inputs'))) i batches)
      (\<lambda>i'. Inr (ingest_all params args i' a))" for batches
  proof (induction batches arbitrary: i)
    case (Cons batch batches)
    show ?case
    proof (cases batch)
      case (Inr b)
      obtain i' r where "append_batch_to_inputs lib family b i = (i', r)" by fastforce
      with Inr Cons.IH show ?thesis by (cases r) (simp_all add: batch_streams)
    qed simp
  qed simp
  show ?thesis
  proof (cases fb)
    case (Inr bytes)
    with * show ?thesis
      by (cases "reader bytes") (simp_all add: append_batches_to_accumulator_def append_batches_def f)
  qed (simp add: append_batches_to_accumulator_def append_batches_def)
qed

definition known_family :: "input_entry \<Rightarrow> bool" where
  "known_family e \<longleftrightarrow> family_from_key (ie_key e) \<noteq> None"

lemma materialized_entry: "materialize_entry env s3 entry w = (w', Inr m) \<Longrightarrow> mt_entry m = entry"
  by (auto simp: materialize_entry_def Let_def split: option.splits prod.splits sum.splits)

lemma entries_stream:
  assumes "list_all known_family es"
  shows "fold_entries env params args s3 es (ingest_all params args i a) w = (w', Inr a') \<longleftrightarrow>
    (\<exists>ms i'. materialize_entries env s3 es w = (w', Inr ms) \<and> try_fold (append_materialized env) i ms = Inr i' \<and>
      a' = ingest_all params args i' a)"
  using assms
proof (induction es arbitrary: i w)
  case (Cons e es)
  obtain w1 r where m: "materialize_entry env s3 e w = (w1, r)" by fastforce
  show ?case
  proof (cases r)
    case (Inr x)
    have x: "mt_entry x = e" using materialized_entry [of env s3 e w w1 x] m Inr by simp
    have es: "known_family e" "list_all known_family es" using Cons.prems by simp_all
    note k = es(1) [unfolded known_family_def]
    obtain w2 r2 where ms: "materialize_entries env s3 es w1 = (w2, r2)" by fastforce
    show ?thesis
    proof (cases "append_materialized env i x")
      case (Inl err)
      then show ?thesis using m Inr ms
        by (cases r2) (auto simp: x file_streams [OF k] append_materialized_def)
    next
      case (Inr i1)
      then have "fold_entries env params args s3 (e # es) (ingest_all params args i a) w =
          fold_entries env params args s3 es (ingest_all params args i1 a) w1"
        using m \<open>r = Inr x\<close> by (simp add: x file_streams [OF k] append_materialized_def)
      then show ?thesis using Cons.IH [OF es(2), of i1 w1] m \<open>r = Inr x\<close> ms Inr by (cases r2) auto
    qed
  qed (simp add: m)
qed auto

text \<open>Appending records leaves the metadata of the inputs alone.\<close>

definition input_metadata :: "normalize_inputs \<Rightarrow> string \<times> bool \<times> nat \<times> nat \<times> string list" where
  "input_metadata i = (ni_run_mode i, ni_fallback_alert i, ni_input_local_object_count i, ni_input_s3_object_count i,
     ni_input_object_keys i)"

lemma append_batch_frame: "input_metadata (fst (append_batch_to_inputs lib family b i)) = input_metadata i"
  by (auto simp: append_batch_to_inputs_def input_metadata_def split: input_object_family.splits prod.splits)

lemma append_materialized_frame:
  assumes "append_materialized env i x = Inr i'"
  shows "input_metadata i' = input_metadata i"
proof -
  let ?step = "\<lambda>inputs batch. and_then (map_err Arrow batch) (\<lambda>b. case family_from_key (ie_key (mt_entry x)) of
      None \<Rightarrow> Inr inputs
    | Some family \<Rightarrow> (case append_batch_to_inputs (rv_arrow env) family b inputs of (inputs', r) \<Rightarrow> and_then r (\<lambda>_. Inr inputs')))"
  obtain batches where "try_fold ?step i batches = Inr i'"
    using assms by (auto simp: append_materialized_def append_batches_def)
  then show ?thesis
    by (rule try_fold_invariant [where I = "\<lambda>j. input_metadata j = input_metadata i"])
      (auto simp: case_prod_beta append_batch_frame split: option.splits)
qed

lemma append_frame: "try_fold (append_materialized env) i ms = Inr i' \<Longrightarrow> input_metadata i' = input_metadata i"
  by (erule try_fold_invariant [where I = "\<lambda>j. input_metadata j = input_metadata i"]) (auto dest: append_materialized_frame)

section \<open>Properties\<close>

text \<open>C35: the streaming build is the batch build. For every order in which the downloads arrive, folding the files into
  the accumulator one by one succeeds exactly when all of them can be fetched and decoded, and then gives the result
  that \<open>build_slices\<close> computes from the inputs collected in that order, although the families are interleaved.\<close>

theorem streaming_build_exact:
  assumes "collect_input_entries params s3 rt fs rr mode overlap w = Some (w1, Inr entries)"
    and "list_all known_family (arrival entries)"
  shows "fold_range env arrival params args s3 rt fs ir sr rr mode overlap w = Some (w', Inr b) \<longleftrightarrow>
    (\<exists>ms inputs. materialize_entries env s3 (arrival entries) w1 = (w', Inr ms) \<and>
      try_fold (append_materialized env) (into_normalize_inputs (metadata_from_entries entries mode) mode) ms = Inr inputs \<and>
      b = build_slices params args ir sr inputs)"
proof -
  let ?md = "metadata_from_entries entries mode"
  let ?i0 = "into_normalize_inputs ?md mode"
  let ?a0 = "accumulator_new args ir sr (into_build_metadata ?md mode)"
  have start: "ingest_all params args ?i0 ?a0 = ?a0" by (simp add: ingest_all_def into_normalize_inputs_def)
  have build: "finish (ingest_all params args inputs ?a0) = build_slices params args ir sr inputs"
    if "try_fold (append_materialized env) ?i0 ms = Inr inputs" for ms inputs
    using append_frame [OF that] by (simp add: input_metadata_def build_slices_def into_normalize_inputs_def into_build_metadata_def)
  have "fold_range env arrival params args s3 rt fs ir sr rr mode overlap w = Some (w', Inr b) \<longleftrightarrow>
      (\<exists>a'. fold_entries env params args s3 (arrival entries) (ingest_all params args ?i0 ?a0) w1 = (w', Inr a') \<and> b = finish a')"
    by (auto simp: fold_range_def assms(1) Let_def start split: prod.splits sum.splits)
  also have "\<dots> \<longleftrightarrow> (\<exists>ms inputs. materialize_entries env s3 (arrival entries) w1 = (w', Inr ms) \<and>
      try_fold (append_materialized env) ?i0 ms = Inr inputs \<and> b = finish (ingest_all params args inputs ?a0))"
    unfolding entries_stream [OF assms(2)] by blast
  also have "\<dots> \<longleftrightarrow> (\<exists>ms inputs. materialize_entries env s3 (arrival entries) w1 = (w', Inr ms) \<and>
      try_fold (append_materialized env) ?i0 ms = Inr inputs \<and> b = build_slices params args ir sr inputs)"
    using build by (metis (no_types, lifting))
  finally show ?thesis .
qed

section \<open>Witnesses\<close>

text \<open>One stored gap alert, in a store that serves every key with the same bytes.\<close>

definition demo_batch :: record_batch where
  "demo_batch = \<lparr>rb_schema = gap_alert_schema, rb_columns = gap_alert_columns [found_gap]\<rparr>"

definition demo_read_env :: read_env where
  "demo_read_env = \<lparr>rv_local = (\<lambda>_. Inl ''no such file''), rv_files = plain_files,
     rv_parquet = (\<lambda>bytes. Inr [Inr demo_batch]), rv_arrow = demo_arrow\<rparr>"

definition serving_uploader :: "string list \<Rightarrow> unit s3_uploader" where
  "serving_uploader keys = (listing_uploader keys)\<lparr>client := (client (listing_uploader keys))\<lparr>c_get := (\<lambda>_ w. (w, Inr (Inr ''PAR1'')))\<rparr>\<rparr>"

definition gap_entry :: input_entry where
  "gap_entry = \<lparr>ie_key = gap_key found_gap, ie_path = None, ie_source = FromS3\<rparr>"

lemma gap_entry_known: "known_family gap_entry"
  by (simp add: known_family_def gap_entry_def gap_key_def family_from_object_key)

lemma serving_exact: "lists_exactly (serving_uploader keys) (set keys)"
proof -
  have "list_keys (serving_uploader keys) pre w = list_keys (listing_uploader keys) pre w" for pre w
    by (simp add: list_keys_def list_object_summaries_def for_each_object_summary_def for_each_page.simps
        serving_uploader_def listing_uploader_def)
  then show ?thesis using listing_exact [of keys] by (simp add: lists_exactly_def)
qed

lemma gap_batch_appended:
  "append_materialized demo_read_env i \<lparr>mt_entry = gap_entry, mt_file = Inr bytes, mt_remove_after_read = rm, mt_downloaded_bytes = n\<rparr> =
     Inr (i\<lparr>ni_gap_alerts := ni_gap_alerts i @ [gap_alert_input_of found_gap]\<rparr>)"
proof -
  obtain b where "gap_alert_batch demo_arrow [found_gap] = Inr b" and n: "num_rows b = 1"
    and d: "gap_alert_from_batch demo_arrow b 0 = Inr (gap_alert_input_of found_gap)"
    using gap_alert_batch_built [OF demo_arrow_accepts, of "[found_gap]"] by force
  moreover have "gap_alert_batch demo_arrow [found_gap] = Inr demo_batch"
    by (simp add: gap_alert_batch_def demo_arrow_def demo_batch_def gap_alert_schema_def gap_alert_columns_def)
  ultimately have "num_rows demo_batch = 1" "gap_alert_from_batch demo_arrow demo_batch 0 = Inr (gap_alert_input_of found_gap)" by simp_all
  then show ?thesis
    by (simp add: append_materialized_def append_batches_def demo_read_env_def gap_entry_def gap_key_def family_from_object_key
        append_batch_to_inputs_def)
qed

lemma gap_collected:
  "\<exists>entries. collect_input_entries flat_params (serving_uploader [gap_key found_gap]) [] (FDir dir_meta [])
     \<lparr>start_ms = 0, end_ms = 1000\<rparr> CatchUp 0 () = Some ((), Inr entries) \<and> set entries \<subseteq> {gap_entry}"
proof -
  let ?rng = "\<lparr>start_ms = 0, end_ms = 1000\<rparr>" and ?u = "serving_uploader [gap_key found_gap]"
  obtain w' ks where k: "s3_input_keys flat_params ?u ?rng CatchUp 0 () = Some (w', Inr ks)" and ks: "set ks \<subseteq> {gap_key found_gap}"
    by (rule s3_input_keys_spec [OF serving_exact [of "[gap_key found_gap]"], where mode = CatchUp and params = flat_params
        and rng = ?rng and overlap = 0 and w = "()"]) (simp, rule that, assumption, simp add: Collect_conj_eq)
  have "set (merge_entries [] ks) \<subseteq> {gap_entry}"
  proof
    fix e
    assume e: "e \<in> set (merge_entries [] ks)"
    then have "ie_key e \<in> set ks" "ie_source e = FromS3 \<and> ie_path e = None"
      using merge_entries_spec [of "[]" ks] by auto
    with ks show "e \<in> {gap_entry}" by (cases e) (auto simp: gap_entry_def)
  qed
  then show ?thesis using k by (simp add: collect_input_entries_def)
qed

theorem streaming_build_exact_witness:
  "\<exists>b. fold_range demo_read_env rev flat_params demo_args (serving_uploader [gap_key found_gap]) [] (FDir dir_meta [])
     demo_range demo_range \<lparr>start_ms = 0, end_ms = 1000\<rparr> CatchUp 0 () = Some ((), Inr b)"
proof -
  let ?u = "serving_uploader [gap_key found_gap]"
  obtain entries where c: "collect_input_entries flat_params ?u [] (FDir dir_meta []) \<lparr>start_ms = 0, end_ms = 1000\<rparr> CatchUp 0 () =
      Some ((), Inr entries)" "set entries \<subseteq> {gap_entry}"
    using gap_collected by blast
  have k: "list_all known_family (rev entries)" using c(2) gap_entry_known by (auto simp: list_all_iff)
  define m where "m = \<lparr>mt_entry = gap_entry, mt_file = Inr ''PAR1'', mt_remove_after_read = True, mt_downloaded_bytes = 4\<rparr>"
  have m1: "materialize_entry demo_read_env ?u gap_entry () = ((), Inr m)"
    by (simp add: materialize_entry_def gap_entry_def demo_read_env_def plain_files_def serving_uploader_def listing_uploader_def
        download_file_def downloaded_def m_def)
  have ms: "materialize_entries demo_read_env ?u es () = ((), Inr (replicate (length es) m))" if "set es \<subseteq> {gap_entry}" for es
    using that by (induction es) (simp_all add: m1)
  have "\<exists>i'. try_fold (append_materialized demo_read_env) i (replicate n m) = Inr i'" for i n
    by (induction n arbitrary: i) (simp_all add: gap_batch_appended m_def)
  with streaming_build_exact [where arrival = rev, OF c(1) k] ms [of "rev entries"] c(2) show ?thesis by simp
qed

end
