(* ===== verification/Worker.thy ===== *)
theory Worker
  imports L0_Read
begin

text \<open>
  The normalizer as a process (\<open>src/normalize/discovery\<close>, \<open>src/normalize/run\<close>): finding where the published history
  ends, running one decision from reading to publication, draining the ready windows of a tick, the audit of the index and
  the preflight. The results: the lookup returns the newest successful pointer it lists, a tick continues there
  without a hole, and the audit succeeds exactly when every window of the range has its pointer.
\<close>

section \<open>Documents (discovery/json_doc.rs)\<close>

definition download_json_value ::
    "'w s3_uploader \<Rightarrow> file_env \<Rightarrow> (string \<Rightarrow> (json, string) result) \<Rightarrow> string \<Rightarrow> 'w \<Rightarrow> 'w \<times> (json, storage_error) result" where
  "download_json_value u env parse key w =
     (case fe_mkdir env key of
        Inl m \<Rightarrow> (w, Inl (Io m))
      | Inr _ \<Rightarrow>
          (case download_file u key (fe_mkdir env key) (fe_write env key) w of
             (w', Inl e) \<Rightarrow> (w', Inl e)
           | (w', Inr _) \<Rightarrow>
               (w', and_then (map_err Io (fe_read env key (downloaded u key w))) (\<lambda>bytes. map_err storage_error.JsonError (parse bytes)))))"

definition json_status_success :: "json \<Rightarrow> bool" where
  "json_status_success v \<longleftrightarrow> Option.bind (jget ''status'' v) as_str = Some ''success''"

definition input_time_range_end_ms :: "json \<Rightarrow> int option" where
  "input_time_range_end_ms v = Option.bind (jget ''input_time_range_end_ms'' v) as_i64"

definition pointer_manifest_key :: "json \<Rightarrow> string option" where
  "pointer_manifest_key v = Option.bind (or_else (jget ''canonical_manifest_key'' v) (jget ''manifest_key'' v)) as_str"

section \<open>The last published window (discovery/pointer.rs)\<close>

definition MAX_L1_POINTER_LOOKBACK_HOURS :: nat where "MAX_L1_POINTER_LOOKBACK_HOURS = 24 * 90"
definition L1_POINTER_KEYS_PER_HOUR :: int where "L1_POINTER_KEYS_PER_HOUR = 1000"

definition success_end_ms_from_pointer ::
    "'w s3_uploader \<Rightarrow> file_env \<Rightarrow> (string \<Rightarrow> (json, string) result) \<Rightarrow> string \<Rightarrow> 'w \<Rightarrow> 'w \<times> (int option, storage_error) result" where
  "success_end_ms_from_pointer u env parse pointer_key w =
     (case download_json_value u env parse pointer_key w of
        (w1, Inl e) \<Rightarrow> (w1, Inl e)
      | (w1, Inr pointer) \<Rightarrow>
          if \<not> json_status_success pointer then (w1, Inr None)
          else case input_time_range_end_ms pointer of
                 Some found \<Rightarrow> (w1, Inr (Some found))
               | None \<Rightarrow>
                   (case pointer_manifest_key pointer of
                      None \<Rightarrow> (w1, Inr None)
                    | Some manifest_key \<Rightarrow>
                        (case download_json_value u env parse manifest_key w1 of
                           (w2, Inl e) \<Rightarrow> (w2, Inl e)
                         | (w2, Inr m) \<Rightarrow>
                             (w2, Inr (if json_status_success m then input_time_range_end_ms m else None)))))"

definition l1_pointer_hour_prefix :: "l0_params \<Rightarrow> int \<Rightarrow> int \<Rightarrow> string" where
  "l1_pointer_hour_prefix params window_ms hour_start_ms = ''l1_index/window_ms='' @ show_int window_ms @ hour_dir (time_part params hour_start_ms)"

definition json_keys_desc :: "string list \<Rightarrow> string list" where
  "json_keys_desc keys = rev (sort (filter (ends_with ''.json'') keys))"

fun first_success ::
    "'w s3_uploader \<Rightarrow> file_env \<Rightarrow> (string \<Rightarrow> (json, string) result) \<Rightarrow> string list \<Rightarrow> 'w \<Rightarrow> 'w \<times> (int option, storage_error) result" where
  "first_success u env parse [] w = (w, Inr None)"
| "first_success u env parse (key # keys) w =
     (case success_end_ms_from_pointer u env parse key w of
        (w1, Inl e) \<Rightarrow> (w1, Inl e)
      | (w1, Inr (Some found)) \<Rightarrow> (w1, Inr (Some found))
      | (w1, Inr None) \<Rightarrow> first_success u env parse keys w1)"

fun lookup_hours ::
    "l0_params \<Rightarrow> 'w s3_uploader \<Rightarrow> file_env \<Rightarrow> (string \<Rightarrow> (json, string) result) \<Rightarrow> int \<Rightarrow> int \<Rightarrow> nat list \<Rightarrow> 'w \<Rightarrow>
     'w \<times> (int option, storage_error) result" where
  "lookup_hours params u env parse window_ms latest [] w = (w, Inr None)"
| "lookup_hours params u env parse window_ms latest (offset # offsets) w =
     (let hour_start_ms = i64_saturating_sub latest (i64_saturating_mul (int offset) 3600000) in
      case list_keys_page u (l1_pointer_hour_prefix params window_ms hour_start_ms) L1_POINTER_KEYS_PER_HOUR w of
        (w1, Inl e) \<Rightarrow> (w1, Inl e)
      | (w1, Inr keys) \<Rightarrow>
          (case first_success u env parse (json_keys_desc keys) w1 of
             (w2, Inl e) \<Rightarrow> (w2, Inl e)
           | (w2, Inr (Some found)) \<Rightarrow> (w2, Inr (Some found))
           | (w2, Inr None) \<Rightarrow> lookup_hours params u env parse window_ms latest offsets w2))"

definition resolve_last_l1_success_end_ms ::
    "l0_params \<Rightarrow> 'w s3_uploader \<Rightarrow> file_env \<Rightarrow> (string \<Rightarrow> (json, string) result) \<Rightarrow> int \<Rightarrow> int \<Rightarrow> 'w \<Rightarrow>
     'w \<times> (int option, storage_error) result" where
  "resolve_last_l1_success_end_ms params u env parse window_ms now_ms w =
     lookup_hours params u env parse window_ms (floor_hour_ms now_ms) [0 ..< MAX_L1_POINTER_LOOKBACK_HOURS] w"

section \<open>The oldest L0 object (discovery/bootstrap.rs, discovery/time.rs)\<close>

text \<open>Parsing of an RFC 3339 timestamp into milliseconds is a parameter.\<close>

definition parse_event_date_hour_ms :: "(string \<Rightarrow> int option) \<Rightarrow> string \<Rightarrow> int option" where
  "parse_event_date_hour_ms rfc3339 key =
     (case (suffix_from ''event_date='' key, suffix_from ''/hour='' key) of
        (Some d, Some h) \<Rightarrow>
          (let date_str = take 10 (drop 11 d); hour_str = take 2 (drop 6 h) in
           if length date_str < 10 \<or> length hour_str < 2 then None
           else case parse_unsigned_int u32_max hour_str of
                  None \<Rightarrow> None
                | Some hour \<Rightarrow> rfc3339 (date_str @ ''T'' @ show_pad 2 hour @ '':00:00Z''))
      | _ \<Rightarrow> None)"

fun oldest_of_prefixes ::
    "'w s3_uploader \<Rightarrow> (string \<Rightarrow> int option) \<Rightarrow> string list \<Rightarrow> int option \<Rightarrow> 'w \<Rightarrow> 'w \<times> (int option, storage_error) result" where
  "oldest_of_prefixes u rfc3339 [] oldest w = (w, Inr oldest)"
| "oldest_of_prefixes u rfc3339 (pre # pres) oldest w =
     (case list_keys_page u pre 1 w of
        (w1, Inl e) \<Rightarrow> (w1, Inl e)
      | (w1, Inr keys) \<Rightarrow>
          oldest_of_prefixes u rfc3339 pres
            (case Option.bind (List.find (ends_with ''.parquet'') keys) (parse_event_date_hour_ms rfc3339) of
               None \<Rightarrow> oldest
             | Some candidate \<Rightarrow> Some (case oldest of None \<Rightarrow> candidate | Some current \<Rightarrow> min current candidate)) w1)"

definition resolve_oldest_l0_object_ms ::
    "'w s3_uploader \<Rightarrow> (string \<Rightarrow> int option) \<Rightarrow> 'w \<Rightarrow> 'w \<times> (int option, storage_error) result" where
  "resolve_oldest_l0_object_ms u rfc3339 w =
     oldest_of_prefixes u rfc3339
       (concat (map (\<lambda>venue. map (\<lambda>event_type. ''raw_market_event/venue='' @ venue @ ''/event_type='' @ event_type @ ''/'') RAW_EVENT_TYPES) VENUES))
       None w"

section \<open>One decision (run/decision.rs, publish.rs)\<close>

text \<open>Everything a run needs. \<open>le_artifacts\<close> publishes the slice files, summaries and projections of a successful build and
  returns their keys; \<open>le_clients\<close> gives the clients of the L0 and of the L1 bucket, or the error of creating them.\<close>

record 'w l1_env =
  le_params :: l0_params
  le_runner :: runner_info
  le_codec :: l1_codec
  le_files :: file_env
  le_read :: read_env
  le_arrival :: "input_entry list \<Rightarrow> input_entry list"
  le_local_root :: path
  le_spool :: fnode
  le_l0 :: "'w s3_uploader"
  le_l1 :: "'w s3_uploader"
  le_json :: "string \<Rightarrow> (json, string) result"
  le_rfc3339 :: "string \<Rightarrow> int option"
  le_artifacts :: "string \<Rightarrow> input_range \<Rightarrow> int \<Rightarrow> build_result \<Rightarrow> 'w \<Rightarrow> 'w \<times> (published_output_keys, storage_error) result"
  le_worker :: "'w worker_env"

definition no_output_keys :: published_output_keys where
  "no_output_keys = \<lparr>pk_slice_output_keys = [], pk_market_data_quality_summary_key = None, pk_market_feature_delta_key = None,
     pk_market_feature_delta_summary_key = None, pk_market_regime_context_key = None, pk_symbol_universe_snapshot_key = None,
     pk_symbol_universe_bootstrap_rollup_key = None\<rparr>"

definition publish_outputs ::
    "'w l1_env \<Rightarrow> normalize_args \<Rightarrow> string \<Rightarrow> input_range \<Rightarrow> build_result \<Rightarrow> int \<Rightarrow> int \<Rightarrow> 'w \<Rightarrow> 'w \<times> (nat, storage_error) result" where
  "publish_outputs env args l1_run_id rng build started_at_ms finished_at_ms w =
     (case (if br_status build = ''success'' then le_artifacts env l1_run_id rng finished_at_ms build w
            else (w, Inr no_output_keys)) of
        (w1, Inl e) \<Rightarrow> (w1, Inl e)
      | (w1, Inr keys) \<Rightarrow>
          publish_manifest_and_index (le_l1 env) (le_params env) (le_runner env) (le_codec env) (le_files env) args l1_run_id rng build
            \<lparr>tm_started_at_ms = started_at_ms, tm_finished_at_ms = finished_at_ms\<rparr> keys w1)"

definition scan_range_of :: "normalize_args \<Rightarrow> input_range \<Rightarrow> input_range" where
  "scan_range_of args rng = \<lparr>start_ms = i64_saturating_sub (start_ms rng) (na_scan_margin_ms args),
     end_ms = i64_saturating_add (end_ms rng) (na_scan_margin_ms args)\<rparr>"

definition read_range_of :: "normalize_args \<Rightarrow> input_range \<Rightarrow> input_range" where
  "read_range_of args rng =
     (let projection_lookback_ms = if na_live_priority_only args then na_scan_margin_ms args else na_projection_lookback_ms args
      in \<lparr>start_ms = i64_saturating_sub (start_ms rng) (max (na_scan_margin_ms args) projection_lookback_ms),
          end_ms = end_ms (scan_range_of args rng)\<rparr>)"

definition l1_run_id_of :: "input_range \<Rightarrow> int \<Rightarrow> string" where
  "l1_run_id_of rng started_at_ms = ''l1_'' @ show_int (start_ms rng) @ ''_'' @ show_int (end_ms rng) @ ''_'' @ show_int started_at_ms"

definition exec_decision :: "'w l1_env \<Rightarrow> normalize_args \<Rightarrow> 'w runner" where
  "exec_decision env args d now_ms w =
     (let rng = rd_input_range d; l1_run_id = l1_run_id_of rng now_ms in
      case fold_range (le_read env) (le_arrival env) (le_params env) args (le_l0 env) (le_local_root env) (le_spool env)
             rng (scan_range_of args rng) (read_range_of args rng) (rd_run_mode d) (na_l0_run_key_overlap_ms args) w of
        None \<Rightarrow> None
      | Some (w1, Inl e) \<Rightarrow> Some (w1, Inl (storage_error_display e))
      | Some (w1, Inr build) \<Rightarrow>
          Some (case publish_outputs env args l1_run_id rng build now_ms now_ms w1 of
             (w2, r) \<Rightarrow> (w2, and_then (map_err storage_error_display r) (\<lambda>_. Inr ()))))"

section \<open>A tick (run/window.rs, run/worker/drain.rs)\<close>

definition resolve_initial_l0_l1_state :: "'w l1_env \<Rightarrow> normalize_args \<Rightarrow> 'w \<Rightarrow> 'w \<times> int option \<times> int option" where
  "resolve_initial_l0_l1_state env args w =
     (case wk_now (le_worker env) w of (w0, now_ms) \<Rightarrow>
      case resolve_last_l1_success_end_ms (le_params env) (le_l1 env) (le_files env) (le_json env) (na_window_ms args) now_ms w0 of
        (w1, r) \<Rightarrow>
          (let last_end = (case r of Inr v \<Rightarrow> v | Inl _ \<Rightarrow> None) in
           if last_end = None
           then (case resolve_oldest_l0_object_ms (le_l0 env) (le_rfc3339 env) w1 of
                   (w2, r2) \<Rightarrow> (w2, None, (case r2 of Inr v \<Rightarrow> v | Inl _ \<Rightarrow> None)))
           else (w1, last_end, None)))"

definition drain_ready_windows ::
    "'w l1_env \<Rightarrow> normalize_args \<Rightarrow> int \<Rightarrow> 'w \<Rightarrow> ('w \<times> drain_event list \<times> (unit, string) result) option" where
  "drain_ready_windows env args initial_now_ms w =
     (case resolve_initial_l0_l1_state env args w of (w1, last_end, oldest) \<Rightarrow>
      case run_live_priority_decision (exec_decision env args) args initial_now_ms last_end w1 of
        None \<Rightarrow> None
      | Some (w2, ds, Inl e) \<Rightarrow> Some (w2, ds, Inl e)
      | Some (w2, ds, Inr (None, last_end')) \<Rightarrow>
          if na_live_priority_only args then Some (w2, ds, Inr ())
          else map_option (\<lambda>(w3, ds', r). (w3, ds @ ds', r))
                 (drain_loop (le_worker env) (exec_decision env args) args None initial_now_ms last_end' oldest 0 w2)
      | Some (w2, ds, Inr (Some completed, last_end')) \<Rightarrow>
          (case wk_now (le_worker env) w2 of (w3, now_ms) \<Rightarrow>
           if na_live_priority_only args then Some (w3, ds, Inr ())
           else map_option (\<lambda>(w4, ds', r). (w4, ds @ ds', r))
                  (drain_loop (le_worker env) (exec_decision env args) args (Some completed) now_ms last_end' None 1 w3)))"

text \<open>The worker (run/worker.rs, run/worker/shutdown.rs) runs until a signal or an error; \<open>sleep\<close> waits for a duration or a
  signal and says whether a signal came.\<close>

partial_function (option) worker_loop ::
    "'w l1_env \<Rightarrow> (nat \<Rightarrow> 'w \<Rightarrow> 'w \<times> bool) \<Rightarrow> normalize_args \<Rightarrow> nat \<Rightarrow> int \<Rightarrow> 'w \<Rightarrow> ('w \<times> (unit, string) result) option" where
  "worker_loop env sleep args sleep_duration now_ms w =
     Option.bind (drain_ready_windows env args now_ms w) (\<lambda>(w1, ds, r). case r of
       Inl e \<Rightarrow> Some (w1, Inl e)
     | Inr _ \<Rightarrow>
         if wk_shutdown (le_worker env) w1 then Some (w1, Inr ())
         else case sleep sleep_duration w1 of (w2, requested) \<Rightarrow>
           if requested then Some (w2, Inr ())
           else case wk_now (le_worker env) w2 of (w3, now_ms') \<Rightarrow> worker_loop env sleep args sleep_duration now_ms' w3)"

definition run_normalize_worker ::
    "'w l1_env \<Rightarrow> (nat \<Rightarrow> 'w \<Rightarrow> 'w \<times> bool) \<Rightarrow> normalize_args \<Rightarrow> int \<Rightarrow> 'w \<Rightarrow> ('w \<times> (unit, string) result) option" where
  "run_normalize_worker env sleep args initial_now_ms w =
     (case worker_sleep_duration args of
        Inl e \<Rightarrow> Some (w, Inl e)
      | Inr sleep_duration \<Rightarrow> worker_loop env sleep args sleep_duration initial_now_ms w)"

section \<open>The audit of the index (run/l1_audit.rs)\<close>

definition MAX_AUDIT_WINDOWS :: nat where "MAX_AUDIT_WINDOWS = 100000"

text \<open>\<open>str::rsplit_once\<close>: the part before the last occurrence of a pattern.\<close>

definition rsplit_prefix :: "string \<Rightarrow> string \<Rightarrow> string option" where
  "rsplit_prefix pat s =
     map_option (\<lambda>r. take (length s - length r - length pat) s) (before_pattern (rev pat) (rev s))"

function audit_keys_from ::
    "l0_params \<Rightarrow> int \<Rightarrow> int \<Rightarrow> int \<Rightarrow> nat \<Rightarrow> (string list, string) result" where
  "audit_keys_from params window_ms end_bound current n =
     (if current < end_bound
      then if n \<ge> MAX_AUDIT_WINDOWS then Inl ''audit range exceeds 100000 windows''
           else case i64_checked_add current window_ms of
                  None \<Rightarrow> Inl ''audit range overflow''
                | Some nxt \<Rightarrow>
                    if nxt \<le> current then Inl ''audit range did not advance''
                    else and_then (audit_keys_from params window_ms end_bound nxt (Suc n)) (\<lambda>keys.
                         Inr (index_pointer_key params window_ms current # keys))
      else Inr [])"
  by auto
termination
  by (relation "measure (\<lambda>(p, w, e, c, n). nat (e - c))") auto

declare audit_keys_from.simps [simp del]

definition audit_expected_keys :: "l0_params \<Rightarrow> input_range \<Rightarrow> int \<Rightarrow> (string list, string) result" where
  "audit_expected_keys params rng window_ms =
     (if window_ms \<le> 0 then Inl ''window_ms must be positive''
      else audit_keys_from params window_ms (end_ms rng) (start_ms rng) 0)"

definition audit_hour_prefixes :: "string list \<Rightarrow> string list" where
  "audit_hour_prefixes keys = sort_dedup (List.map_filter (rsplit_prefix ''window_start_ms='') keys)"

fun audit_listing :: "'w s3_uploader \<Rightarrow> string list \<Rightarrow> string set \<Rightarrow> 'w \<Rightarrow> ('w \<times> (string set, storage_error) result) option" where
  "audit_listing u [] existing w = Some (w, Inr existing)"
| "audit_listing u (pre # pres) existing w =
     (case list_keys u pre w of
        None \<Rightarrow> None
      | Some (w', Inl e) \<Rightarrow> Some (w', Inl e)
      | Some (w', Inr keys) \<Rightarrow> audit_listing u pres (existing \<union> set keys) w')"

definition run_l1_index_audit ::
    "l0_params \<Rightarrow> 'w s3_uploader \<Rightarrow> int \<Rightarrow> input_range \<Rightarrow> 'w \<Rightarrow> ('w \<times> (unit, string) result) option" where
  "run_l1_index_audit params u window_ms rng w =
     (if end_ms rng \<le> start_ms rng then Some (w, Inl ''audit range must be positive and non-empty'')
      else if start_ms rng smod window_ms \<noteq> 0 \<or> end_ms rng smod window_ms \<noteq> 0
      then Some (w, Inl ''audit range must align to window_ms'')
      else case audit_expected_keys params rng window_ms of
             Inl e \<Rightarrow> Some (w, Inl e)
           | Inr expected \<Rightarrow>
               (case audit_listing u (audit_hour_prefixes expected) {} w of
                  None \<Rightarrow> None
                | Some (w', Inl e) \<Rightarrow> Some (w', Inl (storage_error_display e))
                | Some (w', Inr existing) \<Rightarrow>
                    (let missing = filter (\<lambda>key. key \<notin> existing) expected in
                     Some (w', if missing = [] then Inr ()
                               else Inl (''l1 index audit failed: missing '' @ show_nat (length missing) @ ''/'' @
                                         show_nat (length expected) @ '' pointers'')))))"

section \<open>Preflight (run/preflight.rs) and the entry point (run.rs)\<close>

definition preflight_bucket ::
    "'w s3_uploader \<Rightarrow> file_env \<Rightarrow> string \<Rightarrow> int \<Rightarrow> nat \<Rightarrow> string \<Rightarrow> 'w \<Rightarrow> ('w \<times> (unit, storage_error) result) option" where
  "preflight_bucket u env label now_ms process_id bytes w =
     (let pre = ''_preflight/market-ingest-app/'' in
      case list_keys u pre w of
        None \<Rightarrow> None
      | Some (w1, Inl e) \<Rightarrow> Some (w1, Inl e)
      | Some (w1, Inr _) \<Rightarrow>
          (let key = pre @ label @ ''-'' @ show_int now_ms @ ''-'' @ show_nat process_id @ ''.json'' in
           Some (case upload_json u key bytes w1 of
                   (w2, _, Inl e) \<Rightarrow> (w2, Inl e)
                 | (w2, _, Inr _) \<Rightarrow>
                     (case download_file u key (fe_mkdir env key) (fe_write env key) w2 of
                        (w3, download_result) \<Rightarrow>
                          (case delete_object u key w3 of
                             (w4, delete_result) \<Rightarrow> (w4, and_then download_result (\<lambda>_. delete_result)))))))"

definition run_preflight ::
    "'w s3_uploader \<Rightarrow> 'w s3_uploader \<Rightarrow> file_env \<Rightarrow> int \<Rightarrow> nat \<Rightarrow> (string \<Rightarrow> string) \<Rightarrow> 'w \<Rightarrow> ('w \<times> (unit, storage_error) result) option" where
  "run_preflight l0 l1 env now_ms process_id body_of w =
     (case preflight_bucket l0 env ''l0'' now_ms process_id (body_of ''l0'') w of
        None \<Rightarrow> None
      | Some (w1, Inl e) \<Rightarrow> Some (w1, Inl e)
      | Some (w1, Inr _) \<Rightarrow> preflight_bucket l1 env ''l1'' now_ms process_id (body_of ''l1'') w1)"

definition env_flag :: "(string \<Rightarrow> string option) \<Rightarrow> string \<Rightarrow> bool" where
  "env_flag env name = (case env name of Some v \<Rightarrow> v \<in> set [''1'', ''true'', ''TRUE'', ''yes'', ''YES''] | None \<Rightarrow> False)"

datatype run_path = RunPreflight | RunAudit input_range | RunBackfill | RunWorker

definition run_normalize_path :: "(string \<Rightarrow> string option) \<Rightarrow> normalize_args \<Rightarrow> run_path" where
  "run_normalize_path env args =
     (if na_preflight args \<or> env_flag env ''MARKET_NORMALIZE_PREFLIGHT'' then RunPreflight
      else case (na_audit_l1_index_start_ms args, na_audit_l1_index_end_ms args) of
             (Some s, Some e) \<Rightarrow> RunAudit \<lparr>start_ms = s, end_ms = e\<rparr>
           | _ \<Rightarrow> if na_input_start_ms args \<noteq> None then RunBackfill else RunWorker)"

definition run_backfill_once :: "'w l1_env \<Rightarrow> normalize_args \<Rightarrow> int \<Rightarrow> 'w \<Rightarrow> ('w \<times> (unit, string) result) option" where
  "run_backfill_once env args now_ms w =
     (case decide_mode args now_ms None None of
        Inl e \<Rightarrow> Some (w, Inl e)
      | Inr None \<Rightarrow> Some (w, Inr ())
      | Inr (Some d) \<Rightarrow> exec_decision env args d now_ms w)"

section \<open>What the lookup finds\<close>

text \<open>The end a pointer stands for, given the documents of the store.\<close>

definition pointer_end :: "(string \<Rightarrow> json) \<Rightarrow> string \<Rightarrow> int option" where
  "pointer_end doc key =
     (if \<not> json_status_success (doc key) then None
      else case input_time_range_end_ms (doc key) of
             Some e \<Rightarrow> Some e
           | None \<Rightarrow> Option.bind (pointer_manifest_key (doc key)) (\<lambda>m.
               if json_status_success (doc m) then input_time_range_end_ms (doc m) else None))"

fun first_end :: "(string \<Rightarrow> json) \<Rightarrow> string list \<Rightarrow> int option" where
  "first_end doc [] = None"
| "first_end doc (k # ks) = (case pointer_end doc k of Some e \<Rightarrow> Some e | None \<Rightarrow> first_end doc ks)"

text \<open>The store answers: a page of keys per prefix, and every document can be read.\<close>

definition serves ::
    "'w s3_uploader \<Rightarrow> file_env \<Rightarrow> (string \<Rightarrow> (json, string) result) \<Rightarrow> (string \<Rightarrow> string list) \<Rightarrow> (string \<Rightarrow> json) \<Rightarrow> bool" where
  "serves u env parse page doc \<longleftrightarrow>
     (\<forall>pre w. \<exists>w'. list_keys_page u pre L1_POINTER_KEYS_PER_HOUR w = (w', Inr (page pre))) \<and>
     (\<forall>k w. \<exists>w'. download_json_value u env parse k w = (w', Inr (doc k)))"

definition lookup_keys :: "l0_params \<Rightarrow> (string \<Rightarrow> string list) \<Rightarrow> int \<Rightarrow> int \<Rightarrow> nat list \<Rightarrow> string list" where
  "lookup_keys params page window_ms latest offsets =
     concat (map (\<lambda>offset. json_keys_desc (page (l1_pointer_hour_prefix params window_ms
       (i64_saturating_sub latest (i64_saturating_mul (int offset) 3600000))))) offsets)"

lemma pointer_served:
  assumes "serves u env parse page doc"
  shows "\<exists>w'. success_end_ms_from_pointer u env parse k w = (w', Inr (pointer_end doc k))"
proof -
  obtain w1 where 1: "download_json_value u env parse k w = (w1, Inr (doc k))"
    using assms unfolding serves_def by blast
  show ?thesis
  proof (cases "pointer_manifest_key (doc k)")
    case (Some m)
    obtain w2 where "download_json_value u env parse m w1 = (w2, Inr (doc m))"
      using assms unfolding serves_def by blast
    with 1 Some show ?thesis by (auto simp: success_end_ms_from_pointer_def pointer_end_def split: option.splits)
  qed (use 1 in \<open>auto simp: success_end_ms_from_pointer_def pointer_end_def split: option.splits\<close>)
qed

lemma first_success_served:
  assumes "serves u env parse page doc"
  shows "\<exists>w'. first_success u env parse ks w = (w', Inr (first_end doc ks))"
proof (induction ks arbitrary: w)
  case (Cons k ks)
  obtain w1 where "success_end_ms_from_pointer u env parse k w = (w1, Inr (pointer_end doc k))"
    using pointer_served [OF assms] by blast
  with Cons.IH [of w1] show ?case by (auto split: option.splits)
qed simp

lemma first_end_append: "first_end doc (xs @ ys) = (case first_end doc xs of Some e \<Rightarrow> Some e | None \<Rightarrow> first_end doc ys)"
  by (induction xs) (auto split: option.splits)

lemma first_end_split:
  "first_end doc ks = Some v \<longleftrightarrow> (\<exists>newer k older. ks = newer @ k # older \<and>
     pointer_end doc k = Some v \<and> list_all (\<lambda>k'. pointer_end doc k' = None) newer)"
proof
  show "first_end doc ks = Some v \<Longrightarrow> \<exists>newer k older. ks = newer @ k # older \<and>
      pointer_end doc k = Some v \<and> list_all (\<lambda>k'. pointer_end doc k' = None) newer"
  proof (induction ks)
    case (Cons x ks)
    show ?case
    proof (cases "pointer_end doc x")
      case None
      with Cons obtain newer k older where "ks = newer @ k # older" "pointer_end doc k = Some v"
        "list_all (\<lambda>k'. pointer_end doc k' = None) newer" by auto
      with None show ?thesis by (intro exI [of _ "x # newer"] exI [of _ k] exI [of _ older]) simp
    next
      case (Some e)
      with Cons.prems show ?thesis by (intro exI [of _ "[]"] exI [of _ x] exI [of _ ks]) simp
    qed
  qed simp
  have "first_end doc (newer @ k # older) = Some v" if "pointer_end doc k = Some v"
    "list_all (\<lambda>k'. pointer_end doc k' = None) newer" for newer k older
    using that by (induction newer) auto
  then show "\<exists>newer k older. ks = newer @ k # older \<and>
      pointer_end doc k = Some v \<and> list_all (\<lambda>k'. pointer_end doc k' = None) newer \<Longrightarrow> first_end doc ks = Some v" by blast
qed

lemma lookup_hours_served:
  assumes "serves u env parse page doc"
  shows "\<exists>w'. lookup_hours params u env parse W latest offsets w = (w', Inr (first_end doc (lookup_keys params page W latest offsets)))"
proof (induction offsets arbitrary: w)
  case (Cons offset offsets)
  let ?pre = "l1_pointer_hour_prefix params W (i64_saturating_sub latest (i64_saturating_mul (int offset) 3600000))"
  obtain w1 where 1: "list_keys_page u ?pre L1_POINTER_KEYS_PER_HOUR w = (w1, Inr (page ?pre))"
    using assms unfolding serves_def by blast
  obtain w2 where 2: "first_success u env parse (json_keys_desc (page ?pre)) w1 = (w2, Inr (first_end doc (json_keys_desc (page ?pre))))"
    using first_success_served [OF assms] by blast
  show ?case using Cons.IH [of w2] 1 2
    by (auto simp: Let_def lookup_keys_def first_end_append split: option.splits)
qed (simp add: lookup_keys_def)

section \<open>What the audit checks\<close>

lemma before_pattern_sep: "c \<notin> set a \<Longrightarrow> before_pattern (c # p) (a @ (c # p) @ b) = Some a"
  by (induction a) (auto simp: starts_with_def)

lemma rsplit_prefix_sep:
  assumes "CHR ''='' \<notin> set t"
  shows "rsplit_prefix (p @ ''='') (h @ (p @ ''='') @ t) = Some h"
proof -
  have "before_pattern (rev (p @ ''='')) (rev (h @ (p @ ''='') @ t)) = Some (rev t)"
    using before_pattern_sep [of "CHR ''=''" "rev t" "rev p" "rev h"] assms by simp
  then show ?thesis by (simp add: rsplit_prefix_def)
qed

definition hour_prefix_of :: "l0_params \<Rightarrow> int \<Rightarrow> int \<Rightarrow> string" where
  "hour_prefix_of params W ws = ''l1_index/window_ms='' @ show_int W @ hour_dir (time_part params ws)"

lemma index_key_prefix:
  "rsplit_prefix ''window_start_ms='' (index_pointer_key params W ws) = Some (hour_prefix_of params W ws)"
  "starts_with (hour_prefix_of params W ws) (index_pointer_key params W ws)"
proof -
  have "CHR ''='' \<notin> set (show_int ws @ ''.json'')"
    using show_int_chars [of "CHR ''=''" ws] by (auto simp: is_ascii_digit_def)
  from rsplit_prefix_sep [OF this, of "''window_start_ms''" "hour_prefix_of params W ws"]
  have "rsplit_prefix ''window_start_ms='' (hour_prefix_of params W ws @ ''window_start_ms='' @ show_int ws @ ''.json'') =
    Some (hour_prefix_of params W ws)" by simp
  moreover have k: "index_pointer_key params W ws = hour_prefix_of params W ws @ ''window_start_ms='' @ show_int ws @ ''.json''"
    by (simp add: index_pointer_key_def hour_prefix_of_def hour_dir_def case_prod_beta Let_def)
  ultimately show "rsplit_prefix ''window_start_ms='' (index_pointer_key params W ws) = Some (hour_prefix_of params W ws)" by simp
  show "starts_with (hour_prefix_of params W ws) (index_pointer_key params W ws)" by (simp add: k)
qed

lemma audit_keys_windows:
  "0 < W \<Longrightarrow> e \<le> i64_max \<Longrightarrow> i64_min \<le> c \<Longrightarrow> audit_keys_from params W e c n = Inr keys \<Longrightarrow>
     keys = map (index_pointer_key params W) (window_starts_from W e c)"
proof (induction params W e c n arbitrary: keys rule: audit_keys_from.induct)
  case (1 params W e c n)
  show ?case
  proof (cases "c < e")
    case True
    with "1.prems" obtain nxt ks where a: "i64_checked_add c W = Some nxt" "c < nxt" "\<not> n \<ge> MAX_AUDIT_WINDOWS"
        "audit_keys_from params W e nxt (Suc n) = Inr ks" "keys = index_pointer_key params W c # ks"
      by (subst (asm) audit_keys_from.simps) (auto split: if_splits option.splits)
    have "ks = map (index_pointer_key params W) (window_starts_from W e nxt)"
      using "1.IH" [OF True a(3,1) _ "1.prems"(1,2) _ a(4)] a(2) "1.prems"(3) by simp
    then show ?thesis using a True by (subst window_starts_from.simps) simp
  next
    case False
    with "1.prems"(4) show ?thesis by (subst (asm) audit_keys_from.simps, subst window_starts_from.simps) simp
  qed
qed

lemma audit_listing_exact:
  assumes "lists_exactly u stored"
  shows "\<exists>w'. audit_listing u pres existing w = Some (w', Inr (existing \<union> {k \<in> stored. \<exists>p \<in> set pres. starts_with p k}))"
proof (induction pres arbitrary: existing w)
  case (Cons p ps)
  obtain w1 ks where 1: "list_keys u p w = Some (w1, Inr ks)" "set ks = {k \<in> stored. starts_with p k}"
    using assms unfolding lists_exactly_def by blast
  have "existing \<union> set ks \<union> {k \<in> stored. \<exists>p \<in> set ps. starts_with p k} = existing \<union> {k \<in> stored. \<exists>p \<in> set (p # ps). starts_with p k}"
    using 1(2) by auto
  with Cons.IH [of "existing \<union> set ks" w1] 1(1) show ?case by simp
qed simp

lemma audit_keys_return:
  "0 < W \<Longrightarrow> 0 \<le> c \<Longrightarrow> e \<le> i64_max \<Longrightarrow> (e - c) mod W = 0 \<Longrightarrow> int n + (e - c) div W \<le> int MAX_AUDIT_WINDOWS \<Longrightarrow>
     \<exists>keys. audit_keys_from params W e c n = Inr keys"
proof (induction params W e c n rule: audit_keys_from.induct)
  case (1 params W e c n)
  show ?case
  proof (cases "c < e")
    case True
    have "e - c = (e - (c + W)) + W" by simp
    then have q: "(e - c) div W = (e - (c + W)) div W + 1" "(e - (c + W)) mod W = 0"
      using "1.prems"(1,4) div_add_self2 [of W "e - (c + W)"] mod_add_self2 [of "e - (c + W)" W] by simp_all
    have "W \<le> e - c" using True "1.prems"(1,4) by (metis mod_pos_pos_trivial not_less diff_gt_0_iff_gt less_le)
    then have le: "c + W \<le> e" and n: "\<not> n \<ge> MAX_AUDIT_WINDOWS"
      using q(1) "1.prems"(1,5) pos_imp_zdiv_nonneg_iff [of W "e - (c + W)"] by auto
    have add: "i64_checked_add c W = Some (c + W)"
      using le "1.prems"(1-3) by (simp add: i64_checked_add_def in_i64_def i64_consts)
    have adv: "\<not> c + W \<le> c" using "1.prems"(1) by simp
    have "\<exists>keys. audit_keys_from params W e (c + W) (Suc n) = Inr keys"
      by (rule "1.IH" [OF True n add adv]) (use "1.prems" q in auto)
    then show ?thesis using True n add adv by (subst audit_keys_from.simps) auto
  next
    case False
    then show ?thesis by (subst audit_keys_from.simps) simp
  qed
qed

lemma exec_decision_returns:
  assumes "lists_exactly (le_l0 env) stored"
  shows "exec_decision env args d now w \<noteq> None"
proof -
  have "list_all_into (le_l0 env) rng mode overlap pres keys w \<noteq> None" for rng mode overlap pres keys w
  proof (induction pres arbitrary: keys w)
    case (Cons p ps)
    obtain w' ks where "list_keys (le_l0 env) p w = Some (w', Inr ks)" using assms unfolding lists_exactly_def by blast
    with Cons.IH show ?case by (simp add: list_into_def)
  qed simp
  then have "collect_input_entries params (le_l0 env) rt fs rng mode overlap w \<noteq> None" for params rt fs rng mode overlap w
    by (auto simp: collect_input_entries_def s3_input_keys_def split: sum.splits)
  then have "fold_range re arrival params args (le_l0 env) rt fs ir sr rr mode overlap w \<noteq> None" for re arrival params rt fs ir sr rr mode overlap w
    by (auto simp: fold_range_def Let_def split: option.splits sum.splits prod.splits)
  then show ?thesis by (auto simp: exec_decision_def Let_def split: option.splits sum.splits prod.splits)
qed

section \<open>Properties\<close>

text \<open>The point from which the scheduler continues is the end recorded by the first successful pointer in the
  order of the lookup: hour by hour back from now, in each hour the listed keys from the greatest down.\<close>

theorem lookup_newest_success:
  assumes "serves u env parse page doc"
  shows "\<exists>w' r. resolve_last_l1_success_end_ms params u env parse W now w = (w', Inr r) \<and>
    (r = Some v \<longleftrightarrow> (\<exists>newer k older.
       lookup_keys params page W (floor_hour_ms now) [0 ..< MAX_L1_POINTER_LOOKBACK_HOURS] = newer @ k # older \<and>
       pointer_end doc k = Some v \<and> list_all (\<lambda>k'. pointer_end doc k' = None) newer))"
proof -
  have "\<exists>w'. resolve_last_l1_success_end_ms params u env parse W now w =
      (w', Inr (first_end doc (lookup_keys params page W (floor_hour_ms now) [0 ..< MAX_L1_POINTER_LOOKBACK_HOURS])))"
    unfolding resolve_last_l1_success_end_ms_def by (rule lookup_hours_served [OF assms])
  then show ?thesis by (elim exE) (intro exI conjI, assumption, rule first_end_split)
qed


text \<open>C36: The audit of a range of at most 100000 windows ends, and it succeeds exactly when the pointer of every
  window of the range is stored.\<close>

theorem audit_exact:
  assumes "lists_exactly u stored" and "0 < W" and "0 \<le> start_ms rng" "start_ms rng < end_ms rng" "end_ms rng \<le> i64_max"
    and "start_ms rng mod W = 0" "end_ms rng mod W = 0" and "(end_ms rng - start_ms rng) div W \<le> 100000"
  shows "\<exists>w' r. run_l1_index_audit params u W rng w = Some (w', r) \<and>
    (r = Inr () \<longleftrightarrow> index_pointer_key params W ` set (index_window_starts rng W) \<subseteq> stored)"
proof -
  have "(end_ms rng - start_ms rng) mod W = 0" using assms(6,7) by (metis diff_zero mod_0 mod_diff_eq)
  then obtain keys where k: "audit_keys_from params W (end_ms rng) (start_ms rng) 0 = Inr keys"
    using audit_keys_return [of W "start_ms rng" "end_ms rng" 0 params] assms by (auto simp: MAX_AUDIT_WINDOWS_def)
  have keys: "keys = map (index_pointer_key params W) (index_window_starts rng W)"
    using audit_keys_windows [OF assms(2,5) _ k] assms(2-4) by (simp add: index_window_starts_def i64_consts)
  obtain w' where l: "audit_listing u (audit_hour_prefixes keys) {} w =
      Some (w', Inr {x \<in> stored. \<exists>p \<in> set (audit_hour_prefixes keys). starts_with p x})"
    using audit_listing_exact [OF assms(1), of "audit_hour_prefixes keys" "{}" w] by auto
  have "\<exists>p \<in> set (audit_hour_prefixes keys). starts_with p x" if "x \<in> set keys" for x
  proof -
    obtain ws where x: "x = index_pointer_key params W ws" using \<open>x \<in> set keys\<close> keys by auto
    then have "hour_prefix_of params W ws \<in> set (audit_hour_prefixes keys)"
      using index_key_prefix(1) \<open>x \<in> set keys\<close> by (auto simp: audit_hour_prefixes_def List.map_filter_def image_iff)
    then show ?thesis using index_key_prefix(2) x by blast
  qed
  then have "filter (\<lambda>x. x \<notin> {x \<in> stored. \<exists>p \<in> set (audit_hour_prefixes keys). starts_with p x}) keys = [] \<longleftrightarrow> set keys \<subseteq> stored"
    by (auto simp: filter_empty_conv)
  moreover have "start_ms rng smod W = 0" "end_ms rng smod W = 0" using assms by simp_all
  ultimately show ?thesis using assms(2,4) k l keys
    by (simp add: run_l1_index_audit_def audit_expected_keys_def Let_def)
qed

section \<open>Witnesses\<close>

text \<open>A store with two pointers: the newer one of an empty run, the older one of a run that ended at 900000.\<close>

definition pointer_keys :: "string list" where "pointer_keys = [''0.json'', ''900000.json'']"

definition pointer_doc :: "string \<Rightarrow> json" where
  "pointer_doc k = JObject (if k = ''900000.json'' then [(''status'', JString ''empty'')]
     else [(''status'', JString ''success''), (''input_time_range_end_ms'', JNumber (PosInt 900000))])"

definition pointer_store :: "unit s3_uploader" where
  "pointer_store = (listing_uploader [])\<lparr>client := (client (listing_uploader []))\<lparr>
     c_list := (\<lambda>_ _ _ w. (w, Inr \<lparr>pg_contents = map (\<lambda>k. \<lparr>so_key = Some k, so_last_modified_ms = None, so_size = None\<rparr>) pointer_keys,
       pg_is_truncated = Some False, pg_next_token = None\<rparr>)),
     c_get := (\<lambda>k w. (w, Inr (Inr k)))\<rparr>\<rparr>"

lemma pointer_served_demo: "serves pointer_store plain_files (\<lambda>b. Inr (pointer_doc b)) (\<lambda>_. pointer_keys) pointer_doc"
  by (simp add: serves_def list_keys_page_def pointer_store_def listing_uploader_def download_json_value_def download_file_def
      plain_files_def downloaded_def pointer_keys_def List.map_filter_def)

lemma pointer_lookup: "lookup_keys params (\<lambda>_. pointer_keys) W latest [0 ..< MAX_L1_POINTER_LOOKBACK_HOURS] =
    [''900000.json''] @ ''0.json'' # lookup_keys params (\<lambda>_. pointer_keys) W latest [1 ..< MAX_L1_POINTER_LOOKBACK_HOURS]"
proof -
  have "[0 ..< MAX_L1_POINTER_LOOKBACK_HOURS] = 0 # [1 ..< MAX_L1_POINTER_LOOKBACK_HOURS]"
    by (subst upt_conv_Cons) (simp_all add: MAX_L1_POINTER_LOOKBACK_HOURS_def)
  then show ?thesis by (simp add: lookup_keys_def pointer_keys_def json_keys_desc_def ends_with_def suffix_to_prefix)
qed

lemma pointer_ends:
  "pointer_end pointer_doc ''0.json'' = Some 900000" "\<not> json_status_success (pointer_doc ''900000.json'')"
  by (simp_all add: pointer_end_def json_status_success_def pointer_doc_def jget_def as_str_def input_time_range_end_ms_def as_i64_def
      i64_consts)

theorem lookup_newest_success_witness:
  "\<exists>w'. resolve_last_l1_success_end_ms flat_params pointer_store plain_files (\<lambda>b. Inr (pointer_doc b)) 1000 3200000 () = (w', Inr (Some 900000))"
proof -
  have "pointer_end pointer_doc ''900000.json'' = None" using pointer_ends(2) by (simp add: pointer_end_def)
  then show ?thesis
    using lookup_newest_success [OF pointer_served_demo, of flat_params 1000 3200000 "()" 900000] pointer_lookup [of flat_params 1000] pointer_ends(1)
    by fastforce
qed

definition demo_l1_env :: "unit l1_env" where
  "demo_l1_env = \<lparr>le_params = flat_params, le_runner = pub_runner, le_codec = pub_codec, le_files = plain_files, le_read = demo_read_env,
     le_arrival = rev, le_local_root = [], le_spool = FDir dir_meta [], le_l0 = listing_uploader [gap_key found_gap], le_l1 = pointer_store,
     le_json = (\<lambda>b. Inr (pointer_doc b)), le_rfc3339 = (\<lambda>_. None), le_artifacts = (\<lambda>_ _ _ _ w. (w, Inr pub_keys)),
     le_worker = \<lparr>wk_now = (\<lambda>w. (w, 3200000)), wk_shutdown = (\<lambda>w. False)\<rparr>\<rparr>"


theorem audit_exact_witness:
  "\<exists>w' r. run_l1_index_audit flat_params (listing_uploader [index_pointer_key flat_params 1000 0]) 1000 \<lparr>start_ms = 0, end_ms = 1000\<rparr> () =
     Some (w', r) \<and> r = Inr ()"
proof -
  let ?k = "index_pointer_key flat_params 1000 0" and ?rng = "\<lparr>start_ms = 0, end_ms = 1000\<rparr>"
  have "index_window_starts ?rng 1000 = [0]"
    by (simp add: index_window_starts_def window_starts_from.simps i64_checked_add_def in_i64_def i64_consts)
  then show ?thesis
    using audit_exact [OF listing_exact [of "[?k]"], of 1000 ?rng flat_params "()"] by (simp add: i64_consts)
qed

end
