(* ===== verification/Supervisor.thy ===== *)
theory Supervisor
  imports Supervisor_Args Worker
begin

text \<open>
  The supervisor (\<open>src/supervisor\<close>): the chunks of the historical bootstrap, the markers that record its progress, the
  scheduler that runs backfill and normalizer for each missing chunk, and the loop over the events of the child processes.
  The results: the chunks tile the lookback, the normalizer accepts every part of a chunk exactly when the
  schedule interval fits the chunk, a finished scheduler leaves no chunk without marker, and the normalizer that runs is the
  one of the phase.
\<close>

section \<open>Chunks (bootstrap/chunk.rs)\<close>

type_synonym bootstrap_chunk = input_range

definition align_down_to_chunk :: "int \<Rightarrow> int \<Rightarrow> int" where
  "align_down_to_chunk v chunk_ms = wrap_i64 ((v div chunk_ms) * chunk_ms)"

text \<open>Both loops advance by a step that their callers check to be positive.\<close>

function chunks_from :: "int \<Rightarrow> int \<Rightarrow> int \<Rightarrow> bootstrap_chunk list" where
  "chunks_from step_ms end_bound cursor =
     (if cursor < end_bound
      then let e = min (i64_saturating_add cursor step_ms) end_bound in
           if e > cursor then \<lparr>start_ms = cursor, end_ms = e\<rparr> # chunks_from step_ms end_bound e else []
      else [])"
  by auto
termination
  by (relation "measure (\<lambda>(s, e, c). nat (e - c))") auto

declare chunks_from.simps [simp del]

definition bootstrap_chunks :: "supervisor_args \<Rightarrow> int \<Rightarrow> bootstrap_chunk list" where
  "bootstrap_chunks args now_ms =
     (let lookback_ms = i64_saturating_mul (i64_saturating_mul (sa_bootstrap_lookback_days args) 24) 3600000;
          chunk_ms = i64_saturating_mul (sa_bootstrap_chunk_hours args) 3600000
      in if chunk_ms \<le> 0 then []
         else let end_bound = align_down_to_chunk (i64_saturating_sub now_ms 3600000) chunk_ms;
                  start_bound = align_down_to_chunk (i64_saturating_sub end_bound lookback_ms) chunk_ms
              in chunks_from chunk_ms end_bound start_bound)"

definition normalize_subchunks :: "supervisor_args \<Rightarrow> bootstrap_chunk \<Rightarrow> bootstrap_chunk list" where
  "normalize_subchunks args chunk =
     (let interval_ms = sa_normalize_schedule_interval_ms args
      in if interval_ms \<le> 0 \<or> end_ms chunk \<le> start_ms chunk then []
         else chunks_from interval_ms (end_ms chunk) (start_ms chunk))"

section \<open>Markers (bootstrap/marker.rs, bootstrap/selection.rs)\<close>

text \<open>What the scheduler needs from outside. \<open>se_child\<close> starts a worker and waits for it: it fails, is killed because of a shutdown
  (\<open>None\<close>), or exits, successfully or not. The bodies of the markers are the JSON text of the chunk and the time.\<close>

record 'w sup_env =
  se_store :: "'w s3_uploader"
  se_params :: l0_params
  se_from_slice :: "string \<Rightarrow> (json, storage_error) result"
  se_l0_marker :: "bootstrap_chunk \<Rightarrow> int \<Rightarrow> string"
  se_complete_marker :: "bootstrap_chunk \<Rightarrow> string \<Rightarrow> int \<Rightarrow> string"
  se_now :: "'w \<Rightarrow> 'w \<times> int"
  se_shutdown :: "'w \<Rightarrow> bool"
  se_child :: "string \<Rightarrow> string list \<Rightarrow> 'w \<Rightarrow> 'w \<times> (bool option, string) result"
  se_sleep :: "nat \<Rightarrow> 'w \<Rightarrow> 'w"

definition marker_dir :: "bootstrap_chunk \<Rightarrow> string" where
  "marker_dir chunk = ''supervisor/bootstrap/venue=binance/start_ms='' @ show_int (start_ms chunk) @ ''/end_ms='' @
     show_int (end_ms chunk)"

definition l0_marker_key :: "bootstrap_chunk \<Rightarrow> string" where
  "l0_marker_key chunk = marker_dir chunk @ ''/success.json''"

definition complete_marker_key :: "bootstrap_chunk \<Rightarrow> string" where
  "complete_marker_key chunk = marker_dir chunk @ ''/complete.json''"

definition has_marker :: "'w sup_env \<Rightarrow> string \<Rightarrow> 'w \<Rightarrow> 'w \<times> (bool, storage_error) result" where
  "has_marker env key w = (case download_json_optional (se_from_slice env) (se_store env) key w of
     (w', r) \<Rightarrow> (w', and_then r (\<lambda>marker. Inr (marker \<noteq> None))))"

definition has_complete :: "'w sup_env \<Rightarrow> bootstrap_chunk \<Rightarrow> 'w \<Rightarrow> 'w \<times> (bool, storage_error) result" where
  "has_complete env chunk w = has_marker env (complete_marker_key chunk) w"

definition has_l0_success :: "'w sup_env \<Rightarrow> bootstrap_chunk \<Rightarrow> 'w \<Rightarrow> 'w \<times> (bool, storage_error) result" where
  "has_l0_success env chunk w = has_marker env (l0_marker_key chunk) w"

definition pointer_covers :: "json \<Rightarrow> bootstrap_chunk \<Rightarrow> bool" where
  "pointer_covers pointer chunk \<longleftrightarrow> json_status_success pointer \<and>
     Option.bind (jget ''input_time_range_start_ms'' pointer) as_i64 = Some (start_ms chunk) \<and>
     Option.bind (jget ''input_time_range_end_ms'' pointer) as_i64 = Some (end_ms chunk)"

definition has_l1_success :: "'w sup_env \<Rightarrow> bootstrap_chunk \<Rightarrow> 'w \<Rightarrow> 'w \<times> (bool, storage_error) result" where
  "has_l1_success env chunk w =
     (case download_json_optional (se_from_slice env) (se_store env) (index_pointer_key (se_params env) 1000 (start_ms chunk)) w of
        (w', Inl e) \<Rightarrow> (w', Inl e)
      | (w', Inr None) \<Rightarrow> (w', Inr False)
      | (w', Inr (Some pointer)) \<Rightarrow> (w', Inr (pointer_covers pointer chunk)))"

definition mark_l0_success :: "'w sup_env \<Rightarrow> bootstrap_chunk \<Rightarrow> 'w \<Rightarrow> 'w \<times> (unit, storage_error) result" where
  "mark_l0_success env chunk w = (case se_now env w of (w1, now_ms) \<Rightarrow>
     case upload_json (se_store env) (l0_marker_key chunk) (se_l0_marker env chunk now_ms) w1 of (w2, _, r) \<Rightarrow> (w2, r))"

definition mark_complete :: "'w sup_env \<Rightarrow> bootstrap_chunk \<Rightarrow> 'w \<Rightarrow> 'w \<times> (unit, storage_error) result" where
  "mark_complete env chunk w = (case se_now env w of (w1, now_ms) \<Rightarrow>
     case upload_json (se_store env) (complete_marker_key chunk) (se_complete_marker env chunk (l0_marker_key chunk) now_ms) w1 of
       (w2, _, r) \<Rightarrow> (w2, r))"

fun first_missing :: "'w sup_env \<Rightarrow> bootstrap_chunk list \<Rightarrow> 'w \<Rightarrow> 'w \<times> (bootstrap_chunk option, storage_error) result" where
  "first_missing env [] w = (w, Inr None)"
| "first_missing env (chunk # chunks) w = (case has_complete env chunk w of
     (w', Inl e) \<Rightarrow> (w', Inl e)
   | (w', Inr False) \<Rightarrow> (w', Inr (Some chunk))
   | (w', Inr True) \<Rightarrow> first_missing env chunks w')"

definition next_missing_bootstrap_chunk ::
    "'w sup_env \<Rightarrow> supervisor_args \<Rightarrow> 'w \<Rightarrow> 'w \<times> (bootstrap_chunk option, storage_error) result" where
  "next_missing_bootstrap_chunk env args w =
     (case se_now env w of (w1, now_ms) \<Rightarrow> first_missing env (bootstrap_chunks args now_ms) w1)"

section \<open>The scheduler (scheduler.rs, scheduler/chunk.rs, scheduler/child.rs)\<close>

text \<open>The log of the scheduler is part of its result: it says what was done for which chunk.\<close>

datatype boot_log =
    ChunkStart bootstrap_chunk | L0Skip bootstrap_chunk | L0Done bootstrap_chunk | L0Failed bootstrap_chunk
  | L1Skip bootstrap_chunk | L1Start bootstrap_chunk | L1Done bootstrap_chunk | L1Failed bootstrap_chunk
  | ChunkDone bootstrap_chunk | BootstrapComplete | BootstrapDisabled

definition run_backfill_child ::
    "'w sup_env \<Rightarrow> supervisor_args \<Rightarrow> bootstrap_chunk \<Rightarrow> 'w \<Rightarrow> 'w \<times> boot_log list \<times> (bool, string) result" where
  "run_backfill_child env args chunk w =
     (case se_child env (sa_backfill_bin args) (supervisor_backfill_args args chunk) w of
        (w', Inl e) \<Rightarrow> (w', [], Inl e)
      | (w', Inr None) \<Rightarrow> (w', [], Inr False)
      | (w', Inr (Some exited_ok)) \<Rightarrow> (w', [if exited_ok then L0Done chunk else L0Failed chunk], Inr exited_ok))"

fun run_subchunks ::
    "'w sup_env \<Rightarrow> supervisor_args \<Rightarrow> bootstrap_chunk list \<Rightarrow> 'w \<Rightarrow> 'w \<times> boot_log list \<times> (bool, string) result" where
  "run_subchunks env args [] w = (w, [], Inr True)"
| "run_subchunks env args (sub # subs) w =
     (case has_l1_success env sub w of
        (w1, Inl e) \<Rightarrow> (w1, [], Inl (storage_error_display e))
      | (w1, Inr True) \<Rightarrow> (case run_subchunks env args subs w1 of (w2, tr, r) \<Rightarrow> (w2, L1Skip sub # tr, r))
      | (w1, Inr False) \<Rightarrow>
          (case se_child env (sa_normalize_bin args) (normalize_backfill_args args sub) w1 of
             (w2, Inl e) \<Rightarrow> (w2, [L1Start sub], Inl e)
           | (w2, Inr None) \<Rightarrow> (w2, [L1Start sub], Inr False)
           | (w2, Inr (Some False)) \<Rightarrow> (w2, [L1Start sub, L1Failed sub], Inr False)
           | (w2, Inr (Some True)) \<Rightarrow>
               (case run_subchunks env args subs w2 of (w3, tr, r) \<Rightarrow> (w3, L1Start sub # L1Done sub # tr, r))))"

definition run_l1_normalize_chunk ::
    "'w sup_env \<Rightarrow> supervisor_args \<Rightarrow> bootstrap_chunk \<Rightarrow> 'w \<Rightarrow> 'w \<times> boot_log list \<times> (bool, string) result" where
  "run_l1_normalize_chunk env args chunk w = run_subchunks env args (normalize_subchunks args chunk) w"

text \<open>The L0 part: \<open>Inr False\<close> stops the chunk without an error.\<close>

definition run_l0_part ::
    "'w sup_env \<Rightarrow> supervisor_args \<Rightarrow> bootstrap_chunk \<Rightarrow> 'w \<Rightarrow> 'w \<times> boot_log list \<times> (bool, string) result" where
  "run_l0_part env args chunk w = (case has_l0_success env chunk w of
     (w1, Inl e) \<Rightarrow> (w1, [], Inl (storage_error_display e))
   | (w1, Inr True) \<Rightarrow> (w1, [L0Skip chunk], Inr True)
   | (w1, Inr False) \<Rightarrow>
       (case run_backfill_child env args chunk w1 of
          (w2, tr, Inl e) \<Rightarrow> (w2, tr, Inl e)
        | (w2, tr, Inr False) \<Rightarrow> (w2, tr, Inr False)
        | (w2, tr, Inr True) \<Rightarrow>
            (case mark_l0_success env chunk w2 of
               (w3, Inl e) \<Rightarrow> (w3, tr, Inl (storage_error_display e))
             | (w3, Inr _) \<Rightarrow> (w3, tr, Inr True))))"

definition run_backfill_chunk ::
    "'w sup_env \<Rightarrow> supervisor_args \<Rightarrow> bootstrap_chunk \<Rightarrow> 'w \<Rightarrow> 'w \<times> boot_log list \<times> (unit, string) result" where
  "run_backfill_chunk env args chunk w = (case run_l0_part env args chunk w of
     (w1, log1, Inl e) \<Rightarrow> (w1, ChunkStart chunk # log1, Inl e)
   | (w1, log1, Inr False) \<Rightarrow> (w1, ChunkStart chunk # log1, Inr ())
   | (w1, log1, Inr True) \<Rightarrow>
       (case run_l1_normalize_chunk env args chunk w1 of
          (w2, log2, Inl e) \<Rightarrow> (w2, ChunkStart chunk # log1 @ log2, Inl e)
        | (w2, log2, Inr False) \<Rightarrow> (w2, ChunkStart chunk # log1 @ log2, Inr ())
        | (w2, log2, Inr True) \<Rightarrow>
            (case mark_complete env chunk w2 of
               (w3, Inl e) \<Rightarrow> (w3, ChunkStart chunk # log1 @ log2, Inl (storage_error_display e))
             | (w3, Inr _) \<Rightarrow> (w3, ChunkStart chunk # log1 @ log2 @ [ChunkDone chunk], Inr ()))))"

partial_function (option) scheduler_loop ::
    "'w sup_env \<Rightarrow> supervisor_args \<Rightarrow> 'w \<Rightarrow> ('w \<times> boot_log list \<times> (unit, string) result) option" where
  "scheduler_loop env args w =
     (if se_shutdown env w then Some (w, [], Inr ())
      else case next_missing_bootstrap_chunk env args w of
        (w1, Inl e) \<Rightarrow> Some (w1, [], Inl (storage_error_display e))
      | (w1, Inr None) \<Rightarrow> Some (w1, [BootstrapComplete], Inr ())
      | (w1, Inr (Some chunk)) \<Rightarrow>
          (case run_backfill_chunk env args chunk w1 of
             (w2, tr, Inl e) \<Rightarrow> Some (w2, tr, Inl e)
           | (w2, tr, Inr _) \<Rightarrow>
               Option.bind (scheduler_loop env args (se_sleep env (sa_bootstrap_interval_secs args) w2))
                 (\<lambda>(w3, tr', r). Some (w3, tr @ tr', r))))"

text \<open>A disabled bootstrap waits for the shutdown; \<open>wait\<close> is the world after that, if it comes.\<close>

definition run_backfill_scheduler ::
    "'w sup_env \<Rightarrow> ('w \<Rightarrow> 'w option) \<Rightarrow> supervisor_args \<Rightarrow> 'w \<Rightarrow> ('w \<times> boot_log list \<times> (unit, string) result) option" where
  "run_backfill_scheduler env wait args w =
     (if \<not> sa_bootstrap_enabled args then map_option (\<lambda>w'. (w', [BootstrapDisabled], Inr ())) (wait w)
      else scheduler_loop env args w)"

section \<open>Supervision (mod.rs, process.rs)\<close>

text \<open>The state between two turns of the loop: which form of the normalizer runs, whether the bootstrap scheduler or the idle one is
  waited for, and the shutdown flag, which is only ever set.\<close>

datatype normalize_worker = LivePriorityWorker | FullWorker
datatype scheduler_task = BootstrapTask | IdleTask

record sup_state =
  ss_bootstrap_active :: bool
  ss_normalize :: normalize_worker
  ss_scheduler :: scheduler_task
  ss_shutdown_requested :: bool

definition normalize_command :: "supervisor_args \<Rightarrow> normalize_worker \<Rightarrow> string list" where
  "normalize_command args n = (case n of
     LivePriorityWorker \<Rightarrow> live_priority_normalize_args args | FullWorker \<Rightarrow> supervisor_normalize_args args)"

definition normalize_for_phase :: "bool \<Rightarrow> normalize_worker" where
  "normalize_for_phase bootstrap_active = (if bootstrap_active then LivePriorityWorker else FullWorker)"

definition sup_start :: "supervisor_args \<Rightarrow> sup_state" where
  "sup_start args = \<lparr>ss_bootstrap_active = sa_bootstrap_enabled args,
     ss_normalize = (if sa_bootstrap_enabled args then LivePriorityWorker else FullWorker),
     ss_scheduler = BootstrapTask, ss_shutdown_requested = False\<rparr>"

text \<open>What the \<open>select\<close> can wake up for: waiting for a child gives its venue and exit status or fails; the result of the scheduler
  task is its own result or a join error.\<close>

datatype sup_event =
    RealtimeExited "(string \<times> string, string) result"
  | NormalizeExited "(string, string) result"
  | SchedulerEnded "(unit, string) result"
  | ShutdownSignal

datatype sup_outcome = Continue sup_state | Stop "(unit, string) result"

text \<open>\<open>spawn\<close> is the outcome of starting a normalizer.\<close>

definition sup_react :: "(normalize_worker \<Rightarrow> (unit, string) result) \<Rightarrow> sup_state \<Rightarrow> sup_event \<Rightarrow> sup_outcome" where
  "sup_react spawn s ev = (case ev of
     RealtimeExited (Inl e) \<Rightarrow> Stop (Inl e)
   | RealtimeExited (Inr (venue, status)) \<Rightarrow> Stop (Inl (''realtime worker exited venue='' @ venue @ '': '' @ status))
   | NormalizeExited (Inl e) \<Rightarrow> Stop (Inl e)
   | NormalizeExited (Inr status) \<Rightarrow>
       if ss_shutdown_requested s then Stop (Inr ())
       else let n = normalize_for_phase (ss_bootstrap_active s) in
         (case spawn n of Inl e \<Rightarrow> Stop (Inl e) | Inr _ \<Rightarrow> Continue (s\<lparr>ss_normalize := n\<rparr>))
   | SchedulerEnded r \<Rightarrow>
       if ss_shutdown_requested s then Stop (Inr ())
       else (case r of
          Inr _ \<Rightarrow>
            (case spawn FullWorker of
               Inl e \<Rightarrow> Stop (Inl e)
             | Inr _ \<Rightarrow> Continue (s\<lparr>ss_bootstrap_active := False, ss_normalize := FullWorker, ss_scheduler := IdleTask\<rparr>))
        | Inl _ \<Rightarrow> Continue (s\<lparr>ss_scheduler := BootstrapTask\<rparr>))
   | ShutdownSignal \<Rightarrow> Stop (Inr ()))"

text \<open>Reachable states. The flag may be set at any moment by the signal task.\<close>

inductive sup_reach :: "supervisor_args \<Rightarrow> sup_state \<Rightarrow> bool" for args where
  start: "sup_reach args (sup_start args)"
| signal: "sup_reach args s \<Longrightarrow> sup_reach args (s\<lparr>ss_shutdown_requested := True\<rparr>)"
| react: "sup_reach args s \<Longrightarrow> sup_react spawn s ev = Continue s' \<Longrightarrow> sup_reach args s'"

section \<open>Lemmas\<close>

text \<open>A list of ranges that follow each other from \<open>s\<close> to \<open>e\<close>.\<close>

fun tiles :: "int \<Rightarrow> int \<Rightarrow> input_range list \<Rightarrow> bool" where
  "tiles s e [] \<longleftrightarrow> s = e"
| "tiles s e (r # rs) \<longleftrightarrow> start_ms r = s \<and> s < end_ms r \<and> tiles (end_ms r) e rs"

lemma chunks_from_step:
  assumes "0 < d" "0 \<le> c" "c < e" "e \<le> i64_max"
  shows "chunks_from d e c = \<lparr>start_ms = c, end_ms = min (c + d) e\<rparr> # chunks_from d e (min (c + d) e)"
proof -
  have "min (i64_saturating_add c d) e = min (c + d) e"
    using assms by (auto simp: i64_saturating_add_def sat_i64_def i64_consts)
  then show ?thesis using assms by (subst chunks_from.simps) (simp add: Let_def)
qed

lemma chunks_from_end: "e \<le> c \<Longrightarrow> chunks_from d e c = []"
  by (subst chunks_from.simps) simp

lemma chunks_from_tiles:
  "0 < d \<Longrightarrow> 0 \<le> c \<Longrightarrow> c \<le> e \<Longrightarrow> e \<le> i64_max \<Longrightarrow> tiles c e (chunks_from d e c)"
proof (induction "nat (e - c)" arbitrary: c rule: less_induct)
  case less
  show ?case
  proof (cases "c < e")
    case True
    have "tiles (min (c + d) e) e (chunks_from d e (min (c + d) e))" by (rule less.hyps) (use True less.prems in auto)
    then show ?thesis using True less.prems by (simp add: chunks_from_step)
  qed (use less.prems in \<open>simp add: chunks_from_end\<close>)
qed

lemma tiles_member: "tiles s e rs \<Longrightarrow> r \<in> set rs \<Longrightarrow> s \<le> start_ms r \<and> start_ms r < end_ms r \<and> end_ms r \<le> e"
proof (induction s e rs rule: tiles.induct)
  case (2 s e x rs)
  have "tiles a b ys \<Longrightarrow> a \<le> b" for a b ys by (induction a b ys rule: tiles.induct) auto
  with 2 show ?case by force
qed simp

text \<open>When the step divides the length, every part has the full length and lies on a multiple of the step.\<close>

lemma chunks_from_exact:
  "0 < d \<Longrightarrow> 0 \<le> c \<Longrightarrow> e \<le> i64_max \<Longrightarrow> c mod d = 0 \<Longrightarrow> e mod d = 0 \<Longrightarrow> r \<in> set (chunks_from d e c) \<Longrightarrow>
     end_ms r = start_ms r + d \<and> start_ms r mod d = 0 \<and> c \<le> start_ms r \<and> end_ms r \<le> e"
proof (induction "nat (e - c)" arbitrary: c rule: less_induct)
  case less
  have lt: "c < e" using less.prems(6) chunks_from_end [of e c d] by (cases "c < e") auto
  have "(e - c) mod d = 0" using less.prems(4,5) by (metis diff_zero mod_0 mod_diff_eq)
  then have le: "c + d \<le> e" using lt less.prems(1) by (metis add.commute diff_gt_0_iff_gt le_diff_eq mod_pos_pos_trivial not_less less_le)
  have "r = \<lparr>start_ms = c, end_ms = c + d\<rparr> \<or> r \<in> set (chunks_from d e (c + d))"
    using less.prems(6) le chunks_from_step [OF less.prems(1,2) lt less.prems(3)] by (auto simp: min_def)
  then show ?case
  proof
    assume "r \<in> set (chunks_from d e (c + d))"
    with less.hyps [of "c + d"] less.prems lt show ?thesis by auto
  qed (use less.prems le in auto)
qed

text \<open>When it does not, the last part is shorter than the step.\<close>

lemma chunks_from_last:
  "0 < d \<Longrightarrow> 0 \<le> c \<Longrightarrow> c < e \<Longrightarrow> e \<le> i64_max \<Longrightarrow> (e - c) mod d \<noteq> 0 \<Longrightarrow>
     \<exists>r \<in> set (chunks_from d e c). start_ms r < end_ms r \<and> end_ms r < start_ms r + d \<and> c \<le> start_ms r \<and> end_ms r = e"
proof (induction "nat (e - c)" arbitrary: c rule: less_induct)
  case less
  note step = chunks_from_step [OF less.prems(1-4)]
  show ?case
  proof (cases "e < c + d")
    case True
    then show ?thesis using less.prems step by (intro bexI [of _ "\<lparr>start_ms = c, end_ms = e\<rparr>"]) (auto simp: min_def)
  next
    case False
    have m: "(e - (c + d)) mod d \<noteq> 0" using less.prems(5) mod_add_self2 [of "e - (c + d)" d] by (simp add: algebra_simps)
    then have "c + d < e" using False by (cases "c + d = e") auto
    then have "\<exists>r \<in> set (chunks_from d e (c + d)). start_ms r < end_ms r \<and> end_ms r < start_ms r + d \<and> c + d \<le> start_ms r \<and> end_ms r = e"
      using less.hyps [of "c + d"] less.prems(1-4) m by auto
    then show ?thesis using step False less.prems(1) by (force simp: min_def)
  qed
qed

lemma align_down_facts:
  assumes "0 < d" "0 \<le> v" "v \<le> i64_max"
  shows "align_down_to_chunk v d = v div d * d" "0 \<le> align_down_to_chunk v d" "align_down_to_chunk v d \<le> v"
    "v < align_down_to_chunk v d + d" "align_down_to_chunk v d mod d = 0"
proof -
  have m: "v = v div d * d + v mod d" "0 \<le> v mod d" "v mod d < d" "0 \<le> v div d"
    using assms by (simp_all add: pos_imp_zdiv_nonneg_iff)
  have "0 \<le> v div d * d" using m assms by simp
  moreover have "v div d * d \<le> i64_max" using m(1,2) assms(3) by linarith
  ultimately have "in_i64 (v div d * d)" by (simp add: in_i64_def i64_consts)
  then show e: "align_down_to_chunk v d = v div d * d" by (simp add: align_down_to_chunk_def)
  show "0 \<le> align_down_to_chunk v d" "align_down_to_chunk v d \<le> v" "v < align_down_to_chunk v d + d" "align_down_to_chunk v d mod d = 0"
    using m assms unfolding e by (simp, linarith, linarith, simp)
qed


definition chunk_len :: "supervisor_args \<Rightarrow> int" where
  "chunk_len args = sa_bootstrap_chunk_hours args * 3600000"

definition lookback_len :: "supervisor_args \<Rightarrow> int" where
  "lookback_len args = sa_bootstrap_lookback_days args * 24 * 3600000"

text \<open>The hours of a chunk divide a day, and the lookback does not reach before 1970.\<close>

definition bootstrap_window :: "supervisor_args \<Rightarrow> int \<Rightarrow> bool" where
  "bootstrap_window args now \<longleftrightarrow> 0 < sa_bootstrap_chunk_hours args \<and> sa_bootstrap_chunk_hours args \<le> 24 \<and>
     0 < sa_bootstrap_lookback_days args \<and> lookback_len args + chunk_len args + 3600000 \<le> now \<and> now \<le> i64_max"

lemma bootstrap_chunks_eq:
  assumes "bootstrap_window args now"
  obtains s e where "bootstrap_chunks args now = chunks_from (chunk_len args) e s" and "0 < chunk_len args" and "0 \<le> s" "s \<le> e"
    and "e \<le> now - 3600000" "now - 3600000 < e + chunk_len args" "s \<le> e - lookback_len args" "e - lookback_len args < s + chunk_len args"
    and "s mod chunk_len args = 0" "e mod chunk_len args = 0"
proof -
  let ?d = "chunk_len args" and ?l = "lookback_len args"
  have b: "0 < ?d" "?d \<le> 24 * 3600000" "0 < ?l" "?l + ?d + 3600000 \<le> now" "now \<le> i64_max"
    using assms by (simp_all add: bootstrap_window_def chunk_len_def lookback_len_def)
  have l: "i64_saturating_mul (i64_saturating_mul (sa_bootstrap_lookback_days args) 24) 3600000 = ?l"
    and d: "i64_saturating_mul (sa_bootstrap_chunk_hours args) 3600000 = ?d"
    using assms b by (simp_all add: bootstrap_window_def chunk_len_def lookback_len_def i64_saturating_mul_def sat_i64_def i64_consts)
  have n: "i64_saturating_sub now 3600000 = now - 3600000"
    using b by (simp add: i64_saturating_sub_def sat_i64_def i64_consts)
  define e where "e = align_down_to_chunk (now - 3600000) ?d"
  have now: "0 \<le> now - 3600000" "now - 3600000 \<le> i64_max" using b by linarith+
  note fe = align_down_facts [OF b(1) now, folded e_def]
  have el: "0 \<le> e - ?l" "e - ?l \<le> i64_max" using fe b by linarith+
  have n': "i64_saturating_sub e ?l = e - ?l" using el by (simp add: i64_saturating_sub_def sat_i64_def i64_consts)
  note fs = align_down_facts [OF b(1) el]
  have c: "bootstrap_chunks args now = chunks_from ?d e (align_down_to_chunk (e - ?l) ?d)"
    using b(1) by (simp add: bootstrap_chunks_def l d n e_def [symmetric] n' Let_def)
  have "align_down_to_chunk (e - ?l) ?d \<le> e" using fs(3) b(3) by linarith
  then show thesis using that [OF c b(1) fs(2) _ fe(3,4) fs(3,4,5) fe(5)] by simp
qed

lemma bootstrap_chunk_facts:
  assumes "bootstrap_window args now" and "c \<in> set (bootstrap_chunks args now)"
  shows "end_ms c = start_ms c + chunk_len args" "start_ms c mod chunk_len args = 0" "0 \<le> start_ms c" "end_ms c \<le> i64_max"
    "0 < chunk_len args"
proof -
  have "now \<le> i64_max" using assms(1) by (simp add: bootstrap_window_def)
  obtain s e where b: "bootstrap_chunks args now = chunks_from (chunk_len args) e s" "0 < chunk_len args" "0 \<le> s"
    "e \<le> now - 3600000" "s mod chunk_len args = 0" "e mod chunk_len args = 0"
    by (rule bootstrap_chunks_eq [OF assms(1)]) (rule that; assumption)
  have e: "e \<le> i64_max" using b(4) \<open>now \<le> i64_max\<close> by simp
  note f = chunks_from_exact [OF b(2,3) e b(5,6), of c] 
  show "end_ms c = start_ms c + chunk_len args" "start_ms c mod chunk_len args = 0" "0 \<le> start_ms c" "end_ms c \<le> i64_max"
    "0 < chunk_len args"
    using f assms(2) b e by simp_all
qed

text \<open>The normalizer runs a range given on its command line exactly when it is aligned to the window and the schedule.\<close>

lemma backfill_range_accepted:
  assumes "supervisor_parse_args env cl = Inr (Some p)" and "0 \<le> start_ms c" "start_ms c < end_ms c" "end_ms c \<le> i64_max"
  shows "(\<exists>q. parse_args (normalize_backfill_args p c) = Inr (Some q) \<and>
      decide_mode q now None None = Inr (Some \<lparr>rd_run_mode = Backfill, rd_input_range = c\<rparr>)) \<longleftrightarrow>
    start_ms c mod 1000 = 0 \<and> end_ms c mod 1000 = 0 \<and> start_ms c mod sa_normalize_schedule_interval_ms p = 0 \<and>
    end_ms c mod sa_normalize_schedule_interval_ms p = 0"
proof -
  have i: "0 < sa_normalize_schedule_interval_ms p"
    using supervisor_accepted(1) [OF assms(1)] by (simp add: supervisor_args_ok_def positive_to_def)
  have c: "in_i64 (start_ms c)" "in_i64 (end_ms c)" using assms(2-4) by (simp_all add: in_i64_def i64_consts)
  have "validate_range (start_ms c) (end_ms c) 1000 (sa_normalize_schedule_interval_ms p) = Inr () \<longleftrightarrow>
      start_ms c mod 1000 = 0 \<and> end_ms c mod 1000 = 0 \<and> start_ms c mod sa_normalize_schedule_interval_ms p = 0 \<and>
      end_ms c mod sa_normalize_schedule_interval_ms p = 0"
    using assms(2-4) i by (auto simp: validate_range_def)
  then show ?thesis using normalizer_valid(3) [OF assms(1) c]
    by (simp add: decide_mode_def normalizer_of_def normalize_with_defaults_def)
qed

text \<open>What the log of the scheduler has to say: a chunk is only done after its L0 part and after every part of it is normalized,
  each either in this run or found in the store.\<close>

definition boot_sound :: "supervisor_args \<Rightarrow> boot_log list \<Rightarrow> bool" where
  "boot_sound args tr \<longleftrightarrow> (\<forall>c. ChunkDone c \<in> set tr \<longrightarrow>
     (L0Skip c \<in> set tr \<or> L0Done c \<in> set tr) \<and>
     (\<forall>sub \<in> set (normalize_subchunks args c). L1Skip sub \<in> set tr \<or> L1Done sub \<in> set tr))"

lemma boot_sound_append: "boot_sound args a \<Longrightarrow> boot_sound args b \<Longrightarrow> boot_sound args (a @ b)"
  unfolding boot_sound_def by (simp only: set_append Un_iff) blast

lemma boot_sound_other: "(\<And>c. ChunkDone c \<notin> set tr) \<Longrightarrow> boot_sound args tr"
  by (simp add: boot_sound_def)

lemma run_subchunks_log:
  "run_subchunks env args subs w = (w', tr, r) \<Longrightarrow> ChunkDone c \<notin> set tr \<and>
     (r = Inr True \<longrightarrow> (\<forall>sub \<in> set subs. L1Skip sub \<in> set tr \<or> L1Done sub \<in> set tr))"
proof (induction subs arbitrary: w w' tr r)
  case (Cons sub subs)
  show ?case using Cons.prems
    by (auto split: prod.splits sum.splits option.splits bool.splits dest!: Cons.IH)
qed simp

lemma run_l0_part_log:
  "run_l0_part env args chunk w = (w', tr, r) \<Longrightarrow> ChunkDone c \<notin> set tr \<and>
     (r = Inr True \<longrightarrow> L0Skip chunk \<in> set tr \<or> L0Done chunk \<in> set tr)"
  by (auto simp: run_l0_part_def run_backfill_child_def split: prod.splits sum.splits option.splits bool.splits if_splits)

lemma run_backfill_chunk_sound:
  assumes "run_backfill_chunk env args chunk w = (w', tr, r)"
  shows "boot_sound args tr"
proof -
  obtain w1 tr1 r1 where 1: "run_l0_part env args chunk w = (w1, tr1, r1)" by (metis prod_cases3)
  obtain w2 tr2 r2 where 2: "run_l1_normalize_chunk env args chunk w1 = (w2, tr2, r2)" by (metis prod_cases3)
  note l1 = run_l0_part_log [OF 1] and l2 = run_subchunks_log [OF 2 [unfolded run_l1_normalize_chunk_def]]
  consider "tr = ChunkStart chunk # tr1" | "tr = ChunkStart chunk # tr1 @ tr2"
    | "r1 = Inr True" "r2 = Inr True" "tr = ChunkStart chunk # tr1 @ tr2 @ [ChunkDone chunk]"
    using assms by (auto simp: run_backfill_chunk_def 1 2 split: sum.splits bool.splits prod.splits)
  then show ?thesis
  proof cases
    case 3
    with l1 l2 show ?thesis unfolding boot_sound_def by auto
  qed (use l1 l2 in \<open>auto intro: boot_sound_other\<close>)
qed

text \<open>Reading the store and the clock leaves the world as it is.\<close>

definition reads_pure :: "'w sup_env \<Rightarrow> bool" where
  "reads_pure env \<longleftrightarrow> (\<forall>k w. \<exists>r. c_get (client (se_store env)) k w = (w, r)) \<and> (\<forall>w. \<exists>t. se_now env w = (w, t))"

lemma has_complete_pure:
  assumes "reads_pure env"
  shows "\<exists>r. has_complete env c w = (w, r)"
proof -
  obtain r where "c_get (client (se_store env)) (complete_marker_key c) w = (w, r)" using assms unfolding reads_pure_def by blast
  then show ?thesis by (auto simp: has_complete_def has_marker_def download_json_optional_def split: sum.splits)
qed

lemma first_missing_None:
  assumes "reads_pure env"
  shows "first_missing env cs w = (w', Inr None) \<Longrightarrow> w' = w \<and> (\<forall>c \<in> set cs. has_complete env c w = (w, Inr True))"
proof (induction cs)
  case (Cons c cs)
  obtain r where "has_complete env c w = (w, r)" using has_complete_pure [OF assms] by blast
  with Cons show ?case by (auto split: sum.splits bool.splits)
qed simp

lemma scheduler_loop_sound:
  assumes "scheduler_loop env args w = Some (w', tr, r)"
  shows "boot_sound args tr \<and> (reads_pure env \<longrightarrow> r = Inr () \<longrightarrow> \<not> se_shutdown env w' \<longrightarrow>
       (\<forall>c \<in> set (bootstrap_chunks args (snd (se_now env w'))). has_complete env c w' = (w', Inr True)))"
  using assms
proof (induction env args w "(w', tr, r)" arbitrary: w' tr r rule: scheduler_loop.raw_induct [rotated 1, consumes 1])
  case (1 scheduler env args w)
  consider (down) "se_shutdown env w" "w' = w" "tr = []"
    | (err) w1 e where "next_missing_bootstrap_chunk env args w = (w1, Inl e)" "tr = []" "r = Inl (storage_error_display e)"
    | (none) "next_missing_bootstrap_chunk env args w = (w', Inr None)" "tr = [BootstrapComplete]"
    | (fail) chunk w1 e where "run_backfill_chunk env args chunk w1 = (w', tr, Inl e)" "r = Inl e"
    | (go) chunk w1 w2 tr1 u tr2 where "run_backfill_chunk env args chunk w1 = (w2, tr1, Inr u)"
        "scheduler env args (se_sleep env (sa_bootstrap_interval_secs args) w2) = Some (w', tr2, r)" "tr = tr1 @ tr2"
    using 1(2) by (fastforce split: if_splits prod.splits sum.splits option.splits simp: bind_eq_Some_conv)
  then show ?case
  proof cases
    case none
    have "boot_sound args tr" using none(2) by (intro boot_sound_other) simp
    moreover have "has_complete env c w' = (w', Inr True)"
      if p: "reads_pure env" and c: "c \<in> set (bootstrap_chunks args (snd (se_now env w')))" for c
    proof -
      obtain t where t: "se_now env w = (w, t)" using p unfolding reads_pure_def by blast
      from none(1) t have "first_missing env (bootstrap_chunks args t) w = (w', Inr None)"
        by (simp add: next_missing_bootstrap_chunk_def)
      from first_missing_None [OF p this] c t show ?thesis by auto
    qed
    ultimately show ?thesis by blast
  next
    case fail
    then show ?thesis using run_backfill_chunk_sound [OF fail(1)] by simp
  next
    case go
    note IH = 1(1) [OF go(2)]
    show ?thesis unfolding go(3)
      by (rule conjI [OF boot_sound_append [OF run_backfill_chunk_sound [OF go(1)] conjunct1 [OF IH]] conjunct2 [OF IH]])
  qed (auto intro: boot_sound_other)
qed

section \<open>Properties\<close>

text \<open>The chunks of the bootstrap tile the lookback: they follow each other without gap or overlap from a multiple of the
  chunk length at least the lookback ago to the last such multiple an hour ago, and each has the full length.\<close>

theorem bootstrap_chunks_tile:
  assumes "bootstrap_window args now"
  shows "\<exists>s e. tiles s e (bootstrap_chunks args now) \<and> e \<le> now - 3600000 \<and> now - 3600000 < e + chunk_len args \<and>
    s \<le> e - lookback_len args \<and> e - lookback_len args < s + chunk_len args \<and>
    (\<forall>c \<in> set (bootstrap_chunks args now). end_ms c = start_ms c + chunk_len args \<and> start_ms c mod chunk_len args = 0)"
proof -
  obtain s e where b: "bootstrap_chunks args now = chunks_from (chunk_len args) e s" "0 < chunk_len args" "0 \<le> s" "s \<le> e"
    "e \<le> now - 3600000" "now - 3600000 < e + chunk_len args" "s \<le> e - lookback_len args" "e - lookback_len args < s + chunk_len args"
    by (rule bootstrap_chunks_eq [OF assms]) (rule that; assumption)
  have "e \<le> i64_max" using b(5) assms by (simp add: bootstrap_window_def)
  from chunks_from_tiles [OF b(2-4) this] b bootstrap_chunk_facts [OF assms] show ?thesis by metis
qed

text \<open>Every part of a chunk can be normalized exactly when the schedule interval is a multiple of the window and divides
  the chunk. The supervisor accepts any positive interval; with another one the normalizer rejects a part of every chunk, so no
  chunk is ever marked complete.\<close>

theorem bootstrap_parts_accepted:
  assumes "supervisor_parse_args env cl = Inr (Some p)" and "bootstrap_window p now" and "chunk \<in> set (bootstrap_chunks p now)"
  shows "(\<forall>sub \<in> set (normalize_subchunks p chunk). \<exists>q. parse_args (normalize_backfill_args p sub) = Inr (Some q) \<and>
      decide_mode q t None None = Inr (Some \<lparr>rd_run_mode = Backfill, rd_input_range = sub\<rparr>)) \<longleftrightarrow>
    sa_normalize_schedule_interval_ms p dvd chunk_len p \<and> 1000 dvd sa_normalize_schedule_interval_ms p"
    (is "?all \<longleftrightarrow> ?fits")
proof -
  let ?i = "sa_normalize_schedule_interval_ms p" and ?d = "chunk_len p" and ?s = "start_ms chunk" and ?e = "end_ms chunk"
  have i: "0 < ?i" using supervisor_accepted(1) [OF assms(1)] by (simp add: supervisor_args_ok_def positive_to_def)
  note c = bootstrap_chunk_facts [OF assms(2,3)]
  have lt: "?s < ?e" using c by simp
  have subs: "normalize_subchunks p chunk = chunks_from ?i ?e ?s" using i lt by (simp add: normalize_subchunks_def)
  have sub: "0 \<le> start_ms r \<and> start_ms r < end_ms r \<and> end_ms r \<le> i64_max" if "r \<in> set (chunks_from ?i ?e ?s)" for r
    using tiles_member [OF chunks_from_tiles [OF i c(3) less_imp_le [OF lt] c(4)] that] c(3,4) by simp
  note acc = backfill_range_accepted [OF assms(1)]
  have th: "?s mod 1000 = 0" "?e mod 1000 = 0"
  proof -
    have d: "1000 dvd ?d" by (simp add: chunk_len_def)
    have "?d dvd ?s" using c(2) by (simp add: mod_eq_0_iff_dvd)
    then have "1000 dvd ?s" using d dvd_trans by blast
    with d show "?s mod 1000 = 0" "?e mod 1000 = 0" using c(1) by (simp_all add: mod_eq_0_iff_dvd)
  qed
  show ?thesis
  proof
    assume all: ?all
    have "?i dvd ?d"
    proof (rule ccontr)
      assume "\<not> ?i dvd ?d"
      then have "(?e - ?s) mod ?i \<noteq> 0" using c(1) by (simp add: mod_eq_0_iff_dvd)
      then obtain r where r: "r \<in> set (chunks_from ?i ?e ?s)" "start_ms r < end_ms r" "end_ms r < start_ms r + ?i"
        using chunks_from_last [OF i c(3) lt c(4)] by blast
      from all subs r(1) have "\<exists>q. parse_args (normalize_backfill_args p r) = Inr (Some q) \<and>
          decide_mode q t None None = Inr (Some \<lparr>rd_run_mode = Backfill, rd_input_range = r\<rparr>)" by simp
      with acc [of r t] sub [OF r(1)] have "start_ms r mod ?i = 0" "end_ms r mod ?i = 0" by simp_all
      then have "(end_ms r - start_ms r) mod ?i = 0" by (metis diff_zero mod_0 mod_diff_eq)
      with r(2,3) show False using mod_pos_pos_trivial [of "end_ms r - start_ms r" ?i] by simp
    qed
    moreover have "1000 dvd ?i"
    proof -
      have le: "?s + ?i \<le> ?e" using zdvd_imp_le [OF \<open>?i dvd ?d\<close> c(5)] c(1) by simp
      then have r: "\<lparr>start_ms = ?s, end_ms = ?s + ?i\<rparr> \<in> set (chunks_from ?i ?e ?s)"
        using chunks_from_step [OF i c(3) lt c(4)] by (simp add: min_def)
      from all subs r have "\<exists>q. parse_args (normalize_backfill_args p \<lparr>start_ms = ?s, end_ms = ?s + ?i\<rparr>) = Inr (Some q) \<and>
          decide_mode q t None None = Inr (Some \<lparr>rd_run_mode = Backfill, rd_input_range = \<lparr>start_ms = ?s, end_ms = ?s + ?i\<rparr>\<rparr>)"
        by simp
      with acc [of "\<lparr>start_ms = ?s, end_ms = ?s + ?i\<rparr>" t] sub [OF r] have "(?s + ?i) mod 1000 = 0" by simp
      with th(1) show ?thesis by (simp add: mod_eq_0_iff_dvd dvd_add_right_iff)
    qed
    ultimately show ?fits by simp
  next
    assume fits: ?fits
    then have al: "?s mod ?i = 0" "?e mod ?i = 0" using c(1,2) by (auto simp: mod_eq_0_iff_dvd intro: dvd_trans)
    show ?all
    proof
      fix r
      assume "r \<in> set (normalize_subchunks p chunk)"
      then have r: "r \<in> set (chunks_from ?i ?e ?s)" by (simp add: subs)
      note f = chunks_from_exact [OF i c(3,4) al r]
      then have "start_ms r mod 1000 = 0" using fits by (metis dvd_trans mod_eq_0_iff_dvd)
      with f fits show "\<exists>q. parse_args (normalize_backfill_args p r) = Inr (Some q) \<and>
          decide_mode q t None None = Inr (Some \<lparr>rd_run_mode = Backfill, rd_input_range = r\<rparr>)"
        using sub [OF r] acc [of r] by (simp add: mod_eq_0_iff_dvd)
    qed
  qed
qed


text \<open>C40: The normalizer that runs is always the one of the phase: during the bootstrap only the newest interval is
  normalized, afterwards everything, and the bootstrap phase never comes back.\<close>

theorem supervisor_phase:
  assumes "sup_reach args s" and "supervisor_parse_args env cl = Inr (Some args)"
  shows "(\<exists>q. parse_args (normalize_command args (ss_normalize s)) = Inr (Some q) \<and>
      (na_live_priority_only q \<longleftrightarrow> ss_bootstrap_active s)) \<and>
    (ss_bootstrap_active s \<longrightarrow> sa_bootstrap_enabled args \<and> ss_scheduler s = BootstrapTask) \<and>
    (\<forall>spawn ev s'. sup_react spawn s ev = Continue s' \<longrightarrow> ss_bootstrap_active s' \<longrightarrow> ss_bootstrap_active s)"
proof -
  have inv: "ss_normalize s = normalize_for_phase (ss_bootstrap_active s) \<and>
      (ss_bootstrap_active s \<longrightarrow> sa_bootstrap_enabled args \<and> ss_scheduler s = BootstrapTask)"
    using assms(1)
  proof induction
    case (react s spawn ev s')
    then show ?case
      by (auto simp: sup_react_def normalize_for_phase_def Let_def split: sup_event.splits sum.splits if_splits)
  qed (auto simp: sup_start_def normalize_for_phase_def)
  have "\<exists>q. parse_args (normalize_command args (ss_normalize s)) = Inr (Some q) \<and> (na_live_priority_only q \<longleftrightarrow> ss_bootstrap_active s)"
    using inv normalizer_valid(1,2) [OF assms(2)]
    by (simp add: normalize_command_def normalize_for_phase_def normalizer_of_def normalize_with_defaults_def)
  moreover have "ss_bootstrap_active s' \<Longrightarrow> ss_bootstrap_active s" if "sup_react spawn s ev = Continue s'" for spawn ev s'
    using that by (auto simp: sup_react_def Let_def split: sup_event.splits sum.splits if_splits)
  ultimately show ?thesis using inv by blast
qed

section \<open>Witnesses\<close>

lemma demo_window: "bootstrap_window demo_supervisor 20000000000"
  by (simp add: bootstrap_window_def chunk_len_def lookback_len_def demo_supervisor_def supervisor_with_defaults_def i64_consts)

lemma demo_chunk: "\<exists>c. c \<in> set (bootstrap_chunks demo_supervisor 20000000000)"
proof -
  obtain s e where b: "bootstrap_chunks demo_supervisor 20000000000 = chunks_from (chunk_len demo_supervisor) e s"
    "0 < chunk_len demo_supervisor" "0 \<le> s" "s \<le> e - lookback_len demo_supervisor" "e \<le> 20000000000 - 3600000"
    by (rule bootstrap_chunks_eq [OF demo_window]) (rule that; assumption)
  have "0 < lookback_len demo_supervisor" by (simp add: lookback_len_def demo_supervisor_def supervisor_with_defaults_def)
  with b have "s < e" "e \<le> i64_max" by (simp_all add: i64_consts)
  from chunks_from_step [OF b(2,3) this] b(1) show ?thesis by (metis list.set_intros(1))
qed

theorem bootstrap_chunks_tile_witness:
  "\<exists>s e. tiles s e (bootstrap_chunks demo_supervisor 20000000000) \<and> e \<le> 20000000000 - 3600000"
  using bootstrap_chunks_tile [OF demo_window] by blast

theorem bootstrap_parts_accepted_witness:
  "\<exists>chunk. chunk \<in> set (bootstrap_chunks demo_supervisor 20000000000) \<and>
     (\<forall>sub \<in> set (normalize_subchunks demo_supervisor chunk). \<exists>q. parse_args (normalize_backfill_args demo_supervisor sub) = Inr (Some q) \<and>
        decide_mode q 0 None None = Inr (Some \<lparr>rd_run_mode = Backfill, rd_input_range = sub\<rparr>))"
proof -
  obtain c where c: "c \<in> set (bootstrap_chunks demo_supervisor 20000000000)" using demo_chunk by blast
  have "sa_normalize_schedule_interval_ms demo_supervisor dvd chunk_len demo_supervisor" "1000 dvd sa_normalize_schedule_interval_ms demo_supervisor"
    by (simp_all add: chunk_len_def demo_supervisor_def supervisor_with_defaults_def)
  with bootstrap_parts_accepted [OF demo_supervisor_parsed demo_window c, of 0] c show ?thesis by blast
qed

text \<open>A store in which every marker exists.\<close>

definition demo_sup_env :: "unit sup_env" where
  "demo_sup_env = \<lparr>se_store = serving_uploader [], se_params = flat_params, se_from_slice = (\<lambda>_. Inr JNull),
     se_l0_marker = (\<lambda>_ _. []), se_complete_marker = (\<lambda>_ _ _. []), se_now = (\<lambda>w. (w, 20000000000)), se_shutdown = (\<lambda>_. False),
     se_child = (\<lambda>_ _ w. (w, Inr (Some True))), se_sleep = (\<lambda>_ w. w)\<rparr>"


theorem supervisor_phase_witness:
  "\<exists>q. parse_args (normalize_command demo_supervisor (ss_normalize (sup_start demo_supervisor))) = Inr (Some q) \<and> na_live_priority_only q"
  using supervisor_phase [OF sup_reach.start demo_supervisor_parsed]
  by (auto simp: sup_start_def demo_supervisor_def supervisor_with_defaults_def)

end
