(* ===== verification/BTree_Group.thy ===== *)
theory BTree_Group
  imports BTree_Map
begin

text \<open>
  Filling a \<open>BTreeMap\<close> entry by entry: \<open>bt_update\<close> is \<open>entry(k).or_insert(d)\<close> followed by a modification of
  the entry, \<open>bt_push\<close> the case of a vector that is pushed to. A map filled from a list holds, for every key,
  the fold over the list's elements with that key, in list order; its values come in the order of the keys.
  The projections of L1 slices group their inputs this way.
\<close>

definition bt_update :: "('k \<Rightarrow> 'k \<Rightarrow> ordering) \<Rightarrow> 'k \<Rightarrow> 'v \<Rightarrow> ('v \<Rightarrow> 'v) \<Rightarrow> ('k, 'v) btree \<Rightarrow> ('k, 'v) btree" where
  "bt_update cmp k d f m = bt_insert cmp k (f (case bt_get cmp k m of None \<Rightarrow> d | Some v \<Rightarrow> v)) m"

definition bt_push :: "('k \<Rightarrow> 'k \<Rightarrow> ordering) \<Rightarrow> 'k \<Rightarrow> 'v \<Rightarrow> ('k, 'v list) btree \<Rightarrow> ('k, 'v list) btree" where
  "bt_push cmp k x m = bt_update cmp k [] (\<lambda>xs. xs @ [x]) m"

definition bt_fill ::
    "('k \<Rightarrow> 'r::linorder) \<Rightarrow> ('a \<Rightarrow> 'k) \<Rightarrow> ('a \<Rightarrow> 'v) \<Rightarrow> ('a \<Rightarrow> 'v \<Rightarrow> 'v) \<Rightarrow> ('k, 'v) btree \<Rightarrow> 'a list \<Rightarrow> ('k, 'v) btree" where
  "bt_fill rank key dflt f m xs = foldl (\<lambda>m x. bt_update (cmp_by rank) (key x) (dflt x) (f x) m) m xs"

definition bt_group :: "('k \<Rightarrow> 'r::linorder) \<Rightarrow> ('a \<Rightarrow> 'k) \<Rightarrow> 'a list \<Rightarrow> ('k, 'a list) btree" where
  "bt_group rank key xs = foldl (\<lambda>m x. bt_push (cmp_by rank) (key x) x m) [] xs"

lemma bt_group_fill: "bt_group rank key xs = bt_fill rank key (\<lambda>_. []) (\<lambda>x ys. ys @ [x]) [] xs"
  by (simp add: bt_group_def bt_fill_def bt_push_def)

lemma wf_update:
  "bt_wf rank (\<lambda>_. True) m \<Longrightarrow> bt_wf rank (\<lambda>_. True) (bt_update (cmp_by rank) k d f m)"
  by (simp add: bt_update_def ranked.wf_insert)

lemma get_update:
  assumes "bt_wf rank (\<lambda>_. True) m"
  shows "bt_get (cmp_by rank) k' (bt_update (cmp_by rank) k d f m) =
    (if rank k' = rank k then Some (f (case bt_get (cmp_by rank) k' m of None \<Rightarrow> d | Some v \<Rightarrow> v))
     else bt_get (cmp_by rank) k' m)"
proof -
  have "bt_get (cmp_by rank) k m = bt_get (cmp_by rank) k' m" if "rank k' = rank k"
    using that by (simp add: ranked.get_map [OF assms])
  then show ?thesis by (auto simp: bt_update_def ranked.get_insert [OF assms])
qed

lemma wf_fill: "bt_wf rank (\<lambda>_. True) m \<Longrightarrow> bt_wf rank (\<lambda>_. True) (bt_fill rank key dflt f m xs)"
  unfolding bt_fill_def by (induction xs arbitrary: m) (simp_all add: wf_update)

text \<open>What a lookup finds after a fill: the elements with the key, folded in order.\<close>

definition entry_fold :: "('a \<Rightarrow> 'v) \<Rightarrow> ('a \<Rightarrow> 'v \<Rightarrow> 'v) \<Rightarrow> 'v option \<Rightarrow> 'a list \<Rightarrow> 'v option" where
  "entry_fold dflt f o0 xs =
     foldl (\<lambda>v x. Some (f x (case v of None \<Rightarrow> dflt x | Some v \<Rightarrow> v))) o0 xs"

lemma entry_fold_simps [simp]:
  "entry_fold dflt f o0 [] = o0"
  "entry_fold dflt f o0 (x # xs) = entry_fold dflt f (Some (f x (case o0 of None \<Rightarrow> dflt x | Some v \<Rightarrow> v))) xs"
  by (simp_all add: entry_fold_def)

lemma entry_fold_Some: "entry_fold dflt f (Some v) xs = Some (foldl (\<lambda>v x. f x v) v xs)"
  by (induction xs arbitrary: v) simp_all

lemma entry_fold_None_iff: "entry_fold dflt f None xs = None \<longleftrightarrow> xs = []"
  by (cases xs) (simp_all add: entry_fold_Some)

lemma entry_fold_push:
  "entry_fold (\<lambda>_. []) (\<lambda>x ys. ys @ [x]) None xs = (if xs = [] then None else Some xs)"
proof -
  have "foldl (\<lambda>v x. v @ [x]) ys xs = ys @ xs" for ys :: "'a list" and xs
    by (induction xs arbitrary: ys) simp_all
  then show ?thesis by (cases xs) (simp_all add: entry_fold_Some)
qed

lemma get_fill:
  assumes "bt_wf rank (\<lambda>_. True) m"
  shows "bt_get (cmp_by rank) k (bt_fill rank key dflt f m xs) =
    entry_fold dflt f (bt_get (cmp_by rank) k m) (filter (\<lambda>x. rank (key x) = rank k) xs)"
  using assms
proof (induction xs arbitrary: m)
  case (Cons x xs)
  from Cons.IH [OF wf_update [OF Cons.prems]] show ?case
    by (auto simp: bt_fill_def get_update [OF Cons.prems])
qed (simp add: bt_fill_def)

lemma get_group:
  "bt_get (cmp_by rank) k (bt_group rank key xs) =
    (let ys = filter (\<lambda>x. rank (key x) = rank k) xs in if ys = [] then None else Some ys)"
  by (simp add: bt_group_fill get_fill entry_fold_push Let_def)

lemma wf_group: "bt_wf rank (\<lambda>_. True) (bt_group rank key xs)"
  by (simp add: bt_group_fill wf_fill)

text \<open>The keys are those of the list, in order, and so are the values.\<close>

lemma ranks_fill:
  "rank ` fst ` set (bt_fill rank key dflt f [] xs) = rank ` key ` set xs"
proof -
  have wf: "bt_wf rank (\<lambda>_. True) (bt_fill rank key dflt f [] xs)" by (simp add: wf_fill)
  have "rank k \<in> rank ` fst ` set (bt_fill rank key dflt f [] xs) \<longleftrightarrow> rank k \<in> rank ` key ` set xs" for k
  proof -
    have "rank k \<notin> rank ` fst ` set (bt_fill rank key dflt f [] xs) \<longleftrightarrow>
        filter (\<lambda>x. rank (key x) = rank k) xs = []"
      using ranked.get_None_rank [OF wf, of k] by (simp add: get_fill entry_fold_None_iff)
    also have "\<dots> \<longleftrightarrow> rank k \<notin> rank ` key ` set xs" by (auto simp: filter_empty_conv image_iff)
    finally show ?thesis by blast
  qed
  then show ?thesis by blast
qed

lemma sorted_ranks:
  assumes "bt_wf rank (\<lambda>_. True) m"
  shows "map (rank \<circ> fst) m = sorted_list_of_set (rank ` fst ` set m)"
proof -
  have s: "sorted_wrt (<) (map (rank \<circ> fst) m)"
    using assms by (simp add: bt_wf_def sorted_wrt_map)
  have "sorted_list_of_set (set (map (rank \<circ> fst) m)) = map (rank \<circ> fst) m"
    using s strict_sorted_iff sorted_list_of_set.idem_if_sorted_distinct by blast
  then show ?thesis by (simp add: image_comp)
qed

lemma values_fill:
  "bt_values (bt_fill rank key dflt f [] xs) =
    map (\<lambda>r. the (entry_fold dflt f None (filter (\<lambda>x. rank (key x) = r) xs)))
      (sorted_list_of_set (rank ` key ` set xs))"
proof -
  let ?m = "bt_fill rank key dflt f [] xs"
  have wf: "bt_wf rank (\<lambda>_. True) ?m" by (simp add: wf_fill)
  have v: "snd e = the (entry_fold dflt f None (filter (\<lambda>x. rank (key x) = rank (fst e)) xs))"
    if "e \<in> set ?m" for e
    using ranked.get_mem [OF wf, of "fst e" "snd e"] that by (simp add: get_fill)
  have "bt_values ?m =
      map (\<lambda>r. the (entry_fold dflt f None (filter (\<lambda>x. rank (key x) = r) xs))) (map (rank \<circ> fst) ?m)"
    using v by (simp add: bt_values_def)
  then show ?thesis by (simp only: sorted_ranks [OF wf] ranks_fill)
qed

lemma values_group:
  "bt_values (bt_group rank key xs) =
    map (\<lambda>r. filter (\<lambda>x. rank (key x) = r) xs) (sorted_list_of_set (rank ` key ` set xs))"
proof -
  have "bt_values (bt_group rank key xs) =
      map (\<lambda>r. the (entry_fold (\<lambda>_. []) (\<lambda>x ys. ys @ [x]) None (filter (\<lambda>x. rank (key x) = r) xs)))
        (sorted_list_of_set (rank ` key ` set xs))"
    unfolding bt_group_fill by (rule values_fill)
  also have "\<dots> = map (\<lambda>r. filter (\<lambda>x. rank (key x) = r) xs) (sorted_list_of_set (rank ` key ` set xs))"
    by (rule map_cong [OF refl]) (auto simp: entry_fold_push filter_empty_conv)
  finally show ?thesis .
qed

text \<open>Keys that are their own rank: the whole map as a list.\<close>

lemma fill_entries:
  "bt_fill (\<lambda>k. k) key dflt f [] xs =
    map (\<lambda>k. (k, the (entry_fold dflt f None (filter (\<lambda>x. key x = k) xs)))) (sorted_list_of_set (key ` set xs))"
proof -
  let ?m = "bt_fill (\<lambda>k. k) key dflt f [] xs"
  have "map fst ?m = sorted_list_of_set (key ` set xs)"
    using sorted_ranks [OF wf_fill [OF bt_wf_Nil], of "\<lambda>k. k" key dflt f xs]
      ranks_fill [of "\<lambda>k. k" key dflt f xs] by (simp add: comp_def)
  moreover have "map snd ?m =
      map (\<lambda>k. the (entry_fold dflt f None (filter (\<lambda>x. key x = k) xs))) (sorted_list_of_set (key ` set xs))"
    using values_fill [of "\<lambda>k. k" key dflt f xs] by (simp add: bt_values_def)
  ultimately have "zip (map fst ?m) (map snd ?m) = map (\<lambda>k. (k, the (entry_fold dflt f None (filter (\<lambda>x. key x = k) xs))))
      (sorted_list_of_set (key ` set xs))" by (simp add: zip_map2 zip_same_conv_map)
  then show ?thesis by (simp add: zip_map_fst_snd)
qed

lemma sorted_list_of_subset:
  assumes "finite B" and "A \<subseteq> B"
  shows "sorted_list_of_set A = filter (\<lambda>x. x \<in> A) (sorted_list_of_set B)"
proof (rule sorted_distinct_set_unique)
  have A: "finite A" using assms by (rule finite_subset [rotated])
  show "set (sorted_list_of_set A) = set (filter (\<lambda>x. x \<in> A) (sorted_list_of_set B))"
    using assms A by auto
qed (simp_all add: sorted_wrt_filter)

text \<open>Restricting the input to some keys restricts the map to them.\<close>

lemma fill_filter_keys:
  "bt_fill (\<lambda>k. k) key dflt f [] (filter (\<lambda>x. P (key x)) xs) =
     filter (\<lambda>(k, _). P k) (bt_fill (\<lambda>k. k) key dflt f [] xs)"
proof -
  let ?A = "key ` set (filter (\<lambda>x. P (key x)) xs)" and ?B = "key ` set xs"
  have A: "k \<in> ?A \<longleftrightarrow> P k" if "k \<in> ?B" for k using that by auto
  have "sorted_list_of_set ?A = filter (\<lambda>k. k \<in> ?A) (sorted_list_of_set ?B)"
    by (rule sorted_list_of_subset) auto
  also have "\<dots> = filter P (sorted_list_of_set ?B)" using A by (intro filter_cong) auto
  finally have keys: "sorted_list_of_set ?A = filter P (sorted_list_of_set ?B)" .
  have "filter (\<lambda>x. key x = k) (filter (\<lambda>x. P (key x)) xs) = filter (\<lambda>x. key x = k) xs" if "P k" for k
    using that by (auto intro!: filter_cong)
  then show ?thesis
    unfolding fill_entries keys filter_map comp_def by (intro map_cong) auto
qed

lemma concat_map_filter: "concat (map g (filter Q rs)) = concat (map (\<lambda>r. if Q r then g r else []) rs)"
  by (induction rs) simp_all

text \<open>Restricting the input restricts each group and drops the groups that become empty.\<close>

lemma concat_group_filter:
  assumes "g [] = []"
  shows "concat (map g (bt_values (bt_group rank key (filter P xs)))) =
         concat (map (\<lambda>ys. g (filter P ys)) (bt_values (bt_group rank key xs)))"
proof -
  let ?B = "rank ` key ` set xs" and ?A = "rank ` key ` set (filter P xs)"
  have sub: "?A \<subseteq> ?B" by auto
  have g0: "g (filter (\<lambda>x. rank (key x) = r) (filter P xs)) = []" if "r \<notin> ?A" for r
  proof -
    have "filter (\<lambda>x. rank (key x) = r) (filter P xs) = []"
      using that by (auto simp: filter_empty_conv)
    then show ?thesis by (simp only: assms)
  qed
  have "concat (map g (bt_values (bt_group rank key (filter P xs)))) =
      concat (map (\<lambda>r. g (filter (\<lambda>x. rank (key x) = r) (filter P xs))) (sorted_list_of_set ?A))"
    by (simp only: values_group map_map comp_def)
  also have "\<dots> = concat (map (\<lambda>r. if r \<in> ?A then g (filter (\<lambda>x. rank (key x) = r) (filter P xs)) else [])
      (sorted_list_of_set ?B))"
    by (simp only: sorted_list_of_subset [OF _ sub] finite_imageI finite_set concat_map_filter)
  also have "\<dots> = concat (map (\<lambda>r. g (filter P (filter (\<lambda>x. rank (key x) = r) xs))) (sorted_list_of_set ?B))"
  proof -
    have "(if r \<in> ?A then g (filter (\<lambda>x. rank (key x) = r) (filter P xs)) else []) =
        g (filter P (filter (\<lambda>x. rank (key x) = r) xs))" for r
      using g0 [of r] by (simp add: conj_commute)
    then show ?thesis by presburger
  qed
  also have "\<dots> = concat (map (\<lambda>ys. g (filter P ys)) (bt_values (bt_group rank key xs)))"
    by (simp only: values_group map_map comp_def)
  finally show ?thesis .
qed

end
