(* ===== verification/Projection_Common.thy ===== *)
theory Projection_Common
  imports Slices BTree_Group "HOL-Library.Multiset"
begin

text \<open>
  What the projections of L1 slices share (\<open>src/normalize/projection/common\<close>): grouping slices by symbol,
  reading a value at or before a time, percentage changes, mean, deviation, correlation and median over \<open>f64\<close>,
  days and identifiers. Timestamp arithmetic that the source writes with \<open>-\<close> wraps; it writes
  \<open>saturating_sub\<close> elsewhere. The lemmas show that a lookup at or before a time depends only on the rows up to
  that time, that square roots are exact to the unit, and that a median is a middle value in any input order.
\<close>

section \<open>Constants (common/constants.rs)\<close>

definition SELECTION_POLICY_VERSION :: string where
  "SELECTION_POLICY_VERSION = ''observed_liquidity_rank_p0_v1''"
definition VENUE_TRUTH_POLICY_VERSION :: string where
  "VENUE_TRUTH_POLICY_VERSION = ''execution_reference_split_p0_v1''"
definition DATA_QUALITY_CUTOFF_VERSION :: string where
  "DATA_QUALITY_CUTOFF_VERSION = ''requires_30d_bootstrap_p0_v1''"
definition FIFTEEN_MINUTES_MS :: int where "FIFTEEN_MINUTES_MS = 900000"
definition ONE_HOUR_MS :: int where "ONE_HOUR_MS = 3600000"
definition ONE_DAY_MS :: int where "ONE_DAY_MS = 86400000"
definition MIN_BOOTSTRAP_DAYS :: int where "MIN_BOOTSTRAP_DAYS = 30"
definition BOOTSTRAP_ROLLUP_DAYS :: nat where "BOOTSTRAP_ROLLUP_DAYS = 30"
definition MAX_APPROVED_RANK :: int where "MAX_APPROVED_RANK = 50"
definition MIN_REFERENCE_WARMUP_BOOTSTRAP_DAYS :: int where "MIN_REFERENCE_WARMUP_BOOTSTRAP_DAYS = 1"
definition MAX_MEDIAN_SPREAD_BPS :: f64 where "MAX_MEDIAN_SPREAD_BPS = Fin 50"
definition MAX_GAP_RATE :: f64 where "MAX_GAP_RATE = f64_round (5 / 100)"

section \<open>Grouping (common/grouping.rs)\<close>

record symbol_window_key =
  wk_venue :: string
  wk_symbol_native :: string
  wk_symbol_canonical :: string
  wk_market_type :: string

definition symbol_window_rank :: "symbol_window_key \<Rightarrow> string \<times> string \<times> string \<times> string" where
  "symbol_window_rank k = (wk_venue k, wk_symbol_native k, wk_symbol_canonical k, wk_market_type k)"

definition slice_symbol_key :: "slice_row \<Rightarrow> symbol_window_key" where
  "slice_symbol_key row =
     \<lparr>wk_venue = sl_venue row, wk_symbol_native = sl_symbol_native row,
      wk_symbol_canonical = sl_symbol_canonical row, wk_market_type = sl_market_type row\<rparr>"

definition group_slices_by_symbol :: "slice_row list \<Rightarrow> (symbol_window_key, slice_row list) btree" where
  "group_slices_by_symbol slices =
     map (\<lambda>(k, rows). (k, sort_key sl_window_start_ms rows))
       (bt_group symbol_window_rank slice_symbol_key slices)"

definition positive_price :: "f64 \<Rightarrow> bool" where
  "positive_price v \<longleftrightarrow> is_finite v \<and> f64_lt (Fin 0) v"

definition opt_filter :: "('a \<Rightarrow> bool) \<Rightarrow> 'a option \<Rightarrow> 'a option" where
  "opt_filter P x = (case x of None \<Rightarrow> None | Some v \<Rightarrow> if P v then Some v else None)"

definition price :: "slice_row \<Rightarrow> f64 option" where
  "price row = opt_filter positive_price (or_else (sl_mid_price row) (sl_last_trade_price row))"

definition volume :: "slice_row \<Rightarrow> f64 option" where
  "volume row = opt_filter (\<lambda>v. is_finite v \<and> f64_le (Fin 0) v) (Some (sl_trade_volume row))"

text \<open>\<open>partition_point\<close> on rows that are sorted by the key is the length of the prefix that satisfies it.\<close>

definition partition_point :: "('a \<Rightarrow> bool) \<Rightarrow> 'a list \<Rightarrow> nat" where
  "partition_point P xs = length (takeWhile P xs)"

definition value_at_or_before :: "slice_row list \<Rightarrow> int \<Rightarrow> (slice_row \<Rightarrow> f64 option) \<Rightarrow> f64 option" where
  "value_at_or_before rows target f =
     (let idx = partition_point (\<lambda>row. sl_window_start_ms row \<le> target) rows
      in if idx = 0 then None else f (rows ! (idx - 1)))"

section \<open>Identity and time (common/identity.rs, common/time.rs)\<close>

definition stable_id :: "l0_params \<Rightarrow> string list \<Rightarrow> string" where
  "stable_id params parts = sha256_hex params (join ''|'' parts)"

text \<open>\<open>div_euclid\<close> by a positive number is the floor division; the product wraps in principle only.\<close>

definition day_start_ms :: "int \<Rightarrow> int" where
  "day_start_ms t = wrap_i64 (t div ONE_DAY_MS * ONE_DAY_MS)"

definition bootstrap_rollup_day_starts :: "input_range \<Rightarrow> int list" where
  "bootstrap_rollup_day_starts rng =
     (let end_day_start_ms = day_start_ms (i64_saturating_sub (end_ms rng) 1)
      in map (\<lambda>offset. i64_saturating_sub end_day_start_ms (int offset * ONE_DAY_MS))
           (rev [0..<BOOTSTRAP_ROLLUP_DAYS]))"

definition event_date :: "l0_params \<Rightarrow> int \<Rightarrow> string" where
  "event_date params day_start = fst (time_parts params day_start)"

section \<open>Statistics (common/stats.rs)\<close>

definition f64_EPSILON :: f64 where "f64_EPSILON = Fin (pow2 (- 52))"

definition percent_change :: "f64 option \<Rightarrow> f64 option \<Rightarrow> f64 option" where
  "percent_change now0 previous0 =
     Option.bind now0 (\<lambda>now. Option.bind previous0 (\<lambda>previous.
       if \<not> is_finite now \<or> \<not> is_finite previous \<or> f64_le (f64_abs previous) f64_EPSILON then None
       else Some (f64_mul (f64_div (f64_sub now previous) previous) (Fin 100))))"

definition f64_sum :: "f64 list \<Rightarrow> f64" where
  "f64_sum vs = foldl f64_add (Fin 0) vs"

definition f64_of_nat :: "nat \<Rightarrow> f64" where
  "f64_of_nat n = f64_of_int (int n)"

definition mean :: "f64 list \<Rightarrow> f64 option" where
  "mean values0 =
     (let (n, s) = foldl (\<lambda>(n, s) v. (n + 1, f64_add s v)) (0 :: nat, Fin 0) (filter is_finite values0)
      in if n > 0 then Some (f64_div s (f64_of_nat n)) else None)"

text \<open>\<open>f64::sqrt\<close> is correctly rounded: the integer square root of the value scaled to about 61 bits, one more
  bit that says whether it was exact, then one rounding.\<close>

fun isqrt :: "nat \<Rightarrow> nat" where
  "isqrt n = (if n = 0 then 0
     else let r = 2 * isqrt (n div 4) in if (r + 1) * (r + 1) \<le> n then r + 1 else r)"

declare isqrt.simps [simp del]

definition f64_sqrt :: "f64 \<Rightarrow> f64" where
  "f64_sqrt x = (case x of
     Fin q \<Rightarrow> if q < 0 then NaN else if q = 0 then Fin 0
              else let k = 60 - ilog2 q div 2; y = q * pow2 (2 * k); m = isqrt (nat \<lfloor>y\<rfloor>);
                       sticky = (if of_nat (m * m) = y then 0 else 1)
                   in f64_round (of_nat (2 * m + sticky) * pow2 (- k - 1))
   | PosInf \<Rightarrow> PosInf
   | _ \<Rightarrow> NaN)"

definition f64_square :: "f64 \<Rightarrow> f64" where
  "f64_square x = f64_mul x x"

definition population_stddev :: "f64 list \<Rightarrow> f64 option" where
  "population_stddev values0 =
     (let vs = filter is_finite values0
      in if length vs < 2 then None
         else let m = f64_div (f64_sum vs) (f64_of_nat (length vs));
                  variance = f64_div (f64_sum (map (\<lambda>v. f64_square (f64_sub v m)) vs)) (f64_of_nat (length vs))
              in Some (f64_sqrt variance))"

definition correlation :: "f64 list \<Rightarrow> f64 list \<Rightarrow> f64 option" where
  "correlation left right =
     (if length left \<noteq> length right \<or> length left < 3 then None
      else let left_mean = f64_div (f64_sum left) (f64_of_nat (length left));
               right_mean = f64_div (f64_sum right) (f64_of_nat (length right));
               (numerator, left_denominator, right_denominator) =
                 foldl (\<lambda>(n, ld, rd) (l, r).
                    let left_delta = f64_sub l left_mean; right_delta = f64_sub r right_mean
                    in (f64_add n (f64_mul left_delta right_delta), f64_add ld (f64_square left_delta),
                        f64_add rd (f64_square right_delta)))
                   (Fin 0, Fin 0, Fin 0) (zip left right)
           in if f64_le left_denominator f64_EPSILON \<or> f64_le right_denominator f64_EPSILON then None
              else Some (f64_div numerator (f64_mul (f64_sqrt left_denominator) (f64_sqrt right_denominator))))"

text \<open>The values are finite when they are sorted, so \<open>partial_cmp\<close> compares the numbers.\<close>

fun f64_rat :: "f64 \<Rightarrow> rat" where
  "f64_rat (Fin q) = q"
| "f64_rat _ = 0"

definition median :: "f64 list \<Rightarrow> f64 option" where
  "median values0 =
     (let vs = sort_key f64_rat (filter is_finite values0); middle = length vs div 2
      in if vs = [] then None
         else if even (length vs) then Some (f64_div (f64_add (vs ! (middle - 1)) (vs ! middle)) (Fin 2))
         else Some (vs ! middle))"

section \<open>Lemmas\<close>

lemma opt_filter_simps [simp]:
  "opt_filter P None = None" "opt_filter P (Some v) = (if P v then Some v else None)"
  by (simp_all add: opt_filter_def)

lemma is_finite_iff: "is_finite x \<longleftrightarrow> (\<exists>q. x = Fin q)"
  by (cases x) (simp_all add: is_finite_def)

lemma symbol_window_rank_inj: "symbol_window_rank a = symbol_window_rank b \<longleftrightarrow> a = b"
  by (auto simp: symbol_window_rank_def)

lemma price_positive: "price row = Some v \<Longrightarrow> is_finite v \<and> f64_lt (Fin 0) v"
  by (auto simp: price_def opt_filter_def positive_price_def split: option.splits if_splits)

text \<open>On rows sorted by window, the row read is the last one at or before the target.\<close>

lemma takeWhile_sorted:
  "sorted (map f xs) \<Longrightarrow> takeWhile (\<lambda>x. f x \<le> (t::'b::linorder)) xs = filter (\<lambda>x. f x \<le> t) xs"
proof (induction xs)
  case (Cons x xs)
  show ?case
  proof (cases "f x \<le> t")
    case False
    with Cons.prems have "\<forall>y \<in> set xs. \<not> f y \<le> t" by auto
    then show ?thesis using False by (auto simp: filter_empty_conv)
  qed (use Cons in simp)
qed simp

lemma partition_point_last:
  assumes "sorted (map f xs)"
  shows "(let idx = partition_point (\<lambda>x. f x \<le> t) xs in if idx = 0 then None else g (xs ! (idx - 1))) =
    (let ys = filter (\<lambda>x. f x \<le> (t::'b::linorder)) xs in if ys = [] then None else g (last ys))"
proof -
  let ?ys = "takeWhile (\<lambda>x. f x \<le> t) xs"
  have "xs ! (length ?ys - 1) = last ?ys" if "?ys \<noteq> []"
  proof -
    have "length ?ys - 1 < length ?ys" using that by simp
    then have "?ys ! (length ?ys - 1) = xs ! (length ?ys - 1)" by (rule takeWhile_nth)
    then show ?thesis using that by (simp add: last_conv_nth)
  qed
  then show ?thesis by (auto simp: partition_point_def Let_def takeWhile_sorted [OF assms])
qed

lemma value_at_or_before_last:
  assumes "sorted (map sl_window_start_ms rows)"
  shows "value_at_or_before rows target f =
    (let ys = filter (\<lambda>r. sl_window_start_ms r \<le> target) rows in if ys = [] then None else f (last ys))"
  unfolding value_at_or_before_def by (rule partition_point_last [OF assms])

lemma value_at_or_before_cutoff:
  assumes "sorted (map sl_window_start_ms rows)" and "target \<le> cutoff"
  shows "value_at_or_before (filter (\<lambda>r. sl_window_start_ms r \<le> cutoff) rows) target f =
    value_at_or_before rows target f"
proof -
  have s: "sorted (map sl_window_start_ms (filter (\<lambda>r. sl_window_start_ms r \<le> cutoff) rows))"
    using assms(1) by (rule sorted_filter)
  have "filter (\<lambda>r. sl_window_start_ms r \<le> target) (filter (\<lambda>r. sl_window_start_ms r \<le> cutoff) rows) =
      filter (\<lambda>r. sl_window_start_ms r \<le> target) rows"
    using assms(2) by (auto intro: filter_cong)
  then show ?thesis by (simp only: value_at_or_before_last [OF s] value_at_or_before_last [OF assms(1)])
qed

lemma isqrt_bounds: "isqrt n * isqrt n \<le> n \<and> n < (isqrt n + 1) * (isqrt n + 1)"
proof (induction n rule: isqrt.induct)
  case (1 n)
  show ?case
  proof (cases "n = 0")
    case False
    define r where "r = isqrt (n div 4)"
    have lo: "r * r \<le> n div 4" and hi: "n div 4 < (r + 1) * (r + 1)"
      using 1 False by (auto simp: r_def)
    have "4 * (r * r) \<le> n" using lo by linarith
    moreover have "n < 4 * ((r + 1) * (r + 1))" using hi by linarith
    ultimately have "(2 * r) * (2 * r) \<le> n" and "n < (2 * r + 2) * (2 * r + 2)"
      by (simp_all add: algebra_simps)
    then show ?thesis using False by (subst (1 2 3 4) isqrt.simps) (auto simp: Let_def r_def [symmetric])
  qed (simp add: isqrt.simps)
qed

lemma percent_change_Some:
  "percent_change (Some (Fin a)) (Some (Fin b)) =
     (if \<bar>b\<bar> \<le> pow2 (- 52) then None
      else Some (f64_mul (f64_div (f64_round (a - b)) (Fin b)) (Fin 100)))"
  by (simp add: percent_change_def is_finite_def f64_abs_def f64_EPSILON_def f64_sub_def)

lemma percent_change_missing [simp]: "percent_change None p = None" "percent_change n None = None"
  by (simp_all add: percent_change_def)

text \<open>A median does not depend on the order of the samples, is a middle value of them when their number is odd,
  and lies between neighbours in general.\<close>

lemma mean_fold:
  "foldl (\<lambda>(n, s) v. (n + 1, f64_add s v)) (n, s) vs = (n + length vs, foldl f64_add s vs)"
  by (induction vs arbitrary: n s) simp_all

lemma mean_eq:
  "mean vs = (let ws = filter is_finite vs in if ws = [] then None else Some (f64_div (f64_sum ws) (f64_of_nat (length ws))))"
  unfolding mean_def mean_fold by (simp add: f64_sum_def Let_def)

lemma f64_rat_inj: "is_finite x \<Longrightarrow> is_finite y \<Longrightarrow> f64_rat x = f64_rat y \<Longrightarrow> x = y"
  by (auto simp: is_finite_iff)

lemma median_perm:
  assumes "mset xs = mset ys"
  shows "median xs = median ys"
proof -
  let ?xs = "filter is_finite xs" and ?ys = "filter is_finite ys"
  have m: "mset ?xs = mset ?ys" using assms by simp
  have "sort_key f64_rat ?xs = sort_key f64_rat ?ys"
  proof (rule properties_for_sort_key [symmetric])
    show "mset (sort_key f64_rat ?xs) = mset ?ys" using m by simp
    show "sorted (map f64_rat (sort_key f64_rat ?xs))" by simp
    show "filter (\<lambda>x. f64_rat k = f64_rat x) (sort_key f64_rat ?xs) = filter (\<lambda>x. f64_rat k = f64_rat x) ?ys"
      if "k \<in> set (sort_key f64_rat ?xs)" for k
    proof -
      have k: "k \<in> set ?xs" using that by simp
      have r: "filter (\<lambda>x. f64_rat k = f64_rat x) zs = replicate (count (mset zs) k) k"
        if "\<forall>z \<in> set zs. is_finite z" for zs
        using that
      proof (induction zs)
        case (Cons z zs)
        moreover have "is_finite k" using k by simp
        ultimately show ?case by (auto dest: f64_rat_inj [of k z])
      qed simp
      have "filter (\<lambda>x. f64_rat k = f64_rat x) (sort_key f64_rat ?xs) = replicate (count (mset ?xs) k) k"
        by (subst r) auto
      moreover have "filter (\<lambda>x. f64_rat k = f64_rat x) ?ys = replicate (count (mset ?ys) k) k"
        by (rule r) simp
      ultimately show ?thesis by (simp only: m)
    qed
  qed
  then show ?thesis by (simp add: median_def)
qed

lemma median_None [simp]: "median vs = None \<longleftrightarrow> filter is_finite vs = []"
proof -
  have "sort_key f64_rat (filter is_finite vs) = [] \<longleftrightarrow> filter is_finite vs = []"
    by (metis length_0_conv length_sort)
  then show ?thesis by (auto simp: median_def Let_def)
qed

lemma median_cases:
  assumes "median xs = Some m"
  obtains "m \<in> set xs" "is_finite m"
  | a b where "a \<in> set xs" "b \<in> set xs" "is_finite a" "is_finite b" "f64_rat a \<le> f64_rat b"
      "m = f64_div (f64_add a b) (Fin 2)"
proof -
  define vs where "vs = sort_key f64_rat (filter is_finite xs)"
  define k where "k = length vs div 2"
  have fin: "y \<in> set xs \<and> is_finite y" if "y \<in> set vs" for y using that by (simp add: vs_def)
  have m: "vs \<noteq> []" "m = (if even (length vs) then f64_div (f64_add (vs ! (k - 1)) (vs ! k)) (Fin 2) else vs ! k)"
    using assms unfolding median_def Let_def vs_def [symmetric] k_def by (auto split: if_splits)
  then have k: "k < length vs" by (simp add: k_def)
  then have k1: "k - 1 < length vs" by (rule le_less_trans [OF diff_le_self])
  have "sorted (map f64_rat vs)" by (simp add: vs_def)
  then have le: "f64_rat (vs ! (k - 1)) \<le> f64_rat (vs ! k)"
    using k k1 sorted_nth_mono [of "map f64_rat vs" "k - 1" k] by simp
  show thesis
  proof (cases "even (length vs)")
    case True
    with m le fin [OF nth_mem [OF k]] fin [OF nth_mem [OF k1]] show ?thesis
      by (intro that(2) [of "vs ! (k - 1)" "vs ! k"]) auto
  next
    case False
    with m fin [OF nth_mem [OF k]] show ?thesis by (intro that(1)) auto
  qed
qed

lemma median_not_NaN: "median xs \<noteq> Some NaN"
proof
  assume "median xs = Some NaN"
  then show False
  proof (cases rule: median_cases)
    case (2 a b)
    then show ?thesis
      by (auto simp: is_finite_iff f64_div_def f64_inf_of_sign_def split: f64.splits) (metis f64_round_not_NaN)
  qed (simp add: is_finite_def)
qed

lemma bootstrap_days: "length (bootstrap_rollup_day_starts rng) = 30"
  by (simp add: bootstrap_rollup_day_starts_def BOOTSTRAP_ROLLUP_DAYS_def Let_def)


section \<open>A concrete slice\<close>

definition sample_params :: l0_params where
  "sample_params = \<lparr>p_digest = \<lambda>_. [], p_hash = \<lambda>_. 0, p_calendar = \<lambda>_. None, p_json = \<lambda>_. None\<rparr>"

definition sample_slice :: "string \<Rightarrow> string \<Rightarrow> int \<Rightarrow> rat \<Rightarrow> rat \<Rightarrow> slice_row" where
  "sample_slice venue native t mid vol =
     \<lparr>sl_slice_id = ''s'', sl_venue = venue, sl_source_role = ''execution'', sl_symbol_native = native,
      sl_symbol_canonical = ''BTC'', sl_base_asset = ''BTC'', sl_quote_asset = ''KRW'', sl_market_type = ''spot'',
      sl_window_ms = 1000, sl_window_start_ms = t, sl_window_end_ms = t + 1000, sl_slice_completeness = ''complete'',
      sl_missing_reasons = [], sl_quality_ok = 1, sl_quality_delayed = 0, sl_quality_stale = 0, sl_quality_gap = 0,
      sl_quality_invalid = 0, sl_trade_count = 1, sl_trade_volume = Fin vol, sl_last_trade_price = None,
      sl_last_trade_size = None, sl_best_bid = None, sl_best_ask = None, sl_mid_price = Some (Fin mid),
      sl_spread_bps = Some (Fin 1), sl_book_ticker_count = 1, sl_depth_event_count = 0, sl_depth_book_rebuilt = False,
      sl_trade_events = [], sl_book_ticker_events = [], sl_depth_events = [], sl_ticker_events = [],
      sl_symbol_health_snapshot = None, sl_source_health_snapshot = None, sl_parent_event_ids = [],
      sl_parent_run_ids = []\<rparr>"

end
