(* ===== verification/Feature_Delta.thy ===== *)
theory Feature_Delta
  imports Projection_Common
begin

text \<open>
  Market feature deltas (\<open>src/normalize/projection/feature_delta\<close>, \<open>src/normalize/derivative_projection.rs\<close>): for every
  slice in the run's range the price and the traded volume are compared with their values fifteen minutes and one
  hour earlier, and derivative metrics likewise; a summary keeps the newest delta of each metric per symbol. The
  lemmas show that a delta never looks ahead, what a summary keeps, and what the grades mean.
\<close>

section \<open>Deltas (model/market.rs, feature_delta/types.rs)\<close>

definition MARKET_FEATURE_DELTA_SCHEMA_VERSION :: string where
  "MARKET_FEATURE_DELTA_SCHEMA_VERSION = ''market_feature_delta_v1''"
definition MARKET_FEATURE_DELTA_SUMMARY_SCHEMA_VERSION :: string where
  "MARKET_FEATURE_DELTA_SUMMARY_SCHEMA_VERSION = ''market_feature_delta_summary_v1''"

record market_feature_delta =
  fd_schema_version :: string
  fd_feature_delta_id :: string
  fd_l1_run_id :: string
  fd_metric_name :: string
  fd_venue :: string
  fd_symbol_native :: string
  fd_symbol_canonical :: string
  fd_market_type :: string
  fd_value_now :: f64
  fd_value_15m_ago :: "f64 option"
  fd_value_1h_ago :: "f64 option"
  fd_change_pct_15m :: "f64 option"
  fd_change_pct_1h :: "f64 option"
  fd_price_change_same_window :: "f64 option"
  fd_volume_change_same_window :: "f64 option"
  fd_oi_price_divergence :: "f64 option"
  fd_window_start_ms :: int
  fd_window_end_ms :: int
  fd_known_as_of_ms :: int
  fd_quality_status :: string
  fd_missing_reasons :: "string list"

record market_feature_delta_values =
  mv_value_now :: f64
  mv_value_15m_ago :: "f64 option"
  mv_value_1h_ago :: "f64 option"
  mv_change_pct_15m :: "f64 option"
  mv_change_pct_1h :: "f64 option"
  mv_price_change_same_window :: "f64 option"
  mv_volume_change_same_window :: "f64 option"
  mv_oi_price_divergence :: "f64 option"
  mv_known_as_of_ms :: int

section \<open>Slice deltas (feature_delta/detail.rs)\<close>

definition reason_if_none :: "string \<Rightarrow> 'a option \<Rightarrow> string list" where
  "reason_if_none reason v = (if v = None then [reason] else [])"

definition delta_quality :: "string list \<Rightarrow> f64 option \<Rightarrow> f64 option \<Rightarrow> string" where
  "delta_quality missing change_15m change_1h =
     (if missing = [] then ''complete''
      else if change_15m \<noteq> None \<or> change_1h \<noteq> None then ''partial'' else ''insufficient'')"

definition market_feature_delta_of ::
    "l0_params \<Rightarrow> string \<Rightarrow> string \<Rightarrow> slice_row \<Rightarrow> market_feature_delta_values \<Rightarrow> market_feature_delta" where
  "market_feature_delta_of params l1_run_id metric_name row v =
     (let missing = reason_if_none ''value_15m_ago_missing'' (mv_value_15m_ago v)
            @ reason_if_none ''value_1h_ago_missing'' (mv_value_1h_ago v)
            @ reason_if_none ''price_change_same_window_missing'' (mv_price_change_same_window v)
            @ reason_if_none ''volume_change_same_window_missing'' (mv_volume_change_same_window v)
      in \<lparr>fd_schema_version = MARKET_FEATURE_DELTA_SCHEMA_VERSION,
          fd_feature_delta_id = stable_id params [l1_run_id, metric_name, sl_venue row, sl_symbol_native row,
            show_int (sl_window_start_ms row), MARKET_FEATURE_DELTA_SCHEMA_VERSION],
          fd_l1_run_id = l1_run_id, fd_metric_name = metric_name, fd_venue = sl_venue row,
          fd_symbol_native = sl_symbol_native row, fd_symbol_canonical = sl_symbol_canonical row,
          fd_market_type = sl_market_type row, fd_value_now = mv_value_now v,
          fd_value_15m_ago = mv_value_15m_ago v, fd_value_1h_ago = mv_value_1h_ago v,
          fd_change_pct_15m = mv_change_pct_15m v, fd_change_pct_1h = mv_change_pct_1h v,
          fd_price_change_same_window = mv_price_change_same_window v,
          fd_volume_change_same_window = mv_volume_change_same_window v,
          fd_oi_price_divergence = mv_oi_price_divergence v, fd_window_start_ms = sl_window_start_ms row,
          fd_window_end_ms = sl_window_end_ms row, fd_known_as_of_ms = mv_known_as_of_ms v,
          fd_quality_status = delta_quality missing (mv_change_pct_15m v) (mv_change_pct_1h v),
          fd_missing_reasons = missing\<rparr>)"

text \<open>The body of the loop: at most one price delta and exactly one volume delta.\<close>

definition slice_feature_deltas ::
    "l0_params \<Rightarrow> string \<Rightarrow> int \<Rightarrow> slice_row list \<Rightarrow> slice_row \<Rightarrow> market_feature_delta list" where
  "slice_feature_deltas params l1_run_id known_as_of_ms rows row =
     (let price_now = price row; volume_now = Some (sl_trade_volume row);
          t15 = wrap_i64 (sl_window_start_ms row - FIFTEEN_MINUTES_MS);
          t1h = wrap_i64 (sl_window_start_ms row - ONE_HOUR_MS);
          price_15m = value_at_or_before rows t15 price; price_1h = value_at_or_before rows t1h price;
          volume_15m = value_at_or_before rows t15 volume; volume_1h = value_at_or_before rows t1h volume;
          price_change_15m = percent_change price_now price_15m;
          price_change_1h = percent_change price_now price_1h;
          volume_change_15m = percent_change volume_now volume_15m;
          volume_change_1h = percent_change volume_now volume_1h
      in (case price_now of None \<Rightarrow> []
          | Some value_now \<Rightarrow>
              [market_feature_delta_of params l1_run_id ''price'' row
                 \<lparr>mv_value_now = value_now, mv_value_15m_ago = price_15m, mv_value_1h_ago = price_1h,
                  mv_change_pct_15m = price_change_15m, mv_change_pct_1h = price_change_1h,
                  mv_price_change_same_window = price_change_1h, mv_volume_change_same_window = volume_change_1h,
                  mv_oi_price_divergence = None, mv_known_as_of_ms = known_as_of_ms\<rparr>])
         @ [market_feature_delta_of params l1_run_id ''trade_volume'' row
              \<lparr>mv_value_now = sl_trade_volume row, mv_value_15m_ago = volume_15m, mv_value_1h_ago = volume_1h,
               mv_change_pct_15m = volume_change_15m, mv_change_pct_1h = volume_change_1h,
               mv_price_change_same_window = price_change_1h, mv_volume_change_same_window = volume_change_1h,
               mv_oi_price_divergence = None, mv_known_as_of_ms = known_as_of_ms\<rparr>])"

section \<open>Derivative deltas (derivative_projection.rs)\<close>

record derivative_metric_key =
  vk_venue :: string
  vk_symbol_native :: string
  vk_symbol_canonical :: string
  vk_market_type :: string
  vk_metric_name :: string

definition derivative_metric_rank ::
    "derivative_metric_key \<Rightarrow> string \<times> string \<times> string \<times> string \<times> string" where
  "derivative_metric_rank k =
     (vk_venue k, vk_symbol_native k, vk_symbol_canonical k, vk_market_type k, vk_metric_name k)"

definition metric_key :: "derivative_metric_observation \<Rightarrow> derivative_metric_key" where
  "metric_key m =
     \<lparr>vk_venue = dm_venue m, vk_symbol_native = dm_symbol_native m, vk_symbol_canonical = dm_symbol_canonical m,
      vk_market_type = dm_market_type m, vk_metric_name = dm_metric_name m\<rparr>"

definition group_derivative_metrics ::
    "derivative_metric_observation list \<Rightarrow> (derivative_metric_key, derivative_metric_observation list) btree" where
  "group_derivative_metrics metrics =
     map (\<lambda>(k, rows). (k, sort_key dm_exchange_timestamp_ms rows))
       (bt_group derivative_metric_rank metric_key metrics)"

definition derivative_value_at_or_before :: "derivative_metric_observation list \<Rightarrow> int \<Rightarrow> f64 option" where
  "derivative_value_at_or_before rows target =
     opt_filter is_finite
       (map_option dm_value (find (\<lambda>row. dm_exchange_timestamp_ms row \<le> target) (rev rows)))"

record derivative_feature_delta_values =
  dv_value_now :: f64
  dv_value_15m_ago :: "f64 option"
  dv_value_1h_ago :: "f64 option"
  dv_change_pct_15m :: "f64 option"
  dv_change_pct_1h :: "f64 option"

text \<open>The module has copies of \<open>percent_change\<close> and \<open>stable_id\<close>.\<close>

definition derivative_percent_change :: "f64 option \<Rightarrow> f64 option \<Rightarrow> f64 option" where
  "derivative_percent_change now0 previous0 =
     Option.bind now0 (\<lambda>now. Option.bind previous0 (\<lambda>previous.
       if \<not> is_finite now \<or> \<not> is_finite previous \<or> f64_le (f64_abs previous) f64_EPSILON then None
       else Some (f64_mul (f64_div (f64_sub now previous) previous) (Fin 100))))"

definition derivative_stable_id :: "l0_params \<Rightarrow> string list \<Rightarrow> string" where
  "derivative_stable_id params parts = sha256_hex params (join ''|'' parts)"

definition derivative_feature_delta ::
    "l0_params \<Rightarrow> string \<Rightarrow> derivative_metric_observation \<Rightarrow> derivative_feature_delta_values \<Rightarrow> market_feature_delta" where
  "derivative_feature_delta params l1_run_id row v =
     (let missing = reason_if_none ''value_15m_ago_missing'' (dv_value_15m_ago v)
            @ reason_if_none ''value_1h_ago_missing'' (dv_value_1h_ago v)
      in \<lparr>fd_schema_version = MARKET_FEATURE_DELTA_SCHEMA_VERSION,
          fd_feature_delta_id = derivative_stable_id params [l1_run_id, dm_metric_name row, dm_venue row,
            dm_symbol_native row, show_int (dm_exchange_timestamp_ms row), MARKET_FEATURE_DELTA_SCHEMA_VERSION],
          fd_l1_run_id = l1_run_id, fd_metric_name = dm_metric_name row, fd_venue = dm_venue row,
          fd_symbol_native = dm_symbol_native row, fd_symbol_canonical = dm_symbol_canonical row,
          fd_market_type = dm_market_type row, fd_value_now = dv_value_now v,
          fd_value_15m_ago = dv_value_15m_ago v, fd_value_1h_ago = dv_value_1h_ago v,
          fd_change_pct_15m = dv_change_pct_15m v, fd_change_pct_1h = dv_change_pct_1h v,
          fd_price_change_same_window = None, fd_volume_change_same_window = None,
          fd_oi_price_divergence = None, fd_window_start_ms = dm_exchange_timestamp_ms row,
          fd_window_end_ms = i64_saturating_add (dm_exchange_timestamp_ms row) 1000,
          fd_known_as_of_ms = dm_ingest_timestamp_ms row,
          fd_quality_status = delta_quality missing (dv_change_pct_15m v) (dv_change_pct_1h v),
          fd_missing_reasons = missing\<rparr>)"

definition metric_feature_delta ::
    "l0_params \<Rightarrow> string \<Rightarrow> derivative_metric_observation list \<Rightarrow> derivative_metric_observation \<Rightarrow>
     market_feature_delta" where
  "metric_feature_delta params l1_run_id rows row =
     (let value_15m = derivative_value_at_or_before rows (wrap_i64 (dm_exchange_timestamp_ms row - FIFTEEN_MINUTES_MS));
          value_1h = derivative_value_at_or_before rows (wrap_i64 (dm_exchange_timestamp_ms row - ONE_HOUR_MS))
      in derivative_feature_delta params l1_run_id row
           \<lparr>dv_value_now = dm_value row, dv_value_15m_ago = value_15m, dv_value_1h_ago = value_1h,
            dv_change_pct_15m = derivative_percent_change (Some (dm_value row)) value_15m,
            dv_change_pct_1h = derivative_percent_change (Some (dm_value row)) value_1h\<rparr>)"

definition build_derivative_feature_deltas ::
    "l0_params \<Rightarrow> string \<Rightarrow> input_range \<Rightarrow> derivative_metric_observation list \<Rightarrow> market_feature_delta list" where
  "build_derivative_feature_deltas params l1_run_id rng metrics =
     concat (map (\<lambda>rows. map (metric_feature_delta params l1_run_id rows)
                            (filter (\<lambda>row. dm_exchange_timestamp_ms row \<ge> start_ms rng) rows))
       (bt_values (group_derivative_metrics metrics)))"

definition delta_order :: "market_feature_delta \<Rightarrow> int \<times> string \<times> string \<times> string" where
  "delta_order d = (fd_window_start_ms d, fd_venue d, fd_symbol_canonical d, fd_metric_name d)"

definition build_market_feature_deltas ::
    "l0_params \<Rightarrow> string \<Rightarrow> input_range \<Rightarrow> int \<Rightarrow> slice_row list \<Rightarrow> derivative_metric_observation list \<Rightarrow>
     market_feature_delta list" where
  "build_market_feature_deltas params l1_run_id rng known_as_of_ms slices metrics =
     sort_key delta_order
       (concat (map (\<lambda>rows. concat (map (slice_feature_deltas params l1_run_id known_as_of_ms rows)
                                      (filter (\<lambda>row. sl_window_start_ms row \<ge> start_ms rng) rows)))
          (bt_values (group_slices_by_symbol slices)))
        @ build_derivative_feature_deltas params l1_run_id rng metrics)"

section \<open>Summaries (feature_delta/summary.rs, summary/*.rs)\<close>

record delta_summary_metric =
  fm_metric_name :: string
  fm_value_now :: f64
  fm_value_15m_ago :: "f64 option"
  fm_value_1h_ago :: "f64 option"
  fm_change_pct_15m :: "f64 option"
  fm_change_pct_1h :: "f64 option"
  fm_price_change_same_window :: "f64 option"
  fm_volume_change_same_window :: "f64 option"
  fm_oi_price_divergence :: "f64 option"
  fm_window_start_ms :: int
  fm_window_end_ms :: int
  fm_quality_status :: string

record delta_summary_row =
  fr_venue :: string
  fr_symbol_native :: string
  fr_symbol_canonical :: string
  fr_market_type :: string
  fr_window_start_ms :: int
  fr_window_end_ms :: int
  fr_known_as_of_ms :: int
  fr_quality_status :: string
  fr_missing_reasons :: "string list"
  fr_metrics :: "delta_summary_metric list"

record delta_summary =
  fs_schema_version :: string
  fs_feature_delta_summary_id :: string
  fs_l1_run_id :: string
  fs_detail_feature_delta_key :: string
  fs_window_start_ms :: int
  fs_window_end_ms :: int
  fs_known_as_of_ms :: int
  fs_detail_record_count :: nat
  fs_summary_row_count :: nat
  fs_rows :: "delta_summary_row list"

text \<open>The summary key has the fields and the order of the slice key.\<close>

record delta_summary_key =
  ek_venue :: string
  ek_symbol_native :: string
  ek_symbol_canonical :: string
  ek_market_type :: string

definition summary_rank :: "delta_summary_key \<Rightarrow> string \<times> string \<times> string \<times> string" where
  "summary_rank k = (ek_venue k, ek_symbol_native k, ek_symbol_canonical k, ek_market_type k)"

definition from_delta :: "market_feature_delta \<Rightarrow> delta_summary_key" where
  "from_delta d = \<lparr>ek_venue = fd_venue d, ek_symbol_native = fd_symbol_native d,
     ek_symbol_canonical = fd_symbol_canonical d, ek_market_type = fd_market_type d\<rparr>"

definition recency :: "market_feature_delta \<Rightarrow> int \<times> int \<times> int" where
  "recency d = (fd_window_end_ms d, fd_window_start_ms d, fd_known_as_of_ms d)"

definition is_newer_delta :: "market_feature_delta \<Rightarrow> market_feature_delta \<Rightarrow> bool" where
  "is_newer_delta candidate existing \<longleftrightarrow> cmp_by recency candidate existing = Greater"

abbreviation name_cmp :: "string \<Rightarrow> string \<Rightarrow> ordering" where
  "name_cmp \<equiv> cmp_by (\<lambda>s. s)"

definition record_latest ::
    "market_feature_delta \<Rightarrow> (string, market_feature_delta) btree \<Rightarrow> (string, market_feature_delta) btree" where
  "record_latest delta metrics =
     (case bt_get name_cmp (fd_metric_name delta) metrics of
        Some existing \<Rightarrow> if \<not> is_newer_delta delta existing then metrics
                         else bt_insert name_cmp (fd_metric_name delta) delta metrics
      | None \<Rightarrow> bt_insert name_cmp (fd_metric_name delta) delta metrics)"

definition latest_metrics_by_summary_key ::
    "market_feature_delta list \<Rightarrow> (delta_summary_key, (string, market_feature_delta) btree) btree" where
  "latest_metrics_by_summary_key deltas =
     foldl (\<lambda>m delta. bt_update (cmp_by summary_rank) (from_delta delta) [] (record_latest delta) m) [] deltas"

record summary_accumulator =
  ac_input_range :: input_range
  ac_fallback_known_as_of_ms :: int
  ac_window_start_ms :: int
  ac_window_end_ms :: int
  ac_row_known_as_of_ms :: int
  ac_missing_reasons :: "string set"
  ac_has_complete :: bool
  ac_has_partial :: bool

definition summary_accumulator_new :: "input_range \<Rightarrow> int \<Rightarrow> summary_accumulator" where
  "summary_accumulator_new rng fallback =
     \<lparr>ac_input_range = rng, ac_fallback_known_as_of_ms = fallback, ac_window_start_ms = i64_max,
      ac_window_end_ms = i64_min, ac_row_known_as_of_ms = i64_min, ac_missing_reasons = {},
      ac_has_complete = False, ac_has_partial = False\<rparr>"

definition summary_metric :: "market_feature_delta \<Rightarrow> delta_summary_metric" where
  "summary_metric d =
     \<lparr>fm_metric_name = fd_metric_name d, fm_value_now = fd_value_now d, fm_value_15m_ago = fd_value_15m_ago d,
      fm_value_1h_ago = fd_value_1h_ago d, fm_change_pct_15m = fd_change_pct_15m d,
      fm_change_pct_1h = fd_change_pct_1h d, fm_price_change_same_window = fd_price_change_same_window d,
      fm_volume_change_same_window = fd_volume_change_same_window d,
      fm_oi_price_divergence = fd_oi_price_divergence d, fm_window_start_ms = fd_window_start_ms d,
      fm_window_end_ms = fd_window_end_ms d, fm_quality_status = fd_quality_status d\<rparr>"

definition observe :: "summary_accumulator \<Rightarrow> market_feature_delta \<Rightarrow> summary_accumulator \<times> delta_summary_metric" where
  "observe a d =
     (a\<lparr>ac_window_start_ms := min (ac_window_start_ms a) (fd_window_start_ms d),
        ac_window_end_ms := max (ac_window_end_ms a) (fd_window_end_ms d),
        ac_row_known_as_of_ms := max (ac_row_known_as_of_ms a) (fd_known_as_of_ms d),
        ac_has_complete := ac_has_complete a \<or> fd_quality_status d = ''complete'',
        ac_has_partial := ac_has_partial a \<or> fd_quality_status d = ''partial'',
        ac_missing_reasons := ac_missing_reasons a \<union> set (fd_missing_reasons d)\<rparr>,
      summary_metric d)"

definition summary_quality_status :: "summary_accumulator \<Rightarrow> string" where
  "summary_quality_status a =
     (if ac_has_complete a then ''complete'' else if ac_has_partial a then ''partial'' else ''insufficient'')"

definition into_row :: "summary_accumulator \<Rightarrow> delta_summary_key \<Rightarrow> delta_summary_metric list \<Rightarrow> delta_summary_row" where
  "into_row a key metrics =
     \<lparr>fr_venue = ek_venue key, fr_symbol_native = ek_symbol_native key, fr_symbol_canonical = ek_symbol_canonical key,
      fr_market_type = ek_market_type key,
      fr_window_start_ms = (if ac_window_start_ms a = i64_max then start_ms (ac_input_range a) else ac_window_start_ms a),
      fr_window_end_ms = (if ac_window_end_ms a = i64_min then end_ms (ac_input_range a) else ac_window_end_ms a),
      fr_known_as_of_ms =
        (if ac_row_known_as_of_ms a = i64_min then ac_fallback_known_as_of_ms a else ac_row_known_as_of_ms a),
      fr_quality_status = summary_quality_status a,
      fr_missing_reasons = sorted_list_of_set (ac_missing_reasons a), fr_metrics = metrics\<rparr>"

definition summary_row ::
    "input_range \<Rightarrow> int \<Rightarrow> delta_summary_key \<Rightarrow> (string, market_feature_delta) btree \<Rightarrow> delta_summary_row" where
  "summary_row rng known_as_of_ms key metrics =
     (case foldl (\<lambda>(a, ms) d. case observe a d of (a', m) \<Rightarrow> (a', ms @ [m]))
             (summary_accumulator_new rng known_as_of_ms, []) (bt_values metrics) of
        (a, ms) \<Rightarrow> into_row a key ms)"

definition build_market_feature_delta_summary ::
    "l0_params \<Rightarrow> string \<Rightarrow> input_range \<Rightarrow> int \<Rightarrow> string \<Rightarrow> market_feature_delta list \<Rightarrow> delta_summary" where
  "build_market_feature_delta_summary params l1_run_id rng known_as_of_ms detail_key deltas =
     (let rows = map (\<lambda>(key, metrics). summary_row rng known_as_of_ms key metrics)
                   (latest_metrics_by_summary_key deltas)
      in \<lparr>fs_schema_version = MARKET_FEATURE_DELTA_SUMMARY_SCHEMA_VERSION,
          fs_feature_delta_summary_id = stable_id params [l1_run_id, show_int (start_ms rng), show_int (end_ms rng),
            detail_key, MARKET_FEATURE_DELTA_SUMMARY_SCHEMA_VERSION],
          fs_l1_run_id = l1_run_id, fs_detail_feature_delta_key = detail_key, fs_window_start_ms = start_ms rng,
          fs_window_end_ms = end_ms rng, fs_known_as_of_ms = known_as_of_ms,
          fs_detail_record_count = length deltas, fs_summary_row_count = length rows, fs_rows = rows\<rparr>)"

section \<open>No look-ahead\<close>

lemma duplicates_agree [simp]:
  "derivative_percent_change = percent_change" "derivative_stable_id = stable_id"
  by (simp_all add: fun_eq_iff derivative_percent_change_def percent_change_def derivative_stable_id_def stable_id_def)

text \<open>A timestamp an hour after the start of \<open>i64\<close> time: earlier lookups do not wrap.\<close>

definition lookback_safe :: "int \<Rightarrow> bool" where
  "lookback_safe t \<longleftrightarrow> i64_min + ONE_HOUR_MS \<le> t \<and> t \<le> i64_max"

lemma lookback_targets:
  assumes "lookback_safe t"
  shows "wrap_i64 (t - FIFTEEN_MINUTES_MS) = t - FIFTEEN_MINUTES_MS" "wrap_i64 (t - ONE_HOUR_MS) = t - ONE_HOUR_MS"
  using assms by (auto simp: lookback_safe_def in_i64_def i64_consts FIFTEEN_MINUTES_MS_def ONE_HOUR_MS_def
      intro!: wrap_i64_id)

lemma slice_delta_time:
  "d \<in> set (slice_feature_deltas params l1 known rows row) \<Longrightarrow> fd_window_start_ms d = sl_window_start_ms row"
  by (auto simp: slice_feature_deltas_def market_feature_delta_of_def Let_def split: option.splits)

lemma slice_deltas_cutoff:
  assumes "sorted (map sl_window_start_ms rows)" "lookback_safe (sl_window_start_ms row)"
    and "sl_window_start_ms row \<le> cutoff"
  shows "slice_feature_deltas params l1 known (filter (\<lambda>r. sl_window_start_ms r \<le> cutoff) rows) row =
    slice_feature_deltas params l1 known rows row"
proof -
  have "sl_window_start_ms row - FIFTEEN_MINUTES_MS \<le> cutoff" "sl_window_start_ms row - ONE_HOUR_MS \<le> cutoff"
    using assms(3) by (simp_all add: FIFTEEN_MINUTES_MS_def ONE_HOUR_MS_def)
  then show ?thesis
    by (simp only: slice_feature_deltas_def Let_def lookback_targets [OF assms(2)] value_at_or_before_cutoff [OF assms(1)])
qed

text \<open>Two lists of items in the same order, each item producing results stamped with its own time: filtering
  the results by time is filtering the items.\<close>

lemma filter_stamped:
  assumes "\<And>x d. x \<in> set xs \<Longrightarrow> d \<in> set (g x) \<Longrightarrow> stamp d = time x"
  shows "filter (\<lambda>d. stamp d \<le> (cutoff::int)) (concat (map g xs)) =
    concat (map g (filter (\<lambda>x. time x \<le> cutoff) xs))"
  using assms
proof (induction xs)
  case (Cons x xs)
  have "filter (\<lambda>d. stamp d \<le> cutoff) (g x) = (if time x \<le> cutoff then g x else [])"
    using Cons.prems [of x] by (auto simp: filter_id_conv filter_empty_conv)
  with Cons show ?case by simp
qed simp

lemma group_deltas_cutoff:
  assumes "sorted (map sl_window_start_ms rows)" "\<forall>row \<in> set rows. lookback_safe (sl_window_start_ms row)"
  shows "concat (map (slice_feature_deltas params l1 known (filter (\<lambda>r. sl_window_start_ms r \<le> cutoff) rows))
      (filter (\<lambda>row. sl_window_start_ms row \<ge> s) (filter (\<lambda>r. sl_window_start_ms r \<le> cutoff) rows))) =
    filter (\<lambda>d. fd_window_start_ms d \<le> cutoff)
      (concat (map (slice_feature_deltas params l1 known rows) (filter (\<lambda>row. sl_window_start_ms row \<ge> s) rows)))"
proof -
  let ?Q = "\<lambda>r. sl_window_start_ms r \<le> cutoff" and ?S = "\<lambda>row. sl_window_start_ms row \<ge> s"
  have swap: "filter ?S (filter ?Q rows) = filter ?Q (filter ?S rows)" by (simp add: conj_commute)
  have "map (slice_feature_deltas params l1 known (filter ?Q rows)) (filter ?Q (filter ?S rows)) =
      map (slice_feature_deltas params l1 known rows) (filter ?Q (filter ?S rows))"
    using assms by (intro map_cong refl slice_deltas_cutoff) auto
  then show ?thesis
    by (simp only: swap) (rule filter_stamped [symmetric], erule slice_delta_time)
qed

lemma find_rev_filter:
  "(\<And>x. P x \<Longrightarrow> Q x) \<Longrightarrow> find P (filter Q xs) = find P xs"
  by (induction xs) auto

lemma metric_delta_time:
  "fd_window_start_ms (metric_feature_delta params l1 rows row) = dm_exchange_timestamp_ms row"
  by (simp add: metric_feature_delta_def derivative_feature_delta_def Let_def)

lemma metric_delta_cutoff:
  assumes "lookback_safe (dm_exchange_timestamp_ms row)" "dm_exchange_timestamp_ms row \<le> cutoff"
  shows "metric_feature_delta params l1 (filter (\<lambda>r. dm_exchange_timestamp_ms r \<le> cutoff) rows) row =
    metric_feature_delta params l1 rows row"
proof -
  have "find (\<lambda>r. dm_exchange_timestamp_ms r \<le> t) (rev (filter (\<lambda>r. dm_exchange_timestamp_ms r \<le> cutoff) rows)) =
      find (\<lambda>r. dm_exchange_timestamp_ms r \<le> t) (rev rows)" if "t \<le> cutoff" for t
    using that by (simp add: rev_filter) (rule find_rev_filter, simp)
  moreover have "dm_exchange_timestamp_ms row - FIFTEEN_MINUTES_MS \<le> cutoff"
      "dm_exchange_timestamp_ms row - ONE_HOUR_MS \<le> cutoff"
    using assms(2) by (simp_all add: FIFTEEN_MINUTES_MS_def ONE_HOUR_MS_def)
  ultimately show ?thesis
    by (simp only: metric_feature_delta_def Let_def derivative_value_at_or_before_def lookback_targets [OF assms(1)])
qed

lemma metric_group_cutoff:
  assumes "\<forall>row \<in> set rows. lookback_safe (dm_exchange_timestamp_ms row)"
  shows "map (metric_feature_delta params l1 (filter (\<lambda>r. dm_exchange_timestamp_ms r \<le> cutoff) rows))
      (filter (\<lambda>row. dm_exchange_timestamp_ms row \<ge> s) (filter (\<lambda>r. dm_exchange_timestamp_ms r \<le> cutoff) rows)) =
    filter (\<lambda>d. fd_window_start_ms d \<le> cutoff)
      (map (metric_feature_delta params l1 rows) (filter (\<lambda>row. dm_exchange_timestamp_ms row \<ge> s) rows))"
proof -
  let ?Q = "\<lambda>r. dm_exchange_timestamp_ms r \<le> cutoff" and ?S = "\<lambda>row. dm_exchange_timestamp_ms row \<ge> s"
  have "map (metric_feature_delta params l1 (filter ?Q rows)) (filter ?S (filter ?Q rows)) =
      map (metric_feature_delta params l1 rows) (filter ?S (filter ?Q rows))"
    using assms by (intro map_cong refl metric_delta_cutoff) auto
  then show ?thesis by (simp add: filter_map comp_def metric_delta_time conj_commute)
qed

lemma map_snd_values: "bt_values (map (\<lambda>(k, rows). (k, f rows)) m) = map f (bt_values m)"
  by (simp add: bt_values_def case_prod_unfold)

lemma group_member: "ys \<in> set (bt_values (bt_group rank key xs)) \<Longrightarrow> set ys \<subseteq> set xs"
  by (auto simp: values_group)

lemma derivative_deltas_cutoff:
  assumes "\<forall>row \<in> set metrics. lookback_safe (dm_exchange_timestamp_ms row)"
  shows "build_derivative_feature_deltas params l1 rng (filter (\<lambda>r. dm_exchange_timestamp_ms r \<le> cutoff) metrics) =
    filter (\<lambda>d. fd_window_start_ms d \<le> cutoff) (build_derivative_feature_deltas params l1 rng metrics)"
proof -
  let ?Q = "\<lambda>r. dm_exchange_timestamp_ms r \<le> cutoff"
  define g where "g rows = map (metric_feature_delta params l1 (sort_key dm_exchange_timestamp_ms rows))
    (filter (\<lambda>row. dm_exchange_timestamp_ms row \<ge> start_ms rng) (sort_key dm_exchange_timestamp_ms rows))" for rows
  have build: "build_derivative_feature_deltas params l1 rng ms =
      concat (map g (bt_values (bt_group derivative_metric_rank metric_key ms)))" for ms
    by (simp add: build_derivative_feature_deltas_def group_derivative_metrics_def map_snd_values g_def [abs_def] comp_def)
  have "g (filter ?Q ys) = filter (\<lambda>d. fd_window_start_ms d \<le> cutoff) (g ys)"
    if "ys \<in> set (bt_values (bt_group derivative_metric_rank metric_key metrics))" for ys
    unfolding g_def filter_sort [symmetric] by (rule metric_group_cutoff) (use assms group_member [OF that] in auto)
  moreover have "g [] = []" by (simp add: g_def)
  ultimately show ?thesis
    by (simp add: build concat_group_filter filter_concat cong: map_cong)
qed

text \<open>C14: The feature deltas of a run never look ahead. Removing every slice and every derivative
  observation later than a cutoff removes exactly the deltas stamped later than the cutoff and changes no other:
  a back-test that only has the data up to the cutoff computes the same features in the same order.\<close>

theorem feature_deltas_no_lookahead:
  assumes "\<forall>row \<in> set slices. lookback_safe (sl_window_start_ms row)"
    and "\<forall>row \<in> set metrics. lookback_safe (dm_exchange_timestamp_ms row)"
  shows "build_market_feature_deltas params l1_run_id rng known
      (filter (\<lambda>r. sl_window_start_ms r \<le> cutoff) slices)
      (filter (\<lambda>r. dm_exchange_timestamp_ms r \<le> cutoff) metrics) =
    filter (\<lambda>d. fd_window_start_ms d \<le> cutoff)
      (build_market_feature_deltas params l1_run_id rng known slices metrics)"
proof -
  let ?Q = "\<lambda>r. sl_window_start_ms r \<le> cutoff"
  define g where "g rows = concat (map (slice_feature_deltas params l1_run_id known (sort_key sl_window_start_ms rows))
    (filter (\<lambda>row. sl_window_start_ms row \<ge> start_ms rng) (sort_key sl_window_start_ms rows)))" for rows
  have slices: "concat (map (\<lambda>rows. concat (map (slice_feature_deltas params l1_run_id known rows)
        (filter (\<lambda>row. sl_window_start_ms row \<ge> start_ms rng) rows))) (bt_values (group_slices_by_symbol xs))) =
      concat (map g (bt_values (bt_group symbol_window_rank slice_symbol_key xs)))" for xs
    by (simp add: group_slices_by_symbol_def map_snd_values g_def [abs_def] comp_def)
  have "g (filter ?Q ys) = filter (\<lambda>d. fd_window_start_ms d \<le> cutoff) (g ys)"
    if "ys \<in> set (bt_values (bt_group symbol_window_rank slice_symbol_key slices))" for ys
    unfolding g_def filter_sort [symmetric]
    by (rule group_deltas_cutoff) (use assms(1) group_member [OF that] in auto)
  moreover have "g [] = []" by (simp add: g_def)
  ultimately have "concat (map g (bt_values (bt_group symbol_window_rank slice_symbol_key (filter ?Q slices)))) =
      filter (\<lambda>d. fd_window_start_ms d \<le> cutoff)
        (concat (map g (bt_values (bt_group symbol_window_rank slice_symbol_key slices))))"
    by (simp add: concat_group_filter filter_concat cong: map_cong)
  then show ?thesis
    unfolding build_market_feature_deltas_def slices
    by (simp add: derivative_deltas_cutoff [OF assms(2)] filter_sort)
qed


section \<open>Summaries\<close>

lemma is_newer_iff: "is_newer_delta d e \<longleftrightarrow> recency e < recency d"
  by (auto simp: is_newer_delta_def cmp_by_def)

lemma insert_same:
  "bt_wf rank (\<lambda>_. True) m \<Longrightarrow> (k, v) \<in> set m \<Longrightarrow> bt_insert (cmp_by rank) k v m = m"
proof (induction m)
  case (Cons e m)
  then show ?case by (cases e) (auto simp: bt_wf_Cons cmp_by_def)
qed simp

definition newer_of :: "market_feature_delta \<Rightarrow> market_feature_delta \<Rightarrow> market_feature_delta" where
  "newer_of d e = (if is_newer_delta d e then d else e)"

lemma newer_of_self [simp]: "newer_of d d = d"
  by (simp add: newer_of_def)

lemma record_latest_update:
  assumes "bt_wf (\<lambda>s. s) (\<lambda>_. True) m"
  shows "record_latest d m = bt_update name_cmp (fd_metric_name d) d (newer_of d) m"
proof (cases "bt_get name_cmp (fd_metric_name d) m")
  case (Some e)
  have "(fd_metric_name d, e) \<in> set m" using ranked.get_Some_mem [OF assms _ Some] by auto
  then show ?thesis using insert_same [OF assms] Some
    by (simp add: record_latest_def bt_update_def newer_of_def)
qed (simp add: record_latest_def bt_update_def)

lemma record_latest_fill:
  assumes "bt_wf (\<lambda>s. s) (\<lambda>_. True) m"
  shows "foldl (\<lambda>m d. record_latest d m) m ds = bt_fill (\<lambda>s. s) fd_metric_name (\<lambda>d. d) newer_of m ds"
  using assms
proof (induction ds arbitrary: m)
  case (Cons d ds)
  then show ?case by (simp add: bt_fill_def record_latest_update wf_update)
qed (simp add: bt_fill_def)

text \<open>The newest of a list of deltas, the first one among equals.\<close>

lemma newest_fold:
  "foldl (\<lambda>e d. newer_of d e) e ds \<in> set (e # ds) \<and>
   (\<forall>d \<in> set (e # ds). recency d \<le> recency (foldl (\<lambda>e d. newer_of d e) e ds))"
proof (induction ds arbitrary: e)
  case (Cons d ds)
  have ge: "recency e \<le> recency (newer_of d e)" "recency d \<le> recency (newer_of d e)"
    and mem: "newer_of d e \<in> {e, d}"
    by (auto simp: newer_of_def is_newer_iff not_less)
  from Cons.IH [of "newer_of d e"] ge mem show ?case by (auto intro: order_trans)
qed simp

definition metrics_of :: "market_feature_delta list \<Rightarrow> (string, market_feature_delta) btree" where
  "metrics_of ds = bt_fill (\<lambda>s. s) fd_metric_name (\<lambda>d. d) newer_of [] ds"

lemma latest_metrics_fill:
  "latest_metrics_by_summary_key deltas = bt_fill summary_rank from_delta (\<lambda>_. []) record_latest [] deltas"
  by (simp add: latest_metrics_by_summary_key_def bt_fill_def)

lemma latest_metrics_entry:
  assumes "(key, metrics) \<in> set (latest_metrics_by_summary_key deltas)"
  shows "metrics = metrics_of (filter (\<lambda>d. from_delta d = key) deltas)"
    and "filter (\<lambda>d. from_delta d = key) deltas \<noteq> []"
proof -
  let ?ds = "filter (\<lambda>d. from_delta d = key) deltas"
  have eq: "filter (\<lambda>d. summary_rank (from_delta d) = summary_rank key) deltas = ?ds"
    by (rule filter_cong) (auto simp: summary_rank_def)
  have wf: "bt_wf summary_rank (\<lambda>_. True) (bt_fill summary_rank from_delta (\<lambda>_. []) record_latest [] deltas)"
    by (simp add: wf_fill)
  have get: "entry_fold (\<lambda>_. []) record_latest None ?ds = Some metrics"
    using ranked.get_mem [OF wf] assms get_fill [of summary_rank "[]" key from_delta "\<lambda>_. []" record_latest deltas]
    by (simp add: latest_metrics_fill eq)
  then show ne: "?ds \<noteq> []" by auto
  then have "metrics = foldl (\<lambda>m d. record_latest d m) [] ?ds"
    using get by (cases ?ds) (simp_all add: entry_fold_Some)
  then show "metrics = metrics_of ?ds"
    by (simp add: record_latest_fill metrics_of_def)
qed

lemma latest_metrics_keys:
  "map (\<lambda>(key, _). summary_rank key) (latest_metrics_by_summary_key deltas) =
     sorted_list_of_set ((\<lambda>d. summary_rank (from_delta d)) ` set deltas)"
proof -
  let ?m = "bt_fill summary_rank from_delta (\<lambda>_. []) record_latest [] deltas"
  have "map (summary_rank \<circ> fst) ?m = sorted_list_of_set (summary_rank ` fst ` set ?m)"
    by (rule sorted_ranks) (simp add: wf_fill)
  then have "map (summary_rank \<circ> fst) ?m = sorted_list_of_set (summary_rank ` from_delta ` set deltas)"
    by (simp only: ranks_fill)
  then show ?thesis
    by (simp add: latest_metrics_fill image_comp comp_def case_prod_unfold)
qed

lemma summary_fold:
  "\<exists>a'. foldl (\<lambda>(a, ms) d. case observe a d of (a', m) \<Rightarrow> (a', ms @ [m])) (a, ms) ds = (a', ms @ map summary_metric ds)"
proof (induction ds arbitrary: a ms)
  case (Cons d ds)
  obtain a1 where "observe a d = (a1, summary_metric d)" by (simp add: observe_def)
  with Cons [of a1 "ms @ [summary_metric d]"] show ?case by simp
qed simp

lemma summary_row_parts:
  "fr_metrics (summary_row rng known key metrics) = map summary_metric (bt_values metrics)"
  "(fr_venue (summary_row rng known key metrics), fr_symbol_native (summary_row rng known key metrics),
    fr_symbol_canonical (summary_row rng known key metrics), fr_market_type (summary_row rng known key metrics)) =
   summary_rank key"
  using summary_fold [of "summary_accumulator_new rng known" "[]" "bt_values metrics"]
  by (auto simp: summary_row_def into_row_def summary_rank_def)

lemma metrics_of_names:
  "map fd_metric_name (bt_values (metrics_of ds)) = sorted_list_of_set (fd_metric_name ` set ds)"
  "\<forall>e \<in> set (bt_values (metrics_of ds)). e \<in> set ds \<and>
     (\<forall>d \<in> set ds. fd_metric_name d = fd_metric_name e \<longrightarrow> recency d \<le> recency e)"
proof -
  let ?N = "sorted_list_of_set (fd_metric_name ` set ds)"
  let ?at = "\<lambda>r. filter (\<lambda>d. fd_metric_name d = r) ds"
  let ?new = "\<lambda>r. the (entry_fold (\<lambda>d. d) newer_of None (?at r))"
  have vals: "bt_values (metrics_of ds) = map ?new ?N"
    unfolding metrics_of_def by (subst values_fill) simp
  have new: "?new r \<in> set (?at r) \<and> (\<forall>d \<in> set (?at r). recency d \<le> recency (?new r))"
    if "r \<in> set ?N" for r
  proof -
    from that have "?at r \<noteq> []" by (auto simp: filter_empty_conv)
    then obtain d0 rest where "?at r = d0 # rest" by (cases "?at r") auto
    then show ?thesis using newest_fold [of d0 rest] by (simp add: entry_fold_Some)
  qed
  show "map fd_metric_name (bt_values (metrics_of ds)) = ?N"
    unfolding vals map_map using new by (intro map_idI) auto
  show "\<forall>e \<in> set (bt_values (metrics_of ds)). e \<in> set ds \<and>
     (\<forall>d \<in> set ds. fd_metric_name d = fd_metric_name e \<longrightarrow> recency d \<le> recency e)"
  proof
    fix e assume "e \<in> set (bt_values (metrics_of ds))"
    then obtain r where r: "r \<in> set ?N" "e = ?new r" by (auto simp: vals)
    from new [OF r(1)] show "e \<in> set ds \<and> (\<forall>d \<in> set ds. fd_metric_name d = fd_metric_name e \<longrightarrow> recency d \<le> recency e)"
      unfolding r(2) by auto
  qed
qed

definition row_key :: "delta_summary_row \<Rightarrow> string \<times> string \<times> string \<times> string" where
  "row_key row = (fr_venue row, fr_symbol_native row, fr_symbol_canonical row, fr_market_type row)"

definition delta_key :: "market_feature_delta \<Rightarrow> string \<times> string \<times> string \<times> string" where
  "delta_key d = (fd_venue d, fd_symbol_native d, fd_symbol_canonical d, fd_market_type d)"

lemma delta_key_rank: "summary_rank (from_delta d) = delta_key d"
  by (simp add: summary_rank_def from_delta_def delta_key_def)

text \<open>A row's metrics are the newest deltas of its symbol, one per metric name.\<close>

definition newest_for :: "market_feature_delta list \<Rightarrow> string \<times> string \<times> string \<times> string \<Rightarrow> market_feature_delta \<Rightarrow> bool" where
  "newest_for deltas key e \<longleftrightarrow> e \<in> set deltas \<and> delta_key e = key \<and>
     (\<forall>d \<in> set deltas. delta_key d = key \<and> fd_metric_name d = fd_metric_name e \<longrightarrow> recency d \<le> recency e)"

lemma summary_row_newest:
  assumes "(key, metrics) \<in> set (latest_metrics_by_summary_key deltas)"
    and row_def: "row = summary_row rng known key metrics"
  shows "map fm_metric_name (fr_metrics row) =
      sorted_list_of_set (fd_metric_name ` {d \<in> set deltas. delta_key d = row_key row})"
    and "\<forall>m \<in> set (fr_metrics row). \<exists>e. m = summary_metric e \<and> newest_for deltas (row_key row) e"
proof -
  let ?ds = "filter (\<lambda>d. from_delta d = key) deltas"
  have key: "row_key row = summary_rank key"
    unfolding row_key_def row_def by (rule summary_row_parts)
  have ds: "set ?ds = {d \<in> set deltas. delta_key d = row_key row}"
    by (auto simp: key delta_key_rank [symmetric] summary_rank_def)
  have mets: "fr_metrics row = map summary_metric (bt_values (metrics_of ?ds))"
    by (simp add: row_def summary_row_parts latest_metrics_entry(1) [OF assms(1)])
  have nm: "fm_metric_name (summary_metric d) = fd_metric_name d" for d by (simp add: summary_metric_def)
  have "map fm_metric_name (fr_metrics row) = sorted_list_of_set (fd_metric_name ` set ?ds)"
    by (simp only: mets map_map comp_def nm metrics_of_names(1))
  then show "map fm_metric_name (fr_metrics row) =
      sorted_list_of_set (fd_metric_name ` {d \<in> set deltas. delta_key d = row_key row})"
    unfolding ds .
  have "newest_for deltas (row_key row) e" if "e \<in> set (bt_values (metrics_of ?ds))" for e
    using bspec [OF metrics_of_names(2) that] unfolding ds newest_for_def by auto
  then show "\<forall>m \<in> set (fr_metrics row). \<exists>e. m = summary_metric e \<and> newest_for deltas (row_key row) e"
    by (auto simp: mets)
qed

text \<open>The summary has exactly one row per symbol that has a delta, in key order, and its count says
  so; each row has exactly one metric per metric name of the symbol, in name order, and each is copied from a delta
  that no other delta of that symbol and metric is newer than (by window end, then start, then knowledge time).\<close>

theorem summary_keeps_newest:
  "\<exists>rows. fs_rows (build_market_feature_delta_summary params l1_run_id rng known detail_key deltas) = rows \<and>
     fs_summary_row_count (build_market_feature_delta_summary params l1_run_id rng known detail_key deltas) = length rows \<and>
     map row_key rows = sorted_list_of_set (delta_key ` set deltas) \<and>
     (\<forall>row \<in> set rows.
        map fm_metric_name (fr_metrics row) =
          sorted_list_of_set (fd_metric_name ` {d \<in> set deltas. delta_key d = row_key row}) \<and>
        (\<forall>m \<in> set (fr_metrics row). \<exists>e. m = summary_metric e \<and> newest_for deltas (row_key row) e))"
proof -
  let ?m = "latest_metrics_by_summary_key deltas"
  let ?rows = "map (\<lambda>(key, metrics). summary_row rng known key metrics) ?m"
  have key: "row_key (summary_row rng known k ms) = summary_rank k" for k ms
    unfolding row_key_def by (rule summary_row_parts)
  have "map row_key ?rows = map (\<lambda>(key, _). summary_rank key) ?m" by (auto simp: key)
  then have "map row_key ?rows = sorted_list_of_set (delta_key ` set deltas)"
    unfolding latest_metrics_keys delta_key_rank .
  moreover have "\<forall>row \<in> set ?rows.
      map fm_metric_name (fr_metrics row) =
        sorted_list_of_set (fd_metric_name ` {d \<in> set deltas. delta_key d = row_key row}) \<and>
      (\<forall>m \<in> set (fr_metrics row). \<exists>e. m = summary_metric e \<and> newest_for deltas (row_key row) e)"
  proof
    fix row assume "row \<in> set ?rows"
    then obtain k ms where mem: "(k, ms) \<in> set ?m" and r: "row = summary_row rng known k ms" by auto
    show "map fm_metric_name (fr_metrics row) =
        sorted_list_of_set (fd_metric_name ` {d \<in> set deltas. delta_key d = row_key row}) \<and>
      (\<forall>m \<in> set (fr_metrics row). \<exists>e. m = summary_metric e \<and> newest_for deltas (row_key row) e)"
      by (intro conjI summary_row_newest [OF mem r])
  qed
  moreover have "fs_rows (build_market_feature_delta_summary params l1_run_id rng known detail_key deltas) = ?rows"
    "fs_summary_row_count (build_market_feature_delta_summary params l1_run_id rng known detail_key deltas) = length ?rows"
    by (simp_all add: build_market_feature_delta_summary_def Let_def)
  ultimately show ?thesis by (intro exI [of _ ?rows] conjI)
qed


section \<open>Concrete runs\<close>

definition sample_slices :: "slice_row list" where
  "sample_slices = [sample_slice ''upbit'' ''KRW-BTC'' 3600000 110 4, sample_slice ''upbit'' ''KRW-BTC'' 0 100 2]"

definition sample_deltas :: "market_feature_delta list" where
  "sample_deltas = build_market_feature_deltas sample_params ''run'' \<lparr>start_ms = 0, end_ms = 7200000\<rparr> 9000000
     sample_slices []"

lemma delta_fields [simp]:
  "delta_order (market_feature_delta_of params l1 name row v) =
     (sl_window_start_ms row, sl_venue row, sl_symbol_canonical row, name)"
  "delta_key (market_feature_delta_of params l1 name row v) =
     (sl_venue row, sl_symbol_native row, sl_symbol_canonical row, sl_market_type row)"
  "fd_metric_name (market_feature_delta_of params l1 name row v) = name"
  "fd_window_start_ms (market_feature_delta_of params l1 name row v) = sl_window_start_ms row"
  by (simp_all add: market_feature_delta_of_def delta_order_def delta_key_def Let_def)

lemma sample_groups:
  "bt_values (group_slices_by_symbol sample_slices) = [rev sample_slices]"
  by (simp add: group_slices_by_symbol_def bt_group_def bt_push_def bt_update_def sample_slices_def cmp_by_def
      bt_values_def symbol_window_rank_def slice_symbol_key_def sample_slice_def)

lemma sample_deltas_stamps:
  "map (\<lambda>d. (delta_key d, fd_metric_name d, fd_window_start_ms d)) sample_deltas =
     (let k = (''upbit'', ''KRW-BTC'', ''BTC'', ''spot'')
      in [(k, ''price'', 0), (k, ''trade_volume'', 0), (k, ''price'', 3600000), (k, ''trade_volume'', 3600000)])"
proof -
  have p: "price (sample_slice v n t 100 vol) = Some (Fin 100)" "price (sample_slice v n t 110 vol) = Some (Fin 110)"
    for v n t vol by (simp_all add: price_def sample_slice_def or_else_def positive_price_def is_finite_def)
  have f: "sl_window_start_ms (sample_slice v n t m vol) = t" "sl_venue (sample_slice v n t m vol) = v"
    "sl_symbol_native (sample_slice v n t m vol) = n" "sl_symbol_canonical (sample_slice v n t m vol) = ''BTC''"
    "sl_market_type (sample_slice v n t m vol) = ''spot''" for v n t m vol by (simp_all add: sample_slice_def)
  have "build_derivative_feature_deltas params l rng [] = []" for params l rng
    by (simp add: build_derivative_feature_deltas_def group_derivative_metrics_def bt_group_def bt_values_def)
  then show ?thesis
    unfolding sample_deltas_def build_market_feature_deltas_def sample_groups
    by (simp add: sample_slices_def slice_feature_deltas_def Let_def p f)
qed

theorem feature_deltas_no_lookahead_witness:
  "lookback_safe 3600000 \<and>
   build_market_feature_deltas sample_params ''run'' \<lparr>start_ms = 0, end_ms = 7200000\<rparr> 9000000
     [sample_slice ''upbit'' ''KRW-BTC'' 0 100 2] [] = filter (\<lambda>d. fd_window_start_ms d \<le> 0) sample_deltas"
proof -
  have safe: "lookback_safe 3600000" "lookback_safe 0"
    by (simp_all add: lookback_safe_def i64_consts ONE_HOUR_MS_def)
  have f: "filter (\<lambda>r. sl_window_start_ms r \<le> 0) sample_slices = [sample_slice ''upbit'' ''KRW-BTC'' 0 100 2]"
    by (simp add: sample_slices_def sample_slice_def)
  have "\<forall>row \<in> set sample_slices. lookback_safe (sl_window_start_ms row)"
    using safe by (simp add: sample_slices_def sample_slice_def)
  from feature_deltas_no_lookahead [OF this, of "[]" sample_params "''run''" "\<lparr>start_ms = 0, end_ms = 7200000\<rparr>" 9000000 0]
  show ?thesis using safe by (simp add: f sample_deltas_def)
qed

theorem summary_keeps_newest_witness:
  "\<exists>row. fs_rows (build_market_feature_delta_summary sample_params ''run'' \<lparr>start_ms = 0, end_ms = 7200000\<rparr> 9000000
      ''detail'' sample_deltas) = [row] \<and> map fm_metric_name (fr_metrics row) = [''price'', ''trade_volume'']"
proof -
  let ?k = "(''upbit'', ''KRW-BTC'', ''BTC'', ''spot'')"
  have st: "set (map (\<lambda>d. (delta_key d, fd_metric_name d, fd_window_start_ms d)) sample_deltas) =
      {(?k, ''price'', 0), (?k, ''trade_volume'', 0), (?k, ''price'', 3600000), (?k, ''trade_volume'', 3600000)}"
    unfolding sample_deltas_stamps Let_def by simp
  have keys: "delta_key ` set sample_deltas = {?k}"
    using arg_cong [OF st, of "image fst"] by (simp add: image_comp comp_def)
  have names: "fd_metric_name ` set sample_deltas = {''price'', ''trade_volume''}"
    using arg_cong [OF st, of "image (fst \<circ> snd)"] by (simp add: image_comp comp_def insert_commute)
  obtain rows where rows: "fs_rows (build_market_feature_delta_summary sample_params ''run''
        \<lparr>start_ms = 0, end_ms = 7200000\<rparr> 9000000 ''detail'' sample_deltas) = rows"
      "map row_key rows = sorted_list_of_set (delta_key ` set sample_deltas)"
      "\<forall>row \<in> set rows. map fm_metric_name (fr_metrics row) =
          sorted_list_of_set (fd_metric_name ` {d \<in> set sample_deltas. delta_key d = row_key row})"
    using summary_keeps_newest [of sample_params "''run''" "\<lparr>start_ms = 0, end_ms = 7200000\<rparr>" 9000000 "''detail''"
        sample_deltas] by blast
  from rows(2) obtain row where row: "rows = [row]" "row_key row = ?k" by (auto simp: keys)
  have "{d \<in> set sample_deltas. delta_key d = ?k} = set sample_deltas" using keys by auto
  then show ?thesis using rows row by (auto simp: names)
qed

end
