(* ===== verification/Regime.thy ===== *)
theory Regime
  imports Projection_Common
begin

text \<open>
  The market regime per window (\<open>src/normalize/projection/regime_context.rs\<close>, \<open>regime_context/*\<close>) and the data quality
  summary of a run (\<open>src/normalize/projection/data_quality.rs\<close>). A window's regime gathers the returns of every
  symbol over the last hour, or over the nearest earlier window when there is no price an hour back, with the
  correlation of Bitcoin's return to the mean return over the hour. The lemmas show that a regime never looks ahead and what
  the statuses of the quality summary mean.
\<close>

section \<open>Returns (regime_context/returns.rs)\<close>

record return_sample =
  rs_symbol_canonical :: string
  rs_window_end_ms :: int
  rs_return_pct :: f64
  rs_lookback_ms :: int

definition return_for_symbol :: "return_sample list \<Rightarrow> string \<Rightarrow> f64 option" where
  "return_for_symbol samples symbol =
     map_option rs_return_pct (find (\<lambda>s. rs_symbol_canonical s = symbol) samples)"

definition price_with_window :: "slice_row \<Rightarrow> (f64 \<times> int) option" where
  "price_with_window row = map_option (\<lambda>v. (v, sl_window_start_ms row)) (price row)"

definition price_with_window_at_or_before :: "slice_row list \<Rightarrow> int \<Rightarrow> (f64 \<times> int) option" where
  "price_with_window_at_or_before rows target =
     Option.bind (find (\<lambda>row. sl_window_start_ms row \<le> target) (rev rows)) price_with_window"

definition nearest_prior_price_with_window :: "slice_row list \<Rightarrow> int \<Rightarrow> (f64 \<times> int) option" where
  "nearest_prior_price_with_window rows current =
     Option.bind (find (\<lambda>row. sl_window_start_ms row < current) (rev rows)) price_with_window"

definition return_sample_for_row :: "slice_row list \<Rightarrow> slice_row \<Rightarrow> (f64 \<times> int) option" where
  "return_sample_for_row rows row =
     Option.bind (price row) (\<lambda>current_price.
     Option.bind (or_else (price_with_window_at_or_before rows (i64_saturating_sub (sl_window_start_ms row) ONE_HOUR_MS))
                    (nearest_prior_price_with_window rows (sl_window_start_ms row))) (\<lambda>(historical, at_ms).
     Option.bind (percent_change (Some current_price) (Some historical)) (\<lambda>return_pct.
       Some (return_pct, i64_saturating_sub (sl_window_start_ms row) at_ms))))"

abbreviation int_cmp :: "int \<Rightarrow> int \<Rightarrow> ordering" where
  "int_cmp \<equiv> cmp_by (\<lambda>i. i)"

definition row_samples :: "slice_row list \<Rightarrow> (int \<times> return_sample) list" where
  "row_samples rows =
     concat (map (\<lambda>row. case return_sample_for_row rows row of
         None \<Rightarrow> []
       | Some (return_pct, lookback_ms) \<Rightarrow>
           [(sl_window_start_ms row,
             \<lparr>rs_symbol_canonical = sl_symbol_canonical row, rs_window_end_ms = sl_window_end_ms row,
              rs_return_pct = return_pct, rs_lookback_ms = lookback_ms\<rparr>)]) rows)"

definition return_samples_by_window :: "slice_row list \<Rightarrow> (int, return_sample list) btree" where
  "return_samples_by_window slices =
     foldl (\<lambda>m (t, s). bt_push int_cmp t s m) []
       (concat (map row_samples (bt_values (group_slices_by_symbol slices))))"

text \<open>The \<open>?\<close> inside the loop returns \<open>None\<close> at the first window without Bitcoin or without a finite return.\<close>

fun collect_returns ::
    "(int \<times> return_sample list) list \<Rightarrow> f64 list \<Rightarrow> f64 list \<Rightarrow> (f64 list \<times> f64 list) option" where
  "collect_returns [] btc sector = Some (btc, sector)"
| "collect_returns ((t, samples) # rest) btc sector =
     Option.bind (return_for_symbol samples ''BTC'') (\<lambda>b.
     Option.bind (mean (map rs_return_pct samples)) (\<lambda>s. collect_returns rest (btc @ [b]) (sector @ [s])))"

definition rolling_correlation_to_btc :: "(int, return_sample list) btree \<Rightarrow> int \<Rightarrow> f64 option" where
  "rolling_correlation_to_btc by_window current =
     (let s = i64_saturating_sub current ONE_HOUR_MS
      in Option.bind (collect_returns (filter (\<lambda>(t, _). s \<le> t \<and> t \<le> current) by_window) [] [])
           (\<lambda>(btc, sector). correlation btc sector))"

section \<open>Grades (regime_context/quality.rs)\<close>

definition push_missing_if_none :: "string list \<Rightarrow> 'a option \<Rightarrow> string \<Rightarrow> string list" where
  "push_missing_if_none reasons v reason = (if v = None then reasons @ [reason] else reasons)"

definition regime_missing_reasons ::
    "f64 option \<Rightarrow> f64 option \<Rightarrow> f64 option \<Rightarrow> f64 option \<Rightarrow> string list" where
  "regime_missing_reasons btc eth sector correlation_to_btc =
     (let r = push_missing_if_none [] btc ''btc_return_missing'';
          r = push_missing_if_none r eth ''eth_return_missing'';
          r = push_missing_if_none r sector ''sector_return_missing''
      in push_missing_if_none r correlation_to_btc ''correlation_to_btc_insufficient_samples'')"

definition regime_quality_status :: "string list \<Rightarrow> f64 option \<Rightarrow> string" where
  "regime_quality_status missing sector =
     (if missing = [] then ''complete'' else if sector \<noteq> None then ''partial'' else ''insufficient'')"

definition volatility_regime :: "f64 option \<Rightarrow> string" where
  "volatility_regime volatility =
     (case volatility of None \<Rightarrow> ''unknown''
      | Some v \<Rightarrow> if f64_lt v (Fin (1 / 2)) then ''low'' else if f64_lt v (Fin 2) then ''medium'' else ''high'')"

section \<open>Regime contexts (regime_context.rs)\<close>

definition MARKET_REGIME_CONTEXT_SCHEMA_VERSION :: string where
  "MARKET_REGIME_CONTEXT_SCHEMA_VERSION = ''market_regime_context_v1''"

record market_regime_context =
  rc_schema_version :: string
  rc_regime_context_id :: string
  rc_l1_run_id :: string
  rc_scope :: string
  rc_window_start_ms :: int
  rc_window_end_ms :: int
  rc_btc_return_same_window :: "f64 option"
  rc_eth_return_same_window :: "f64 option"
  rc_sector_return_same_window :: "f64 option"
  rc_volatility_regime :: string
  rc_correlation_to_btc :: "f64 option"
  rc_known_as_of_ms :: int
  rc_quality_status :: string
  rc_missing_reasons :: "string list"

definition regime_context_for_window ::
    "l0_params \<Rightarrow> string \<Rightarrow> int \<Rightarrow> (int, return_sample list) btree \<Rightarrow> int \<Rightarrow> return_sample list \<Rightarrow>
     market_regime_context" where
  "regime_context_for_window params l1_run_id known by_window t samples =
     (let btc = return_for_symbol samples ''BTC''; eth = return_for_symbol samples ''ETH'';
          sector = mean (map rs_return_pct samples);
          volatility = population_stddev (map rs_return_pct samples);
          corr = rolling_correlation_to_btc by_window t;
          missing = regime_missing_reasons btc eth sector corr;
          missing = (if list_ex (\<lambda>s. rs_lookback_ms s < ONE_HOUR_MS) samples
                     then missing @ [''return_lookback_degraded''] else missing)
      in \<lparr>rc_schema_version = MARKET_REGIME_CONTEXT_SCHEMA_VERSION,
          rc_regime_context_id = stable_id params [l1_run_id, show_int t, ''market_all_symbols'',
            MARKET_REGIME_CONTEXT_SCHEMA_VERSION],
          rc_l1_run_id = l1_run_id, rc_scope = ''market_all_symbols'', rc_window_start_ms = t,
          rc_window_end_ms = (case samples of [] \<Rightarrow> i64_saturating_add t 1000 | s # _ \<Rightarrow> rs_window_end_ms s),
          rc_btc_return_same_window = btc, rc_eth_return_same_window = eth, rc_sector_return_same_window = sector,
          rc_volatility_regime = volatility_regime volatility, rc_correlation_to_btc = corr,
          rc_known_as_of_ms = known, rc_quality_status = regime_quality_status missing sector,
          rc_missing_reasons = missing\<rparr>)"

definition build_market_regime_contexts ::
    "l0_params \<Rightarrow> string \<Rightarrow> input_range \<Rightarrow> int \<Rightarrow> slice_row list \<Rightarrow> market_regime_context list" where
  "build_market_regime_contexts params l1_run_id rng known slices =
     (let by_window = return_samples_by_window slices
      in map (\<lambda>(t, samples). regime_context_for_window params l1_run_id known by_window t samples)
           (filter (\<lambda>(t, _). t \<ge> start_ms rng) by_window))"

section \<open>Data quality (data_quality.rs)\<close>

definition MARKET_DATA_QUALITY_SUMMARY_SCHEMA_VERSION :: string where
  "MARKET_DATA_QUALITY_SUMMARY_SCHEMA_VERSION = ''market_data_quality_summary_v1''"

record market_data_quality_summary =
  dq_schema_version :: string
  dq_quality_summary_id :: string
  dq_l1_run_id :: string
  dq_coverage_ratio :: f64
  dq_gap_count :: int
  dq_stale_sources :: "string list"
  dq_delayed_sources :: "string list"
  dq_missing_venues :: "string list"
  dq_source_health_status :: string
  dq_symbol_health_status :: string
  dq_quality_window_start_ms :: int
  dq_quality_window_end_ms :: int
  dq_known_as_of_ms :: int

definition sources_by_quality :: "slice_row list \<Rightarrow> (slice_row \<Rightarrow> bool) \<Rightarrow> string list" where
  "sources_by_quality slices is_flagged = sorted_list_of_set (sl_venue ` set (filter is_flagged slices))"

definition lacks_data :: "slice_row \<Rightarrow> bool" where
  "lacks_data row \<longleftrightarrow> sl_slice_completeness row = ''incomplete'' \<or>
     list_ex (\<lambda>reason. contains_str ''missing'' reason \<or> contains_str ''gap'' reason \<or> contains_str ''stale'' reason)
       (sl_missing_reasons row)"

definition missing_venues :: "slice_row list \<Rightarrow> string list" where
  "missing_venues slices = sorted_list_of_set (sl_venue ` set (filter lacks_data slices))"

fun health_scan :: "(slice_row \<Rightarrow> 'h option) \<Rightarrow> (slice_row \<Rightarrow> 'h \<Rightarrow> bool) \<Rightarrow> bool \<Rightarrow> slice_row list \<Rightarrow> string" where
  "health_scan snapshot degraded has_unknown [] = (if has_unknown then ''unknown'' else ''healthy'')"
| "health_scan snapshot degraded has_unknown (row # rows) =
     (case snapshot row of
        None \<Rightarrow> health_scan snapshot degraded True rows
      | Some h \<Rightarrow> if degraded row h then ''degraded'' else health_scan snapshot degraded has_unknown rows)"

definition source_degraded :: "slice_row \<Rightarrow> source_health_snapshot \<Rightarrow> bool" where
  "source_degraded row h \<longleftrightarrow> hs_health_level h \<noteq> ''healthy'' \<and> hs_health_level h \<noteq> ''ok''"

definition symbol_degraded :: "slice_row \<Rightarrow> symbol_health_snapshot \<Rightarrow> bool" where
  "symbol_degraded row h \<longleftrightarrow> \<not> ys_is_tradeable h \<or> sl_quality_gap row > 0 \<or> sl_quality_stale row > 0"

definition source_health_status :: "slice_row list \<Rightarrow> string" where
  "source_health_status slices = health_scan sl_source_health_snapshot source_degraded False slices"

definition symbol_health_status :: "slice_row list \<Rightarrow> string" where
  "symbol_health_status slices = health_scan sl_symbol_health_snapshot symbol_degraded False slices"

definition is_covered :: "slice_row \<Rightarrow> bool" where
  "is_covered row \<longleftrightarrow> sl_slice_completeness row = ''complete'' \<or> sl_slice_completeness row = ''partial'' \<or>
     sl_slice_completeness row = ''reference_only''"

definition build_market_data_quality_summary ::
    "l0_params \<Rightarrow> string \<Rightarrow> input_range \<Rightarrow> int \<Rightarrow> slice_row list \<Rightarrow> market_data_quality_summary" where
  "build_market_data_quality_summary params l1_run_id rng known slices =
     \<lparr>dq_schema_version = MARKET_DATA_QUALITY_SUMMARY_SCHEMA_VERSION,
      dq_quality_summary_id = stable_id params [l1_run_id, show_int (start_ms rng), show_int (end_ms rng),
        MARKET_DATA_QUALITY_SUMMARY_SCHEMA_VERSION],
      dq_l1_run_id = l1_run_id,
      dq_coverage_ratio =
        (if slices = [] then Fin 0
         else f64_div (f64_of_nat (length (filter is_covered slices))) (f64_of_nat (length slices))),
      dq_gap_count = foldl (\<lambda>n row. wrap_i64 (n + sl_quality_gap row)) 0 slices,
      dq_stale_sources = sources_by_quality slices (\<lambda>row. sl_quality_stale row > 0),
      dq_delayed_sources = sources_by_quality slices (\<lambda>row. sl_quality_delayed row > 0),
      dq_missing_venues = missing_venues slices, dq_source_health_status = source_health_status slices,
      dq_symbol_health_status = symbol_health_status slices, dq_quality_window_start_ms = start_ms rng,
      dq_quality_window_end_ms = end_ms rng, dq_known_as_of_ms = known\<rparr>"

section \<open>Lemmas\<close>

text \<open>The scan returns at the first degraded row, so a degraded row wins over a missing snapshot wherever they stand.\<close>

lemma health_scan_eq:
  "health_scan snapshot degraded u rows =
     (if \<exists>row \<in> set rows. \<exists>h. snapshot row = Some h \<and> degraded row h then ''degraded''
      else if u \<or> (\<exists>row \<in> set rows. snapshot row = None) then ''unknown'' else ''healthy'')"
  by (induction rows arbitrary: u) (auto split: option.splits)

lemma regime_complete_iff:
  "rc_quality_status (regime_context_for_window params l1 known by_window t samples) = ''complete'' \<longleftrightarrow>
     rc_btc_return_same_window (regime_context_for_window params l1 known by_window t samples) \<noteq> None \<and>
     rc_eth_return_same_window (regime_context_for_window params l1 known by_window t samples) \<noteq> None \<and>
     rc_sector_return_same_window (regime_context_for_window params l1 known by_window t samples) \<noteq> None \<and>
     rc_correlation_to_btc (regime_context_for_window params l1 known by_window t samples) \<noteq> None \<and>
     (\<forall>s \<in> set samples. ONE_HOUR_MS \<le> rs_lookback_ms s)"
  by (auto simp: regime_context_for_window_def Let_def regime_quality_status_def regime_missing_reasons_def
      push_missing_if_none_def list_ex_iff linorder_not_less [symmetric])


section \<open>No look-ahead\<close>

definition row_return :: "slice_row list \<Rightarrow> slice_row \<Rightarrow> (int \<times> return_sample) list" where
  "row_return rows row = (case return_sample_for_row rows row of
         None \<Rightarrow> []
       | Some (return_pct, lookback_ms) \<Rightarrow>
           [(sl_window_start_ms row,
             \<lparr>rs_symbol_canonical = sl_symbol_canonical row, rs_window_end_ms = sl_window_end_ms row,
              rs_return_pct = return_pct, rs_lookback_ms = lookback_ms\<rparr>)])"

lemma row_samples_eq: "row_samples rows = concat (map (row_return rows) rows)"
  by (simp add: row_samples_def row_return_def [abs_def])

lemma find_rev_cutoff:
  assumes "\<And>x. P x \<Longrightarrow> Q x"
  shows "find P (rev (filter Q xs)) = find P (rev xs)"
proof -
  have "find P (filter Q ys) = find P ys" for ys using assms by (induction ys) auto
  then show ?thesis by (simp add: rev_filter)
qed

lemma return_sample_cutoff:
  assumes "in_i64 (sl_window_start_ms row)" "sl_window_start_ms row \<le> cutoff"
  shows "return_sample_for_row (filter (\<lambda>r. sl_window_start_ms r \<le> cutoff) rows) row = return_sample_for_row rows row"
proof -
  have t: "i64_saturating_sub (sl_window_start_ms row) ONE_HOUR_MS \<le> cutoff"
    using assms by (auto simp: i64_saturating_sub_def sat_i64_def in_i64_def ONE_HOUR_MS_def)
  have "find (\<lambda>r. sl_window_start_ms r \<le> i64_saturating_sub (sl_window_start_ms row) ONE_HOUR_MS)
        (rev (filter (\<lambda>r. sl_window_start_ms r \<le> cutoff) rows)) =
      find (\<lambda>r. sl_window_start_ms r \<le> i64_saturating_sub (sl_window_start_ms row) ONE_HOUR_MS) (rev rows)"
    using t by (intro find_rev_cutoff) simp
  moreover have "find (\<lambda>r. sl_window_start_ms r < sl_window_start_ms row)
        (rev (filter (\<lambda>r. sl_window_start_ms r \<le> cutoff) rows)) =
      find (\<lambda>r. sl_window_start_ms r < sl_window_start_ms row) (rev rows)"
    using assms(2) by (intro find_rev_cutoff) simp
  ultimately show ?thesis
    by (simp only: return_sample_for_row_def price_with_window_at_or_before_def nearest_prior_price_with_window_def)
qed

lemma row_samples_cutoff:
  assumes "\<forall>row \<in> set rows. in_i64 (sl_window_start_ms row)"
  shows "row_samples (filter (\<lambda>r. sl_window_start_ms r \<le> cutoff) rows) =
    filter (\<lambda>(t, _). t \<le> cutoff) (row_samples rows)"
proof -
  let ?Q = "\<lambda>r. sl_window_start_ms r \<le> cutoff"
  have "map (row_return (filter ?Q rows)) (filter ?Q rows) = map (row_return rows) (filter ?Q rows)"
    using assms by (intro map_cong refl) (auto simp: row_return_def return_sample_cutoff)
  moreover have "concat (map (row_return rows) (filter ?Q ys)) = filter (\<lambda>(t, _). t \<le> cutoff) (concat (map (row_return rows) ys))"
    for ys by (induction ys) (auto simp: row_return_def split: option.splits)
  ultimately show ?thesis by (simp only: row_samples_eq)
qed

lemma by_window_fill:
  "return_samples_by_window slices = bt_fill (\<lambda>t. t) fst (\<lambda>_. []) (\<lambda>x ys. ys @ [snd x]) []
     (concat (map row_samples (bt_values (group_slices_by_symbol slices))))"
  by (simp add: return_samples_by_window_def bt_fill_def bt_push_def case_prod_unfold)

lemma by_window_cutoff:
  assumes "\<forall>row \<in> set slices. in_i64 (sl_window_start_ms row)"
  shows "return_samples_by_window (filter (\<lambda>r. sl_window_start_ms r \<le> cutoff) slices) =
    filter (\<lambda>(t, _). t \<le> cutoff) (return_samples_by_window slices)"
proof -
  let ?Q = "\<lambda>r. sl_window_start_ms r \<le> cutoff"
  let ?g = "\<lambda>ys. row_samples (sort_key sl_window_start_ms ys)"
  have vals: "map row_samples (bt_values (group_slices_by_symbol xs)) =
      map ?g (bt_values (bt_group symbol_window_rank slice_symbol_key xs))" for xs
    by (simp add: group_slices_by_symbol_def bt_values_def case_prod_unfold)
  have "?g (filter ?Q ys) = filter (\<lambda>(t, _). t \<le> cutoff) (?g ys)"
    if "ys \<in> set (bt_values (bt_group symbol_window_rank slice_symbol_key slices))" for ys
  proof -
    have "\<forall>row \<in> set (sort_key sl_window_start_ms ys). in_i64 (sl_window_start_ms row)"
      using that assms by (auto simp: values_group)
    then show ?thesis unfolding filter_sort [symmetric] by (rule row_samples_cutoff)
  qed
  moreover have "?g [] = []" by (simp add: row_samples_def)
  ultimately have "concat (map ?g (bt_values (bt_group symbol_window_rank slice_symbol_key (filter ?Q slices)))) =
      filter (\<lambda>(t, _). t \<le> cutoff) (concat (map ?g (bt_values (bt_group symbol_window_rank slice_symbol_key slices))))"
    by (simp add: concat_group_filter [where g = ?g] filter_concat cong: map_cong)
  then show ?thesis
    unfolding by_window_fill vals
    using fill_filter_keys [of fst "\<lambda>_. []" "\<lambda>x ys. ys @ [snd x]" "\<lambda>t. t \<le> cutoff"]
    by (simp add: case_prod_unfold)
qed

lemma regime_window_cutoff:
  assumes "t \<le> cutoff"
  shows "regime_context_for_window params l1 known (filter (\<lambda>(t, _). t \<le> cutoff) by_window) t samples =
    regime_context_for_window params l1 known by_window t samples"
proof -
  have "filter (\<lambda>(u, _). s \<le> u \<and> u \<le> t) (filter (\<lambda>(t, _). t \<le> cutoff) by_window) =
      filter (\<lambda>(u, _). s \<le> u \<and> u \<le> t) by_window" for s
    using assms by (auto intro: filter_cong)
  then show ?thesis by (simp add: regime_context_for_window_def rolling_correlation_to_btc_def)
qed

text \<open>C15: The regime of a window depends only on slices up to that window. Without the slices
  after a cutoff, the regime contexts are exactly those of the full run up to the cutoff.\<close>

theorem regime_no_lookahead:
  assumes "\<forall>row \<in> set slices. in_i64 (sl_window_start_ms row)"
  shows "build_market_regime_contexts params l1_run_id rng known (filter (\<lambda>r. sl_window_start_ms r \<le> cutoff) slices) =
    filter (\<lambda>c. rc_window_start_ms c \<le> cutoff) (build_market_regime_contexts params l1_run_id rng known slices)"
proof -
  let ?w = "return_samples_by_window slices"
  let ?f = "\<lambda>(t, samples). regime_context_for_window params l1_run_id known ?w t samples"
  let ?f' = "\<lambda>(t, samples). regime_context_for_window params l1_run_id known (filter (\<lambda>(t, _). t \<le> cutoff) ?w) t samples"
  let ?S = "\<lambda>(t::int, _::return_sample list). t \<ge> start_ms rng" and ?C = "\<lambda>(t::int, _::return_sample list). t \<le> cutoff"
  have time: "rc_window_start_ms (?f e) = fst e" for e
    by (simp add: regime_context_for_window_def Let_def case_prod_unfold)
  have "map ?f' (filter ?S (filter ?C ?w)) = map ?f (filter ?S (filter ?C ?w))"
    by (intro map_cong refl) (auto simp: regime_window_cutoff)
  also have "\<dots> = filter (\<lambda>c. rc_window_start_ms c \<le> cutoff) (map ?f (filter ?S ?w))"
    by (simp add: filter_map comp_def time) (simp add: case_prod_unfold conj_commute)
  finally show ?thesis unfolding build_market_regime_contexts_def Let_def by_window_cutoff [OF assms] .
qed

definition sample_history :: "slice_row list" where
  "sample_history = [sample_slice ''upbit'' ''KRW-BTC'' 0 100 2, sample_slice ''upbit'' ''KRW-BTC'' 3600000 110 4,
     sample_slice ''upbit'' ''KRW-BTC'' 7200000 121 4]"

theorem regime_no_lookahead_witness:
  "length sample_history = 3 \<and>
   build_market_regime_contexts sample_params ''run'' \<lparr>start_ms = 0, end_ms = 9000000\<rparr> 9000000 (take 2 sample_history) =
   filter (\<lambda>c. rc_window_start_ms c \<le> 3600000)
     (build_market_regime_contexts sample_params ''run'' \<lparr>start_ms = 0, end_ms = 9000000\<rparr> 9000000 sample_history)"
proof -
  have "\<forall>row \<in> set sample_history. in_i64 (sl_window_start_ms row)"
    by (simp add: sample_history_def sample_slice_def in_i64_def i64_consts)
  moreover have "filter (\<lambda>r. sl_window_start_ms r \<le> 3600000) sample_history = take 2 sample_history"
    by (simp add: sample_history_def sample_slice_def)
  moreover have "length sample_history = 3" by (simp add: sample_history_def)
  ultimately show ?thesis
    using regime_no_lookahead [of sample_history sample_params "''run''" "\<lparr>start_ms = 0, end_ms = 9000000\<rparr>" 9000000 3600000]
    by simp
qed

end
