(* ===== verification/Universe.thy ===== *)
theory Universe
  imports Projection_Common Input_Keys
begin

text \<open>
  The symbol universe (\<open>src/normalize/projection/symbol_universe\<close>): every run rolls its slices up per day and
  symbol, rollups of the same day are merged, and a snapshot ranks symbols by the median of their daily notional over
  thirty days and admits those that pass the quality cutoffs. The lemmas show that merging a rollup again changes nothing,
  that an admitted symbol was observed on each of the thirty days, and that ranks are a dense descending order.
  \<open>i64\<close> counters that the source adds with \<open>+=\<close> wrap.
\<close>

definition SYMBOL_UNIVERSE_BOOTSTRAP_ROLLUP_SCHEMA_VERSION :: string where
  "SYMBOL_UNIVERSE_BOOTSTRAP_ROLLUP_SCHEMA_VERSION = ''symbol_universe_bootstrap_rollup_v1''"
definition SYMBOL_UNIVERSE_SNAPSHOT_SCHEMA_VERSION :: string where
  "SYMBOL_UNIVERSE_SNAPSHOT_SCHEMA_VERSION = ''symbol_universe_snapshot_v1''"

section \<open>Data (model/universe.rs, stats/types.rs)\<close>

record source_window =
  sw_l1_run_id :: string
  sw_source_window_start_ms :: int
  sw_source_window_end_ms :: int

record bootstrap_symbol_stats =
  bo_symbol_canonical :: string
  bo_execution_symbol_native :: "string option"
  bo_reference_symbol_native :: "string option"
  bo_traded_notional_sum :: f64
  bo_spread_bps_median_samples :: "f64 list"
  bo_gap_count :: int
  bo_window_count :: int
  bo_mapping_confidence :: string

record bootstrap_rollup =
  ro_schema_version :: string
  ro_rollup_id :: string
  ro_event_date :: string
  ro_day_start_ms :: int
  ro_generated_at_ms :: int
  ro_updated_by_l1_run_id :: string
  ro_source_windows :: "source_window list"
  ro_symbols :: "bootstrap_symbol_stats list"

record universe_member =
  um_symbol_canonical :: string
  um_execution_symbol_native :: "string option"
  um_reference_symbol_native :: "string option"
  um_liquidity_rank_at_that_time :: "int option"
  um_approved_universe_symbol :: bool
  um_bootstrap_days_available :: int
  um_median_spread_bps_30d :: "f64 option"
  um_median_traded_notional_30d :: "f64 option"
  um_gap_rate_30d :: "f64 option"
  um_mapping_confidence :: string
  um_status_reason :: string

record liquidity_rank =
  lr_symbol_canonical :: string
  lr_liquidity_rank_at_that_time :: int
  lr_observed_traded_notional :: f64

record universe_snapshot =
  us_schema_version :: string
  us_symbol_universe_snapshot_id :: string
  us_universe_as_of_ms :: int
  us_included_symbols :: "universe_member list"
  us_excluded_symbols :: "universe_member list"
  us_liquidity_rank_at_that_time :: "liquidity_rank list"
  us_selection_policy_version :: string
  us_venue_truth_policy_version :: string
  us_data_quality_cutoff_version :: string
  us_generated_at_ms :: int

record symbol_stat =
  ss_symbol_canonical :: string
  ss_execution_symbol_native :: "string option"
  ss_reference_symbol_native :: "string option"
  ss_bootstrap_days_available :: int
  ss_median_spread_bps :: "f64 option"
  ss_median_traded_notional :: "f64 option"
  ss_gap_rate :: "f64 option"
  ss_mapping_confidence :: string
  ss_observed_traded_notional :: f64

definition stats_from_slice :: "slice_row \<Rightarrow> symbol_stat" where
  "stats_from_slice row =
     \<lparr>ss_symbol_canonical = sl_symbol_canonical row, ss_execution_symbol_native = None,
      ss_reference_symbol_native = None, ss_bootstrap_days_available = 0, ss_median_spread_bps = None,
      ss_median_traded_notional = None, ss_gap_rate = None, ss_mapping_confidence = ''moderate'',
      ss_observed_traded_notional = Fin 0\<rparr>"

definition stats_from_bootstrap :: "bootstrap_symbol_stats \<Rightarrow> symbol_stat" where
  "stats_from_bootstrap b =
     \<lparr>ss_symbol_canonical = bo_symbol_canonical b, ss_execution_symbol_native = bo_execution_symbol_native b,
      ss_reference_symbol_native = bo_reference_symbol_native b, ss_bootstrap_days_available = 0,
      ss_median_spread_bps = None, ss_median_traded_notional = None, ss_gap_rate = None,
      ss_mapping_confidence = bo_mapping_confidence b, ss_observed_traded_notional = Fin 0\<rparr>"

section \<open>Native symbols (stats/native.rs)\<close>

definition get_or_insert :: "'a \<Rightarrow> 'a option \<Rightarrow> 'a option" where
  "get_or_insert v x = (case x of None \<Rightarrow> Some v | Some _ \<Rightarrow> x)"

definition assign_native_symbols ::
    "slice_row \<Rightarrow> string option \<times> string option \<Rightarrow> string option \<times> string option" where
  "assign_native_symbols row = (\<lambda>(execution, reference).
     let execution = (if sl_venue row = ''upbit'' \<and> execution = None then Some (sl_symbol_native row) else execution);
         reference = (if sl_venue row = ''binance'' \<and> reference = None then Some (sl_symbol_native row) else reference)
     in (get_or_insert (sl_symbol_native row) execution, get_or_insert (sl_symbol_native row) reference))"

section \<open>Rollups of a run (stats/run_accumulator.rs, bootstrap.rs)\<close>

record run_symbol_accumulator =
  ra_symbol_canonical :: string
  ra_execution_symbol_native :: "string option"
  ra_reference_symbol_native :: "string option"
  ra_traded_notional_sum :: f64
  ra_spread_samples :: "f64 list"
  ra_gap_count :: int
  ra_window_count :: int
  ra_mapping_confidence :: string

definition run_accumulator_new :: "slice_row \<Rightarrow> run_symbol_accumulator" where
  "run_accumulator_new row =
     \<lparr>ra_symbol_canonical = sl_symbol_canonical row, ra_execution_symbol_native = None,
      ra_reference_symbol_native = None, ra_traded_notional_sum = Fin 0, ra_spread_samples = [], ra_gap_count = 0,
      ra_window_count = 0, ra_mapping_confidence = ''moderate''\<rparr>"

definition finite_spread :: "slice_row \<Rightarrow> f64 list" where
  "finite_spread row = (case opt_filter is_finite (sl_spread_bps row) of None \<Rightarrow> [] | Some v \<Rightarrow> [v])"

definition observe_slice :: "slice_row \<Rightarrow> run_symbol_accumulator \<Rightarrow> run_symbol_accumulator" where
  "observe_slice row a =
     (case assign_native_symbols row (ra_execution_symbol_native a, ra_reference_symbol_native a) of
        (execution, reference) \<Rightarrow>
          let traded_notional = f64_mul (unwrap_or (price row) (Fin 0)) (sl_trade_volume row)
          in a\<lparr>ra_execution_symbol_native := execution, ra_reference_symbol_native := reference,
               ra_traded_notional_sum :=
                 (if is_finite traded_notional \<and> f64_lt (Fin 0) traded_notional
                  then f64_add (ra_traded_notional_sum a) traded_notional else ra_traded_notional_sum a),
               ra_spread_samples := ra_spread_samples a @ finite_spread row,
               ra_gap_count := wrap_i64 (ra_gap_count a + sl_quality_gap row),
               ra_window_count := wrap_i64 (ra_window_count a + 1)\<rparr>)"

definition into_symbol_stats :: "run_symbol_accumulator \<Rightarrow> bootstrap_symbol_stats" where
  "into_symbol_stats a =
     \<lparr>bo_symbol_canonical = ra_symbol_canonical a, bo_execution_symbol_native = ra_execution_symbol_native a,
      bo_reference_symbol_native = ra_reference_symbol_native a, bo_traded_notional_sum = ra_traded_notional_sum a,
      bo_spread_bps_median_samples = (case median (ra_spread_samples a) of None \<Rightarrow> [] | Some v \<Rightarrow> [v]),
      bo_gap_count = ra_gap_count a, bo_window_count = ra_window_count a,
      bo_mapping_confidence = ra_mapping_confidence a\<rparr>"

definition by_day_symbol :: "slice_row list \<Rightarrow> (int \<times> string, run_symbol_accumulator) btree" where
  "by_day_symbol slices =
     foldl (\<lambda>m row. bt_update (cmp_by (\<lambda>k. k)) (day_start_ms (sl_window_start_ms row), sl_symbol_canonical row)
                     (run_accumulator_new row) (observe_slice row) m) [] slices"

definition rollup_of_day ::
    "l0_params \<Rightarrow> string \<Rightarrow> input_range \<Rightarrow> int \<Rightarrow> int \<Rightarrow> bootstrap_symbol_stats list \<Rightarrow> bootstrap_rollup" where
  "rollup_of_day params l1_run_id rng generated_at_ms day symbols =
     \<lparr>ro_schema_version = SYMBOL_UNIVERSE_BOOTSTRAP_ROLLUP_SCHEMA_VERSION,
      ro_rollup_id = stable_id params [l1_run_id, show_int (start_ms rng), show_int (end_ms rng), show_int day,
        SYMBOL_UNIVERSE_BOOTSTRAP_ROLLUP_SCHEMA_VERSION],
      ro_event_date = event_date params day, ro_day_start_ms = day, ro_generated_at_ms = generated_at_ms,
      ro_updated_by_l1_run_id = l1_run_id,
      ro_source_windows = [\<lparr>sw_l1_run_id = l1_run_id, sw_source_window_start_ms = start_ms rng,
        sw_source_window_end_ms = end_ms rng\<rparr>],
      ro_symbols = sort_key bo_symbol_canonical symbols\<rparr>"

definition build_symbol_universe_bootstrap_rollups ::
    "l0_params \<Rightarrow> string \<Rightarrow> input_range \<Rightarrow> int \<Rightarrow> slice_row list \<Rightarrow> bootstrap_rollup list" where
  "build_symbol_universe_bootstrap_rollups params l1_run_id rng generated_at_ms slices =
     (let by_day = foldl (\<lambda>m ((day, _), a). bt_push (cmp_by (\<lambda>d::int. d)) day (into_symbol_stats a) m) []
                     (by_day_symbol slices)
      in map (\<lambda>(day, symbols). rollup_of_day params l1_run_id rng generated_at_ms day symbols) by_day)"

section \<open>Merging rollups (merge.rs, stats/merge.rs)\<close>

definition merge_symbol_rollup :: "bootstrap_symbol_stats \<Rightarrow> bootstrap_symbol_stats \<Rightarrow> bootstrap_symbol_stats" where
  "merge_symbol_rollup current e =
     e\<lparr>bo_execution_symbol_native :=
         (if bo_execution_symbol_native e = None then bo_execution_symbol_native current else bo_execution_symbol_native e),
       bo_reference_symbol_native :=
         (if bo_reference_symbol_native e = None then bo_reference_symbol_native current else bo_reference_symbol_native e),
       bo_traded_notional_sum := f64_add (bo_traded_notional_sum e) (bo_traded_notional_sum current),
       bo_spread_bps_median_samples := bo_spread_bps_median_samples e @ bo_spread_bps_median_samples current,
       bo_gap_count := wrap_i64 (bo_gap_count e + bo_gap_count current),
       bo_window_count := wrap_i64 (bo_window_count e + bo_window_count current),
       bo_mapping_confidence :=
         (if bo_mapping_confidence e = ''unknown'' then bo_mapping_confidence current else bo_mapping_confidence e)\<rparr>"

definition same_window :: "source_window \<Rightarrow> source_window \<Rightarrow> bool" where
  "same_window a b \<longleftrightarrow> sw_source_window_start_ms a = sw_source_window_start_ms b \<and>
     sw_source_window_end_ms a = sw_source_window_end_ms b"

definition source_window_order :: "source_window \<Rightarrow> string \<times> int \<times> int" where
  "source_window_order w = (sw_l1_run_id w, sw_source_window_start_ms w, sw_source_window_end_ms w)"

text \<open>\<open>dedup_by\<close> drops an element that is the same as the one kept before it.\<close>

fun dedup_windows :: "source_window list \<Rightarrow> source_window list" where
  "dedup_windows (a # b # ws) = (if same_window b a then dedup_windows (a # ws) else a # dedup_windows (b # ws))"
| "dedup_windows ws = ws"

definition symbol_map :: "bootstrap_symbol_stats list \<Rightarrow> (string, bootstrap_symbol_stats) btree" where
  "symbol_map symbols = foldl (\<lambda>m s. bt_insert (cmp_by (\<lambda>s. s)) (bo_symbol_canonical s) s m) [] symbols"

definition merge_entry ::
    "bootstrap_symbol_stats \<Rightarrow> (string, bootstrap_symbol_stats) btree \<Rightarrow> (string, bootstrap_symbol_stats) btree" where
  "merge_entry s m =
     (case bt_get (cmp_by (\<lambda>s. s)) (bo_symbol_canonical s) m of
        None \<Rightarrow> bt_insert (cmp_by (\<lambda>s. s)) (bo_symbol_canonical s) s m
      | Some e \<Rightarrow> bt_insert (cmp_by (\<lambda>s. s)) (bo_symbol_canonical s) (merge_symbol_rollup s e) m)"

definition merge_symbols :: "bootstrap_symbol_stats list \<Rightarrow> bootstrap_symbol_stats list \<Rightarrow> bootstrap_symbol_stats list" where
  "merge_symbols existing current =
     sort_key bo_symbol_canonical (bt_values (foldl (\<lambda>m s. merge_entry s m) (symbol_map existing) current))"

definition window_seen :: "bootstrap_rollup \<Rightarrow> bootstrap_rollup \<Rightarrow> bool" where
  "window_seen existing current \<longleftrightarrow>
     list_ex (\<lambda>w. list_ex (\<lambda>seen. same_window seen w) (ro_source_windows existing)) (ro_source_windows current)"

definition merge_symbol_universe_bootstrap_rollup ::
    "l0_params \<Rightarrow> bootstrap_rollup option \<Rightarrow> bootstrap_rollup \<Rightarrow> bootstrap_rollup" where
  "merge_symbol_universe_bootstrap_rollup params existing0 current =
     (case existing0 of None \<Rightarrow> current
      | Some existing \<Rightarrow>
          if ro_day_start_ms existing \<noteq> ro_day_start_ms current \<or>
             ro_schema_version existing \<noteq> SYMBOL_UNIVERSE_BOOTSTRAP_ROLLUP_SCHEMA_VERSION then current
          else if window_seen existing current then existing
          else existing\<lparr>
            ro_symbols := merge_symbols (ro_symbols existing) (ro_symbols current),
            ro_source_windows :=
              dedup_windows (sort_key source_window_order (ro_source_windows existing @ ro_source_windows current)),
            ro_generated_at_ms := ro_generated_at_ms current,
            ro_updated_by_l1_run_id := ro_updated_by_l1_run_id current,
            ro_rollup_id := stable_id params [ro_event_date existing, show_int (ro_day_start_ms existing),
              show_int (ro_generated_at_ms current), SYMBOL_UNIVERSE_BOOTSTRAP_ROLLUP_SCHEMA_VERSION]\<rparr>)"

section \<open>Statistics of the current slices (stats/current.rs)\<close>

record daily_symbol_stats =
  ds_traded_notional :: f64

record current_maps =
  cm_daily :: "(string, (int, daily_symbol_stats) btree) btree"
  cm_spreads :: "(string, f64 list) btree"
  cm_gap_counts :: "(string, int \<times> int) btree"
  cm_stats :: "(string, symbol_stat) btree"

abbreviation day_cmp :: "int \<Rightarrow> int \<Rightarrow> ordering" where
  "day_cmp \<equiv> cmp_by (\<lambda>d. d)"

abbreviation sym_cmp :: "string \<Rightarrow> string \<Rightarrow> ordering" where
  "sym_cmp \<equiv> cmp_by (\<lambda>s. s)"

definition row_notional :: "slice_row \<Rightarrow> f64" where
  "row_notional row = f64_mul (sl_trade_volume row) (unwrap_or (price row) (Fin 0))"

definition observe_stats :: "slice_row \<Rightarrow> symbol_stat \<Rightarrow> symbol_stat" where
  "observe_stats row s =
     (case assign_native_symbols row (ss_execution_symbol_native s, ss_reference_symbol_native s) of
        (execution, reference) \<Rightarrow>
          s\<lparr>ss_execution_symbol_native := execution, ss_reference_symbol_native := reference,
            ss_observed_traded_notional := f64_add (ss_observed_traded_notional s) (row_notional row)\<rparr>)"

definition record_daily_symbol_stats ::
    "slice_row \<Rightarrow> (string, (int, daily_symbol_stats) btree) btree \<Rightarrow> (string, (int, daily_symbol_stats) btree) btree" where
  "record_daily_symbol_stats row daily =
     bt_update sym_cmp (sl_symbol_canonical row) []
       (bt_update day_cmp (sl_window_start_ms row div ONE_DAY_MS) \<lparr>ds_traded_notional = Fin 0\<rparr>
          (\<lambda>d. d\<lparr>ds_traded_notional := f64_add (ds_traded_notional d) (row_notional row)\<rparr>)) daily"

definition record_symbol_spread :: "slice_row \<Rightarrow> (string, f64 list) btree \<Rightarrow> (string, f64 list) btree" where
  "record_symbol_spread row spreads =
     (case opt_filter is_finite (sl_spread_bps row) of None \<Rightarrow> spreads
      | Some v \<Rightarrow> bt_push sym_cmp (sl_symbol_canonical row) v spreads)"

definition record_symbol_gap :: "slice_row \<Rightarrow> (string, int \<times> int) btree \<Rightarrow> (string, int \<times> int) btree" where
  "record_symbol_gap row gaps =
     bt_update sym_cmp (sl_symbol_canonical row) (0, 0)
       (\<lambda>(g, w). (wrap_i64 (g + sl_quality_gap row), wrap_i64 (w + 1))) gaps"

definition observe_current :: "slice_row \<Rightarrow> current_maps \<Rightarrow> current_maps" where
  "observe_current row m =
     \<lparr>cm_daily = record_daily_symbol_stats row (cm_daily m), cm_spreads = record_symbol_spread row (cm_spreads m),
      cm_gap_counts = record_symbol_gap row (cm_gap_counts m),
      cm_stats = bt_update sym_cmp (sl_symbol_canonical row) (stats_from_slice row) (observe_stats row) (cm_stats m)\<rparr>"

definition current_gap_rate :: "int \<times> int \<Rightarrow> f64" where
  "current_gap_rate = (\<lambda>(gap_count, window_count).
     if window_count = 0 then Fin 1 else f64_div (f64_of_int gap_count) (f64_of_int window_count))"

definition symbol_stats :: "slice_row list \<Rightarrow> (string, symbol_stat) btree" where
  "symbol_stats slices =
     (let m = foldl (\<lambda>m row. observe_current row m)
                \<lparr>cm_daily = [], cm_spreads = [], cm_gap_counts = [], cm_stats = []\<rparr> slices
      in map (\<lambda>(symbol, stat).
           let daily_notional = (case bt_get sym_cmp symbol (cm_daily m) of None \<Rightarrow> []
                 | Some by_day \<Rightarrow> map ds_traded_notional (bt_values by_day))
           in (symbol, stat\<lparr>ss_bootstrap_days_available := int (length daily_notional),
                 ss_median_traded_notional := median daily_notional,
                 ss_median_spread_bps := Option.bind (bt_get sym_cmp symbol (cm_spreads m)) median,
                 ss_gap_rate := map_option current_gap_rate (bt_get sym_cmp symbol (cm_gap_counts m))\<rparr>))
           (cm_stats m))"

section \<open>Statistics of thirty days (stats/bootstrap.rs)\<close>

record bootstrap_maps =
  bp_stats :: "(string, symbol_stat) btree"
  bp_daily_notional :: "(string, (int, f64) btree) btree"
  bp_spread_samples :: "(string, f64 list) btree"
  bp_gap_counts :: "(string, int \<times> int) btree"

definition fill_natives :: "bootstrap_symbol_stats \<Rightarrow> symbol_stat \<Rightarrow> symbol_stat" where
  "fill_natives b s =
     s\<lparr>ss_execution_symbol_native :=
         (if ss_execution_symbol_native s = None then bo_execution_symbol_native b else ss_execution_symbol_native s),
       ss_reference_symbol_native :=
         (if ss_reference_symbol_native s = None then bo_reference_symbol_native b else ss_reference_symbol_native s)\<rparr>"

definition ensure_bootstrap_symbol_stats ::
    "bootstrap_symbol_stats \<Rightarrow> (string, symbol_stat) btree \<Rightarrow> (string, symbol_stat) btree" where
  "ensure_bootstrap_symbol_stats b stats =
     bt_update sym_cmp (bo_symbol_canonical b) (stats_from_bootstrap b) (fill_natives b) stats"

text \<open>\<open>and_modify\<close> adds to the day's value, \<open>or_insert\<close> starts it with the value itself.\<close>

definition add_daily :: "int \<Rightarrow> f64 \<Rightarrow> (int, f64) btree \<Rightarrow> (int, f64) btree" where
  "add_daily day v by_day =
     (case bt_get day_cmp day by_day of
        None \<Rightarrow> bt_insert day_cmp day v by_day
      | Some x \<Rightarrow> bt_insert day_cmp day (f64_add x v) by_day)"

definition record_bootstrap_symbol :: "int \<Rightarrow> bootstrap_symbol_stats \<Rightarrow> bootstrap_maps \<Rightarrow> bootstrap_maps" where
  "record_bootstrap_symbol day b m =
     \<lparr>bp_stats = ensure_bootstrap_symbol_stats b (bp_stats m),
      bp_daily_notional = bt_update sym_cmp (bo_symbol_canonical b) [] (add_daily day (bo_traded_notional_sum b))
        (bp_daily_notional m),
      bp_spread_samples = bt_update sym_cmp (bo_symbol_canonical b) []
        (\<lambda>xs. xs @ filter is_finite (bo_spread_bps_median_samples b)) (bp_spread_samples m),
      bp_gap_counts = bt_update sym_cmp (bo_symbol_canonical b) (0, 0)
        (\<lambda>(g, w). (wrap_i64 (g + bo_gap_count b), wrap_i64 (w + bo_window_count b))) (bp_gap_counts m)\<rparr>"

definition record_bootstrap_rollup :: "bootstrap_rollup \<Rightarrow> bootstrap_maps \<Rightarrow> bootstrap_maps" where
  "record_bootstrap_rollup rollup m =
     foldl (\<lambda>m b. record_bootstrap_symbol (ro_day_start_ms rollup) b m) m (ro_symbols rollup)"

definition bootstrap_gap_rate :: "int \<times> int \<Rightarrow> f64" where
  "bootstrap_gap_rate = (\<lambda>(gap_count, window_count).
     if window_count \<le> 0 then Fin 1 else f64_div (f64_of_int gap_count) (f64_of_int window_count))"

definition finalize_bootstrap_stats :: "bootstrap_maps \<Rightarrow> (string, symbol_stat) btree" where
  "finalize_bootstrap_stats m =
     map (\<lambda>(symbol, stat).
       let day_values = (case bt_get sym_cmp symbol (bp_daily_notional m) of None \<Rightarrow> []
             | Some by_day \<Rightarrow> bt_values by_day)
       in (symbol, stat\<lparr>ss_bootstrap_days_available := int (length day_values),
             ss_median_traded_notional := median day_values,
             ss_median_spread_bps := Option.bind (bt_get sym_cmp symbol (bp_spread_samples m)) median,
             ss_gap_rate := map_option bootstrap_gap_rate (bt_get sym_cmp symbol (bp_gap_counts m))\<rparr>))
       (bp_stats m)"

definition bootstrap_start_day_ms :: "input_range \<Rightarrow> int" where
  "bootstrap_start_day_ms rng =
     day_start_ms (i64_saturating_sub (i64_saturating_sub (end_ms rng) 1) ((int BOOTSTRAP_ROLLUP_DAYS - 1) * ONE_DAY_MS))"

definition bootstrap_end_day_ms :: "input_range \<Rightarrow> int" where
  "bootstrap_end_day_ms rng = day_start_ms (i64_saturating_sub (end_ms rng) 1)"

definition rollup_in_use :: "input_range \<Rightarrow> bootstrap_rollup \<Rightarrow> bool" where
  "rollup_in_use rng rollup \<longleftrightarrow>
     ro_schema_version rollup = SYMBOL_UNIVERSE_BOOTSTRAP_ROLLUP_SCHEMA_VERSION \<and>
     ro_day_start_ms rollup \<ge> bootstrap_start_day_ms rng \<and> ro_day_start_ms rollup \<le> bootstrap_end_day_ms rng"

definition symbol_stats_from_bootstrap ::
    "input_range \<Rightarrow> slice_row list \<Rightarrow> bootstrap_rollup list \<Rightarrow> (string, symbol_stat) btree" where
  "symbol_stats_from_bootstrap rng current_slices rollups =
     finalize_bootstrap_stats
       (foldl (\<lambda>m r. record_bootstrap_rollup r m)
          \<lparr>bp_stats = symbol_stats current_slices, bp_daily_notional = [], bp_spread_samples = [], bp_gap_counts = []\<rparr>
          (filter (rollup_in_use rng) rollups))"

section \<open>Policy (policy.rs)\<close>

definition is_reference_warmup_symbol :: "symbol_stat \<Rightarrow> bool" where
  "is_reference_warmup_symbol stat =
     (case ss_reference_symbol_native stat of None \<Rightarrow> False
      | Some symbol \<Rightarrow> ends_with ''USDT'' symbol \<and> \<not> starts_with ''KRW-'' symbol)"

definition is_liquidity_rank_eligible :: "symbol_stat \<Rightarrow> f64 \<Rightarrow> bool" where
  "is_liquidity_rank_eligible stat notional =
     (if \<not> is_finite notional \<or> f64_le notional (Fin 0) then False
      else if ss_bootstrap_days_available stat \<ge> MIN_BOOTSTRAP_DAYS then True
      else ss_bootstrap_days_available stat \<ge> MIN_REFERENCE_WARMUP_BOOTSTRAP_DAYS \<and>
           ss_bootstrap_days_available stat < MIN_BOOTSTRAP_DAYS \<and> is_reference_warmup_symbol stat)"

definition eligible_rows :: "(string, symbol_stat) btree \<Rightarrow> (string \<times> f64) list" where
  "eligible_rows stats =
     List.map_filter (\<lambda>stat. Option.bind (ss_median_traded_notional stat) (\<lambda>notional.
         if \<not> is_liquidity_rank_eligible stat notional then None else Some (ss_symbol_canonical stat, notional)))
       (bt_values stats)"

text \<open>Eligible notionals are finite, so the comparison is descending by value, then ascending by symbol.\<close>

definition liquidity_order :: "string \<times> f64 \<Rightarrow> rat \<times> string" where
  "liquidity_order = (\<lambda>(symbol, notional). (- f64_rat notional, symbol))"

definition liquidity_ranks :: "(string, symbol_stat) btree \<Rightarrow> liquidity_rank list" where
  "liquidity_ranks stats =
     map (\<lambda>(index, (symbol, notional)).
       \<lparr>lr_symbol_canonical = symbol, lr_liquidity_rank_at_that_time = int (index + 1),
        lr_observed_traded_notional = notional\<rparr>) (enumerate 0 (sort_key liquidity_order (eligible_rows stats)))"

definition passes_universe_quality :: "symbol_stat \<Rightarrow> bool" where
  "passes_universe_quality stat \<longleftrightarrow>
     (case ss_median_traded_notional stat of None \<Rightarrow> False | Some notional \<Rightarrow> f64_lt (Fin 0) notional) \<and>
     (case ss_median_spread_bps stat of None \<Rightarrow> False | Some spread \<Rightarrow> f64_le spread MAX_MEDIAN_SPREAD_BPS) \<and>
     (case ss_gap_rate stat of None \<Rightarrow> False | Some gap_rate \<Rightarrow> f64_le gap_rate MAX_GAP_RATE)"

definition is_fully_bootstrapped_universe_symbol :: "symbol_stat \<Rightarrow> int option \<Rightarrow> bool" where
  "is_fully_bootstrapped_universe_symbol stat liquidity_rank \<longleftrightarrow>
     ss_bootstrap_days_available stat \<ge> MIN_BOOTSTRAP_DAYS \<and>
     (case liquidity_rank of None \<Rightarrow> False | Some rank \<Rightarrow> rank \<le> MAX_APPROVED_RANK) \<and>
     passes_universe_quality stat"

definition is_approved_universe_symbol :: "symbol_stat \<Rightarrow> int option \<Rightarrow> bool" where
  "is_approved_universe_symbol stat liquidity_rank = is_fully_bootstrapped_universe_symbol stat liquidity_rank"

definition universe_status_reason :: "symbol_stat \<Rightarrow> int option \<Rightarrow> bool \<Rightarrow> string" where
  "universe_status_reason stat liquidity_rank approved =
     (if approved then ''approved''
      else if ss_bootstrap_days_available stat < MIN_BOOTSTRAP_DAYS then ''insufficient_30d_bootstrap''
      else if (case liquidity_rank of None \<Rightarrow> True | Some rank \<Rightarrow> rank > MAX_APPROVED_RANK)
      then ''outside_top_50_liquidity_rank''
      else if \<not> (case ss_median_traded_notional stat of None \<Rightarrow> False | Some notional \<Rightarrow> f64_lt (Fin 0) notional)
      then ''missing_30d_traded_notional''
      else case ss_median_spread_bps stat of None \<Rightarrow> ''missing_30d_spread''
        | Some median_spread_bps \<Rightarrow>
            if f64_lt MAX_MEDIAN_SPREAD_BPS median_spread_bps then ''spread_too_wide_30d''
            else if \<not> (case ss_gap_rate stat of None \<Rightarrow> False | Some gap_rate \<Rightarrow> f64_le gap_rate MAX_GAP_RATE)
            then ''gap_rate_too_high_30d''
            else ''not_admitted'')"

definition symbol_member_order :: "universe_member \<Rightarrow> int \<times> string" where
  "symbol_member_order m = (unwrap_or (um_liquidity_rank_at_that_time m) i64_max, um_symbol_canonical m)"

section \<open>Snapshots (snapshot.rs)\<close>

definition rank_by_symbol :: "liquidity_rank list \<Rightarrow> (string, int) btree" where
  "rank_by_symbol ranks =
     foldl (\<lambda>m r. bt_insert sym_cmp (lr_symbol_canonical r) (lr_liquidity_rank_at_that_time r) m) [] ranks"

definition universe_member_of :: "(string, int) btree \<Rightarrow> symbol_stat \<Rightarrow> universe_member" where
  "universe_member_of ranks stat =
     (let liquidity_rank = bt_get sym_cmp (ss_symbol_canonical stat) ranks;
          approved = is_approved_universe_symbol stat liquidity_rank
      in \<lparr>um_symbol_canonical = ss_symbol_canonical stat, um_execution_symbol_native = ss_execution_symbol_native stat,
          um_reference_symbol_native = ss_reference_symbol_native stat,
          um_liquidity_rank_at_that_time = liquidity_rank, um_approved_universe_symbol = approved,
          um_bootstrap_days_available = ss_bootstrap_days_available stat,
          um_median_spread_bps_30d = ss_median_spread_bps stat,
          um_median_traded_notional_30d = ss_median_traded_notional stat, um_gap_rate_30d = ss_gap_rate stat,
          um_mapping_confidence = ss_mapping_confidence stat,
          um_status_reason = universe_status_reason stat liquidity_rank approved\<rparr>)"

definition build_symbol_universe_snapshot_from_bootstrap ::
    "l0_params \<Rightarrow> string \<Rightarrow> input_range \<Rightarrow> int \<Rightarrow> slice_row list \<Rightarrow> bootstrap_rollup list \<Rightarrow> universe_snapshot" where
  "build_symbol_universe_snapshot_from_bootstrap params l1_run_id rng generated_at_ms current_slices rollups =
     (let stats = symbol_stats_from_bootstrap rng current_slices rollups;
          ranks = liquidity_ranks stats;
          members = map (universe_member_of (rank_by_symbol ranks)) (bt_values stats)
      in \<lparr>us_schema_version = SYMBOL_UNIVERSE_SNAPSHOT_SCHEMA_VERSION,
          us_symbol_universe_snapshot_id = stable_id params [l1_run_id, show_int (start_ms rng), show_int (end_ms rng),
            SYMBOL_UNIVERSE_SNAPSHOT_SCHEMA_VERSION],
          us_universe_as_of_ms = end_ms rng,
          us_included_symbols = sort_key symbol_member_order (filter um_approved_universe_symbol members),
          us_excluded_symbols = sort_key symbol_member_order (filter (\<lambda>m. \<not> um_approved_universe_symbol m) members),
          us_liquidity_rank_at_that_time = ranks, us_selection_policy_version = SELECTION_POLICY_VERSION,
          us_venue_truth_policy_version = VENUE_TRUTH_POLICY_VERSION,
          us_data_quality_cutoff_version = DATA_QUALITY_CUTOFF_VERSION, us_generated_at_ms = generated_at_ms\<rparr>)"

definition build_symbol_universe_snapshot ::
    "l0_params \<Rightarrow> string \<Rightarrow> input_range \<Rightarrow> int \<Rightarrow> slice_row list \<Rightarrow> universe_snapshot" where
  "build_symbol_universe_snapshot params l1_run_id rng generated_at_ms slices =
     build_symbol_universe_snapshot_from_bootstrap params l1_run_id rng generated_at_ms slices
       (build_symbol_universe_bootstrap_rollups params l1_run_id rng generated_at_ms slices)"

section \<open>Merging again changes nothing\<close>

definition window_span :: "source_window \<Rightarrow> int \<times> int" where
  "window_span w = (sw_source_window_start_ms w, sw_source_window_end_ms w)"

lemma same_window_iff: "same_window a b \<longleftrightarrow> window_span a = window_span b"
  by (auto simp: same_window_def window_span_def)

lemma dedup_windows_spans: "window_span ` set (dedup_windows ws) = window_span ` set ws"
  by (induction ws rule: dedup_windows.induct) (auto simp: same_window_iff)

lemma window_seen_iff:
  "window_seen existing current \<longleftrightarrow>
     window_span ` set (ro_source_windows current) \<inter> window_span ` set (ro_source_windows existing) \<noteq> {}"
  by (auto simp: window_seen_def list_ex_iff same_window_iff)

text \<open>Publishing the rollup of a window twice counts it once. Whatever was stored for the day, merging a
  rollup that names its source windows and merging it again gives the same rollup, so a run that is repeated after a crash
  between the upload of the rollup and the record of its success does not double notional, gaps or windows.\<close>

theorem rollup_merge_idempotent:
  assumes "ro_source_windows current \<noteq> []"
  shows "merge_symbol_universe_bootstrap_rollup params
      (Some (merge_symbol_universe_bootstrap_rollup params existing current)) current =
    merge_symbol_universe_bootstrap_rollup params existing current"
proof -
  have "window_seen current current"
    using assms by (simp add: window_seen_iff)
  moreover have "window_seen (e\<lparr>ro_symbols := s,
      ro_source_windows := dedup_windows (sort_key source_window_order (ro_source_windows e @ ro_source_windows current)),
      ro_generated_at_ms := g, ro_updated_by_l1_run_id := u, ro_rollup_id := i\<rparr>) current" for e s g u i
    using assms by (cases "ro_source_windows current") (simp_all add: window_seen_iff dedup_windows_spans)
  ultimately show ?thesis
    by (simp add: merge_symbol_universe_bootstrap_rollup_def split: option.splits)
qed

section \<open>Native symbols\<close>

text \<open>The last two statements of \<open>assign_native_symbols\<close> fill both names from the first row, whatever its venue.\<close>

lemma assign_first:
  "assign_native_symbols row (None, None) = (Some (sl_symbol_native row), Some (sl_symbol_native row))"
  by (simp add: assign_native_symbols_def get_or_insert_def Let_def)

lemma assign_later [simp]: "assign_native_symbols row (Some e, Some r) = (Some e, Some r)"
  by (simp add: assign_native_symbols_def get_or_insert_def)

lemma observe_slice_natives:
  "ra_execution_symbol_native a = Some e \<Longrightarrow> ra_reference_symbol_native a = Some r \<Longrightarrow>
     ra_execution_symbol_native (foldl (\<lambda>a row. observe_slice row a) a rows) = Some e \<and>
     ra_reference_symbol_native (foldl (\<lambda>a row. observe_slice row a) a rows) = Some r"
  by (induction rows arbitrary: a) (simp_all add: observe_slice_def Let_def)

lemma by_day_symbol_fill:
  "by_day_symbol slices = bt_fill (\<lambda>k. k)
     (\<lambda>row. (day_start_ms (sl_window_start_ms row), sl_symbol_canonical row)) run_accumulator_new observe_slice [] slices"
  by (simp add: by_day_symbol_def bt_fill_def)

lemma by_day_symbol_entry:
  assumes "((day, symbol), a) \<in> set (by_day_symbol slices)"
  obtains row rows where "filter (\<lambda>r. day_start_ms (sl_window_start_ms r) = day \<and> sl_symbol_canonical r = symbol) slices = row # rows"
    and "a = foldl (\<lambda>a row. observe_slice row a) (observe_slice row (run_accumulator_new row)) rows"
proof -
  let ?ys = "filter (\<lambda>r. day_start_ms (sl_window_start_ms r) = day \<and> sl_symbol_canonical r = symbol) slices"
  have wf: "bt_wf (\<lambda>k. k) (\<lambda>_. True) (by_day_symbol slices)" by (simp add: by_day_symbol_fill wf_fill)
  have "entry_fold run_accumulator_new observe_slice None ?ys = Some a"
    using ranked.get_mem [OF wf assms] by (simp add: by_day_symbol_fill get_fill)
  then show ?thesis using that by (cases ?ys) (auto simp: entry_fold_Some)
qed

lemma set_push_fold: "set (foldl (\<lambda>v e. v @ [f e]) ys es) = set ys \<union> f ` set es"
  by (induction es arbitrary: ys) auto

lemma rollups_symbols:
  assumes "r \<in> set (build_symbol_universe_bootstrap_rollups params l1 rng g slices)" "b \<in> set (ro_symbols r)"
  obtains symbol a where "((ro_day_start_ms r, symbol), a) \<in> set (by_day_symbol slices)" "b = into_symbol_stats a"
proof -
  let ?f = "\<lambda>m ((day, u::string), a). bt_push (cmp_by (\<lambda>d::int. d)) day (into_symbol_stats a) m"
  have fill: "foldl ?f [] es = bt_fill (\<lambda>d. d) (\<lambda>e. fst (fst e)) (\<lambda>_. []) (\<lambda>e ys. ys @ [into_symbol_stats (snd e)]) [] es"
    for es by (simp add: bt_fill_def bt_push_def case_prod_unfold)
  have push: "\<exists>e \<in> set es. b = into_symbol_stats (snd e)"
    if "b \<in> set (the (entry_fold (\<lambda>_. []) (\<lambda>e ys. ys @ [into_symbol_stats (snd e)]) None es))" "es \<noteq> []" for es
    using that by (cases es) (auto simp: entry_fold_Some set_push_fold)
  from assms(1) obtain day symbols where e: "(day, symbols) \<in> set (foldl ?f [] (by_day_symbol slices))"
    and r: "r = rollup_of_day params l1 rng g day symbols"
    by (auto simp: build_symbol_universe_bootstrap_rollups_def Let_def)
  from e have "day \<in> (\<lambda>e. fst (fst e)) ` set (by_day_symbol slices)"
    and syms: "symbols = the (entry_fold (\<lambda>_. []) (\<lambda>e ys. ys @ [into_symbol_stats (snd e)]) None
        (filter (\<lambda>e. fst (fst e) = day) (by_day_symbol slices)))"
    unfolding fill fill_entries by auto
  then have "filter (\<lambda>e. fst (fst e) = day) (by_day_symbol slices) \<noteq> []" by (auto simp: filter_empty_conv)
  moreover have "b \<in> set symbols" using assms(2) by (simp add: r rollup_of_day_def)
  ultimately obtain e where "e \<in> set (filter (\<lambda>e. fst (fst e) = day) (by_day_symbol slices))" "b = into_symbol_stats (snd e)"
    using push unfolding syms by blast
  then show ?thesis using that [of "snd (fst e)" "snd e"] by (auto simp: r rollup_of_day_def)
qed

text \<open>Although a rollup has separate fields for the execution and the reference symbol, they are always the
  same: both are the native symbol of the first slice of that day and symbol, whichever venue it came from.\<close>

theorem rollup_natives_coincide:
  assumes "r \<in> set (build_symbol_universe_bootstrap_rollups params l1_run_id rng g slices)"
    and "b \<in> set (ro_symbols r)"
  shows "\<exists>row \<in> set slices. sl_symbol_canonical row = bo_symbol_canonical b \<and>
    bo_execution_symbol_native b = Some (sl_symbol_native row) \<and>
    bo_reference_symbol_native b = Some (sl_symbol_native row)"
proof -
  obtain symbol a where a: "((ro_day_start_ms r, symbol), a) \<in> set (by_day_symbol slices)" "b = into_symbol_stats a"
    using rollups_symbols [OF assms] .
  obtain row rows where ys: "filter (\<lambda>x. day_start_ms (sl_window_start_ms x) = ro_day_start_ms r \<and>
        sl_symbol_canonical x = symbol) slices = row # rows"
    and acc: "a = foldl (\<lambda>a row. observe_slice row a) (observe_slice row (run_accumulator_new row)) rows"
    using by_day_symbol_entry [OF a(1)] .
  have row: "row \<in> set slices" using arg_cong [OF ys, of set] by auto
  have sym: "ra_symbol_canonical (foldl (\<lambda>a row. observe_slice row a) x rows) = ra_symbol_canonical x" for x rows
    by (induction rows arbitrary: x) (simp_all add: observe_slice_def Let_def case_prod_unfold)
  have "observe_slice row (run_accumulator_new row) = observe_slice row (run_accumulator_new row)" ..
  then have "ra_execution_symbol_native (observe_slice row (run_accumulator_new row)) = Some (sl_symbol_native row)"
    "ra_reference_symbol_native (observe_slice row (run_accumulator_new row)) = Some (sl_symbol_native row)"
    by (simp_all add: observe_slice_def run_accumulator_new_def assign_first Let_def)
  from observe_slice_natives [OF this, of rows] row show ?thesis
    by (intro bexI [of _ row]) (simp_all add: a(2) acc into_symbol_stats_def sym, simp add: observe_slice_def
        run_accumulator_new_def Let_def case_prod_unfold)
qed

section \<open>Days observed\<close>

text \<open>The rollups in use, one pair of day and symbol statistics after the other.\<close>

definition day_symbols :: "bootstrap_rollup list \<Rightarrow> (int \<times> bootstrap_symbol_stats) list" where
  "day_symbols rollups = concat (map (\<lambda>r. map (Pair (ro_day_start_ms r)) (ro_symbols r)) rollups)"

lemma record_rollups_fold:
  "foldl (\<lambda>m r. record_bootstrap_rollup r m) m rollups =
     foldl (\<lambda>m (day, b). record_bootstrap_symbol day b m) m (day_symbols rollups)"
proof (induction rollups arbitrary: m)
  case (Cons r rollups)
  have "record_bootstrap_rollup r m =
      foldl (\<lambda>m (day, b). record_bootstrap_symbol day b m) m (map (Pair (ro_day_start_ms r)) (ro_symbols r))"
    by (simp add: record_bootstrap_rollup_def foldl_map)
  with Cons show ?case by (simp add: day_symbols_def)
qed (simp add: day_symbols_def)

lemma recorded_maps:
  defines "recorded m ps \<equiv> foldl (\<lambda>m (day, b). record_bootstrap_symbol day b m) m ps"
  shows "bp_daily_notional (recorded m ps) =
      bt_fill (\<lambda>s. s) (\<lambda>p. bo_symbol_canonical (snd p)) (\<lambda>_. []) (\<lambda>p. add_daily (fst p) (bo_traded_notional_sum (snd p)))
        (bp_daily_notional m) ps"
    and "bp_spread_samples (recorded m ps) =
      bt_fill (\<lambda>s. s) (\<lambda>p. bo_symbol_canonical (snd p)) (\<lambda>_. [])
        (\<lambda>p xs. xs @ filter is_finite (bo_spread_bps_median_samples (snd p))) (bp_spread_samples m) ps"
    and "bp_stats (recorded m ps) =
      bt_fill (\<lambda>s. s) (\<lambda>p. bo_symbol_canonical (snd p)) (\<lambda>p. stats_from_bootstrap (snd p)) (\<lambda>p. fill_natives (snd p))
        (bp_stats m) ps"
  unfolding recorded_def bt_fill_def
  by (induction ps arbitrary: m) (auto simp: record_bootstrap_symbol_def ensure_bootstrap_symbol_stats_def)

lemma add_daily_wf: "bt_wf (\<lambda>d. d) (\<lambda>_. True) m \<Longrightarrow> bt_wf (\<lambda>d. d) (\<lambda>_. True) (add_daily d v m)"
  by (auto simp: add_daily_def ranked.wf_insert split: option.splits)

lemma add_daily_keys: "fst ` set (add_daily d v m) = insert d (fst ` set m)"
  using ranked.rank_insert [of m "\<lambda>d. d" d] by (auto simp: add_daily_def split: option.splits)

lemma add_daily_fold:
  "bt_wf (\<lambda>d. d) (\<lambda>_. True) m \<Longrightarrow>
     bt_wf (\<lambda>d. d) (\<lambda>_. True) (foldl (\<lambda>m p. add_daily (fst p) (f p) m) m ps) \<and>
     fst ` set (foldl (\<lambda>m p. add_daily (fst p) (f p) m) m ps) = fst ` set m \<union> fst ` set ps"
  by (induction ps arbitrary: m) (simp_all add: add_daily_wf add_daily_keys)

lemma wf_length: "bt_wf (\<lambda>d. d) (\<lambda>_. True) (m :: (int, 'v) btree) \<Longrightarrow> length m = card (fst ` set m)"
  using strict_sorted_iff [of "map fst m"] distinct_card [of "map fst m"] by (simp add: bt_wf_def)

definition bootstrap_maps_of :: "slice_row list \<Rightarrow> bootstrap_rollup list \<Rightarrow> bootstrap_maps" where
  "bootstrap_maps_of slices rollups =
     foldl (\<lambda>m r. record_bootstrap_rollup r m)
       \<lparr>bp_stats = symbol_stats slices, bp_daily_notional = [], bp_spread_samples = [], bp_gap_counts = []\<rparr> rollups"

lemma stats_from_bootstrap_eq:
  "symbol_stats_from_bootstrap rng slices rollups =
     finalize_bootstrap_stats (bootstrap_maps_of slices (filter (rollup_in_use rng) rollups))"
  by (simp add: symbol_stats_from_bootstrap_def bootstrap_maps_of_def)

lemma daily_values:
  "length (case bt_get sym_cmp symbol (bp_daily_notional (bootstrap_maps_of slices rollups)) of None \<Rightarrow> []
     | Some by_day \<Rightarrow> bt_values by_day) =
   card {ro_day_start_ms r | r. r \<in> set rollups \<and> symbol \<in> bo_symbol_canonical ` set (ro_symbols r)}"
proof -
  let ?ps = "filter (\<lambda>p. bo_symbol_canonical (snd p) = symbol) (day_symbols rollups)"
  have days: "fst ` set ?ps =
      {ro_day_start_ms r | r. r \<in> set rollups \<and> symbol \<in> bo_symbol_canonical ` set (ro_symbols r)}"
    by (force simp: day_symbols_def)
  have get: "bt_get sym_cmp symbol (bp_daily_notional (bootstrap_maps_of slices rollups)) =
      entry_fold (\<lambda>_. []) (\<lambda>p. add_daily (fst p) (bo_traded_notional_sum (snd p))) None ?ps"
    by (simp add: bootstrap_maps_of_def record_rollups_fold recorded_maps(1) get_fill)
  show ?thesis
  proof (cases "?ps = []")
    case True
    then show ?thesis using get by (simp flip: days)
  next
    case False
    then have "entry_fold (\<lambda>_. []) (\<lambda>p. add_daily (fst p) (bo_traded_notional_sum (snd p))) None ?ps =
        Some (foldl (\<lambda>m p. add_daily (fst p) (bo_traded_notional_sum (snd p)) m) [] ?ps)"
      by (cases ?ps) (simp_all add: entry_fold_Some)
    then show ?thesis
      using get add_daily_fold [of "[]" "\<lambda>p. bo_traded_notional_sum (snd p)" ?ps]
      by (simp add: bt_values_def wf_length flip: days)
  qed
qed

lemma finalize_entry:
  assumes "(symbol, stat) \<in> set (symbol_stats_from_bootstrap rng slices rollups)"
  shows "ss_bootstrap_days_available stat = int (card {ro_day_start_ms r | r. r \<in> set rollups \<and> rollup_in_use rng r \<and>
           symbol \<in> bo_symbol_canonical ` set (ro_symbols r)})"
    and "ss_median_spread_bps stat \<noteq> Some NaN"
proof -
  let ?m = "bootstrap_maps_of slices (filter (rollup_in_use rng) rollups)"
  obtain s where "stat = s\<lparr>ss_bootstrap_days_available := int (length
        (case bt_get sym_cmp symbol (bp_daily_notional ?m) of None \<Rightarrow> [] | Some by_day \<Rightarrow> bt_values by_day)),
      ss_median_traded_notional := median
        (case bt_get sym_cmp symbol (bp_daily_notional ?m) of None \<Rightarrow> [] | Some by_day \<Rightarrow> bt_values by_day),
      ss_median_spread_bps := Option.bind (bt_get sym_cmp symbol (bp_spread_samples ?m)) median,
      ss_gap_rate := map_option bootstrap_gap_rate (bt_get sym_cmp symbol (bp_gap_counts ?m))\<rparr>"
    using assms unfolding stats_from_bootstrap_eq finalize_bootstrap_stats_def Let_def by force
  then show "ss_bootstrap_days_available stat = int (card {ro_day_start_ms r | r. r \<in> set rollups \<and> rollup_in_use rng r \<and>
           symbol \<in> bo_symbol_canonical ` set (ro_symbols r)})" "ss_median_spread_bps stat \<noteq> Some NaN"
    by (auto simp: daily_values bind_eq_Some_conv conj_assoc median_not_NaN)
qed

section \<open>Thirty days\<close>

text \<open>A range whose thirty days lie within \<open>i64\<close> time.\<close>

definition days_in_range :: "input_range \<Rightarrow> bool" where
  "days_in_range rng \<longleftrightarrow> i64_min + 32 * ONE_DAY_MS \<le> end_ms rng \<and> end_ms rng \<le> i64_max"

definition aligned :: "int \<Rightarrow> bool" where
  "aligned d \<longleftrightarrow> ONE_DAY_MS dvd d"

lemma floor_day_bounds: "t - ONE_DAY_MS < t div ONE_DAY_MS * ONE_DAY_MS" "t div ONE_DAY_MS * ONE_DAY_MS \<le> t"
proof -
  have "t div ONE_DAY_MS * ONE_DAY_MS = t - t mod ONE_DAY_MS" by (rule minus_mod_eq_div_mult [symmetric])
  moreover have "0 \<le> t mod ONE_DAY_MS" "t mod ONE_DAY_MS < ONE_DAY_MS"
    by (simp_all add: ONE_DAY_MS_def pos_mod_bound)
  ultimately show "t - ONE_DAY_MS < t div ONE_DAY_MS * ONE_DAY_MS" "t div ONE_DAY_MS * ONE_DAY_MS \<le> t" by linarith+
qed

lemma day_start_floor:
  assumes "i64_min + ONE_DAY_MS \<le> t" "t \<le> i64_max"
  shows "day_start_ms t = t div ONE_DAY_MS * ONE_DAY_MS"
proof -
  show ?thesis unfolding day_start_ms_def
    using assms floor_day_bounds [of t] by (intro wrap_i64_id) (simp add: in_i64_def)
qed

lemma bootstrap_days_bounds:
  assumes "days_in_range rng"
  shows "bootstrap_end_day_ms rng = (end_ms rng - 1) div ONE_DAY_MS * ONE_DAY_MS"
    and "bootstrap_start_day_ms rng = bootstrap_end_day_ms rng - 29 * ONE_DAY_MS"
    and "set (bootstrap_rollup_day_starts rng) = {bootstrap_end_day_ms rng - int k * ONE_DAY_MS | k. k < 30}"
proof -
  have sub: "i64_saturating_sub (end_ms rng) 1 = end_ms rng - 1"
    "i64_saturating_sub (end_ms rng - 1) ((int BOOTSTRAP_ROLLUP_DAYS - 1) * ONE_DAY_MS) = end_ms rng - 1 - 29 * ONE_DAY_MS"
    using assms by (simp_all add: i64_saturating_sub_def sat_i64_def days_in_range_def i64_consts ONE_DAY_MS_def
        BOOTSTRAP_ROLLUP_DAYS_def)
  show e: "bootstrap_end_day_ms rng = (end_ms rng - 1) div ONE_DAY_MS * ONE_DAY_MS"
    unfolding bootstrap_end_day_ms_def sub using assms
    by (intro day_start_floor) (simp_all add: days_in_range_def i64_consts ONE_DAY_MS_def)
  have "bootstrap_start_day_ms rng = (end_ms rng - 1 - 29 * ONE_DAY_MS) div ONE_DAY_MS * ONE_DAY_MS"
    unfolding bootstrap_start_day_ms_def sub using assms
    by (intro day_start_floor) (simp_all add: days_in_range_def i64_consts ONE_DAY_MS_def)
  also have "(end_ms rng - 1 - 29 * ONE_DAY_MS) div ONE_DAY_MS = (end_ms rng - 1) div ONE_DAY_MS - 29"
    by (simp add: ONE_DAY_MS_def)
  finally show "bootstrap_start_day_ms rng = bootstrap_end_day_ms rng - 29 * ONE_DAY_MS"
    unfolding e by (simp add: algebra_simps)
  have lo: "i64_min + 30 * ONE_DAY_MS \<le> bootstrap_end_day_ms rng" "bootstrap_end_day_ms rng \<le> i64_max"
    unfolding e using assms floor_day_bounds [of "end_ms rng - 1"]
    by (simp_all add: days_in_range_def ONE_DAY_MS_def)
  have "i64_saturating_sub (bootstrap_end_day_ms rng) (int k * ONE_DAY_MS) = bootstrap_end_day_ms rng - int k * ONE_DAY_MS"
    if "k < 30" for k
  proof -
    have "int k * ONE_DAY_MS \<le> 30 * ONE_DAY_MS" "0 \<le> int k * ONE_DAY_MS" using that by (simp_all add: ONE_DAY_MS_def)
    with lo show ?thesis by (simp add: i64_saturating_sub_def sat_i64_def max_def min_def)
  qed
  then show "set (bootstrap_rollup_day_starts rng) = {bootstrap_end_day_ms rng - int k * ONE_DAY_MS | k. k < 30}"
    unfolding bootstrap_rollup_day_starts_def Let_def bootstrap_end_day_ms_def [symmetric] BOOTSTRAP_ROLLUP_DAYS_def
    by (auto simp del: upt_conv_Cons)
qed

text \<open>The aligned days a rollup in use can have are the thirty days.\<close>

lemma aligned_days:
  assumes "days_in_range rng" "rollup_in_use rng r" "aligned (ro_day_start_ms r)"
  shows "ro_day_start_ms r \<in> set (bootstrap_rollup_day_starts rng)"
proof -
  obtain q where q: "ro_day_start_ms r = ONE_DAY_MS * q" using assms(3) by (auto simp: aligned_def dvd_def)
  let ?e = "(end_ms rng - 1) div ONE_DAY_MS"
  have "ONE_DAY_MS * q \<le> ?e * ONE_DAY_MS" "?e * ONE_DAY_MS - 29 * ONE_DAY_MS \<le> ONE_DAY_MS * q"
    using assms(2) bootstrap_days_bounds(1,2) [OF assms(1)] by (simp_all add: rollup_in_use_def q)
  then have "q \<le> ?e" "?e - 29 \<le> q" by (simp_all add: ONE_DAY_MS_def)
  then have "nat (?e - q) < 30" "ro_day_start_ms r = bootstrap_end_day_ms rng - int (nat (?e - q)) * ONE_DAY_MS"
    by (simp_all add: q bootstrap_days_bounds(1) [OF assms(1)] algebra_simps)
  then show ?thesis unfolding bootstrap_days_bounds(3) [OF assms(1)] by blast
qed

section \<open>Statistics are keyed by their symbol\<close>

definition keyed :: "(string, symbol_stat) btree \<Rightarrow> bool" where
  "keyed m \<longleftrightarrow> bt_wf (\<lambda>s. s) (\<lambda>_. True) m \<and> (\<forall>(k, s) \<in> set m. ss_symbol_canonical s = k)"

lemma keyed_fill:
  assumes "keyed m" "\<And>x. ss_symbol_canonical (dflt x) = key x"
    and "\<And>x s. ss_symbol_canonical (f x s) = ss_symbol_canonical s"
  shows "keyed (bt_fill (\<lambda>s. s) key dflt f m xs)"
  unfolding bt_fill_def using assms(1)
proof (induction xs arbitrary: m)
  case (Cons x xs)
  have wf: "bt_wf (\<lambda>s. s) (\<lambda>_. True) m" using Cons.prems by (simp add: keyed_def)
  have old: "ss_symbol_canonical s = k" if "bt_get sym_cmp k m = Some s" for k s
    using ranked.get_Some_mem [OF wf _ that] Cons.prems by (auto simp: keyed_def)
  let ?m = "bt_update sym_cmp (key x) (dflt x) (f x) m"
  have "ss_symbol_canonical s = k" if "(k, s) \<in> set ?m" for k s
    using ranked.get_mem [OF wf_update [OF wf] that] old assms(2,3)
    by (auto simp: get_update [OF wf] split: if_splits option.splits)
  then have "keyed ?m" using wf_update [OF wf] by (auto simp: keyed_def)
  then show ?case using Cons.IH by simp
qed simp

lemma keyed_map:
  assumes "keyed m" "\<And>k s. ss_symbol_canonical (g k s) = ss_symbol_canonical s"
  shows "keyed (map (\<lambda>(k, s). (k, g k s)) m)"
proof -
  have "map fst (map (\<lambda>(k, s). (k, g k s)) m) = map fst m" by (simp add: case_prod_unfold)
  then have "bt_wf (\<lambda>s. s) (\<lambda>_. True) (map (\<lambda>(k, s). (k, g k s)) m) = bt_wf (\<lambda>s. s) (\<lambda>_. True) m"
    by (simp only: bt_wf_def) simp
  with assms show ?thesis by (auto simp: keyed_def)
qed

lemma current_stats_fill:
  "cm_stats (foldl (\<lambda>m row. observe_current row m) m slices) =
     bt_fill (\<lambda>s. s) sl_symbol_canonical stats_from_slice observe_stats (cm_stats m) slices"
  unfolding bt_fill_def by (induction slices arbitrary: m) (simp_all add: observe_current_def)

lemma keyed_symbol_stats: "keyed (symbol_stats slices)"
proof -
  have "keyed (bt_fill (\<lambda>s. s) sl_symbol_canonical stats_from_slice observe_stats [] slices)"
    by (rule keyed_fill) (simp_all add: keyed_def stats_from_slice_def observe_stats_def case_prod_unfold)
  then show ?thesis
    unfolding symbol_stats_def Let_def by (intro keyed_map [where g = "\<lambda>k s. _ k s"]) (simp_all add: current_stats_fill)
qed

lemma keyed_stats: "keyed (symbol_stats_from_bootstrap rng slices rollups)"
proof -
  have "keyed (bp_stats (bootstrap_maps_of slices rs))" for rs
    unfolding bootstrap_maps_of_def record_rollups_fold recorded_maps(3)
    by (rule keyed_fill) (simp_all add: keyed_symbol_stats stats_from_bootstrap_def fill_natives_def)
  then show ?thesis
    unfolding stats_from_bootstrap_eq finalize_bootstrap_stats_def Let_def
    by (intro keyed_map [where g = "\<lambda>k s. _ k s"]) simp_all
qed

lemma keyed_symbols:
  assumes "keyed m"
  shows "map ss_symbol_canonical (bt_values m) = map fst m" "distinct (map ss_symbol_canonical (bt_values m))"
    "sorted (map ss_symbol_canonical (bt_values m))"
proof -
  show e: "map ss_symbol_canonical (bt_values m) = map fst m"
    using assms by (auto simp: keyed_def bt_values_def)
  have "sorted_wrt (<) (map fst m)" using assms by (simp add: keyed_def bt_wf_def)
  then show "distinct (map ss_symbol_canonical (bt_values m))" "sorted (map ss_symbol_canonical (bt_values m))"
    unfolding e by (simp_all add: strict_sorted_iff)
qed

section \<open>Ranks\<close>

definition eligible_row :: "symbol_stat \<Rightarrow> (string \<times> f64) option" where
  "eligible_row stat = Option.bind (ss_median_traded_notional stat) (\<lambda>notional.
     if \<not> is_liquidity_rank_eligible stat notional then None else Some (ss_symbol_canonical stat, notional))"

lemma eligible_rows_eq: "eligible_rows stats = List.map_filter eligible_row (bt_values stats)"
  by (simp add: eligible_rows_def eligible_row_def [abs_def])

lemma eligible_row_Some:
  "eligible_row stat = Some (s, n) \<longleftrightarrow> ss_median_traded_notional stat = Some n \<and> is_liquidity_rank_eligible stat n \<and>
     s = ss_symbol_canonical stat"
  by (auto simp: eligible_row_def bind_eq_Some_conv split: if_splits)

lemma eligible_set:
  "set (eligible_rows stats) = {(ss_symbol_canonical s, n) | s n. s \<in> set (bt_values stats) \<and>
     ss_median_traded_notional s = Some n \<and> is_liquidity_rank_eligible s n}"
proof -
  have "set (List.map_filter f xs) = {y. \<exists>x \<in> set xs. f x = Some y}" for f :: "symbol_stat \<Rightarrow> (string \<times> f64) option" and xs
  proof (induction xs)
    case (Cons x xs)
    then show ?case by (cases "f x") (auto simp: map_filter_simps)
  qed (simp add: map_filter_simps)
  then show ?thesis by (auto simp: eligible_rows_eq eligible_row_Some)
qed

lemma distinct_map_filter:
  assumes "distinct (map g xs)" "\<And>x y. f x = Some y \<Longrightarrow> h y = g x"
  shows "distinct (map h (List.map_filter f xs)) \<and> h ` set (List.map_filter f xs) \<subseteq> g ` set xs"
  using assms(1)
proof (induction xs)
  case (Cons x xs)
  then show ?case using assms(2) by (cases "f x") (auto simp: map_filter_simps)
qed (simp add: map_filter_simps)

lemma eligible_distinct:
  assumes "keyed stats"
  shows "distinct (map fst (eligible_rows stats))"
  unfolding eligible_rows_eq
  using distinct_map_filter [of ss_symbol_canonical "bt_values stats" eligible_row fst] keyed_symbols(2) [OF assms]
  by (auto simp: eligible_row_Some)

definition ranked_rows :: "(string, symbol_stat) btree \<Rightarrow> (string \<times> f64) list" where
  "ranked_rows stats = sort_key liquidity_order (eligible_rows stats)"

lemma ranks_nth:
  assumes "i < length (ranked_rows stats)"
  shows "liquidity_ranks stats ! i = \<lparr>lr_symbol_canonical = fst (ranked_rows stats ! i),
    lr_liquidity_rank_at_that_time = int i + 1, lr_observed_traded_notional = snd (ranked_rows stats ! i)\<rparr>"
  using assms by (simp add: liquidity_ranks_def ranked_rows_def [symmetric] nth_enumerate_eq case_prod_unfold)

lemma ranks_length [simp]: "length (liquidity_ranks stats) = length (ranked_rows stats)"
  by (simp add: liquidity_ranks_def ranked_rows_def)

lemma rank_symbols: "map lr_symbol_canonical (liquidity_ranks stats) = map fst (ranked_rows stats)"
  by (rule nth_equalityI) (simp_all add: ranks_nth)

lemma filter_distinct_key: "distinct (map f xs) \<Longrightarrow> r \<in> set xs \<Longrightarrow> filter (\<lambda>x. f x = f r) xs = [r]"
proof (induction xs)
  case (Cons x xs)
  show ?case
  proof (cases "x = r")
    case True
    have "f y \<noteq> f r" if "y \<in> set xs" for y
    proof
      assume "f y = f r"
      with that have "f r \<in> f ` set xs" by (metis imageI)
      with Cons.prems True show False by simp
    qed
    with True show ?thesis by (simp add: filter_empty_conv)
  next
    case False
    with Cons.prems have "f x \<noteq> f r" by auto
    with False Cons show ?thesis by simp
  qed
qed simp

lemma rank_lookup:
  assumes "distinct (map lr_symbol_canonical ranks)"
  shows "bt_get sym_cmp s (rank_by_symbol ranks) = Some i \<longleftrightarrow>
    (\<exists>r \<in> set ranks. lr_symbol_canonical r = s \<and> lr_liquidity_rank_at_that_time r = i)"
proof -
  have fill: "rank_by_symbol ranks = bt_fill (\<lambda>s. s) lr_symbol_canonical lr_liquidity_rank_at_that_time
      (\<lambda>r _. lr_liquidity_rank_at_that_time r) [] ranks"
    by (simp add: rank_by_symbol_def bt_fill_def bt_update_def)
  show ?thesis
  proof (cases "s \<in> lr_symbol_canonical ` set ranks")
    case True
    then obtain r where r: "r \<in> set ranks" "s = lr_symbol_canonical r" by blast
    have "r' = r" if "r' \<in> set ranks" "lr_symbol_canonical r' = s" for r'
      using assms that r by (auto simp: distinct_map dest: inj_onD)
    then show ?thesis unfolding fill using r by (auto simp: get_fill filter_distinct_key [OF assms r(1)])
  next
    case False
    then have "filter (\<lambda>r. lr_symbol_canonical r = s) ranks = []" by (auto simp: filter_empty_conv)
    then show ?thesis unfolding fill using False by (auto simp: get_fill)
  qed
qed

text \<open>Liquidity ranks are the positions of the eligible symbols: each eligible symbol once, ranks
  \<open>1, 2, 3, \<dots>\<close> without gaps, notionals never increasing from one rank to the next, ties in symbol order.\<close>

theorem liquidity_ranks_dense:
  "map lr_liquidity_rank_at_that_time (liquidity_ranks (symbol_stats_from_bootstrap rng slices rollups)) =
      [1..int (length (liquidity_ranks (symbol_stats_from_bootstrap rng slices rollups)))] \<and>
    sorted_wrt (\<lambda>a b. lr_symbol_canonical a \<noteq> lr_symbol_canonical b \<and>
        (f64_rat (lr_observed_traded_notional b) < f64_rat (lr_observed_traded_notional a) \<or>
         lr_observed_traded_notional a = lr_observed_traded_notional b \<and> lr_symbol_canonical a < lr_symbol_canonical b))
      (liquidity_ranks (symbol_stats_from_bootstrap rng slices rollups)) \<and>
    (\<lambda>r. (lr_symbol_canonical r, lr_observed_traded_notional r)) `
      set (liquidity_ranks (symbol_stats_from_bootstrap rng slices rollups)) =
      {(ss_symbol_canonical s, n) | s n. s \<in> set (bt_values (symbol_stats_from_bootstrap rng slices rollups)) \<and>
         ss_median_traded_notional s = Some n \<and>
         is_liquidity_rank_eligible s n}"
proof (intro conjI)
  define stats where "stats = symbol_stats_from_bootstrap rng slices rollups"
  have k: "keyed stats" unfolding stats_def by (rule keyed_stats)
  let ?rs = "ranked_rows stats"
  show "map lr_liquidity_rank_at_that_time (liquidity_ranks (symbol_stats_from_bootstrap rng slices rollups)) =
      [1..int (length (liquidity_ranks (symbol_stats_from_bootstrap rng slices rollups)))]"
    unfolding stats_def [symmetric] by (rule nth_equalityI) (simp_all add: ranks_nth)
  have fin: "is_finite (snd p)" if "p \<in> set ?rs" for p
    using that by (auto simp: ranked_rows_def eligible_set is_liquidity_rank_eligible_def split: if_splits)
  have d: "distinct (map fst ?rs)"
    using eligible_distinct [OF k] unfolding ranked_rows_def distinct_map
    by (metis distinct_sort set_sort)
  have s: "sorted (map liquidity_order ?rs)" by (simp add: ranked_rows_def)
  have "fst (?rs ! i) \<noteq> fst (?rs ! j) \<and> (f64_rat (snd (?rs ! j)) < f64_rat (snd (?rs ! i)) \<or>
      snd (?rs ! i) = snd (?rs ! j) \<and> fst (?rs ! i) < fst (?rs ! j))" if ij: "i < j" "j < length ?rs" for i j
  proof -
    have ne: "fst (?rs ! i) \<noteq> fst (?rs ! j)"
      using d ij nth_eq_iff_index_eq [of "map fst ?rs" i j] by auto
    have "liquidity_order (?rs ! i) \<le> liquidity_order (?rs ! j)"
      using s ij sorted_nth_mono [of "map liquidity_order ?rs" i j] by auto
    moreover have "is_finite (snd (?rs ! i))" "is_finite (snd (?rs ! j))" using ij by (auto intro!: fin nth_mem)
    ultimately show ?thesis using ne f64_rat_inj [of "snd (?rs ! i)" "snd (?rs ! j)"]
      by (auto simp: liquidity_order_def case_prod_unfold less_eq_prod_def)
  qed
  then show "sorted_wrt (\<lambda>a b. lr_symbol_canonical a \<noteq> lr_symbol_canonical b \<and>
        (f64_rat (lr_observed_traded_notional b) < f64_rat (lr_observed_traded_notional a) \<or>
         lr_observed_traded_notional a = lr_observed_traded_notional b \<and> lr_symbol_canonical a < lr_symbol_canonical b))
      (liquidity_ranks (symbol_stats_from_bootstrap rng slices rollups))"
    unfolding stats_def [symmetric] by (simp add: sorted_wrt_iff_nth_less ranks_nth)
  have "(\<lambda>r. (lr_symbol_canonical r, lr_observed_traded_notional r)) ` set (liquidity_ranks stats) = set ?rs"
  proof -
    have "map (\<lambda>r. (lr_symbol_canonical r, lr_observed_traded_notional r)) (liquidity_ranks stats) = ?rs"
      by (rule nth_equalityI) (simp_all add: ranks_nth)
    then show ?thesis by (metis set_map)
  qed
  also have "\<dots> = {(ss_symbol_canonical s, n) | s n. s \<in> set (bt_values stats) \<and> ss_median_traded_notional s = Some n \<and>
         is_liquidity_rank_eligible s n}"
    by (simp add: ranked_rows_def eligible_set)
  finally show "(\<lambda>r. (lr_symbol_canonical r, lr_observed_traded_notional r)) `
      set (liquidity_ranks (symbol_stats_from_bootstrap rng slices rollups)) =
      {(ss_symbol_canonical s, n) | s n. s \<in> set (bt_values (symbol_stats_from_bootstrap rng slices rollups)) \<and>
         ss_median_traded_notional s = Some n \<and> is_liquidity_rank_eligible s n}"
    unfolding stats_def .
qed

section \<open>The universe\<close>

definition snapshot_members :: "input_range \<Rightarrow> slice_row list \<Rightarrow> bootstrap_rollup list \<Rightarrow> universe_member list" where
  "snapshot_members rng slices rollups =
     (let stats = symbol_stats_from_bootstrap rng slices rollups
      in map (universe_member_of (rank_by_symbol (liquidity_ranks stats))) (bt_values stats))"

lemma snapshot_parts:
  "us_included_symbols (build_symbol_universe_snapshot_from_bootstrap params l1 rng g slices rollups) =
     sort_key symbol_member_order (filter um_approved_universe_symbol (snapshot_members rng slices rollups))"
  "us_excluded_symbols (build_symbol_universe_snapshot_from_bootstrap params l1 rng g slices rollups) =
     sort_key symbol_member_order (filter (\<lambda>m. \<not> um_approved_universe_symbol m) (snapshot_members rng slices rollups))"
  by (simp_all add: build_symbol_universe_snapshot_from_bootstrap_def snapshot_members_def Let_def)

lemma rank_symbols_distinct:
  "keyed stats \<Longrightarrow> distinct (map lr_symbol_canonical (liquidity_ranks stats))"
  unfolding rank_symbols ranked_rows_def using eligible_distinct [of stats]
  by (metis distinct_map distinct_sort set_sort)

lemma rank_lookup_bounds:
  assumes "keyed stats" "bt_get sym_cmp s (rank_by_symbol (liquidity_ranks stats)) = Some i"
  shows "1 \<le> i \<and> (\<forall>t. bt_get sym_cmp t (rank_by_symbol (liquidity_ranks stats)) = Some i \<longrightarrow> t = s)"
proof -
  let ?rs = "liquidity_ranks stats"
  have nth: "\<exists>k < length ?rs. fst (ranked_rows stats ! k) = t \<and> i = int k + 1"
    if "bt_get sym_cmp t (rank_by_symbol ?rs) = Some i" for t
  proof -
    from that obtain r where r: "r \<in> set ?rs" "lr_symbol_canonical r = t" "lr_liquidity_rank_at_that_time r = i"
      unfolding rank_lookup [OF rank_symbols_distinct [OF assms(1)]] by blast
    from r(1) obtain k where "k < length ?rs" "r = ?rs ! k" unfolding in_set_conv_nth by blast
    with r show ?thesis by (auto simp: ranks_nth)
  qed
  from nth [OF assms(2)] nth show ?thesis by fastforce
qed

lemma member_fields [simp]:
  "um_symbol_canonical (universe_member_of ranks stat) = ss_symbol_canonical stat"
  "um_liquidity_rank_at_that_time (universe_member_of ranks stat) = bt_get sym_cmp (ss_symbol_canonical stat) ranks"
  "um_approved_universe_symbol (universe_member_of ranks stat) =
     is_approved_universe_symbol stat (bt_get sym_cmp (ss_symbol_canonical stat) ranks)"
  "um_bootstrap_days_available (universe_member_of ranks stat) = ss_bootstrap_days_available stat"
  "um_status_reason (universe_member_of ranks stat) =
     universe_status_reason stat (bt_get sym_cmp (ss_symbol_canonical stat) ranks)
       (is_approved_universe_symbol stat (bt_get sym_cmp (ss_symbol_canonical stat) ranks))"
  by (simp_all add: universe_member_of_def Let_def)

lemma approved_rank:
  "is_approved_universe_symbol stat r \<Longrightarrow> \<exists>i. r = Some i \<and> i \<le> 50"
  by (auto simp: is_approved_universe_symbol_def is_fully_bootstrapped_universe_symbol_def MAX_APPROVED_RANK_def
      split: option.splits)

lemma included_ranks_strict:
  "sorted_wrt (<) (map (\<lambda>m. the (um_liquidity_rank_at_that_time m))
     (us_included_symbols (build_symbol_universe_snapshot_from_bootstrap params l1 rng g slices rollups)))"
proof -
  define stats where "stats = symbol_stats_from_bootstrap rng slices rollups"
  have k: "keyed stats" by (simp add: stats_def keyed_stats)
  let ?M = "filter um_approved_universe_symbol (snapshot_members rng slices rollups)"
  let ?ranks = "rank_by_symbol (liquidity_ranks stats)"
  have mem: "snapshot_members rng slices rollups = map (universe_member_of ?ranks) (bt_values stats)"
    by (simp add: snapshot_members_def stats_def Let_def)
  have rank: "\<exists>i. um_liquidity_rank_at_that_time m = Some i" if "m \<in> set ?M" for m
    using that unfolding mem by (auto dest!: approved_rank)
  have key: "symbol_member_order m = (the (um_liquidity_rank_at_that_time m), um_symbol_canonical m)"
    if "m \<in> set ?M" for m using rank [OF that] by (auto simp: symbol_member_order_def unwrap_or_def)
  have dist: "distinct (map um_symbol_canonical ?M)"
    using keyed_symbols(2) [OF k] unfolding mem by (simp add: distinct_map_filter comp_def filter_map distinct_map inj_on_def)
  have inj: "um_symbol_canonical a = um_symbol_canonical b"
    if ab: "a \<in> set ?M" "b \<in> set ?M" "um_liquidity_rank_at_that_time a = um_liquidity_rank_at_that_time b" for a b
  proof -
    obtain i where i: "um_liquidity_rank_at_that_time a = Some i" "um_liquidity_rank_at_that_time b = Some i"
      using rank [OF ab(1)] ab(3) by auto
    obtain x y where x: "a = universe_member_of ?ranks x" and y: "b = universe_member_of ?ranks y"
      using ab(1,2) unfolding mem by auto
    have "bt_get sym_cmp (ss_symbol_canonical x) ?ranks = Some i" "bt_get sym_cmp (ss_symbol_canonical y) ?ranks = Some i"
      using i by (simp_all add: x y)
    then have "ss_symbol_canonical x = ss_symbol_canonical y" using rank_lookup_bounds [OF k] by blast
    then show ?thesis by (simp add: x y)
  qed
  have "distinct (map (\<lambda>m. the (um_liquidity_rank_at_that_time m)) ?M)"
  proof -
    have "inj_on (\<lambda>m. the (um_liquidity_rank_at_that_time m)) (set ?M)"
    proof (rule inj_onI)
      fix a b assume ab: "a \<in> set ?M" "b \<in> set ?M"
        "the (um_liquidity_rank_at_that_time a) = the (um_liquidity_rank_at_that_time b)"
      then have "um_symbol_canonical a = um_symbol_canonical b" using inj rank by (metis option.sel)
      then show "a = b" using dist ab by (metis distinct_map inj_onD)
    qed
    then show ?thesis using dist by (simp add: distinct_map)
  qed
  then have d: "distinct (map (\<lambda>m. the (um_liquidity_rank_at_that_time m)) (sort_key symbol_member_order ?M))"
    unfolding distinct_map by simp
  have "sorted (map symbol_member_order (sort_key symbol_member_order ?M))" by simp
  then have "sorted (map (\<lambda>m. the (um_liquidity_rank_at_that_time m)) (sort_key symbol_member_order ?M))"
    unfolding sorted_map by (rule sorted_wrt_mono_rel [rotated]) (auto simp: key less_eq_prod_def)
  with d show ?thesis unfolding snapshot_parts by (simp add: strict_sorted_iff)
qed

lemma strict_interval_length:
  assumes "sorted_wrt (<) xs" "\<forall>x \<in> set xs. 1 \<le> x \<and> x \<le> (n::int)" "0 \<le> n"
  shows "int (length xs) \<le> n"
proof -
  have "distinct xs" using assms(1) by (simp add: strict_sorted_iff)
  then have "length xs = card (set xs)" by (simp add: distinct_card)
  also have "\<dots> \<le> card {1..n}" using assms(2) by (intro card_mono) auto
  finally show ?thesis using assms(3) by simp
qed

lemma included_member:
  assumes "m \<in> set (us_included_symbols (build_symbol_universe_snapshot_from_bootstrap params l1 rng g slices rollups))"
  obtains stat i where "(um_symbol_canonical m, stat) \<in> set (symbol_stats_from_bootstrap rng slices rollups)"
    "um_liquidity_rank_at_that_time m = Some i" "1 \<le> i" "i \<le> 50" "is_fully_bootstrapped_universe_symbol stat (Some i)"
proof -
  define stats where "stats = symbol_stats_from_bootstrap rng slices rollups"
  have k: "keyed stats" by (simp add: stats_def keyed_stats)
  let ?ranks = "rank_by_symbol (liquidity_ranks stats)"
  have "m \<in> set (filter um_approved_universe_symbol (map (universe_member_of ?ranks) (bt_values stats)))"
    using assms by (simp add: snapshot_parts snapshot_members_def stats_def Let_def)
  then obtain stat where s: "stat \<in> set (bt_values stats)" "m = universe_member_of ?ranks stat"
      "is_approved_universe_symbol stat (bt_get sym_cmp (ss_symbol_canonical stat) ?ranks)" by auto
  from approved_rank [OF s(3)] obtain i where i: "bt_get sym_cmp (ss_symbol_canonical stat) ?ranks = Some i" "i \<le> 50"
    by blast
  have "(ss_symbol_canonical stat, stat) \<in> set stats" using s(1) k by (auto simp: bt_values_def keyed_def)
  then have "(um_symbol_canonical m, stat) \<in> set (symbol_stats_from_bootstrap rng slices rollups)"
    by (simp add: s(2) flip: stats_def)
  moreover have "um_liquidity_rank_at_that_time m = Some i" by (simp add: s(2) i(1))
  moreover have "is_fully_bootstrapped_universe_symbol stat (Some i)"
    using s(3) by (simp add: i(1) is_approved_universe_symbol_def)
  ultimately show ?thesis using conjunct1 [OF rank_lookup_bounds [OF k i(1)]] i(2) by (intro that)
qed

text \<open>C16: The universe has at most fifty symbols, listed by strictly increasing liquidity rank between 1
  and 50.\<close>

theorem universe_bounded:
  "sorted_wrt (<) (map (\<lambda>m. the (um_liquidity_rank_at_that_time m))
     (us_included_symbols (build_symbol_universe_snapshot_from_bootstrap params l1_run_id rng g slices rollups))) \<and>
   set (map um_liquidity_rank_at_that_time
     (us_included_symbols (build_symbol_universe_snapshot_from_bootstrap params l1_run_id rng g slices rollups)))
     \<subseteq> Some ` {1..50} \<and>
   length (us_included_symbols (build_symbol_universe_snapshot_from_bootstrap params l1_run_id rng g slices rollups)) \<le> 50"
proof (intro conjI)
  let ?I = "us_included_symbols (build_symbol_universe_snapshot_from_bootstrap params l1_run_id rng g slices rollups)"
  let ?rs = "map (\<lambda>m. the (um_liquidity_rank_at_that_time m)) ?I"
  show s: "sorted_wrt (<) ?rs" by (rule included_ranks_strict)
  have b: "\<exists>i. um_liquidity_rank_at_that_time m = Some i \<and> 1 \<le> i \<and> i \<le> 50" if "m \<in> set ?I" for m
    by (rule included_member [OF that]) blast
  then show "set (map um_liquidity_rank_at_that_time ?I) \<subseteq> Some ` {1..50}" by force
  have "\<forall>x \<in> set ?rs. 1 \<le> x \<and> x \<le> 50" using b by fastforce
  from strict_interval_length [OF s this] show "length ?I \<le> 50" by simp
qed

text \<open>A symbol is admitted only when it was seen on each of the thirty days: for every day of
  the period there is a stored rollup of that day that holds the symbol. (Stored rollups carry aligned days, as the rollups
  of \<open>build_symbol_universe_bootstrap_rollups\<close> do.)\<close>

theorem admitted_seen_every_day:
  assumes "days_in_range rng" and "\<forall>r \<in> set rollups. aligned (ro_day_start_ms r)"
    and "m \<in> set (us_included_symbols (build_symbol_universe_snapshot_from_bootstrap params l1_run_id rng g slices rollups))"
    and "d \<in> set (bootstrap_rollup_day_starts rng)"
  shows "\<exists>r \<in> set rollups. ro_day_start_ms r = d \<and> um_symbol_canonical m \<in> bo_symbol_canonical ` set (ro_symbols r)"
proof -
  obtain stat i where st: "(um_symbol_canonical m, stat) \<in> set (symbol_stats_from_bootstrap rng slices rollups)"
    "is_fully_bootstrapped_universe_symbol stat (Some i)"
    using included_member [OF assms(3)] by metis
  let ?days = "{ro_day_start_ms r | r. r \<in> set rollups \<and> rollup_in_use rng r \<and>
      um_symbol_canonical m \<in> bo_symbol_canonical ` set (ro_symbols r)}"
  have sub: "?days \<subseteq> set (bootstrap_rollup_day_starts rng)"
    using aligned_days [OF assms(1)] assms(2) by blast
  have "30 \<le> card ?days"
    using st(2) finalize_entry(1) [OF st(1)]
    by (simp add: is_fully_bootstrapped_universe_symbol_def MIN_BOOTSTRAP_DAYS_def)
  moreover have "card (set (bootstrap_rollup_day_starts rng)) \<le> 30"
    using card_length [of "bootstrap_rollup_day_starts rng"] by (simp add: bootstrap_days)
  ultimately have eq: "?days = set (bootstrap_rollup_day_starts rng)"
    using sub by (intro card_seteq) auto
  have "d \<in> ?days" unfolding eq by (rule assms(4))
  then show ?thesis by blast
qed

text \<open>The days of the rollups a run builds are aligned.\<close>

lemma built_rollups_aligned:
  assumes "\<forall>row \<in> set slices. i64_min + ONE_DAY_MS \<le> sl_window_start_ms row \<and> sl_window_start_ms row \<le> i64_max"
    and "r \<in> set (build_symbol_universe_bootstrap_rollups params l1 rng g slices)" and "ro_symbols r \<noteq> []"
  shows "aligned (ro_day_start_ms r)"
proof -
  obtain b where "b \<in> set (ro_symbols r)" using assms(3) by (meson list.set_sel(1))
  then obtain symbol a where a: "((ro_day_start_ms r, symbol), a) \<in> set (by_day_symbol slices)"
    using rollups_symbols [OF assms(2)] by metis
  obtain row rows where ys: "filter (\<lambda>x. day_start_ms (sl_window_start_ms x) = ro_day_start_ms r \<and>
        sl_symbol_canonical x = symbol) slices = row # rows"
    using by_day_symbol_entry [OF a] by metis
  have "row \<in> set slices \<and> day_start_ms (sl_window_start_ms row) = ro_day_start_ms r"
    using arg_cong [OF ys, of set] by auto
  then show ?thesis using assms(1) day_start_floor [of "sl_window_start_ms row"] by (metis aligned_def dvd_triv_right)
qed

text \<open>Every symbol with statistics is in exactly one of the two lists, and an excluded one has a definite reason.\<close>

lemma reason_definite:
  assumes "ss_median_spread_bps stat \<noteq> Some NaN"
  shows "universe_status_reason stat r (is_approved_universe_symbol stat r) \<noteq> ''not_admitted'' \<and>
    (universe_status_reason stat r (is_approved_universe_symbol stat r) = ''approved'' \<longleftrightarrow> is_approved_universe_symbol stat r)"
proof -
  have sp: "f64_le s MAX_MEDIAN_SPREAD_BPS" if "s \<noteq> NaN" "\<not> f64_lt MAX_MEDIAN_SPREAD_BPS s" for s
    using that by (cases s) (auto simp: MAX_MEDIAN_SPREAD_BPS_def f64_le_def f64_eq_def)
  with assms show ?thesis
    by (auto simp: universe_status_reason_def is_approved_universe_symbol_def is_fully_bootstrapped_universe_symbol_def
        passes_universe_quality_def not_le not_less intro: sp split: option.splits if_splits)
qed

text \<open>The snapshot partitions the symbols: included and excluded together list each symbol that has
  statistics exactly once, a member is included exactly when it is approved, and every excluded member says why, never
  with the fallback reason \<open>not_admitted\<close>.\<close>

theorem snapshot_partitions:
  "mset (map um_symbol_canonical
     (us_included_symbols (build_symbol_universe_snapshot_from_bootstrap params l1_run_id rng g slices rollups) @
      us_excluded_symbols (build_symbol_universe_snapshot_from_bootstrap params l1_run_id rng g slices rollups))) =
   mset (bt_keys (symbol_stats_from_bootstrap rng slices rollups)) \<and>
   distinct (bt_keys (symbol_stats_from_bootstrap rng slices rollups)) \<and>
   list_all (\<lambda>m. um_status_reason m = ''approved'')
     (us_included_symbols (build_symbol_universe_snapshot_from_bootstrap params l1_run_id rng g slices rollups)) \<and>
   list_all (\<lambda>m. um_status_reason m \<notin> {''approved'', ''not_admitted''})
     (us_excluded_symbols (build_symbol_universe_snapshot_from_bootstrap params l1_run_id rng g slices rollups))"
proof (intro conjI)
  define stats where "stats = symbol_stats_from_bootstrap rng slices rollups"
  have k: "keyed stats" by (simp add: stats_def keyed_stats)
  let ?of = "universe_member_of (rank_by_symbol (liquidity_ranks stats))"
  have mem: "snapshot_members rng slices rollups = map ?of (bt_values stats)"
    by (simp add: snapshot_members_def stats_def Let_def)
  have keys: "bt_keys stats = map um_symbol_canonical (snapshot_members rng slices rollups)"
    using keyed_symbols(1) [OF k] by (simp add: mem bt_keys_def comp_def)
  have "image_mset um_symbol_canonical {#m \<in># mset ms. P m#} + image_mset um_symbol_canonical {#m \<in># mset ms. \<not> P m#} =
      image_mset um_symbol_canonical (mset ms)" for P ms
    by (metis image_mset_union multiset_partition)
  then show "mset (map um_symbol_canonical
     (us_included_symbols (build_symbol_universe_snapshot_from_bootstrap params l1_run_id rng g slices rollups) @
      us_excluded_symbols (build_symbol_universe_snapshot_from_bootstrap params l1_run_id rng g slices rollups))) =
   mset (bt_keys (symbol_stats_from_bootstrap rng slices rollups))"
    by (simp add: snapshot_parts stats_def [symmetric] keys)
  show "distinct (bt_keys (symbol_stats_from_bootstrap rng slices rollups))"
    using keyed_symbols(1,2) [OF k] by (simp add: bt_keys_def stats_def)
  have reason: "um_status_reason m \<noteq> ''not_admitted'' \<and> (um_status_reason m = ''approved'' \<longleftrightarrow> um_approved_universe_symbol m)"
    if m: "m \<in> set (snapshot_members rng slices rollups)" for m
  proof -
    obtain key stat where st: "(key, stat) \<in> set stats" "m = ?of stat" using m by (auto simp: mem bt_values_def)
    have "ss_median_spread_bps stat \<noteq> Some NaN" using finalize_entry(2) st(1) unfolding stats_def by blast
    from reason_definite [OF this] show ?thesis by (simp add: st(2))
  qed
  show "list_all (\<lambda>m. um_status_reason m = ''approved'')
     (us_included_symbols (build_symbol_universe_snapshot_from_bootstrap params l1_run_id rng g slices rollups))"
    using reason by (auto simp: snapshot_parts list_all_iff)
  show "list_all (\<lambda>m. um_status_reason m \<notin> {''approved'', ''not_admitted''})
     (us_excluded_symbols (build_symbol_universe_snapshot_from_bootstrap params l1_run_id rng g slices rollups))"
    using reason by (auto simp: snapshot_parts list_all_iff)
qed

section \<open>Concrete universes\<close>

definition sample_symbol :: bootstrap_symbol_stats where
  "sample_symbol = \<lparr>bo_symbol_canonical = ''BTC'', bo_execution_symbol_native = Some ''KRW-BTC'',
     bo_reference_symbol_native = Some ''BTCUSDT'', bo_traded_notional_sum = Fin 1,
     bo_spread_bps_median_samples = [Fin 1], bo_gap_count = 0, bo_window_count = 1, bo_mapping_confidence = ''moderate''\<rparr>"

definition thirty_days :: input_range where
  "thirty_days = \<lparr>start_ms = 0, end_ms = 30 * 86400000\<rparr>"

definition sample_rollups :: "bootstrap_rollup list" where
  "sample_rollups = map (\<lambda>k. \<lparr>ro_schema_version = SYMBOL_UNIVERSE_BOOTSTRAP_ROLLUP_SCHEMA_VERSION, ro_rollup_id = ''r'',
     ro_event_date = ''d'', ro_day_start_ms = int k * 86400000, ro_generated_at_ms = 0, ro_updated_by_l1_run_id = ''run'',
     ro_source_windows = [\<lparr>sw_l1_run_id = ''run'', sw_source_window_start_ms = 0, sw_source_window_end_ms = 1\<rparr>],
     ro_symbols = [sample_symbol]\<rparr>) [0..<30]"

lemma median_replicate:
  assumes "0 < n" "even n"
  shows "median (replicate n (Fin q)) = Some (f64_div (f64_round (q + q)) (Fin 2))"
proof -
  have "filter is_finite (replicate n (Fin q)) = replicate n (Fin q)" by (simp add: is_finite_def)
  moreover have "sort_key f64_rat (replicate n (Fin q)) = replicate n (Fin q)"
    by (rule sort_key_id_if_sorted) (simp add: map_replicate sorted_replicate)
  ultimately show ?thesis using assms by (simp add: median_def Let_def)
qed

lemma small_rounds: "f64_round 2 = Fin 2" "f64_round 1 = Fin 1" "f64_round 30 = Fin 30"
  by (simp_all add: f64_round_def ulp_exp_def ilog2_def pow2_def bit_length.simps round_half_even_def Let_def)

lemma sample_in_use: "filter (rollup_in_use thirty_days) sample_rollups = sample_rollups"
  by code_simp

lemma sample_maps:
  "bootstrap_maps_of [] sample_rollups =
     \<lparr>bp_stats = [(''BTC'', stats_from_bootstrap sample_symbol)],
      bp_daily_notional = [(''BTC'', map (\<lambda>k. (int k * 86400000, Fin 1)) [0..<30])],
      bp_spread_samples = [(''BTC'', replicate 30 (Fin 1))], bp_gap_counts = [(''BTC'', (0, 30))]\<rparr>"
  by code_simp

definition sample_stat :: symbol_stat where
  "sample_stat = (stats_from_bootstrap sample_symbol)\<lparr>ss_bootstrap_days_available := 30,
     ss_median_traded_notional := Some (Fin 1), ss_median_spread_bps := Some (Fin 1), ss_gap_rate := Some (Fin 0)\<rparr>"

lemma sample_stats: "symbol_stats_from_bootstrap thirty_days [] sample_rollups = [(''BTC'', sample_stat)]"
proof -
  have vals: "bt_values (map (\<lambda>k. (int k * 86400000, Fin 1)) [0..<30]) = replicate 30 (Fin 1)"
    by (simp add: bt_values_def comp_def map_replicate_const)
  have g: "sym_cmp ''BTC'' ''BTC'' = Equal" by (simp add: cmp_by_def)
  have m: "median (replicate 30 (Fin 1)) = Some (Fin 1)"
    by (simp add: median_replicate f64_div_def small_rounds)
  show ?thesis
    unfolding stats_from_bootstrap_eq sample_in_use sample_maps finalize_bootstrap_stats_def
    by (simp add: g vals m sample_stat_def bootstrap_gap_rate_def f64_of_int_def small_rounds f64_div_def Let_def
        del: upt_conv_Cons)
qed

definition sample_snapshot :: universe_snapshot where
  "sample_snapshot = build_symbol_universe_snapshot_from_bootstrap sample_params ''run'' thirty_days 0 [] sample_rollups"

lemma sample_ranks:
  "liquidity_ranks [(''BTC'', sample_stat)] =
     [\<lparr>lr_symbol_canonical = ''BTC'', lr_liquidity_rank_at_that_time = 1, lr_observed_traded_notional = Fin 1\<rparr>]"
  by (simp add: liquidity_ranks_def eligible_rows_def bt_values_def map_filter_simps sample_stat_def
      is_liquidity_rank_eligible_def is_finite_def MIN_BOOTSTRAP_DAYS_def stats_from_bootstrap_def sample_symbol_def)

lemma gap_rate_zero: "f64_le (Fin 0) MAX_GAP_RATE"
  using f64_round_sign(1) [of "5 / 100"] by (auto simp: MAX_GAP_RATE_def f64_le_def f64_eq_def)

lemma sample_included:
  "map um_symbol_canonical (us_included_symbols sample_snapshot) = [''BTC'']"
proof -
  have r: "bt_get sym_cmp ''BTC'' (rank_by_symbol [\<lparr>lr_symbol_canonical = ''BTC'', lr_liquidity_rank_at_that_time = 1,
      lr_observed_traded_notional = Fin 1\<rparr>]) = Some 1" by (simp add: rank_by_symbol_def cmp_by_def)
  have s: "ss_symbol_canonical sample_stat = ''BTC''"
    by (simp add: sample_stat_def stats_from_bootstrap_def sample_symbol_def)
  have a: "is_approved_universe_symbol sample_stat (Some 1)"
    by (simp add: is_approved_universe_symbol_def is_fully_bootstrapped_universe_symbol_def passes_universe_quality_def
        sample_stat_def MIN_BOOTSTRAP_DAYS_def MAX_APPROVED_RANK_def MAX_MEDIAN_SPREAD_BPS_def gap_rate_zero)
  show ?thesis
    by (simp add: sample_snapshot_def snapshot_parts snapshot_members_def sample_stats sample_ranks bt_values_def r s a)
qed

theorem admitted_seen_every_day_witness:
  "\<exists>r. r \<in> set sample_rollups \<and> ro_day_start_ms r = 0 \<and> ''BTC'' \<in> bo_symbol_canonical ` set (ro_symbols r)"
proof -
  have "days_in_range thirty_days"
    by (simp add: days_in_range_def thirty_days_def i64_consts ONE_DAY_MS_def)
  moreover have "\<forall>r \<in> set sample_rollups. aligned (ro_day_start_ms r)"
    by (auto simp: sample_rollups_def aligned_def ONE_DAY_MS_def)
  moreover obtain m where "m \<in> set (us_included_symbols sample_snapshot)" "um_symbol_canonical m = ''BTC''"
    using sample_included by auto
  moreover have "0 \<in> set (bootstrap_rollup_day_starts thirty_days)" by code_simp
  ultimately show ?thesis
    using admitted_seen_every_day [of thirty_days sample_rollups m sample_params "''run''" 0 "[]" 0]
    by (auto simp: sample_snapshot_def)
qed

theorem rollup_merge_idempotent_witness:
  "ro_source_windows (hd sample_rollups) \<noteq> [] \<and>
   merge_symbol_universe_bootstrap_rollup sample_params (Some (hd sample_rollups)) (hd sample_rollups) = hd sample_rollups"
proof -
  have ne: "ro_source_windows (hd sample_rollups) \<noteq> []" by code_simp
  then show ?thesis
    using rollup_merge_idempotent [of "hd sample_rollups" sample_params None]
    by (simp add: merge_symbol_universe_bootstrap_rollup_def)
qed

theorem rollup_natives_coincide_witness:
  "\<exists>r b. r \<in> set (build_symbol_universe_bootstrap_rollups sample_params ''run'' thirty_days 0
        [sample_slice ''binance'' ''BTCUSDT'' 0 100 2, sample_slice ''upbit'' ''KRW-BTC'' 0 100 2]) \<and>
     b \<in> set (ro_symbols r) \<and> bo_execution_symbol_native b = bo_reference_symbol_native b"
proof -
  let ?slices = "[sample_slice ''binance'' ''BTCUSDT'' 0 100 2, sample_slice ''upbit'' ''KRW-BTC'' 0 100 2]"
  obtain a where "by_day_symbol ?slices = [((0, ''BTC''), a)]"
    by (simp add: by_day_symbol_def bt_update_def cmp_by_def sample_slice_def day_start_ms_def wrap_i64_def)
  then obtain r b where rb: "r \<in> set (build_symbol_universe_bootstrap_rollups sample_params ''run'' thirty_days 0 ?slices)"
      "b \<in> set (ro_symbols r)"
    by (auto simp: build_symbol_universe_bootstrap_rollups_def bt_push_def bt_update_def rollup_of_day_def)
  from rollup_natives_coincide [OF rb] have "bo_execution_symbol_native b = bo_reference_symbol_native b"
    by (elim bexE conjE) simp
  with rb show ?thesis by (intro exI conjI)
qed

end
