(* ===== verification/L0_Sink.thy ===== *)
theory L0_Sink
  imports L0_Record "HOL-Library.Multiset"
begin

text \<open>
  \<open>src/storage/sink.rs\<close> and \<open>sink/\<close>: the L0 sink that buffers records per partition, writes a
  Parquet object when a buffer is full and uploads it. The file system, the Parquet writer, the bucket
  and the broker answer through \<open>l0_env\<close>; every answer is indexed by the object key (or event id) it
  concerns, which the sink never uses twice. \<open>l0_world\<close> collects what was written and uploaded. The
  lemmas show that object keys are never reused, that no record is lost or duplicated on the way to
  disk, and that the report's counters are exact.
\<close>

section \<open>Configuration\<close>

record l0_storage_config =
  bucket :: string
  region :: string
  profile :: "string option"
  spool_root :: string
  run_id :: string
  flush_records :: nat
  shard_count :: nat
  live_nats :: "live_nats_config option"

definition validate_config :: "l0_storage_config \<Rightarrow> (unit, storage_error) result" where
  "validate_config config =
     (if bucket config = [] then Inl (InvalidConfig ''l0 storage bucket is required'')
      else if flush_records config = 0 then Inl (InvalidConfig ''l0 flush records must be positive'')
      else if shard_count config = 0 then Inl (InvalidConfig ''l0 shard count must be positive'')
      else case live_nats config of
        None \<Rightarrow> Inr ()
      | Some nats \<Rightarrow>
          if trim (ln_url nats) = [] then Inl (InvalidConfig ''live NATS URL must not be empty when configured'')
          else if trim (ln_stream nats) = []
          then Inl (InvalidConfig ''live NATS stream must not be empty when configured'')
          else if trim (ln_subject_prefix nats) = []
          then Inl (InvalidConfig ''live NATS subject prefix must not be empty when configured'')
          else Inr ())"

definition live_nats_required :: "l0_storage_config \<Rightarrow> bool" where
  "live_nats_required config = (case live_nats config of Some nats \<Rightarrow> ln_required nats | None \<Rightarrow> False)"

section \<open>Environment, world and state\<close>

record l0_env =
  e_create_dir :: "string \<Rightarrow> (unit, string) result"
  e_write_parquet :: "string \<Rightarrow> (unit, storage_error) result"
  e_upload_file :: "string \<Rightarrow> (unit, storage_error) result"
  e_write_sealed :: "string \<Rightarrow> bool"
  e_publish :: "string \<Rightarrow> market_live_tick \<Rightarrow> (string, string) result"
  e_flush_live :: "(unit, string) result"
  e_upload_json :: "string \<Rightarrow> (unit, storage_error) result"

datatype l0_payload =
    RawPayload "raw_record list"
  | HealthPayload "source_health_record list"
  | SymbolHealthPayload "symbol_health_record list"
  | GapPayload "gap_record list"

definition payload_len :: "l0_payload \<Rightarrow> nat" where
  "payload_len p = (case p of RawPayload r \<Rightarrow> length r | HealthPayload r \<Rightarrow> length r
     | SymbolHealthPayload r \<Rightarrow> length r | GapPayload r \<Rightarrow> length r)"

record l0_world =
  spool :: "(string \<times> l0_payload) list"
  objects :: "(string \<times> l0_payload) list"
  sealed :: "string list"

record uploaded_object =
  uo_family :: string
  uo_key :: string
  uo_local_path :: string
  uo_record_count :: nat

record failed_upload_object =
  fo_family :: string
  fo_key :: string
  fo_discarded_local_path :: string
  fo_record_count :: nat
  fo_error :: string

text \<open>The buffers and part numbers of one record family.\<close>

record ('k, 'r) family =
  buffers :: "('k, 'r list) btree"
  part_numbers :: "('k, nat) btree"

record l0_sink =
  config :: l0_storage_config
  live_publisher :: bool
  raw :: "(raw_partition_key, raw_record) family"
  health :: "(health_partition_key, source_health_record) family"
  symbol_health :: "(health_partition_key, symbol_health_record) family"
  gap :: "(gap_partition_key, gap_record) family"
  uploaded_objects :: "uploaded_object list"
  uploaded_object_count :: nat
  uploaded_object_dropped_count :: nat
  failed_uploads :: "failed_upload_object list"
  failed_upload_count :: nat
  failed_upload_dropped_count :: nat
  next_ordinal :: u64
  manifest_key :: "string option"
  world :: l0_world

definition empty_family :: "('k, 'r) family" where
  "empty_family = \<lparr>buffers = [], part_numbers = []\<rparr>"

text \<open>\<open>connect\<close> is the broker connection of \<open>LiveMarketPublisher::connect\<close>.\<close>

definition connect_live_publisher ::
    "(live_nats_config \<Rightarrow> (unit, string) result) \<Rightarrow> l0_storage_config \<Rightarrow> (bool, storage_error) result" where
  "connect_live_publisher connect cfg =
     (case live_nats cfg of
        None \<Rightarrow> Inr False
      | Some nats \<Rightarrow>
          (case connect nats of
             Inr _ \<Rightarrow> Inr True
           | Inl error \<Rightarrow>
               if ln_required nats
               then Inl (Nats (''connect market live publisher '' @ ln_url nats @ '': '' @ error))
               else Inr False))"

definition sink_new ::
    "(l0_storage_config \<Rightarrow> (unit, string) result) \<Rightarrow> (live_nats_config \<Rightarrow> (unit, string) result) \<Rightarrow>
     l0_storage_config \<Rightarrow> (l0_sink, storage_error) result" where
  "sink_new new_uploader connect cfg =
     and_then (validate_config cfg) (\<lambda>_.
     and_then (map_err Aws (new_uploader cfg)) (\<lambda>_.
     and_then (connect_live_publisher connect cfg) (\<lambda>publisher.
     Inr \<lparr>config = cfg, live_publisher = publisher, raw = empty_family, health = empty_family,
          symbol_health = empty_family, gap = empty_family, uploaded_objects = [],
          uploaded_object_count = 0, uploaded_object_dropped_count = 0, failed_uploads = [],
          failed_upload_count = 0, failed_upload_dropped_count = 0, next_ordinal = 1,
          manifest_key = None, world = \<lparr>spool = [], objects = [], sealed = []\<rparr>\<rparr>)))"

section \<open>Reports (sink/report.rs)\<close>

definition MAX_REPORTED_OBJECTS :: nat where "MAX_REPORTED_OBJECTS = 1000"
definition MAX_REPORTED_FAILURES :: nat where "MAX_REPORTED_FAILURES = 200"

definition push_capped_deque :: "'a list \<Rightarrow> 'a \<Rightarrow> nat \<Rightarrow> nat \<Rightarrow> 'a list \<times> nat" where
  "push_capped_deque values value max_len dropped_count =
     (let pushed = values @ [value]
      in if length pushed > max_len then (tl pushed, dropped_count + 1) else (pushed, dropped_count))"

definition append_capped :: "'a list \<Rightarrow> 'a \<Rightarrow> nat \<Rightarrow> nat \<Rightarrow> 'a list \<times> nat" where
  "append_capped values value max_len dropped_count =
     (let pushed = values @ [value]
      in if length pushed > max_len then (tl pushed, dropped_count + 1) else (pushed, dropped_count))"

record storage_report =
  sp_bucket :: string
  sp_run_id :: string
  sp_record_count :: nat
  sp_uploaded_object_count :: nat
  sp_uploaded_object_retained_count :: nat
  sp_uploaded_object_dropped_count :: nat
  sp_uploaded_objects :: "uploaded_object list"
  sp_failed_upload_count :: nat
  sp_failed_upload_retained_count :: nat
  sp_failed_upload_dropped_count :: nat
  sp_failed_uploads :: "failed_upload_object list"
  sp_manifest_key :: "string option"

definition report :: "l0_sink \<Rightarrow> storage_report" where
  "report s =
     \<lparr>sp_bucket = bucket (config s), sp_run_id = run_id (config s),
      sp_record_count = unat (next_ordinal s) - 1,
      sp_uploaded_object_count = uploaded_object_count s,
      sp_uploaded_object_retained_count = length (uploaded_objects s),
      sp_uploaded_object_dropped_count = uploaded_object_dropped_count s,
      sp_uploaded_objects = uploaded_objects s, sp_failed_upload_count = failed_upload_count s,
      sp_failed_upload_retained_count = length (failed_uploads s),
      sp_failed_upload_dropped_count = failed_upload_dropped_count s,
      sp_failed_uploads = failed_uploads s, sp_manifest_key = manifest_key s\<rparr>"

section \<open>Uploading (sink/state.rs)\<close>

definition record_uploaded_object :: "uploaded_object \<Rightarrow> l0_sink \<Rightarrow> l0_sink" where
  "record_uploaded_object object s =
     (let (objs, dropped) = push_capped_deque (uploaded_objects s) object MAX_REPORTED_OBJECTS
                              (uploaded_object_dropped_count s)
      in s\<lparr>uploaded_object_count := uploaded_object_count s + 1, uploaded_objects := objs,
           uploaded_object_dropped_count := dropped\<rparr>)"

definition record_failed_upload :: "failed_upload_object \<Rightarrow> l0_sink \<Rightarrow> l0_sink" where
  "record_failed_upload failure s =
     (let (fails, dropped) = push_capped_deque (failed_uploads s) failure MAX_REPORTED_FAILURES
                               (failed_upload_dropped_count s)
      in s\<lparr>failed_upload_count := failed_upload_count s + 1, failed_uploads := fails,
           failed_upload_dropped_count := dropped\<rparr>)"

definition path_join :: "string \<Rightarrow> string \<Rightarrow> string" where
  "path_join a b = a @ ''/'' @ b"

definition local_path :: "l0_env \<Rightarrow> l0_sink \<Rightarrow> string \<Rightarrow> (string, storage_error) result" where
  "local_path env s key =
     and_then (map_err Io (e_create_dir env key)) (\<lambda>_.
     Inr (path_join (path_join (spool_root (config s)) (run_id (config s))) key))"

definition upload :: "l0_env \<Rightarrow> string \<Rightarrow> string \<Rightarrow> string \<Rightarrow> l0_payload \<Rightarrow> l0_sink \<Rightarrow> l0_sink" where
  "upload env object_family key path payload s =
     (case e_upload_file env key of
        Inr _ \<Rightarrow>
          record_uploaded_object
            \<lparr>uo_family = object_family, uo_key = key, uo_local_path = path, uo_record_count = payload_len payload\<rparr>
            (s\<lparr>world := (world s)\<lparr>objects := objects (world s) @ [(key, payload)],
               sealed := (if e_write_sealed env key then sealed (world s) @ [key] else sealed (world s))\<rparr>\<rparr>)
      | Inl error \<Rightarrow>
          record_failed_upload
            \<lparr>fo_family = object_family, fo_key = key, fo_discarded_local_path = path,
             fo_record_count = payload_len payload, fo_error = storage_error_display error\<rparr> s)"

definition take_ordinal :: "l0_sink \<Rightarrow> l0_sink \<times> u64" where
  "take_ordinal s = (s\<lparr>next_ordinal := next_ordinal s + 1\<rparr>, next_ordinal s)"

section \<open>Flushing (sink/flush.rs)\<close>

text \<open>The part of every \<open>flush_*_partition\<close> after the buffer has been taken: path, file, upload.\<close>

definition write_and_upload ::
    "l0_env \<Rightarrow> string \<Rightarrow> string \<Rightarrow> l0_payload \<Rightarrow> l0_sink \<Rightarrow> l0_sink \<times> (unit, storage_error) result" where
  "write_and_upload env object_family key payload s =
     (case local_path env s key of
        Inl error \<Rightarrow> (s, Inl error)
      | Inr path \<Rightarrow>
          (case e_write_parquet env key of
             Inl error \<Rightarrow> (s, Inl error)
           | Inr _ \<Rightarrow>
               (upload env object_family key path payload
                  (s\<lparr>world := (world s)\<lparr>spool := spool (world s) @ [(key, payload)]\<rparr>\<rparr>), Inr ())))"

definition flush_raw_partition ::
    "l0_env \<Rightarrow> raw_partition_key \<Rightarrow> l0_sink \<Rightarrow> l0_sink \<times> (unit, storage_error) result" where
  "flush_raw_partition env part s =
     (case bt_get (cmp_by raw_rank) part (buffers (raw s)) of
        None \<Rightarrow> (s, Inr ())
      | Some records \<Rightarrow>
          (let s1 = s\<lparr>raw := (raw s)\<lparr>buffers := bt_remove (cmp_by raw_rank) part (buffers (raw s))\<rparr>\<rparr>
           in if records = [] then (s1, Inr ())
              else (let (parts, n) = next_part_number (cmp_by raw_rank) (part_numbers (raw s1)) part;
                        s2 = s1\<lparr>raw := (raw s1)\<lparr>part_numbers := parts\<rparr>\<rparr>
                    in write_and_upload env ''raw_market_event'' (raw_object_key part (run_id (config s2)) n)
                         (RawPayload records) s2)))"

definition flush_health_partition ::
    "l0_env \<Rightarrow> health_partition_key \<Rightarrow> l0_sink \<Rightarrow> l0_sink \<times> (unit, storage_error) result" where
  "flush_health_partition env part s =
     (case bt_get (cmp_by health_rank) part (buffers (health s)) of
        None \<Rightarrow> (s, Inr ())
      | Some records \<Rightarrow>
          (let s1 = s\<lparr>health := (health s)\<lparr>buffers := bt_remove (cmp_by health_rank) part (buffers (health s))\<rparr>\<rparr>
           in if records = [] then (s1, Inr ())
              else (let (parts, n) = next_part_number (cmp_by health_rank) (part_numbers (health s1)) part;
                        s2 = s1\<lparr>health := (health s1)\<lparr>part_numbers := parts\<rparr>\<rparr>
                    in write_and_upload env ''source_health'' (health_object_key part (run_id (config s2)) n)
                         (HealthPayload records) s2)))"

definition flush_symbol_health_partition ::
    "l0_env \<Rightarrow> health_partition_key \<Rightarrow> l0_sink \<Rightarrow> l0_sink \<times> (unit, storage_error) result" where
  "flush_symbol_health_partition env part s =
     (case bt_get (cmp_by health_rank) part (buffers (symbol_health s)) of
        None \<Rightarrow> (s, Inr ())
      | Some records \<Rightarrow>
          (let s1 = s\<lparr>symbol_health := (symbol_health s)\<lparr>buffers := bt_remove (cmp_by health_rank) part
                        (buffers (symbol_health s))\<rparr>\<rparr>
           in if records = [] then (s1, Inr ())
              else (let (parts, n) = next_part_number (cmp_by health_rank) (part_numbers (symbol_health s1)) part;
                        s2 = s1\<lparr>symbol_health := (symbol_health s1)\<lparr>part_numbers := parts\<rparr>\<rparr>
                    in write_and_upload env ''symbol_health''
                         (symbol_health_object_key part (run_id (config s2)) n)
                         (SymbolHealthPayload records) s2)))"

definition flush_gap_partition ::
    "l0_env \<Rightarrow> gap_partition_key \<Rightarrow> l0_sink \<Rightarrow> l0_sink \<times> (unit, storage_error) result" where
  "flush_gap_partition env part s =
     (case bt_get (cmp_by gap_rank) part (buffers (gap s)) of
        None \<Rightarrow> (s, Inr ())
      | Some records \<Rightarrow>
          (let s1 = s\<lparr>gap := (gap s)\<lparr>buffers := bt_remove (cmp_by gap_rank) part (buffers (gap s))\<rparr>\<rparr>
           in if records = [] then (s1, Inr ())
              else (let (parts, n) = next_part_number (cmp_by gap_rank) (part_numbers (gap s1)) part;
                        s2 = s1\<lparr>gap := (gap s1)\<lparr>part_numbers := parts\<rparr>\<rparr>
                    in write_and_upload env ''gap_alert'' (gap_object_key part (run_id (config s2)) n)
                         (GapPayload records) s2)))"

text \<open>\<open>for partition in keys { self.flush(...)?; }\<close>\<close>

fun flush_each ::
    "('k \<Rightarrow> l0_sink \<Rightarrow> l0_sink \<times> (unit, storage_error) result) \<Rightarrow> 'k list \<Rightarrow> l0_sink \<Rightarrow>
     l0_sink \<times> (unit, storage_error) result" where
  "flush_each flush [] s = (s, Inr ())"
| "flush_each flush (k # ks) s =
     (case flush k s of (s', Inl error) \<Rightarrow> (s', Inl error) | (s', Inr _) \<Rightarrow> flush_each flush ks s')"

definition seq_result ::
    "l0_sink \<times> (unit, storage_error) result \<Rightarrow> (l0_sink \<Rightarrow> l0_sink \<times> (unit, storage_error) result) \<Rightarrow>
     l0_sink \<times> (unit, storage_error) result" where
  "seq_result r f = (case r of (s, Inl error) \<Rightarrow> (s, Inl error) | (s, Inr _) \<Rightarrow> f s)"

definition flush_all :: "l0_env \<Rightarrow> l0_sink \<Rightarrow> l0_sink \<times> (unit, storage_error) result" where
  "flush_all env s =
     seq_result (flush_each (flush_raw_partition env) (bt_keys (buffers (raw s))) s) (\<lambda>s.
     seq_result (flush_each (flush_health_partition env) (bt_keys (buffers (health s))) s) (\<lambda>s.
     seq_result (flush_each (flush_symbol_health_partition env) (bt_keys (buffers (symbol_health s))) s) (\<lambda>s.
     seq_result (flush_each (flush_gap_partition env) (bt_keys (buffers (gap s))) s) (\<lambda>s.
     if live_publisher s
     then (s, map_err (\<lambda>error. Nats (''flush market live publisher: '' @ error)) (e_flush_live env))
     else (s, Inr ())))))"

section \<open>Appending (sink.rs, sink/live.rs)\<close>

definition publish_live_tick ::
    "l0_params \<Rightarrow> l0_env \<Rightarrow> l0_sink \<Rightarrow> raw_record \<Rightarrow> (unit, storage_error) result" where
  "publish_live_tick params env s r =
     (case (live_publisher s, live_nats (config s)) of
        (True, Some nats) \<Rightarrow>
          (let tick = from_raw_market_event params r
           in if \<not> has_mark_price tick then Inr ()
              else (case publish_tick (e_publish env) nats tick of
                      Inr _ \<Rightarrow> Inr ()
                    | Inl error \<Rightarrow>
                        if live_nats_required (config s)
                        then Inl (Nats (''publish market live tick '' @ lt_event_id tick @ '': '' @ error))
                        else Inr ()))
      | _ \<Rightarrow> Inr ())"

text \<open>\<open>entry(partition).or_default().push(record)\<close> and whether the buffer is full.\<close>

definition push_buffer ::
    "('k \<Rightarrow> 'k \<Rightarrow> ordering) \<Rightarrow> 'k \<Rightarrow> 'r \<Rightarrow> nat \<Rightarrow> ('k, 'r list) btree \<Rightarrow> ('k, 'r list) btree \<times> bool" where
  "push_buffer cmp part r limit bufs =
     (let buffer = (case bt_get cmp part bufs of Some b \<Rightarrow> b | None \<Rightarrow> []) @ [r]
      in (bt_insert cmp part buffer bufs, length buffer \<ge> limit))"

definition append_raw_market_event ::
    "l0_params \<Rightarrow> l0_env \<Rightarrow> raw_draft \<Rightarrow> l0_sink \<Rightarrow> l0_sink \<times> (unit, storage_error) result" where
  "append_raw_market_event params env draft s0 =
     (let (s, ordinal) = take_ordinal s0;
          r = raw_from_draft params draft (run_id (config s)) ordinal
      in case publish_live_tick params env s r of
           Inl error \<Rightarrow> (s, Inl error)
         | Inr _ \<Rightarrow>
             (let part = raw_partition_for params r (shard_count (config s));
                  (bufs, should_flush) = push_buffer (cmp_by raw_rank) part r (flush_records (config s)) (buffers (raw s));
                  s1 = s\<lparr>raw := (raw s)\<lparr>buffers := bufs\<rparr>\<rparr>
              in if should_flush then flush_raw_partition env part s1 else (s1, Inr ())))"

definition append_source_health ::
    "l0_params \<Rightarrow> l0_env \<Rightarrow> source_health_draft \<Rightarrow> l0_sink \<Rightarrow> l0_sink \<times> (unit, storage_error) result" where
  "append_source_health params env draft s0 =
     (let (s, ordinal) = take_ordinal s0;
          r = health_from_draft params draft (run_id (config s)) ordinal;
          part = health_partition_for params r (shard_count (config s));
          (bufs, should_flush) = push_buffer (cmp_by health_rank) part r (flush_records (config s)) (buffers (health s));
          s1 = s\<lparr>health := (health s)\<lparr>buffers := bufs\<rparr>\<rparr>
      in if should_flush then flush_health_partition env part s1 else (s1, Inr ()))"

definition append_symbol_health ::
    "l0_params \<Rightarrow> l0_env \<Rightarrow> symbol_health_draft \<Rightarrow> l0_sink \<Rightarrow> l0_sink \<times> (unit, storage_error) result" where
  "append_symbol_health params env draft s0 =
     (let (s, ordinal) = take_ordinal s0;
          r = symbol_health_from_draft params draft (run_id (config s)) ordinal;
          part = symbol_health_partition_for params r (shard_count (config s));
          (bufs, should_flush) = push_buffer (cmp_by health_rank) part r (flush_records (config s))
                                   (buffers (symbol_health s));
          s1 = s\<lparr>symbol_health := (symbol_health s)\<lparr>buffers := bufs\<rparr>\<rparr>
      in if should_flush then flush_symbol_health_partition env part s1 else (s1, Inr ()))"

definition append_gap_alert ::
    "l0_params \<Rightarrow> l0_env \<Rightarrow> gap_draft \<Rightarrow> l0_sink \<Rightarrow> l0_sink \<times> (unit, storage_error) result" where
  "append_gap_alert params env draft s0 =
     (let (s, ordinal) = take_ordinal s0;
          r = gap_from_draft params draft (run_id (config s)) ordinal;
          part = gap_partition_for params r (shard_count (config s));
          (bufs, should_flush) = push_buffer (cmp_by gap_rank) part r (flush_records (config s)) (buffers (gap s));
          s1 = s\<lparr>gap := (gap s)\<lparr>buffers := bufs\<rparr>\<rparr>
      in if should_flush then flush_gap_partition env part s1 else (s1, Inr ()))"

section \<open>The manifest (sink/state.rs)\<close>

definition upload_manifest :: "l0_env \<Rightarrow> l0_sink \<Rightarrow> l0_sink \<times> (storage_report, storage_error) result" where
  "upload_manifest env s0 =
     (let key = ''runs/run_id='' @ run_id (config s0) @ ''/manifest.json'';
          s = s0\<lparr>manifest_key := Some key\<rparr>;
          object = \<lparr>uo_family = ''manifest'', uo_key = key,
                    uo_local_path = ''s3://'' @ bucket (config s) @ ''/'' @ key, uo_record_count = 1\<rparr>;
          rep = report s;
          (objs, dropped) = append_capped (sp_uploaded_objects rep) object MAX_REPORTED_OBJECTS
                              (sp_uploaded_object_dropped_count rep);
          rep' = rep\<lparr>sp_uploaded_objects := objs, sp_uploaded_object_dropped_count := dropped,
                     sp_uploaded_object_count := sp_uploaded_object_count rep + 1,
                     sp_uploaded_object_retained_count := length objs\<rparr>
      in case e_upload_json env key of
           Inl error \<Rightarrow> (s, Inl error)
         | Inr _ \<Rightarrow> (record_uploaded_object object s, Inr rep'))"

section \<open>What the sink holds\<close>

datatype l0_any =
    AnyRaw raw_record | AnyHealth source_health_record | AnySymbol symbol_health_record | AnyGap gap_record

fun payload_any :: "l0_payload \<Rightarrow> l0_any multiset" where
  "payload_any (RawPayload rs) = mset (map AnyRaw rs)"
| "payload_any (HealthPayload rs) = mset (map AnyHealth rs)"
| "payload_any (SymbolHealthPayload rs) = mset (map AnySymbol rs)"
| "payload_any (GapPayload rs) = mset (map AnyGap rs)"

definition buffered :: "('r \<Rightarrow> l0_any) \<Rightarrow> ('k, 'r) family \<Rightarrow> l0_any multiset" where
  "buffered any f = mset (map any (concat (bt_values (buffers f))))"

definition spooled :: "l0_world \<Rightarrow> l0_any multiset" where
  "spooled w = (\<Sum>p \<leftarrow> map snd (spool w). payload_any p)"

text \<open>Every record that is buffered or in a file of the spool.\<close>

definition contents :: "l0_sink \<Rightarrow> l0_any multiset" where
  "contents s = buffered AnyRaw (raw s) + buffered AnyHealth (health s) + buffered AnySymbol (symbol_health s)
     + buffered AnyGap (gap s) + spooled (world s)"

definition part_number :: "('k \<Rightarrow> 'o::linorder) \<Rightarrow> ('k, 'r) family \<Rightarrow> 'k \<Rightarrow> nat" where
  "part_number rank f k = (case bt_get (cmp_by rank) k (part_numbers f) of Some n \<Rightarrow> n | None \<Rightarrow> 0)"

text \<open>The keys already handed out.\<close>

definition issued :: "l0_sink \<Rightarrow> string \<Rightarrow> bool" where
  "issued s key \<longleftrightarrow>
     (\<exists>p n. raw_key_ok p \<and> n \<le> part_number raw_rank (raw s) p \<and> key = raw_object_key p (run_id (config s)) n) \<or>
     (\<exists>p n. health_key_ok p \<and> n \<le> part_number health_rank (health s) p \<and>
        key = health_object_key p (run_id (config s)) n) \<or>
     (\<exists>p n. health_key_ok p \<and> n \<le> part_number health_rank (symbol_health s) p \<and>
        key = symbol_health_object_key p (run_id (config s)) n) \<or>
     (\<exists>p n. gap_key_ok p \<and> n \<le> part_number gap_rank (gap s) p \<and> key = gap_object_key p (run_id (config s)) n)"

section \<open>The contract of a record family\<close>

text \<open>One \<open>flush_*_partition\<close>, read through the accessors of its family.\<close>

definition flush_family ::
    "(l0_sink \<Rightarrow> ('k, 'r) family) \<Rightarrow> (('k, 'r) family \<Rightarrow> l0_sink \<Rightarrow> l0_sink) \<Rightarrow> ('k \<Rightarrow> 'o::linorder) \<Rightarrow>
     ('k \<Rightarrow> string \<Rightarrow> nat \<Rightarrow> string) \<Rightarrow> ('r list \<Rightarrow> l0_payload) \<Rightarrow> string \<Rightarrow> l0_env \<Rightarrow> 'k \<Rightarrow> l0_sink \<Rightarrow>
     l0_sink \<times> (unit, storage_error) result" where
  "flush_family get put rank okey wrap name env part s =
     (case bt_get (cmp_by rank) part (buffers (get s)) of
        None \<Rightarrow> (s, Inr ())
      | Some records \<Rightarrow>
          (let f1 = (get s)\<lparr>buffers := bt_remove (cmp_by rank) part (buffers (get s))\<rparr>;
               n = part_number rank (get s) part + 1;
               f2 = f1\<lparr>part_numbers := bt_insert (cmp_by rank) part n (part_numbers f1)\<rparr>
           in if records = [] then (put f1 s, Inr ())
              else write_and_upload env name (okey part (run_id (config s)) n) (wrap records) (put f2 s)))"

lemma mset_concat_insert:
  "mset (concat (bt_values (bt_insert cmp k v m))) +
     mset (case bt_get cmp k m of Some x \<Rightarrow> x | None \<Rightarrow> []) = mset (concat (bt_values m)) + mset v"
  by (induction m) (auto simp: bt_values_def split: ordering.splits)

lemma mset_concat_remove:
  "bt_get cmp k m = Some v \<Longrightarrow> mset (concat (bt_values (bt_remove cmp k m))) + mset v = mset (concat (bt_values m))"
  by (induction m) (auto simp: bt_values_def split: ordering.splits)

lemma buffered_remove:
  assumes "bt_get cmp k (buffers f) = Some v"
  shows "buffered any (f\<lparr>buffers := bt_remove cmp k (buffers f)\<rparr>) + mset (map any v) = buffered any f"
proof -
  from mset_concat_remove [OF assms]
  have "image_mset any (mset (concat (bt_values (bt_remove cmp k (buffers f)))) + mset v) =
      image_mset any (mset (concat (bt_values (buffers f))))" by simp
  then show ?thesis by (simp add: buffered_def del: mset_concat)
qed

lemma buffered_push:
  assumes "push_buffer cmp k r limit (buffers f) = (bufs, fl)"
  shows "buffered any (f\<lparr>buffers := bufs\<rparr>) = buffered any f + {#any r#}"
proof -
  define old where "old = (case bt_get cmp k (buffers f) of Some b \<Rightarrow> b | None \<Rightarrow> [])"
  have b: "bufs = bt_insert cmp k (old @ [r]) (buffers f)"
    using assms by (simp add: push_buffer_def Let_def old_def)
  from mset_concat_insert [of cmp k "old @ [r]" "buffers f"]
  have "mset (concat (bt_values bufs)) = mset (concat (bt_values (buffers f))) + {#r#}"
    by (simp add: b old_def [symmetric] del: mset_concat)
  then show ?thesis by (simp add: buffered_def del: mset_concat)
qed

lemma spooled_append: "spooled (w\<lparr>spool := spool w @ [(k, p)]\<rparr>) = spooled w + payload_any p"
  by (simp add: spooled_def)

subsection \<open>Writing one object\<close>

definition keys_ok :: "l0_sink \<Rightarrow> bool" where
  "keys_ok s \<longleftrightarrow> distinct (map fst (spool (world s))) \<and> (\<forall>k \<in> fst ` set (spool (world s)). issued s k) \<and>
     subseq (objects (world s)) (spool (world s)) \<and> subseq (sealed (world s)) (map fst (objects (world s)))"

definition report_ok :: "l0_sink \<Rightarrow> bool" where
  "report_ok s \<longleftrightarrow>
     uploaded_object_count s = length (uploaded_objects s) + uploaded_object_dropped_count s \<and>
     length (uploaded_objects s) \<le> MAX_REPORTED_OBJECTS \<and>
     failed_upload_count s = length (failed_uploads s) + failed_upload_dropped_count s \<and>
     length (failed_uploads s) \<le> MAX_REPORTED_FAILURES \<and>
     length (spool (world s)) = length (objects (world s)) + failed_upload_count s \<and>
     length (objects (world s)) \<le> uploaded_object_count s"

lemma push_capped:
  assumes "push_capped_deque vs v m d = (vs', d')" "length vs \<le> m" "0 < m"
  shows "length vs' + d' = length vs + d + 1" "length vs' \<le> m"
  using assms by (auto simp: push_capped_deque_def Let_def split: if_splits)

lemma record_uploaded_fields [simp]:
  "config (record_uploaded_object x s) = config s" "world (record_uploaded_object x s) = world s"
  "raw (record_uploaded_object x s) = raw s" "health (record_uploaded_object x s) = health s"
  "symbol_health (record_uploaded_object x s) = symbol_health s" "gap (record_uploaded_object x s) = gap s"
  "next_ordinal (record_uploaded_object x s) = next_ordinal s"
  "failed_upload_count (record_uploaded_object x s) = failed_upload_count s"
  "uploaded_object_count (record_uploaded_object x s) = uploaded_object_count s + 1"
  by (simp_all add: record_uploaded_object_def Let_def split: prod.splits)

lemma record_failed_fields [simp]:
  "config (record_failed_upload x s) = config s" "world (record_failed_upload x s) = world s"
  "raw (record_failed_upload x s) = raw s" "health (record_failed_upload x s) = health s"
  "symbol_health (record_failed_upload x s) = symbol_health s" "gap (record_failed_upload x s) = gap s"
  "next_ordinal (record_failed_upload x s) = next_ordinal s"
  "failed_upload_count (record_failed_upload x s) = failed_upload_count s + 1"
  "uploaded_object_count (record_failed_upload x s) = uploaded_object_count s"
  by (simp_all add: record_failed_upload_def Let_def split: prod.splits)

lemma upload_fields [simp]:
  "config (upload env f k path pl s) = config s" "raw (upload env f k path pl s) = raw s"
  "health (upload env f k path pl s) = health s" "symbol_health (upload env f k path pl s) = symbol_health s"
  "gap (upload env f k path pl s) = gap s" "next_ordinal (upload env f k path pl s) = next_ordinal s"
  "spool (world (upload env f k path pl s)) = spool (world s)"
  by (auto simp: upload_def split: sum.splits)

lemma write_and_upload_cases:
  assumes "write_and_upload env f k pl s = (s', r)"
  obtains (failed) e where "r = Inl e" and "s' = s"
  | (written) path where "r = Inr ()"
      and "s' = upload env f k path pl (s\<lparr>world := (world s)\<lparr>spool := spool (world s) @ [(k, pl)]\<rparr>\<rparr>)"
proof (cases "local_path env s k")
  case (Inl e)
  with assms show ?thesis by (intro failed [of e]) (simp_all add: write_and_upload_def)
next
  case (Inr path)
  note l = this
  show ?thesis
  proof (cases "e_write_parquet env k")
    case (Inl e)
    with assms l show ?thesis by (intro failed [of e]) (simp_all add: write_and_upload_def)
  next
    case (Inr u)
    with assms l show ?thesis by (intro written [of path]) (simp_all add: write_and_upload_def)
  qed
qed

lemma issued_frame: "config s' = config s \<Longrightarrow> raw s' = raw s \<Longrightarrow> health s' = health s \<Longrightarrow>
    symbol_health s' = symbol_health s \<Longrightarrow> gap s' = gap s \<Longrightarrow> issued s' = issued s"
  by (simp add: issued_def fun_eq_iff)

lemma write_and_upload_keys:
  assumes "write_and_upload env f k pl s = (s', r)" "keys_ok s" "k \<notin> fst ` set (spool (world s))" "issued s k"
  shows "keys_ok s'"
  using assms(1)
proof (cases rule: write_and_upload_cases)
  case (written path)
  have "issued s' = issued s" by (rule issued_frame) (simp_all add: written)
  moreover have "objects (world s') = objects (world s) \<and> sealed (world s') = sealed (world s) \<or>
      objects (world s') = objects (world s) @ [(k, pl)] \<and>
        (sealed (world s') = sealed (world s) \<or> sealed (world s') = sealed (world s) @ [k])"
    by (auto simp: written upload_def split: sum.splits)
  moreover have "spool (world s') = spool (world s) @ [(k, pl)]" by (simp add: written)
  ultimately show ?thesis
    using assms(2-4) by (auto simp: keys_ok_def intro: list_emb_append_mono subseq_rev_drop_many)
qed (use assms in simp)

lemma write_and_upload_report:
  assumes "write_and_upload env f k pl s = (s', r)" "report_ok s"
  shows "report_ok s'"
  using assms(1)
proof (cases rule: write_and_upload_cases)
  case (written path)
  show ?thesis
  proof (cases "e_upload_file env k")
    case (Inl e)
    obtain fs d where "push_capped_deque (failed_uploads s) \<lparr>fo_family = f, fo_key = k, fo_discarded_local_path = path,
        fo_record_count = payload_len pl, fo_error = storage_error_display e\<rparr> MAX_REPORTED_FAILURES
        (failed_upload_dropped_count s) = (fs, d)" by fastforce
    with push_capped [OF this] assms(2) show ?thesis
      by (simp add: written Inl upload_def record_failed_upload_def report_ok_def MAX_REPORTED_FAILURES_def)
  next
    case (Inr u)
    obtain os d where "push_capped_deque (uploaded_objects s) \<lparr>uo_family = f, uo_key = k, uo_local_path = path,
        uo_record_count = payload_len pl\<rparr> MAX_REPORTED_OBJECTS (uploaded_object_dropped_count s) = (os, d)"
      by fastforce
    with push_capped [OF this] assms(2) show ?thesis
      by (simp add: written Inr upload_def record_uploaded_object_def report_ok_def MAX_REPORTED_OBJECTS_def)
  qed
qed (use assms in simp)

lemma write_and_upload_contents:
  assumes "write_and_upload env f k pl s = (s', Inr ())"
  shows "contents s' = contents s + payload_any pl"
  using assms by (cases rule: write_and_upload_cases)
    (simp_all add: contents_def spooled_def)

lemma bt_remove_absent: "bt_get cmp k m = None \<Longrightarrow> bt_remove cmp k m = m"
  by (induction m) (auto split: ordering.splits)

locale sink_family =
  fixes get :: "l0_sink \<Rightarrow> ('k, 'r) family"
    and put :: "('k, 'r) family \<Rightarrow> l0_sink \<Rightarrow> l0_sink"
    and rank :: "'k \<Rightarrow> 'o::linorder"
    and okey :: "'k \<Rightarrow> string \<Rightarrow> nat \<Rightarrow> string"
    and wrap :: "'r list \<Rightarrow> l0_payload"
    and any :: "'r \<Rightarrow> l0_any"
    and good :: "'k \<Rightarrow> bool"
  assumes rank_inj: "rank a = rank b \<Longrightarrow> a = b"
    and get_put [simp]: "get (put f s) = f"
    and config_put [simp]: "config (put f s) = config s"
    and world_put [simp]: "world (put f s) = world s"
    and contents_put: "contents (put f s) + buffered any (get s) = contents s + buffered any f"
    and payload_wrap: "payload_any (wrap rs) = mset (map any rs)"
    and issued_new: "good p \<Longrightarrow> n \<le> part_number rank (get s) p \<Longrightarrow> issued s (okey p (run_id (config s)) n)"
    and issued_old: "good p \<Longrightarrow> issued s (okey p (run_id (config s)) n) \<Longrightarrow> n \<le> part_number rank (get s) p"
    and issued_put: "issued s key \<Longrightarrow> (\<And>p. part_number rank (get s) p \<le> part_number rank f p) \<Longrightarrow>
      issued (put f s) key"
    and report_put: "report_ok (put f s) = report_ok s"
    and get_cong: "raw s' = raw s \<Longrightarrow> health s' = health s \<Longrightarrow> symbol_health s' = symbol_health s \<Longrightarrow>
      gap s' = gap s \<Longrightarrow> get s' = get s"

text \<open>The buffers of a family are ordered maps over its good keys.\<close>

sublocale sink_family \<subseteq> bt: btree_order "cmp_by rank" rank good
  by unfold_locales simp

context sink_family
begin

lemma part_number_insert:
  assumes "bt_wf rank (\<lambda>_. True) (part_numbers f)"
  shows "part_number rank (f\<lparr>part_numbers := bt_insert (cmp_by rank) k n (part_numbers f)\<rparr>) p =
     (if p = k then n else part_number rank f p)"
  using ranked.get_insert [OF assms, where k = k and k' = p and v = n] rank_inj
  by (auto simp: part_number_def)

abbreviation flush :: "string \<Rightarrow> l0_env \<Rightarrow> 'k \<Rightarrow> l0_sink \<Rightarrow> l0_sink \<times> (unit, storage_error) result" where
  "flush name env part s \<equiv> flush_family get put rank okey wrap name env part s"

definition fam_ok :: "l0_sink \<Rightarrow> bool" where
  "fam_ok s \<longleftrightarrow> bt_wf rank (\<lambda>_. True) (part_numbers (get s)) \<and> bt_wf rank good (buffers (get s))"

lemma flush_keys:
  assumes "flush name env part s = (s', r)" "keys_ok s" "good part" "fam_ok s"
  shows "keys_ok s'"
proof (cases "bt_get (cmp_by rank) part (buffers (get s))")
  case None
  with assms show ?thesis by (simp add: flush_family_def)
next
  case (Some records)
  define f1 where "f1 = (get s)\<lparr>buffers := bt_remove (cmp_by rank) part (buffers (get s))\<rparr>"
  define n where "n = part_number rank (get s) part + 1"
  define f2 where "f2 = f1\<lparr>part_numbers := bt_insert (cmp_by rank) part n (part_numbers f1)\<rparr>"
  have pn1: "part_number rank f1 p = part_number rank (get s) p" for p by (simp add: f1_def part_number_def)
  have pn2: "part_number rank f2 p = (if p = part then n else part_number rank (get s) p)" for p
    using part_number_insert [of f1 part n p] assms(4) pn1 [of p] by (simp add: f2_def f1_def fam_ok_def)
  have keys: "keys_ok (put f s)" if "\<And>p. part_number rank (get s) p \<le> part_number rank f p" for f
    using assms(2) issued_put [OF _ that] by (auto simp: keys_ok_def)
  have k1: "keys_ok (put f1 s)" by (rule keys) (simp add: pn1)
  have k2: "keys_ok (put f2 s)" by (rule keys) (simp add: pn2 n_def)
  have fresh: "okey part (run_id (config s)) n \<notin> fst ` set (spool (world s))"
  proof
    assume "okey part (run_id (config s)) n \<in> fst ` set (spool (world s))"
    then have "issued s (okey part (run_id (config s)) n)" using assms(2) unfolding keys_ok_def by blast
    from issued_old [OF assms(3) this] show False by (simp add: n_def)
  qed
  have new: "issued (put f2 s) (okey part (run_id (config s)) n)"
    using issued_new [OF assms(3), of n "put f2 s"] by (simp add: pn2)
  show ?thesis
  proof (cases "records = []")
    case True
    with assms(1) Some k1 show ?thesis by (simp add: flush_family_def f1_def Let_def)
  next
    case False
    with assms(1) Some have "write_and_upload env name (okey part (run_id (config s)) n) (wrap records) (put f2 s) = (s', r)"
      by (simp add: flush_family_def f1_def f2_def n_def Let_def)
    then show ?thesis by (rule write_and_upload_keys) (use k2 fresh new in simp_all)
  qed
qed

lemma flush_report:
  "flush name env part s = (s', r) \<Longrightarrow> report_ok s \<Longrightarrow> report_ok s'"
  by (auto simp: flush_family_def Let_def report_put elim: write_and_upload_report
      split: option.splits if_splits)

lemma flush_contents:
  assumes "flush name env part s = (s', Inr ())"
  shows "contents s' = contents s"
proof (cases "bt_get (cmp_by rank) part (buffers (get s))")
  case None
  with assms show ?thesis by (simp add: flush_family_def)
next
  case (Some records)
  define f1 where "f1 = (get s)\<lparr>buffers := bt_remove (cmp_by rank) part (buffers (get s))\<rparr>"
  define f2 where "f2 = f1\<lparr>part_numbers := bt_insert (cmp_by rank) part (part_number rank (get s) part + 1) (part_numbers f1)\<rparr>"
  have b: "buffered any f2 = buffered any f1" "buffered any f1 + mset (map any records) = buffered any (get s)"
    using buffered_remove [OF Some] by (simp_all add: f1_def f2_def buffered_def)
  have "(contents (put f1 s) + mset (map any records)) + buffered any f1 = contents s + buffered any f1"
    using contents_put [of f1 s] by (simp add: b(2) [symmetric] ac_simps del: mset_map)
  then have c1: "contents (put f1 s) + mset (map any records) = contents s" by (simp del: mset_map)
  have "contents (put f2 s) + buffered any (get s) = contents (put f1 s) + buffered any (get s)"
    using contents_put [of f1 s] contents_put [of f2 s] b(1) by simp
  then have "contents (put f2 s) = contents (put f1 s)" by simp
  note c = c1 this
  show ?thesis
  proof (cases "records = []")
    case True
    with assms Some c show ?thesis by (simp add: flush_family_def f1_def Let_def)
  next
    case False
    with assms Some have "write_and_upload env name
        (okey part (run_id (config s)) (part_number rank (get s) part + 1)) (wrap records) (put f2 s) = (s', Inr ())"
      by (simp add: flush_family_def f1_def f2_def Let_def)
    from write_and_upload_contents [OF this] c show ?thesis by (simp add: payload_wrap)
  qed
qed

lemma push_contents:
  assumes "push_buffer cmp k r limit (buffers (get s)) = (bufs, fl)"
  shows "contents (put ((get s)\<lparr>buffers := bufs\<rparr>) s) = contents s + {#any r#}"
  using contents_put [of "(get s)\<lparr>buffers := bufs\<rparr>" s] buffered_push [OF assms, of any] by simp

lemma push_keys:
  "keys_ok s \<Longrightarrow> keys_ok (put ((get s)\<lparr>buffers := bufs\<rparr>) s)"
  using issued_put [of s _ "(get s)\<lparr>buffers := bufs\<rparr>"] by (auto simp: keys_ok_def part_number_def)

lemma push_fam_ok:
  assumes "push_buffer (cmp_by rank) k r limit (buffers (get s)) = (bufs, fl)" "fam_ok s" "good k"
  shows "fam_ok (put ((get s)\<lparr>buffers := bufs\<rparr>) s)"
  using assms by (auto simp: push_buffer_def fam_ok_def Let_def intro: bt.wf_insert)

lemma flush_fam_ok:
  assumes "flush name env part s = (s', r)" "fam_ok s"
  shows "fam_ok s'"
proof -
  have written: "fam_ok s'" if w: "write_and_upload env name k pl (put f s) = (s', r)" and "fam_ok (put f s)" for f k pl
    using w
  proof (cases rule: write_and_upload_cases)
    case (written path)
    have "get s' = get (put f s)" by (rule get_cong) (simp_all add: written)
    with that(2) show ?thesis by (simp add: fam_ok_def)
  qed (use that in simp)
  have taken: "fam_ok (put ((get s)\<lparr>buffers := bt_remove (cmp_by rank) part (buffers (get s))\<rparr>) s)"
    "fam_ok (put ((get s)\<lparr>buffers := bt_remove (cmp_by rank) part (buffers (get s)),
      part_numbers := bt_insert (cmp_by rank) part n (part_numbers (get s))\<rparr>) s)" for n
    using assms(2) by (simp_all add: fam_ok_def bt.wf_remove ranked.wf_insert)
  show ?thesis
    using assms taken(1) written [OF _ taken(2)]
    by (auto simp: flush_family_def Let_def split: option.splits if_splits)
qed

lemma flush_buffers:
  assumes "flush name env part s = (s', r)"
  shows "buffers (get s') = bt_remove (cmp_by rank) part (buffers (get s))"
proof (cases "bt_get (cmp_by rank) part (buffers (get s))")
  case None
  then have "bt_remove (cmp_by rank) part (buffers (get s)) = buffers (get s)" by (rule bt_remove_absent)
  with None assms show ?thesis by (simp add: flush_family_def)
next
  case (Some records)
  have "get s' = get (put f s)" if w: "write_and_upload env name k pl (put f s) = (s', r)" for f k pl
    using w
  proof (cases rule: write_and_upload_cases)
    case (written path)
    show ?thesis by (rule get_cong) (simp_all add: written)
  qed simp
  with assms Some show ?thesis by (fastforce simp: flush_family_def Let_def split: if_splits)
qed

lemma flush_each_spec:
  assumes "flush_each (flush name env) ks s = (s', r)" "list_all good ks"
    and "keys_ok s" "report_ok s" "fam_ok s"
  shows "keys_ok s' \<and> report_ok s' \<and> fam_ok s' \<and> (r = Inr () \<longrightarrow> contents s' = contents s)"
  using assms
proof (induction ks arbitrary: s)
  case (Cons k ks)
  obtain s1 r1 where f: "flush name env k s = (s1, r1)" by fastforce
  from Cons.prems have "good k" by simp
  note s1 = flush_keys [OF f Cons.prems(3) this Cons.prems(5)] flush_report [OF f Cons.prems(4)]
    flush_fam_ok [OF f Cons.prems(5)]
  show ?case
  proof (cases r1)
    case (Inl e)
    with Cons.prems f s1 show ?thesis by auto
  next
    case (Inr u)
    with Cons.prems f have "flush_each (flush name env) ks s1 = (s', r)" by simp
    from Cons.IH [OF this _ s1] Cons.prems f flush_contents [of name env k s s1] Inr show ?thesis by simp
  qed
qed simp

lemma flush_each_empties:
  assumes "flush_each (flush name env) ks s = (s', r)" "ks = bt_keys (buffers (get s))" "r = Inr ()"
  shows "buffers (get s') = []"
  using assms
proof (induction ks arbitrary: s)
  case (Cons k ks)
  obtain s1 r1 where f: "flush name env k s = (s1, r1)" by fastforce
  with Cons.prems(1,3) have rest: "flush_each (flush name env) ks s1 = (s', r)"
    by (cases r1) auto
  from Cons.prems(2) obtain v m where "buffers (get s) = (k, v) # m" "ks = bt_keys m"
    by (cases "buffers (get s)") (auto simp: bt_keys_def)
  with flush_buffers [OF f] have "ks = bt_keys (buffers (get s1))" by (simp add: cmp_by_def)
  with Cons.IH [OF rest] Cons.prems(3) show ?case by simp
qed (simp add: bt_keys_def)

end

section \<open>The four families\<close>

interpretation raw_fam: sink_family raw "\<lambda>f s. s\<lparr>raw := f\<rparr>" raw_rank raw_object_key RawPayload AnyRaw raw_key_ok
proof unfold_locales
  show "a = b" if "raw_rank a = raw_rank b" for a b
    using that by (cases a; cases b) (simp add: raw_rank_def)
  show "issued s (raw_object_key p (run_id (config s)) n)"
    if "raw_key_ok p" "n \<le> part_number raw_rank (raw s) p" for p n and s :: l0_sink
    using that unfolding issued_def by blast
  show "n \<le> part_number raw_rank (raw s) p"
    if "raw_key_ok p" "issued s (raw_object_key p (run_id (config s)) n)" for p n and s :: l0_sink
    using that by (auto simp: issued_def raw_object_key_inj)
  show "issued (s\<lparr>raw := f\<rparr>) key"
    if "issued s key" "\<And>p. part_number raw_rank (raw s) p \<le> part_number raw_rank f p" for s :: l0_sink and key f
    using that(1) le_trans [OF _ that(2)] unfolding issued_def by simp blast
qed (simp_all add: contents_def report_ok_def ac_simps)

interpretation health_fam: sink_family health "\<lambda>f s. s\<lparr>health := f\<rparr>" health_rank health_object_key
    HealthPayload AnyHealth health_key_ok
proof unfold_locales
  show "a = b" if "health_rank a = health_rank b" for a b
    using that by (cases a; cases b) (simp add: health_rank_def)
  show "issued s (health_object_key p (run_id (config s)) n)"
    if "health_key_ok p" "n \<le> part_number health_rank (health s) p" for p n and s :: l0_sink
    using that unfolding issued_def by blast
  show "n \<le> part_number health_rank (health s) p"
    if "health_key_ok p" "issued s (health_object_key p (run_id (config s)) n)" for p n and s :: l0_sink
    using that family_keys_disjoint [THEN not_sym] by (auto simp: issued_def health_object_key_inj)
  show "issued (s\<lparr>health := f\<rparr>) key"
    if "issued s key" "\<And>p. part_number health_rank (health s) p \<le> part_number health_rank f p" for s :: l0_sink and key f
    using that(1) le_trans [OF _ that(2)] unfolding issued_def by simp blast
qed (simp_all add: contents_def report_ok_def ac_simps)

interpretation symbol_fam: sink_family symbol_health "\<lambda>f s. s\<lparr>symbol_health := f\<rparr>" health_rank
    symbol_health_object_key SymbolHealthPayload AnySymbol health_key_ok
proof unfold_locales
  show "a = b" if "health_rank a = health_rank b" for a b
    using that by (cases a; cases b) (simp add: health_rank_def)
  show "issued s (symbol_health_object_key p (run_id (config s)) n)"
    if "health_key_ok p" "n \<le> part_number health_rank (symbol_health s) p" for p n and s :: l0_sink
    using that unfolding issued_def by blast
  show "n \<le> part_number health_rank (symbol_health s) p"
    if "health_key_ok p" "issued s (symbol_health_object_key p (run_id (config s)) n)" for p n and s :: l0_sink
    using that family_keys_disjoint [THEN not_sym] by (auto simp: issued_def symbol_health_object_key_inj)
  show "issued (s\<lparr>symbol_health := f\<rparr>) key"
    if "issued s key" "\<And>p. part_number health_rank (symbol_health s) p \<le> part_number health_rank f p"
    for s :: l0_sink and key f
    using that(1) le_trans [OF _ that(2)] unfolding issued_def by simp blast
qed (simp_all add: contents_def report_ok_def ac_simps)

interpretation gap_fam: sink_family gap "\<lambda>f s. s\<lparr>gap := f\<rparr>" gap_rank gap_object_key GapPayload AnyGap gap_key_ok
proof unfold_locales
  show "a = b" if "gap_rank a = gap_rank b" for a b
    using that by (cases a; cases b) (simp add: gap_rank_def)
  show "issued s (gap_object_key p (run_id (config s)) n)"
    if "gap_key_ok p" "n \<le> part_number gap_rank (gap s) p" for p n and s :: l0_sink
    using that unfolding issued_def by blast
  show "n \<le> part_number gap_rank (gap s) p"
    if "gap_key_ok p" "issued s (gap_object_key p (run_id (config s)) n)" for p n and s :: l0_sink
    using that family_keys_disjoint [THEN not_sym] by (auto simp: issued_def gap_object_key_inj)
  show "issued (s\<lparr>gap := f\<rparr>) key"
    if "issued s key" "\<And>p. part_number gap_rank (gap s) p \<le> part_number gap_rank f p" for s :: l0_sink and key f
    using that(1) le_trans [OF _ that(2)] unfolding issued_def by simp blast
qed (simp_all add: contents_def report_ok_def ac_simps)

lemma flush_raw_eq: "flush_raw_partition = raw_fam.flush ''raw_market_event''"
  by (simp add: flush_raw_partition_def flush_family_def next_part_number_def part_number_def Let_def fun_eq_iff
      split: option.split)

lemma flush_health_eq: "flush_health_partition = health_fam.flush ''source_health''"
  by (simp add: flush_health_partition_def flush_family_def next_part_number_def part_number_def Let_def fun_eq_iff
      split: option.split)

lemma flush_symbol_eq: "flush_symbol_health_partition = symbol_fam.flush ''symbol_health''"
  by (simp add: flush_symbol_health_partition_def flush_family_def next_part_number_def part_number_def Let_def
      fun_eq_iff split: option.split)

lemma flush_gap_eq: "flush_gap_partition = gap_fam.flush ''gap_alert''"
  by (simp add: flush_gap_partition_def flush_family_def next_part_number_def part_number_def Let_def fun_eq_iff
      split: option.split)

section \<open>The sink invariant\<close>

definition sink_inv :: "l0_sink \<Rightarrow> bool" where
  "sink_inv s \<longleftrightarrow> keys_ok s \<and> report_ok s \<and> raw_fam.fam_ok s \<and> health_fam.fam_ok s \<and> symbol_fam.fam_ok s \<and>
     gap_fam.fam_ok s"

lemmas fam_ok_defs = raw_fam.fam_ok_def health_fam.fam_ok_def symbol_fam.fam_ok_def gap_fam.fam_ok_def

lemma write_and_upload_frame:
  "write_and_upload env f k pl s = (s', r) \<Longrightarrow> raw s' = raw s \<and> health s' = health s \<and>
     symbol_health s' = symbol_health s \<and> gap s' = gap s \<and> config s' = config s \<and>
     live_publisher s' = live_publisher s \<and> next_ordinal s' = next_ordinal s"
  by (erule write_and_upload_cases)
    (auto simp: upload_def record_uploaded_object_def record_failed_upload_def split: sum.splits prod.splits)

lemma flush_raw_frame: "flush_raw_partition env p s = (s', r) \<Longrightarrow> health s' = health s \<and>
    symbol_health s' = symbol_health s \<and> gap s' = gap s \<and> config s' = config s \<and> next_ordinal s' = next_ordinal s"
  by (auto simp: flush_raw_partition_def Let_def dest!: write_and_upload_frame split: option.splits if_splits prod.splits)

lemma flush_health_frame: "flush_health_partition env p s = (s', r) \<Longrightarrow> raw s' = raw s \<and>
    symbol_health s' = symbol_health s \<and> gap s' = gap s \<and> config s' = config s \<and> next_ordinal s' = next_ordinal s"
  by (auto simp: flush_health_partition_def Let_def dest!: write_and_upload_frame split: option.splits if_splits prod.splits)

lemma flush_symbol_frame: "flush_symbol_health_partition env p s = (s', r) \<Longrightarrow> raw s' = raw s \<and>
    health s' = health s \<and> gap s' = gap s \<and> config s' = config s \<and> next_ordinal s' = next_ordinal s"
  by (auto simp: flush_symbol_health_partition_def Let_def dest!: write_and_upload_frame
      split: option.splits if_splits prod.splits)

lemma flush_gap_frame: "flush_gap_partition env p s = (s', r) \<Longrightarrow> raw s' = raw s \<and>
    health s' = health s \<and> symbol_health s' = symbol_health s \<and> config s' = config s \<and> next_ordinal s' = next_ordinal s"
  by (auto simp: flush_gap_partition_def Let_def dest!: write_and_upload_frame split: option.splits if_splits prod.splits)

lemma flush_raw_inv:
  "sink_inv s \<Longrightarrow> raw_key_ok p \<Longrightarrow> flush_raw_partition env p s = (s', r) \<Longrightarrow>
     sink_inv s' \<and> (r = Inr () \<longrightarrow> contents s' = contents s)"
  using flush_raw_frame [of env p s s' r] raw_fam.flush_each_spec [of "''raw_market_event''" env "[p]" s s' r]
  by (cases r) (auto simp: sink_inv_def flush_raw_eq health_fam.fam_ok_def symbol_fam.fam_ok_def gap_fam.fam_ok_def)

lemma flush_health_inv:
  "sink_inv s \<Longrightarrow> health_key_ok p \<Longrightarrow> flush_health_partition env p s = (s', r) \<Longrightarrow>
     sink_inv s' \<and> (r = Inr () \<longrightarrow> contents s' = contents s)"
  using flush_health_frame [of env p s s' r] health_fam.flush_each_spec [of "''source_health''" env "[p]" s s' r]
  by (cases r) (auto simp: sink_inv_def flush_health_eq raw_fam.fam_ok_def symbol_fam.fam_ok_def gap_fam.fam_ok_def)

lemma flush_symbol_inv:
  "sink_inv s \<Longrightarrow> health_key_ok p \<Longrightarrow> flush_symbol_health_partition env p s = (s', r) \<Longrightarrow>
     sink_inv s' \<and> (r = Inr () \<longrightarrow> contents s' = contents s)"
  using flush_symbol_frame [of env p s s' r] symbol_fam.flush_each_spec [of "''symbol_health''" env "[p]" s s' r]
  by (cases r) (auto simp: sink_inv_def flush_symbol_eq raw_fam.fam_ok_def health_fam.fam_ok_def gap_fam.fam_ok_def)

lemma flush_gap_inv:
  "sink_inv s \<Longrightarrow> gap_key_ok p \<Longrightarrow> flush_gap_partition env p s = (s', r) \<Longrightarrow>
     sink_inv s' \<and> (r = Inr () \<longrightarrow> contents s' = contents s)"
  using flush_gap_frame [of env p s s' r] gap_fam.flush_each_spec [of "''gap_alert''" env "[p]" s s' r]
  by (cases r) (auto simp: sink_inv_def flush_gap_eq raw_fam.fam_ok_def health_fam.fam_ok_def symbol_fam.fam_ok_def)

lemma flush_each_inv:
  assumes step: "\<And>k s s' r. P k \<Longrightarrow> sink_inv s \<Longrightarrow> fl k s = (s', r) \<Longrightarrow>
      sink_inv s' \<and> (r = Inr () \<longrightarrow> contents s' = contents s)"
    and "list_all P ks" "sink_inv s" "flush_each fl ks s = (s', r)"
  shows "sink_inv s' \<and> (r = Inr () \<longrightarrow> contents s' = contents s)"
  using assms(2-)
proof (induction ks arbitrary: s)
  case (Cons k ks)
  obtain s1 r1 where f: "fl k s = (s1, r1)" by fastforce
  with step [of k s s1 r1] Cons show ?case by (cases r1) auto
qed simp

lemma flush_each_frame:
  assumes "\<And>k s s' r. fl k s = (s', r) \<Longrightarrow> g s' = g s" and "flush_each fl ks s = (s', r)"
  shows "g s' = g s"
  using assms(2)
proof (induction ks arbitrary: s)
  case (Cons k ks)
  obtain s1 r1 where f: "fl k s = (s1, r1)" by fastforce
  with assms(1) [OF f] Cons show ?case by (cases r1) auto
qed simp

lemma good_keys: "bt_wf rank good m \<Longrightarrow> list_all good (bt_keys m)"
  by (auto simp: bt_wf_def list_all_iff bt_keys_def)

lemma sink_inv_keys:
  assumes "sink_inv s"
  shows "list_all raw_key_ok (bt_keys (buffers (raw s)))" "list_all health_key_ok (bt_keys (buffers (health s)))"
    "list_all health_key_ok (bt_keys (buffers (symbol_health s)))" "list_all gap_key_ok (bt_keys (buffers (gap s)))"
  using assms good_keys by (auto simp: sink_inv_def fam_ok_defs)

text \<open>The four loops of \<open>flush_all\<close>.\<close>

lemma raw_stage:
  assumes "flush_each (flush_raw_partition env) (bt_keys (buffers (raw s))) s = (s', r)" "sink_inv s"
  shows "sink_inv s' \<and> (r = Inr () \<longrightarrow> contents s' = contents s \<and> buffers (raw s') = [])"
proof -
  have "sink_inv s' \<and> (r = Inr () \<longrightarrow> contents s' = contents s)"
    by (rule flush_each_inv [OF flush_raw_inv sink_inv_keys(1) [OF assms(2)] assms(2,1)])
  then show ?thesis
    using raw_fam.flush_each_empties [OF assms(1) [unfolded flush_raw_eq] refl] by simp
qed

lemma health_stage:
  assumes "flush_each (flush_health_partition env) (bt_keys (buffers (health s))) s = (s', r)" "sink_inv s"
  shows "sink_inv s' \<and> raw s' = raw s \<and>
    (r = Inr () \<longrightarrow> contents s' = contents s \<and> buffers (health s') = [])"
proof -
  have "sink_inv s' \<and> (r = Inr () \<longrightarrow> contents s' = contents s)"
    by (rule flush_each_inv [OF flush_health_inv sink_inv_keys(2) [OF assms(2)] assms(2,1)])
  moreover have "raw s' = raw s"
    by (rule flush_each_frame [OF _ assms(1)]) (drule flush_health_frame, simp)
  ultimately show ?thesis
    using health_fam.flush_each_empties [OF assms(1) [unfolded flush_health_eq] refl] by simp
qed

lemma symbol_stage:
  assumes "flush_each (flush_symbol_health_partition env) (bt_keys (buffers (symbol_health s))) s = (s', r)" "sink_inv s"
  shows "sink_inv s' \<and> raw s' = raw s \<and> health s' = health s \<and>
    (r = Inr () \<longrightarrow> contents s' = contents s \<and> buffers (symbol_health s') = [])"
proof -
  have "sink_inv s' \<and> (r = Inr () \<longrightarrow> contents s' = contents s)"
    by (rule flush_each_inv [OF flush_symbol_inv sink_inv_keys(3) [OF assms(2)] assms(2,1)])
  moreover have "raw s' = raw s"
    by (rule flush_each_frame [OF _ assms(1)]) (drule flush_symbol_frame, simp)
  moreover have "health s' = health s"
    by (rule flush_each_frame [OF _ assms(1)]) (drule flush_symbol_frame, simp)
  ultimately show ?thesis
    using symbol_fam.flush_each_empties [OF assms(1) [unfolded flush_symbol_eq] refl] by simp
qed

lemma gap_stage:
  assumes "flush_each (flush_gap_partition env) (bt_keys (buffers (gap s))) s = (s', r)" "sink_inv s"
  shows "sink_inv s' \<and> raw s' = raw s \<and> health s' = health s \<and> symbol_health s' = symbol_health s \<and>
    (r = Inr () \<longrightarrow> contents s' = contents s \<and> buffers (gap s') = [])"
proof -
  have "sink_inv s' \<and> (r = Inr () \<longrightarrow> contents s' = contents s)"
    by (rule flush_each_inv [OF flush_gap_inv sink_inv_keys(4) [OF assms(2)] assms(2,1)])
  moreover have "raw s' = raw s"
    by (rule flush_each_frame [OF _ assms(1)]) (drule flush_gap_frame, simp)
  moreover have "health s' = health s"
    by (rule flush_each_frame [OF _ assms(1)]) (drule flush_gap_frame, simp)
  moreover have "symbol_health s' = symbol_health s"
    by (rule flush_each_frame [OF _ assms(1)]) (drule flush_gap_frame, simp)
  ultimately show ?thesis
    using gap_fam.flush_each_empties [OF assms(1) [unfolded flush_gap_eq] refl] by simp
qed

lemma flush_all_spec:
  assumes "flush_all env s = (s', r)" "sink_inv s"
  shows "sink_inv s' \<and> (r = Inr () \<longrightarrow> contents s' = contents s \<and> spooled (world s') = contents s)"
proof -
  obtain s1 r1 where 1: "flush_each (flush_raw_partition env) (bt_keys (buffers (raw s))) s = (s1, r1)" by fastforce
  obtain s2 r2 where 2: "flush_each (flush_health_partition env) (bt_keys (buffers (health s1))) s1 = (s2, r2)" by fastforce
  obtain s3 r3 where 3: "flush_each (flush_symbol_health_partition env) (bt_keys (buffers (symbol_health s2))) s2 = (s3, r3)"
    by fastforce
  obtain s4 r4 where 4: "flush_each (flush_gap_partition env) (bt_keys (buffers (gap s3))) s3 = (s4, r4)" by fastforce
  note st1 = raw_stage [OF 1 assms(2)]
  note st2 = health_stage [OF 2 conjunct1 [OF st1]]
  note st3 = symbol_stage [OF 3 conjunct1 [OF st2]]
  note st4 = gap_stage [OF 4 conjunct1 [OF st3]]
  have drained: "contents s4 = spooled (world s4)" if "r1 = Inr ()" "r2 = Inr ()" "r3 = Inr ()" "r4 = Inr ()"
    using that st1 st2 st3 st4 by (simp add: contents_def buffered_def bt_values_def)
  show ?thesis
    using assms(1) 1 2 3 4 st1 st2 st3 st4 drained
    by (cases r1; cases r2; cases r3; cases r4) (auto simp: flush_all_def seq_result_def split: if_splits)
qed

section \<open>Appends\<close>

definition params_ok :: "l0_params \<Rightarrow> bool" where
  "params_ok p \<longleftrightarrow> (\<forall>t d h. p_calendar p t = Some (d, h) \<longrightarrow> no_slash d)"

lemma time_parts_ok: "params_ok p \<Longrightarrow> no_slash (fst (time_parts p t))"
  by (auto simp: time_parts_def params_ok_def no_slash_def split: option.splits)

lemma partition_ok:
  assumes "params_ok p"
  shows "no_slash (rr_venue r) \<Longrightarrow> no_slash (rr_event_type r) \<Longrightarrow> raw_key_ok (raw_partition_for p r n)"
    and "no_slash (sr_venue h) \<Longrightarrow> health_key_ok (health_partition_for p h n)"
    and "no_slash (yr_venue y) \<Longrightarrow> health_key_ok (symbol_health_partition_for p y n)"
    and "no_slash (gr_venue g) \<Longrightarrow> no_slash (gr_gap_type g) \<Longrightarrow> gap_key_ok (gap_partition_for p g n)"
  by (simp_all add: raw_partition_for_def health_partition_for_def symbol_health_partition_for_def
      gap_partition_for_def raw_key_ok_def health_key_ok_def gap_key_ok_def Let_def case_prod_beta
      time_parts_ok [OF assms])

lemma sink_inv_ordinal [simp]: "sink_inv (s\<lparr>next_ordinal := n\<rparr>) = sink_inv s"
  by (simp add: sink_inv_def keys_ok_def report_ok_def fam_ok_defs issued_def)

lemma contents_ordinal [simp]: "contents (s\<lparr>next_ordinal := n\<rparr>) = contents s"
  by (simp add: contents_def)

lemma append_raw_spec:
  assumes "append_raw_market_event p env d s = (s', r)" "sink_inv s" "params_ok p"
    and "no_slash (rd_venue d)" "no_slash (rd_event_type d)"
  shows "sink_inv s' \<and>
    (r = Inr () \<longrightarrow> contents s' = contents s + {#AnyRaw (raw_from_draft p d (run_id (config s)) (next_ordinal s))#})"
proof -
  define rec where "rec = raw_from_draft p d (run_id (config s)) (next_ordinal s)"
  define s1 where "s1 = s\<lparr>next_ordinal := next_ordinal s + 1\<rparr>"
  define part where "part = raw_partition_for p rec (shard_count (config s))"
  obtain bufs fl where push: "push_buffer (cmp_by raw_rank) part rec (flush_records (config s)) (buffers (raw s1)) = (bufs, fl)"
    by fastforce
  define s2 where "s2 = s1\<lparr>raw := (raw s1)\<lparr>buffers := bufs\<rparr>\<rparr>"
  have part: "raw_key_ok part"
    unfolding part_def by (rule partition_ok) (use assms in \<open>simp_all add: rec_def raw_from_draft_def\<close>)
  have i1: "sink_inv s1" using assms(2) by (simp add: s1_def)
  have c2: "contents s2 = contents s + {#AnyRaw rec#}"
    using raw_fam.push_contents [OF push] by (simp add: s2_def s1_def)
  have "raw_fam.fam_ok s2" "keys_ok s2"
    using i1 raw_fam.push_fam_ok [OF push _ part] raw_fam.push_keys [of s1 bufs]
    by (simp_all add: s2_def sink_inv_def)
  then have i2: "sink_inv s2"
    using i1 by (auto simp: sink_inv_def s2_def report_ok_def fam_ok_defs)
  have "append_raw_market_event p env d s = (case publish_live_tick p env s1 rec of
      Inl e \<Rightarrow> (s1, Inl e) | Inr _ \<Rightarrow> if fl then flush_raw_partition env part s2 else (s2, Inr ()))"
    using push
    by (simp add: append_raw_market_event_def take_ordinal_def Let_def case_prod_beta rec_def s1_def s2_def part_def
        split: sum.split)
  then show ?thesis
    using assms(1) flush_raw_inv [OF i2 part, of env s' r] i1 i2 c2
    by (cases "publish_live_tick p env s1 rec") (auto simp: rec_def [symmetric] split: if_splits)
qed

lemma append_health_spec:
  assumes "append_source_health p env d s = (s', r)" "sink_inv s" "params_ok p" "no_slash (sd_venue d)"
  shows "sink_inv s' \<and>
    (r = Inr () \<longrightarrow> contents s' = contents s + {#AnyHealth (health_from_draft p d (run_id (config s)) (next_ordinal s))#})"
proof -
  define rec where "rec = health_from_draft p d (run_id (config s)) (next_ordinal s)"
  define s1 where "s1 = s\<lparr>next_ordinal := next_ordinal s + 1\<rparr>"
  define part where "part = health_partition_for p rec (shard_count (config s))"
  obtain bufs fl where push: "push_buffer (cmp_by health_rank) part rec (flush_records (config s)) (buffers (health s1)) = (bufs, fl)"
    by fastforce
  define s2 where "s2 = s1\<lparr>health := (health s1)\<lparr>buffers := bufs\<rparr>\<rparr>"
  have part: "health_key_ok part"
    unfolding part_def by (rule partition_ok) (use assms in \<open>simp_all add: rec_def health_from_draft_def\<close>)
  have i1: "sink_inv s1" using assms(2) by (simp add: s1_def)
  have c2: "contents s2 = contents s + {#AnyHealth rec#}"
    using health_fam.push_contents [OF push] by (simp add: s2_def s1_def)
  have "health_fam.fam_ok s2" "keys_ok s2"
    using i1 health_fam.push_fam_ok [OF push _ part] health_fam.push_keys [of s1 bufs]
    by (simp_all add: s2_def sink_inv_def)
  then have i2: "sink_inv s2"
    using i1 by (auto simp: sink_inv_def s2_def report_ok_def fam_ok_defs)
  have "append_source_health p env d s = (if fl then flush_health_partition env part s2 else (s2, Inr ()))"
    using push
    by (simp add: append_source_health_def take_ordinal_def Let_def case_prod_beta rec_def s1_def s2_def part_def)
  then show ?thesis
    using assms(1) flush_health_inv [OF i2 part, of env s' r] i2 c2 by (auto simp: rec_def [symmetric] split: if_splits)
qed

lemma append_symbol_spec:
  assumes "append_symbol_health p env d s = (s', r)" "sink_inv s" "params_ok p" "no_slash (yd_venue d)"
  shows "sink_inv s' \<and>
    (r = Inr () \<longrightarrow> contents s' = contents s + {#AnySymbol (symbol_health_from_draft p d (run_id (config s)) (next_ordinal s))#})"
proof -
  define rec where "rec = symbol_health_from_draft p d (run_id (config s)) (next_ordinal s)"
  define s1 where "s1 = s\<lparr>next_ordinal := next_ordinal s + 1\<rparr>"
  define part where "part = symbol_health_partition_for p rec (shard_count (config s))"
  obtain bufs fl where push: "push_buffer (cmp_by health_rank) part rec (flush_records (config s)) (buffers (symbol_health s1)) = (bufs, fl)"
    by fastforce
  define s2 where "s2 = s1\<lparr>symbol_health := (symbol_health s1)\<lparr>buffers := bufs\<rparr>\<rparr>"
  have part: "health_key_ok part"
    unfolding part_def by (rule partition_ok) (use assms in \<open>simp_all add: rec_def symbol_health_from_draft_def Let_def\<close>)
  have i1: "sink_inv s1" using assms(2) by (simp add: s1_def)
  have c2: "contents s2 = contents s + {#AnySymbol rec#}"
    using symbol_fam.push_contents [OF push] by (simp add: s2_def s1_def)
  have "symbol_fam.fam_ok s2" "keys_ok s2"
    using i1 symbol_fam.push_fam_ok [OF push _ part] symbol_fam.push_keys [of s1 bufs]
    by (simp_all add: s2_def sink_inv_def)
  then have i2: "sink_inv s2"
    using i1 by (auto simp: sink_inv_def s2_def report_ok_def fam_ok_defs)
  have "append_symbol_health p env d s = (if fl then flush_symbol_health_partition env part s2 else (s2, Inr ()))"
    using push
    by (simp add: append_symbol_health_def take_ordinal_def Let_def case_prod_beta rec_def s1_def s2_def part_def)
  then show ?thesis
    using assms(1) flush_symbol_inv [OF i2 part, of env s' r] i2 c2 by (auto simp: rec_def [symmetric] split: if_splits)
qed

lemma append_gap_spec:
  assumes "append_gap_alert p env d s = (s', r)" "sink_inv s" "params_ok p" "no_slash (gd_venue d)"
    "no_slash (gd_gap_type d)"
  shows "sink_inv s' \<and>
    (r = Inr () \<longrightarrow> contents s' = contents s + {#AnyGap (gap_from_draft p d (run_id (config s)) (next_ordinal s))#})"
proof -
  define rec where "rec = gap_from_draft p d (run_id (config s)) (next_ordinal s)"
  define s1 where "s1 = s\<lparr>next_ordinal := next_ordinal s + 1\<rparr>"
  define part where "part = gap_partition_for p rec (shard_count (config s))"
  obtain bufs fl where push: "push_buffer (cmp_by gap_rank) part rec (flush_records (config s)) (buffers (gap s1)) = (bufs, fl)"
    by fastforce
  define s2 where "s2 = s1\<lparr>gap := (gap s1)\<lparr>buffers := bufs\<rparr>\<rparr>"
  have part: "gap_key_ok part"
    unfolding part_def by (rule partition_ok) (use assms in \<open>simp_all add: rec_def gap_from_draft_def\<close>)
  have i1: "sink_inv s1" using assms(2) by (simp add: s1_def)
  have c2: "contents s2 = contents s + {#AnyGap rec#}"
    using gap_fam.push_contents [OF push] by (simp add: s2_def s1_def)
  have "gap_fam.fam_ok s2" "keys_ok s2"
    using i1 gap_fam.push_fam_ok [OF push _ part] gap_fam.push_keys [of s1 bufs]
    by (simp_all add: s2_def sink_inv_def)
  then have i2: "sink_inv s2"
    using i1 by (auto simp: sink_inv_def s2_def report_ok_def fam_ok_defs)
  have "append_gap_alert p env d s = (if fl then flush_gap_partition env part s2 else (s2, Inr ()))"
    using push
    by (simp add: append_gap_alert_def take_ordinal_def Let_def case_prod_beta rec_def s1_def s2_def part_def)
  then show ?thesis
    using assms(1) flush_gap_inv [OF i2 part, of env s' r] i2 c2 by (auto simp: rec_def [symmetric] split: if_splits)
qed

section \<open>Reachable sinks\<close>

inductive sink_reach :: "l0_params \<Rightarrow> l0_sink \<Rightarrow> bool" for p where
  start: "sink_new new_uploader connect cfg = Inr s \<Longrightarrow> sink_reach p s"
| raw_event: "sink_reach p s \<Longrightarrow> no_slash (rd_venue d) \<Longrightarrow> no_slash (rd_event_type d) \<Longrightarrow>
    append_raw_market_event p env d s = (s', r) \<Longrightarrow> sink_reach p s'"
| source_health: "sink_reach p s \<Longrightarrow> no_slash (sd_venue h) \<Longrightarrow>
    append_source_health p env h s = (s', r) \<Longrightarrow> sink_reach p s'"
| symbol_health: "sink_reach p s \<Longrightarrow> no_slash (yd_venue y) \<Longrightarrow>
    append_symbol_health p env y s = (s', r) \<Longrightarrow> sink_reach p s'"
| gap_alert: "sink_reach p s \<Longrightarrow> no_slash (gd_venue g) \<Longrightarrow> no_slash (gd_gap_type g) \<Longrightarrow>
    append_gap_alert p env g s = (s', r) \<Longrightarrow> sink_reach p s'"
| flush: "sink_reach p s \<Longrightarrow> flush_all env s = (s', r) \<Longrightarrow> sink_reach p s'"
| manifest: "sink_reach p s \<Longrightarrow> upload_manifest env s = (s', m) \<Longrightarrow> sink_reach p s'"

lemma sink_new_inv: "sink_new new_uploader connect cfg = Inr s \<Longrightarrow> sink_inv s"
  by (auto simp: sink_new_def sink_inv_def keys_ok_def report_ok_def fam_ok_defs empty_family_def)

lemma record_uploaded_inv: "sink_inv s \<Longrightarrow> sink_inv (record_uploaded_object x s)"
proof -
  assume s: "sink_inv s"
  obtain os d where po: "push_capped_deque (uploaded_objects s) x MAX_REPORTED_OBJECTS (uploaded_object_dropped_count s) = (os, d)"
    by fastforce
  have "issued (record_uploaded_object x s) = issued s" by (rule issued_frame) simp_all
  moreover from s push_capped [OF po] po have "report_ok (record_uploaded_object x s)"
    by (simp add: sink_inv_def report_ok_def record_uploaded_object_def MAX_REPORTED_OBJECTS_def)
  ultimately show ?thesis using s by (simp add: sink_inv_def keys_ok_def fam_ok_defs)
qed

lemma manifest_inv: "sink_inv s \<Longrightarrow> upload_manifest env s = (s', m) \<Longrightarrow> sink_inv s'"
proof -
  assume s: "sink_inv s" and m: "upload_manifest env s = (s', m)"
  have "sink_inv (s\<lparr>manifest_key := k\<rparr>)" for k
    using s by (simp add: sink_inv_def keys_ok_def report_ok_def fam_ok_defs issued_def)
  with m record_uploaded_inv show ?thesis
    by (auto simp: upload_manifest_def Let_def split: prod.splits sum.splits)
qed

lemma reach_inv: "sink_reach p s \<Longrightarrow> params_ok p \<Longrightarrow> sink_inv s"
proof (induction rule: sink_reach.induct)
  case (start new_uploader connect cfg s)
  then show ?case by (simp add: sink_new_inv)
next
  case (raw_event s d env s' r)
  then show ?case using append_raw_spec by blast
next
  case (source_health s h env s' r)
  then show ?case using append_health_spec by blast
next
  case (symbol_health s y env s' r)
  then show ?case using append_symbol_spec by blast
next
  case (gap_alert s g env s' r)
  then show ?case using append_gap_spec by blast
next
  case (flush s env s' r)
  then show ?case using flush_all_spec by blast
next
  case (manifest s env s' m)
  then show ?case using manifest_inv by blast
qed

section \<open>Properties\<close>

text \<open>C10: in every reachable state of the sink, under every pattern of I/O failures, no object key
  has been used twice, so no object ever overwrites another, and the bucket holds a subsequence of what was
  written to the spool, with the same contents; only uploaded files carry a sealed marker (venues, event types and dates containing no slash).\<close>

theorem object_keys_never_reused:
  assumes "params_ok p" "sink_reach p s"
  shows "distinct (map fst (spool (world s))) \<and> subseq (objects (world s)) (spool (world s)) \<and>
         subseq (sealed (world s)) (map fst (objects (world s)))"
  using reach_inv [OF assms(2,1)] by (simp add: sink_inv_def keys_ok_def)


text \<open>C9: a successful append adds exactly the one record built from the draft with the next ordinal,
  and loses or duplicates nothing that was buffered or written before, whether or not it triggers a flush.\<close>

theorem append_conserves_records:
  assumes "params_ok p" "sink_reach p s" "no_slash (rd_venue d)" "no_slash (rd_event_type d)"
    and "append_raw_market_event p env d s = (s', Inr ())"
  shows "contents s' = contents s + {#AnyRaw (raw_from_draft p d (run_id (config s)) (next_ordinal s))#}"
  using append_raw_spec [OF assms(5) reach_inv [OF assms(2,1)] assms(1,3,4)] by simp

text \<open>C19: after a successful flush every record accepted so far, of all four families, is in a spool
  file exactly once and no buffer holds anything.\<close>

theorem flush_all_drains:
  assumes "params_ok p" "sink_reach p s" "flush_all env s = (s', Inr ())"
  shows "spooled (world s') = contents s \<and> contents s' = contents s"
  using flush_all_spec [OF assms(3) reach_inv [OF assms(2,1)]] by simp

text \<open>C20: when creating the directory or writing the file fails, the flush reports the error and
  exactly the batch being flushed is gone from memory; nothing else changes.\<close>

theorem failed_flush_drops_batch:
  assumes "flush_raw_partition env k s = (s', Inl e)"
  shows "\<exists>rs. bt_get (cmp_by raw_rank) k (buffers (raw s)) = Some rs \<and> rs \<noteq> [] \<and> world s' = world s \<and>
           contents s' + mset (map AnyRaw rs) = contents s"
proof -
  from assms obtain rs where rs: "bt_get (cmp_by raw_rank) k (buffers (raw s)) = Some rs" "rs \<noteq> []"
    by (auto simp: flush_raw_partition_def Let_def split: option.splits if_splits)
  define f where "f = (raw s)\<lparr>buffers := bt_remove (cmp_by raw_rank) k (buffers (raw s)),
    part_numbers := bt_insert (cmp_by raw_rank) k (part_number raw_rank (raw s) k + 1) (part_numbers (raw s))\<rparr>"
  have "write_and_upload env ''raw_market_event'' (raw_object_key k (run_id (config s)) (part_number raw_rank (raw s) k + 1))
      (RawPayload rs) (s\<lparr>raw := f\<rparr>) = (s', Inl e)"
    using assms rs by (simp add: flush_raw_eq flush_family_def f_def Let_def)
  then have "s' = s\<lparr>raw := f\<rparr>" by (cases rule: write_and_upload_cases) simp_all
  moreover have "buffered AnyRaw f + mset (map AnyRaw rs) = buffered AnyRaw (raw s)"
    using buffered_remove [OF rs(1), of AnyRaw] by (simp add: f_def buffered_def)
  ultimately show ?thesis using rs by (simp add: contents_def ac_simps)
qed

section \<open>Witnesses\<close>

definition demo_params :: l0_params where
  "demo_params = \<lparr>p_digest = (\<lambda>s. [length s mod 256]), p_hash = length, p_calendar = (\<lambda>_. Some (''2026-05-05'', 2)),
     p_json = (\<lambda>_. None)\<rparr>"

definition demo_cfg :: l0_storage_config where
  "demo_cfg = \<lparr>bucket = ''b'', region = ''r'', profile = None, spool_root = ''/s'', run_id = ''run-1'',
     flush_records = 2, shard_count = 4, live_nats = None\<rparr>"

definition demo_env :: "bool \<Rightarrow> l0_env" where
  "demo_env disk_ok = \<lparr>e_create_dir = (\<lambda>_. Inr ()), e_write_parquet = (\<lambda>_. if disk_ok then Inr () else Inl (Io ''full'')),
     e_upload_file = (\<lambda>_. Inl (Aws ''down'')), e_write_sealed = (\<lambda>_. True), e_publish = (\<lambda>_ _. Inr []), e_flush_live = Inr (), e_upload_json = (\<lambda>_. Inr ())\<rparr>"

definition demo_sink :: l0_sink where
  "demo_sink = \<lparr>config = demo_cfg, live_publisher = False, raw = empty_family, health = empty_family,
          symbol_health = empty_family, gap = empty_family, uploaded_objects = [],
          uploaded_object_count = 0, uploaded_object_dropped_count = 0, failed_uploads = [],
          failed_upload_count = 0, failed_upload_dropped_count = 0, next_ordinal = 1,
          manifest_key = None, world = \<lparr>spool = [], objects = [], sealed = []\<rparr>\<rparr>"

definition demo_draft :: raw_draft where
  "demo_draft = \<lparr>rd_event_type = ''trade'', rd_venue = ''upbit'', rd_source_role = ''execution'', rd_market_type = ''spot'',
     rd_symbol_native = ''KRW-BTC'', rd_symbol_canonical = ''BTC'', rd_base_asset = ''BTC'', rd_quote_asset = ''KRW'',
     rd_exchange_timestamp_ms = 5, rd_ingest_timestamp_ms = 6, rd_sequence_id = ''s'', rd_sequence_tag = [],
     rd_exchange_sequence = None, rd_diff_first_update_id = None, rd_diff_final_update_id = None,
     rd_is_snapshot = False, rd_stream_type = ''REALTIME'', rd_stream_phase = ''realtime'', rd_payload_json = ''{}''\<rparr>"

definition demo_one :: l0_sink where
  "demo_one = fst (append_raw_market_event demo_params (demo_env True) demo_draft demo_sink)"

lemma demo_params_ok: "params_ok demo_params"
  by (auto simp: params_ok_def demo_params_def no_slash_def)

lemma demo_reach: "sink_reach demo_params demo_sink"
  by (rule sink_reach.start [of "\<lambda>_. Inr ()" "\<lambda>_. Inr ()" demo_cfg])
    (simp add: sink_new_def validate_config_def connect_live_publisher_def demo_cfg_def demo_sink_def)

lemma demo_draft_ok: "no_slash (rd_venue demo_draft)" "no_slash (rd_event_type demo_draft)"
  by (simp_all add: no_slash_def demo_draft_def)

lemma demo_append: "append_raw_market_event demo_params env demo_draft demo_sink = (demo_one, Inr ())"
  by (simp add: append_raw_market_event_def demo_one_def demo_sink_def demo_cfg_def take_ordinal_def push_buffer_def
      publish_live_tick_def empty_family_def Let_def)

lemma demo_one_reach: "sink_reach demo_params demo_one"
  by (rule sink_reach.raw_event [OF demo_reach demo_draft_ok demo_append])

theorem record_ids_unique_witness:
  "rr_event_id (raw_from_draft demo_params demo_draft ''run-1'' 1) \<noteq>
   rr_event_id (raw_from_draft demo_params demo_draft ''run-1'' 2)"
proof
  assume "rr_event_id (raw_from_draft demo_params demo_draft ''run-1'' 1) =
    rr_event_id (raw_from_draft demo_params demo_draft ''run-1'' 2)"
  then have "(1::u64) = 2"
    using record_ids_unique [of demo_params demo_draft "''run-1''" 1 demo_draft "''run-1''" 2] by blast
  then show False by simp
qed

theorem object_keys_never_reused_witness:
  "distinct (map fst (spool (world demo_one)))"
  using object_keys_never_reused [OF demo_params_ok demo_one_reach] by simp


theorem append_conserves_records_witness:
  "contents demo_one = contents demo_sink + {#AnyRaw (raw_from_draft demo_params demo_draft (run_id (config demo_sink)) (next_ordinal demo_sink))#}"
  using append_conserves_records [OF demo_params_ok demo_reach demo_draft_ok demo_append] .

definition demo_drained :: l0_sink where
  "demo_drained = fst (flush_all (demo_env True) demo_one)"

lemma demo_flush: "flush_all (demo_env True) demo_one = (demo_drained, Inr ())"
proof -
  have "snd (flush_all (demo_env True) demo_one) = Inr ()" by code_simp
  then show ?thesis unfolding demo_drained_def by (metis prod.collapse)
qed

theorem flush_all_drains_witness:
  "spooled (world demo_drained) = contents demo_one"
  using flush_all_drains [OF demo_params_ok demo_one_reach demo_flush] by simp

definition demo_key :: raw_partition_key where
  "demo_key = raw_partition_for demo_params (raw_from_draft demo_params demo_draft ''run-1'' 1) 4"

theorem failed_flush_drops_batch_witness:
  "\<exists>s' e. flush_raw_partition (demo_env False) demo_key demo_one = (s', Inl e) \<and> world s' = world demo_one"
proof -
  have "is_err (snd (flush_raw_partition (demo_env False) demo_key demo_one))" by code_simp
  then obtain s' e where f: "flush_raw_partition (demo_env False) demo_key demo_one = (s', Inl e)"
    by (auto simp: is_err_iff) (metis prod.collapse)
  with failed_flush_drops_batch [OF f] show ?thesis by blast
qed

end
