(* ===== verification/Domain_Market.thy ===== *)
theory Domain_Market
  imports Fixed_Decimal
begin

text \<open>
  \<open>crates/crypto-domain/src/{symbol,time_window,enums}.rs\<close> and \<open>market/\<close>: the market-data types of
  the domain crate with their constructors and \<open>validate\<close> methods. The lemmas characterise each
  \<open>validate\<close> by the numeric condition it stands for.
\<close>

section \<open>Data\<close>

record symbol =
  sym_exchange :: string
  sym_base :: string
  sym_quote :: string
  sym_normalized :: string
  sym_raw :: string

definition symbol_new :: "string \<Rightarrow> string \<Rightarrow> string \<Rightarrow> string \<Rightarrow> (symbol, domain_error) result" where
  "symbol_new exchange base quote raw =
     (if trim exchange = [] \<or> trim base = [] \<or> trim quote = [] \<or> trim raw = []
      then Inl (InvalidSymbol (exchange @ '':'' @ base @ ''/'' @ quote @ '':'' @ raw))
      else let b = to_ascii_uppercase (trim base); q = to_ascii_uppercase (trim quote)
           in Inr \<lparr>sym_exchange = trim exchange, sym_base = b, sym_quote = q,
                   sym_normalized = b @ ''-'' @ q, sym_raw = trim raw\<rparr>)"

record time_window =
  start_ms :: timestamp_ms
  end_ms :: timestamp_ms

definition time_window_new :: "timestamp_ms \<Rightarrow> timestamp_ms \<Rightarrow> time_window" where
  "time_window_new s e = \<lparr>start_ms = s, end_ms = e\<rparr>"

definition time_window_validate :: "time_window \<Rightarrow> (unit, domain_error) result" where
  "time_window_validate w =
     (if start_ms w \<ge> end_ms w then Inl (InvalidMarketValue ''time window start must be before end'')
      else Inr ())"

datatype event_quality = QOk | QDelayed | QGap | QStale | QInvalid

record order_book_level =
  price :: fixed_decimal
  quantity :: fixed_decimal

record market_depth_snapshot =
  mds_trace_id :: u64
  mds_exchange :: string
  mds_symbol :: symbol
  mds_event_time_ms :: timestamp_ms
  mds_received_time_ms :: timestamp_ms
  mds_sequence :: u64
  mds_quality :: event_quality
  level_count :: nat
  mds_bids :: "order_book_level list"
  mds_asks :: "order_book_level list"
  bid_depth_qty :: fixed_decimal
  ask_depth_qty :: fixed_decimal
  depth_imbalance_bps :: bps
  mds_spread_bps :: bps

record market_snapshot =
  ms_trace_id :: u64
  ms_exchange :: string
  ms_symbol :: symbol
  ms_event_time_ms :: timestamp_ms
  ms_received_time_ms :: timestamp_ms
  ms_sequence :: u64
  ms_quality :: event_quality
  last_price :: fixed_decimal
  best_bid :: fixed_decimal
  best_ask :: fixed_decimal
  best_bid_qty :: fixed_decimal
  best_ask_qty :: fixed_decimal
  ms_spread_bps :: bps

record cross_sectional_market_frame =
  frame_trace_id :: u64
  frame_exchange :: string
  frame_event_time_ms :: timestamp_ms
  frame_received_time_ms :: timestamp_ms
  frame_sequence :: u64
  markets :: "market_snapshot list"

section \<open>Validation\<close>

definition level_validate :: "order_book_level \<Rightarrow> (unit, domain_error) result" where
  "level_validate l =
     (if \<not> is_positive (price l) \<or> \<not> is_non_negative (quantity l)
      then Inl (InvalidMarketValue ''order book level price and quantity constraints failed'')
      else Inr ())"

definition depth_validate :: "market_depth_snapshot \<Rightarrow> (unit, domain_error) result" where
  "depth_validate s =
     (if mds_trace_id s = 0 then Inl (InvalidMarketValue ''trace id is zero'')
      else if mds_event_time_ms s \<le> 0 \<or> mds_received_time_ms s \<le> 0
      then Inl (InvalidMarketValue ''timestamp must be positive'')
      else if level_count s = 0 \<or> mds_bids s = [] \<or> mds_asks s = []
      then Inl (InvalidMarketValue ''market depth requires at least one bid and ask level'')
      else and_then (try_fold (\<lambda>_ level. level_validate level) () (mds_bids s @ mds_asks s)) (\<lambda>_.
           if \<not> is_non_negative (bid_depth_qty s) \<or> \<not> is_non_negative (ask_depth_qty s)
           then Inl (InvalidMarketValue ''depth quantity constraints failed'')
           else and_then (checked_gt (price (hd (mds_bids s))) (price (hd (mds_asks s)))) (\<lambda>crossed.
                if crossed
                then Inl (InvalidMarketValue ''depth best bid cannot be greater than best ask'')
                else Inr ())))"

definition snapshot_validate :: "market_snapshot \<Rightarrow> (unit, domain_error) result" where
  "snapshot_validate s =
     (if ms_trace_id s = 0 then Inl (InvalidMarketValue ''trace id is zero'')
      else if ms_event_time_ms s \<le> 0 \<or> ms_received_time_ms s \<le> 0
      then Inl (InvalidMarketValue ''timestamp must be positive'')
      else if \<not> is_positive (last_price s) \<or> \<not> is_positive (best_bid s) \<or> \<not> is_positive (best_ask s)
              \<or> \<not> is_non_negative (best_bid_qty s) \<or> \<not> is_non_negative (best_ask_qty s)
      then Inl (InvalidMarketValue ''price and quantity constraints failed'')
      else and_then (checked_gt (best_bid s) (best_ask s)) (\<lambda>crossed.
           if crossed then Inl (InvalidMarketValue ''best bid cannot be greater than best ask'')
           else Inr ()))"

text \<open>The loop over the markets; \<open>symbols\<close> is the local \<open>HashSet\<close>.\<close>

fun frame_markets_validate ::
    "string \<Rightarrow> string set \<Rightarrow> market_snapshot list \<Rightarrow> (unit, domain_error) result" where
  "frame_markets_validate exchange symbols [] = Inr ()"
| "frame_markets_validate exchange symbols (m # ms) =
     and_then (snapshot_validate m) (\<lambda>_.
     if ms_exchange m \<noteq> exchange
     then Inl (InvalidMarketValue ''cross-sectional frame requires one exchange'')
     else if sym_normalized (ms_symbol m) \<in> symbols
     then Inl (InvalidMarketValue (''duplicate symbol in cross-sectional frame: '' @ sym_normalized (ms_symbol m)))
     else frame_markets_validate exchange (insert (sym_normalized (ms_symbol m)) symbols) ms)"

definition frame_validate :: "cross_sectional_market_frame \<Rightarrow> (unit, domain_error) result" where
  "frame_validate f =
     (if frame_trace_id f = 0 then Inl (InvalidMarketValue ''cross-sectional trace id is zero'')
      else if frame_event_time_ms f \<le> 0 \<or> frame_received_time_ms f \<le> 0
      then Inl (InvalidMarketValue ''cross-sectional timestamp must be positive'')
      else if length (markets f) < 2
      then Inl (InvalidMarketValue ''cross-sectional frame requires at least two markets'')
      else frame_markets_validate (frame_exchange f) {} (markets f))"

section \<open>What validation means\<close>

definition snapshot_ok :: "market_snapshot \<Rightarrow> bool" where
  "snapshot_ok s \<longleftrightarrow> ms_trace_id s \<noteq> 0 \<and> 0 < ms_event_time_ms s \<and> 0 < ms_received_time_ms s \<and>
     0 < dec_rat (last_price s) \<and> 0 < dec_rat (best_bid s) \<and> 0 \<le> dec_rat (best_bid_qty s) \<and>
     0 \<le> dec_rat (best_ask_qty s) \<and> dec_rat (best_bid s) \<le> dec_rat (best_ask s)"

definition depth_ok :: "market_depth_snapshot \<Rightarrow> bool" where
  "depth_ok s \<longleftrightarrow> mds_trace_id s \<noteq> 0 \<and> 0 < mds_event_time_ms s \<and> 0 < mds_received_time_ms s \<and>
     level_count s \<noteq> 0 \<and> mds_bids s \<noteq> [] \<and> mds_asks s \<noteq> [] \<and>
     (\<forall>l \<in> set (mds_bids s @ mds_asks s). 0 < dec_rat (price l) \<and> 0 \<le> dec_rat (quantity l)) \<and>
     0 \<le> dec_rat (bid_depth_qty s) \<and> 0 \<le> dec_rat (ask_depth_qty s) \<and>
     dec_rat (price (hd (mds_bids s))) \<le> dec_rat (price (hd (mds_asks s)))"

lemma sign_dec_rat: "is_positive d \<longleftrightarrow> 0 < dec_rat d" "is_non_negative d \<longleftrightarrow> 0 \<le> dec_rat d"
  by (simp_all add: is_positive_def is_non_negative_def dec_rat_def zero_less_divide_iff pos_le_divide_eq)

lemma checked_gt_cases:
  "checked_gt a b = (if is_err (cmp_scaled a b) then Inl ScaleOverflow else Inr (dec_rat b < dec_rat a))"
  using cmp_scaled_total [of a b] by (elim disjE) (auto simp: checked_gt_def cmp_by_def)

lemma try_fold_unit: "try_fold (\<lambda>_. f) () xs = Inr () \<longleftrightarrow> (\<forall>x \<in> set xs. f x = Inr ())"
  by (induction xs) auto

lemma frame_markets_Inr:
  "frame_markets_validate ex S ms = Inr () \<longleftrightarrow>
     (\<forall>m \<in> set ms. snapshot_validate m = Inr () \<and> ms_exchange m = ex \<and> sym_normalized (ms_symbol m) \<notin> S) \<and>
     distinct (map (\<lambda>m. sym_normalized (ms_symbol m)) ms)"
  by (induction ex S ms rule: frame_markets_validate.induct) (auto 4 4 simp: image_iff)

lemma snapshot_validate_sound: "snapshot_validate s = Inr () \<Longrightarrow> snapshot_ok s"
  by (auto simp: snapshot_validate_def snapshot_ok_def checked_gt_cases sign_dec_rat split: if_splits)

lemma snapshot_validate_ok: "\<not> is_err (snapshot_validate s) \<Longrightarrow> snapshot_ok s"
  by (auto simp: not_is_err_iff intro: snapshot_validate_sound)

text \<open>a symbol's own fields construct the same symbol again, so normalisation of symbols is
  stable under storing and reloading.\<close>

theorem symbol_new_stable:
  assumes "symbol_new exchange base quote raw = Inr s"
  shows "symbol_new (sym_exchange s) (sym_base s) (sym_quote s) (sym_raw s) = Inr s"
  using assms by (auto simp: symbol_new_def Let_def split: if_splits)

theorem symbol_new_stable_witness:
  "symbol_new ''binance'' ''BTC'' ''USDT'' ''BTCUSDT'' = symbol_new '' binance'' ''btc '' ''usdt'' ''BTCUSDT''"
proof -
  have "symbol_new '' binance'' ''btc '' ''usdt'' ''BTCUSDT'' = Inr \<lparr>sym_exchange = ''binance'', sym_base = ''BTC'',
     sym_quote = ''USDT'', sym_normalized = ''BTC-USDT'', sym_raw = ''BTCUSDT''\<rparr>"
    by code_simp
  from symbol_new_stable [OF this] this show ?thesis by simp
qed

text \<open>a market snapshot passes validation exactly when its trace id and times are set, its
  prices are positive, its quantities are not negative and, as numbers, the best bid does not exceed the best
  ask; the only other rejection is a pair of prices too far apart in scale to compare.\<close>

theorem snapshot_validate_iff:
  "snapshot_validate s = Inr () \<longleftrightarrow> snapshot_ok s \<and> \<not> is_err (cmp_scaled (best_bid s) (best_ask s))"
  by (auto simp: snapshot_validate_def snapshot_ok_def checked_gt_cases sign_dec_rat)

text \<open>the same for depth snapshots, every level included.\<close>

theorem depth_validate_iff:
  "depth_validate s = Inr () \<longleftrightarrow>
     depth_ok s \<and> \<not> is_err (cmp_scaled (price (hd (mds_bids s))) (price (hd (mds_asks s))))"
  by (auto simp: depth_validate_def depth_ok_def checked_gt_cases sign_dec_rat try_fold_unit
      level_validate_def split: if_splits)

text \<open>a cross-sectional frame is accepted exactly when it has at least two valid markets, all of
  its own exchange and with pairwise different normalised symbols.\<close>

theorem frame_validate_iff:
  "frame_validate f = Inr () \<longleftrightarrow>
     frame_trace_id f \<noteq> 0 \<and> 0 < frame_event_time_ms f \<and> 0 < frame_received_time_ms f \<and>
     2 \<le> length (markets f) \<and>
     list_all (\<lambda>m. snapshot_validate m = Inr () \<and> ms_exchange m = frame_exchange f) (markets f) \<and>
     distinct (map (\<lambda>m. sym_normalized (ms_symbol m)) (markets f))"
  by (auto simp: frame_validate_def frame_markets_Inr not_less list_all_iff)

end
