(* ===== verification/Binance_Normalize.thy ===== *)
theory Binance_Normalize
  imports Domain_Market Depth_Sync Json
begin

text \<open>
  \<open>crates/crypto-market-data/src/stream_config.rs\<close>, \<open>normalize.rs\<close> and \<open>normalize/\<close>: stream
  subscriptions and the translation of Binance messages into domain snapshots. The JSON text parser,
  the typed decoders derived for the message structs and the URL parser are parameters. The lemmas
  show that stream names and kinds correspond, that subscription URLs carry only safe names, and what
  a snapshot marked \<open>Ok\<close> guarantees.
\<close>

section \<open>Stream configuration\<close>

datatype binance_stream_kind =
    KTrade | KTicker | KBookTicker | KDiffDepth100ms | KPartialDepth5 | KPartialDepth10 | KPartialDepth20

definition suffix :: "binance_stream_kind \<Rightarrow> string" where
  "suffix k = (case k of
     KTrade \<Rightarrow> ''trade'' | KTicker \<Rightarrow> ''ticker'' | KBookTicker \<Rightarrow> ''bookTicker''
   | KDiffDepth100ms \<Rightarrow> ''depth@100ms'' | KPartialDepth5 \<Rightarrow> ''depth5''
   | KPartialDepth10 \<Rightarrow> ''depth10'' | KPartialDepth20 \<Rightarrow> ''depth20'')"

definition kind_name :: "binance_stream_kind \<Rightarrow> string" where
  "kind_name k = suffix k"

datatype binance_normalized_market_event = Market market_snapshot | Depth market_depth_snapshot

text \<open>The \<open>HashMap\<close> by raw symbol is only looked up or listed in sorted order.\<close>

record binance_stream_config =
  base_url :: string
  max_latency_ms :: int
  symbols_by_raw :: "symbol str_map"

definition stream_config_new :: "string \<Rightarrow> int \<Rightarrow> symbol list \<Rightarrow> binance_stream_config" where
  "stream_config_new url max_latency symbols =
     \<lparr>base_url = url, max_latency_ms = max_latency,
      symbols_by_raw = foldl (\<lambda>m s. bt_insert str_cmp (to_ascii_uppercase (sym_raw s)) s m) [] symbols\<rparr>"

definition combined_stream_names_for_kinds ::
    "binance_stream_config \<Rightarrow> binance_stream_kind list \<Rightarrow> (string list, market_data_error) result" where
  "combined_stream_names_for_kinds config kinds =
     (if symbols_by_raw config = [] then Inl (InvalidMessage ''at least one symbol is required'')
      else if kinds = [] then Inl (InvalidMessage ''at least one stream kind is required'')
      else Inr (concat (map (\<lambda>s. map (\<lambda>kind. to_ascii_lowercase s @ ''@'' @ suffix kind) kinds)
                  (bt_keys (symbols_by_raw config)))))"

definition config_symbol :: "binance_stream_config \<Rightarrow> string \<Rightarrow> (symbol, market_data_error) result" where
  "config_symbol config raw_symbol =
     ok_or (UnknownSymbol raw_symbol) (bt_get str_cmp (to_ascii_uppercase raw_symbol) (symbols_by_raw config))"

definition valid_stream_name :: "string \<Rightarrow> bool" where
  "valid_stream_name stream \<longleftrightarrow>
     stream \<noteq> [] \<and> list_all (\<lambda>c. is_ascii_alphanumeric c \<or> c = CHR ''@'') stream"

definition validate_combined_stream_names :: "string list \<Rightarrow> (unit, market_data_error) result" where
  "validate_combined_stream_names streams =
     try_fold (\<lambda>_ stream. if valid_stream_name stream then Inr ()
                 else Inl (InvalidMessage (''invalid Binance stream name: '' @ stream))) () streams"

definition validate_binance_stream_base_url :: "parsed_url \<Rightarrow> (unit, market_data_error) result" where
  "validate_binance_stream_base_url base = validate_base_url ''Binance stream base URL'' ''wss'' base"

definition binance_combined_stream_url ::
    "(string \<Rightarrow> (parsed_url, string) result) \<Rightarrow> string \<Rightarrow> string list \<Rightarrow> (string, market_data_error) result" where
  "binance_combined_stream_url url_parse url streams =
     and_then (validate_combined_stream_names streams) (\<lambda>_.
     and_then (map_err (\<lambda>error. InvalidMessage (''invalid Binance stream base URL: '' @ error))
                 (url_parse (trim url))) (\<lambda>base.
     and_then (validate_binance_stream_base_url base) (\<lambda>_.
     Inr (trim_end_slashes (url_as_str base) @ ''/stream?streams='' @ join ''/'' streams))))"

definition combined_stream_url_for_kinds ::
    "(string \<Rightarrow> (parsed_url, string) result) \<Rightarrow> binance_stream_config \<Rightarrow> binance_stream_kind list \<Rightarrow>
     (string, market_data_error) result" where
  "combined_stream_url_for_kinds url_parse config kinds =
     and_then (combined_stream_names_for_kinds config kinds) (\<lambda>streams.
     binance_combined_stream_url url_parse (base_url config) streams)"

definition combined_stream_url ::
    "(string \<Rightarrow> (parsed_url, string) result) \<Rightarrow> binance_stream_config \<Rightarrow> binance_stream_kind \<Rightarrow>
     (string, market_data_error) result" where
  "combined_stream_url url_parse config kind = combined_stream_url_for_kinds url_parse config [kind]"

section \<open>Payloads (normalize/payload.rs)\<close>

record binance_payload =
  payload_stream :: "string option"
  payload_data :: json

definition sequence_from_binance_payload :: "binance_stream_kind \<Rightarrow> json \<Rightarrow> nat option" where
  "sequence_from_binance_payload kind payload =
     (let field = (case kind of KTrade \<Rightarrow> ''t'' | KTicker \<Rightarrow> ''L'' | KBookTicker \<Rightarrow> ''u''
                   | KDiffDepth100ms \<Rightarrow> ''u'' | _ \<Rightarrow> ''lastUpdateId'')
      in Option.bind (jget field payload) as_u64)"

definition stream_symbol :: "string \<Rightarrow> string option" where
  "stream_symbol stream =
     (let s = trim (hd (split_on (CHR ''@'') stream)) in if s = [] then None else Some s)"

text \<open>\<open>decode\<close> is the derived decoder of \<open>BinanceCombinedMessage\<close>.\<close>

definition unwrap_binance_payload ::
    "(json \<Rightarrow> (string \<times> json, string) result) \<Rightarrow> json \<Rightarrow> (binance_payload, market_data_error) result" where
  "unwrap_binance_payload decode value =
     (if jget ''stream'' value \<noteq> None \<and> jget ''data'' value \<noteq> None
      then and_then (map_err JsonError (decode value)) (\<lambda>(stream, data).
           if trim stream = [] then Inl (InvalidMessage ''combined stream name is empty'')
           else Inr \<lparr>payload_stream = Some stream, payload_data = data\<rparr>)
      else Inr \<lparr>payload_stream = None, payload_data = value\<rparr>)"

definition stream_kind_from_stream :: "string \<Rightarrow> (binance_stream_kind, market_data_error) result" where
  "stream_kind_from_stream stream =
     and_then (ok_or (InvalidMessage (''unsupported stream: '' @ stream))
                 (map_option snd (split_once (CHR ''@'') stream))) (\<lambda>sfx.
     if sfx = ''trade'' then Inr KTrade
     else if sfx = ''ticker'' then Inr KTicker
     else if sfx = ''depth@100ms'' then Inr KDiffDepth100ms
     else if sfx = ''depth5'' then Inr KPartialDepth5
     else if sfx = ''depth10'' then Inr KPartialDepth10
     else if sfx = ''depth20'' then Inr KPartialDepth20
     else if sfx = ''bookTicker'' then Inr KBookTicker
     else Inl (InvalidMessage (''unsupported stream: '' @ stream)))"

definition unwrap_combined_payload ::
    "(json \<Rightarrow> (string \<times> json, string) result) \<Rightarrow> json \<Rightarrow> (json, market_data_error) result" where
  "unwrap_combined_payload decode value =
     and_then (unwrap_binance_payload decode value) (\<lambda>p. Inr (payload_data p))"

definition unwrap_combined_stream_payload ::
    "(json \<Rightarrow> (string \<times> json, string) result) \<Rightarrow> json \<Rightarrow> (string \<times> json, market_data_error) result" where
  "unwrap_combined_stream_payload decode value =
     and_then (unwrap_binance_payload decode value) (\<lambda>p.
     and_then (ok_or (InvalidMessage ''combined stream wrapper is required for partial depth payload'')
                 (payload_stream p)) (\<lambda>stream.
     Inr (stream, payload_data p)))"

section \<open>Quality, spread and imbalance (normalize/math.rs)\<close>

definition calculate_depth_imbalance_bps ::
    "fixed_decimal \<Rightarrow> fixed_decimal \<Rightarrow> (bps, market_data_error) result" where
  "calculate_depth_imbalance_bps bid_qty ask_qty =
     and_then (map_err DomainErr (checked_add bid_qty ask_qty)) (\<lambda>total_qty.
     if dec_value total_qty = 0 then Inr (bps_new 0)
     else and_then (map_err DomainErr (checked_sub bid_qty ask_qty)) (\<lambda>delta_qty.
          and_then (map_err DomainErr (div_to_scale delta_qty total_qty 8)) (\<lambda>ratio.
          and_then (ok_or (DomainErr ScaleOverflow) (i128_checked_mul (dec_value ratio) 10000)) (\<lambda>m.
          let v = m sdiv 100000000
          in if in_i64 v then Inr (bps_new v) else Inl (DomainErr ScaleOverflow)))))"

definition classify_quality :: "timestamp_ms \<Rightarrow> timestamp_ms \<Rightarrow> int \<Rightarrow> event_quality" where
  "classify_quality event_time received_time max_latency =
     (if event_time \<le> 0 \<or> received_time \<le> 0 \<or> received_time < event_time then QInvalid
      else if received_time - event_time > max_latency then QDelayed
      else QOk)"

definition MAX_CLOCK_SKEW_MS :: int where
  "MAX_CLOCK_SKEW_MS = 5000"

definition normalize_received_time :: "timestamp_ms \<Rightarrow> timestamp_ms \<Rightarrow> timestamp_ms" where
  "normalize_received_time event_time received_time =
     (if event_time > 0 \<and> received_time > 0 \<and> received_time < event_time
         \<and> event_time - received_time \<le> MAX_CLOCK_SKEW_MS
      then event_time else received_time)"

definition midpoint_price :: "fixed_decimal \<Rightarrow> fixed_decimal \<Rightarrow> (fixed_decimal, market_data_error) result" where
  "midpoint_price bid ask =
     and_then (map_err DomainErr (checked_add bid ask)) (\<lambda>total.
     Inr (dec_new (dec_value total sdiv 2) (dec_scale total)))"

definition calculate_spread_bps ::
    "fixed_decimal \<Rightarrow> fixed_decimal \<Rightarrow> fixed_decimal \<Rightarrow> (bps, market_data_error) result" where
  "calculate_spread_bps bid ask reference_price =
     and_then (map_err DomainErr (checked_lt ask bid)) (\<lambda>crossed.
     if crossed then Inr (bps_new 0)
     else and_then (map_err DomainErr (checked_sub ask bid)) (\<lambda>spread.
          and_then (map_err DomainErr (div_to_scale spread reference_price 8)) (\<lambda>spread_ratio.
          and_then (ok_or (DomainErr ScaleOverflow) (i128_checked_mul (dec_value spread_ratio) 10000)) (\<lambda>m.
          let numerator = max m 0;
              denominator = 100000000;
              v = (if numerator = 0 then 0
                   else wrap_i128 (numerator + denominator - 1) sdiv denominator)
          in if in_i64 v then Inr (bps_new v) else Inl (DomainErr ScaleOverflow)))))"

section \<open>Tickers and partial depth\<close>

record binance_ticker_message =
  tm_event_type :: string
  tm_event_time_ms :: timestamp_ms
  tm_symbol :: string
  tm_last_price :: string
  tm_best_bid :: string
  tm_best_bid_qty :: string
  tm_best_ask :: string
  tm_best_ask_qty :: string
  tm_last_trade_id :: u64

record binance_partial_depth_message =
  pd_last_update_id :: u64
  pd_bids :: "raw_level list"
  pd_asks :: "raw_level list"

definition normalize_binance_ticker ::
    "binance_stream_config \<Rightarrow> binance_ticker_message \<Rightarrow> timestamp_ms \<Rightarrow> u64 \<Rightarrow>
     (market_snapshot, market_data_error) result" where
  "normalize_binance_ticker config message received_time0 trace_id =
     (if tm_event_type message \<noteq> ''24hrTicker''
      then Inl (InvalidMessage (''unsupported event type: '' @ tm_event_type message))
      else
        and_then (config_symbol config (tm_symbol message)) (\<lambda>sym.
        and_then (map_err DomainErr (parse_unsigned (tm_last_price message))) (\<lambda>last.
        and_then (map_err DomainErr (parse_unsigned (tm_best_bid message))) (\<lambda>bid.
        and_then (map_err DomainErr (parse_unsigned (tm_best_ask message))) (\<lambda>ask.
        and_then (map_err DomainErr (parse_unsigned (tm_best_bid_qty message))) (\<lambda>bid_qty.
        and_then (map_err DomainErr (parse_unsigned (tm_best_ask_qty message))) (\<lambda>ask_qty.
        and_then (calculate_spread_bps bid ask last) (\<lambda>spread.
        let received_time = normalize_received_time (tm_event_time_ms message) received_time0;
            quality = classify_quality (tm_event_time_ms message) received_time (max_latency_ms config);
            snapshot = \<lparr>ms_trace_id = trace_id, ms_exchange = sym_exchange sym, ms_symbol = sym,
                        ms_event_time_ms = tm_event_time_ms message, ms_received_time_ms = received_time,
                        ms_sequence = tm_last_trade_id message, ms_quality = quality, last_price = last,
                        best_bid = bid, best_ask = ask, best_bid_qty = bid_qty, best_ask_qty = ask_qty,
                        ms_spread_bps = spread\<rparr>
        in Inr (if is_err (snapshot_validate snapshot) then snapshot\<lparr>ms_quality := QInvalid\<rparr>
                else snapshot)))))))))"

definition partial_depth_symbol_from_stream :: "string \<Rightarrow> (string, market_data_error) result" where
  "partial_depth_symbol_from_stream stream =
     (let parts = split_on (CHR ''@'') stream;
          sym = hd parts;
          sfx = (case tl parts of [] \<Rightarrow> [] | s # _ \<Rightarrow> s)
      in if trim sym = [] \<or> sfx \<notin> {''depth5'', ''depth10'', ''depth20''}
         then Inl (InvalidMessage (''unsupported partial depth stream: '' @ stream))
         else Inr sym)"

definition parse_depth_levels :: "raw_level list \<Rightarrow> (order_book_level list, market_data_error) result" where
  "parse_depth_levels raw_levels =
     try_map (\<lambda>(p, q).
       and_then (map_err DomainErr (parse_unsigned p)) (\<lambda>p'.
       and_then (map_err DomainErr (parse_unsigned q)) (\<lambda>q'.
       Inr \<lparr>price = p', quantity = q'\<rparr>))) raw_levels"

definition sum_level_quantities :: "order_book_level list \<Rightarrow> (fixed_decimal, market_data_error) result" where
  "sum_level_quantities levels =
     try_fold (\<lambda>total level. map_err DomainErr (checked_add total (quantity level))) dec_zero levels"

definition first_price :: "string \<Rightarrow> order_book_level list \<Rightarrow> (fixed_decimal, market_data_error) result" where
  "first_price message levels =
     (case levels of [] \<Rightarrow> Inl (InvalidMessage message) | l # _ \<Rightarrow> Inr (price l))"

definition normalize_binance_partial_depth ::
    "binance_stream_config \<Rightarrow> string \<Rightarrow> binance_partial_depth_message \<Rightarrow> timestamp_ms \<Rightarrow> u64 \<Rightarrow>
     (market_depth_snapshot, market_data_error) result" where
  "normalize_binance_partial_depth config stream message received_time trace_id =
     and_then (partial_depth_symbol_from_stream stream) (\<lambda>raw_symbol.
     and_then (config_symbol config raw_symbol) (\<lambda>sym.
     and_then (parse_depth_levels (pd_bids message)) (\<lambda>bid_levels.
     and_then (parse_depth_levels (pd_asks message)) (\<lambda>ask_levels.
     and_then (first_price ''depth bids are empty'' bid_levels) (\<lambda>bid.
     and_then (first_price ''depth asks are empty'' ask_levels) (\<lambda>ask.
     and_then (sum_level_quantities bid_levels) (\<lambda>bid_qty.
     and_then (sum_level_quantities ask_levels) (\<lambda>ask_qty.
     and_then (calculate_depth_imbalance_bps bid_qty ask_qty) (\<lambda>imbalance.
     and_then (midpoint_price bid ask) (\<lambda>reference_price.
     and_then (calculate_spread_bps bid ask reference_price) (\<lambda>spread.
     let quality = classify_quality received_time received_time (max_latency_ms config);
         snapshot = \<lparr>mds_trace_id = trace_id, mds_exchange = sym_exchange sym, mds_symbol = sym,
                     mds_event_time_ms = received_time, mds_received_time_ms = received_time,
                     mds_sequence = pd_last_update_id message, mds_quality = quality,
                     level_count = max (length bid_levels) (length ask_levels),
                     mds_bids = bid_levels, mds_asks = ask_levels, bid_depth_qty = bid_qty,
                     ask_depth_qty = ask_qty, depth_imbalance_bps = imbalance, mds_spread_bps = spread\<rparr>
     in Inr (if is_err (depth_validate snapshot) then snapshot\<lparr>mds_quality := QInvalid\<rparr>
             else snapshot))))))))))))"

section \<open>Entry points (normalize.rs)\<close>

text \<open>The parsers and decoders supplied by the JSON library.\<close>

record json_codec =
  from_str_json :: "string \<Rightarrow> (json, string) result"
  decode_combined :: "json \<Rightarrow> (string \<times> json, string) result"
  decode_ticker :: "json \<Rightarrow> (binance_ticker_message, string) result"
  decode_partial_depth :: "json \<Rightarrow> (binance_partial_depth_message, string) result"
  decode_diff_depth :: "json \<Rightarrow> (diff_depth_message, string) result"

definition normalize_binance_ticker_message ::
    "json_codec \<Rightarrow> binance_stream_config \<Rightarrow> string \<Rightarrow> timestamp_ms \<Rightarrow> u64 \<Rightarrow>
     (market_snapshot, market_data_error) result" where
  "normalize_binance_ticker_message codec config raw_json received_time trace_id =
     and_then (map_err JsonError (from_str_json codec raw_json)) (\<lambda>value.
     and_then (unwrap_combined_payload (decode_combined codec) value) (\<lambda>payload.
     and_then (map_err JsonError (decode_ticker codec payload)) (\<lambda>message.
     normalize_binance_ticker config message received_time trace_id)))"

definition normalize_binance_partial_depth_message ::
    "json_codec \<Rightarrow> binance_stream_config \<Rightarrow> string \<Rightarrow> timestamp_ms \<Rightarrow> u64 \<Rightarrow>
     (market_depth_snapshot, market_data_error) result" where
  "normalize_binance_partial_depth_message codec config raw_json received_time trace_id =
     and_then (map_err JsonError (from_str_json codec raw_json)) (\<lambda>value.
     and_then (unwrap_combined_stream_payload (decode_combined codec) value) (\<lambda>(stream, payload).
     and_then (map_err JsonError (decode_partial_depth codec payload)) (\<lambda>message.
     normalize_binance_partial_depth config stream message received_time trace_id)))"

definition normalize_binance_stream_message ::
    "json_codec \<Rightarrow> binance_stream_config \<Rightarrow> string \<Rightarrow> timestamp_ms \<Rightarrow> u64 \<Rightarrow>
     (binance_normalized_market_event, market_data_error) result" where
  "normalize_binance_stream_message codec config raw_json received_time trace_id =
     and_then (map_err JsonError (from_str_json codec raw_json)) (\<lambda>value.
     and_then (unwrap_binance_payload (decode_combined codec) value) (\<lambda>payload.
     let ticker = and_then (map_err JsonError (decode_ticker codec (payload_data payload))) (\<lambda>message.
                  and_then (normalize_binance_ticker config message received_time trace_id) (\<lambda>s. Inr (Market s)))
     in case payload_stream payload of
          None \<Rightarrow> ticker
        | Some stream \<Rightarrow>
            and_then (stream_kind_from_stream stream) (\<lambda>stream_kind.
            case stream_kind of
              KTicker \<Rightarrow> ticker
            | KPartialDepth5 \<Rightarrow> and_then (map_err JsonError (decode_partial_depth codec (payload_data payload))) (\<lambda>message.
                and_then (normalize_binance_partial_depth config stream message received_time trace_id) (\<lambda>s. Inr (Depth s)))
            | KPartialDepth10 \<Rightarrow> and_then (map_err JsonError (decode_partial_depth codec (payload_data payload))) (\<lambda>message.
                and_then (normalize_binance_partial_depth config stream message received_time trace_id) (\<lambda>s. Inr (Depth s)))
            | KPartialDepth20 \<Rightarrow> and_then (map_err JsonError (decode_partial_depth codec (payload_data payload))) (\<lambda>message.
                and_then (normalize_binance_partial_depth config stream message received_time trace_id) (\<lambda>s. Inr (Depth s)))
            | _ \<Rightarrow> Inl (InvalidMessage (kind_name stream_kind @
                    '' stream is raw-ingest only and is not supported for replay normalization'')))))"

section \<open>Lemmas on streams\<close>

lemma to_lower_at: "to_lower c = CHR ''@'' \<longleftrightarrow> c = CHR ''@''"
proof
  assume "to_lower c = CHR ''@''"
  then have "(of_char (to_lower c) :: nat) = 64" by simp
  then have "(of_char c :: nat) = 64" using of_char_to_lower [of c] by (auto split: if_splits)
  then have "of_char c = (of_char (CHR ''@'') :: nat)" by simp
  then show "c = CHR ''@''" by (rule of_char_eqI)
qed (simp add: to_lower_def)

lemma lowercase_no_at: "CHR ''@'' \<notin> set raw \<Longrightarrow> CHR ''@'' \<notin> set (to_ascii_lowercase raw)"
  by (auto simp: to_ascii_lowercase_def to_lower_at dest: sym)

lemma validate_names_Inr:
  "validate_combined_stream_names streams = Inr () \<longleftrightarrow> (\<forall>s \<in> set streams. valid_stream_name s)"
  unfolding validate_combined_stream_names_def try_fold_unit by auto

lemma validate_base_url_Inr:
  "validate_base_url label scheme u = Inr () \<longleftrightarrow>
     url_scheme u = scheme \<and> url_host u \<noteq> None \<and> url_username u = [] \<and> url_password u = None \<and>
     url_query u = None \<and> url_fragment u = None"
  by (auto simp: validate_base_url_def)

section \<open>Lemmas on spread and imbalance\<close>

lemma ceil_div_rat:
  fixes m d :: int
  assumes "0 \<le> m" "0 < d" "v = (if m = 0 then 0 else (m + d - 1) div d)"
  shows "of_int v - 1 < (of_int m / of_int d :: rat)" and "(of_int m / of_int d :: rat) \<le> of_int v"
proof -
  have v: "v = (m + d - 1) div d" using assms by auto
  have "0 \<le> (m + d - 1) mod d" "(m + d - 1) mod d < d" using assms(2) by simp_all
  then have "(m + d - 1) div d * d \<le> m + d - 1" "m + d - 1 < (m + d - 1) div d * d + d"
    unfolding minus_mod_eq_div_mult [symmetric] by linarith+
  then have "(v - 1) * d < m" "m \<le> v * d" unfolding v by (simp_all add: algebra_simps)
  then have "(of_int ((v - 1) * d) :: rat) < of_int m" "(of_int m :: rat) \<le> of_int (v * d)"
    by (simp_all only: of_int_less_iff of_int_le_iff)
  then show "of_int v - 1 < (of_int m / of_int d :: rat)" "(of_int m / of_int d :: rat) \<le> of_int v"
    using assms(2) by (simp_all add: pos_less_divide_eq pos_divide_le_eq)
qed

lemma ceil_no_wrap:
  assumes "0 \<le> m" "in_i128 m" "in_i64 (wrap_i128 (m + 100000000 - 1) sdiv 100000000)"
  shows "wrap_i128 (m + 100000000 - 1) = m + 100000000 - 1"
proof (rule wrap_i128_id, rule ccontr)
  assume "\<not> in_i128 (m + 100000000 - 1)"
  with assms(1,2) have big: "i128_max < m + 100000000 - 1" "m \<le> i128_max"
    by (auto simp: in_i128_def i128_consts)
  define w where "w = m + 100000000 - 1 - 2 ^ 128"
  have w: "wrap_i128 (m + 100000000 - 1) = w"
  proof -
    have "(m + 100000000 - 1 + 2 ^ 127) mod 2 ^ 128 = (w + 2 ^ 127) mod 2 ^ 128"
      unfolding w_def by (metis add_diff_eq diff_add_eq minus_mod_self2)
    also have "\<dots> = w + 2 ^ 127"
      using big by (intro mod_pos_pos_trivial) (simp_all add: w_def i128_consts)
    finally show ?thesis unfolding wrap_i128_def by simp
  qed
  have neg: "w < - (10 ^ 37)" using big by (simp add: w_def i128_consts)
  then have "w sdiv 100000000 = - (- w div 100000000)"
    by (simp add: signed_divide_int_def)
  moreover have "10 ^ 29 \<le> - w div 100000000"
    using zdiv_mono1 [of "10 ^ 37" "- w" 100000000] neg by simp
  ultimately show False using assms(3) unfolding w by (simp add: in_i64_def i64_consts)
qed

lemma ratio_nonneg:
  assumes "\<bar>dec_rat r - q\<bar> < 1 / 10 ^ 8" "0 \<le> q" "dec_scale r = 8"
  shows "0 \<le> dec_value r"
proof -
  have "- (1 / 10 ^ 8) < dec_rat r" using assms(1,2) by linarith
  then have "- 1 < (of_int (dec_value r) :: rat)" by (simp add: dec_rat_def assms(3) divide_simps)
  then show ?thesis by linarith
qed

text \<open>the spread in basis points of an uncrossed quote is the exact relative spread rounded up to
  a whole basis point, up to the eighth decimal at which the ratio is cut: it is less than one basis point
  above the exact value and less than 0.0001 below it.\<close>

theorem spread_bps_bounds:
  assumes "dec_small bid" "dec_small ask" "dec_rat bid \<le> dec_rat ask" "0 < dec_rat ref"
    and "calculate_spread_bps bid ask ref = Inr b"
  defines "R \<equiv> 10000 * ((dec_rat ask - dec_rat bid) / dec_rat ref)"
  shows "of_int (bps_value b) - 1 < R \<and> R < of_int (bps_value b) + 1 / 10 ^ 4"
proof -
  from checked_add_exact(2) [OF assms(2,1)] obtain sp where sp: "checked_sub ask bid = Inr sp"
    "dec_rat sp = dec_rat ask - dec_rat bid" by blast
  have nc: "checked_lt ask bid \<noteq> Inr True"
    using cmp_scaled_total [of ask bid] assms(3) by (auto simp: checked_lt_def cmp_by_def split: if_splits)
  define v where "v m = (if max m 0 = 0 then 0 else wrap_i128 (max m 0 + 100000000 - 1) sdiv 100000000)" for m
  have "checked_lt ask bid = Inr False"
    using assms(5) nc by (auto simp: calculate_spread_bps_def)
  then have "calculate_spread_bps bid ask ref =
      and_then (map_err DomainErr (div_to_scale sp ref 8)) (\<lambda>r.
      and_then (ok_or (DomainErr ScaleOverflow) (i128_checked_mul (dec_value r) 10000)) (\<lambda>m.
      if in_i64 (v m) then Inr (bps_new (v m)) else Inl (DomainErr ScaleOverflow)))"
    unfolding calculate_spread_bps_def v_def Let_def by (simp only: sp(1) and_then_simps map_err_simps if_False)
  with assms(5) obtain r where r: "div_to_scale sp ref 8 = Inr r" and m: "in_i128 (dec_value r * 10000)"
    and b: "in_i64 (v (dec_value r * 10000))" "b = bps_new (v (dec_value r * 10000))"
    by (auto split: if_splits)
  define q where "q = (dec_rat ask - dec_rat bid) / dec_rat ref"
  have q0: "0 \<le> q" using assms(3,4) by (simp add: q_def)
  note appr = div_to_scale_approx [OF r, unfolded sp(2), folded q_def]
  have v0: "0 \<le> dec_value r" by (rule ratio_nonneg [OF appr(2) q0 appr(1)])
  define n where "n = dec_value r * 10000"
  have n: "0 \<le> n" "in_i128 n" using v0 m by (simp_all add: n_def)
  have v: "bps_value b = (if n = 0 then 0 else (n + 100000000 - 1) div 100000000)"
    using b n ceil_no_wrap [OF n]
    by (auto simp: n_def [symmetric] v_def bps_new_def max_def split: if_splits)
  have rr: "of_int n / of_int 100000000 = 10000 * dec_rat r"
    by (simp add: n_def dec_rat_def appr(1))
  from ceil_div_rat [OF n(1) _ v] have ceil: "of_int (bps_value b) - 1 < 10000 * dec_rat r"
    "10000 * dec_rat r \<le> of_int (bps_value b)" unfolding rr by simp_all
  have "0 \<le> dec_rat r" using v0 by (simp add: dec_rat_def)
  with appr(3) q0 have "dec_rat r \<le> q" by simp
  moreover have "q < dec_rat r + 1 / 10 ^ 8" using appr(2) by linarith
  then have "10000 * q < 10000 * dec_rat r + 1 / 10 ^ 4" by (simp add: field_simps)
  ultimately show ?thesis using ceil unfolding R_def q_def [symmetric] by (intro conjI; linarith)
qed

text \<open>the depth imbalance of non-negative quantities lies between -10000 and 10000 basis points.\<close>

theorem depth_imbalance_range:
  assumes "dec_small bq" "dec_small aq" "0 \<le> dec_value bq" "0 \<le> dec_value aq"
    and "calculate_depth_imbalance_bps bq aq = Inr b"
  shows "- 10000 \<le> bps_value b \<and> bps_value b \<le> 10000"
proof -
  from checked_add_exact [OF assms(1,2)] obtain t d where t: "checked_add bq aq = Inr t"
    "dec_rat t = dec_rat bq + dec_rat aq" and d: "checked_sub bq aq = Inr d"
    "dec_rat d = dec_rat bq - dec_rat aq" by blast
  have nn: "0 \<le> dec_rat bq" "0 \<le> dec_rat aq" using assms(3,4) by (simp_all add: dec_rat_def)
  show ?thesis
  proof (cases "dec_value t = 0")
    case True
    with assms(5) t(1) have "b = bps_new 0" by (simp add: calculate_depth_imbalance_bps_def)
    then show ?thesis by (simp add: bps_new_def)
  next
    case False
    with assms(5) t(1) d(1) obtain r where r: "div_to_scale d t 8 = Inr r"
      and b: "bps_value b = (dec_value r * 10000) sdiv 100000000"
      by (auto simp: calculate_depth_imbalance_bps_def Let_def bps_new_def split: if_splits)
    note appr = div_to_scale_approx [OF r]
    have "dec_rat t \<noteq> 0" using False by (simp add: dec_rat_def)
    then have "\<bar>dec_rat d / dec_rat t\<bar> \<le> 1"
      unfolding t(2) d(2) using nn by (auto simp: abs_divide divide_le_eq)
    with appr(3) have "\<bar>dec_rat r\<bar> \<le> 1" by linarith
    then have "\<bar>of_int (dec_value r)\<bar> \<le> (10 ^ 8 :: rat)"
      by (simp add: dec_rat_def appr(1) abs_divide)
    then have "of_int \<bar>dec_value r\<bar> \<le> (of_int (10 ^ 8) :: rat)" by simp
    then have "\<bar>dec_value r\<bar> \<le> 10 ^ 8" unfolding of_int_le_iff .
    then have m: "\<bar>dec_value r * 10000\<bar> \<le> 1000000000000" by (simp add: abs_mult)
    have "\<bar>(dec_value r * 10000) sdiv 100000000\<bar> \<le> \<bar>dec_value r * 10000\<bar> div 100000000"
      by (auto simp: signed_divide_int_def abs_mult sgn_if pos_imp_zdiv_nonneg_iff)
    also have "\<dots> \<le> 10000" using zdiv_mono1 [OF m, of 100000000] by simp
    finally show ?thesis unfolding b by linarith
  qed
qed

text \<open>the name under which a symbol's stream is subscribed determines the stream kind that
  incoming messages of that stream are dispatched on.\<close>

theorem stream_kind_roundtrip:
  assumes "CHR ''@'' \<notin> set raw"
  shows "stream_kind_from_stream (to_ascii_lowercase raw @ ''@'' @ suffix k) = Inr k"
  using split_once_append [OF lowercase_no_at [OF assms], of "suffix k"]
  by (cases k) (simp_all add: stream_kind_from_stream_def suffix_def)

text \<open>a subscription URL is only built on a wss base without credentials, query or fragment, and
  everything after streams= consists of alphanumeric characters, at signs and slashes, so no symbol can add
  a query parameter.\<close>

theorem stream_url_safe:
  assumes "combined_stream_url_for_kinds url_parse config kinds = Inr url"
  shows "\<exists>base query. url_parse (trim (base_url config)) = Inr base \<and>
           url = trim_end_slashes (url_as_str base) @ ''/stream?streams='' @ query \<and>
           url_scheme base = ''wss'' \<and> url_username base = [] \<and> url_password base = None \<and>
           url_query base = None \<and> url_fragment base = None \<and>
           (\<forall>c \<in> set query. is_ascii_alphanumeric c \<or> c = CHR ''@'' \<or> c = CHR ''/'')"
proof -
  from assms obtain streams base where s: "\<forall>s \<in> set streams. valid_stream_name s"
    "url_parse (trim (base_url config)) = Inr base"
    "validate_base_url ''Binance stream base URL'' ''wss'' base = Inr ()"
    "url = trim_end_slashes (url_as_str base) @ ''/stream?streams='' @ join ''/'' streams"
    by (auto simp: combined_stream_url_for_kinds_def binance_combined_stream_url_def validate_names_Inr
        validate_binance_stream_base_url_def)
  have "is_ascii_alphanumeric c \<or> c = CHR ''@'' \<or> c = CHR ''/''" if "c \<in> set (join ''/'' streams)" for c
    using that s(1) set_join [of "''/''" streams]
    by (fastforce simp: valid_stream_name_def list_all_iff)
  with s show ?thesis unfolding validate_base_url_Inr by blast
qed

text \<open>a ticker snapshot that leaves normalisation with quality Ok is valid in the domain's sense,
  belongs to the configured symbol, is not from the future and is at most the configured latency old; quality
  is never Gap or Stale here.\<close>

theorem ticker_ok_sound:
  assumes "normalize_binance_ticker config m t tid = Inr s"
  shows "ms_quality s \<in> {QOk, QDelayed, QInvalid} \<and>
         (ms_quality s = QOk \<longrightarrow> snapshot_ok s \<and> config_symbol config (tm_symbol m) = Inr (ms_symbol s) \<and>
            0 \<le> ms_received_time_ms s - ms_event_time_ms s \<and>
            ms_received_time_ms s - ms_event_time_ms s \<le> max_latency_ms config \<and>
            ms_received_time_ms s \<in> {t, ms_event_time_ms s})"
proof -
  have "normalize_received_time (tm_event_time_ms m) t \<in> {t, tm_event_time_ms m}"
    by (simp add: normalize_received_time_def)
  with assms show ?thesis
    by (auto simp: normalize_binance_ticker_def classify_quality_def Let_def dest: snapshot_validate_ok
        split: if_splits)
qed

section \<open>Witnesses\<close>

theorem spread_bps_bounds_witness:
  "calculate_spread_bps (dec_new 1000 1) (dec_new 1005 1) (dec_new 1002 1) = Inr (bps_new 50) \<and>
   (50 :: rat) - 1 < 10000 * (1 / 2 / (501 / 5)) \<and> 10000 * (1 / 2 / (501 / 5)) < (50 :: rat) + 1 / 10 ^ 4"
proof -
  have c: "calculate_spread_bps (dec_new 1000 1) (dec_new 1005 1) (dec_new 1002 1) = Inr (bps_new 50)"
    by code_simp
  have s: "dec_small (dec_new 1000 1)" "dec_small (dec_new 1005 1)" "dec_rat (dec_new 1000 1) \<le> dec_rat (dec_new 1005 1)"
    "0 < dec_rat (dec_new 1002 1)"
    by (simp_all add: dec_small_def dec_new_def dec_rat_def)
  show ?thesis
    using spread_bps_bounds [OF s c] c by (simp add: bps_new_def dec_rat_def dec_new_def)
qed

theorem depth_imbalance_range_witness:
  "\<exists>b. calculate_depth_imbalance_bps (dec_new 3 0) (dec_new 10 1) = Inr b \<and> - 10000 \<le> bps_value b \<and> bps_value b \<le> 10000"
proof -
  have c: "calculate_depth_imbalance_bps (dec_new 3 0) (dec_new 10 1) = Inr (bps_new 5000)" by code_simp
  have s: "dec_small (dec_new 3 0)" "dec_small (dec_new 10 1)" "0 \<le> dec_value (dec_new 3 0)" "0 \<le> dec_value (dec_new 10 1)"
    by (simp_all add: dec_small_def dec_new_def)
  show ?thesis using depth_imbalance_range [OF s c] c by blast
qed

theorem stream_kind_roundtrip_witness:
  "stream_kind_from_stream ''btcusdt@depth@100ms'' = Inr KDiffDepth100ms"
  using stream_kind_roundtrip [of "''btcusdt''" KDiffDepth100ms]
  by (simp add: to_ascii_lowercase_def to_lower_def suffix_def)

definition demo_symbol :: symbol where
  "demo_symbol = \<lparr>sym_exchange = ''binance'', sym_base = ''BTC'', sym_quote = ''USDT'',
     sym_normalized = ''BTC-USDT'', sym_raw = ''BTCUSDT''\<rparr>"

definition demo_config :: binance_stream_config where
  "demo_config = stream_config_new ''wss://h'' 500 [demo_symbol]"

definition demo_url_parse :: "string \<Rightarrow> (parsed_url, string) result" where
  "demo_url_parse s = Inr \<lparr>url_scheme = ''wss'', url_host = Some ''h'', url_username = [], url_password = None,
     url_query = None, url_fragment = None, url_as_str = s @ ''/''\<rparr>"

definition demo_ticker :: binance_ticker_message where
  "demo_ticker = \<lparr>tm_event_type = ''24hrTicker'', tm_event_time_ms = 1000, tm_symbol = ''btcusdt'',
     tm_last_price = ''100.5'', tm_best_bid = ''99'', tm_best_bid_qty = ''2'', tm_best_ask = ''101'',
     tm_best_ask_qty = ''7'', tm_last_trade_id = 77\<rparr>"

theorem stream_url_safe_witness:
  "\<exists>(base :: parsed_url) query. ''wss://h/stream?streams=btcusdt@ticker'' = trim_end_slashes (url_as_str base) @ ''/stream?streams='' @ query \<and>
     url_scheme base = ''wss'' \<and> (\<forall>c \<in> set query. is_ascii_alphanumeric c \<or> c = CHR ''@'' \<or> c = CHR ''/'')"
proof -
  have "combined_stream_url_for_kinds demo_url_parse demo_config [KTicker] =
      Inr ''wss://h/stream?streams=btcusdt@ticker''" by code_simp
  from stream_url_safe [OF this] show ?thesis by blast
qed

lemma demo_ticker_symbol: "config_symbol demo_config ''btcusdt'' = Inr demo_symbol"
  by code_simp

lemma demo_ticker_spread: "calculate_spread_bps (dec_new 99 0) (dec_new 101 0) (dec_new 1005 (Suc 0)) = Inr (bps_new 200)"
  by code_simp

theorem ticker_ok_sound_witness:
  "\<exists>s. normalize_binance_ticker demo_config demo_ticker 1200 9 = Inr s \<and> ms_quality s \<in> {QOk, QDelayed, QInvalid}"
proof -
  obtain s where "normalize_binance_ticker demo_config demo_ticker 1200 9 = Inr s"
    by (simp add: normalize_binance_ticker_def demo_ticker_def demo_ticker_symbol demo_ticker_spread Let_def)
  with ticker_ok_sound [OF this] show ?thesis by blast
qed

end
