(* ===== verification/Ingest_Watch.thy ===== *)
theory Ingest_Watch
  imports Binance_Normalize
begin

text \<open>
  \<open>crates/crypto-market-data/src/ingest_watch\<close> and \<open>reader\<close>: the WebSocket loops that classify
  messages, count them and feed the depth synchroniser. A run of a loop is a recursion over the
  sequence of things the outside world delivers: clock readings, socket messages, timeouts, answers of
  the snapshot endpoint and of the bounded channel. The lemmas show that every counter adds up.
\<close>

section \<open>WebSocket messages (ingest_watch/message.rs, reader/payload.rs)\<close>

type_synonym bytes = "nat list"

datatype ws_message = WsText string | WsBinary bytes | WsPing bytes | WsPong bytes | WsClose string | WsFrame

datatype ingest_ws_message = IPayload string | IPong bytes | IClosed | IControl

text \<open>\<open>str::from_utf8\<close>; a string is kept as its UTF-8 bytes.\<close>

fun utf8_valid :: "bytes \<Rightarrow> bool" where
  "utf8_valid [] \<longleftrightarrow> True"
| "utf8_valid (a # s) \<longleftrightarrow>
     (if a < 128 then utf8_valid s
      else if 194 \<le> a \<and> a \<le> 223 then (case s of b # t \<Rightarrow> 128 \<le> b \<and> b \<le> 191 \<and> utf8_valid t | _ \<Rightarrow> False)
      else if 224 \<le> a \<and> a \<le> 239 then (case s of b # c # t \<Rightarrow>
        (if a = 224 then 160 else 128) \<le> b \<and> b \<le> (if a = 237 then 159 else 191) \<and>
        128 \<le> c \<and> c \<le> 191 \<and> utf8_valid t | _ \<Rightarrow> False)
      else if 240 \<le> a \<and> a \<le> 244 then (case s of b # c # d # t \<Rightarrow>
        (if a = 240 then 144 else 128) \<le> b \<and> b \<le> (if a = 244 then 143 else 191) \<and>
        128 \<le> c \<and> c \<le> 191 \<and> 128 \<le> d \<and> d \<le> 191 \<and> utf8_valid t | _ \<Rightarrow> False)
      else False)"

definition from_utf8 :: "bytes \<Rightarrow> (string, market_data_error) result" where
  "from_utf8 bs = (if utf8_valid bs then Inr (map char_of bs)
     else Inl (InvalidMessage ''binary websocket payload is not utf-8''))"

definition classify_websocket_message ::
    "ws_message \<Rightarrow> bool \<Rightarrow> ingest_watch_stats \<Rightarrow>
     (ingest_ws_message, market_data_error) result \<times> ingest_watch_stats" where
  "classify_websocket_message message track_source_health stats =
     (case message of
        WsText text \<Rightarrow> (Inr (IPayload text), stats)
      | WsBinary bs \<Rightarrow> (and_then (from_utf8 bs) (\<lambda>text. Inr (IPayload text)), stats)
      | WsPing payload \<Rightarrow>
          (let stats1 = stats\<lparr>control_messages := control_messages stats + 1,
                              pings_received := pings_received stats + 1\<rparr>
           in (Inr (IPong payload),
               if track_source_health then stats1\<lparr>source_health_status := ''connected''\<rparr> else stats1))
      | WsPong _ \<Rightarrow>
          (Inr IControl, stats\<lparr>control_messages := control_messages stats + 1,
                               pongs_received := pongs_received stats + 1\<rparr>)
      | WsClose _ \<Rightarrow>
          (let stats1 = stats\<lparr>control_messages := control_messages stats + 1,
                              close_messages := close_messages stats + 1\<rparr>
           in (Inr IClosed,
               if track_source_health
               then stats1\<lparr>source_health_status := ''closed'',
                           source_health_events := source_health_events stats1 + 1\<rparr>
               else stats1))
      | WsFrame \<Rightarrow> (Inr IControl, stats\<lparr>control_messages := control_messages stats + 1\<rparr>))"

text \<open>The \<open>while\<close> loop of \<open>advance_log_if_due\<close>, on the monotonic clock in nanoseconds.\<close>

function catch_up :: "nat \<Rightarrow> nat \<Rightarrow> nat \<Rightarrow> nat" where
  "catch_up now interval next_log =
     (if interval > 0 \<and> next_log \<le> now then catch_up now interval (next_log + interval) else next_log)"
  by auto
termination
  by (relation "measure (\<lambda>(now, interval, next_log). Suc now - next_log)") auto

declare catch_up.simps [simp del]

text \<open>Returns the new deadline and whether \<open>on_due\<close> was called.\<close>

definition advance_log_if_due :: "nat \<Rightarrow> nat \<Rightarrow> nat \<Rightarrow> nat \<times> bool" where
  "advance_log_if_due now log_interval next_log =
     (if now < next_log then (next_log, False)
      else if log_interval = 0 then (now, True)
      else (catch_up now log_interval next_log, True))"

definition websocket_text_payload_for ::
    "ws_message \<Rightarrow> string \<Rightarrow> (string option, market_data_error) result" where
  "websocket_text_payload_for message close_context =
     (case message of
        WsText text \<Rightarrow> Inr (Some text)
      | WsBinary bs \<Rightarrow> and_then (from_utf8 bs) (\<lambda>text. Inr (Some text))
      | WsClose frame \<Rightarrow> Inl (InvalidMessage (''websocket closed before '' @ close_context @ '': '' @ frame))
      | _ \<Rightarrow> Inr None)"

definition websocket_text_payload :: "ws_message \<Rightarrow> (string option, market_data_error) result" where
  "websocket_text_payload message = websocket_text_payload_for message ''ticker payload''"

section \<open>Observing payloads (ingest_watch/observe)\<close>

definition bump :: "string \<Rightarrow> nat str_map \<Rightarrow> nat str_map" where
  "bump key m = bt_insert str_cmp key ((case bt_get str_cmp key m of Some n \<Rightarrow> n | None \<Rightarrow> 0) + 1) m"

definition increment_kind :: "binance_stream_kind \<Rightarrow> ingest_watch_stats \<Rightarrow> ingest_watch_stats" where
  "increment_kind kind stats = stats\<lparr>kind_counts := bump (kind_name kind) (kind_counts stats)\<rparr>"

definition increment_symbol :: "string \<Rightarrow> ingest_watch_stats \<Rightarrow> ingest_watch_stats" where
  "increment_symbol raw_symbol stats =
     stats\<lparr>symbol_counts := bump (to_ascii_uppercase raw_symbol) (symbol_counts stats)\<rparr>"

definition record_sequence_observation ::
    "binance_stream_kind \<Rightarrow> json \<Rightarrow> string \<Rightarrow> nat str_map \<Rightarrow> ingest_watch_stats \<Rightarrow>
     nat str_map \<times> ingest_watch_stats" where
  "record_sequence_observation kind payload stream last_seq stats =
     (case sequence_from_binance_payload kind payload of
        None \<Rightarrow> (last_seq, stats)
      | Some sequence \<Rightarrow>
          (bt_insert str_cmp stream sequence last_seq,
           (case bt_get str_cmp stream last_seq of
              Some previous \<Rightarrow> if sequence \<le> previous
                then stats\<lparr>sequence_anomalies := sequence_anomalies stats + 1\<rparr> else stats
            | None \<Rightarrow> stats)))"

definition parse_observation ::
    "json_codec \<Rightarrow> string \<Rightarrow> (binance_stream_kind \<times> string \<times> string \<times> json) option" where
  "parse_observation codec raw_payload =
     Option.bind (ok (from_str_json codec raw_payload)) (\<lambda>value.
     Option.bind (ok (unwrap_binance_payload (decode_combined codec) value)) (\<lambda>payload.
     Option.bind (payload_stream payload) (\<lambda>stream.
     Option.bind (ok (stream_kind_from_stream stream)) (\<lambda>kind.
     Option.bind (stream_symbol stream) (\<lambda>raw_symbol.
     Some (kind, stream, raw_symbol, payload_data payload))))))"

definition observe_parsed_binance_payload ::
    "json_codec \<Rightarrow> string \<Rightarrow> nat str_map \<Rightarrow> ingest_watch_stats \<Rightarrow>
     (binance_stream_kind \<times> json) option \<times> nat str_map \<times> ingest_watch_stats" where
  "observe_parsed_binance_payload codec raw_payload last_seq stats =
     (case parse_observation codec raw_payload of
        None \<Rightarrow> (None, last_seq, stats\<lparr>malformed_messages := malformed_messages stats + 1\<rparr>)
      | Some (kind, stream, raw_symbol, data) \<Rightarrow>
          (let stats1 = stats\<lparr>parsed_messages := parsed_messages stats + 1\<rparr>;
               stats2 = increment_symbol raw_symbol (increment_kind kind stats1);
               (last_seq', stats3) = record_sequence_observation kind data stream last_seq stats2
           in (Some (kind, data), last_seq', stats3)))"

definition record_normalization_outcome ::
    "json_codec \<Rightarrow> binance_stream_config \<Rightarrow> string \<Rightarrow> timestamp_ms \<Rightarrow> u64 \<Rightarrow>
     ingest_watch_stats \<Rightarrow> ingest_watch_stats" where
  "record_normalization_outcome codec config raw_payload received_time trace_id stats =
     (case normalize_binance_stream_message codec config raw_payload received_time trace_id of
        Inr (Market _) \<Rightarrow> stats\<lparr>normalized_market_snapshots := normalized_market_snapshots stats + 1\<rparr>
      | Inr (Depth _) \<Rightarrow> stats\<lparr>normalized_depth_snapshots := normalized_depth_snapshots stats + 1\<rparr>
      | Inl _ \<Rightarrow> stats\<lparr>normalization_errors := normalization_errors stats + 1\<rparr>)"

definition normalizable :: "binance_stream_kind \<Rightarrow> bool" where
  "normalizable kind \<longleftrightarrow> kind \<in> {KTicker, KPartialDepth5, KPartialDepth10, KPartialDepth20}"

definition observe_binance_ingest_payload ::
    "json_codec \<Rightarrow> binance_stream_config \<Rightarrow> string \<Rightarrow> timestamp_ms \<Rightarrow> u64 \<Rightarrow>
     nat str_map \<times> ingest_watch_stats \<Rightarrow> nat str_map \<times> ingest_watch_stats" where
  "observe_binance_ingest_payload codec config raw_payload received_time trace_id st =
     (let (last_seq, stats) = st;
          stats1 = stats\<lparr>received_messages := received_messages stats + 1\<rparr>;
          (observation, last_seq', stats2) = observe_parsed_binance_payload codec raw_payload last_seq stats1
      in case observation of
           None \<Rightarrow> (last_seq', stats2)
         | Some (kind, data) \<Rightarrow>
             if normalizable kind
             then (last_seq', record_normalization_outcome codec config raw_payload received_time trace_id stats2)
             else (last_seq', stats2))"

record observe_state =
  last_sequence_by_stream :: "nat str_map"
  depth :: depth_state

definition observe_binance_ingest_payload_with_depth_sync ::
    "json_codec \<Rightarrow> (string \<Rightarrow> (order_book_snapshot, market_data_error) result) \<Rightarrow> binance_stream_config \<Rightarrow>
     string \<Rightarrow> timestamp_ms \<Rightarrow> u64 \<Rightarrow> observe_state \<Rightarrow> observe_state \<times> (unit, market_data_error) result" where
  "observe_binance_ingest_payload_with_depth_sync codec fetch config raw_payload received_time trace_id st =
     (let stats0 = ds_stats (depth st);
          stats1 = stats0\<lparr>received_messages := received_messages stats0 + 1\<rparr>;
          (observation, last_seq', stats2) =
            observe_parsed_binance_payload codec raw_payload (last_sequence_by_stream st) stats1;
          with_stats = (\<lambda>s. st\<lparr>last_sequence_by_stream := last_seq', depth := (depth st)\<lparr>ds_stats := s\<rparr>\<rparr>)
      in case observation of
           None \<Rightarrow> (with_stats stats2, Inr ())
         | Some (kind, data) \<Rightarrow>
             if kind = KDiffDepth100ms
             then (let stats3 = stats2\<lparr>depth_delta_messages := depth_delta_messages stats2 + 1\<rparr>
                   in case decode_diff_depth codec data of
                        Inl error \<Rightarrow> (with_stats stats3, Inl (JsonError error))
                      | Inr event \<Rightarrow>
                          (st\<lparr>last_sequence_by_stream := last_seq',
                              depth := handle_diff_depth_event fetch event received_time
                                         ((depth st)\<lparr>ds_stats := stats3\<rparr>)\<rparr>, Inr ()))
             else if normalizable kind
             then (with_stats (record_normalization_outcome codec config raw_payload received_time trace_id stats2),
                   Inr ())
             else (with_stats stats2, Inr ()))"

section \<open>The watch loop (ingest_watch/watch)\<close>

text \<open>One turn of the loop: the clock at the top, what \<open>timeout_at\<close> returned, the wall clock used for
  the payload, whether a pong could be sent, the answers of the snapshot endpoint, and the monotonic clock
  at the logging step.\<close>

datatype poll = PollMessage ws_message | PollError string | PollEnd | PollTimeout

record turn =
  t_now :: nat
  t_poll :: poll
  t_wall_ms :: "(timestamp_ms, market_data_error) result"
  t_pong_sent :: "(unit, string) result"
  t_fetch :: "string \<Rightarrow> (order_book_snapshot, market_data_error) result"
  t_log_now :: nat

record watch_state =
  w_observe :: observe_state
  w_next_log :: nat
  w_trace_id :: u64
  w_logs :: nat

definition map_stats :: "(ingest_watch_stats \<Rightarrow> ingest_watch_stats) \<Rightarrow> watch_state \<Rightarrow> watch_state" where
  "map_stats f w = w\<lparr>w_observe := (w_observe w)\<lparr>depth := (depth (w_observe w))\<lparr>ds_stats := f (ds_stats (depth (w_observe w)))\<rparr>\<rparr>\<rparr>"

definition update_counts :: "watch_state \<Rightarrow> watch_state" where
  "update_counts w = map_stats (update_depth_book_counts (ds_books (depth (w_observe w)))) w"

definition log_step :: "nat \<Rightarrow> nat \<Rightarrow> watch_state \<Rightarrow> watch_state" where
  "log_step log_interval now w =
     (let (nl, due) = advance_log_if_due now log_interval (w_next_log w)
      in w\<lparr>w_next_log := nl, w_logs := w_logs w + (if due then 1 else 0)\<rparr>)"

text \<open>The result is the final state with \<open>None\<close> when the loop ended by itself, or the error.\<close>

fun watch_depth_loop ::
    "json_codec \<Rightarrow> binance_stream_config \<Rightarrow> nat \<Rightarrow> nat \<Rightarrow> turn list \<Rightarrow> watch_state \<Rightarrow>
     watch_state \<times> market_data_error option" where
  "watch_depth_loop codec config deadline log_interval [] w = (w, None)"
| "watch_depth_loop codec config deadline log_interval (t # ts) w =
     (if t_now t \<ge> deadline then (w, None)
      else case t_poll t of
        PollEnd \<Rightarrow>
          (map_stats (\<lambda>s. s\<lparr>source_health_status := ''ended'',
                            source_health_events := source_health_events s + 1\<rparr>) w, None)
      | PollTimeout \<Rightarrow>
          (let w1 = map_stats (\<lambda>s. s\<lparr>source_health_status := ''waiting_for_messages'',
                                     source_health_events := source_health_events s + 1\<rparr>) w;
               due = snd (advance_log_if_due (t_log_now t) log_interval (w_next_log w1));
               w2 = (if due then update_counts w1 else w1)
           in watch_depth_loop codec config deadline log_interval ts (log_step log_interval (t_log_now t) w2))
      | PollError error \<Rightarrow> (w, Some (WebSocketError error))
      | PollMessage message \<Rightarrow>
          (let (classified, stats') = classify_websocket_message message True (ds_stats (depth (w_observe w)));
               w1 = map_stats (\<lambda>_. stats') w;
               continue = (\<lambda>w. watch_depth_loop codec config deadline log_interval ts
                             (log_step log_interval (t_log_now t) (update_counts w)))
           in case classified of
                Inl error \<Rightarrow> (w1, Some error)
              | Inr (IPayload text) \<Rightarrow>
                  (case t_wall_ms t of
                     Inl error \<Rightarrow> (w1, Some error)
                   | Inr now_ms \<Rightarrow>
                       (case observe_binance_ingest_payload_with_depth_sync codec (t_fetch t) config text
                               now_ms (w_trace_id w1) (w_observe w1) of
                          (st', Inl error) \<Rightarrow> (w1\<lparr>w_observe := st'\<rparr>, Some error)
                        | (st', Inr _) \<Rightarrow> continue (w1\<lparr>w_observe := st', w_trace_id := w_trace_id w1 + 1\<rparr>)))
              | Inr (IPong _) \<Rightarrow>
                  (case t_pong_sent t of
                     Inl error \<Rightarrow> (w1, Some (WebSocketError error))
                   | Inr _ \<Rightarrow> continue w1)
              | Inr IClosed \<Rightarrow> (w1, None)
              | Inr IControl \<Rightarrow> continue w1))"

definition watch_start :: "string \<Rightarrow> nat \<Rightarrow> nat \<Rightarrow> u64 \<Rightarrow> watch_state" where
  "watch_start url planned next_log trace_id =
     \<lparr>w_observe = \<lparr>last_sequence_by_stream = [], depth = depth_start (stats_new url planned)\<rparr>,
      w_next_log = next_log, w_trace_id = trace_id, w_logs = 0\<rparr>"

definition watch_binance_ingest_streams_with_depth_sync ::
    "json_codec \<Rightarrow> (string \<Rightarrow> (parsed_url, string) result) \<Rightarrow> (string \<Rightarrow> (unit, string) result) \<Rightarrow>
     binance_stream_config \<Rightarrow> nat \<Rightarrow>
     binance_stream_kind list \<Rightarrow> nat \<Rightarrow> u64 \<Rightarrow> nat \<Rightarrow> turn list \<Rightarrow> (ingest_watch_stats, market_data_error) result" where
  "watch_binance_ingest_streams_with_depth_sync codec url_parse connect config duration kinds log_interval trace_id start ts =
     and_then (combined_stream_names_for_kinds config kinds) (\<lambda>stream_names.
     and_then (combined_stream_url_for_kinds url_parse config kinds) (\<lambda>url.
     and_then (map_err WebSocketError (connect url)) (\<lambda>_.
     case watch_depth_loop codec config (start + duration) log_interval ts
            (watch_start url (length stream_names) (start + log_interval) trace_id) of
       (w, Some error) \<Rightarrow> Inl error
     | (w, None) \<Rightarrow> Inr (ds_stats (depth (w_observe (update_counts w)))))))"

section \<open>The snapshot readers (reader)\<close>

definition ensure_partial_depth_kind :: "binance_stream_kind \<Rightarrow> string \<Rightarrow> (unit, market_data_error) result" where
  "ensure_partial_depth_kind kind error_message =
     (if kind \<in> {KPartialDepth5, KPartialDepth10, KPartialDepth20} then Inr ()
      else Inl (InvalidMessage error_message))"

text \<open>\<open>while let Some(message) = websocket.next().await\<close>: control messages are skipped, the first
  payload decides.\<close>

fun read_one :: "(string \<Rightarrow> ('a, market_data_error) result) \<Rightarrow> string \<Rightarrow> (ws_message, string) result list \<Rightarrow>
    ('a, market_data_error) result" where
  "read_one norm_msg context [] = Inl (InvalidMessage (''websocket ended before '' @ context))"
| "read_one norm_msg context (m # ms) =
     and_then (map_err WebSocketError m) (\<lambda>message.
     and_then (websocket_text_payload_for message context) (\<lambda>payload.
     case payload of None \<Rightarrow> read_one norm_msg context ms | Some raw_payload \<Rightarrow> norm_msg raw_payload))"

definition read_one_binance_ticker_snapshot ::
    "json_codec \<Rightarrow> (string \<Rightarrow> (parsed_url, string) result) \<Rightarrow> (string \<Rightarrow> (unit, string) result) \<Rightarrow>
     binance_stream_config \<Rightarrow> u64 \<Rightarrow>
     (timestamp_ms, market_data_error) result \<Rightarrow> (ws_message, string) result list \<Rightarrow> (market_snapshot, market_data_error) result" where
  "read_one_binance_ticker_snapshot codec url_parse connect config trace_id now messages =
     and_then (combined_stream_url url_parse config KTicker) (\<lambda>url.
     and_then (map_err WebSocketError (connect url)) (\<lambda>_.
     read_one (\<lambda>raw. and_then now (\<lambda>now. normalize_binance_ticker_message codec config raw now trace_id)) ''ticker payload'' messages))"

definition read_one_binance_partial_depth_snapshot ::
    "json_codec \<Rightarrow> (string \<Rightarrow> (parsed_url, string) result) \<Rightarrow> (string \<Rightarrow> (unit, string) result) \<Rightarrow>
     binance_stream_config \<Rightarrow> binance_stream_kind \<Rightarrow> u64 \<Rightarrow>
     (timestamp_ms, market_data_error) result \<Rightarrow> (ws_message, string) result list \<Rightarrow> (market_depth_snapshot, market_data_error) result" where
  "read_one_binance_partial_depth_snapshot codec url_parse connect config kind trace_id now messages =
     and_then (ensure_partial_depth_kind kind ''partial depth reader requires a partial depth stream kind'') (\<lambda>_.
     and_then (combined_stream_url url_parse config kind) (\<lambda>url.
     and_then (map_err WebSocketError (connect url)) (\<lambda>_.
     read_one (\<lambda>raw. and_then now (\<lambda>now. normalize_binance_partial_depth_message codec config raw now trace_id)) ''depth payload'' messages)))"

record market_stream_stats =
  mss_received :: nat
  mss_sent :: nat
  mss_overflowed :: nat

datatype send_result = Sent | ChannelFull | ChannelClosed

text \<open>A turn of the streaming readers: the message, the wall clock and the channel's answer; the list
  ends when the deadline passes or the socket ends. \<open>forwarded\<close> collects what the channel accepted.\<close>

fun stream_snapshots ::
    "(string \<Rightarrow> timestamp_ms \<Rightarrow> u64 \<Rightarrow> ('a, market_data_error) result) \<Rightarrow>
     ((ws_message, string) result \<times> (timestamp_ms, market_data_error) result \<times> send_result) list \<Rightarrow> u64 \<Rightarrow>
     market_stream_stats \<times> 'a list \<Rightarrow> (market_stream_stats \<times> 'a list, market_data_error) result" where
  "stream_snapshots norm_msg [] trace_id acc = Inr acc"
| "stream_snapshots norm_msg ((m, now, sent) # ts) trace_id (stats, forwarded) =
     and_then (map_err WebSocketError m) (\<lambda>message.
     and_then (websocket_text_payload message) (\<lambda>payload.
     case payload of
       None \<Rightarrow> stream_snapshots norm_msg ts trace_id (stats, forwarded)
     | Some raw_payload \<Rightarrow>
         (let stats1 = stats\<lparr>mss_received := mss_received stats + 1\<rparr>
          in and_then (and_then now (\<lambda>now_ms. norm_msg raw_payload now_ms trace_id)) (\<lambda>snapshot.
             case sent of
               Sent \<Rightarrow> stream_snapshots norm_msg ts (trace_id + 1)
                         (stats1\<lparr>mss_sent := mss_sent stats1 + 1\<rparr>, forwarded @ [snapshot])
             | ChannelFull \<Rightarrow> stream_snapshots norm_msg ts (trace_id + 1)
                         (stats1\<lparr>mss_overflowed := mss_overflowed stats1 + 1\<rparr>, forwarded)
             | ChannelClosed \<Rightarrow> Inr (stats1, forwarded)))))"

definition stream_binance_ticker_snapshots ::
    "json_codec \<Rightarrow> (string \<Rightarrow> (parsed_url, string) result) \<Rightarrow> (string \<Rightarrow> (unit, string) result) \<Rightarrow>
     binance_stream_config \<Rightarrow> u64 \<Rightarrow>
     ((ws_message, string) result \<times> (timestamp_ms, market_data_error) result \<times> send_result) list \<Rightarrow>
     (market_stream_stats \<times> market_snapshot list, market_data_error) result" where
  "stream_binance_ticker_snapshots codec url_parse connect config trace_id ts =
     and_then (combined_stream_url url_parse config KTicker) (\<lambda>url.
     and_then (map_err WebSocketError (connect url)) (\<lambda>_.
     stream_snapshots (normalize_binance_ticker_message codec config) ts trace_id
       (\<lparr>mss_received = 0, mss_sent = 0, mss_overflowed = 0\<rparr>, [])))"

definition stream_binance_ticker_and_partial_depth_snapshots ::
    "json_codec \<Rightarrow> (string \<Rightarrow> (parsed_url, string) result) \<Rightarrow> (string \<Rightarrow> (unit, string) result) \<Rightarrow>
     binance_stream_config \<Rightarrow> binance_stream_kind \<Rightarrow> u64 \<Rightarrow>
     ((ws_message, string) result \<times> (timestamp_ms, market_data_error) result \<times> send_result) list \<Rightarrow>
     (market_stream_stats \<times> binance_normalized_market_event list, market_data_error) result" where
  "stream_binance_ticker_and_partial_depth_snapshots codec url_parse connect config depth_kind trace_id ts =
     and_then (ensure_partial_depth_kind depth_kind ''public replay recorder requires a partial depth stream kind'') (\<lambda>_.
     and_then (combined_stream_url_for_kinds url_parse config [KTicker, depth_kind]) (\<lambda>url.
     and_then (map_err WebSocketError (connect url)) (\<lambda>_.
     stream_snapshots (normalize_binance_stream_message codec config) ts trace_id
       (\<lparr>mss_received = 0, mss_sent = 0, mss_overflowed = 0\<rparr>, []))))"

section \<open>Accounting\<close>

definition total :: "nat str_map \<Rightarrow> nat" where
  "total m = sum_list (bt_values m)"

text \<open>What the counters promise: every received payload is parsed or malformed, parsed payloads are
  counted once per kind and once per symbol, each is normalised at most once, snapshot requests are answered
  once, and the alert window is bounded.\<close>

definition stats_ok :: "ingest_watch_stats \<Rightarrow> bool" where
  "stats_ok s \<longleftrightarrow>
     received_messages s = parsed_messages s + malformed_messages s \<and>
     total (kind_counts s) = parsed_messages s \<and> total (symbol_counts s) = parsed_messages s \<and>
     normalized_market_snapshots s + normalized_depth_snapshots s + normalization_errors s
       + depth_delta_messages s \<le> parsed_messages s \<and>
     depth_snapshot_requests s = depth_snapshot_successes s + depth_snapshot_failures s \<and>
     pings_received s + pongs_received s + close_messages s \<le> control_messages s \<and>
     length (recent_gap_alerts s) = min 20 (gap_alert_count s)"

lemma total_insert:
  "total (bt_insert str_cmp k v m) + (case bt_get str_cmp k m of Some n \<Rightarrow> n | None \<Rightarrow> 0) = total m + v"
  by (induction m) (auto simp: total_def bt_values_def cmp_by_def split: ordering.splits)

lemma total_bump [simp]: "total (bump k m) = total m + 1"
  using total_insert [of k "(case bt_get str_cmp k m of Some n \<Rightarrow> n | None \<Rightarrow> 0) + 1" m]
  by (simp add: bump_def)

lemma stats_ok_new: "stats_ok (stats_new url planned)"
  by (simp add: stats_ok_def stats_new_def total_def bt_values_def)

lemma stats_ok_alert: "stats_ok s \<Longrightarrow> stats_ok (record_gap_alert a s)"
  by (auto simp: stats_ok_def record_gap_alert_def Let_def)

lemma stats_ok_counts: "stats_ok s \<Longrightarrow> stats_ok (update_depth_book_counts books s)"
  by (simp add: stats_ok_def update_depth_book_counts_def Let_def)

lemma stats_ok_frame [simp]:
  "stats_ok (s\<lparr>buffer_overflow_count := x\<rparr>) = stats_ok s"
  "stats_ok (s\<lparr>source_health_status := h\<rparr>) = stats_ok s"
  "stats_ok (s\<lparr>source_health_status := h, source_health_events := n\<rparr>) = stats_ok s"
  "stats_ok (s\<lparr>sequence_anomalies := x\<rparr>) = stats_ok s"
  by (simp_all add: stats_ok_def)

lemma handle_synced_stats:
  "handle_synced_depth_event b e raw t att s = (b', att', s') \<Longrightarrow> stats_ok s \<Longrightarrow> stats_ok s'"
  by (auto simp: handle_synced_depth_event_def record_sequence_gap_def record_delta_parse_gap_def
      stats_ok_alert split: option.splits if_splits prod.splits sum.splits)

lemma buffer_unsynced_stats:
  "buffer_unsynced_depth_event b e raw t att s = (b', att', s') \<Longrightarrow> stats_ok s \<Longrightarrow> stats_ok s'"
  by (auto simp: buffer_unsynced_depth_event_def stats_ok_alert Let_def split: if_splits)

lemma fetch_and_sync_stats:
  "stats_ok (ds_stats st) \<Longrightarrow> stats_ok (ds_stats (fetch_and_sync_snapshot fetch raw t st))"
  by (auto simp: fetch_and_sync_snapshot_def sync_fetched_snapshot_def record_delta_parse_gap_def
      record_snapshot_fetch_failure_def record_gap_alert_def stats_ok_def Let_def
      split: sum.splits option.splits prod.splits)

lemma handle_event_stats:
  assumes "stats_ok (ds_stats st)"
  shows "stats_ok (ds_stats (handle_diff_depth_event fetch e t st))"
proof -
  define raw where "raw = to_ascii_uppercase (ddm_symbol e)"
  define b where "b = (case bt_get str_cmp raw (ds_books st) of Some b \<Rightarrow> b | None \<Rightarrow> default_book)"
  obtain b' att' stats' where step:
    "(if is_synced b then handle_synced_depth_event b e raw t (ds_attempted st) (ds_stats st)
      else buffer_unsynced_depth_event b e raw t (ds_attempted st) (ds_stats st)) = (b', att', stats')"
    by (metis prod_cases3)
  have "stats_ok stats'"
    using step assms handle_synced_stats buffer_unsynced_stats by (metis (no_types, lifting))
  moreover obtain now att'' where fetch_now:
    "should_fetch_snapshot (bt_insert str_cmp raw b' (ds_books st)) att' raw = (now, att'')" by fastforce
  ultimately show ?thesis
    unfolding handle_diff_depth_event_def raw_def [symmetric] Let_def b_def [symmetric] step
    by (simp add: fetch_now fetch_and_sync_stats)
qed

text \<open>Between counting a payload as parsed and deciding what to do with it.\<close>

definition stats_pending :: "ingest_watch_stats \<Rightarrow> bool" where
  "stats_pending s \<longleftrightarrow> stats_ok s \<and>
     normalized_market_snapshots s + normalized_depth_snapshots s + normalization_errors s
       + depth_delta_messages s < parsed_messages s"

lemma observe_parsed_stats:
  assumes "stats_ok s"
    and "observe_parsed_binance_payload codec raw seq (s\<lparr>received_messages := received_messages s + 1\<rparr>) = (obs, seq', s')"
  shows "if obs = None then stats_ok s' else stats_pending s'"
  using assms
  by (auto simp: observe_parsed_binance_payload_def record_sequence_observation_def increment_kind_def
      increment_symbol_def stats_ok_def stats_pending_def Let_def
      split: option.splits prod.splits if_splits)

lemma normalization_outcome_stats:
  "stats_pending s \<Longrightarrow> stats_ok (record_normalization_outcome codec config raw t tid s)"
  by (auto simp: record_normalization_outcome_def stats_ok_def stats_pending_def
      split: sum.splits binance_normalized_market_event.splits)

lemma observe_with_depth_stats:
  assumes "stats_ok (ds_stats (depth st))"
    and "observe_binance_ingest_payload_with_depth_sync codec fetch config raw t tid st = (st', r)"
  shows "stats_ok (ds_stats (depth st'))"
proof -
  define s0 where "s0 = ds_stats (depth st)"
  obtain obs seq' s2 where o: "observe_parsed_binance_payload codec raw (last_sequence_by_stream st)
      (s0\<lparr>received_messages := received_messages s0 + 1\<rparr>) = (obs, seq', s2)" by (metis prod_cases3)
  note s2 = observe_parsed_stats [OF assms(1) [folded s0_def] o]
  have delta: "stats_ok (s2\<lparr>depth_delta_messages := depth_delta_messages s2 + 1\<rparr>)" if "stats_pending s2"
    using that by (auto simp: stats_ok_def stats_pending_def)
  have ok: "stats_ok s2" using s2 by (simp add: stats_pending_def split: if_splits)
  show ?thesis
    using assms(2) s2 delta ok o normalization_outcome_stats [of s2 codec config raw t tid]
    by (auto simp: observe_binance_ingest_payload_with_depth_sync_def s0_def Let_def handle_event_stats
        split: option.splits prod.splits if_splits sum.splits)
qed

lemma classify_stats:
  "stats_ok s \<Longrightarrow> classify_websocket_message m b s = (r, s') \<Longrightarrow> stats_ok s'"
  by (cases m) (auto simp: classify_websocket_message_def stats_ok_def Let_def split: if_splits)

abbreviation w_stats :: "watch_state \<Rightarrow> ingest_watch_stats" where
  "w_stats w \<equiv> ds_stats (depth (w_observe w))"

lemma w_stats_simps [simp]:
  "w_stats (map_stats f w) = f (w_stats w)"
  "w_stats (log_step li now w) = w_stats w"
  "w_stats (update_counts w) = update_depth_book_counts (ds_books (depth (w_observe w))) (w_stats w)"
  by (simp_all add: map_stats_def log_step_def update_counts_def Let_def split: prod.splits)

lemma watch_loop_stats:
  "stats_ok (w_stats w) \<Longrightarrow> stats_ok (w_stats (fst (watch_depth_loop codec config deadline li ts w)))"
proof (induction ts arbitrary: w)
  case (Cons t ts)
  note nxt = Cons.IH [of "log_step li (t_log_now t) (update_counts v)" for v, simplified]
  show ?case
  proof (cases "t_now t \<ge> deadline")
    case False
    show ?thesis
    proof (cases "t_poll t")
      case (PollMessage m)
      obtain r s' where cl: "classify_websocket_message m True (w_stats w) = (r, s')" by fastforce
      note s' = classify_stats [OF Cons.prems cl]
      have obs: "stats_ok (ds_stats (depth st'))"
        if "observe_binance_ingest_payload_with_depth_sync codec (t_fetch t) config pay now tid
              (w_observe (map_stats (\<lambda>_. s') w)) = (st', r')" for pay now tid st' r'
        using observe_with_depth_stats [OF _ that] s' by (simp add: map_stats_def)
      show ?thesis
        using PollMessage False cl s' nxt obs
        by (auto simp: stats_ok_counts Let_def split: sum.splits ingest_ws_message.splits prod.splits)
    qed (use False Cons in \<open>auto simp: stats_ok_counts Let_def\<close>)
  qed (use Cons.prems in simp)
qed simp

section \<open>Properties\<close>

text \<open>whatever the exchange, the clock and the snapshot endpoint do, the statistics a completed
  watch returns add up: received = parsed + malformed, the per-kind and per-symbol counts each sum to the
  parsed messages, snapshot requests = successes + failures, and the alert window holds the last
  min(20, alerts) alerts.\<close>

theorem watch_accounting:
  assumes "watch_binance_ingest_streams_with_depth_sync codec url_parse connect config duration kinds li tid start ts = Inr s"
  shows "stats_ok s"
proof -
  from assms obtain url and names :: "string list" where
    r: "(case watch_depth_loop codec config (start + duration) li ts
               (watch_start url (length names) (start + li) tid) of
           (w, Some error) \<Rightarrow> Inl error | (w, None) \<Rightarrow> Inr (w_stats (update_counts w))) = Inr s"
    unfolding watch_binance_ingest_streams_with_depth_sync_def and_then_eq_Inr by blast
  obtain w e where
    "watch_depth_loop codec config (start + duration) li ts (watch_start url (length names) (start + li) tid) = (w, e)"
    by fastforce
  moreover from this r have s: "s = w_stats (update_counts w)" by (cases e) auto
  moreover have "stats_ok (w_stats (watch_start url (length names) (start + li) tid))"
    by (simp add: watch_start_def depth_start_def stats_ok_new)
  ultimately show ?thesis
    using watch_loop_stats [of "watch_start url (length names) (start + li) tid" codec config "start + duration" li ts]
    by (simp add: stats_ok_counts)
qed

lemma catch_up_spec:
  "interval > 0 \<Longrightarrow> now < catch_up now interval n \<and> catch_up now interval n mod interval = n mod interval \<and>
     catch_up now interval n \<le> max n (now + interval)"
proof (induction now interval n rule: catch_up.induct)
  case (1 now interval n)
  show ?case
  proof (cases "n \<le> now")
    case True
    with 1 have "now < catch_up now interval (n + interval) \<and>
        catch_up now interval (n + interval) mod interval = (n + interval) mod interval \<and>
        catch_up now interval (n + interval) \<le> max (n + interval) (now + interval)" by simp
    with True 1(2) show ?thesis by (subst (1 2 3) catch_up.simps) auto
  next
    case False
    then show ?thesis by (subst (1 2 3) catch_up.simps) auto
  qed
qed

text \<open>the periodic log always terminates, fires at most once however late it is, and, for a
  positive interval, leaves the next deadline in the future on the original grid.\<close>

theorem advance_log_on_grid:
  assumes "advance_log_if_due now interval next_log = (nl, due)" "0 < interval"
  shows "now < nl \<and> nl mod interval = next_log mod interval \<and> (due \<longleftrightarrow> next_log \<le> now) \<and>
         nl \<le> max next_log (now + interval)"
  using assms catch_up_spec [OF assms(2), of now next_log]
  by (auto simp: advance_log_if_due_def split: if_splits)

theorem advance_log_on_grid_witness:
  "\<exists>nl. advance_log_if_due 47 10 12 = (nl, True) \<and> 47 < nl \<and> nl mod 10 = 12 mod 10 \<and> nl \<le> 57"
proof -
  have "advance_log_if_due 47 10 12 = (catch_up 47 10 12, True)" by (simp add: advance_log_if_due_def)
  from advance_log_on_grid [OF this] this show ?thesis by auto
qed

text \<open>the streaming readers never lose a snapshot unaccounted: those sent are exactly those in
  the channel, and every payload received was sent, counted as overflowed, or was the last one, offered to a
  closed channel.\<close>

theorem stream_snapshots_accounting:
  assumes "stream_snapshots f ts tid (s0, fw0) = Inr (s, fw)"
    and "mss_sent s0 = length fw0" and "mss_received s0 = mss_sent s0 + mss_overflowed s0"
  shows "mss_sent s = length fw \<and>
         (mss_received s = mss_sent s + mss_overflowed s \<or> mss_received s = mss_sent s + mss_overflowed s + 1)"
  using assms
proof (induction ts arbitrary: tid s0 fw0)
  case (Cons t ts)
  obtain m now sent where t: "t = (m, now, sent)" by (cases t)
  from Cons.prems(1) obtain msg pay where m: "m = Inr msg" "websocket_text_payload msg = Inr pay"
    by (auto simp: t)
  show ?case
  proof (cases pay)
    case None
    with Cons.prems m show ?thesis by (intro Cons.IH) (auto simp: t)
  next
    case (Some raw)
    with Cons.prems(1) m obtain n snap where n: "now = Inr n" "f raw n tid = Inr snap"
      by (auto simp: t Let_def)
    show ?thesis
    proof (cases sent)
      case Sent
      with Cons.prems(1) m Some n have "stream_snapshots f ts (tid + 1)
          (s0\<lparr>mss_received := mss_received s0 + 1, mss_sent := mss_sent s0 + 1\<rparr>, fw0 @ [snap]) = Inr (s, fw)"
        by (simp add: t)
      then show ?thesis by (rule Cons.IH) (use Cons.prems in simp_all)
    next
      case ChannelFull
      with Cons.prems(1) m Some n have "stream_snapshots f ts (tid + 1)
          (s0\<lparr>mss_received := mss_received s0 + 1, mss_overflowed := mss_overflowed s0 + 1\<rparr>, fw0) = Inr (s, fw)"
        by (simp add: t)
      then show ?thesis by (rule Cons.IH) (use Cons.prems in simp_all)
    next
      case ChannelClosed
      with Cons.prems m Some n show ?thesis by (auto simp: t Let_def)
    qed
  qed
qed simp

section \<open>Witnesses\<close>

definition demo_codec :: json_codec where
  "demo_codec = \<lparr>from_str_json = (\<lambda>_. Inl ''eof''), decode_combined = (\<lambda>_. Inl ''x''), decode_ticker = (\<lambda>_. Inl ''x''),
     decode_partial_depth = (\<lambda>_. Inl ''x''), decode_diff_depth = (\<lambda>_. Inl ''x'')\<rparr>"

definition demo_turn :: "nat \<Rightarrow> poll \<Rightarrow> turn" where
  "demo_turn n p = \<lparr>t_now = n, t_poll = p, t_wall_ms = Inr 1000, t_pong_sent = Inr (),
     t_fetch = (\<lambda>_. Inl (HttpError ''down'')), t_log_now = n\<rparr>"

theorem watch_accounting_witness:
  "\<exists>s. watch_binance_ingest_streams_with_depth_sync demo_codec demo_url_parse (\<lambda>_. Inr ()) demo_config 100 [KTicker] 10 1 0
         [demo_turn 1 (PollMessage (WsText ''zz'')), demo_turn 2 (PollMessage (WsPing []))] = Inr s \<and>
       stats_ok s \<and> received_messages s = parsed_messages s + malformed_messages s"
proof -
  have "combined_stream_names_for_kinds demo_config [KTicker] = Inr [''btcusdt@ticker'']" by code_simp
  moreover have "combined_stream_url_for_kinds demo_url_parse demo_config [KTicker] =
      Inr ''wss://h/stream?streams=btcusdt@ticker''" by code_simp
  ultimately obtain s where "watch_binance_ingest_streams_with_depth_sync demo_codec demo_url_parse (\<lambda>_. Inr ()) demo_config
      100 [KTicker] 10 1 0 [demo_turn 1 (PollMessage (WsText ''zz'')), demo_turn 2 (PollMessage (WsPing []))] = Inr s"
    by (simp add: watch_binance_ingest_streams_with_depth_sync_def demo_turn_def demo_codec_def
        classify_websocket_message_def observe_binance_ingest_payload_with_depth_sync_def
        observe_parsed_binance_payload_def parse_observation_def Let_def)
  with watch_accounting [OF this] show ?thesis by (auto simp: stats_ok_def)
qed

theorem stream_snapshots_accounting_witness:
  "\<exists>s fw. stream_snapshots (\<lambda>raw t tid. Inr raw)
      [(Inr (WsText ''a''), Inr 5, Sent), (Inr (WsPing []), Inr 5, Sent), (Inr (WsText ''b''), Inr 6, ChannelFull)]
      1 (\<lparr>mss_received = 0, mss_sent = 0, mss_overflowed = 0\<rparr>, []) = Inr (s, fw) \<and> mss_sent s = length fw"
proof -
  have "stream_snapshots (\<lambda>raw t tid. Inr raw)
      [(Inr (WsText ''a''), Inr 5, Sent), (Inr (WsPing []), Inr 5, Sent), (Inr (WsText ''b''), Inr 6, ChannelFull)]
      1 (\<lparr>mss_received = 0, mss_sent = 0, mss_overflowed = 0\<rparr>, []) =
      Inr (\<lparr>mss_received = 2, mss_sent = 1, mss_overflowed = 1\<rparr>, [''a''])"
    by (simp add: websocket_text_payload_def websocket_text_payload_for_def)
  from stream_snapshots_accounting [OF this] this show ?thesis by auto
qed

end
