(* ===== verification/Venue_Watch.thy ===== *)
theory Venue_Watch
  imports L0_Sink Ingest_Watch
begin

text \<open>
  What the two venue runtimes share: the reconnect policy (\<open>src/reconnect.rs\<close>), the interruptible sleep
  between attempts, the reconnect loop of \<open>binance/ws/watch.rs\<close> and \<open>upbit/ws/watch.rs\<close>, and the checks
  of a storage report at the end of a run (\<open>storage/smoke_validation.rs\<close>). Durations and clock readings
  are nanoseconds. The locale \<open>venue_watch\<close> is the contract of one venue's session code; both venues
  interpret it. The last section says when a sink has lost nothing of what it was given.
\<close>

section \<open>Reconnect policy (reconnect.rs)\<close>

definition DURATION_MAX :: nat where "DURATION_MAX = u64_max * 1000000000 + 999999999"

definition from_secs :: "nat \<Rightarrow> nat" where "from_secs n = n * 1000000000"
definition from_millis :: "nat \<Rightarrow> nat" where "from_millis n = n * 1000000"

definition duration_checked_mul :: "nat \<Rightarrow> nat \<Rightarrow> nat option" where
  "duration_checked_mul d n = (if d * n \<le> DURATION_MAX then Some (d * n) else None)"

record reconnect_policy =
  initial_backoff :: nat
  max_backoff :: nat
  multiplier :: nat
  stale_message_timeout :: nat

definition default_24x7 :: reconnect_policy where
  "default_24x7 = \<lparr>initial_backoff = from_secs 1, max_backoff = from_secs 60, multiplier = 2,
     stale_message_timeout = from_secs 30\<rparr>"

definition next_backoff :: "reconnect_policy \<Rightarrow> nat \<Rightarrow> nat" where
  "next_backoff policy current =
     (let candidate = (case duration_checked_mul current (multiplier policy) of
                         Some d \<Rightarrow> d | None \<Rightarrow> max_backoff policy)
      in min candidate (max_backoff policy))"

record reconnect_state =
  rs_reconnect_count :: nat
  rs_last_reconnect_at_ms :: "timestamp_ms option"
  rs_consecutive_failures :: nat

definition reconnect_state_record :: "timestamp_ms \<Rightarrow> reconnect_state \<Rightarrow> reconnect_state" where
  "reconnect_state_record now_ms st =
     st\<lparr>rs_reconnect_count := rs_reconnect_count st + 1, rs_last_reconnect_at_ms := Some now_ms,
        rs_consecutive_failures := min (rs_consecutive_failures st + 1) u32_max\<rparr>"

definition reset_after_healthy_run :: "reconnect_state \<Rightarrow> reconnect_state" where
  "reset_after_healthy_run st = st\<lparr>rs_consecutive_failures := 0\<rparr>"

section \<open>Interruptible sleep (ws/control.rs)\<close>

text \<open>One pass of the loop: the clock in the condition, the shutdown flag and the clock for the remaining
  time. The result lists the sleeps, each of at most 250 ms.\<close>

fun sleep_or_shutdown :: "nat \<Rightarrow> (nat \<times> bool \<times> nat) list \<Rightarrow> nat list" where
  "sleep_or_shutdown target [] = []"
| "sleep_or_shutdown target ((now, flag, now') # rs) =
     (if \<not> now < target then []
      else if flag then []
      else let remaining = target - now';
               step = min remaining (from_millis 250)
           in if step = 0 then [] else step # sleep_or_shutdown target rs)"

section \<open>The reconnect loop (ws/watch.rs)\<close>

datatype session_end = ShutdownRequested | DeadlineReached | Disconnected string

text \<open>One pass of the loop: the shutdown flag and the clock at its top, the answers of \<open>connect_async\<close>
  and of sending the subscription, the clock when the session starts, what happens in the session, and the
  wall clock \<open>record_reconnect\<close> reads.\<close>

record 't attempt =
  a_shutdown :: bool
  a_now :: nat
  a_connect :: "(unit, string) result"
  a_subscribe :: "(unit, string) result"
  a_started :: nat
  a_turns :: "'t list"
  a_reconnect_ms :: timestamp_ms

text \<open>\<open>not_ready\<close> is the reason for which no session starts, \<open>terminal\<close> sets the last status. The list of
  sleeps is returned in order; \<open>False\<close> at the end means the attempts ran out while the loop was running.\<close>

fun watch_loop ::
    "('x \<Rightarrow> string \<Rightarrow> timestamp_ms \<Rightarrow> 'x) \<Rightarrow> (string \<Rightarrow> 'x \<Rightarrow> 'x) \<Rightarrow> ('t attempt \<Rightarrow> string option) \<Rightarrow>
     ('t attempt \<Rightarrow> 'x \<Rightarrow> 'x \<times> session_end option) \<Rightarrow> reconnect_policy \<Rightarrow> nat \<Rightarrow> 't attempt list \<Rightarrow> nat \<Rightarrow> 'x \<Rightarrow>
     'x \<times> nat list \<times> bool" where
  "watch_loop record_reconnect terminal not_ready session policy deadline [] backoff x = (x, [], False)"
| "watch_loop record_reconnect terminal not_ready session policy deadline (a # as) backoff x =
     (let again = (\<lambda>reason y.
            (case watch_loop record_reconnect terminal not_ready session policy deadline as
                    (next_backoff policy backoff) (record_reconnect y reason (a_reconnect_ms a)) of
               (z, sleeps, finished) \<Rightarrow> (z, backoff # sleeps, finished)))
      in if a_shutdown a then (terminal ''shutdown'' x, [], True)
         else if a_now a \<ge> deadline then (terminal ''deadline_reached'' x, [], True)
         else case not_ready a of
           Some reason \<Rightarrow> again reason x
         | None \<Rightarrow>
             (case session a x of
                (y, None) \<Rightarrow> (y, [], False)
              | (y, Some ShutdownRequested) \<Rightarrow> (terminal ''shutdown'' y, [], True)
              | (y, Some DeadlineReached) \<Rightarrow> (terminal ''deadline_reached'' y, [], True)
              | (y, Some (Disconnected reason)) \<Rightarrow> again reason y))"

section \<open>Sessions (ws/types.rs, ws/session.rs)\<close>

record session_timers =
  next_log_at :: nat
  next_ping_at :: nat
  last_message_at :: nat
  log_interval :: nat
  stale_timeout :: nat

text \<open>One pass of a session's loop: the shutdown flag and the clock at its top, what \<open>timeout_at\<close> returned,
  the clock and the wall clock when a message is handled, the clock in the housekeeping and the answer to a ping.\<close>

record session_turn =
  st_shutdown :: bool
  st_now :: nat
  st_poll :: poll
  st_message_at :: nat
  st_wall_ms :: timestamp_ms
  st_house_now :: nat
  st_ping :: "(unit, string) result"

datatype session_poll = SMessage ws_message | SDisconnected string | STick

definition poll_session :: "poll \<Rightarrow> session_poll" where
  "poll_session p = (case p of
     PollMessage m \<Rightarrow> SMessage m
   | PollError _ \<Rightarrow> SDisconnected ''websocket_error''
   | PollEnd \<Rightarrow> SDisconnected ''ended''
   | PollTimeout \<Rightarrow> STick)"

text \<open>The instant at which the poll gives up.\<close>

definition next_session_tick :: "nat \<Rightarrow> session_timers \<Rightarrow> nat \<Rightarrow> nat" where
  "next_session_tick deadline timers now =
     min deadline (min (next_log_at timers) (min (next_ping_at timers)
       (min (last_message_at timers + stale_timeout timers) (now + from_millis 250))))"

text \<open>Handing drafts to the sink one after the other, stopping at the first error.\<close>

fun append_each ::
    "('d \<Rightarrow> l0_sink \<Rightarrow> l0_sink \<times> (unit, storage_error) result) \<Rightarrow> 'd list \<Rightarrow> l0_sink \<Rightarrow>
     l0_sink \<times> (unit, storage_error) result" where
  "append_each f [] s = (s, Inr ())"
| "append_each f (d # ds) s =
     (case f d s of (s', Inl e) \<Rightarrow> (s', Inl e) | (s', Inr _) \<Rightarrow> append_each f ds s')"

section \<open>Checking the storage report (storage/smoke_validation.rs)\<close>

definition storage_has_family :: "storage_report \<Rightarrow> string \<Rightarrow> bool" where
  "storage_has_family storage object_family \<longleftrightarrow>
     list_ex (\<lambda>object. uo_family object = object_family) (sp_uploaded_objects storage)"

definition require_storage_family :: "storage_report \<Rightarrow> string \<Rightarrow> string \<Rightarrow> (unit, string) result" where
  "require_storage_family storage venue object_family =
     (if storage_has_family storage object_family then Inr ()
      else Inl (venue @ '' L0 storage did not upload '' @ object_family))"

definition validate_common_storage_report :: "storage_report \<Rightarrow> string \<Rightarrow> (unit, string) result" where
  "validate_common_storage_report storage venue =
     (if sp_failed_upload_count storage > 0
      then Inl (venue @ '' L0 storage exhausted retries for '' @ show_nat (sp_failed_upload_count storage) @ '' uploads'')
      else if sp_record_count storage = 0 \<or> sp_uploaded_object_count storage = 0
      then Inl (venue @ '' L0 storage produced no objects'')
      else if sp_manifest_key storage = None
      then Inl (venue @ '' L0 storage did not upload manifest.json'')
      else and_then (require_storage_family storage venue ''source_health'') (\<lambda>_.
           require_storage_family storage venue ''symbol_health''))"

section \<open>The records written when a watch ends (storage_output)\<close>

definition write_final_records ::
    "l0_params \<Rightarrow> l0_env \<Rightarrow> source_health_draft \<Rightarrow> symbol_health_draft list \<Rightarrow> gap_draft list \<Rightarrow> l0_sink \<Rightarrow>
     l0_sink \<times> (unit, storage_error) result" where
  "write_final_records p env source symbols gaps sink =
     seq_result (append_source_health p env source sink) (\<lambda>sink.
     seq_result (append_each (append_symbol_health p env) symbols sink) (\<lambda>sink.
     seq_result (append_each (append_gap_alert p env) gaps sink) (\<lambda>sink.
     seq_result (flush_all env sink) (\<lambda>sink.
     (case upload_manifest env sink of (sink', r) \<Rightarrow> (sink', and_then r (\<lambda>_. Inr ())))))))"

section \<open>JSON literals\<close>

definition jnat :: "nat \<Rightarrow> json" where "jnat n = JNumber (PosInt n)"
definition jint :: "int \<Rightarrow> json" where "jint i = JNumber (if i < 0 then NegInt i else PosInt (nat i))"
definition jopt :: "('a \<Rightarrow> json) \<Rightarrow> 'a option \<Rightarrow> json" where
  "jopt f v = (case v of Some x \<Rightarrow> f x | None \<Rightarrow> JNull)"

section \<open>Backoff\<close>

lemma next_backoff_le: "next_backoff p d \<le> max_backoff p"
  by (simp add: next_backoff_def Let_def)

lemma next_backoff_default:
  "d \<le> from_secs 60 \<Longrightarrow> next_backoff default_24x7 d = min (d * 2) (from_secs 60)"
  by (simp add: next_backoff_def duration_checked_mul_def default_24x7_def from_secs_def DURATION_MAX_def
      u64_max_def)

text \<open>The delay before the \<open>n\<close>-th reconnection of a run.\<close>

definition backoff_delay :: "nat \<Rightarrow> nat" where
  "backoff_delay n = from_secs (min (2 ^ n) 60)"

lemma backoff_delay_Suc: "next_backoff default_24x7 (backoff_delay n) = backoff_delay (Suc n)"
proof -
  have "next_backoff default_24x7 (backoff_delay n) = min (backoff_delay n * 2) (from_secs 60)"
    by (rule next_backoff_default) (simp add: backoff_delay_def from_secs_def)
  then show ?thesis by (simp add: backoff_delay_def from_secs_def min_mult_distrib_right [symmetric] ac_simps)
qed

lemma sleep_steps_bounded: "\<forall>d \<in> set (sleep_or_shutdown target rs). 0 < d \<and> d \<le> from_millis 250"
proof (induction rs)
  case (Cons r rs)
  obtain now flag now' where r: "r = (now, flag, now')" by (cases r)
  show ?case
    by (cases "flag \<or> \<not> now < target \<or> min (target - now') (from_millis 250) = 0")
      (use Cons.IH in \<open>auto simp: r Let_def\<close>)
qed simp

section \<open>The contract of a venue's session\<close>

locale venue_watch =
  fixes reconnect :: "'x \<Rightarrow> string \<Rightarrow> timestamp_ms \<Rightarrow> 'x"
    and terminal :: "string \<Rightarrow> 'x \<Rightarrow> 'x"
    and session :: "'t attempt \<Rightarrow> 'x \<Rightarrow> 'x \<times> session_end option"
    and inv :: "'x \<Rightarrow> bool"
    and reconnects :: "'x \<Rightarrow> nat"
  assumes inv_reconnect: "inv x \<Longrightarrow> inv (reconnect x reason t)"
    and inv_terminal: "inv x \<Longrightarrow> inv (terminal status x)"
    and inv_session: "inv x \<Longrightarrow> session a x = (y, e) \<Longrightarrow> inv y"
    and reconnects_reconnect: "reconnects (reconnect x reason t) = Suc (reconnects x)"
    and reconnects_terminal: "reconnects (terminal status x) = reconnects x"
    and reconnects_session: "inv x \<Longrightarrow> session a x = (y, e) \<Longrightarrow> reconnects y = reconnects x"
begin

lemma loop_inv:
  "inv x \<Longrightarrow> inv (fst (watch_loop reconnect terminal not_ready session policy deadline as backoff x))"
proof (induction as arbitrary: x backoff)
  case (Cons a as)
  have step: "inv (fst (watch_loop reconnect terminal not_ready session policy deadline as
      (next_backoff policy backoff) (reconnect y reason (a_reconnect_ms a))))" if "inv y" for y reason
    by (rule Cons.IH [OF inv_reconnect [OF that]])
  show ?case
  proof (cases "session a x")
    case (Pair y e)
    show ?thesis
      using Cons.prems step inv_terminal inv_session [OF Cons.prems Pair] Pair
      by (auto simp: Let_def split: option.splits session_end.splits prod.splits)
        (metis fst_conv)+
  qed
qed simp

lemma loop_sleeps:
  "watch_loop reconnect terminal not_ready session default_24x7 deadline as (backoff_delay n) x = (y, sleeps, f) \<Longrightarrow>
     inv x \<Longrightarrow> sleeps = map backoff_delay [n ..< n + length sleeps] \<and> reconnects y = reconnects x + length sleeps"
proof (induction as arbitrary: x n y sleeps)
  case (Cons a as)
  have again: "sleeps = map backoff_delay [n ..< n + length sleeps] \<and> reconnects y = reconnects x + length sleeps"
    if "(case watch_loop reconnect terminal not_ready session default_24x7 deadline as
           (next_backoff default_24x7 (backoff_delay n)) (reconnect z reason (a_reconnect_ms a)) of
         (v, sl, fin) \<Rightarrow> (v, backoff_delay n # sl, fin)) = (y, sleeps, f)" "inv z" "reconnects z = reconnects x" for z reason
  proof -
    from that(1) obtain sl where
      w: "watch_loop reconnect terminal not_ready session default_24x7 deadline as (backoff_delay (Suc n))
            (reconnect z reason (a_reconnect_ms a)) = (y, sl, f)" and s: "sleeps = backoff_delay n # sl"
      by (auto simp: backoff_delay_Suc split: prod.splits)
    from Cons.IH [OF w inv_reconnect [OF that(2)]] that(3) show ?thesis
      by (simp add: s reconnects_reconnect upt_conv_Cons del: upt_Suc)
  qed
  show ?case
  proof (cases "session a x")
    case (Pair z e)
    show ?thesis
      using Cons.prems again [of x] again [of z] reconnects_session [OF _ Pair] inv_session [OF _ Pair] Pair
      by (auto simp: Let_def reconnects_terminal split: if_splits option.splits session_end.splits)
  qed
qed simp

end

text \<open>The loop returns: once a pass starts after the deadline or with the shutdown flag set, provided every
  session before it ended.\<close>

lemma watch_loop_finishes:
  assumes "\<exists>a \<in> set as. a_shutdown a \<or> a_now a \<ge> deadline"
    and "\<And>a x. a \<in> set as \<Longrightarrow> snd (session a x) \<noteq> None"
  shows "\<exists>y sleeps. watch_loop rec terminal not_ready session policy deadline as backoff x = (y, sleeps, True)"
  using assms
proof (induction as arbitrary: backoff x)
  case (Cons a as)
  have go: "\<exists>y sleeps. (case watch_loop rec terminal not_ready session policy deadline as
      (next_backoff policy backoff) (rec z reason (a_reconnect_ms a)) of
        (v, sl, fin) \<Rightarrow> (v, backoff # sl, fin)) = (y, sleeps, True)"
    if "\<not> a_shutdown a" "\<not> a_now a \<ge> deadline" for z reason
  proof -
    have "\<exists>b \<in> set as. a_shutdown b \<or> a_now b \<ge> deadline" using Cons.prems(1) that by auto
    from Cons.IH [OF this, of "next_backoff policy backoff" "rec z reason (a_reconnect_ms a)"] Cons.prems(2)
    show ?thesis by (metis (no_types, lifting) case_prod_conv list.set_intros(2))
  qed
  obtain y e where s: "session a x = (y, Some e)"
    using Cons.prems(2) [of a x] by (cases "session a x") auto
  show ?case
    using go s by (cases e) (auto simp: Let_def split: option.splits)
qed simp

section \<open>Maps that remember the last value seen\<close>

definition tracks :: "'v str_map \<Rightarrow> (string \<Rightarrow> 'v list) \<Rightarrow> bool" where
  "tracks m seen \<longleftrightarrow> bt_wf id (\<lambda>_. True) m \<and>
     (\<forall>c. bt_get str_cmp c m = (if seen c = [] then None else Some (last (seen c))))"

lemma tracks_Nil: "tracks [] (\<lambda>_. [])"
  by (simp add: tracks_def)

lemma tracks_insert: "tracks m seen \<Longrightarrow> tracks (bt_insert str_cmp c v m) (seen(c := seen c @ [v]))"
  by (auto simp: tracks_def ranked.get_insert [where rank = id] intro!: ranked.wf_insert [where rank = id])

lemma tracks_get: "tracks m seen \<Longrightarrow> bt_get str_cmp c m = (if seen c = [] then None else Some (last (seen c)))"
  by (simp add: tracks_def)

lemma sorted_snoc: "sorted (xs @ [x]) \<longleftrightarrow> sorted xs \<and> (xs \<noteq> [] \<longrightarrow> last xs \<le> (x :: 'v::linorder))"
proof -
  have "last xs \<le> x \<longrightarrow> (\<forall>y \<in> set xs. y \<le> x)" if "sorted xs" "xs \<noteq> []"
    using that by (cases xs rule: rev_cases) (auto simp: sorted_append)
  then show ?thesis by (cases "xs = []") (auto simp: sorted_append)
qed

section \<open>A sink that has lost nothing\<close>

text \<open>Every record is given an ordinal before anything can fail, so a sink that holds as many records as
  it has handed out ordinals has lost none.\<close>

definition lossless :: "l0_sink \<Rightarrow> bool" where
  "lossless s \<longleftrightarrow> sink_inv s \<and> next_ordinal s = of_nat (size (contents s)) + 1"

definition uploaded :: "l0_world \<Rightarrow> l0_any multiset" where
  "uploaded w = (\<Sum>p \<leftarrow> map snd (objects w). payload_any p)"

lemma append_ordinals:
  "append_raw_market_event p env d s = (s', r) \<Longrightarrow> next_ordinal s' = next_ordinal s + 1"
  "append_source_health p env sd s = (s', r) \<Longrightarrow> next_ordinal s' = next_ordinal s + 1"
  "append_symbol_health p env yd s = (s', r) \<Longrightarrow> next_ordinal s' = next_ordinal s + 1"
  "append_gap_alert p env gd s = (s', r) \<Longrightarrow> next_ordinal s' = next_ordinal s + 1"
  by (auto simp: append_raw_market_event_def append_source_health_def append_symbol_health_def append_gap_alert_def
      take_ordinal_def Let_def dest!: flush_raw_frame flush_health_frame flush_symbol_frame flush_gap_frame
      split: prod.splits sum.splits if_splits)

lemma sink_new_lossless: "sink_new new_uploader connect cfg = Inr s \<Longrightarrow> lossless s"
  using sink_new_inv [of new_uploader connect cfg s]
  by (auto simp: lossless_def sink_new_def contents_def buffered_def empty_family_def bt_values_def spooled_def)

lemma lossless_raw:
  assumes "append_raw_market_event p env d s = (s', Inr ())" "lossless s" "params_ok p"
    and "no_slash (rd_venue d)" "no_slash (rd_event_type d)"
  shows "lossless s'"
  using append_raw_spec [OF assms(1) _ assms(3-5)] append_ordinals(1) [OF assms(1)] assms(2) by (simp add: lossless_def)

lemma lossless_source_health:
  assumes "append_source_health p env d s = (s', Inr ())" "lossless s" "params_ok p" "no_slash (sd_venue d)"
  shows "lossless s'"
  using append_health_spec [OF assms(1) _ assms(3-4)] append_ordinals(2) [OF assms(1)] assms(2) by (simp add: lossless_def)

lemma lossless_symbol_health:
  assumes "append_symbol_health p env d s = (s', Inr ())" "lossless s" "params_ok p" "no_slash (yd_venue d)"
  shows "lossless s'"
  using append_symbol_spec [OF assms(1) _ assms(3-4)] append_ordinals(3) [OF assms(1)] assms(2) by (simp add: lossless_def)

lemma lossless_gap:
  assumes "append_gap_alert p env d s = (s', Inr ())" "lossless s" "params_ok p"
    and "no_slash (gd_venue d)" "no_slash (gd_gap_type d)"
  shows "lossless s'"
  using append_gap_spec [OF assms(1) _ assms(3-5)] append_ordinals(4) [OF assms(1)] assms(2) by (simp add: lossless_def)

lemma flush_all_ordinal: "flush_all env s = (s', r) \<Longrightarrow> next_ordinal s' = next_ordinal s"
proof -
  assume f: "flush_all env s = (s', r)"
  have fr: "next_ordinal (fst (flush_each fl ks t)) = next_ordinal t"
    if "\<And>k s s' r. fl k s = (s', r) \<Longrightarrow> next_ordinal s' = next_ordinal s" for fl ks t
    using flush_each_frame [of fl next_ordinal ks t] that by (metis prod.collapse)
  have "next_ordinal (fst (flush_each (flush_raw_partition env) ks t)) = next_ordinal t"
    "next_ordinal (fst (flush_each (flush_health_partition env) hs t)) = next_ordinal t"
    "next_ordinal (fst (flush_each (flush_symbol_health_partition env) hs t)) = next_ordinal t"
    "next_ordinal (fst (flush_each (flush_gap_partition env) gs t)) = next_ordinal t" for ks hs gs t
    by (rule fr, drule flush_raw_frame, simp) (rule fr, drule flush_health_frame, simp,
      rule fr, drule flush_symbol_frame, simp, rule fr, drule flush_gap_frame, simp)
  then have "next_ordinal (fst (flush_all env s)) = next_ordinal s"
    by (auto simp: flush_all_def seq_result_def split: prod.splits sum.splits) (metis fst_conv)+
  then show ?thesis using f by simp
qed

lemma lossless_flush:
  assumes "flush_all env s = (s', Inr ())" "lossless s"
  shows "lossless s'" "spooled (world s') = contents s'"
  using flush_all_spec [OF assms(1)] flush_all_ordinal [OF assms(1)] assms(2) by (simp_all add: lossless_def)

lemma record_uploaded_contents [simp]: "contents (record_uploaded_object x s) = contents s"
  by (simp add: contents_def record_uploaded_object_def Let_def split: prod.splits)

lemma lossless_manifest:
  assumes "upload_manifest env s = (s', m)" "lossless s"
  shows "lossless s'" "contents s' = contents s" "world s' = world s"
proof -
  have "contents s' = contents s \<and> next_ordinal s' = next_ordinal s \<and> world s' = world s"
    using assms(1) by (auto simp: upload_manifest_def record_uploaded_object_def contents_def Let_def
        split: prod.splits sum.splits)
  then show "lossless s'" "contents s' = contents s" "world s' = world s"
    using assms manifest_inv [of s env s' m] by (simp_all add: lossless_def)
qed

text \<open>With no failed upload, the bucket holds every spooled object.\<close>

lemma no_failures_all_uploaded:
  assumes "sink_inv s" "failed_upload_count s = 0"
  shows "objects (world s) = spool (world s)"
  using assms subseq_same_length [of "objects (world s)" "spool (world s)"]
  by (simp add: sink_inv_def keys_ok_def report_ok_def)

lemma all_uploaded:
  assumes "sink_inv s" "failed_upload_count s = 0"
  shows "uploaded (world s) = spooled (world s)"
  using no_failures_all_uploaded [OF assms] by (simp add: uploaded_def spooled_def)

lemma validated_storage:
  "validate_common_storage_report st venue = Inr () \<Longrightarrow> sp_failed_upload_count st = 0 \<and> sp_record_count st > 0 \<and>
     sp_manifest_key st \<noteq> None \<and> storage_has_family st ''source_health'' \<and> storage_has_family st ''symbol_health''"
  by (auto simp: validate_common_storage_report_def require_storage_family_def split: if_splits)

lemma append_each_inv:
  assumes "append_each f ds s = (s', Inr ())" "P s"
    and "\<And>d s s'. d \<in> set ds \<Longrightarrow> f d s = (s', Inr ()) \<Longrightarrow> P s \<Longrightarrow> P s'"
  shows "P s'"
  using assms
proof (induction ds arbitrary: s)
  case (Cons d ds)
  obtain t r where f: "f d s = (t, r)" by fastforce
  with Cons.prems(1) have "r = Inr ()" "append_each f ds t = (s', Inr ())" by (auto split: sum.splits)
  with Cons f show ?case by (metis list.set_intros(1,2))
qed simp

lemma seq_result_ok: "seq_result r f = (s', Inr ()) \<Longrightarrow> \<exists>s. r = (s, Inr ()) \<and> f s = (s', Inr ())"
  by (cases r) (auto simp: seq_result_def split: sum.splits)

lemma final_records_lossless:
  assumes "write_final_records p env source symbols gaps sink = (sink', Inr ())" "lossless sink" "params_ok p"
    and "no_slash (sd_venue source)" "\<And>d. d \<in> set symbols \<Longrightarrow> no_slash (yd_venue d)"
    and "\<And>d. d \<in> set gaps \<Longrightarrow> no_slash (gd_venue d) \<and> no_slash (gd_gap_type d)"
  shows "lossless sink' \<and> spooled (world sink') = contents sink'"
proof -
  from seq_result_ok [OF assms(1) [unfolded write_final_records_def]] obtain s1 where
    1: "append_source_health p env source sink = (s1, Inr ())" and
    r1: "seq_result (append_each (append_symbol_health p env) symbols s1) (\<lambda>sink.
      seq_result (append_each (append_gap_alert p env) gaps sink) (\<lambda>sink. seq_result (flush_all env sink) (\<lambda>sink.
      (case upload_manifest env sink of (sink', r) \<Rightarrow> (sink', and_then r (\<lambda>_. Inr ())))))) = (sink', Inr ())" by blast
  from seq_result_ok [OF r1] obtain s2 where
    2: "append_each (append_symbol_health p env) symbols s1 = (s2, Inr ())" and
    r2: "seq_result (append_each (append_gap_alert p env) gaps s2) (\<lambda>sink. seq_result (flush_all env sink) (\<lambda>sink.
      (case upload_manifest env sink of (sink', r) \<Rightarrow> (sink', and_then r (\<lambda>_. Inr ()))))) = (sink', Inr ())" by blast
  from seq_result_ok [OF r2] obtain s3 where 3: "append_each (append_gap_alert p env) gaps s2 = (s3, Inr ())" and
    r3: "seq_result (flush_all env s3) (\<lambda>sink.
      (case upload_manifest env sink of (sink', r) \<Rightarrow> (sink', and_then r (\<lambda>_. Inr ())))) = (sink', Inr ())" by blast
  from seq_result_ok [OF r3] obtain s4 where 4: "flush_all env s3 = (s4, Inr ())" and
    r4: "(case upload_manifest env s4 of (sink', r) \<Rightarrow> (sink', and_then r (\<lambda>_. Inr ()))) = (sink', Inr ())" by blast
  from r4 obtain m where 5: "upload_manifest env s4 = (sink', m)" by (cases "upload_manifest env s4") simp
  have "lossless s1" by (rule lossless_source_health [OF 1 assms(2-4)])
  then have "lossless s2"
    by (rule append_each_inv [where P = lossless, OF 2]) (use lossless_symbol_health assms(3,5) in blast)
  then have "lossless s3"
    by (rule append_each_inv [where P = lossless, OF 3]) (use lossless_gap assms(3,6) in blast)
  from lossless_flush [OF 4 this] lossless_manifest [OF 5] show ?thesis by simp
qed

end
