(* ===== verification/Upbit_Feed.thy ===== *)
theory Upbit_Feed
  imports Venue_Watch
begin

text \<open>
  \<open>src/upbit/events\<close> and \<open>src/upbit/stats\<close>: the messages of the Upbit WebSocket, their classification and
  the running statistics: counters, per-native clocks, ordering checks and the bounded gap-alert queues.
  The JSON library (text to value, value to the derived structs, value to text) is the record \<open>upbit_codec\<close>.
\<close>

section \<open>Errors (error.rs)\<close>

datatype upbit_ingest_error =
    UHttp string | UJson string | UWebSocket string | UUtf8 string | UStorage string
  | UInvalidConfig string | UInvalidMessage string

definition upbit_error_display :: "upbit_ingest_error \<Rightarrow> string" where
  "upbit_error_display e = (case e of
     UHttp m \<Rightarrow> ''upbit http error: '' @ m
   | UJson m \<Rightarrow> ''upbit json error: '' @ m
   | UWebSocket m \<Rightarrow> ''upbit websocket error: '' @ m
   | UUtf8 m \<Rightarrow> ''upbit utf-8 error: '' @ m
   | UStorage m \<Rightarrow> ''upbit storage error: '' @ m
   | UInvalidConfig m \<Rightarrow> ''upbit invalid config: '' @ m
   | UInvalidMessage m \<Rightarrow> ''upbit invalid message: '' @ m)"

section \<open>Messages (events/message.rs, events/parsed.rs)\<close>

record upbit_ticker_message =
  ut_event_type :: string
  ut_code :: string
  ut_timestamp :: timestamp_ms
  ut_trade_timestamp :: "timestamp_ms option"
  ut_trade_price :: "f64 option"
  ut_acc_trade_price_24h :: "f64 option"
  ut_acc_trade_volume_24h :: "f64 option"
  ut_stream_type :: "string option"

record upbit_trade_message =
  ur_event_type :: string
  ur_code :: string
  ur_timestamp :: timestamp_ms
  ur_trade_timestamp :: timestamp_ms
  ur_trade_price :: f64
  ur_trade_volume :: f64
  ur_ask_bid :: string
  ur_sequential_id :: int
  ur_best_ask_price :: "f64 option"
  ur_best_ask_size :: "f64 option"
  ur_best_bid_price :: "f64 option"
  ur_best_bid_size :: "f64 option"
  ur_stream_type :: "string option"

record upbit_orderbook_unit =
  uu_ask_price :: f64
  uu_bid_price :: f64
  uu_ask_size :: f64
  uu_bid_size :: f64

record upbit_orderbook_message =
  uob_event_type :: string
  uob_code :: string
  uob_timestamp :: timestamp_ms
  uob_total_ask_size :: f64
  uob_total_bid_size :: f64
  uob_orderbook_units :: "upbit_orderbook_unit list"
  uob_stream_type :: "string option"
  uob_level :: "f64 option"

datatype upbit_parsed_event =
    UTicker upbit_ticker_message
  | UTrade upbit_trade_message
  | UOrderbook upbit_orderbook_message
  | UStatus string
  | UError string string
  | UUnknown json

record upbit_parsed_envelope =
  ue_event :: upbit_parsed_event
  ue_payload_json :: string

definition upbit_kind_name :: "upbit_parsed_event \<Rightarrow> string" where
  "upbit_kind_name e = (case e of
     UTicker _ \<Rightarrow> ''ticker'' | UTrade _ \<Rightarrow> ''trade'' | UOrderbook _ \<Rightarrow> ''orderbook''
   | UStatus _ \<Rightarrow> ''status'' | UError _ _ \<Rightarrow> ''error'' | UUnknown _ \<Rightarrow> ''unknown'')"

definition upbit_symbol :: "upbit_parsed_event \<Rightarrow> string option" where
  "upbit_symbol e = (case e of
     UTicker m \<Rightarrow> Some (ut_code m) | UTrade m \<Rightarrow> Some (ur_code m) | UOrderbook m \<Rightarrow> Some (uob_code m)
   | _ \<Rightarrow> None)"

definition upbit_exchange_timestamp_ms :: "upbit_parsed_event \<Rightarrow> timestamp_ms option" where
  "upbit_exchange_timestamp_ms e = (case e of
     UTicker m \<Rightarrow> Some (ut_timestamp m) | UTrade m \<Rightarrow> Some (ur_trade_timestamp m)
   | UOrderbook m \<Rightarrow> Some (uob_timestamp m) | _ \<Rightarrow> None)"

section \<open>Parsing (events/parser.rs)\<close>

record upbit_message_header =
  uh_event_type :: "string option"
  uh_status :: "string option"
  uh_error :: "(string \<times> string) option"

record upbit_codec =
  uc_from_str :: "string \<Rightarrow> (json, string) result"
  uc_to_string :: "json \<Rightarrow> (string, string) result"
  uc_display :: "json \<Rightarrow> string"
  uc_header :: "json \<Rightarrow> (upbit_message_header, string) result"
  uc_ticker :: "json \<Rightarrow> (upbit_ticker_message, string) result"
  uc_trade :: "json \<Rightarrow> (upbit_trade_message, string) result"
  uc_orderbook :: "json \<Rightarrow> (upbit_orderbook_message, string) result"

definition parse_one_value :: "upbit_codec \<Rightarrow> json \<Rightarrow> (upbit_parsed_event, upbit_ingest_error) result" where
  "parse_one_value codec value =
     and_then (map_err UJson (uc_header codec value)) (\<lambda>header.
     case uh_status header of
       Some status \<Rightarrow> Inr (UStatus status)
     | None \<Rightarrow>
         (case uh_error header of
            Some (name, message) \<Rightarrow> Inr (UError name message)
          | None \<Rightarrow>
              if uh_event_type header = Some ''ticker''
              then and_then (map_err UJson (uc_ticker codec value)) (\<lambda>m. Inr (UTicker m))
              else if uh_event_type header = Some ''trade''
              then and_then (map_err UJson (uc_trade codec value)) (\<lambda>m. Inr (UTrade m))
              else if uh_event_type header = Some ''orderbook''
              then and_then (map_err UJson (uc_orderbook codec value)) (\<lambda>m. Inr (UOrderbook m))
              else Inr (UUnknown value)))"

definition parse_one_envelope :: "upbit_codec \<Rightarrow> json \<Rightarrow> (upbit_parsed_envelope, upbit_ingest_error) result" where
  "parse_one_envelope codec value =
     and_then (map_err UJson (uc_to_string codec value)) (\<lambda>payload_json.
     and_then (parse_one_value codec value) (\<lambda>event.
     Inr \<lparr>ue_event = event, ue_payload_json = payload_json\<rparr>))"

definition parse_upbit_payload ::
    "upbit_codec \<Rightarrow> string \<Rightarrow> (upbit_parsed_envelope list, upbit_ingest_error) result" where
  "parse_upbit_payload codec raw_json =
     and_then (map_err UJson (uc_from_str codec raw_json)) (\<lambda>value.
     case value of
       JArray items \<Rightarrow> try_map (parse_one_envelope codec) items
     | other \<Rightarrow> and_then (parse_one_envelope codec other) (\<lambda>e. Inr [e]))"

section \<open>Statistics (stats/model.rs)\<close>

definition MAX_STORED_GAP_ALERTS :: nat where "MAX_STORED_GAP_ALERTS = 1000"
definition MAX_RECENT_GAP_ALERTS :: nat where "MAX_RECENT_GAP_ALERTS = 20"

record upbit_best_quote =
  ubq_symbol :: string
  ubq_best_bid :: f64
  ubq_best_bid_size :: f64
  ubq_best_ask :: f64
  ubq_best_ask_size :: f64
  ubq_exchange_timestamp_ms :: timestamp_ms
  ubq_stream_type :: string

record upbit_gap_alert =
  ug_gap_type :: string
  ug_symbol :: string
  ug_detected_at_ms :: timestamp_ms
  ug_expected_sequence_id :: "int option"
  ug_observed_sequence_id :: "int option"
  ug_heal_action :: string
  ug_heal_status :: string

record upbit_ingest_watch_stats =
  us_stream_url :: string
  us_planned_stream_count :: nat
  us_received_messages :: nat
  us_parsed_messages :: nat
  us_malformed_messages :: nat
  us_control_messages :: nat
  us_pings_received :: nat
  us_pongs_received :: nat
  us_close_messages :: nat
  us_status_messages :: nat
  us_kind_counts :: "nat str_map"
  us_symbol_counts :: "nat str_map"
  us_ticker_messages :: nat
  us_trade_messages :: nat
  us_orderbook_messages :: nat
  us_derived_book_tickers :: nat
  us_sequence_anomalies :: nat
  us_source_health_status :: string
  us_source_health_events :: nat
  us_reconnect_count :: nat
  us_last_reconnect_at_ms :: "timestamp_ms option"
  us_gap_alert_count :: nat
  us_recent_gap_alerts :: "upbit_gap_alert list"
  us_last_exchange_timestamp_ms :: "timestamp_ms option"
  us_last_ingest_timestamp_ms :: "timestamp_ms option"
  us_latest_stream_lag_ms :: int
  us_symbol_last_event_time_ms :: "timestamp_ms str_map"
  us_symbol_last_ingest_time_ms :: "timestamp_ms str_map"
  us_gap_alerts :: "upbit_gap_alert list"
  us_last_best_quotes :: "upbit_best_quote str_map"
  us_last_trade_sequence_by_symbol :: "int str_map"
  us_last_orderbook_timestamp_by_symbol :: "timestamp_ms str_map"

definition upbit_stats_new :: "string \<Rightarrow> nat \<Rightarrow> upbit_ingest_watch_stats" where
  "upbit_stats_new url planned =
     \<lparr>us_stream_url = url, us_planned_stream_count = planned, us_received_messages = 0,
      us_parsed_messages = 0, us_malformed_messages = 0, us_control_messages = 0, us_pings_received = 0,
      us_pongs_received = 0, us_close_messages = 0, us_status_messages = 0, us_kind_counts = [],
      us_symbol_counts = [], us_ticker_messages = 0, us_trade_messages = 0, us_orderbook_messages = 0,
      us_derived_book_tickers = 0, us_sequence_anomalies = 0, us_source_health_status = ''connected'',
      us_source_health_events = 1, us_reconnect_count = 0, us_last_reconnect_at_ms = None,
      us_gap_alert_count = 0, us_recent_gap_alerts = [], us_last_exchange_timestamp_ms = None,
      us_last_ingest_timestamp_ms = None, us_latest_stream_lag_ms = 0, us_symbol_last_event_time_ms = [],
      us_symbol_last_ingest_time_ms = [], us_gap_alerts = [], us_last_best_quotes = [],
      us_last_trade_sequence_by_symbol = [], us_last_orderbook_timestamp_by_symbol = []\<rparr>"

section \<open>Recording events (stats/event.rs, stats/health.rs)\<close>

text \<open>\<open>push_back\<close> on a deque that keeps the newest \<open>limit\<close> entries.\<close>

definition push_bounded :: "nat \<Rightarrow> 'a \<Rightarrow> 'a list \<Rightarrow> 'a list" where
  "push_bounded limit x xs = (let ys = xs @ [x] in if length ys > limit then tl ys else ys)"

definition upbit_record_gap_alert :: "upbit_gap_alert \<Rightarrow> upbit_ingest_watch_stats \<Rightarrow> upbit_ingest_watch_stats" where
  "upbit_record_gap_alert alert s =
     s\<lparr>us_gap_alert_count := us_gap_alert_count s + 1,
       us_gap_alerts := push_bounded MAX_STORED_GAP_ALERTS alert (us_gap_alerts s),
       us_recent_gap_alerts := push_bounded MAX_RECENT_GAP_ALERTS alert (us_recent_gap_alerts s)\<rparr>"

definition upbit_record_timing ::
    "timestamp_ms \<Rightarrow> timestamp_ms \<Rightarrow> upbit_ingest_watch_stats \<Rightarrow> upbit_ingest_watch_stats" where
  "upbit_record_timing exchange_ms ingest_ms s =
     s\<lparr>us_last_exchange_timestamp_ms := Some exchange_ms, us_last_ingest_timestamp_ms := Some ingest_ms,
       us_latest_stream_lag_ms := max (i64_saturating_sub ingest_ms exchange_ms) 0\<rparr>"

definition upbit_record_trade ::
    "upbit_trade_message \<Rightarrow> timestamp_ms \<Rightarrow> upbit_ingest_watch_stats \<Rightarrow> upbit_ingest_watch_stats" where
  "upbit_record_trade message now_ms s =
     (let previous = bt_get str_cmp (ur_code message) (us_last_trade_sequence_by_symbol s);
          s1 = s\<lparr>us_trade_messages := us_trade_messages s + 1,
                 us_last_trade_sequence_by_symbol :=
                   bt_insert str_cmp (ur_code message) (ur_sequential_id message) (us_last_trade_sequence_by_symbol s)\<rparr>
      in case previous of
           Some last_sequence \<Rightarrow>
             if ur_sequential_id message < last_sequence
             then upbit_record_gap_alert
                    \<lparr>ug_gap_type = ''ordering_violation'', ug_symbol = ur_code message,
                     ug_detected_at_ms = now_ms, ug_expected_sequence_id = Some last_sequence,
                     ug_observed_sequence_id = Some (ur_sequential_id message),
                     ug_heal_action = ''mark_incomplete_and_continue'', ug_heal_status = ''detected''\<rparr>
                    (s1\<lparr>us_sequence_anomalies := us_sequence_anomalies s1 + 1\<rparr>)
             else s1
         | None \<Rightarrow> s1)"

definition upbit_record_orderbook ::
    "upbit_orderbook_message \<Rightarrow> timestamp_ms \<Rightarrow> upbit_ingest_watch_stats \<Rightarrow> upbit_ingest_watch_stats" where
  "upbit_record_orderbook message now_ms s =
     (let previous = bt_get str_cmp (uob_code message) (us_last_orderbook_timestamp_by_symbol s);
          s1 = s\<lparr>us_orderbook_messages := us_orderbook_messages s + 1,
                 us_last_orderbook_timestamp_by_symbol :=
                   bt_insert str_cmp (uob_code message) (uob_timestamp message) (us_last_orderbook_timestamp_by_symbol s)\<rparr>;
          s2 = (case previous of
                  Some last_timestamp \<Rightarrow>
                    if uob_timestamp message < last_timestamp
                    then upbit_record_gap_alert
                           \<lparr>ug_gap_type = ''ordering_violation'', ug_symbol = uob_code message,
                            ug_detected_at_ms = now_ms, ug_expected_sequence_id = Some last_timestamp,
                            ug_observed_sequence_id = Some (uob_timestamp message),
                            ug_heal_action = ''refetch_snapshot'', ug_heal_status = ''detected''\<rparr> s1
                    else s1
                | None \<Rightarrow> s1)
      in case uob_orderbook_units message of
           [] \<Rightarrow> s2
         | unit # _ \<Rightarrow>
             s2\<lparr>us_derived_book_tickers := us_derived_book_tickers s2 + 1,
                us_last_best_quotes := bt_insert str_cmp (uob_code message)
                  \<lparr>ubq_symbol = uob_code message, ubq_best_bid = uu_bid_price unit,
                   ubq_best_bid_size = uu_bid_size unit, ubq_best_ask = uu_ask_price unit,
                   ubq_best_ask_size = uu_ask_size unit, ubq_exchange_timestamp_ms = uob_timestamp message,
                   ubq_stream_type = (case uob_stream_type message of Some t \<Rightarrow> t | None \<Rightarrow> ''UNKNOWN'')\<rparr>
                  (us_last_best_quotes s2)\<rparr>)"

definition upbit_record_event ::
    "upbit_parsed_event \<Rightarrow> timestamp_ms \<Rightarrow> upbit_ingest_watch_stats \<Rightarrow> upbit_ingest_watch_stats" where
  "upbit_record_event event now_ms s =
     (let s1 = s\<lparr>us_parsed_messages := us_parsed_messages s + 1\<rparr>;
          s2 = (case upbit_exchange_timestamp_ms event of
                  None \<Rightarrow> s1
                | Some exchange_ms \<Rightarrow>
                    (let t = upbit_record_timing exchange_ms now_ms s1
                     in case upbit_symbol event of
                          None \<Rightarrow> t
                        | Some native \<Rightarrow>
                            t\<lparr>us_symbol_last_event_time_ms :=
                                bt_insert str_cmp native exchange_ms (us_symbol_last_event_time_ms t),
                              us_symbol_last_ingest_time_ms :=
                                bt_insert str_cmp native now_ms (us_symbol_last_ingest_time_ms t)\<rparr>));
          s3 = s2\<lparr>us_kind_counts := bump (upbit_kind_name event) (us_kind_counts s2)\<rparr>;
          s4 = (case upbit_symbol event of
                  Some native \<Rightarrow> s3\<lparr>us_symbol_counts := bump native (us_symbol_counts s3)\<rparr>
                | None \<Rightarrow> s3)
      in case event of
           UTicker _ \<Rightarrow> s4\<lparr>us_ticker_messages := us_ticker_messages s4 + 1\<rparr>
         | UTrade message \<Rightarrow> upbit_record_trade message now_ms s4
         | UOrderbook message \<Rightarrow> upbit_record_orderbook message now_ms s4
         | UStatus _ \<Rightarrow> s4\<lparr>us_status_messages := us_status_messages s4 + 1\<rparr>
         | UError _ _ \<Rightarrow>
             upbit_record_gap_alert
               \<lparr>ug_gap_type = ''upbit_error'', ug_symbol = ''venue'', ug_detected_at_ms = now_ms,
                ug_expected_sequence_id = None, ug_observed_sequence_id = None,
                ug_heal_action = ''inspect_error'', ug_heal_status = ''detected''\<rparr> s4
         | UUnknown _ \<Rightarrow> s4\<lparr>us_malformed_messages := us_malformed_messages s4 + 1\<rparr>)"

definition upbit_update_health :: "upbit_ingest_watch_stats \<Rightarrow> upbit_ingest_watch_stats" where
  "upbit_update_health s =
     s\<lparr>us_source_health_status :=
         (if us_received_messages s = 0 then ''waiting_for_messages''
          else if us_malformed_messages s > 0 \<or> us_gap_alert_count s > 0 then ''degraded''
          else ''connected''),
       us_source_health_events := us_source_health_events s + 1\<rparr>"

definition upbit_heartbeat_delay_ms_at :: "upbit_ingest_watch_stats \<Rightarrow> timestamp_ms \<Rightarrow> int" where
  "upbit_heartbeat_delay_ms_at s observed_at_ms =
     (case us_last_ingest_timestamp_ms s of
        Some last_ms \<Rightarrow> max (i64_saturating_sub observed_at_ms last_ms) 0
      | None \<Rightarrow> 0)"

definition upbit_record_reconnect ::
    "upbit_ingest_watch_stats \<Rightarrow> string \<Rightarrow> timestamp_ms \<Rightarrow> upbit_ingest_watch_stats" where
  "upbit_record_reconnect s reason now_ms =
     upbit_record_gap_alert
       \<lparr>ug_gap_type = ''ws_reconnect'', ug_symbol = [], ug_detected_at_ms = now_ms,
        ug_expected_sequence_id = None, ug_observed_sequence_id = None,
        ug_heal_action = ''reconnect_with_backoff'', ug_heal_status = reason\<rparr>
       (s\<lparr>us_reconnect_count := us_reconnect_count s + 1, us_last_reconnect_at_ms := Some now_ms,
          us_source_health_status := ''reconnecting'', us_source_health_events := us_source_health_events s + 1\<rparr>)"

section \<open>The invariant of the statistics\<close>

definition upbit_stats_ok :: "upbit_ingest_watch_stats \<Rightarrow> bool" where
  "upbit_stats_ok s \<longleftrightarrow>
     total (us_kind_counts s) = us_parsed_messages s \<and>
     total (us_symbol_counts s) = us_ticker_messages s + us_trade_messages s + us_orderbook_messages s \<and>
     us_ticker_messages s + us_trade_messages s + us_orderbook_messages s + us_status_messages s \<le> us_parsed_messages s \<and>
     us_derived_book_tickers s \<le> us_orderbook_messages s \<and>
     us_sequence_anomalies s + us_reconnect_count s \<le> us_gap_alert_count s \<and>
     length (us_gap_alerts s) = min MAX_STORED_GAP_ALERTS (us_gap_alert_count s) \<and>
     length (us_recent_gap_alerts s) = min MAX_RECENT_GAP_ALERTS (us_gap_alert_count s) \<and>
     Sublist.suffix (us_recent_gap_alerts s) (us_gap_alerts s) \<and>
     list_all (\<lambda>a. no_slash (ug_gap_type a)) (us_gap_alerts s) \<and>
     us_pings_received s + us_pongs_received s \<le> us_control_messages s \<and>
     bt_keys (us_symbol_last_event_time_ms s) = bt_keys (us_symbol_counts s) \<and>
     bt_keys (us_symbol_last_ingest_time_ms s) = bt_keys (us_symbol_counts s) \<and>
     0 \<le> us_latest_stream_lag_ms s"

lemma push_bounded_length: "0 < n \<Longrightarrow> length xs = min n c \<Longrightarrow> length (push_bounded n x xs) = min n (Suc c)"
  by (auto simp: push_bounded_def Let_def)

lemma push_bounded_set: "set (push_bounded n x xs) \<subseteq> insert x (set xs)"
  by (cases xs) (auto simp: push_bounded_def Let_def)

lemma push_bounded_suffix:
  assumes "Sublist.suffix xs ys" "m \<le> n" "length xs = min m c" "length ys = min n c" "0 < m"
  shows "Sublist.suffix (push_bounded m x xs) (push_bounded n x ys)"
proof -
  from assms(1) obtain zs where ys: "ys = zs @ xs" by (auto simp: Sublist.suffix_def)
  show ?thesis
  proof (cases zs)
    case Nil
    then have "length xs = length ys" using ys by simp
    then have "c \<le> m \<or> m = n" using assms(2-4) by auto
    then show ?thesis
      using assms(2-5) ys Nil by (cases xs) (auto simp: push_bounded_def Let_def intro: suffix_Cons suffix_ConsI)
  next
    case (Cons z zs')
    then have l: "length xs < length ys" using ys by simp
    then have "length xs = m" using assms(3,4) by auto
    then show ?thesis
      using assms(5) ys Cons by (cases xs) (auto simp: push_bounded_def Let_def Sublist.suffix_def)
  qed
qed

lemma bt_keys_insert_eq: "bt_keys m = bt_keys m' \<Longrightarrow> bt_keys (bt_insert cmp k v m) = bt_keys (bt_insert cmp k v' m')"
proof (induction m arbitrary: m')
  case (Cons a m)
  from Cons.prems obtain b n where m': "m' = b # n" "fst b = fst a" "bt_keys m = bt_keys n"
    by (auto simp: bt_keys_def Cons_eq_map_conv)
  show ?case
    using m'(2) Cons.IH [OF m'(3)] m'(3)
    by (cases a; cases b) (auto simp: m'(1) bt_keys_def split: ordering.splits)
qed (simp add: bt_keys_def)

lemma bt_keys_bump: "bt_keys m = bt_keys m' \<Longrightarrow> bt_keys (bt_insert str_cmp k v m) = bt_keys (bump k m')"
  unfolding bump_def by (rule bt_keys_insert_eq)

lemma upbit_stats_ok_new: "upbit_stats_ok (upbit_stats_new url planned)"
  by (simp add: upbit_stats_ok_def upbit_stats_new_def total_def bt_values_def bt_keys_def)

lemma upbit_alert_ok:
  assumes "upbit_stats_ok s" "no_slash (ug_gap_type a)"
  shows "upbit_stats_ok (upbit_record_gap_alert a s)"
proof -
  have l: "length (us_gap_alerts s) = min MAX_STORED_GAP_ALERTS (us_gap_alert_count s)"
    "length (us_recent_gap_alerts s) = min MAX_RECENT_GAP_ALERTS (us_gap_alert_count s)"
    "Sublist.suffix (us_recent_gap_alerts s) (us_gap_alerts s)" "list_all (\<lambda>a. no_slash (ug_gap_type a)) (us_gap_alerts s)"
    using assms(1) by (simp_all add: upbit_stats_ok_def)
  have "length (push_bounded MAX_STORED_GAP_ALERTS a (us_gap_alerts s)) = min MAX_STORED_GAP_ALERTS (Suc (us_gap_alert_count s))"
    by (rule push_bounded_length) (simp_all add: l MAX_STORED_GAP_ALERTS_def)
  moreover have "length (push_bounded MAX_RECENT_GAP_ALERTS a (us_recent_gap_alerts s)) =
      min MAX_RECENT_GAP_ALERTS (Suc (us_gap_alert_count s))"
    by (rule push_bounded_length) (simp_all add: l MAX_RECENT_GAP_ALERTS_def)
  moreover have "Sublist.suffix (push_bounded MAX_RECENT_GAP_ALERTS a (us_recent_gap_alerts s))
      (push_bounded MAX_STORED_GAP_ALERTS a (us_gap_alerts s))"
    by (rule push_bounded_suffix [OF l(3) _ l(2) l(1)]) (simp_all add: MAX_STORED_GAP_ALERTS_def MAX_RECENT_GAP_ALERTS_def)
  moreover have "list_all (\<lambda>a. no_slash (ug_gap_type a)) (push_bounded MAX_STORED_GAP_ALERTS a (us_gap_alerts s))"
    using l(4) assms(2) push_bounded_set [of MAX_STORED_GAP_ALERTS a "us_gap_alerts s"] by (auto simp: list_all_iff)
  ultimately show ?thesis using assms(1) by (simp add: upbit_stats_ok_def upbit_record_gap_alert_def)
qed

lemma upbit_stats_frame [simp]:
  "upbit_stats_ok (s\<lparr>us_received_messages := n\<rparr>) = upbit_stats_ok s"
  "upbit_stats_ok (s\<lparr>us_malformed_messages := n\<rparr>) = upbit_stats_ok s"
  "upbit_stats_ok (s\<lparr>us_close_messages := n\<rparr>) = upbit_stats_ok s"
  "upbit_stats_ok (s\<lparr>us_source_health_status := h, us_source_health_events := n\<rparr>) = upbit_stats_ok s"
  by (simp_all add: upbit_stats_ok_def)

lemma no_slash_lits [simp]:
  "no_slash ''ordering_violation''" "no_slash ''upbit_error''" "no_slash ''ws_reconnect''" "no_slash ''upbit''"
  by (simp_all add: no_slash_def)

lemma upbit_health_ok: "upbit_stats_ok s \<Longrightarrow> upbit_stats_ok (upbit_update_health s)"
  by (simp add: upbit_update_health_def)

lemma upbit_reconnect_ok:
  assumes "upbit_stats_ok s" shows "upbit_stats_ok (upbit_record_reconnect s reason t)"
proof -
  define s1 where "s1 = s\<lparr>us_last_reconnect_at_ms := Some t, us_source_health_status := ''reconnecting'',
    us_source_health_events := us_source_health_events s + 1\<rparr>"
  have "upbit_stats_ok s1" using assms by (simp add: s1_def upbit_stats_ok_def)
  from upbit_alert_ok [OF this, of "\<lparr>ug_gap_type = ''ws_reconnect'', ug_symbol = [], ug_detected_at_ms = t,
        ug_expected_sequence_id = None, ug_observed_sequence_id = None,
        ug_heal_action = ''reconnect_with_backoff'', ug_heal_status = reason\<rparr>"]
  show ?thesis using assms
    by (simp add: upbit_stats_ok_def upbit_record_reconnect_def upbit_record_gap_alert_def s1_def)
qed

text \<open>The part of \<open>record_event\<close> that all kinds share.\<close>

definition upbit_count :: "upbit_parsed_event \<Rightarrow> timestamp_ms \<Rightarrow> upbit_ingest_watch_stats \<Rightarrow> upbit_ingest_watch_stats" where
  "upbit_count event t s =
     (let s1 = s\<lparr>us_parsed_messages := us_parsed_messages s + 1\<rparr>;
          kinds = bump (upbit_kind_name event) (us_kind_counts s)
      in case (upbit_symbol event, upbit_exchange_timestamp_ms event) of
           (Some native, Some x) \<Rightarrow>
             (upbit_record_timing x t s1)\<lparr>us_symbol_last_event_time_ms := bt_insert str_cmp native x (us_symbol_last_event_time_ms s),
               us_symbol_last_ingest_time_ms := bt_insert str_cmp native t (us_symbol_last_ingest_time_ms s),
               us_kind_counts := kinds, us_symbol_counts := bump native (us_symbol_counts s)\<rparr>
         | _ \<Rightarrow> s1\<lparr>us_kind_counts := kinds\<rparr>)"

lemma upbit_record_event_cases:
  "upbit_record_event (UTicker m) t s = (upbit_count (UTicker m) t s)\<lparr>us_ticker_messages := us_ticker_messages s + 1\<rparr>"
  "upbit_record_event (UTrade tr) t s = upbit_record_trade tr t (upbit_count (UTrade tr) t s)"
  "upbit_record_event (UOrderbook b) t s = upbit_record_orderbook b t (upbit_count (UOrderbook b) t s)"
  "upbit_record_event (UStatus st) t s = (upbit_count (UStatus st) t s)\<lparr>us_status_messages := us_status_messages s + 1\<rparr>"
  "upbit_record_event (UError n e) t s = upbit_record_gap_alert
       \<lparr>ug_gap_type = ''upbit_error'', ug_symbol = ''venue'', ug_detected_at_ms = t,
        ug_expected_sequence_id = None, ug_observed_sequence_id = None,
        ug_heal_action = ''inspect_error'', ug_heal_status = ''detected''\<rparr> (upbit_count (UError n e) t s)"
  "upbit_record_event (UUnknown v) t s = (upbit_count (UUnknown v) t s)\<lparr>us_malformed_messages := us_malformed_messages s + 1\<rparr>"
  by (simp_all add: upbit_record_event_def upbit_count_def upbit_symbol_def upbit_exchange_timestamp_ms_def
      upbit_record_timing_def Let_def)

lemma upbit_count_ok:
  assumes "upbit_stats_ok s"
  shows "upbit_stats_ok (upbit_count (UStatus st) t s\<lparr>us_status_messages := us_status_messages s + 1\<rparr>)"
    "upbit_stats_ok (upbit_count (UUnknown v) t s)" "upbit_stats_ok (upbit_count (UError n e) t s)"
    "upbit_stats_ok (upbit_count (UTicker m) t s\<lparr>us_ticker_messages := us_ticker_messages s + 1\<rparr>)"
    "upbit_stats_ok (upbit_count (UTrade tr) t s\<lparr>us_trade_messages := us_trade_messages s + 1\<rparr>)"
    "upbit_stats_ok (upbit_count (UOrderbook b) t s\<lparr>us_orderbook_messages := us_orderbook_messages s + 1\<rparr>)"
  using assms
  by (simp_all add: upbit_count_def upbit_stats_ok_def upbit_symbol_def upbit_exchange_timestamp_ms_def
      upbit_record_timing_def bt_keys_bump)

lemma upbit_frame2 [simp]:
  "upbit_stats_ok (s\<lparr>us_last_trade_sequence_by_symbol := x\<rparr>) = upbit_stats_ok s"
  "upbit_stats_ok (s\<lparr>us_last_orderbook_timestamp_by_symbol := x\<rparr>) = upbit_stats_ok s"
  "upbit_stats_ok (s\<lparr>us_last_best_quotes := q\<rparr>) = upbit_stats_ok s"
  by (simp_all add: upbit_stats_ok_def)

lemma upbit_anomaly_ok:
  assumes "upbit_stats_ok s" "no_slash (ug_gap_type a)"
  shows "upbit_stats_ok (upbit_record_gap_alert a (s\<lparr>us_sequence_anomalies := us_sequence_anomalies s + 1\<rparr>))"
  using upbit_alert_ok [OF assms] assms(1) by (simp add: upbit_stats_ok_def upbit_record_gap_alert_def)

lemma upbit_trade_ok:
  assumes "upbit_stats_ok (s\<lparr>us_trade_messages := us_trade_messages s + 1\<rparr>)"
  shows "upbit_stats_ok (upbit_record_trade m t s)"
proof -
  have 1: "upbit_stats_ok (s\<lparr>us_trade_messages := us_trade_messages s + 1, us_last_trade_sequence_by_symbol := x\<rparr>)" for x
    using assms by simp
  show ?thesis
    using 1 upbit_anomaly_ok [OF 1] by (simp add: upbit_record_trade_def Let_def split: option.splits)
qed

lemma upbit_orderbook_ok:
  assumes "upbit_stats_ok (s\<lparr>us_orderbook_messages := us_orderbook_messages s + 1\<rparr>)"
    "us_derived_book_tickers s \<le> us_orderbook_messages s"
  shows "upbit_stats_ok (upbit_record_orderbook m t s)"
proof -
  define s1 where "s1 = s\<lparr>us_orderbook_messages := us_orderbook_messages s + 1, us_last_orderbook_timestamp_by_symbol :=
    bt_insert str_cmp (uob_code m) (uob_timestamp m) (us_last_orderbook_timestamp_by_symbol s)\<rparr>"
  define s2 where "s2 = (case bt_get str_cmp (uob_code m) (us_last_orderbook_timestamp_by_symbol s) of
      Some l \<Rightarrow> if uob_timestamp m < l then upbit_record_gap_alert
                           \<lparr>ug_gap_type = ''ordering_violation'', ug_symbol = uob_code m,
                            ug_detected_at_ms = t, ug_expected_sequence_id = Some l,
                            ug_observed_sequence_id = Some (uob_timestamp m),
                            ug_heal_action = ''refetch_snapshot'', ug_heal_status = ''detected''\<rparr> s1 else s1
    | None \<Rightarrow> s1)"
  have s1: "upbit_stats_ok s1" using assms(1) by (simp add: s1_def)
  have s2: "upbit_stats_ok s2 \<and> us_derived_book_tickers s2 < us_orderbook_messages s2"
    using s1 assms(2) upbit_alert_ok [OF s1]
    by (auto simp: s2_def s1_def upbit_record_gap_alert_def split: option.splits)
  have "upbit_stats_ok (s2\<lparr>us_derived_book_tickers := Suc (us_derived_book_tickers s2)\<rparr>)"
    using s2 by (simp add: upbit_stats_ok_def)
  then show ?thesis
    using s2 unfolding upbit_record_orderbook_def Let_def s1_def [symmetric] s2_def [symmetric]
    by (simp split: list.split)
qed

lemma upbit_record_event_ok:
  assumes "upbit_stats_ok s" shows "upbit_stats_ok (upbit_record_event e t s)"
proof (cases e)
  case (UTrade m)
  have "us_trade_messages (upbit_count (UTrade m) t s) = us_trade_messages s"
    by (simp add: upbit_count_def upbit_record_timing_def Let_def split: option.split)
  with UTrade upbit_trade_ok upbit_count_ok(5) [OF assms] show ?thesis by (simp add: upbit_record_event_cases)
next
  case (UOrderbook m)
  have "us_orderbook_messages (upbit_count (UOrderbook m) t s) = us_orderbook_messages s"
    "us_derived_book_tickers (upbit_count (UOrderbook m) t s) = us_derived_book_tickers s"
    by (simp_all add: upbit_count_def upbit_record_timing_def Let_def split: option.split)
  with UOrderbook upbit_orderbook_ok upbit_count_ok(6) [OF assms] assms show ?thesis
    by (simp add: upbit_record_event_cases upbit_stats_ok_def [of s])
qed (use upbit_count_ok [OF assms] upbit_alert_ok [OF upbit_count_ok(3) [OF assms]] in
      \<open>simp_all add: upbit_record_event_cases\<close>)

section \<open>What the ordering alerts mean\<close>

definition upbit_record_all ::
    "(upbit_parsed_event \<times> timestamp_ms) list \<Rightarrow> upbit_ingest_watch_stats \<Rightarrow> upbit_ingest_watch_stats" where
  "upbit_record_all es s = foldl (\<lambda>s (e, t). upbit_record_event e t s) s es"

text \<open>The trade numbers and the order-book times of one market, in order of arrival.\<close>

definition trade_ids :: "(upbit_parsed_event \<times> timestamp_ms) list \<Rightarrow> string \<Rightarrow> int list" where
  "trade_ids es c = List.map_filter (\<lambda>(e, _). case e of
     UTrade m \<Rightarrow> if ur_code m = c then Some (ur_sequential_id m) else None | _ \<Rightarrow> None) es"

definition book_times :: "(upbit_parsed_event \<times> timestamp_ms) list \<Rightarrow> string \<Rightarrow> timestamp_ms list" where
  "book_times es c = List.map_filter (\<lambda>(e, _). case e of
     UOrderbook m \<Rightarrow> if uob_code m = c then Some (uob_timestamp m) else None | _ \<Rightarrow> None) es"

definition is_upbit_error :: "upbit_parsed_event \<Rightarrow> bool" where
  "is_upbit_error e \<longleftrightarrow> (case e of UError _ _ \<Rightarrow> True | _ \<Rightarrow> False)"

definition upbit_ordered :: "(upbit_parsed_event \<times> timestamp_ms) list \<Rightarrow> bool" where
  "upbit_ordered es \<longleftrightarrow> (\<forall>c. sorted (trade_ids es c)) \<and> (\<forall>c. sorted (book_times es c)) \<and>
     (\<forall>(e, t) \<in> set es. \<not> is_upbit_error e)"

lemma ids_snoc:
  "trade_ids (es @ [(UTrade m, t)]) = (trade_ids es)(ur_code m := trade_ids es (ur_code m) @ [ur_sequential_id m])"
  "book_times (es @ [(UOrderbook b, t)]) = (book_times es)(uob_code b := book_times es (uob_code b) @ [uob_timestamp b])"
  "(\<And>m. e \<noteq> UTrade m) \<Longrightarrow> trade_ids (es @ [(e, t)]) = trade_ids es"
  "(\<And>m. e \<noteq> UOrderbook m) \<Longrightarrow> book_times (es @ [(e, t)]) = book_times es"
  by (auto simp: trade_ids_def book_times_def map_filter_def fun_eq_iff split: upbit_parsed_event.splits)

lemma sorted_upd: "(\<forall>c. sorted ((f(k := f k @ [x])) c)) \<longleftrightarrow>
    (\<forall>c. sorted (f c)) \<and> (f k \<noteq> [] \<longrightarrow> last (f k) \<le> (x :: 'v::linorder))"
  using sorted_snoc by (auto simp: sorted_snoc)

definition upbit_history :: "(upbit_parsed_event \<times> timestamp_ms) list \<Rightarrow> upbit_ingest_watch_stats \<Rightarrow> bool" where
  "upbit_history es s \<longleftrightarrow> tracks (us_last_trade_sequence_by_symbol s) (trade_ids es) \<and>
     tracks (us_last_orderbook_timestamp_by_symbol s) (book_times es) \<and>
     (us_gap_alert_count s = 0 \<longleftrightarrow> upbit_ordered es) \<and>
     (us_sequence_anomalies s = 0 \<longleftrightarrow> (\<forall>c. sorted (trade_ids es c)))"

lemma upbit_count_fields [simp]:
  "us_last_trade_sequence_by_symbol (upbit_count e t s) = us_last_trade_sequence_by_symbol s"
  "us_last_orderbook_timestamp_by_symbol (upbit_count e t s) = us_last_orderbook_timestamp_by_symbol s"
  "us_gap_alert_count (upbit_count e t s) = us_gap_alert_count s"
  "us_sequence_anomalies (upbit_count e t s) = us_sequence_anomalies s"
  by (simp_all add: upbit_count_def upbit_record_timing_def Let_def split: option.split)

lemma upbit_history_step:
  assumes "upbit_history es s"
  shows "upbit_history (es @ [(e, t)]) (upbit_record_event e t s)"
proof (cases e)
  case (UTrade m)
  have h: "tracks (us_last_trade_sequence_by_symbol s) (trade_ids es)"
    using assms by (simp add: upbit_history_def)
  show ?thesis
    using assms tracks_insert [OF h, of "ur_code m" "ur_sequential_id m"]
    by (auto simp: UTrade upbit_record_event_cases upbit_record_trade_def upbit_history_def upbit_ordered_def ids_snoc
        sorted_upd tracks_get [OF h] upbit_record_gap_alert_def is_upbit_error_def Let_def simp del: fun_upd_apply)
next
  case (UOrderbook m)
  have h: "tracks (us_last_orderbook_timestamp_by_symbol s) (book_times es)"
    using assms by (simp add: upbit_history_def)
  show ?thesis
    using assms tracks_insert [OF h, of "uob_code m" "uob_timestamp m"]
    by (auto simp: UOrderbook upbit_record_event_cases upbit_record_orderbook_def upbit_history_def upbit_ordered_def
        ids_snoc sorted_upd tracks_get [OF h] upbit_record_gap_alert_def is_upbit_error_def Let_def
        simp del: fun_upd_apply split: list.splits)
qed (use assms in \<open>auto simp: upbit_record_event_cases upbit_history_def upbit_ordered_def ids_snoc
       upbit_record_gap_alert_def is_upbit_error_def\<close>)

lemma upbit_history_all: "upbit_history es (upbit_record_all es (upbit_stats_new url planned))"
proof (induction es rule: rev_induct)
  case Nil
  show ?case by (simp add: upbit_history_def upbit_record_all_def upbit_stats_new_def upbit_ordered_def
        trade_ids_def book_times_def map_filter_def tracks_def)
next
  case (snoc x es)
  then show ?case by (cases x) (simp add: upbit_record_all_def upbit_history_step)
qed

section \<open>Properties\<close>

text \<open>C24: Over any sequence of Upbit events, an alert is raised exactly when something was out of order
  or the venue reported an error: no alert means that the trade numbers and the order-book times of every market
  arrived in ascending order; and the anomaly counter is zero exactly when every market's trades were in order.\<close>

theorem upbit_alerts_iff_disorder:
  "(us_gap_alert_count (upbit_record_all es (upbit_stats_new url planned)) = 0 \<longleftrightarrow> upbit_ordered es) \<and>
   (us_sequence_anomalies (upbit_record_all es (upbit_stats_new url planned)) = 0 \<longleftrightarrow> (\<forall>c. sorted (trade_ids es c)))"
  using upbit_history_all [of es url planned] by (simp add: upbit_history_def)

end
