(* ===== verification/Upbit_Markets.thy ===== *)
theory Upbit_Markets
  imports Upbit_Feed
begin

text \<open>
  \<open>src/upbit/config.rs\<close>, \<open>url.rs\<close> and \<open>universe.rs\<close>: the run configuration, the REST URLs and the choice of
  the markets to follow: the \<open>limit\<close> most traded active markets of the quote currency. URL parsing and the HTTP
  requests (including decoding of the two response bodies) are parameters.
\<close>

section \<open>Configuration (config.rs)\<close>

record upbit_run_config =
  urc_rest_base_url :: string
  urc_websocket_url :: string
  urc_quote_currency :: string
  urc_duration_seconds :: nat
  urc_log_interval_seconds :: nat
  urc_expect_symbol_count :: nat
  urc_allow_partial_symbol_coverage :: bool
  urc_orderbook_unit :: nat
  urc_l0_storage :: "l0_storage_config option"

definition upbit_validate_config :: "upbit_run_config \<Rightarrow> (unit, upbit_ingest_error) result" where
  "upbit_validate_config cfg =
     (if urc_quote_currency cfg \<noteq> ''KRW''
      then Inl (UInvalidConfig ''initial Upbit L0 ingest only supports KRW quote markets'')
      else if urc_orderbook_unit cfg \<notin> {1, 5, 15, 30}
      then Inl (UInvalidConfig ''upbit orderbook unit must be one of 1, 5, 15, or 30'')
      else Inr ())"

section \<open>URLs (url.rs)\<close>

definition upbit_validate_base_url :: "parsed_url \<Rightarrow> (unit, upbit_ingest_error) result" where
  "upbit_validate_base_url base =
     (if url_scheme base \<noteq> ''https'' then Inl (UInvalidConfig ''Upbit REST base URL must use https'')
      else if url_host base = None then Inl (UInvalidConfig ''Upbit REST base URL must include a host'')
      else if url_username base \<noteq> [] \<or> url_password base \<noteq> None
      then Inl (UInvalidConfig ''Upbit REST base URL must not include credentials'')
      else if url_query base \<noteq> None \<or> url_fragment base \<noteq> None
      then Inl (UInvalidConfig ''Upbit REST base URL must not include query or fragment components'')
      else Inr ())"

definition upbit_validate_endpoint_path :: "string \<Rightarrow> (unit, upbit_ingest_error) result" where
  "upbit_validate_endpoint_path path =
     (if \<not> starts_with ''/'' path then Inl (UInvalidConfig ''Upbit REST endpoint path must start with /'')
      else if CHR ''?'' \<in> set path \<or> CHR ''#'' \<in> set path
      then Inl (UInvalidConfig ''Upbit REST endpoint path must not contain query or fragment components'')
      else Inr ())"

definition upbit_market_data_url ::
    "(string \<Rightarrow> (parsed_url, string) result) \<Rightarrow> string \<Rightarrow> string \<Rightarrow> (parsed_url, upbit_ingest_error) result" where
  "upbit_market_data_url url_parse base endpoint_path =
     and_then (upbit_validate_endpoint_path endpoint_path) (\<lambda>_.
     and_then (map_err (\<lambda>e. UInvalidConfig (''invalid Upbit REST base URL: '' @ e)) (url_parse (trim base))) (\<lambda>url.
     and_then (upbit_validate_base_url url) (\<lambda>_.
     map_err (\<lambda>e. UInvalidConfig (''invalid Upbit REST endpoint URL: '' @ e))
       (url_parse (trim_end_slashes (url_as_str url) @ endpoint_path)))))"

definition MARKET_ALL_ENDPOINT :: string where "MARKET_ALL_ENDPOINT = ''/v1/market/all''"
definition TICKER_ALL_ENDPOINT :: string where "TICKER_ALL_ENDPOINT = ''/v1/ticker/all''"

text \<open>A URL with the pairs appended to its query.\<close>

type_synonym query_url = "parsed_url \<times> (string \<times> string) list"

definition market_all_url ::
    "(string \<Rightarrow> (parsed_url, string) result) \<Rightarrow> string \<Rightarrow> (query_url, upbit_ingest_error) result" where
  "market_all_url url_parse base =
     and_then (upbit_market_data_url url_parse base MARKET_ALL_ENDPOINT) (\<lambda>url. Inr (url, [(''is_details'', ''true'')]))"

definition ticker_all_url ::
    "(string \<Rightarrow> (parsed_url, string) result) \<Rightarrow> string \<Rightarrow> string \<Rightarrow> (query_url, upbit_ingest_error) result" where
  "ticker_all_url url_parse base quote =
     and_then (upbit_market_data_url url_parse base TICKER_ALL_ENDPOINT) (\<lambda>url. Inr (url, [(''quote_currencies'', quote)]))"

section \<open>Choosing the markets (universe.rs)\<close>

record upbit_market =
  um_market :: string
  um_base_asset :: string
  um_quote_asset :: string
  um_korean_name :: string
  um_english_name :: string
  um_acc_trade_price_24h :: f64

record market_all_entry =
  ma_market :: string
  ma_korean_name :: string
  ma_english_name :: string
  ma_market_event :: "bool option option"

record ticker_all_entry =
  ta_market :: string
  ta_acc_trade_price_24h :: f64

text \<open>\<open>seen.insert\<close> keeps the first entry of each market.\<close>

fun first_of_each :: "market_all_entry list \<Rightarrow> string set \<Rightarrow> market_all_entry list" where
  "first_of_each [] seen = []"
| "first_of_each (m # ms) seen =
     (if ma_market m \<in> seen then first_of_each ms seen else m # first_of_each ms (insert (ma_market m) seen))"

definition has_warning :: "market_all_entry \<Rightarrow> bool" where
  "has_warning m = (case ma_market_event m of Some (Some w) \<Rightarrow> w | _ \<Rightarrow> False)"

definition active_quote_markets :: "market_all_entry list \<Rightarrow> string \<Rightarrow> market_all_entry list" where
  "active_quote_markets entries quote =
     first_of_each (filter (\<lambda>m. \<not> has_warning m) (filter (\<lambda>m. starts_with (quote @ ''-'') (ma_market m)) entries)) {}"

definition base_asset_of :: "string \<Rightarrow> string \<Rightarrow> string" where
  "base_asset_of market quote =
     (if starts_with (quote @ ''-'') market then drop (length (quote @ ''-'')) market else market)"

text \<open>\<open>sort_by\<close> with the descending comparison of the traded value: stable, and total on the finite numbers
  a JSON document can contain.\<close>

fun insert_by_value :: "upbit_market \<Rightarrow> upbit_market list \<Rightarrow> upbit_market list" where
  "insert_by_value x [] = [x]"
| "insert_by_value x (y # ys) =
     (if f64_lt (um_acc_trade_price_24h x) (um_acc_trade_price_24h y) then y # insert_by_value x ys else x # y # ys)"

definition sort_by_value :: "upbit_market list \<Rightarrow> upbit_market list" where
  "sort_by_value ms = foldr insert_by_value ms []"

definition with_traded_value :: "ticker_all_entry list \<Rightarrow> string \<Rightarrow> market_all_entry \<Rightarrow> upbit_market option" where
  "with_traded_value tickers quote m =
     Option.bind (map_of (rev (map (\<lambda>t. (ta_market t, ta_acc_trade_price_24h t)) tickers)) (ma_market m)) (\<lambda>value.
     Some \<lparr>um_market = ma_market m, um_base_asset = base_asset_of (ma_market m) quote, um_quote_asset = quote,
           um_korean_name = ma_korean_name m, um_english_name = ma_english_name m, um_acc_trade_price_24h = value\<rparr>)"

definition ranked_markets :: "market_all_entry list \<Rightarrow> ticker_all_entry list \<Rightarrow> string \<Rightarrow> upbit_market list" where
  "ranked_markets entries tickers quote =
     sort_by_value (List.map_filter (with_traded_value tickers quote) (active_quote_markets entries quote))"

record upbit_rest =
  ux_url_parse :: "string \<Rightarrow> (parsed_url, string) result"
  ux_get_markets :: "query_url \<Rightarrow> (market_all_entry list, string) result"
  ux_get_tickers :: "query_url \<Rightarrow> (ticker_all_entry list, string) result"

definition fetch_top_krw_markets ::
    "upbit_rest \<Rightarrow> string \<Rightarrow> string \<Rightarrow> nat \<Rightarrow> (upbit_market list, upbit_ingest_error) result" where
  "fetch_top_krw_markets rest base quote limit =
     and_then (market_all_url (ux_url_parse rest) base) (\<lambda>market_url.
     and_then (ticker_all_url (ux_url_parse rest) base quote) (\<lambda>ticker_url.
     and_then (map_err UHttp (ux_get_markets rest market_url)) (\<lambda>entries.
     and_then (map_err UHttp (ux_get_tickers rest ticker_url)) (\<lambda>tickers.
     (let ranked = ranked_markets entries tickers quote
      in if length ranked < limit
         then Inl (UInvalidMessage (''Upbit returned only '' @ show_nat (length ranked) @ '' active '' @ quote @
                '' markets, expected at least '' @ show_nat limit))
         else Inr (take limit ranked))))))"

section \<open>The choice is right\<close>

lemma insert_by_value_set: "set (insert_by_value x ys) = insert x (set ys)"
  by (induction ys) auto

lemma insert_by_value_mset: "mset (insert_by_value x ys) = add_mset x (mset ys)"
  by (induction ys) auto

lemma sort_by_value_mset: "mset (sort_by_value ms) = mset ms"
  by (induction ms) (simp_all add: sort_by_value_def insert_by_value_mset)

lemma finite_not_lt: "is_finite a \<Longrightarrow> is_finite b \<Longrightarrow> \<not> f64_lt a b \<longleftrightarrow> f64_le b a"
  by (cases a; cases b) (auto simp: is_finite_def f64_le_def f64_eq_def)

lemma finite_le_trans: "is_finite a \<Longrightarrow> is_finite b \<Longrightarrow> is_finite c \<Longrightarrow> f64_le a b \<Longrightarrow> f64_le b c \<Longrightarrow> f64_le a c"
  by (cases a; cases b; cases c) (auto simp: is_finite_def f64_le_def f64_eq_def)

definition by_value :: "upbit_market \<Rightarrow> upbit_market \<Rightarrow> bool" where
  "by_value a b \<longleftrightarrow> f64_le (um_acc_trade_price_24h b) (um_acc_trade_price_24h a)"

lemma insert_by_value_sorted:
  assumes "\<forall>m \<in> insert x (set ys). is_finite (um_acc_trade_price_24h m)" "sorted_wrt by_value ys"
  shows "sorted_wrt by_value (insert_by_value x ys)"
  using assms
proof (induction ys)
  case (Cons y ys)
  show ?case
  proof (cases "f64_lt (um_acc_trade_price_24h x) (um_acc_trade_price_24h y)")
    case True
    then show ?thesis using Cons by (auto simp: insert_by_value_set by_value_def f64_le_def)
  next
    case False
    then have xy: "by_value x y" using Cons.prems(1) finite_not_lt by (simp add: by_value_def)
    have "by_value x z" if "z \<in> set ys" for z
    proof -
      have "by_value y z" using Cons.prems(2) that by simp
      with xy that Cons.prems(1) show ?thesis
        using finite_le_trans [of "um_acc_trade_price_24h z" "um_acc_trade_price_24h y" "um_acc_trade_price_24h x"]
        by (simp add: by_value_def)
    qed
    with False xy Cons.prems show ?thesis by simp
  qed
qed simp

lemma sort_by_value_sorted:
  assumes "\<forall>m \<in> set ms. is_finite (um_acc_trade_price_24h m)"
  shows "sorted_wrt by_value (sort_by_value ms)"
  using assms
proof (induction ms)
  case (Cons m ms)
  have "set (foldr insert_by_value ms []) = set ms"
    using sort_by_value_mset [of ms] by (metis set_mset_mset sort_by_value_def)
  with Cons show ?case using insert_by_value_sorted [of m "sort_by_value ms"] by (simp add: sort_by_value_def)
qed (simp add: sort_by_value_def)

lemma first_of_each_distinct:
  "distinct (map ma_market (first_of_each ms seen)) \<and> ma_market ` set (first_of_each ms seen) \<inter> seen = {}"
  by (induction ms seen rule: first_of_each.induct) auto

lemma first_of_each_subset: "set (first_of_each ms seen) \<subseteq> set ms"
  by (induction ms seen rule: first_of_each.induct) auto

lemma map_filter_distinct:
  assumes "distinct (map f xs)" "\<And>x y. g x = Some y \<Longrightarrow> h y = f x"
  shows "distinct (map h (List.map_filter g xs))"
  using assms(1)
proof (induction xs)
  case (Cons x xs)
  have "h y \<in> f ` set xs" if "y \<in> set (List.map_filter g xs)" for y
    using that assms(2) by (force simp: map_filter_def)
  with Cons show ?case using assms(2) by (auto simp: map_filter_simps split: option.splits)
qed (simp add: map_filter_simps)

lemma ranked_markets_distinct: "distinct (map um_market (ranked_markets entries tickers quote))"
proof -
  have "distinct (map um_market (List.map_filter (with_traded_value tickers quote) (active_quote_markets entries quote)))"
    by (rule map_filter_distinct [of ma_market]) (use first_of_each_distinct in
      \<open>auto simp: active_quote_markets_def with_traded_value_def bind_eq_Some_conv\<close>)
  then show ?thesis
    using sort_by_value_mset [of "List.map_filter (with_traded_value tickers quote) (active_quote_markets entries quote)"]
    unfolding ranked_markets_def by (metis mset_eq_imp_distinct_iff mset_map)
qed

text \<open>The entry a market is made from.\<close>

lemma ranked_markets_mem:
  assumes "m \<in> set (ranked_markets entries tickers quote)"
  shows "\<exists>e \<in> set entries. ma_market e = um_market m \<and> \<not> has_warning e \<and> starts_with (quote @ ''-'') (um_market m) \<and>
    um_market m = quote @ ''-'' @ um_base_asset m \<and>
    (\<exists>t \<in> set tickers. ta_market t = um_market m \<and> ta_acc_trade_price_24h t = um_acc_trade_price_24h m)"
proof -
  have "m \<in> set (List.map_filter (with_traded_value tickers quote) (active_quote_markets entries quote))"
    using assms sort_by_value_mset [of "List.map_filter (with_traded_value tickers quote) (active_quote_markets entries quote)"]
    unfolding ranked_markets_def by (metis set_mset_mset)
  then obtain e where e: "e \<in> set (active_quote_markets entries quote)" "with_traded_value tickers quote e = Some m"
    by (auto simp: map_filter_def)
  from e(1) have "e \<in> set entries" "\<not> has_warning e" and pre: "starts_with (quote @ ''-'') (ma_market e)"
    using first_of_each_subset [of "filter (\<lambda>m. \<not> has_warning m) (filter (\<lambda>m. starts_with (quote @ ''-'') (ma_market m)) entries)" "{}"]
    by (auto simp: active_quote_markets_def)
  moreover from pre have "ma_market e = quote @ ''-'' @ base_asset_of (ma_market e) quote"
    by (auto simp: starts_with_def base_asset_of_def elim!: prefixE)
  moreover from e(2) obtain v where "map_of (rev (map (\<lambda>t. (ta_market t, ta_acc_trade_price_24h t)) tickers)) (ma_market e) = Some v"
    and m: "um_market m = ma_market e" "um_base_asset m = base_asset_of (ma_market e) quote" "um_acc_trade_price_24h m = v"
    by (auto simp: with_traded_value_def bind_eq_Some_conv)
  moreover from this(1) have "\<exists>t \<in> set tickers. ta_market t = ma_market e \<and> ta_acc_trade_price_24h t = v"
    by (force dest!: map_of_SomeD)
  ultimately show ?thesis by (intro bexI [of _ e]) auto
qed

section \<open>Properties\<close>

text \<open>C25: When \<open>fetch_top_krw_markets\<close> succeeds (the tickers being the finite numbers JSON allows), it returns
  exactly as many markets as asked for, all distinct, each an entry without warning in the quote currency whose base
  asset is what follows the dash, in descending order of traded value; and no ranked market that was left out has a
  larger traded value than one that was taken.\<close>

theorem top_markets_are_the_most_traded:
  assumes "fetch_top_krw_markets rest base quote limit = Inr ms"
    and "market_all_url (ux_url_parse rest) base = Inr mu" "ux_get_markets rest mu = Inr entries"
    and "ticker_all_url (ux_url_parse rest) base quote = Inr tu" "ux_get_tickers rest tu = Inr tickers"
    and "\<forall>t \<in> set tickers. is_finite (ta_acc_trade_price_24h t)"
  shows "length ms = limit \<and> distinct (map um_market ms) \<and> sorted_wrt by_value ms \<and>
    (\<forall>m \<in> set ms. um_market m = quote @ ''-'' @ um_base_asset m \<and>
       (\<exists>e \<in> set entries. ma_market e = um_market m \<and> \<not> has_warning e) \<and>
       (\<forall>n \<in> set (ranked_markets entries tickers quote) - set ms. by_value m n))"
proof -
  let ?r = "ranked_markets entries tickers quote"
  from assms have l: "limit \<le> length ?r" and ms: "ms = take limit ?r"
    by (auto simp: fetch_top_krw_markets_def Let_def not_less split: if_splits)
  have "is_finite (um_acc_trade_price_24h m)" if "m \<in> set ?r" for m
    using ranked_markets_mem [OF that] assms(6) by metis
  moreover have "set (sort_by_value xs) = set xs" for xs
    by (metis set_mset_mset sort_by_value_mset)
  ultimately have s: "sorted_wrt by_value ?r"
    unfolding ranked_markets_def by (intro sort_by_value_sorted) simp
  have parts: "ms @ drop limit ?r = ?r" by (simp add: ms)
  with s have "sorted_wrt by_value (ms @ drop limit ?r)" by simp
  then have "sorted_wrt by_value ms" and above: "\<forall>m \<in> set ms. \<forall>n \<in> set (drop limit ?r). by_value m n"
    unfolding sorted_wrt_append by auto
  moreover have "set ?r - set ms \<subseteq> set (drop limit ?r)"
    using arg_cong [OF parts, of set] by auto
  moreover have "distinct (map um_market ms)"
    using ranked_markets_distinct [of entries tickers quote] by (simp add: ms take_map [symmetric])
  moreover have "\<forall>m \<in> set ms. um_market m = quote @ ''-'' @ um_base_asset m \<and>
          (\<exists>e \<in> set entries. ma_market e = um_market m \<and> \<not> has_warning e)"
    using ranked_markets_mem [of _ entries tickers quote] set_take_subset [of limit ?r] unfolding ms by blast
  moreover have "length ms = limit" using l ms by simp
  ultimately show ?thesis by blast
qed

section \<open>Witnesses\<close>

definition demo_url :: "string \<Rightarrow> parsed_url" where
  "demo_url s = \<lparr>url_scheme = ''https'', url_host = Some ''h'', url_username = [],
       url_password = None, url_query = None, url_fragment = None, url_as_str = s\<rparr>"

definition demo_entries :: "market_all_entry list" where
  "demo_entries = [\<lparr>ma_market = ''KRW-ETH'', ma_korean_name = [], ma_english_name = ''Ether'', ma_market_event = None\<rparr>,
        \<lparr>ma_market = ''KRW-BTC'', ma_korean_name = [], ma_english_name = ''Bitcoin'', ma_market_event = Some (Some False)\<rparr>,
        \<lparr>ma_market = ''KRW-X'', ma_korean_name = [], ma_english_name = ''X'', ma_market_event = Some (Some True)\<rparr>]"

definition demo_tickers :: "ticker_all_entry list" where
  "demo_tickers = [\<lparr>ta_market = ''KRW-ETH'', ta_acc_trade_price_24h = Fin 5\<rparr>,
        \<lparr>ta_market = ''KRW-BTC'', ta_acc_trade_price_24h = Fin 9\<rparr>]"

definition demo_rest :: upbit_rest where
  "demo_rest = \<lparr>ux_url_parse = (\<lambda>s. Inr (demo_url s)), ux_get_markets = (\<lambda>_. Inr demo_entries),
     ux_get_tickers = (\<lambda>_. Inr demo_tickers)\<rparr>"

theorem top_markets_are_the_most_traded_witness:
  "\<exists>ms. fetch_top_krw_markets demo_rest ''https://h'' ''KRW'' 1 = Inr ms \<and> length ms = 1"
proof -
  have "\<not> is_err (fetch_top_krw_markets demo_rest ''https://h'' ''KRW'' 1)"
    "\<not> is_err (market_all_url (ux_url_parse demo_rest) ''https://h'')"
    "\<not> is_err (ticker_all_url (ux_url_parse demo_rest) ''https://h'' ''KRW'')"
    by code_simp+
  then obtain ms mu tu where ms: "fetch_top_krw_markets demo_rest ''https://h'' ''KRW'' 1 = Inr ms"
    and mu: "market_all_url (ux_url_parse demo_rest) ''https://h'' = Inr mu"
    and tu: "ticker_all_url (ux_url_parse demo_rest) ''https://h'' ''KRW'' = Inr tu"
    by (metis is_err_def obj_sumE old.sum.simps(5))
  have "ux_get_markets demo_rest mu = Inr demo_entries" "ux_get_tickers demo_rest tu = Inr demo_tickers"
    by (simp_all add: demo_rest_def)
  from top_markets_are_the_most_traded [OF ms mu this(1) tu this(2)] ms show ?thesis
    by (auto simp: demo_tickers_def is_finite_def)
qed

end
