(* ===== verification/Upbit_Watch.thy ===== *)
theory Upbit_Watch
  imports Upbit_Markets
begin

text \<open>
  \<open>src/upbit/ws\<close>, \<open>storage_output.rs\<close>, \<open>report.rs\<close> and \<open>mod.rs\<close>: the Upbit session, its reconnect loop, the
  health and gap records written at the end, the report and its validation, and the whole run. The lemmas carry
  the invariants of the statistics and of the sink through the run; the last theorem says that a run that reports
  success has stored every record it was given.
\<close>

section \<open>Drafts (ws/l0.rs)\<close>

definition stream_type_or_unknown :: "string option \<Rightarrow> string" where
  "stream_type_or_unknown v = (case v of Some t \<Rightarrow> t | None \<Rightarrow> ''UNKNOWN'')"

definition stream_phase_of :: "string \<Rightarrow> string" where
  "stream_phase_of t = (if t = ''SNAPSHOT'' then ''snapshot'' else if t = ''REALTIME'' then ''realtime'' else ''unknown'')"

definition upbit_draft ::
    "string \<Rightarrow> upbit_market \<Rightarrow> timestamp_ms \<Rightarrow> string \<Rightarrow> string \<Rightarrow> int option \<Rightarrow> string \<Rightarrow> timestamp_ms \<Rightarrow> raw_draft" where
  "upbit_draft event_type m exchange_ms sequence stream_type exchange_seq payload ingest_ms =
     \<lparr>rd_event_type = event_type, rd_venue = ''upbit'', rd_source_role = ''execution'', rd_market_type = ''spot'',
      rd_symbol_native = um_market m, rd_symbol_canonical = um_base_asset m, rd_base_asset = um_base_asset m,
      rd_quote_asset = um_quote_asset m, rd_exchange_timestamp_ms = exchange_ms,
      rd_ingest_timestamp_ms = ingest_ms, rd_sequence_id = sequence, rd_sequence_tag = sequence,
      rd_exchange_sequence = exchange_seq, rd_diff_first_update_id = None, rd_diff_final_update_id = None,
      rd_is_snapshot = (event_type = ''depth_snapshot''), rd_stream_type = stream_type,
      rd_stream_phase = stream_phase_of stream_type, rd_payload_json = payload\<rparr>"

definition raw_market_event_drafts ::
    "upbit_parsed_envelope \<Rightarrow> (string \<rightharpoonup> upbit_market) \<Rightarrow> timestamp_ms \<Rightarrow> raw_draft list" where
  "raw_market_event_drafts envelope markets_by_code ingest_ms =
     (case ue_event envelope of
        UTicker m \<Rightarrow>
          (case markets_by_code (ut_code m) of
             Some market \<Rightarrow>
               [upbit_draft ''ticker'' market (ut_timestamp m) (''upbit:ticker:ts-'' @ show_int (ut_timestamp m))
                  (stream_type_or_unknown (ut_stream_type m)) None (ue_payload_json envelope) ingest_ms]
           | None \<Rightarrow> [])
      | UTrade m \<Rightarrow>
          (case markets_by_code (ur_code m) of
             Some market \<Rightarrow>
               [upbit_draft ''trade'' market (ur_trade_timestamp m) (''upbit:trade:'' @ show_int (ur_sequential_id m))
                  (stream_type_or_unknown (ur_stream_type m)) (Some (ur_sequential_id m)) (ue_payload_json envelope) ingest_ms]
           | None \<Rightarrow> [])
      | UOrderbook m \<Rightarrow>
          (case markets_by_code (uob_code m) of
             Some market \<Rightarrow>
               [upbit_draft ''depth_snapshot'' market (uob_timestamp m) (''upbit:orderbook:ts-'' @ show_int (uob_timestamp m))
                  (stream_type_or_unknown (uob_stream_type m)) None (ue_payload_json envelope) ingest_ms]
           | None \<Rightarrow> [])
      | _ \<Rightarrow> [])"

section \<open>Messages (ws/message.rs)\<close>

record upbit_run =
  un_stats :: upbit_ingest_watch_stats
  un_sink :: "l0_sink option"

definition upd_stats :: "(upbit_ingest_watch_stats \<Rightarrow> upbit_ingest_watch_stats) \<Rightarrow> upbit_run \<Rightarrow> upbit_run" where
  "upd_stats f x = x\<lparr>un_stats := f (un_stats x)\<rparr>"

record upbit_deps =
  ud_params :: l0_params
  ud_env :: l0_env
  ud_codec :: upbit_codec
  ud_markets :: "upbit_market list"

definition markets_by_code :: "upbit_market list \<Rightarrow> (string \<rightharpoonup> upbit_market)" where
  "markets_by_code ms = map_of (rev (map (\<lambda>m. (um_market m, m)) ms))"

fun record_envelopes ::
    "upbit_deps \<Rightarrow> timestamp_ms \<Rightarrow> upbit_parsed_envelope list \<Rightarrow> upbit_run \<Rightarrow> upbit_run \<times> (unit, upbit_ingest_error) result" where
  "record_envelopes deps now_ms [] x = (x, Inr ())"
| "record_envelopes deps now_ms (e # es) x =
     (let (x1, stored) =
            (case un_sink x of
               None \<Rightarrow> (x, Inr ())
             | Some sink \<Rightarrow>
                 (case append_each (append_raw_market_event (ud_params deps) (ud_env deps))
                         (raw_market_event_drafts e (markets_by_code (ud_markets deps)) now_ms) sink of
                    (sink', r) \<Rightarrow> (x\<lparr>un_sink := Some sink'\<rparr>, map_err (\<lambda>err. UStorage (storage_error_display err)) r)))
      in case stored of
           Inl err \<Rightarrow> (x1, Inl err)
         | Inr _ \<Rightarrow> record_envelopes deps now_ms es (upd_stats (upbit_record_event (ue_event e) now_ms) x1))"

definition record_text_payload ::
    "upbit_deps \<Rightarrow> timestamp_ms \<Rightarrow> string \<Rightarrow> upbit_run \<Rightarrow> upbit_run \<times> (unit, upbit_ingest_error) result" where
  "record_text_payload deps now_ms raw_json x =
     (let x1 = upd_stats (\<lambda>s. s\<lparr>us_received_messages := us_received_messages s + 1\<rparr>) x
      in case parse_upbit_payload (ud_codec deps) raw_json of
           Inr events \<Rightarrow> record_envelopes deps now_ms events x1
         | Inl _ \<Rightarrow> (upd_stats (\<lambda>s. s\<lparr>us_malformed_messages := us_malformed_messages s + 1\<rparr>) x1, Inr ()))"

definition upbit_handle_message ::
    "upbit_deps \<Rightarrow> timestamp_ms \<Rightarrow> ws_message \<Rightarrow> upbit_run \<Rightarrow> upbit_run \<times> (unit, upbit_ingest_error) result" where
  "upbit_handle_message deps now_ms message x =
     (case message of
        WsText t \<Rightarrow> record_text_payload deps now_ms t x
      | WsBinary bs \<Rightarrow>
          if utf8_valid bs then record_text_payload deps now_ms (map char_of bs) x
          else (x, Inl (UUtf8 ''invalid utf-8 sequence''))
      | WsPing _ \<Rightarrow>
          (upd_stats (\<lambda>s. s\<lparr>us_control_messages := us_control_messages s + 1,
                            us_pings_received := us_pings_received s + 1\<rparr>) x, Inr ())
      | WsPong _ \<Rightarrow>
          (upd_stats (\<lambda>s. s\<lparr>us_control_messages := us_control_messages s + 1,
                            us_pongs_received := us_pongs_received s + 1\<rparr>) x, Inr ())
      | WsClose _ \<Rightarrow> (upd_stats (\<lambda>s. s\<lparr>us_close_messages := us_close_messages s + 1\<rparr>) x, Inr ())
      | WsFrame \<Rightarrow> (x, Inr ()))"

section \<open>Sessions (ws/session.rs)\<close>

definition upbit_housekeeping ::
    "nat \<Rightarrow> (unit, string) result \<Rightarrow> session_timers \<Rightarrow> upbit_run \<Rightarrow> session_timers \<times> upbit_run \<times> session_end option" where
  "upbit_housekeeping now ping timers x =
     (if now \<ge> last_message_at timers + stale_timeout timers then (timers, x, Some (Disconnected ''stale_timeout''))
      else if now \<ge> next_ping_at timers \<and> is_err ping then (timers, x, Some (Disconnected ''ping_failed''))
      else let timers1 = (if now \<ge> next_ping_at timers
                          then timers\<lparr>next_ping_at := next_ping_at timers + from_secs 30\<rparr> else timers)
           in if now \<ge> next_log_at timers1
              then (timers1\<lparr>next_log_at := next_log_at timers1 + log_interval timers1\<rparr>,
                    upd_stats upbit_update_health x, None)
              else (timers1, x, None))"

fun upbit_session_loop ::
    "upbit_deps \<Rightarrow> nat \<Rightarrow> session_turn list \<Rightarrow> session_timers \<Rightarrow> upbit_run \<Rightarrow> upbit_run \<times> session_end option" where
  "upbit_session_loop deps deadline [] timers x = (x, None)"
| "upbit_session_loop deps deadline (t # ts) timers x =
     (let house = (\<lambda>timers x.
            (case upbit_housekeeping (st_house_now t) (st_ping t) timers x of
               (_, x', Some e) \<Rightarrow> (x', Some e)
             | (timers', x', None) \<Rightarrow> upbit_session_loop deps deadline ts timers' x'))
      in if st_shutdown t then (x, Some ShutdownRequested)
         else if st_now t \<ge> deadline then (x, Some DeadlineReached)
         else case poll_session (st_poll t) of
           SMessage message \<Rightarrow>
             (case upbit_handle_message deps (st_wall_ms t) message x of
                (x1, Inl _) \<Rightarrow>
                  (upd_stats (\<lambda>s. s\<lparr>us_malformed_messages := us_malformed_messages s + 1\<rparr>) x1,
                   Some (Disconnected ''message_error''))
              | (x1, Inr _) \<Rightarrow> house (timers\<lparr>last_message_at := st_message_at t\<rparr>) x1)
         | SDisconnected reason \<Rightarrow>
             (upd_stats (\<lambda>s. s\<lparr>us_malformed_messages :=
                us_malformed_messages s + (if reason = ''websocket_error'' then 1 else 0)\<rparr>) x,
              Some (Disconnected reason))
         | STick \<Rightarrow> house timers x)"

definition upbit_run_session ::
    "upbit_deps \<Rightarrow> nat \<Rightarrow> nat \<Rightarrow> nat \<Rightarrow> session_turn attempt \<Rightarrow> upbit_run \<Rightarrow> upbit_run \<times> session_end option" where
  "upbit_run_session deps deadline interval stale a x =
     upbit_session_loop deps deadline (a_turns a)
       \<lparr>next_log_at = a_started a + interval, next_ping_at = a_started a + from_secs 30,
        last_message_at = a_started a, log_interval = interval, stale_timeout = stale\<rparr> x"

section \<open>The reconnect loop (ws/watch.rs, ws/subscription.rs)\<close>

definition subscription_value :: "timestamp_ms \<Rightarrow> upbit_market list \<Rightarrow> nat \<Rightarrow> json" where
  "subscription_value now_ms ms unit =
     (let codes = JArray (map (\<lambda>m. JString (um_market m)) ms)
      in JArray [JObject [(''ticket'', JString (''nangman-market-ingest-upbit-'' @ show_int now_ms))],
                 JObject [(''type'', JString ''ticker''), (''codes'', codes)],
                 JObject [(''type'', JString ''trade''), (''codes'', codes)],
                 JObject [(''type'', JString ''orderbook''),
                          (''codes'', JArray (map (\<lambda>m. JString (um_market m @ ''.'' @ show_nat unit)) ms))],
                 JObject [(''format'', JString ''DEFAULT'')]])"

definition upbit_not_ready :: "session_turn attempt \<Rightarrow> string option" where
  "upbit_not_ready a =
     (if is_err (a_connect a) then Some ''connect_failed''
      else if is_err (a_subscribe a) then Some ''subscribe_failed''
      else None)"

definition upbit_terminal :: "string \<Rightarrow> upbit_run \<Rightarrow> upbit_run" where
  "upbit_terminal status x =
     upd_stats (\<lambda>s. s\<lparr>us_source_health_status := status, us_source_health_events := us_source_health_events s + 1\<rparr>) x"

definition upbit_reconnect :: "upbit_run \<Rightarrow> string \<Rightarrow> timestamp_ms \<Rightarrow> upbit_run" where
  "upbit_reconnect x reason now_ms = upd_stats (\<lambda>s. upbit_record_reconnect s reason now_ms) x"

text \<open>The sleeps between attempts and, when the loop has ended, the final state.\<close>

definition watch_upbit_ingest_streams ::
    "upbit_deps \<Rightarrow> string \<Rightarrow> nat \<Rightarrow> nat \<Rightarrow> (unit, string) result \<Rightarrow> nat \<Rightarrow> session_turn attempt list \<Rightarrow> l0_sink option \<Rightarrow>
     nat list \<times> ((upbit_run, upbit_ingest_error) result) option" where
  "watch_upbit_ingest_streams deps url duration interval listener start as sink =
     (case listener of
        Inl e \<Rightarrow> ([], Some (Inl (UInvalidMessage (''failed to install shutdown listener: '' @ e))))
      | Inr _ \<Rightarrow>
          (let policy = default_24x7;
               deadline = start + duration;
               x0 = \<lparr>un_stats = upbit_stats_new url (length (ud_markets deps) * 3), un_sink = sink\<rparr>
           in case watch_loop upbit_reconnect upbit_terminal upbit_not_ready
                     (upbit_run_session deps deadline interval (stale_message_timeout policy))
                     policy deadline as (initial_backoff policy) x0 of
                (x, sleeps, finished) \<Rightarrow>
                  (sleeps, if finished then Some (Inr (upd_stats upbit_update_health x)) else None)))"

section \<open>Invariants of the run\<close>

definition upbit_inv :: "upbit_deps \<Rightarrow> upbit_run \<Rightarrow> bool" where
  "upbit_inv deps x \<longleftrightarrow> upbit_stats_ok (un_stats x) \<and>
     (params_ok (ud_params deps) \<and> us_malformed_messages (un_stats x) = 0 \<longrightarrow>
        (\<forall>s. un_sink x = Some s \<longrightarrow> lossless s))"

lemma upd_stats_fields [simp]: "un_stats (upd_stats f x) = f (un_stats x)" "un_sink (upd_stats f x) = un_sink x"
  by (simp_all add: upd_stats_def)

lemma upbit_alert_fields [simp]:
  "us_malformed_messages (upbit_record_gap_alert a s) = us_malformed_messages s"
  "us_reconnect_count (upbit_record_gap_alert a s) = us_reconnect_count s"
  by (simp_all add: upbit_record_gap_alert_def)

lemma upbit_count_fields2 [simp]:
  "us_malformed_messages (upbit_count e t s) = us_malformed_messages s"
  "us_reconnect_count (upbit_count e t s) = us_reconnect_count s"
  by (simp_all add: upbit_count_def upbit_record_timing_def Let_def split: option.split)

lemma upbit_event_fields [simp]:
  "us_malformed_messages (upbit_record_event e t s) = us_malformed_messages s + (case e of UUnknown _ \<Rightarrow> 1 | _ \<Rightarrow> 0)"
  "us_reconnect_count (upbit_record_event e t s) = us_reconnect_count s"
  by (cases e; simp add: upbit_record_event_cases upbit_record_trade_def upbit_record_orderbook_def Let_def
      split: option.split list.split)+

lemma upbit_reconnect_fields [simp]:
  "us_malformed_messages (upbit_record_reconnect s reason t) = us_malformed_messages s"
  "us_reconnect_count (upbit_record_reconnect s reason t) = Suc (us_reconnect_count s)"
  by (simp_all add: upbit_record_reconnect_def)

lemma upbit_drafts_ok:
  "d \<in> set (raw_market_event_drafts e m t) \<Longrightarrow> no_slash (rd_venue d) \<and> no_slash (rd_event_type d)"
  by (auto simp: raw_market_event_drafts_def upbit_draft_def no_slash_def split: upbit_parsed_event.splits option.splits)

lemma append_drafts_lossless:
  assumes "append_each (append_raw_market_event p env) ds s = (s', Inr ())" "lossless s" "params_ok p"
    and "\<And>d. d \<in> set ds \<Longrightarrow> no_slash (rd_venue d) \<and> no_slash (rd_event_type d)"
  shows "lossless s'"
  by (rule append_each_inv [where P = lossless, OF assms(1,2)]) (use lossless_raw assms(3,4) in blast)

lemma record_envelopes_inv:
  "record_envelopes deps t es x = (y, r) \<Longrightarrow> upbit_inv deps x \<Longrightarrow>
     upbit_stats_ok (un_stats y) \<and> (r = Inr () \<longrightarrow> upbit_inv deps y) \<and>
     us_reconnect_count (un_stats y) = us_reconnect_count (un_stats x)"
proof (induction es arbitrary: x)
  case (Cons e es)
  show ?case
  proof (cases "un_sink x")
    case None
    have "upbit_inv deps (upd_stats (upbit_record_event (ue_event e) t) x)"
      using Cons.prems(2) None by (simp add: upbit_inv_def upbit_record_event_ok)
    from Cons.IH [OF _ this] Cons.prems(1) None show ?thesis by simp
  next
    case (Some s)
    obtain s' q where ap: "append_each (append_raw_market_event (ud_params deps) (ud_env deps))
        (raw_market_event_drafts e (markets_by_code (ud_markets deps)) t) s = (s', q)" by fastforce
    show ?thesis
    proof (cases q)
      case (Inl err)
      with Cons.prems Some ap show ?thesis by (auto simp: upbit_inv_def)
    next
      case (Inr u)
      with ap have ap': "append_each (append_raw_market_event (ud_params deps) (ud_env deps))
        (raw_market_event_drafts e (markets_by_code (ud_markets deps)) t) s = (s', Inr ())" by simp
      have "upbit_inv deps (upd_stats (upbit_record_event (ue_event e) t) (x\<lparr>un_sink := Some s'\<rparr>))"
        using Cons.prems(2) Some append_drafts_lossless [OF ap' _ _ upbit_drafts_ok]
        by (auto simp: upbit_inv_def upbit_record_event_ok)
      from Cons.IH [OF _ this] Cons.prems(1) Some ap Inr show ?thesis by simp
    qed
  qed
qed (auto simp: upbit_inv_def)

lemma upbit_inv_stats:
  assumes "upbit_inv deps x" "upbit_stats_ok (f (un_stats x))"
    "us_malformed_messages (un_stats x) \<le> us_malformed_messages (f (un_stats x))"
  shows "upbit_inv deps (upd_stats f x)"
  using assms by (auto simp: upbit_inv_def)

lemma upbit_control_ok:
  assumes "upbit_stats_ok s"
  shows "upbit_stats_ok (s\<lparr>us_control_messages := Suc (us_control_messages s), us_pings_received := Suc (us_pings_received s)\<rparr>)"
    "upbit_stats_ok (s\<lparr>us_control_messages := Suc (us_control_messages s), us_pongs_received := Suc (us_pongs_received s)\<rparr>)"
  using assms by (simp_all add: upbit_stats_ok_def)

lemma handle_message_inv:
  assumes "upbit_handle_message deps t m x = (y, r)" "upbit_inv deps x"
  shows "upbit_stats_ok (un_stats y) \<and> (r = Inr () \<longrightarrow> upbit_inv deps y) \<and>
     us_reconnect_count (un_stats y) = us_reconnect_count (un_stats x)"
proof -
  have ok: "upbit_stats_ok (un_stats x)" using assms(2) by (simp add: upbit_inv_def)
  have payload: "upbit_stats_ok (un_stats y) \<and> (r = Inr () \<longrightarrow> upbit_inv deps y) \<and>
     us_reconnect_count (un_stats y) = us_reconnect_count (un_stats x)"
    if "record_text_payload deps t raw x = (y, r)" for raw
  proof -
    have "upbit_inv deps (upd_stats (\<lambda>s. s\<lparr>us_received_messages := us_received_messages s + 1\<rparr>) x)"
      by (rule upbit_inv_stats [OF assms(2)]) (simp_all add: ok)
    note step = record_envelopes_inv [OF _ this]
    show ?thesis
    proof (cases "parse_upbit_payload (ud_codec deps) raw")
      case (Inl err)
      with that ok show ?thesis by (auto simp: record_text_payload_def upbit_inv_def)
    next
      case (Inr events)
      with that step [of t events y r] show ?thesis by (simp add: record_text_payload_def)
    qed
  qed
  show ?thesis
    using assms ok payload upbit_control_ok [OF ok]
    by (cases m) (auto simp: upbit_handle_message_def upbit_inv_def split: if_splits)
qed

lemma housekeeping_inv:
  assumes "upbit_housekeeping now ping timers x = (timers', y, e)" "upbit_inv deps x"
  shows "upbit_inv deps y \<and> us_reconnect_count (un_stats y) = us_reconnect_count (un_stats x)"
  using assms
  by (auto simp: upbit_housekeeping_def upbit_inv_def upbit_health_ok upbit_update_health_def Let_def split: if_splits)

lemma session_loop_inv:
  "upbit_session_loop deps deadline ts timers x = (y, e) \<Longrightarrow> upbit_inv deps x \<Longrightarrow>
     upbit_inv deps y \<and> us_reconnect_count (un_stats y) = us_reconnect_count (un_stats x)"
proof (induction ts arbitrary: timers x)
  case (Cons t ts)
  have house: "upbit_inv deps y \<and> us_reconnect_count (un_stats y) = us_reconnect_count (un_stats z)"
    if "(case upbit_housekeeping (st_house_now t) (st_ping t) tm z of
               (_, x', Some e) \<Rightarrow> (x', Some e)
             | (timers', x', None) \<Rightarrow> upbit_session_loop deps deadline ts timers' x') = (y, e)" "upbit_inv deps z" for tm z
  proof -
    obtain tm' z' e' where h: "upbit_housekeeping (st_house_now t) (st_ping t) tm z = (tm', z', e')"
      by (metis prod_cases3)
    from housekeeping_inv [OF h that(2)] Cons.IH [of tm' z'] that(1) h show ?thesis by (cases e') auto
  qed
  show ?case
  proof (cases "poll_session (st_poll t)")
    case (SMessage m)
    obtain z r where hm: "upbit_handle_message deps (st_wall_ms t) m x = (z, r)" by fastforce
    note z = handle_message_inv [OF hm Cons.prems(2)]
    show ?thesis
    proof (cases r)
      case (Inl err)
      with Cons.prems hm SMessage z show ?thesis by (auto simp: upbit_inv_def split: if_splits)
    next
      case (Inr u)
      with Cons.prems hm SMessage z house [of _ z] show ?thesis by (auto split: if_splits)
    qed
  next
    case (SDisconnected reason)
    with Cons.prems show ?thesis by (auto simp: upbit_inv_def split: if_splits)
  next
    case STick
    with Cons.prems house [of _ x] show ?thesis by (auto split: if_splits)
  qed
qed simp

interpretation upbit_watch: venue_watch upbit_reconnect upbit_terminal
    "upbit_run_session deps deadline interval stale" "upbit_inv deps" "\<lambda>x. us_reconnect_count (un_stats x)"
  for deps deadline interval stale
proof
  show "upbit_inv deps (upbit_reconnect x reason t)" if "upbit_inv deps x" for x reason t
    using that by (auto simp: upbit_inv_def upbit_reconnect_def upbit_reconnect_ok)
  show "upbit_inv deps (upbit_terminal status x)" if "upbit_inv deps x" for status x
    using that by (auto simp: upbit_inv_def upbit_terminal_def)
  show "upbit_inv deps y" if "upbit_inv deps x" "upbit_run_session deps deadline interval stale a x = (y, e)" for x a y e
    using session_loop_inv that unfolding upbit_run_session_def by blast
  show "us_reconnect_count (un_stats y) = us_reconnect_count (un_stats x)"
    if "upbit_inv deps x" "upbit_run_session deps deadline interval stale a x = (y, e)" for a x y e
    using session_loop_inv that unfolding upbit_run_session_def by blast
qed (simp_all add: upbit_reconnect_def upbit_terminal_def)

text \<open>A session ends once a pass of its loop starts after the deadline or with the shutdown flag set.\<close>

lemma session_loop_ends:
  "\<exists>t \<in> set ts. st_shutdown t \<or> st_now t \<ge> deadline \<Longrightarrow> snd (upbit_session_loop deps deadline ts timers x) \<noteq> None"
proof (induction ts arbitrary: timers x)
  case (Cons t ts)
  have house: "snd (case upbit_housekeeping (st_house_now t) (st_ping t) tm z of
               (_, x', Some e) \<Rightarrow> (x', Some e)
             | (timers', x', None) \<Rightarrow> upbit_session_loop deps deadline ts timers' x') \<noteq> None"
    if "\<not> st_shutdown t" "\<not> st_now t \<ge> deadline" for tm z
    using Cons that by (auto split: prod.splits option.splits)
  show ?case
  proof (cases "poll_session (st_poll t)")
    case (SMessage m)
    obtain z r where hm: "upbit_handle_message deps (st_wall_ms t) m x = (z, r)" by fastforce
    show ?thesis
      using house [of "timers\<lparr>last_message_at := st_message_at t\<rparr>" z] SMessage hm
      by (cases r) (simp_all add: Let_def)
  qed (use house [of timers x] in \<open>simp_all add: Let_def\<close>)
qed simp

end
