(* ===== verification/Upbit_Smoke.thy ===== *)
theory Upbit_Smoke
  imports Upbit_Watch
begin

text \<open>
  \<open>src/upbit/storage_output.rs\<close>, \<open>report.rs\<close> and \<open>mod.rs\<close>: the health, symbol-health and gap records written
  when the watch ends, the report with its validation, and the run as a whole.
\<close>

section \<open>Final records (storage_output.rs)\<close>

definition STALE_AFTER_MS :: int where "STALE_AFTER_MS = 60000"

definition upbit_symbol_health_entry :: "upbit_ingest_watch_stats \<Rightarrow> timestamp_ms \<Rightarrow> string \<Rightarrow> json" where
  "upbit_symbol_health_entry s observed native =
     (let event_time = bt_get str_cmp native (us_symbol_last_event_time_ms s);
          received_time = bt_get str_cmp native (us_symbol_last_ingest_time_ms s);
          latency = (case (event_time, received_time) of
                       (Some event, Some received) \<Rightarrow> Some (max (i64_saturating_sub received event) 0) | _ \<Rightarrow> None);
          stale = (case received_time of Some received \<Rightarrow> max (i64_saturating_sub observed received) 0 | None \<Rightarrow> 0)
      in JObject [(''symbol_native'', JString native), (''last_event_time_ms'', jopt jint event_time),
                  (''last_received_time_ms'', jopt jint received_time), (''latency_ms'', jopt jint latency),
                  (''stale_ms'', jint stale),
                  (''is_tradeable'', JBool (stale < STALE_AFTER_MS \<and> us_gap_alert_count s = 0)),
                  (''reason_codes'', JArray (if stale \<ge> STALE_AFTER_MS then [JString ''source_stale''] else []))])"

definition upbit_symbol_health_payload :: "upbit_ingest_watch_stats \<Rightarrow> timestamp_ms \<Rightarrow> json list" where
  "upbit_symbol_health_payload s observed = map (upbit_symbol_health_entry s observed) (bt_keys (us_symbol_counts s))"

definition upbit_health_level :: "upbit_ingest_watch_stats \<Rightarrow> string" where
  "upbit_health_level s =
     (if us_source_health_status s = ''connected'' \<and> us_malformed_messages s = 0 \<and> us_gap_alert_count s = 0
      then ''healthy''
      else if us_received_messages s = 0 then ''critical''
      else ''degraded'')"

definition upbit_source_health_draft ::
    "upbit_codec \<Rightarrow> timestamp_ms \<Rightarrow> upbit_ingest_watch_stats \<Rightarrow> source_health_draft" where
  "upbit_source_health_draft codec observed s =
     \<lparr>sd_venue = ''upbit'', sd_source_role = ''execution'', sd_observed_at_ms = observed,
      sd_connection_status = us_source_health_status s,
      sd_heartbeat_delay_ms = upbit_heartbeat_delay_ms_at s observed,
      sd_stream_lag_ms = us_latest_stream_lag_ms s, sd_recent_gap_count = us_gap_alert_count s,
      sd_book_rebuild_count = 0, sd_health_level = upbit_health_level s,
      sd_payload_json = uc_display codec (JObject
        [(''received_messages'', jnat (us_received_messages s)), (''parsed_messages'', jnat (us_parsed_messages s)),
         (''malformed_messages'', jnat (us_malformed_messages s)), (''symbols_seen'', jnat (length (us_symbol_counts s))),
         (''ticker_messages'', jnat (us_ticker_messages s)), (''trade_messages'', jnat (us_trade_messages s)),
         (''orderbook_messages'', jnat (us_orderbook_messages s)),
         (''derived_book_tickers'', jnat (us_derived_book_tickers s)),
         (''gap_alert_count'', jnat (us_gap_alert_count s)),
         (''last_exchange_timestamp_ms'', jopt jint (us_last_exchange_timestamp_ms s)),
         (''last_ingest_timestamp_ms'', jopt jint (us_last_ingest_timestamp_ms s)),
         (''stream_lag_ms'', jint (us_latest_stream_lag_ms s)),
         (''symbol_health'', JArray (upbit_symbol_health_payload s observed))])\<rparr>"

definition upbit_symbol_health_draft ::
    "timestamp_ms \<Rightarrow> upbit_ingest_watch_stats \<Rightarrow> string \<Rightarrow> symbol_health_draft" where
  "upbit_symbol_health_draft observed s native =
     (let event_time = (case bt_get str_cmp native (us_symbol_last_event_time_ms s) of Some t \<Rightarrow> t | None \<Rightarrow> observed);
          received_time = (case bt_get str_cmp native (us_symbol_last_ingest_time_ms s) of Some t \<Rightarrow> t | None \<Rightarrow> observed);
          stale = max (i64_saturating_sub observed received_time) 0;
          reasons = (if stale \<ge> STALE_AFTER_MS then [''source_stale''] else []) @
                    (if us_gap_alert_count s > 0 then [''source_gap_detected''] else [])
      in \<lparr>yd_venue = ''upbit'', yd_symbol_native = native, yd_observed_at_ms = observed,
          yd_last_event_time_ms = event_time, yd_latency_ms = max (i64_saturating_sub received_time event_time) 0,
          yd_is_tradeable = (reasons = []), yd_reason_codes = reasons\<rparr>)"

definition upbit_symbol_health_drafts ::
    "timestamp_ms \<Rightarrow> upbit_ingest_watch_stats \<Rightarrow> symbol_health_draft list" where
  "upbit_symbol_health_drafts observed s = map (upbit_symbol_health_draft observed s) (bt_keys (us_symbol_counts s))"

definition upbit_gap_alert_json :: "upbit_gap_alert \<Rightarrow> json" where
  "upbit_gap_alert_json a =
     JObject [(''gap_type'', JString (ug_gap_type a)), (''symbol'', JString (ug_symbol a)),
              (''detected_at_ms'', jint (ug_detected_at_ms a)),
              (''expected_sequence_id'', jopt jint (ug_expected_sequence_id a)),
              (''observed_sequence_id'', jopt jint (ug_observed_sequence_id a)),
              (''heal_action'', JString (ug_heal_action a)), (''heal_status'', JString (ug_heal_status a))]"

definition upbit_gap_alert_draft :: "upbit_codec \<Rightarrow> upbit_gap_alert \<Rightarrow> gap_draft" where
  "upbit_gap_alert_draft codec a =
     \<lparr>gd_venue = ''upbit'', gd_source_role = ''execution'', gd_symbol_native = ug_symbol a,
      gd_gap_type = ug_gap_type a, gd_detected_at_ms = ug_detected_at_ms a,
      gd_expected_sequence_id = ug_expected_sequence_id a, gd_observed_sequence_id = ug_observed_sequence_id a,
      gd_heal_action = ug_heal_action a, gd_heal_status = ug_heal_status a,
      gd_payload_json = (case uc_to_string codec (upbit_gap_alert_json a) of Inr t \<Rightarrow> t | Inl _ \<Rightarrow> ''{}'')\<rparr>"

text \<open>\<open>t1\<close> and \<open>t2\<close> are the two readings of the wall clock.\<close>

definition upbit_finalize_storage ::
    "upbit_deps \<Rightarrow> timestamp_ms \<Rightarrow> timestamp_ms \<Rightarrow> upbit_ingest_watch_stats \<Rightarrow> l0_sink \<Rightarrow>
     l0_sink \<times> (unit, upbit_ingest_error) result" where
  "upbit_finalize_storage deps t1 t2 s sink =
     (case write_final_records (ud_params deps) (ud_env deps) (upbit_source_health_draft (ud_codec deps) t1 s)
             (upbit_symbol_health_drafts t2 s) (map (upbit_gap_alert_draft (ud_codec deps)) (us_gap_alerts s)) sink of
        (sink', r) \<Rightarrow> (sink', map_err (\<lambda>e. UStorage (storage_error_display e)) r))"

section \<open>The report (report.rs)\<close>

record upbit_l0_smoke_report =
  up_venue :: string
  up_source_role :: string
  up_rest_base_url :: string
  up_websocket_url :: string
  up_quote_currency :: string
  up_duration_seconds :: nat
  up_log_interval_seconds :: nat
  up_orderbook_unit :: nat
  up_symbol_count :: nat
  up_expected_symbol_count :: nat
  up_planned_stream_count :: nat
  up_stream_kinds :: "string list"
  up_symbols_seen_count :: nat
  up_missing_symbols :: "string list"
  up_coverage_ok :: bool
  up_received_messages :: nat
  up_parsed_messages :: nat
  up_malformed_messages :: nat
  up_source_health_status :: string
  up_ticker_messages :: nat
  up_trade_messages :: nat
  up_orderbook_messages :: nat
  up_derived_book_tickers :: nat
  up_gap_alert_count :: nat
  up_close_messages :: nat
  up_storage :: "storage_report option"
  up_stats :: upbit_ingest_watch_stats

definition upbit_build_report ::
    "upbit_run_config \<Rightarrow> upbit_market list \<Rightarrow> nat \<Rightarrow> storage_report option \<Rightarrow> upbit_ingest_watch_stats \<Rightarrow>
     upbit_l0_smoke_report" where
  "upbit_build_report cfg ms planned storage s =
     (let expected = map um_market ms;
          missing = filter (\<lambda>native. \<not> bt_contains_key str_cmp native (us_symbol_counts s)) expected
      in \<lparr>up_venue = ''upbit'', up_source_role = ''execution'', up_rest_base_url = urc_rest_base_url cfg,
          up_websocket_url = urc_websocket_url cfg, up_quote_currency = urc_quote_currency cfg,
          up_duration_seconds = urc_duration_seconds cfg, up_log_interval_seconds = urc_log_interval_seconds cfg,
          up_orderbook_unit = urc_orderbook_unit cfg, up_symbol_count = length ms,
          up_expected_symbol_count = length (remdups expected), up_planned_stream_count = planned,
          up_stream_kinds = [''ticker'', ''trade'', ''orderbook''],
          up_symbols_seen_count = length (us_symbol_counts s), up_missing_symbols = missing,
          up_coverage_ok = (missing = []), up_received_messages = us_received_messages s,
          up_parsed_messages = us_parsed_messages s, up_malformed_messages = us_malformed_messages s,
          up_source_health_status = us_source_health_status s, up_ticker_messages = us_ticker_messages s,
          up_trade_messages = us_trade_messages s, up_orderbook_messages = us_orderbook_messages s,
          up_derived_book_tickers = us_derived_book_tickers s, up_gap_alert_count = us_gap_alert_count s,
          up_close_messages = us_close_messages s, up_storage = storage, up_stats = s\<rparr>)"

definition upbit_validate_message_report :: "upbit_l0_smoke_report \<Rightarrow> bool \<Rightarrow> (unit, upbit_ingest_error) result" where
  "upbit_validate_message_report rep allow_partial =
     (if up_received_messages rep = 0 then Inl (UInvalidMessage ''Upbit ingest smoke received zero messages'')
      else if \<not> up_coverage_ok rep \<and> \<not> allow_partial
      then Inl (UInvalidMessage (''Upbit symbol coverage incomplete: '' @ show_nat (length (up_missing_symbols rep)) @
             '' missing symbols''))
      else if up_malformed_messages rep > 0
      then Inl (UInvalidMessage ''Upbit ingest smoke observed malformed messages'')
      else if up_orderbook_messages rep > 0 \<and> up_derived_book_tickers rep = 0
      then Inl (UInvalidMessage ''Upbit ingest smoke derived zero book_ticker events'')
      else Inr ())"

definition upbit_validate_storage_report ::
    "upbit_l0_smoke_report \<Rightarrow> storage_report \<Rightarrow> (unit, upbit_ingest_error) result" where
  "upbit_validate_storage_report rep storage =
     and_then (map_err UInvalidMessage (validate_common_storage_report storage ''Upbit'')) (\<lambda>_.
     if up_gap_alert_count rep > 0 \<and> \<not> storage_has_family storage ''gap_alert''
     then Inl (UInvalidMessage ''Upbit L0 storage observed gaps but uploaded no gap_alert'')
     else Inr ())"

definition upbit_validate_report :: "upbit_l0_smoke_report \<Rightarrow> bool \<Rightarrow> (unit, upbit_ingest_error) result" where
  "upbit_validate_report rep allow_partial =
     and_then (upbit_validate_message_report rep allow_partial) (\<lambda>_.
     case up_storage rep of Some storage \<Rightarrow> upbit_validate_storage_report rep storage | None \<Rightarrow> Inr ())"

section \<open>The run (mod.rs)\<close>

text \<open>Everything the run meets outside: the REST interface, the uploader and broker connections, the answers of
  the log, of the signal listener, the clock at the start of the watch, the attempts and the last wall clocks.\<close>

record upbit_outside =
  uz_rest :: upbit_rest
  uz_params :: l0_params
  uz_env :: l0_env
  uz_codec :: upbit_codec
  uz_new_uploader :: "l0_storage_config \<Rightarrow> (unit, string) result"
  uz_connect_live :: "live_nats_config \<Rightarrow> (unit, string) result"
  uz_log_start :: "(unit, string) result"
  uz_log_report :: "(unit, string) result"
  uz_listener :: "(unit, string) result"
  uz_start :: nat
  uz_attempts :: "session_turn attempt list"
  uz_health_ms :: timestamp_ms
  uz_symbol_ms :: timestamp_ms

definition upbit_deps_of :: "upbit_outside \<Rightarrow> upbit_market list \<Rightarrow> upbit_deps" where
  "upbit_deps_of z ms = \<lparr>ud_params = uz_params z, ud_env = uz_env z, ud_codec = uz_codec z, ud_markets = ms\<rparr>"

definition upbit_open_storage ::
    "upbit_outside \<Rightarrow> upbit_run_config \<Rightarrow> (l0_sink option, upbit_ingest_error) result" where
  "upbit_open_storage z cfg =
     (case urc_l0_storage cfg of
        None \<Rightarrow> Inr None
      | Some storage_cfg \<Rightarrow>
          and_then (map_err (\<lambda>e. UStorage (storage_error_display e))
                      (sink_new (uz_new_uploader z) (uz_connect_live z) storage_cfg)) (\<lambda>sink. Inr (Some sink)))"

text \<open>Finalising, reporting and validating once the watch has returned.\<close>

definition upbit_conclude ::
    "upbit_outside \<Rightarrow> upbit_run_config \<Rightarrow> upbit_market list \<Rightarrow> upbit_run \<Rightarrow>
     l0_sink option \<times> (unit, upbit_ingest_error) result" where
  "upbit_conclude z cfg ms x =
     (let (sink, stored) =
            (case un_sink x of
               None \<Rightarrow> (None, Inr ())
             | Some sink \<Rightarrow>
                 (case upbit_finalize_storage (upbit_deps_of z ms) (uz_health_ms z) (uz_symbol_ms z) (un_stats x) sink of
                    (sink', r) \<Rightarrow> (Some sink', r)))
      in (sink,
          and_then stored (\<lambda>_.
          and_then (map_err UJson (uz_log_report z)) (\<lambda>_.
          upbit_validate_report
            (upbit_build_report cfg ms (length ms * 3) (map_option report sink) (un_stats x))
            (urc_allow_partial_symbol_coverage cfg)))))"

text \<open>\<open>None\<close> while the watch is still running; otherwise the sink and the result.\<close>

definition run_upbit_l0_smoke ::
    "upbit_outside \<Rightarrow> upbit_run_config \<Rightarrow> (l0_sink option \<times> (unit, upbit_ingest_error) result) option" where
  "run_upbit_l0_smoke z cfg =
     (case and_then (upbit_validate_config cfg) (\<lambda>_.
           and_then (fetch_top_krw_markets (uz_rest z) (urc_rest_base_url cfg) (urc_quote_currency cfg)
                       (urc_expect_symbol_count cfg)) (\<lambda>ms.
           and_then (map_err UJson (uz_log_start z)) (\<lambda>_.
           and_then (upbit_open_storage z cfg) (\<lambda>sink. Inr (ms, sink))))) of
        Inl e \<Rightarrow> Some (None, Inl e)
      | Inr (ms, sink) \<Rightarrow>
          (case snd (watch_upbit_ingest_streams (upbit_deps_of z ms) (urc_websocket_url cfg)
                       (from_secs (urc_duration_seconds cfg)) (from_secs (urc_log_interval_seconds cfg))
                       (uz_listener z) (uz_start z) (uz_attempts z) sink) of
             None \<Rightarrow> None
           | Some (Inl e) \<Rightarrow> Some (sink, Inl e)
           | Some (Inr x) \<Rightarrow> Some (upbit_conclude z cfg ms x)))"

section \<open>Nothing is lost in a run that succeeds\<close>

lemma upbit_finalize_lossless:
  assumes "upbit_finalize_storage deps t1 t2 st sink = (sink', Inr ())" "lossless sink"
    and "params_ok (ud_params deps)" "upbit_stats_ok st"
  shows "lossless sink' \<and> spooled (world sink') = contents sink'"
proof (rule final_records_lossless)
  show "write_final_records (ud_params deps) (ud_env deps) (upbit_source_health_draft (ud_codec deps) t1 st)
             (upbit_symbol_health_drafts t2 st) (map (upbit_gap_alert_draft (ud_codec deps)) (us_gap_alerts st)) sink = (sink', Inr ())"
    using assms(1) by (auto simp: upbit_finalize_storage_def split: prod.splits)
qed (use assms in \<open>auto simp: upbit_source_health_draft_def upbit_symbol_health_drafts_def upbit_symbol_health_draft_def
       upbit_gap_alert_draft_def upbit_stats_ok_def list_all_iff Let_def\<close>)

lemma upbit_watch_inv:
  assumes "watch_upbit_ingest_streams deps url duration interval listener start as sink = (sleeps, Some (Inr x))"
    and "\<forall>s. sink = Some s \<longrightarrow> lossless s"
  shows "upbit_inv deps x \<and> sleeps = map backoff_delay [0 ..< us_reconnect_count (un_stats x)]"
proof -
  let ?x0 = "\<lparr>un_stats = upbit_stats_new url (length (ud_markets deps) * 3), un_sink = sink\<rparr>"
  let ?session = "upbit_run_session deps (start + duration) interval (from_secs 30)"
  obtain y f where w: "watch_loop upbit_reconnect upbit_terminal upbit_not_ready ?session default_24x7 (start + duration) as
      (backoff_delay 0) ?x0 = (y, sleeps, f)" and x: "x = upd_stats upbit_update_health y"
    using assms(1) by (auto simp: watch_upbit_ingest_streams_def Let_def backoff_delay_def default_24x7_def from_secs_def
        split: sum.splits prod.splits if_splits)
  have i0: "upbit_inv deps ?x0" using assms(2) by (simp add: upbit_inv_def upbit_stats_ok_new)
  have "upbit_inv deps y"
    using upbit_watch.loop_inv [OF i0] w by (metis fst_conv)
  moreover have "sleeps = map backoff_delay [0 ..< us_reconnect_count (un_stats y)]"
    using upbit_watch.loop_sleeps [OF w i0] by (simp add: upbit_stats_new_def)
  ultimately show ?thesis
    by (auto simp: x upbit_inv_def upbit_health_ok upbit_update_health_def)
qed

section \<open>Properties\<close>

text \<open>C6: When an Upbit run with storage reports success, nothing was lost: the bucket holds exactly the
  records the sink accepted, and their number is the number of ordinals the sink handed out, so every record of every
  family that was ever passed to the sink was uploaded once.\<close>

theorem upbit_success_stores_everything:
  assumes "params_ok (uz_params z)" "run_upbit_l0_smoke z cfg = Some (Some s, Inr ())"
  shows "uploaded (world s) = contents s \<and> next_ordinal s = of_nat (size (uploaded (world s))) + 1"
proof -
  from assms(2) obtain ms sink x where o: "upbit_open_storage z cfg = Inr sink"
    and w: "snd (watch_upbit_ingest_streams (upbit_deps_of z ms) (urc_websocket_url cfg)
                       (from_secs (urc_duration_seconds cfg)) (from_secs (urc_log_interval_seconds cfg))
                       (uz_listener z) (uz_start z) (uz_attempts z) sink) = Some (Inr x)"
    and c: "upbit_conclude z cfg ms x = (Some s, Inr ())"
    by (auto simp: run_upbit_l0_smoke_def split: sum.splits option.splits prod.splits)
  have "\<forall>t. sink = Some t \<longrightarrow> lossless t"
    using o sink_new_lossless by (auto simp: upbit_open_storage_def split: option.splits)
  with w have inv: "upbit_inv (upbit_deps_of z ms) x"
    using upbit_watch_inv by (metis prod.collapse)
  from c obtain sk where sk: "un_sink x = Some sk"
    and fin: "upbit_finalize_storage (upbit_deps_of z ms) (uz_health_ms z) (uz_symbol_ms z) (un_stats x) sk = (s, Inr ())"
    and val: "upbit_validate_report (upbit_build_report cfg ms (length ms * 3) (Some (report s)) (un_stats x))
       (urc_allow_partial_symbol_coverage cfg) = Inr ()"
    by (auto simp: upbit_conclude_def Let_def split: option.splits prod.splits)
  from val have mal: "us_malformed_messages (un_stats x) = 0" and common: "validate_common_storage_report (report s) ''Upbit'' = Inr ()"
    by (auto simp: upbit_validate_report_def upbit_validate_message_report_def upbit_validate_storage_report_def
        upbit_build_report_def Let_def split: if_splits)
  have p: "params_ok (ud_params (upbit_deps_of z ms))" using assms(1) by (simp add: upbit_deps_of_def)
  have "lossless s \<and> spooled (world s) = contents s"
    by (rule upbit_finalize_lossless [OF fin]) (use inv p mal sk in \<open>auto simp: upbit_inv_def\<close>)
  moreover have "uploaded (world s) = spooled (world s)"
    by (rule all_uploaded) (use calculation validated_storage [OF common] in \<open>simp_all add: lossless_def report_def\<close>)
  ultimately show ?thesis by (simp add: lossless_def)
qed

text \<open>The delays between reconnections depend only on how many there have been: the \<open>n\<close>-th one (from 0)
  waits \<open>min (2 ^ n) 60\<close> seconds, however long and healthy the sessions in between were.\<close>

theorem upbit_backoff_never_resets:
  assumes "watch_upbit_ingest_streams deps url duration interval listener start as sink = (sleeps, Some (Inr x))"
    and "\<forall>s. sink = Some s \<longrightarrow> (\<exists>new_uploader connect c. sink_new new_uploader connect c = Inr s)"
  shows "sleeps = map backoff_delay [0 ..< us_reconnect_count (un_stats x)]"
proof -
  have "\<forall>s. sink = Some s \<longrightarrow> lossless s" using assms(2) sink_new_lossless by blast
  with upbit_watch_inv [OF assms(1)] show ?thesis by blast
qed

text \<open>The statistics a watch returns add up, however the sessions went: every parsed event is counted once under
  its kind and every market event once under its symbol, each symbol seen has its two clocks, the stored and the recent
  alerts are the newest 1000 and 20 (fewer if there were fewer), every anomaly and every reconnection raised an alert,
  and the lag is not negative.\<close>

theorem upbit_watch_counters:
  assumes "watch_upbit_ingest_streams deps url duration interval listener start as sink = (sleeps, Some (Inr x))"
    and "\<forall>s. sink = Some s \<longrightarrow> (\<exists>new_uploader connect c. sink_new new_uploader connect c = Inr s)"
  shows "upbit_stats_ok (un_stats x)"
proof -
  have "\<forall>s. sink = Some s \<longrightarrow> lossless s" using assms(2) sink_new_lossless by blast
  with upbit_watch_inv [OF assms(1)] show ?thesis by (simp add: upbit_inv_def)
qed

text \<open>C22: The watch returns: if the clock passes the deadline or shutdown is requested, both in the sessions that
  were started and in the loop, then after finitely many passes there is a result.\<close>

theorem upbit_watch_returns:
  assumes "\<exists>a \<in> set as. a_shutdown a \<or> a_now a \<ge> start + duration"
    and "\<forall>a \<in> set as. \<exists>t \<in> set (a_turns a). st_shutdown t \<or> st_now t \<ge> start + duration"
  shows "\<exists>sleeps r. watch_upbit_ingest_streams deps url duration interval listener start as sink = (sleeps, Some r)"
proof (cases listener)
  case (Inr u)
  let ?session = "upbit_run_session deps (start + duration) interval (stale_message_timeout default_24x7)"
  have ends: "snd (?session a x) \<noteq> None" if "a \<in> set as" for a x
    unfolding upbit_run_session_def by (rule session_loop_ends) (use assms(2) that in blast)
  obtain y sleeps where "watch_loop upbit_reconnect upbit_terminal upbit_not_ready ?session default_24x7
      (start + duration) as (initial_backoff default_24x7)
      \<lparr>un_stats = upbit_stats_new url (length (ud_markets deps) * 3), un_sink = sink\<rparr> = (y, sleeps, True)"
    using watch_loop_finishes [where session = ?session, OF assms(1) ends] by blast
  then show ?thesis using Inr by (simp add: watch_upbit_ingest_streams_def Let_def)
qed (simp add: watch_upbit_ingest_streams_def)

text \<open>The status set when the loop ends on a shutdown request or at the deadline never survives: the status
  the watch returns is recomputed from the counters alone.\<close>

theorem upbit_terminal_status_overwritten:
  assumes "watch_upbit_ingest_streams deps url duration interval listener start as sink = (sleeps, Some (Inr x))"
  shows "us_source_health_status (un_stats x) =
    (if us_received_messages (un_stats x) = 0 then ''waiting_for_messages''
     else if us_malformed_messages (un_stats x) > 0 \<or> us_gap_alert_count (un_stats x) > 0 then ''degraded''
     else ''connected'')"
  using assms by (auto simp: watch_upbit_ingest_streams_def upbit_update_health_def Let_def
      split: sum.splits prod.splits if_splits)

section \<open>Witnesses\<close>

definition demo_trade :: upbit_trade_message where
  "demo_trade = \<lparr>ur_event_type = ''trade'', ur_code = ''KRW-BTC'', ur_timestamp = 5, ur_trade_timestamp = 4,
     ur_trade_price = Fin 1, ur_trade_volume = Fin 1, ur_ask_bid = ''BID'', ur_sequential_id = 7,
     ur_best_ask_price = None, ur_best_ask_size = None, ur_best_bid_price = None, ur_best_bid_size = None,
     ur_stream_type = Some ''REALTIME''\<rparr>"

definition demo_codec :: upbit_codec where
  "demo_codec = \<lparr>uc_from_str = (\<lambda>_. Inr JNull), uc_to_string = (\<lambda>_. Inr ''{}''), uc_display = (\<lambda>_. ''{}''),
     uc_header = (\<lambda>_. Inr \<lparr>uh_event_type = Some ''trade'', uh_status = None, uh_error = None\<rparr>),
     uc_ticker = (\<lambda>_. Inl ''t''), uc_trade = (\<lambda>_. Inr demo_trade), uc_orderbook = (\<lambda>_. Inl ''o'')\<rparr>"

definition demo_turn :: "nat \<Rightarrow> poll \<Rightarrow> session_turn" where
  "demo_turn now p = \<lparr>st_shutdown = False, st_now = now, st_poll = p, st_message_at = now, st_wall_ms = 6,
     st_house_now = now, st_ping = Inr ()\<rparr>"

definition demo_attempt :: "nat \<Rightarrow> session_turn attempt" where
  "demo_attempt now = \<lparr>a_shutdown = False, a_now = now, a_connect = Inr (), a_subscribe = Inr (), a_started = now,
     a_turns = [demo_turn now (PollMessage (WsText ''x'')), demo_turn (from_secs 2) PollTimeout], a_reconnect_ms = 9\<rparr>"

definition demo_outside :: upbit_outside where
  "demo_outside = \<lparr>uz_rest = demo_rest, uz_params = demo_params, uz_env = (demo_env True)\<lparr>e_upload_file := (\<lambda>_. Inr ())\<rparr>,
     uz_codec = demo_codec, uz_new_uploader = (\<lambda>_. Inr ()), uz_connect_live = (\<lambda>_. Inr ()), uz_log_start = Inr (),
     uz_log_report = Inr (), uz_listener = Inr (), uz_start = 0, uz_attempts = [demo_attempt 0],
     uz_health_ms = 10, uz_symbol_ms = 11\<rparr>"

definition demo_run_config :: upbit_run_config where
  "demo_run_config = \<lparr>urc_rest_base_url = ''https://h'', urc_websocket_url = ''wss://h'', urc_quote_currency = ''KRW'',
     urc_duration_seconds = 1, urc_log_interval_seconds = 1, urc_expect_symbol_count = 1,
     urc_allow_partial_symbol_coverage = False, urc_orderbook_unit = 5, urc_l0_storage = Some demo_cfg\<rparr>"

lemma demo_watch:
  assumes "record_text_payload deps 6 ''x'' \<lparr>un_stats = upbit_stats_new url (length (ud_markets deps) * 3), un_sink = sink\<rparr> =
    (x, Inr ())"
  shows "watch_upbit_ingest_streams deps url (from_secs 1) (from_secs 1) (Inr ()) 0 [demo_attempt 0] sink =
    ([], Some (Inr (upd_stats upbit_update_health (upbit_terminal ''deadline_reached'' x))))"
  using assms
  by (simp add: watch_upbit_ingest_streams_def default_24x7_def demo_attempt_def demo_turn_def upbit_not_ready_def is_err_def
      upbit_run_session_def upbit_handle_message_def upbit_housekeeping_def poll_session_def from_secs_def Let_def)

definition demo_markets :: "upbit_market list" where
  "demo_markets = [\<lparr>um_market = ''KRW-BTC'', um_base_asset = ''BTC'', um_quote_asset = ''KRW'', um_korean_name = [],
     um_english_name = ''Bitcoin'', um_acc_trade_price_24h = Fin 9\<rparr>]"

definition demo_start :: "l0_sink option \<Rightarrow> upbit_run" where
  "demo_start sink = \<lparr>un_stats = upbit_stats_new ''wss://h'' 3, un_sink = sink\<rparr>"

lemmas demo_defs = upbit_deps_of_def demo_outside_def demo_run_config_def demo_markets_def demo_codec_def demo_trade_def
  demo_start_def demo_sink_def demo_cfg_def demo_env_def empty_family_def

lemmas sink_defs = append_raw_market_event_def append_source_health_def append_symbol_health_def append_gap_alert_def
  take_ordinal_def push_buffer_def publish_live_tick_def

definition demo_after :: upbit_run where
  "demo_after = fst (record_text_payload (upbit_deps_of demo_outside demo_markets) 6 ''x'' (demo_start (Some demo_sink)))"

lemma demo_payload: "record_text_payload (upbit_deps_of demo_outside demo_markets) 6 ''x'' (demo_start (Some demo_sink)) =
    (demo_after, Inr ())"
proof -
  have "snd (record_text_payload (upbit_deps_of demo_outside demo_markets) 6 ''x'' (demo_start (Some demo_sink))) = Inr ()"
    by (simp add: demo_defs record_text_payload_def parse_upbit_payload_def parse_one_envelope_def parse_one_value_def
        raw_market_event_drafts_def markets_by_code_def sink_defs Let_def)
  then show ?thesis unfolding demo_after_def by (metis prod.collapse)
qed

definition demo_final :: upbit_run where
  "demo_final = upd_stats upbit_update_health (upbit_terminal ''deadline_reached'' demo_after)"

lemma demo_watch_ok:
  "watch_upbit_ingest_streams (upbit_deps_of demo_outside demo_markets) ''wss://h'' (from_secs 1) (from_secs 1) (Inr ()) 0
     [demo_attempt 0] (Some demo_sink) = ([], Some (Inr demo_final))"
  unfolding demo_final_def
  by (rule demo_watch) (use demo_payload in \<open>simp add: demo_start_def upbit_deps_of_def demo_markets_def\<close>)

lemma demo_after_stats:
  "us_symbol_counts (un_stats demo_final) = [(''KRW-BTC'', 1)]" "us_gap_alerts (un_stats demo_final) = []"
  "us_received_messages (un_stats demo_final) = 1" "us_malformed_messages (un_stats demo_final) = 0"
  "us_gap_alert_count (un_stats demo_final) = 0" "us_orderbook_messages (un_stats demo_final) = 0"
  by (simp_all add: demo_final_def demo_after_def demo_defs record_text_payload_def parse_upbit_payload_def
      parse_one_envelope_def parse_one_value_def raw_market_event_drafts_def markets_by_code_def sink_defs
      upbit_terminal_def upbit_update_health_def upbit_record_event_cases upbit_record_trade_def upbit_count_def
      upbit_symbol_def upbit_exchange_timestamp_ms_def upbit_record_timing_def upbit_stats_new_def bump_def Let_def)

lemma demo_after_sink:
  "un_sink demo_final = Some (fst (append_raw_market_event demo_params (uz_env demo_outside)
     (upbit_draft ''trade'' (hd demo_markets) 4 (''upbit:trade:'' @ show_int 7) ''REALTIME'' (Some 7) ''{}'' 6) demo_sink))"
  by (simp add: demo_final_def demo_after_def demo_defs record_text_payload_def parse_upbit_payload_def
      parse_one_envelope_def parse_one_value_def raw_market_event_drafts_def markets_by_code_def sink_defs
      upbit_terminal_def stream_type_or_unknown_def upbit_draft_def Let_def)

lemma demo_conclude: "case upbit_conclude demo_outside demo_run_config demo_markets demo_final of
      (Some _, Inr _) \<Rightarrow> True | _ \<Rightarrow> False"
  by (simp add: upbit_conclude_def demo_after_sink upbit_finalize_storage_def write_final_records_def
    upbit_symbol_health_drafts_def bt_keys_def demo_after_stats sink_defs
    seq_result_def flush_all_def Let_def bt_contains_key_def
    upbit_validate_report_def upbit_validate_message_report_def upbit_validate_storage_report_def upbit_build_report_def
    demo_outside_def demo_run_config_def upbit_deps_of_def demo_sink_def demo_cfg_def demo_env_def empty_family_def
    flush_raw_partition_def flush_health_partition_def flush_symbol_health_partition_def next_part_number_def cmp_by_def
    write_and_upload_def local_path_def upload_def record_uploaded_object_def push_capped_deque_def MAX_REPORTED_OBJECTS_def upload_manifest_def
    report_def append_capped_def validate_common_storage_report_def require_storage_family_def storage_has_family_def demo_markets_def)

lemma demo_fetch: "fetch_top_krw_markets demo_rest ''https://h'' ''KRW'' 1 = Inr demo_markets"
  by code_simp

lemma demo_run_ok:
  "case run_upbit_l0_smoke demo_outside demo_run_config of Some (Some _, Inr _) \<Rightarrow> True | _ \<Rightarrow> False"
proof -
  have "upbit_open_storage demo_outside demo_run_config = Inr (Some demo_sink)"
    by (simp add: upbit_open_storage_def demo_outside_def demo_run_config_def sink_new_def validate_config_def
        connect_live_publisher_def demo_cfg_def demo_sink_def)
  then have "run_upbit_l0_smoke demo_outside demo_run_config =
      Some (upbit_conclude demo_outside demo_run_config demo_markets demo_final)"
    using demo_fetch demo_watch_ok
    by (simp add: run_upbit_l0_smoke_def upbit_validate_config_def demo_run_config_def)
       (simp add: demo_outside_def)
  with demo_conclude show ?thesis by simp
qed

theorem upbit_success_stores_everything_witness:
  "\<exists>s. run_upbit_l0_smoke demo_outside demo_run_config = Some (Some s, Inr ()) \<and> uploaded (world s) = contents s"
proof -
  obtain s where s: "run_upbit_l0_smoke demo_outside demo_run_config = Some (Some s, Inr ())"
    using demo_run_ok by (auto split: option.splits prod.splits sum.splits)
  have "params_ok (uz_params demo_outside)" by (simp add: demo_outside_def demo_params_ok)
  from upbit_success_stores_everything [OF this s] s show ?thesis by blast
qed

theorem upbit_backoff_never_resets_witness:
  "([] :: nat list) = map backoff_delay [0 ..< us_reconnect_count (un_stats demo_final)]"
  by (rule upbit_backoff_never_resets [OF demo_watch_ok])
    (use demo_reach in \<open>auto simp: sink_new_def validate_config_def connect_live_publisher_def demo_cfg_def demo_sink_def
       intro!: exI [of _ "\<lambda>_. Inr ()"] exI [of _ demo_cfg]\<close>)

theorem upbit_watch_counters_witness: "upbit_stats_ok (un_stats demo_final)"
  by (rule upbit_watch_counters [OF demo_watch_ok])
    (auto simp: sink_new_def validate_config_def connect_live_publisher_def demo_cfg_def demo_sink_def
       intro!: exI [of _ "\<lambda>_. Inr ()"] exI [of _ demo_cfg])

theorem upbit_terminal_status_overwritten_witness:
  "us_source_health_status (un_stats demo_final) \<noteq> ''deadline_reached''"
  using upbit_terminal_status_overwritten [OF demo_watch_ok] by (auto split: if_splits)

theorem upbit_watch_returns_witness:
  "\<exists>sleeps r. watch_upbit_ingest_streams (upbit_deps_of demo_outside demo_markets) [] (from_secs 1) 1 (Inr ()) 0
     [(demo_attempt 0)\<lparr>a_connect := Inl ''refused''\<rparr>, demo_attempt (from_secs 2)] None = (sleeps, Some r)"
  by (rule upbit_watch_returns) (simp_all add: demo_attempt_def demo_turn_def from_secs_def)

end
