(* ===== verification/Binance_Feed.thy ===== *)
theory Binance_Feed
  imports Venue_Watch Upbit_Feed
begin

text \<open>
  \<open>src/binance/events\<close> and \<open>src/binance/stats\<close>: the combined-stream messages of Binance, their classification
  and the running statistics, with the two ordering checks: trade numbers per stream and the chain of depth
  update ids per symbol. The JSON library is the record \<open>binance_codec\<close>.
\<close>

section \<open>Errors (error.rs)\<close>

datatype binance_ingest_error =
    BHttp string | BMarketData market_data_error | BJson string | BWebSocket string | BUtf8 string
  | BStorage string | BInvalidMessage string

definition binance_error_display :: "binance_ingest_error \<Rightarrow> string" where
  "binance_error_display e = (case e of
     BMarketData err \<Rightarrow> ''binance market data error: '' @ market_data_error_display err
   | BHttp m \<Rightarrow> ''binance http error: '' @ m
   | BJson m \<Rightarrow> ''binance json error: '' @ m
   | BWebSocket m \<Rightarrow> ''binance websocket error: '' @ m
   | BUtf8 m \<Rightarrow> ''binance utf-8 error: '' @ m
   | BStorage m \<Rightarrow> ''binance storage error: '' @ m
   | BInvalidMessage m \<Rightarrow> ''binance invalid message: '' @ m)"

section \<open>Messages (events/message.rs, events/parsed.rs)\<close>

record binance_trade_message =
  btr_event_time_ms :: timestamp_ms
  btr_symbol :: string
  btr_trade_id :: int
  btr_trade_time_ms :: timestamp_ms

record binance_l0_ticker_message =
  bk_event_time_ms :: timestamp_ms
  bk_symbol :: string
  bk_last_trade_id :: int

record binance_book_ticker_message =
  bb_update_id :: int
  bb_symbol :: string

record binance_diff_depth_message =
  bd_event_time_ms :: timestamp_ms
  bd_symbol :: string
  bd_first_update_id :: int
  bd_final_update_id :: int

datatype binance_parsed_event =
    BTrade binance_trade_message
  | BTicker binance_l0_ticker_message
  | BBookTicker binance_book_ticker_message
  | BDiffDepth binance_diff_depth_message

record binance_parsed_envelope =
  be_stream :: string
  be_event :: binance_parsed_event
  be_payload_json :: string

definition binance_kind_name :: "binance_parsed_event \<Rightarrow> string" where
  "binance_kind_name e = (case e of
     BTrade _ \<Rightarrow> ''trade'' | BTicker _ \<Rightarrow> ''ticker'' | BBookTicker _ \<Rightarrow> ''bookTicker'' | BDiffDepth _ \<Rightarrow> ''depth@100ms'')"

definition storage_event_type :: "binance_parsed_event \<Rightarrow> string" where
  "storage_event_type e = (case e of
     BTrade _ \<Rightarrow> ''trade'' | BTicker _ \<Rightarrow> ''ticker'' | BBookTicker _ \<Rightarrow> ''book_ticker'' | BDiffDepth _ \<Rightarrow> ''depth_delta'')"

definition binance_symbol :: "binance_parsed_event \<Rightarrow> string" where
  "binance_symbol e = (case e of
     BTrade m \<Rightarrow> btr_symbol m | BTicker m \<Rightarrow> bk_symbol m | BBookTicker m \<Rightarrow> bb_symbol m | BDiffDepth m \<Rightarrow> bd_symbol m)"

definition binance_exchange_timestamp_ms :: "binance_parsed_event \<Rightarrow> timestamp_ms \<Rightarrow> timestamp_ms" where
  "binance_exchange_timestamp_ms e fallback_ms = (case e of
     BTrade m \<Rightarrow> btr_trade_time_ms m | BTicker m \<Rightarrow> bk_event_time_ms m | BBookTicker _ \<Rightarrow> fallback_ms
   | BDiffDepth m \<Rightarrow> bd_event_time_ms m)"

definition numeric_sequence :: "binance_parsed_event \<Rightarrow> int" where
  "numeric_sequence e = (case e of
     BTrade m \<Rightarrow> btr_trade_id m | BTicker m \<Rightarrow> bk_last_trade_id m | BBookTicker m \<Rightarrow> bb_update_id m
   | BDiffDepth m \<Rightarrow> bd_final_update_id m)"

definition binance_sequence_id :: "binance_parsed_event \<Rightarrow> string" where
  "binance_sequence_id e = (case e of
     BTrade m \<Rightarrow> ''binance:trade:'' @ show_int (btr_trade_id m)
   | BTicker m \<Rightarrow> ''binance:ticker:'' @ show_int (bk_last_trade_id m)
   | BBookTicker m \<Rightarrow> ''binance:book_ticker:'' @ show_int (bb_update_id m)
   | BDiffDepth m \<Rightarrow> ''binance:depth_delta:'' @ show_int (bd_final_update_id m))"

definition diff_first_update_id :: "binance_parsed_event \<Rightarrow> int option" where
  "diff_first_update_id e = (case e of BDiffDepth m \<Rightarrow> Some (bd_first_update_id m) | _ \<Rightarrow> None)"

definition diff_final_update_id :: "binance_parsed_event \<Rightarrow> int option" where
  "diff_final_update_id e = (case e of BDiffDepth m \<Rightarrow> Some (bd_final_update_id m) | _ \<Rightarrow> None)"

section \<open>Parsing (events/parser.rs)\<close>

record binance_codec =
  bc_from_str :: "string \<Rightarrow> (json, string) result"
  bc_to_string :: "json \<Rightarrow> (string, string) result"
  bc_display :: "json \<Rightarrow> string"
  bc_combined :: "json \<Rightarrow> (string \<times> json, string) result"
  bc_trade :: "json \<Rightarrow> (binance_trade_message, string) result"
  bc_ticker :: "json \<Rightarrow> (binance_l0_ticker_message, string) result"
  bc_book_ticker :: "json \<Rightarrow> (binance_book_ticker_message, string) result"
  bc_diff_depth :: "json \<Rightarrow> (binance_diff_depth_message, string) result"

definition binance_stream_kind_of :: "string \<Rightarrow> (binance_stream_kind, binance_ingest_error) result" where
  "binance_stream_kind_of stream =
     (case split_once (CHR ''@'') stream of
        None \<Rightarrow> Inl (BInvalidMessage (''invalid Binance stream name: '' @ stream))
      | Some (_, sfx) \<Rightarrow>
          if sfx = ''trade'' then Inr KTrade
          else if sfx = ''ticker'' then Inr KTicker
          else if sfx = ''bookTicker'' then Inr KBookTicker
          else if sfx = ''depth@100ms'' then Inr KDiffDepth100ms
          else if sfx = ''depth5'' then Inr KPartialDepth5
          else if sfx = ''depth10'' then Inr KPartialDepth10
          else if sfx = ''depth20'' then Inr KPartialDepth20
          else Inl (BInvalidMessage (''unsupported Binance stream suffix: '' @ sfx)))"

definition parse_binance_event ::
    "binance_codec \<Rightarrow> binance_stream_kind \<Rightarrow> json \<Rightarrow> (binance_parsed_event, binance_ingest_error) result" where
  "parse_binance_event codec kind data = (case kind of
     KTrade \<Rightarrow> and_then (map_err BJson (bc_trade codec data)) (\<lambda>m. Inr (BTrade m))
   | KTicker \<Rightarrow> and_then (map_err BJson (bc_ticker codec data)) (\<lambda>m. Inr (BTicker m))
   | KBookTicker \<Rightarrow> and_then (map_err BJson (bc_book_ticker codec data)) (\<lambda>m. Inr (BBookTicker m))
   | KDiffDepth100ms \<Rightarrow> and_then (map_err BJson (bc_diff_depth codec data)) (\<lambda>m. Inr (BDiffDepth m))
   | _ \<Rightarrow> Inl (BInvalidMessage ''Binance partial depth WS is disabled; use REST /api/v3/depth snapshots''))"

definition parse_binance_payload :: "binance_codec \<Rightarrow> string \<Rightarrow> (binance_parsed_envelope, binance_ingest_error) result" where
  "parse_binance_payload codec raw_json =
     and_then (map_err BJson (bc_from_str codec raw_json)) (\<lambda>value.
     and_then (map_err BJson (bc_to_string codec value)) (\<lambda>payload_json.
     and_then (map_err BJson (bc_combined codec value)) (\<lambda>(stream, data).
     and_then (binance_stream_kind_of stream) (\<lambda>kind.
     and_then (parse_binance_event codec kind data) (\<lambda>event.
     Inr \<lparr>be_stream = stream, be_event = event, be_payload_json = payload_json\<rparr>)))))"

section \<open>Statistics (stats/model.rs)\<close>

record binance_l0_gap_alert =
  bg_gap_type :: string
  bg_symbol :: string
  bg_detected_at_ms :: timestamp_ms
  bg_expected_sequence_id :: "int option"
  bg_observed_sequence_id :: "int option"
  bg_heal_action :: string
  bg_heal_status :: string

record binance_l0_watch_stats =
  bs_stream_url :: string
  bs_planned_stream_count :: nat
  bs_received_messages :: nat
  bs_parsed_messages :: nat
  bs_malformed_messages :: nat
  bs_control_messages :: nat
  bs_pings_received :: nat
  bs_pongs_received :: nat
  bs_close_messages :: nat
  bs_kind_counts :: "nat str_map"
  bs_symbol_counts :: "nat str_map"
  bs_ticker_messages :: nat
  bs_trade_messages :: nat
  bs_book_ticker_messages :: nat
  bs_depth_delta_messages :: nat
  bs_depth_snapshot_messages :: nat
  bs_sequence_anomalies :: nat
  bs_source_health_status :: string
  bs_source_health_events :: nat
  bs_reconnect_count :: nat
  bs_last_reconnect_at_ms :: "timestamp_ms option"
  bs_gap_alert_count :: nat
  bs_recent_gap_alerts :: "binance_l0_gap_alert list"
  bs_gap_alerts :: "binance_l0_gap_alert list"
  bs_last_exchange_timestamp_ms :: "timestamp_ms option"
  bs_last_ingest_timestamp_ms :: "timestamp_ms option"
  bs_latest_stream_lag_ms :: int
  bs_symbol_last_event_time_ms :: "timestamp_ms str_map"
  bs_symbol_last_ingest_time_ms :: "timestamp_ms str_map"
  bs_last_sequence_by_stream :: "int str_map"
  bs_last_depth_final_update_by_symbol :: "int str_map"

definition binance_stats_new :: "string \<Rightarrow> nat \<Rightarrow> binance_l0_watch_stats" where
  "binance_stats_new url planned =
     \<lparr>bs_stream_url = url, bs_planned_stream_count = planned, bs_received_messages = 0, bs_parsed_messages = 0,
      bs_malformed_messages = 0, bs_control_messages = 0, bs_pings_received = 0, bs_pongs_received = 0,
      bs_close_messages = 0, bs_kind_counts = [], bs_symbol_counts = [], bs_ticker_messages = 0,
      bs_trade_messages = 0, bs_book_ticker_messages = 0, bs_depth_delta_messages = 0,
      bs_depth_snapshot_messages = 0, bs_sequence_anomalies = 0, bs_source_health_status = ''connected'',
      bs_source_health_events = 1, bs_reconnect_count = 0, bs_last_reconnect_at_ms = None, bs_gap_alert_count = 0,
      bs_recent_gap_alerts = [], bs_gap_alerts = [], bs_last_exchange_timestamp_ms = None,
      bs_last_ingest_timestamp_ms = None, bs_latest_stream_lag_ms = 0, bs_symbol_last_event_time_ms = [],
      bs_symbol_last_ingest_time_ms = [], bs_last_sequence_by_stream = [],
      bs_last_depth_final_update_by_symbol = []\<rparr>"

section \<open>Recording events (stats/event.rs, stats/health.rs)\<close>

definition binance_record_gap_alert :: "binance_l0_gap_alert \<Rightarrow> binance_l0_watch_stats \<Rightarrow> binance_l0_watch_stats" where
  "binance_record_gap_alert alert s =
     s\<lparr>bs_gap_alert_count := bs_gap_alert_count s + 1,
       bs_gap_alerts := push_bounded MAX_STORED_GAP_ALERTS alert (bs_gap_alerts s),
       bs_recent_gap_alerts := push_bounded MAX_RECENT_GAP_ALERTS alert (bs_recent_gap_alerts s)\<rparr>"

definition record_trade_ordering_gap ::
    "string \<Rightarrow> string \<Rightarrow> int \<Rightarrow> timestamp_ms \<Rightarrow> binance_l0_watch_stats \<Rightarrow> binance_l0_watch_stats" where
  "record_trade_ordering_gap native stream seq now_ms s =
     (let s1 = s\<lparr>bs_last_sequence_by_stream := bt_insert str_cmp stream seq (bs_last_sequence_by_stream s)\<rparr>
      in case bt_get str_cmp stream (bs_last_sequence_by_stream s) of
           Some previous \<Rightarrow>
             if seq < previous
             then binance_record_gap_alert
                    \<lparr>bg_gap_type = ''ordering_violation'', bg_symbol = native, bg_detected_at_ms = now_ms,
                     bg_expected_sequence_id = Some (i64_saturating_add previous 1), bg_observed_sequence_id = Some seq,
                     bg_heal_action = ''mark_incomplete_and_continue'', bg_heal_status = ''detected''\<rparr>
                    (s1\<lparr>bs_sequence_anomalies := bs_sequence_anomalies s1 + 1\<rparr>)
             else s1
         | None \<Rightarrow> s1)"

definition record_depth_update_id_gap ::
    "string \<Rightarrow> int \<Rightarrow> int \<Rightarrow> timestamp_ms \<Rightarrow> binance_l0_watch_stats \<Rightarrow> binance_l0_watch_stats" where
  "record_depth_update_id_gap native first_id final_id now_ms s =
     (let s1 = s\<lparr>bs_last_depth_final_update_by_symbol :=
                   bt_insert str_cmp native final_id (bs_last_depth_final_update_by_symbol s)\<rparr>
      in case bt_get str_cmp native (bs_last_depth_final_update_by_symbol s) of
           Some previous_final \<Rightarrow>
             (let expected = i64_saturating_add previous_final 1
              in if first_id \<noteq> expected
                 then binance_record_gap_alert
                        \<lparr>bg_gap_type = ''depth_update_id_gap'', bg_symbol = native, bg_detected_at_ms = now_ms,
                         bg_expected_sequence_id = Some expected, bg_observed_sequence_id = Some first_id,
                         bg_heal_action = ''refetch_snapshot'', bg_heal_status = ''detected''\<rparr>
                        (s1\<lparr>bs_sequence_anomalies := bs_sequence_anomalies s1 + 1\<rparr>)
                 else s1)
         | None \<Rightarrow> s1)"

definition binance_record_timing ::
    "timestamp_ms \<Rightarrow> timestamp_ms \<Rightarrow> binance_l0_watch_stats \<Rightarrow> binance_l0_watch_stats" where
  "binance_record_timing exchange_ms ingest_ms s =
     s\<lparr>bs_last_exchange_timestamp_ms := Some exchange_ms, bs_last_ingest_timestamp_ms := Some ingest_ms,
       bs_latest_stream_lag_ms := max (i64_saturating_sub ingest_ms exchange_ms) 0\<rparr>"

text \<open>The part of \<open>record_event\<close> before its match on the kind.\<close>

definition binance_count :: "binance_parsed_event \<Rightarrow> timestamp_ms \<Rightarrow> binance_l0_watch_stats \<Rightarrow> binance_l0_watch_stats" where
  "binance_count event now_ms s =
     (let native = to_ascii_uppercase (binance_symbol event);
          exchange_ms = binance_exchange_timestamp_ms event now_ms;
          s1 = binance_record_timing exchange_ms now_ms (s\<lparr>bs_parsed_messages := bs_parsed_messages s + 1\<rparr>)
      in s1\<lparr>bs_symbol_last_event_time_ms := bt_insert str_cmp native exchange_ms (bs_symbol_last_event_time_ms s1),
            bs_symbol_last_ingest_time_ms := bt_insert str_cmp native now_ms (bs_symbol_last_ingest_time_ms s1),
            bs_kind_counts := bump (binance_kind_name event) (bs_kind_counts s1),
            bs_symbol_counts := bump native (bs_symbol_counts s1)\<rparr>)"

definition binance_record_event ::
    "binance_parsed_envelope \<Rightarrow> timestamp_ms \<Rightarrow> binance_l0_watch_stats \<Rightarrow> binance_l0_watch_stats" where
  "binance_record_event envelope now_ms s =
     (let event = be_event envelope;
          native = to_ascii_uppercase (binance_symbol event);
          s1 = binance_count event now_ms s
      in case event of
           BTrade _ \<Rightarrow>
             record_trade_ordering_gap native (be_stream envelope) (numeric_sequence event) now_ms
               (s1\<lparr>bs_trade_messages := bs_trade_messages s1 + 1\<rparr>)
         | BTicker _ \<Rightarrow> s1\<lparr>bs_ticker_messages := bs_ticker_messages s1 + 1\<rparr>
         | BBookTicker _ \<Rightarrow> s1\<lparr>bs_book_ticker_messages := bs_book_ticker_messages s1 + 1\<rparr>
         | BDiffDepth m \<Rightarrow>
             record_depth_update_id_gap native (bd_first_update_id m) (bd_final_update_id m) now_ms
               (s1\<lparr>bs_depth_delta_messages := bs_depth_delta_messages s1 + 1\<rparr>))"

definition binance_update_health :: "binance_l0_watch_stats \<Rightarrow> binance_l0_watch_stats" where
  "binance_update_health s =
     s\<lparr>bs_source_health_status :=
         (if bs_received_messages s = 0 then ''waiting_for_messages''
          else if bs_malformed_messages s > 0 \<or> bs_gap_alert_count s > 0 then ''degraded''
          else ''connected''),
       bs_source_health_events := bs_source_health_events s + 1\<rparr>"

definition binance_heartbeat_delay_ms_at :: "binance_l0_watch_stats \<Rightarrow> timestamp_ms \<Rightarrow> int" where
  "binance_heartbeat_delay_ms_at s observed_at_ms =
     (case bs_last_ingest_timestamp_ms s of
        Some last_ms \<Rightarrow> max (i64_saturating_sub observed_at_ms last_ms) 0
      | None \<Rightarrow> 0)"

definition binance_record_reconnect ::
    "binance_l0_watch_stats \<Rightarrow> string \<Rightarrow> timestamp_ms \<Rightarrow> binance_l0_watch_stats" where
  "binance_record_reconnect s reason now_ms =
     binance_record_gap_alert
       \<lparr>bg_gap_type = ''ws_reconnect'', bg_symbol = [], bg_detected_at_ms = now_ms,
        bg_expected_sequence_id = None, bg_observed_sequence_id = None,
        bg_heal_action = ''reconnect_with_backoff'', bg_heal_status = reason\<rparr>
       (s\<lparr>bs_reconnect_count := bs_reconnect_count s + 1, bs_last_reconnect_at_ms := Some now_ms,
          bs_source_health_status := ''reconnecting'', bs_source_health_events := bs_source_health_events s + 1\<rparr>)"

section \<open>The invariant of the statistics\<close>

definition binance_stats_ok :: "binance_l0_watch_stats \<Rightarrow> bool" where
  "binance_stats_ok s \<longleftrightarrow>
     total (bs_kind_counts s) = bs_parsed_messages s \<and> total (bs_symbol_counts s) = bs_parsed_messages s \<and>
     bs_ticker_messages s + bs_trade_messages s + bs_book_ticker_messages s + bs_depth_delta_messages s = bs_parsed_messages s \<and>
     bs_sequence_anomalies s + bs_reconnect_count s = bs_gap_alert_count s \<and>
     length (bs_gap_alerts s) = min MAX_STORED_GAP_ALERTS (bs_gap_alert_count s) \<and>
     length (bs_recent_gap_alerts s) = min MAX_RECENT_GAP_ALERTS (bs_gap_alert_count s) \<and>
     Sublist.suffix (bs_recent_gap_alerts s) (bs_gap_alerts s) \<and>
     list_all (\<lambda>a. no_slash (bg_gap_type a)) (bs_gap_alerts s) \<and>
     bs_pings_received s + bs_pongs_received s + bs_close_messages s = bs_control_messages s \<and>
     bt_keys (bs_symbol_last_event_time_ms s) = bt_keys (bs_symbol_counts s) \<and>
     bt_keys (bs_symbol_last_ingest_time_ms s) = bt_keys (bs_symbol_counts s) \<and>
     0 \<le> bs_latest_stream_lag_ms s"

lemma binance_stats_ok_new: "binance_stats_ok (binance_stats_new url planned)"
  by (simp add: binance_stats_ok_def binance_stats_new_def total_def bt_values_def bt_keys_def)

text \<open>An alert together with the counter it stands for.\<close>

lemma binance_alert_ok:
  assumes "binance_stats_ok s" "no_slash (bg_gap_type a)" "n + r = Suc (bs_sequence_anomalies s + bs_reconnect_count s)"
  shows "binance_stats_ok (binance_record_gap_alert a (s\<lparr>bs_sequence_anomalies := n, bs_reconnect_count := r\<rparr>))"
proof -
  have l: "length (bs_gap_alerts s) = min MAX_STORED_GAP_ALERTS (bs_gap_alert_count s)"
    "length (bs_recent_gap_alerts s) = min MAX_RECENT_GAP_ALERTS (bs_gap_alert_count s)"
    "Sublist.suffix (bs_recent_gap_alerts s) (bs_gap_alerts s)" "list_all (\<lambda>a. no_slash (bg_gap_type a)) (bs_gap_alerts s)"
    using assms(1) by (simp_all add: binance_stats_ok_def)
  have "length (push_bounded MAX_STORED_GAP_ALERTS a (bs_gap_alerts s)) = min MAX_STORED_GAP_ALERTS (Suc (bs_gap_alert_count s))"
    by (rule push_bounded_length) (simp_all add: l MAX_STORED_GAP_ALERTS_def)
  moreover have "length (push_bounded MAX_RECENT_GAP_ALERTS a (bs_recent_gap_alerts s)) =
      min MAX_RECENT_GAP_ALERTS (Suc (bs_gap_alert_count s))"
    by (rule push_bounded_length) (simp_all add: l MAX_RECENT_GAP_ALERTS_def)
  moreover have "Sublist.suffix (push_bounded MAX_RECENT_GAP_ALERTS a (bs_recent_gap_alerts s))
      (push_bounded MAX_STORED_GAP_ALERTS a (bs_gap_alerts s))"
    by (rule push_bounded_suffix [OF l(3) _ l(2) l(1)]) (simp_all add: MAX_STORED_GAP_ALERTS_def MAX_RECENT_GAP_ALERTS_def)
  moreover have "list_all (\<lambda>a. no_slash (bg_gap_type a)) (push_bounded MAX_STORED_GAP_ALERTS a (bs_gap_alerts s))"
    using l(4) assms(2) push_bounded_set [of MAX_STORED_GAP_ALERTS a "bs_gap_alerts s"] by (auto simp: list_all_iff)
  ultimately show ?thesis using assms(1,3) by (simp add: binance_stats_ok_def binance_record_gap_alert_def)
qed

lemma binance_frame [simp]:
  "binance_stats_ok (s\<lparr>bs_received_messages := k\<rparr>) = binance_stats_ok s"
  "binance_stats_ok (s\<lparr>bs_malformed_messages := k\<rparr>) = binance_stats_ok s"
  "binance_stats_ok (s\<lparr>bs_depth_snapshot_messages := k\<rparr>) = binance_stats_ok s"
  "binance_stats_ok (s\<lparr>bs_source_health_status := h, bs_source_health_events := k\<rparr>) = binance_stats_ok s"
  "binance_stats_ok (s\<lparr>bs_last_reconnect_at_ms := t\<rparr>) = binance_stats_ok s"
  "binance_stats_ok (s\<lparr>bs_last_sequence_by_stream := x\<rparr>) = binance_stats_ok s"
  "binance_stats_ok (s\<lparr>bs_last_depth_final_update_by_symbol := x\<rparr>) = binance_stats_ok s"
  by (simp_all add: binance_stats_ok_def)

lemma no_slash_lits2 [simp]:
  "no_slash ''depth_update_id_gap''" "no_slash ''binance''"
  by (simp_all add: no_slash_def)

lemma binance_health_ok: "binance_stats_ok s \<Longrightarrow> binance_stats_ok (binance_update_health s)"
  by (simp add: binance_update_health_def)

lemma binance_reconnect_ok:
  assumes "binance_stats_ok s" shows "binance_stats_ok (binance_record_reconnect s reason t)"
proof -
  define s1 where "s1 = s\<lparr>bs_last_reconnect_at_ms := Some t, bs_source_health_status := ''reconnecting'',
    bs_source_health_events := bs_source_health_events s + 1\<rparr>"
  have "binance_stats_ok s1" using assms by (simp add: s1_def)
  from binance_alert_ok [OF this, of "\<lparr>bg_gap_type = ''ws_reconnect'', bg_symbol = [], bg_detected_at_ms = t,
        bg_expected_sequence_id = None, bg_observed_sequence_id = None,
        bg_heal_action = ''reconnect_with_backoff'', bg_heal_status = reason\<rparr>" "bs_sequence_anomalies s" "bs_reconnect_count s + 1"]
  show ?thesis
    by (simp add: binance_record_reconnect_def binance_record_gap_alert_def s1_def binance_stats_ok_def)
qed

lemma binance_anomaly_ok:
  assumes "binance_stats_ok s" "no_slash (bg_gap_type a)"
  shows "binance_stats_ok (binance_record_gap_alert a (s\<lparr>bs_sequence_anomalies := Suc (bs_sequence_anomalies s)\<rparr>))"
  using binance_alert_ok [OF assms, of "Suc (bs_sequence_anomalies s)" "bs_reconnect_count s"]
  by (simp add: binance_record_gap_alert_def binance_stats_ok_def)

lemma binance_ordering_ok: "binance_stats_ok s \<Longrightarrow> binance_stats_ok (record_trade_ordering_gap n st q t s)"
  using binance_anomaly_ok [of "s\<lparr>bs_last_sequence_by_stream := x\<rparr>" for x]
  by (simp add: record_trade_ordering_gap_def Let_def split: option.splits)

lemma binance_depth_gap_ok: "binance_stats_ok s \<Longrightarrow> binance_stats_ok (record_depth_update_id_gap n a b t s)"
  using binance_anomaly_ok [of "s\<lparr>bs_last_depth_final_update_by_symbol := x\<rparr>" for x]
  by (simp add: record_depth_update_id_gap_def Let_def split: option.splits)

lemma binance_count_ok:
  assumes "binance_stats_ok s"
  shows "binance_stats_ok ((binance_count e t s)\<lparr>bs_trade_messages := Suc (bs_trade_messages s)\<rparr>)"
    "binance_stats_ok ((binance_count e t s)\<lparr>bs_ticker_messages := Suc (bs_ticker_messages s)\<rparr>)"
    "binance_stats_ok ((binance_count e t s)\<lparr>bs_book_ticker_messages := Suc (bs_book_ticker_messages s)\<rparr>)"
    "binance_stats_ok ((binance_count e t s)\<lparr>bs_depth_delta_messages := Suc (bs_depth_delta_messages s)\<rparr>)"
  using assms by (simp_all add: binance_count_def binance_stats_ok_def binance_record_timing_def bt_keys_bump Let_def)

lemma binance_count_fields [simp]:
  "bs_trade_messages (binance_count e t s) = bs_trade_messages s"
  "bs_ticker_messages (binance_count e t s) = bs_ticker_messages s"
  "bs_book_ticker_messages (binance_count e t s) = bs_book_ticker_messages s"
  "bs_depth_delta_messages (binance_count e t s) = bs_depth_delta_messages s"
  "bs_last_sequence_by_stream (binance_count e t s) = bs_last_sequence_by_stream s"
  "bs_last_depth_final_update_by_symbol (binance_count e t s) = bs_last_depth_final_update_by_symbol s"
  "bs_gap_alert_count (binance_count e t s) = bs_gap_alert_count s"
  "bs_malformed_messages (binance_count e t s) = bs_malformed_messages s"
  "bs_reconnect_count (binance_count e t s) = bs_reconnect_count s"
  by (simp_all add: binance_count_def binance_record_timing_def Let_def)

lemma binance_record_event_ok:
  "binance_stats_ok s \<Longrightarrow> binance_stats_ok (binance_record_event e t s)"
  by (cases "be_event e")
    (simp_all add: binance_record_event_def Let_def binance_ordering_ok binance_depth_gap_ok binance_count_ok)

section \<open>What the ordering alerts mean\<close>

definition binance_record_all ::
    "(binance_parsed_envelope \<times> timestamp_ms) list \<Rightarrow> binance_l0_watch_stats \<Rightarrow> binance_l0_watch_stats" where
  "binance_record_all es s = foldl (\<lambda>s (e, t). binance_record_event e t s) s es"

text \<open>The trade numbers of one stream and the depth updates (first and final id) of one symbol.\<close>

definition stream_trades :: "(binance_parsed_envelope \<times> timestamp_ms) list \<Rightarrow> string \<Rightarrow> int list" where
  "stream_trades es st = List.map_filter (\<lambda>(e, _). case be_event e of
     BTrade m \<Rightarrow> if be_stream e = st then Some (btr_trade_id m) else None | _ \<Rightarrow> None) es"

definition depth_updates :: "(binance_parsed_envelope \<times> timestamp_ms) list \<Rightarrow> string \<Rightarrow> (int \<times> int) list" where
  "depth_updates es c = List.map_filter (\<lambda>(e, _). case be_event e of
     BDiffDepth m \<Rightarrow> if to_ascii_uppercase (bd_symbol m) = c then Some (bd_first_update_id m, bd_final_update_id m) else None
   | _ \<Rightarrow> None) es"

definition follows :: "int \<times> int \<Rightarrow> int \<times> int \<Rightarrow> bool" where
  "follows a b \<longleftrightarrow> fst b = i64_saturating_add (snd a) 1"

definition binance_ordered :: "(binance_parsed_envelope \<times> timestamp_ms) list \<Rightarrow> bool" where
  "binance_ordered es \<longleftrightarrow> (\<forall>st. sorted (stream_trades es st)) \<and> (\<forall>c. successively follows (depth_updates es c))"

lemma binance_snoc:
  "be_event e = BTrade m \<Longrightarrow> stream_trades (es @ [(e, t)]) =
     (stream_trades es)(be_stream e := stream_trades es (be_stream e) @ [btr_trade_id m])"
  "be_event e = BDiffDepth d \<Longrightarrow> depth_updates (es @ [(e, t)]) = (depth_updates es)
     (to_ascii_uppercase (bd_symbol d) := depth_updates es (to_ascii_uppercase (bd_symbol d)) @ [(bd_first_update_id d, bd_final_update_id d)])"
  "(\<And>m. be_event e \<noteq> BTrade m) \<Longrightarrow> stream_trades (es @ [(e, t)]) = stream_trades es"
  "(\<And>m. be_event e \<noteq> BDiffDepth m) \<Longrightarrow> depth_updates (es @ [(e, t)]) = depth_updates es"
  by (auto simp: stream_trades_def depth_updates_def map_filter_def fun_eq_iff split: binance_parsed_event.splits)

lemma successively_upd: "(\<forall>c. successively P ((f(k := f k @ [x])) c)) \<longleftrightarrow>
    (\<forall>c. successively P (f c)) \<and> (f k \<noteq> [] \<longrightarrow> P (last (f k)) x)"
  by (auto simp: successively_append_iff)

definition binance_history :: "(binance_parsed_envelope \<times> timestamp_ms) list \<Rightarrow> binance_l0_watch_stats \<Rightarrow> bool" where
  "binance_history es s \<longleftrightarrow> tracks (bs_last_sequence_by_stream s) (stream_trades es) \<and>
     tracks (bs_last_depth_final_update_by_symbol s) (\<lambda>c. map snd (depth_updates es c)) \<and>
     (bs_gap_alert_count s = 0 \<longleftrightarrow> binance_ordered es)"

lemma binance_history_step:
  assumes "binance_history es s"
  shows "binance_history (es @ [(e, t)]) (binance_record_event e t s)"
proof (cases "be_event e")
  case (BTrade m)
  have h: "tracks (bs_last_sequence_by_stream s) (stream_trades es)"
    using assms by (simp add: binance_history_def)
  show ?thesis
    using assms tracks_insert [OF h, of "be_stream e" "btr_trade_id m"]
    by (auto simp: BTrade binance_record_event_def record_trade_ordering_gap_def binance_history_def binance_ordered_def
        binance_snoc numeric_sequence_def sorted_upd tracks_get [OF h] binance_record_gap_alert_def Let_def simp del: fun_upd_apply)
next
  case (BDiffDepth m)
  let ?c = "to_ascii_uppercase (bd_symbol m)"
  have h: "tracks (bs_last_depth_final_update_by_symbol s) (\<lambda>c. map snd (depth_updates es c))"
    using assms by (simp add: binance_history_def)
  have "(\<lambda>c. map snd (depth_updates es c))(?c := map snd (depth_updates es ?c) @ [bd_final_update_id m]) =
      (\<lambda>c. map snd (((depth_updates es)(?c := depth_updates es ?c @ [(bd_first_update_id m, bd_final_update_id m)])) c))"
    by auto
  with tracks_insert [OF h, of ?c "bd_final_update_id m"]
  have h': "tracks (bt_insert str_cmp ?c (bd_final_update_id m) (bs_last_depth_final_update_by_symbol s))
     (\<lambda>c. map snd (((depth_updates es)(?c := depth_updates es ?c @ [(bd_first_update_id m, bd_final_update_id m)])) c))" by simp
  show ?thesis
    using assms h'
    by (auto simp: BDiffDepth binance_record_event_def record_depth_update_id_gap_def binance_history_def binance_ordered_def
        binance_snoc binance_symbol_def successively_upd follows_def tracks_get [OF h] last_map
        binance_record_gap_alert_def Let_def simp del: fun_upd_apply)
qed (use assms in \<open>auto simp: binance_record_event_def binance_history_def binance_ordered_def binance_snoc Let_def\<close>)

lemma binance_history_all: "binance_history es (binance_record_all es (binance_stats_new url planned))"
proof (induction es rule: rev_induct)
  case Nil
  show ?case by (simp add: binance_history_def binance_record_all_def binance_stats_new_def binance_ordered_def
        stream_trades_def depth_updates_def map_filter_def tracks_def)
next
  case (snoc x es)
  then show ?case by (cases x) (simp add: binance_record_all_def binance_history_step)
qed

section \<open>Properties\<close>

text \<open>C7: Over any sequence of Binance events, no gap alert is raised exactly when the trade numbers of every
  stream never decreased and the depth updates of every symbol form a chain: each starts at the id after the one the
  previous update ended with (saturating at the largest 64-bit id).\<close>

theorem binance_no_alert_iff_contiguous:
  "bs_gap_alert_count (binance_record_all es (binance_stats_new url planned)) = 0 \<longleftrightarrow>
     (\<forall>st. sorted (stream_trades es st)) \<and> (\<forall>c. successively follows (depth_updates es c))"
  using binance_history_all [of es url planned] by (simp add: binance_history_def binance_ordered_def)

end
