(* ===== verification/Binance_Rest.thy ===== *)
theory Binance_Rest
  imports Binance_Feed
begin

text \<open>
  \<open>src/binance/config.rs\<close>, \<open>rest/\<close>, \<open>derivatives.rs\<close> and \<open>storage_output/snapshots.rs\<close>: the REST side of the
  Binance runtime: depth snapshots at the start of a run, funding rates and open interest at the start and at
  intervals. URL parsing, the HTTP requests and the answers of the log are parameters. The lemmas show that the
  derivative report accounts for every market and for every record handed to the sink.
\<close>

section \<open>Configuration and parameters\<close>

record binance_market =
  bm_raw_symbol :: string
  bm_base_asset :: string
  bm_quote_asset :: string

type_synonym rest_url = "parsed_url \<times> (string \<times> string) list"

record binance_deps =
  bx_params :: l0_params
  bx_env :: l0_env
  bx_codec :: binance_codec
  bx_url_parse :: "string \<Rightarrow> (parsed_url, string) result"
  bx_get :: "rest_url \<Rightarrow> (json, string) result"
  bx_log :: "(unit, string) result"

section \<open>URLs (rest/url.rs)\<close>

definition rest_validate_base_url :: "parsed_url \<Rightarrow> (unit, binance_ingest_error) result" where
  "rest_validate_base_url base =
     (if url_scheme base \<noteq> ''https'' then Inl (BInvalidMessage ''Binance REST base URL must use https'')
      else if url_host base = None then Inl (BInvalidMessage ''Binance REST base URL must include a host'')
      else if url_username base \<noteq> [] \<or> url_password base \<noteq> None
      then Inl (BInvalidMessage ''Binance REST base URL must not include credentials'')
      else if url_query base \<noteq> None \<or> url_fragment base \<noteq> None
      then Inl (BInvalidMessage ''Binance REST base URL must not include query or fragment components'')
      else Inr ())"

definition rest_validate_endpoint_path :: "string \<Rightarrow> (unit, binance_ingest_error) result" where
  "rest_validate_endpoint_path path =
     (if \<not> starts_with ''/'' path then Inl (BInvalidMessage ''Binance REST endpoint path must start with /'')
      else if CHR ''?'' \<in> set path \<or> CHR ''#'' \<in> set path
      then Inl (BInvalidMessage ''Binance REST endpoint path must not contain query or fragment components'')
      else Inr ())"

definition market_data_url ::
    "(string \<Rightarrow> (parsed_url, string) result) \<Rightarrow> string \<Rightarrow> string \<Rightarrow> (parsed_url, binance_ingest_error) result" where
  "market_data_url url_parse base endpoint_path =
     and_then (rest_validate_endpoint_path endpoint_path) (\<lambda>_.
     and_then (map_err (\<lambda>e. BInvalidMessage (''invalid Binance REST base URL: '' @ e)) (url_parse (trim base))) (\<lambda>url.
     and_then (rest_validate_base_url url) (\<lambda>_.
     map_err (\<lambda>e. BInvalidMessage (''invalid Binance REST endpoint URL: '' @ e))
       (url_parse (trim_end_slashes (url_as_str url) @ endpoint_path)))))"

definition rest_get ::
    "binance_deps \<Rightarrow> string \<Rightarrow> string \<Rightarrow> (string \<times> string) list \<Rightarrow> (json, binance_ingest_error) result" where
  "rest_get deps base endpoint query =
     and_then (market_data_url (bx_url_parse deps) base endpoint) (\<lambda>url.
     map_err BHttp (bx_get deps (url, query)))"

section \<open>Spot depth snapshots (rest/spot.rs, storage_output/snapshots.rs)\<close>

definition fetch_depth_snapshot_draft ::
    "binance_deps \<Rightarrow> string \<Rightarrow> binance_market \<Rightarrow> nat \<Rightarrow> timestamp_ms \<Rightarrow> (raw_draft, binance_ingest_error) result" where
  "fetch_depth_snapshot_draft deps base m limit ingest_ms =
     and_then (rest_get deps base ''/api/v3/depth'' [(''symbol'', bm_raw_symbol m), (''limit'', show_nat limit)]) (\<lambda>value.
     and_then (ok_or (BInvalidMessage (''Binance depth snapshot missing lastUpdateId for '' @ bm_raw_symbol m))
                 (Option.bind (jget ''lastUpdateId'' value) as_i64)) (\<lambda>last_update_id.
     and_then (map_err BJson (bc_to_string (bx_codec deps) value)) (\<lambda>payload.
     (let tag = ''binance:depth_snapshot:'' @ show_int last_update_id
      in Inr \<lparr>rd_event_type = ''depth_snapshot'', rd_venue = ''binance'', rd_source_role = ''reference'',
              rd_market_type = ''spot'', rd_symbol_native = bm_raw_symbol m, rd_symbol_canonical = bm_base_asset m,
              rd_base_asset = bm_base_asset m, rd_quote_asset = bm_quote_asset m,
              rd_exchange_timestamp_ms = ingest_ms, rd_ingest_timestamp_ms = ingest_ms, rd_sequence_id = tag,
              rd_sequence_tag = tag, rd_exchange_sequence = Some last_update_id, rd_diff_first_update_id = None,
              rd_diff_final_update_id = None, rd_is_snapshot = True, rd_stream_type = ''REST_SNAPSHOT'',
              rd_stream_phase = ''snapshot'', rd_payload_json = payload\<rparr>))))"

definition append_draft ::
    "binance_deps \<Rightarrow> raw_draft \<Rightarrow> l0_sink \<Rightarrow> l0_sink \<times> (unit, binance_ingest_error) result" where
  "append_draft deps d sink =
     (case append_raw_market_event (bx_params deps) (bx_env deps) d sink of
        (sink', r) \<Rightarrow> (sink', map_err (\<lambda>e. BStorage (storage_error_display e)) r))"

text \<open>Each market comes with the wall clock read for it.\<close>

fun append_depth_snapshots ::
    "binance_deps \<Rightarrow> string \<Rightarrow> nat \<Rightarrow> (binance_market \<times> timestamp_ms) list \<Rightarrow> nat \<Rightarrow> l0_sink \<Rightarrow>
     l0_sink \<times> (nat, binance_ingest_error) result" where
  "append_depth_snapshots deps base limit [] appended sink = (sink, Inr appended)"
| "append_depth_snapshots deps base limit ((m, now_ms) # ms) appended sink =
     (case fetch_depth_snapshot_draft deps base m limit now_ms of
        Inl e \<Rightarrow> (sink, Inl e)
      | Inr d \<Rightarrow>
          (case append_draft deps d sink of
             (sink', Inl e) \<Rightarrow> (sink', Inl e)
           | (sink', Inr _) \<Rightarrow> append_depth_snapshots deps base limit ms (appended + 1) sink'))"

section \<open>Derivative snapshots (rest/payload.rs, rest/derivatives)\<close>

definition string_or_number :: "binance_codec \<Rightarrow> json option \<Rightarrow> string option" where
  "string_or_number codec value = (case value of
     Some (JString v) \<Rightarrow> Some v
   | Some (JNumber n) \<Rightarrow> Some (bc_display codec (JNumber n))
   | _ \<Rightarrow> None)"

definition derivative_snapshot_draft ::
    "binance_codec \<Rightarrow> string \<Rightarrow> binance_market \<Rightarrow> timestamp_ms \<Rightarrow> timestamp_ms \<Rightarrow> string \<Rightarrow> json \<Rightarrow>
     (raw_draft, binance_ingest_error) result" where
  "derivative_snapshot_draft codec event_type m exchange_ms ingest_ms tag payload =
     and_then (map_err BJson (bc_to_string codec payload)) (\<lambda>payload_json.
     Inr \<lparr>rd_event_type = event_type, rd_venue = ''binance'', rd_source_role = ''derivatives'',
          rd_market_type = ''usdm_perpetual'', rd_symbol_native = bm_raw_symbol m,
          rd_symbol_canonical = bm_base_asset m, rd_base_asset = bm_base_asset m, rd_quote_asset = bm_quote_asset m,
          rd_exchange_timestamp_ms = exchange_ms, rd_ingest_timestamp_ms = ingest_ms, rd_sequence_id = tag,
          rd_sequence_tag = tag, rd_exchange_sequence = None, rd_diff_first_update_id = None,
          rd_diff_final_update_id = None, rd_is_snapshot = True, rd_stream_type = ''REST_SNAPSHOT'',
          rd_stream_phase = ''snapshot'', rd_payload_json = payload_json\<rparr>)"

definition event_time_or :: "timestamp_ms \<Rightarrow> json \<Rightarrow> timestamp_ms" where
  "event_time_or ingest_ms value = (case Option.bind (jget ''time'' value) as_i64 of Some t \<Rightarrow> t | None \<Rightarrow> ingest_ms)"

definition PREMIUM_INDEX_ENDPOINT :: string where "PREMIUM_INDEX_ENDPOINT = ''/fapi/v1/premiumIndex''"
definition OPEN_INTEREST_ENDPOINT :: string where "OPEN_INTEREST_ENDPOINT = ''/fapi/v1/openInterest''"

definition funding_snapshot_draft ::
    "binance_codec \<Rightarrow> json \<Rightarrow> string \<Rightarrow> binance_market \<Rightarrow> string \<Rightarrow> timestamp_ms \<Rightarrow> (raw_draft, binance_ingest_error) result" where
  "funding_snapshot_draft codec rcd native m rate ingest_ms =
     (let exchange_ms = event_time_or ingest_ms rcd;
          payload = JObject [(''provider'', JString ''binance_usdm''), (''source_endpoint'', JString PREMIUM_INDEX_ENDPOINT),
            (''symbol'', JString native), (''funding_rate'', JString rate), (''lastFundingRate'', JString rate),
            (''unit'', JString ''ratio''), (''event_time_ms'', jint exchange_ms), (''raw'', rcd)];
          tag = ''binance:funding_rate:'' @ native @ '':'' @ show_int exchange_ms
      in derivative_snapshot_draft codec ''funding_rate_snapshot'' m exchange_ms ingest_ms tag payload)"

definition premium_index_records :: "json \<Rightarrow> (json list, binance_ingest_error) result" where
  "premium_index_records value = (case value of
     JArray records \<Rightarrow> Inr records
   | JObject fs \<Rightarrow> Inr [JObject fs]
   | _ \<Rightarrow> Inl (BInvalidMessage ''Binance premiumIndex returned non-object response''))"

record funding_rate_snapshot_batch =
  fb_drafts :: "raw_draft list"
  fb_supported_symbols :: "string set"

definition markets_by_symbol :: "binance_market list \<Rightarrow> (string \<rightharpoonup> binance_market)" where
  "markets_by_symbol ms = map_of (rev (map (\<lambda>m. (bm_raw_symbol m, m)) ms))"

fun funding_batch_loop ::
    "binance_codec \<Rightarrow> (string \<rightharpoonup> binance_market) \<Rightarrow> timestamp_ms \<Rightarrow> json list \<Rightarrow> funding_rate_snapshot_batch \<Rightarrow>
     (funding_rate_snapshot_batch, binance_ingest_error) result" where
  "funding_batch_loop codec by_symbol ingest_ms [] b = Inr b"
| "funding_batch_loop codec by_symbol ingest_ms (rcd # rs) b =
     (case Option.bind (jget ''symbol'' rcd) as_str of
        None \<Rightarrow> funding_batch_loop codec by_symbol ingest_ms rs b
      | Some native \<Rightarrow>
          (let b1 = b\<lparr>fb_supported_symbols := insert native (fb_supported_symbols b)\<rparr>
           in case by_symbol native of
                None \<Rightarrow> funding_batch_loop codec by_symbol ingest_ms rs b1
              | Some m \<Rightarrow>
                  (case string_or_number codec (jget ''lastFundingRate'' rcd) of
                     None \<Rightarrow> funding_batch_loop codec by_symbol ingest_ms rs b1
                   | Some rate \<Rightarrow>
                       and_then (funding_snapshot_draft codec rcd native m rate ingest_ms) (\<lambda>d.
                       funding_batch_loop codec by_symbol ingest_ms rs (b1\<lparr>fb_drafts := fb_drafts b1 @ [d]\<rparr>)))))"

definition funding_snapshot_batch_from_value ::
    "binance_codec \<Rightarrow> json \<Rightarrow> binance_market list \<Rightarrow> timestamp_ms \<Rightarrow>
     (funding_rate_snapshot_batch, binance_ingest_error) result" where
  "funding_snapshot_batch_from_value codec value ms ingest_ms =
     and_then (premium_index_records value) (\<lambda>records.
     funding_batch_loop codec (markets_by_symbol ms) ingest_ms records \<lparr>fb_drafts = [], fb_supported_symbols = {}\<rparr>)"

definition fetch_funding_rate_snapshot_batch ::
    "binance_deps \<Rightarrow> string \<Rightarrow> binance_market list \<Rightarrow> timestamp_ms \<Rightarrow>
     (funding_rate_snapshot_batch, binance_ingest_error) result" where
  "fetch_funding_rate_snapshot_batch deps base ms ingest_ms =
     and_then (rest_get deps base PREMIUM_INDEX_ENDPOINT []) (\<lambda>value.
     funding_snapshot_batch_from_value (bx_codec deps) value ms ingest_ms)"

definition open_interest_snapshot_draft_from_value ::
    "binance_codec \<Rightarrow> json \<Rightarrow> binance_market \<Rightarrow> timestamp_ms \<Rightarrow> (raw_draft, binance_ingest_error) result" where
  "open_interest_snapshot_draft_from_value codec value m ingest_ms =
     and_then (ok_or (BInvalidMessage (''Binance openInterest missing openInterest for '' @ bm_raw_symbol m))
                 (string_or_number codec (jget ''openInterest'' value))) (\<lambda>interest.
     (let exchange_ms = event_time_or ingest_ms value;
          payload = JObject [(''provider'', JString ''binance_usdm''), (''source_endpoint'', JString OPEN_INTEREST_ENDPOINT),
            (''symbol'', JString (bm_raw_symbol m)), (''open_interest'', JString interest), (''openInterest'', JString interest),
            (''unit'', JString ''contracts''), (''event_time_ms'', jint exchange_ms), (''raw'', value)];
          tag = ''binance:open_interest:'' @ bm_raw_symbol m @ '':'' @ show_int exchange_ms
      in derivative_snapshot_draft codec ''open_interest_snapshot'' m exchange_ms ingest_ms tag payload))"

definition fetch_open_interest_snapshot_draft ::
    "binance_deps \<Rightarrow> string \<Rightarrow> binance_market \<Rightarrow> timestamp_ms \<Rightarrow> (raw_draft, binance_ingest_error) result" where
  "fetch_open_interest_snapshot_draft deps base m ingest_ms =
     and_then (rest_get deps base OPEN_INTEREST_ENDPOINT [(''symbol'', bm_raw_symbol m)]) (\<lambda>value.
     open_interest_snapshot_draft_from_value (bx_codec deps) value m ingest_ms)"

section \<open>Appending them (derivatives.rs)\<close>

record binance_derivative_snapshot_report =
  dr_funding_rate_snapshot_records :: nat
  dr_open_interest_snapshot_records :: nat
  dr_unsupported_futures_symbol_count :: nat
  dr_failure_count :: nat

definition derivative_report_default :: binance_derivative_snapshot_report where
  "derivative_report_default = \<lparr>dr_funding_rate_snapshot_records = 0, dr_open_interest_snapshot_records = 0,
     dr_unsupported_futures_symbol_count = 0, dr_failure_count = 0\<rparr>"

definition total_records :: "binance_derivative_snapshot_report \<Rightarrow> nat" where
  "total_records r = min (dr_funding_rate_snapshot_records r + dr_open_interest_snapshot_records r) u64_max"

definition should_fetch_open_interest :: "string set option \<Rightarrow> string \<Rightarrow> bool" where
  "should_fetch_open_interest supported native = (case supported of None \<Rightarrow> True | Some symbols \<Rightarrow> native \<in> symbols)"

fun append_funding_drafts ::
    "binance_deps \<Rightarrow> raw_draft list \<Rightarrow> binance_derivative_snapshot_report \<Rightarrow> l0_sink \<Rightarrow>
     l0_sink \<times> (binance_derivative_snapshot_report, binance_ingest_error) result" where
  "append_funding_drafts deps [] r sink = (sink, Inr r)"
| "append_funding_drafts deps (d # ds) r sink =
     (case append_draft deps d sink of
        (sink', Inl e) \<Rightarrow> (sink', Inl e)
      | (sink', Inr _) \<Rightarrow>
          append_funding_drafts deps ds
            (r\<lparr>dr_funding_rate_snapshot_records := dr_funding_rate_snapshot_records r + 1\<rparr>) sink')"

fun append_open_interest ::
    "binance_deps \<Rightarrow> string \<Rightarrow> timestamp_ms \<Rightarrow> string set option \<Rightarrow> binance_market list \<Rightarrow>
     binance_derivative_snapshot_report \<Rightarrow> l0_sink \<Rightarrow>
     l0_sink \<times> (binance_derivative_snapshot_report, binance_ingest_error) result" where
  "append_open_interest deps base ingest_ms supported [] r sink = (sink, Inr r)"
| "append_open_interest deps base ingest_ms supported (m # ms) r sink =
     (if \<not> should_fetch_open_interest supported (bm_raw_symbol m)
      then let r1 = r\<lparr>dr_unsupported_futures_symbol_count := dr_unsupported_futures_symbol_count r + 1\<rparr>
           in (case bx_log deps of
                 Inl e \<Rightarrow> (sink, Inl (BJson e))
               | Inr _ \<Rightarrow> append_open_interest deps base ingest_ms supported ms r1 sink)
      else case fetch_open_interest_snapshot_draft deps base m ingest_ms of
        Inr d \<Rightarrow>
          (case append_draft deps d sink of
             (sink', Inl e) \<Rightarrow> (sink', Inl e)
           | (sink', Inr _) \<Rightarrow>
               append_open_interest deps base ingest_ms supported ms
                 (r\<lparr>dr_open_interest_snapshot_records := dr_open_interest_snapshot_records r + 1\<rparr>) sink')
      | Inl _ \<Rightarrow>
          (let r1 = r\<lparr>dr_failure_count := dr_failure_count r + 1\<rparr>
           in case bx_log deps of
                Inl e \<Rightarrow> (sink, Inl (BJson e))
              | Inr _ \<Rightarrow> append_open_interest deps base ingest_ms supported ms r1 sink))"

definition append_derivative_snapshots ::
    "binance_deps \<Rightarrow> string \<Rightarrow> binance_market list \<Rightarrow> timestamp_ms \<Rightarrow> l0_sink \<Rightarrow>
     l0_sink \<times> (binance_derivative_snapshot_report, binance_ingest_error) result" where
  "append_derivative_snapshots deps base ms ingest_ms sink =
     (case fetch_funding_rate_snapshot_batch deps base ms ingest_ms of
        Inr batch \<Rightarrow>
          (case append_funding_drafts deps (fb_drafts batch) derivative_report_default sink of
             (sink', Inl e) \<Rightarrow> (sink', Inl e)
           | (sink', Inr r) \<Rightarrow>
               append_open_interest deps base ingest_ms (Some (fb_supported_symbols batch)) ms r sink')
      | Inl _ \<Rightarrow>
          (let r = derivative_report_default\<lparr>dr_failure_count := 1\<rparr>
           in case bx_log deps of
                Inl e \<Rightarrow> (sink, Inl (BJson e))
              | Inr _ \<Rightarrow> append_open_interest deps base ingest_ms None ms r sink))"

section \<open>The report accounts for everything\<close>

definition draft_ok :: "raw_draft \<Rightarrow> bool" where
  "draft_ok d \<longleftrightarrow> no_slash (rd_venue d) \<and> no_slash (rd_event_type d)"

lemma append_draft_ok:
  assumes "append_draft deps d s = (s', Inr ())"
  shows "next_ordinal s' = next_ordinal s + 1"
    "lossless s \<Longrightarrow> params_ok (bx_params deps) \<Longrightarrow> draft_ok d \<Longrightarrow> lossless s'"
proof -
  have "append_raw_market_event (bx_params deps) (bx_env deps) d s = (s', Inr ())"
    using assms by (auto simp: append_draft_def split: prod.splits)
  from append_ordinals(1) [OF this] lossless_raw [OF this]
  show "next_ordinal s' = next_ordinal s + 1"
    "lossless s \<Longrightarrow> params_ok (bx_params deps) \<Longrightarrow> draft_ok d \<Longrightarrow> lossless s'" by (simp_all add: draft_ok_def)
qed

lemma derivative_draft_ok:
  "derivative_snapshot_draft codec et m x t tag pl = Inr d \<Longrightarrow> no_slash et \<Longrightarrow> draft_ok d"
  by (auto simp: derivative_snapshot_draft_def draft_ok_def)

lemma open_interest_draft_ok: "fetch_open_interest_snapshot_draft deps base m t = Inr d \<Longrightarrow> draft_ok d"
  by (auto simp: fetch_open_interest_snapshot_draft_def open_interest_snapshot_draft_from_value_def Let_def no_slash_def
      dest!: derivative_draft_ok)

lemma depth_snapshot_draft_ok: "fetch_depth_snapshot_draft deps base m l t = Inr d \<Longrightarrow> draft_ok d"
  by (auto simp: fetch_depth_snapshot_draft_def draft_ok_def Let_def no_slash_def)

lemma funding_loop_ok:
  "funding_batch_loop codec f t rs b = Inr b' \<Longrightarrow> list_all draft_ok (fb_drafts b) \<Longrightarrow> list_all draft_ok (fb_drafts b')"
proof (induction codec f t rs b rule: funding_batch_loop.induct)
  case (2 codec f t rcd rs b)
  have "draft_ok d" if "funding_snapshot_draft codec rcd n m rate t = Inr d" for n m rate d
    by (rule derivative_draft_ok [OF that [unfolded funding_snapshot_draft_def Let_def]]) (simp add: no_slash_def)
  with 2 show ?case by (fastforce simp: Let_def split: option.splits)
qed simp

lemma funding_batch_ok: "fetch_funding_rate_snapshot_batch deps base ms t = Inr b \<Longrightarrow> list_all draft_ok (fb_drafts b)"
  using funding_loop_ok
  by (fastforce simp: fetch_funding_rate_snapshot_batch_def funding_snapshot_batch_from_value_def)

lemma append_funding_spec:
  "append_funding_drafts deps ds r s = (s', Inr r') \<Longrightarrow>
     r' = r\<lparr>dr_funding_rate_snapshot_records := dr_funding_rate_snapshot_records r + length ds\<rparr> \<and>
     next_ordinal s' = next_ordinal s + of_nat (length ds) \<and>
     (lossless s \<and> params_ok (bx_params deps) \<and> list_all draft_ok ds \<longrightarrow> lossless s')"
proof (induction ds arbitrary: r s)
  case (Cons d ds)
  obtain t q where a: "append_draft deps d s = (t, q)" by fastforce
  with Cons.prems have q: "q = Inr ()" and rest: "append_funding_drafts deps ds
      (r\<lparr>dr_funding_rate_snapshot_records := dr_funding_rate_snapshot_records r + 1\<rparr>) t = (s', Inr r')"
    by (auto split: sum.splits)
  from Cons.IH [OF rest] append_draft_ok [OF a [unfolded q]] show ?case by auto
qed simp

lemma append_open_interest_spec:
  "append_open_interest deps base t sps ms r s = (s', Inr r') \<Longrightarrow>
     dr_open_interest_snapshot_records r' + dr_unsupported_futures_symbol_count r' + dr_failure_count r' =
       dr_open_interest_snapshot_records r + dr_unsupported_futures_symbol_count r + dr_failure_count r + length ms \<and>
     dr_funding_rate_snapshot_records r' = dr_funding_rate_snapshot_records r \<and>
     next_ordinal s' + of_nat (dr_open_interest_snapshot_records r) = next_ordinal s + of_nat (dr_open_interest_snapshot_records r') \<and>
     (lossless s \<and> params_ok (bx_params deps) \<longrightarrow> lossless s')"
proof (induction ms arbitrary: r s)
  case (Cons m ms)
  show ?case
  proof (cases "should_fetch_open_interest sps (bm_raw_symbol m)")
    case False
    with Cons.prems have "append_open_interest deps base t sps ms
      (r\<lparr>dr_unsupported_futures_symbol_count := dr_unsupported_futures_symbol_count r + 1\<rparr>) s = (s', Inr r')"
      by (auto simp: Let_def split: sum.splits)
    from Cons.IH [OF this] show ?thesis by auto
  next
    case True
    show ?thesis
    proof (cases "fetch_open_interest_snapshot_draft deps base m t")
      case (Inl e)
      with True Cons.prems have "append_open_interest deps base t sps ms
        (r\<lparr>dr_failure_count := dr_failure_count r + 1\<rparr>) s = (s', Inr r')"
        by (auto simp: Let_def split: sum.splits)
      from Cons.IH [OF this] show ?thesis by auto
    next
      case (Inr d)
      obtain u q where a: "append_draft deps d s = (u, q)" by fastforce
      with True Inr Cons.prems have q: "q = Inr ()" and rest: "append_open_interest deps base t sps ms
        (r\<lparr>dr_open_interest_snapshot_records := dr_open_interest_snapshot_records r + 1\<rparr>) u = (s', Inr r')"
        by (auto split: sum.splits)
      from Cons.IH [OF rest] append_draft_ok [OF a [unfolded q]] open_interest_draft_ok [OF Inr]
      show ?thesis by (auto simp: algebra_simps)
    qed
  qed
qed simp

lemma derivative_snapshots_spec:
  assumes "append_derivative_snapshots deps base ms t s = (s', Inr r)"
  shows "dr_open_interest_snapshot_records r + dr_unsupported_futures_symbol_count r + dr_failure_count r =
      length ms + (if is_err (fetch_funding_rate_snapshot_batch deps base ms t) then 1 else 0)"
    "next_ordinal s' = next_ordinal s + of_nat (dr_funding_rate_snapshot_records r + dr_open_interest_snapshot_records r)"
    "lossless s \<Longrightarrow> params_ok (bx_params deps) \<Longrightarrow> lossless s'"
proof -
  have "dr_open_interest_snapshot_records r + dr_unsupported_futures_symbol_count r + dr_failure_count r =
      length ms + (if is_err (fetch_funding_rate_snapshot_batch deps base ms t) then 1 else 0) \<and>
    next_ordinal s' = next_ordinal s + of_nat (dr_funding_rate_snapshot_records r + dr_open_interest_snapshot_records r) \<and>
    (lossless s \<longrightarrow> params_ok (bx_params deps) \<longrightarrow> lossless s')"
  proof (cases "fetch_funding_rate_snapshot_batch deps base ms t")
    case (Inl e)
    with assms have "append_open_interest deps base t None ms (derivative_report_default\<lparr>dr_failure_count := 1\<rparr>) s = (s', Inr r)"
      by (auto simp: append_derivative_snapshots_def Let_def split: sum.splits)
    from append_open_interest_spec [OF this] Inl show ?thesis
      by (simp add: derivative_report_default_def is_err_def)
  next
    case (Inr b)
    obtain u q where a: "append_funding_drafts deps (fb_drafts b) derivative_report_default s = (u, q)" by fastforce
    with Inr assms obtain r1 where q: "q = Inr r1"
      and rest: "append_open_interest deps base t (Some (fb_supported_symbols b)) ms r1 u = (s', Inr r)"
      by (auto simp: append_derivative_snapshots_def split: sum.splits)
    from append_open_interest_spec [OF rest] append_funding_spec [OF a [unfolded q]] funding_batch_ok [OF Inr] Inr
    show ?thesis by (auto simp: derivative_report_default_def is_err_def)
  qed
  then show "dr_open_interest_snapshot_records r + dr_unsupported_futures_symbol_count r + dr_failure_count r =
      length ms + (if is_err (fetch_funding_rate_snapshot_batch deps base ms t) then 1 else 0)"
    "next_ordinal s' = next_ordinal s + of_nat (dr_funding_rate_snapshot_records r + dr_open_interest_snapshot_records r)"
    "lossless s \<Longrightarrow> params_ok (bx_params deps) \<Longrightarrow> lossless s'" by blast+
qed

section \<open>Properties\<close>

text \<open>A completed derivative snapshot accounts for every market exactly once (recorded, not listed on the futures
  exchange, or failed, with one more failure if the funding batch itself failed), and its record counts are the number
  of records the sink was given.\<close>

theorem derivative_report_exact:
  assumes "append_derivative_snapshots deps base ms t s = (s', Inr r)"
  shows "dr_open_interest_snapshot_records r + dr_unsupported_futures_symbol_count r + dr_failure_count r =
      length ms + (if is_err (fetch_funding_rate_snapshot_batch deps base ms t) then 1 else 0) \<and>
    next_ordinal s' = next_ordinal s + of_nat (dr_funding_rate_snapshot_records r + dr_open_interest_snapshot_records r)"
  using derivative_snapshots_spec [OF assms] by simp

end
