(* ===== verification/Binance_Watch.thy ===== *)
theory Binance_Watch
  imports Binance_Rest
begin

text \<open>
  \<open>src/binance/ws\<close>: the Binance session with its periodic derivative snapshots, and the reconnect loop. The
  lemmas carry the invariant of the statistics through the watch by the contract \<open>venue_watch\<close>.
\<close>

section \<open>Messages (ws/message.rs)\<close>

record binance_run =
  bn_stats :: binance_l0_watch_stats
  bn_sink :: "l0_sink option"

definition upd_bstats :: "(binance_l0_watch_stats \<Rightarrow> binance_l0_watch_stats) \<Rightarrow> binance_run \<Rightarrow> binance_run" where
  "upd_bstats f x = x\<lparr>bn_stats := f (bn_stats x)\<rparr>"

definition markets_by_raw :: "binance_market list \<Rightarrow> (string \<rightharpoonup> binance_market)" where
  "markets_by_raw ms = map_of (rev (map (\<lambda>m. (to_ascii_uppercase (bm_raw_symbol m), m)) ms))"

definition raw_market_event_draft ::
    "binance_parsed_envelope \<Rightarrow> (string \<rightharpoonup> binance_market) \<Rightarrow> timestamp_ms \<Rightarrow> raw_draft option" where
  "raw_market_event_draft envelope by_raw ingest_ms =
     (let event = be_event envelope
      in map_option (\<lambda>m.
           \<lparr>rd_event_type = storage_event_type event, rd_venue = ''binance'', rd_source_role = ''reference'',
            rd_market_type = ''spot'', rd_symbol_native = bm_raw_symbol m, rd_symbol_canonical = bm_base_asset m,
            rd_base_asset = bm_base_asset m, rd_quote_asset = bm_quote_asset m,
            rd_exchange_timestamp_ms = binance_exchange_timestamp_ms event ingest_ms,
            rd_ingest_timestamp_ms = ingest_ms, rd_sequence_id = binance_sequence_id event,
            rd_sequence_tag = binance_sequence_id event, rd_exchange_sequence = Some (numeric_sequence event),
            rd_diff_first_update_id = diff_first_update_id event, rd_diff_final_update_id = diff_final_update_id event,
            rd_is_snapshot = (storage_event_type event = ''depth_snapshot''), rd_stream_type = ''REALTIME'',
            rd_stream_phase = ''realtime'', rd_payload_json = be_payload_json envelope\<rparr>)
           (by_raw (to_ascii_uppercase (binance_symbol event))))"

definition binance_record_text_payload ::
    "binance_deps \<Rightarrow> binance_market list \<Rightarrow> timestamp_ms \<Rightarrow> string \<Rightarrow> binance_run \<Rightarrow>
     binance_run \<times> (unit, binance_ingest_error) result" where
  "binance_record_text_payload deps ms now_ms raw_json x =
     (let x1 = upd_bstats (\<lambda>s. s\<lparr>bs_received_messages := bs_received_messages s + 1\<rparr>) x
      in case parse_binance_payload (bx_codec deps) raw_json of
           Inl _ \<Rightarrow> (upd_bstats (\<lambda>s. s\<lparr>bs_malformed_messages := bs_malformed_messages s + 1\<rparr>) x1, Inr ())
         | Inr envelope \<Rightarrow>
             (let (x2, stored) =
                    (case (bn_sink x1, raw_market_event_draft envelope (markets_by_raw ms) now_ms) of
                       (Some sink, Some d) \<Rightarrow>
                         (case append_draft deps d sink of (sink', r) \<Rightarrow> (x1\<lparr>bn_sink := Some sink'\<rparr>, r))
                     | _ \<Rightarrow> (x1, Inr ()))
              in case stored of
                   Inl e \<Rightarrow> (x2, Inl e)
                 | Inr _ \<Rightarrow> (upd_bstats (binance_record_event envelope now_ms) x2, Inr ())))"

definition binance_handle_message ::
    "binance_deps \<Rightarrow> binance_market list \<Rightarrow> timestamp_ms \<Rightarrow> ws_message \<Rightarrow> binance_run \<Rightarrow>
     binance_run \<times> (unit, binance_ingest_error) result" where
  "binance_handle_message deps ms now_ms message x =
     (case message of
        WsText t \<Rightarrow> binance_record_text_payload deps ms now_ms t x
      | WsBinary bs \<Rightarrow>
          if utf8_valid bs then binance_record_text_payload deps ms now_ms (map char_of bs) x
          else (x, Inl (BUtf8 ''invalid utf-8 sequence''))
      | WsPing _ \<Rightarrow>
          (upd_bstats (\<lambda>s. s\<lparr>bs_control_messages := bs_control_messages s + 1,
                             bs_pings_received := bs_pings_received s + 1\<rparr>) x, Inr ())
      | WsPong _ \<Rightarrow>
          (upd_bstats (\<lambda>s. s\<lparr>bs_control_messages := bs_control_messages s + 1,
                             bs_pongs_received := bs_pongs_received s + 1\<rparr>) x, Inr ())
      | WsClose _ \<Rightarrow>
          (upd_bstats (\<lambda>s. s\<lparr>bs_control_messages := bs_control_messages s + 1,
                             bs_close_messages := bs_close_messages s + 1, bs_source_health_status := ''closed'',
                             bs_source_health_events := bs_source_health_events s + 1\<rparr>) x, Inr ())
      | WsFrame \<Rightarrow> (x, Inr ()))"

section \<open>Sessions (ws/session)\<close>

record binance_timers = session_timers +
  derivative_snapshot_interval :: nat
  next_derivative_snapshot_at :: nat

text \<open>A pass of the loop also has the wall clock and the REST answers of a derivative snapshot, the broker's answer
  to the flush after it, and the clock readings of the catch-up loop.\<close>

record binance_turn = session_turn +
  tn_derivative_ms :: timestamp_ms
  tn_get :: "rest_url \<Rightarrow> (json, string) result"
  tn_flush_live :: "(unit, string) result"
  tn_readings :: "nat list"

definition binance_next_session_tick :: "nat \<Rightarrow> binance_timers \<Rightarrow> nat \<Rightarrow> nat" where
  "binance_next_session_tick deadline timers now =
     min deadline (min (next_log_at timers) (min (next_ping_at timers) (min (next_derivative_snapshot_at timers)
       (min (last_message_at timers + stale_timeout timers) (now + from_millis 250)))))"

definition turn_deps :: "binance_deps \<Rightarrow> binance_turn \<Rightarrow> binance_deps" where
  "turn_deps deps t = deps\<lparr>bx_get := tn_get t, bx_env := (bx_env deps)\<lparr>e_flush_live := tn_flush_live t\<rparr>\<rparr>"

text \<open>Errors are only logged.\<close>

definition append_and_flush_derivative_snapshots ::
    "binance_deps \<Rightarrow> string \<Rightarrow> binance_market list \<Rightarrow> timestamp_ms \<Rightarrow> l0_sink \<Rightarrow> l0_sink" where
  "append_and_flush_derivative_snapshots deps base ms now_ms sink =
     (case append_derivative_snapshots deps base ms now_ms sink of
        (sink', Inl _) \<Rightarrow> sink'
      | (sink', Inr _) \<Rightarrow> fst (flush_all (bx_env deps) sink'))"

text \<open>\<open>while next <= Instant::now()\<close>; \<open>None\<close> when the readings run out first.\<close>

fun catch_up_snapshots :: "nat \<Rightarrow> nat \<Rightarrow> nat list \<Rightarrow> nat option" where
  "catch_up_snapshots interval next_at [] = None"
| "catch_up_snapshots interval next_at (r # rs) =
     (if next_at \<le> r then catch_up_snapshots interval (next_at + interval) rs else Some next_at)"

datatype house_outcome = HouseEnd session_end | HouseGo binance_timers | HouseRunning

definition derivative_step ::
    "binance_deps \<Rightarrow> string \<Rightarrow> binance_market list \<Rightarrow> binance_turn \<Rightarrow> binance_timers \<Rightarrow> binance_run \<Rightarrow>
     binance_run \<times> house_outcome" where
  "derivative_step deps base ms t timers x =
     (if st_house_now t \<ge> next_derivative_snapshot_at timers
      then let x1 = (case bn_sink x of
                       None \<Rightarrow> x
                     | Some sink \<Rightarrow> x\<lparr>bn_sink := Some (append_and_flush_derivative_snapshots (turn_deps deps t) base ms
                                                      (tn_derivative_ms t) sink)\<rparr>)
           in case catch_up_snapshots (derivative_snapshot_interval timers)
                     (next_derivative_snapshot_at timers + derivative_snapshot_interval timers) (tn_readings t) of
                None \<Rightarrow> (x1, HouseRunning)
              | Some next_at \<Rightarrow> (x1, HouseGo (timers\<lparr>next_derivative_snapshot_at := next_at\<rparr>))
      else (x, HouseGo timers))"

definition binance_housekeeping ::
    "binance_deps \<Rightarrow> string \<Rightarrow> binance_market list \<Rightarrow> binance_turn \<Rightarrow> binance_timers \<Rightarrow> binance_run \<Rightarrow>
     binance_run \<times> house_outcome" where
  "binance_housekeeping deps base ms t timers x =
     (let now = st_house_now t
      in if now \<ge> last_message_at timers + stale_timeout timers then (x, HouseEnd (Disconnected ''stale_timeout''))
         else if now \<ge> next_ping_at timers \<and> is_err (st_ping t) then (x, HouseEnd (Disconnected ''ping_failed''))
         else let timers1 = (if now \<ge> next_ping_at timers
                             then timers\<lparr>next_ping_at := next_ping_at timers + from_secs 30\<rparr> else timers)
              in if now \<ge> next_log_at timers1
                 then derivative_step deps base ms t (timers1\<lparr>next_log_at := next_log_at timers1 + log_interval timers1\<rparr>)
                        (upd_bstats binance_update_health x)
                 else derivative_step deps base ms t timers1 x)"

fun binance_session_loop ::
    "binance_deps \<Rightarrow> string \<Rightarrow> binance_market list \<Rightarrow> nat \<Rightarrow> binance_turn list \<Rightarrow> binance_timers \<Rightarrow> binance_run \<Rightarrow>
     binance_run \<times> session_end option" where
  "binance_session_loop deps base ms deadline [] timers x = (x, None)"
| "binance_session_loop deps base ms deadline (t # ts) timers x =
     (let house = (\<lambda>timers x.
            (case binance_housekeeping deps base ms t timers x of
               (x', HouseEnd e) \<Rightarrow> (x', Some e)
             | (x', HouseRunning) \<Rightarrow> (x', None)
             | (x', HouseGo timers') \<Rightarrow> binance_session_loop deps base ms deadline ts timers' x'))
      in if st_shutdown t then (x, Some ShutdownRequested)
         else if st_now t \<ge> deadline then (x, Some DeadlineReached)
         else case poll_session (st_poll t) of
           SMessage message \<Rightarrow>
             (case binance_handle_message deps ms (st_wall_ms t) message x of
                (x1, Inl _) \<Rightarrow> (x1, Some (Disconnected ''message_error''))
              | (x1, Inr _) \<Rightarrow> house (timers\<lparr>last_message_at := st_message_at t\<rparr>) x1)
         | SDisconnected reason \<Rightarrow>
             (upd_bstats (\<lambda>s. s\<lparr>bs_malformed_messages :=
                bs_malformed_messages s + (if reason = ''websocket_error'' then 1 else 0)\<rparr>) x,
              Some (Disconnected reason))
         | STick \<Rightarrow> house timers x)"

record binance_l0_watch_config =
  wc_duration :: nat
  wc_log_interval :: nat
  wc_derivative_snapshot_interval :: nat
  wc_futures_rest_base_url :: string

definition binance_run_session ::
    "binance_deps \<Rightarrow> binance_market list \<Rightarrow> binance_l0_watch_config \<Rightarrow> nat \<Rightarrow> nat \<Rightarrow> binance_turn attempt \<Rightarrow> binance_run \<Rightarrow>
     binance_run \<times> session_end option" where
  "binance_run_session deps ms rt deadline stale a x =
     binance_session_loop deps (wc_futures_rest_base_url rt) ms deadline (a_turns a)
       \<lparr>next_log_at = a_started a + wc_log_interval rt, next_ping_at = a_started a + from_secs 30,
        last_message_at = a_started a, log_interval = wc_log_interval rt, stale_timeout = stale,
        derivative_snapshot_interval = wc_derivative_snapshot_interval rt,
        next_derivative_snapshot_at = a_started a + wc_derivative_snapshot_interval rt\<rparr> x"

section \<open>The reconnect loop (ws/watch.rs)\<close>

definition binance_not_ready :: "binance_turn attempt \<Rightarrow> string option" where
  "binance_not_ready a = (if is_err (a_connect a) then Some ''connect_failed'' else None)"

definition binance_terminal :: "string \<Rightarrow> binance_run \<Rightarrow> binance_run" where
  "binance_terminal status x =
     upd_bstats (\<lambda>s. s\<lparr>bs_source_health_status := status, bs_source_health_events := bs_source_health_events s + 1\<rparr>) x"

definition binance_reconnect :: "binance_run \<Rightarrow> string \<Rightarrow> timestamp_ms \<Rightarrow> binance_run" where
  "binance_reconnect x reason now_ms = upd_bstats (\<lambda>s. binance_record_reconnect s reason now_ms) x"

definition watch_binance_l0_streams ::
    "binance_deps \<Rightarrow> binance_stream_config \<Rightarrow> binance_market list \<Rightarrow> binance_stream_kind list \<Rightarrow> binance_l0_watch_config \<Rightarrow>
     (unit, string) result \<Rightarrow> nat \<Rightarrow> binance_turn attempt list \<Rightarrow> l0_sink option \<Rightarrow>
     nat list \<times> ((binance_run, binance_ingest_error) result) option" where
  "watch_binance_l0_streams deps scfg ms kinds rt listener start as sink =
     (case and_then (map_err BMarketData (combined_stream_url_for_kinds (bx_url_parse deps) scfg kinds)) (\<lambda>url.
           and_then (map_err BMarketData (combined_stream_names_for_kinds scfg kinds)) (\<lambda>names.
           and_then (map_err (\<lambda>e. BInvalidMessage (''failed to install shutdown listener: '' @ e)) listener) (\<lambda>_.
           Inr (url, length names)))) of
        Inl e \<Rightarrow> ([], Some (Inl e))
      | Inr (url, planned) \<Rightarrow>
          (let policy = default_24x7;
               deadline = start + wc_duration rt;
               x0 = \<lparr>bn_stats = binance_stats_new url planned, bn_sink = sink\<rparr>
           in case watch_loop binance_reconnect binance_terminal binance_not_ready
                     (binance_run_session deps ms rt deadline (stale_message_timeout policy))
                     policy deadline as (initial_backoff policy) x0 of
                (x, sleeps, finished) \<Rightarrow>
                  (sleeps, if finished then Some (Inr (upd_bstats binance_update_health x)) else None)))"

section \<open>Invariants of the watch\<close>

lemma upd_bstats_fields [simp]: "bn_stats (upd_bstats f x) = f (bn_stats x)" "bn_sink (upd_bstats f x) = bn_sink x"
  by (simp_all add: upd_bstats_def)

definition binance_inv :: "binance_run \<Rightarrow> bool" where
  "binance_inv x \<longleftrightarrow> binance_stats_ok (bn_stats x)"

lemma binance_alert_fields [simp]:
  "bs_reconnect_count (binance_record_gap_alert a s) = bs_reconnect_count s"
  "bs_malformed_messages (binance_record_gap_alert a s) = bs_malformed_messages s"
  by (simp_all add: binance_record_gap_alert_def)

lemma binance_event_fields [simp]:
  "bs_reconnect_count (binance_record_event e t s) = bs_reconnect_count s"
  "bs_malformed_messages (binance_record_event e t s) = bs_malformed_messages s"
  by (cases "be_event e"; simp add: binance_record_event_def record_trade_ordering_gap_def record_depth_update_id_gap_def
      Let_def split: option.split)+

lemma binance_control_ok:
  assumes "binance_stats_ok s"
  shows "binance_stats_ok (s\<lparr>bs_control_messages := Suc (bs_control_messages s), bs_pings_received := Suc (bs_pings_received s)\<rparr>)"
    "binance_stats_ok (s\<lparr>bs_control_messages := Suc (bs_control_messages s), bs_pongs_received := Suc (bs_pongs_received s)\<rparr>)"
    "binance_stats_ok (s\<lparr>bs_control_messages := Suc (bs_control_messages s), bs_close_messages := Suc (bs_close_messages s),
       bs_source_health_status := st, bs_source_health_events := n\<rparr>)"
  using assms by (simp_all add: binance_stats_ok_def)

lemma binance_handle_message_inv:
  assumes "binance_handle_message deps ms t m x = (y, r)" "binance_inv x"
  shows "binance_inv y \<and> bs_reconnect_count (bn_stats y) = bs_reconnect_count (bn_stats x)"
proof -
  have payload: "binance_inv y \<and> bs_reconnect_count (bn_stats y) = bs_reconnect_count (bn_stats x)"
    if "binance_record_text_payload deps ms t raw x = (y, r)" for raw
    using that assms(2)
    by (auto simp: binance_record_text_payload_def binance_inv_def binance_record_event_ok Let_def
        split: sum.splits prod.splits option.splits)
  show ?thesis
    using assms payload binance_control_ok [OF assms(2) [unfolded binance_inv_def]]
    by (cases m) (auto simp: binance_handle_message_def binance_inv_def split: if_splits)
qed

lemma binance_housekeeping_inv:
  assumes "binance_housekeeping deps base ms t timers x = (y, o')" "binance_inv x"
  shows "binance_inv y \<and> bs_reconnect_count (bn_stats y) = bs_reconnect_count (bn_stats x)"
proof -
  have step: "bn_stats (fst (derivative_step deps base ms t tm z)) = bn_stats z" for tm z
    by (simp add: derivative_step_def Let_def split: option.splits)
  have "bn_stats y = bn_stats x \<or> bn_stats y = binance_update_health (bn_stats x)"
    using assms(1) step by (auto simp: binance_housekeeping_def Let_def split: if_splits) (metis fst_conv upd_bstats_fields(1))+
  then show ?thesis using assms(2) by (auto simp: binance_inv_def binance_health_ok binance_update_health_def)
qed

lemma binance_session_inv:
  "binance_session_loop deps base ms deadline ts timers x = (y, e) \<Longrightarrow> binance_inv x \<Longrightarrow>
     binance_inv y \<and> bs_reconnect_count (bn_stats y) = bs_reconnect_count (bn_stats x)"
proof (induction ts arbitrary: timers x)
  case (Cons t ts)
  have house: "binance_inv y \<and> bs_reconnect_count (bn_stats y) = bs_reconnect_count (bn_stats z)"
    if "(case binance_housekeeping deps base ms t tm z of
               (x', HouseEnd e) \<Rightarrow> (x', Some e)
             | (x', HouseRunning) \<Rightarrow> (x', None)
             | (x', HouseGo timers') \<Rightarrow> binance_session_loop deps base ms deadline ts timers' x') = (y, e)" "binance_inv z" for tm z
  proof -
    obtain z' q where h: "binance_housekeeping deps base ms t tm z = (z', q)" by fastforce
    from binance_housekeeping_inv [OF h that(2)] Cons.IH [of _ z'] that(1) h show ?thesis by (cases q) auto
  qed
  show ?case
  proof (cases "poll_session (st_poll t)")
    case (SMessage m)
    obtain z r where hm: "binance_handle_message deps ms (st_wall_ms t) m x = (z, r)" by fastforce
    with Cons.prems SMessage binance_handle_message_inv [OF hm Cons.prems(2)] house [of _ z] show ?thesis
      by (cases r) (auto split: if_splits)
  next
    case (SDisconnected reason)
    with Cons.prems show ?thesis by (auto simp: binance_inv_def split: if_splits)
  next
    case STick
    with Cons.prems house [of _ x] show ?thesis by (auto split: if_splits)
  qed
qed simp

interpretation binance_watch: venue_watch binance_reconnect binance_terminal
    "binance_run_session deps ms rt deadline stale" binance_inv "\<lambda>x. bs_reconnect_count (bn_stats x)"
  for deps ms rt deadline stale
proof
  show "binance_inv (binance_reconnect x reason t)" if "binance_inv x" for x reason t
    using that by (simp add: binance_inv_def binance_reconnect_def binance_reconnect_ok)
  show "binance_inv (binance_terminal status x)" if "binance_inv x" for status x
    using that by (simp add: binance_inv_def binance_terminal_def)
  show "binance_inv y" if "binance_inv x" "binance_run_session deps ms rt deadline stale a x = (y, e)" for x a y e
    using binance_session_inv that unfolding binance_run_session_def by blast
  show "bs_reconnect_count (bn_stats y) = bs_reconnect_count (bn_stats x)"
    if "binance_inv x" "binance_run_session deps ms rt deadline stale a x = (y, e)" for a x y e
    using binance_session_inv that unfolding binance_run_session_def by blast
qed (simp_all add: binance_reconnect_def binance_record_reconnect_def binance_terminal_def)

end
