(* ===== verification/Binance_Smoke.thy ===== *)
theory Binance_Smoke
  imports Binance_Watch
begin

text \<open>
  \<open>src/binance/storage_output\<close>, \<open>report.rs\<close> and \<open>mod.rs\<close>: the records written at the end of a Binance watch,
  the report with its validation, and the run as a whole.
\<close>

section \<open>Final records (storage_output/health.rs, gaps.rs, finalize.rs)\<close>

definition BINANCE_STALE_AFTER_MS :: int where "BINANCE_STALE_AFTER_MS = 60000"

definition binance_symbol_health_entry :: "binance_l0_watch_stats \<Rightarrow> timestamp_ms \<Rightarrow> string \<Rightarrow> json" where
  "binance_symbol_health_entry s observed native =
     (let event_time = bt_get str_cmp native (bs_symbol_last_event_time_ms s);
          received_time = bt_get str_cmp native (bs_symbol_last_ingest_time_ms s);
          latency = (case (event_time, received_time) of
                       (Some event, Some received) \<Rightarrow> Some (max (i64_saturating_sub received event) 0) | _ \<Rightarrow> None);
          stale = (case received_time of Some received \<Rightarrow> max (i64_saturating_sub observed received) 0 | None \<Rightarrow> 0)
      in JObject [(''symbol_native'', JString native), (''last_event_time_ms'', jopt jint event_time),
                  (''last_received_time_ms'', jopt jint received_time), (''latency_ms'', jopt jint latency),
                  (''stale_ms'', jint stale),
                  (''is_tradeable'', JBool (stale < BINANCE_STALE_AFTER_MS \<and> bs_gap_alert_count s = 0)),
                  (''reason_codes'', JArray (if stale \<ge> BINANCE_STALE_AFTER_MS then [JString ''source_stale''] else []))])"

definition binance_symbol_health_payload :: "binance_l0_watch_stats \<Rightarrow> timestamp_ms \<Rightarrow> json list" where
  "binance_symbol_health_payload s observed = map (binance_symbol_health_entry s observed) (bt_keys (bs_symbol_counts s))"

definition binance_health_level :: "binance_l0_watch_stats \<Rightarrow> string" where
  "binance_health_level s =
     (if bs_source_health_status s = ''connected'' \<and> bs_malformed_messages s = 0 \<and> bs_gap_alert_count s = 0
      then ''healthy''
      else if bs_received_messages s = 0 then ''critical''
      else ''degraded'')"

definition binance_source_health_draft ::
    "binance_codec \<Rightarrow> timestamp_ms \<Rightarrow> binance_l0_watch_stats \<Rightarrow> source_health_draft" where
  "binance_source_health_draft codec observed s =
     \<lparr>sd_venue = ''binance'', sd_source_role = ''reference'', sd_observed_at_ms = observed,
      sd_connection_status = bs_source_health_status s,
      sd_heartbeat_delay_ms = binance_heartbeat_delay_ms_at s observed,
      sd_stream_lag_ms = bs_latest_stream_lag_ms s, sd_recent_gap_count = bs_gap_alert_count s,
      sd_book_rebuild_count = 0, sd_health_level = binance_health_level s,
      sd_payload_json = bc_display codec (JObject
        [(''received_messages'', jnat (bs_received_messages s)), (''parsed_messages'', jnat (bs_parsed_messages s)),
         (''malformed_messages'', jnat (bs_malformed_messages s)), (''symbols_seen'', jnat (length (bs_symbol_counts s))),
         (''ticker_messages'', jnat (bs_ticker_messages s)), (''trade_messages'', jnat (bs_trade_messages s)),
         (''book_ticker_messages'', jnat (bs_book_ticker_messages s)),
         (''depth_delta_messages'', jnat (bs_depth_delta_messages s)),
         (''depth_snapshot_messages'', jnat (bs_depth_snapshot_messages s)),
         (''gap_alert_count'', jnat (bs_gap_alert_count s)),
         (''last_exchange_timestamp_ms'', jopt jint (bs_last_exchange_timestamp_ms s)),
         (''last_ingest_timestamp_ms'', jopt jint (bs_last_ingest_timestamp_ms s)),
         (''stream_lag_ms'', jint (bs_latest_stream_lag_ms s)),
         (''symbol_health'', JArray (binance_symbol_health_payload s observed))])\<rparr>"

definition binance_symbol_health_draft ::
    "timestamp_ms \<Rightarrow> binance_l0_watch_stats \<Rightarrow> string \<Rightarrow> symbol_health_draft" where
  "binance_symbol_health_draft observed s native =
     (let event_time = (case bt_get str_cmp native (bs_symbol_last_event_time_ms s) of Some t \<Rightarrow> t | None \<Rightarrow> observed);
          received_time = (case bt_get str_cmp native (bs_symbol_last_ingest_time_ms s) of Some t \<Rightarrow> t | None \<Rightarrow> observed);
          stale = max (i64_saturating_sub observed received_time) 0;
          reasons = (if stale \<ge> BINANCE_STALE_AFTER_MS then [''source_stale''] else []) @
                    (if bs_gap_alert_count s > 0 then [''source_gap_detected''] else [])
      in \<lparr>yd_venue = ''binance'', yd_symbol_native = native, yd_observed_at_ms = observed,
          yd_last_event_time_ms = event_time, yd_latency_ms = max (i64_saturating_sub received_time event_time) 0,
          yd_is_tradeable = (reasons = []), yd_reason_codes = reasons\<rparr>)"

definition binance_symbol_health_drafts ::
    "timestamp_ms \<Rightarrow> binance_l0_watch_stats \<Rightarrow> symbol_health_draft list" where
  "binance_symbol_health_drafts observed s = map (binance_symbol_health_draft observed s) (bt_keys (bs_symbol_counts s))"

definition binance_gap_alert_json :: "binance_l0_gap_alert \<Rightarrow> json" where
  "binance_gap_alert_json a =
     JObject [(''gap_type'', JString (bg_gap_type a)), (''symbol'', JString (bg_symbol a)),
              (''detected_at_ms'', jint (bg_detected_at_ms a)),
              (''expected_sequence_id'', jopt jint (bg_expected_sequence_id a)),
              (''observed_sequence_id'', jopt jint (bg_observed_sequence_id a)),
              (''heal_action'', JString (bg_heal_action a)), (''heal_status'', JString (bg_heal_status a))]"

definition binance_gap_alert_draft :: "binance_codec \<Rightarrow> binance_l0_gap_alert \<Rightarrow> gap_draft" where
  "binance_gap_alert_draft codec a =
     \<lparr>gd_venue = ''binance'', gd_source_role = ''reference'', gd_symbol_native = bg_symbol a,
      gd_gap_type = bg_gap_type a, gd_detected_at_ms = bg_detected_at_ms a,
      gd_expected_sequence_id = bg_expected_sequence_id a, gd_observed_sequence_id = bg_observed_sequence_id a,
      gd_heal_action = bg_heal_action a, gd_heal_status = bg_heal_status a,
      gd_payload_json = (case bc_to_string codec (binance_gap_alert_json a) of Inr t \<Rightarrow> t | Inl _ \<Rightarrow> ''{}'')\<rparr>"

definition binance_finalize_storage ::
    "binance_deps \<Rightarrow> timestamp_ms \<Rightarrow> timestamp_ms \<Rightarrow> binance_l0_watch_stats \<Rightarrow> l0_sink \<Rightarrow>
     l0_sink \<times> (unit, binance_ingest_error) result" where
  "binance_finalize_storage deps t1 t2 s sink =
     (case write_final_records (bx_params deps) (bx_env deps) (binance_source_health_draft (bx_codec deps) t1 s)
             (binance_symbol_health_drafts t2 s) (map (binance_gap_alert_draft (bx_codec deps)) (bs_gap_alerts s)) sink of
        (sink', r) \<Rightarrow> (sink', map_err (\<lambda>e. BStorage (storage_error_display e)) r))"

section \<open>The report (report.rs)\<close>

record binance_run_config =
  brc_config_dir :: string
  brc_rest_base_url :: string
  brc_futures_rest_base_url :: string
  brc_derivative_snapshot_interval_seconds :: nat
  brc_stream_config :: binance_stream_config
  brc_markets :: "binance_market list"
  brc_duration_seconds :: nat
  brc_log_interval_seconds :: nat
  brc_depth_snapshot_limit :: nat
  brc_expect_symbol_count :: nat
  brc_allow_partial_symbol_coverage :: bool
  brc_stream_kinds :: "binance_stream_kind list"
  brc_l0_storage :: "l0_storage_config option"

record binance_l0_smoke_report =
  bp_venue :: string
  bp_source_role :: string
  bp_config_dir :: string
  bp_duration_seconds :: nat
  bp_log_interval_seconds :: nat
  bp_depth_snapshot_limit :: nat
  bp_rest_depth_snapshot_records :: nat
  bp_funding_rate_snapshot_records :: nat
  bp_open_interest_snapshot_records :: nat
  bp_derivative_snapshot_records :: nat
  bp_derivative_snapshot_unsupported_symbol_count :: nat
  bp_derivative_snapshot_failure_count :: nat
  bp_symbol_count :: nat
  bp_expected_symbol_count :: nat
  bp_planned_stream_count :: nat
  bp_stream_kinds :: "string list"
  bp_symbols_seen_count :: nat
  bp_missing_symbols :: "string list"
  bp_coverage_ok :: bool
  bp_received_messages :: nat
  bp_parsed_messages :: nat
  bp_malformed_messages :: nat
  bp_source_health_status :: string
  bp_ticker_messages :: nat
  bp_trade_messages :: nat
  bp_book_ticker_messages :: nat
  bp_depth_delta_messages :: nat
  bp_depth_snapshot_messages :: nat
  bp_gap_alert_count :: nat
  bp_close_messages :: nat
  bp_storage :: "storage_report option"
  bp_stats :: binance_l0_watch_stats

definition binance_build_report ::
    "binance_run_config \<Rightarrow> nat \<Rightarrow> nat \<Rightarrow> binance_derivative_snapshot_report \<Rightarrow> storage_report option \<Rightarrow>
     binance_l0_watch_stats \<Rightarrow> binance_l0_smoke_report" where
  "binance_build_report cfg planned rest_depth deriv storage s =
     (let expected = map (\<lambda>m. to_ascii_uppercase (bm_raw_symbol m)) (brc_markets cfg);
          missing = filter (\<lambda>native. \<not> bt_contains_key str_cmp native (bs_symbol_counts s)) expected
      in \<lparr>bp_venue = ''binance'', bp_source_role = ''reference'', bp_config_dir = brc_config_dir cfg,
          bp_duration_seconds = brc_duration_seconds cfg, bp_log_interval_seconds = brc_log_interval_seconds cfg,
          bp_depth_snapshot_limit = brc_depth_snapshot_limit cfg, bp_rest_depth_snapshot_records = rest_depth,
          bp_funding_rate_snapshot_records = dr_funding_rate_snapshot_records deriv,
          bp_open_interest_snapshot_records = dr_open_interest_snapshot_records deriv,
          bp_derivative_snapshot_records = total_records deriv,
          bp_derivative_snapshot_unsupported_symbol_count = dr_unsupported_futures_symbol_count deriv,
          bp_derivative_snapshot_failure_count = dr_failure_count deriv, bp_symbol_count = length (brc_markets cfg),
          bp_expected_symbol_count = brc_expect_symbol_count cfg, bp_planned_stream_count = planned,
          bp_stream_kinds = map kind_name (brc_stream_kinds cfg), bp_symbols_seen_count = length (bs_symbol_counts s),
          bp_missing_symbols = missing, bp_coverage_ok = (missing = []),
          bp_received_messages = bs_received_messages s, bp_parsed_messages = bs_parsed_messages s,
          bp_malformed_messages = bs_malformed_messages s, bp_source_health_status = bs_source_health_status s,
          bp_ticker_messages = bs_ticker_messages s, bp_trade_messages = bs_trade_messages s,
          bp_book_ticker_messages = bs_book_ticker_messages s, bp_depth_delta_messages = bs_depth_delta_messages s,
          bp_depth_snapshot_messages = bs_depth_snapshot_messages s, bp_gap_alert_count = bs_gap_alert_count s,
          bp_close_messages = bs_close_messages s, bp_storage = storage, bp_stats = s\<rparr>)"

definition binance_validate_message_report :: "binance_l0_smoke_report \<Rightarrow> bool \<Rightarrow> (unit, binance_ingest_error) result" where
  "binance_validate_message_report rep allow_partial =
     (if bp_received_messages rep = 0 then Inl (BInvalidMessage ''Binance ingest smoke received zero messages'')
      else if \<not> bp_coverage_ok rep \<and> \<not> allow_partial
      then Inl (BInvalidMessage (''Binance symbol coverage incomplete: '' @ show_nat (length (bp_missing_symbols rep)) @
             '' missing symbols''))
      else if bp_malformed_messages rep > 0
      then Inl (BInvalidMessage ''Binance ingest smoke observed malformed messages'')
      else Inr ())"

definition binance_validate_storage_report ::
    "binance_l0_smoke_report \<Rightarrow> storage_report \<Rightarrow> (unit, binance_ingest_error) result" where
  "binance_validate_storage_report rep storage =
     and_then (map_err BInvalidMessage (validate_common_storage_report storage ''Binance'')) (\<lambda>_.
     if bp_gap_alert_count rep > 0 \<and> \<not> storage_has_family storage ''gap_alert''
     then Inl (BInvalidMessage ''Binance L0 storage observed gaps but uploaded no gap_alert'')
     else if bp_depth_snapshot_messages rep = 0
     then Inl (BInvalidMessage ''Binance L0 storage did not record REST depth_snapshot events'')
     else Inr ())"

definition binance_validate_report :: "binance_l0_smoke_report \<Rightarrow> bool \<Rightarrow> (unit, binance_ingest_error) result" where
  "binance_validate_report rep allow_partial =
     and_then (binance_validate_message_report rep allow_partial) (\<lambda>_.
     case bp_storage rep of Some storage \<Rightarrow> binance_validate_storage_report rep storage | None \<Rightarrow> Inr ())"

section \<open>The run (mod.rs)\<close>

record binance_outside =
  bz_deps :: binance_deps
  bz_new_uploader :: "l0_storage_config \<Rightarrow> (unit, string) result"
  bz_connect_live :: "live_nats_config \<Rightarrow> (unit, string) result"
  bz_log_start :: "(unit, string) result"
  bz_log_report :: "(unit, string) result"
  bz_depth_clocks :: "nat \<Rightarrow> timestamp_ms"
  bz_derivative_ms :: timestamp_ms
  bz_listener :: "(unit, string) result"
  bz_start :: nat
  bz_attempts :: "binance_turn attempt list"
  bz_health_ms :: timestamp_ms
  bz_symbol_ms :: timestamp_ms

definition binance_open_storage ::
    "binance_outside \<Rightarrow> binance_run_config \<Rightarrow> (l0_sink option, binance_ingest_error) result" where
  "binance_open_storage z cfg =
     (case brc_l0_storage cfg of
        None \<Rightarrow> Inr None
      | Some storage_cfg \<Rightarrow>
          and_then (map_err (\<lambda>e. BStorage (storage_error_display e))
                      (sink_new (bz_new_uploader z) (bz_connect_live z) storage_cfg)) (\<lambda>sink. Inr (Some sink)))"

text \<open>The snapshots taken before the watch: the sink, and the two reports or the error.\<close>

definition binance_opening_snapshots ::
    "binance_outside \<Rightarrow> binance_run_config \<Rightarrow> l0_sink option \<Rightarrow>
     l0_sink option \<times> (nat \<times> binance_derivative_snapshot_report, binance_ingest_error) result" where
  "binance_opening_snapshots z cfg sink =
     (case sink of
        None \<Rightarrow> (None, Inr (0, derivative_report_default))
      | Some s0 \<Rightarrow>
          (case append_depth_snapshots (bz_deps z) (brc_rest_base_url cfg) (brc_depth_snapshot_limit cfg)
                  (map (\<lambda>(i, m). (m, bz_depth_clocks z i)) (enumerate 0 (brc_markets cfg))) 0 s0 of
             (s1, Inl e) \<Rightarrow> (Some s1, Inl e)
           | (s1, Inr taken) \<Rightarrow>
               (case append_derivative_snapshots (bz_deps z) (brc_futures_rest_base_url cfg) (brc_markets cfg)
                       (bz_derivative_ms z) s1 of
                  (s2, Inl e) \<Rightarrow> (Some s2, Inl e)
                | (s2, Inr deriv) \<Rightarrow>
                    (case flush_all (bx_env (bz_deps z)) s2 of
                       (s3, Inl e) \<Rightarrow> (Some s3, Inl (BStorage (storage_error_display e)))
                     | (s3, Inr _) \<Rightarrow> (Some s3, Inr (taken, deriv))))))"

definition binance_conclude ::
    "binance_outside \<Rightarrow> binance_run_config \<Rightarrow> nat \<Rightarrow> nat \<Rightarrow> binance_derivative_snapshot_report \<Rightarrow> binance_run \<Rightarrow>
     l0_sink option \<times> (unit, binance_ingest_error) result" where
  "binance_conclude z cfg planned taken deriv x0 =
     (let x = upd_bstats (\<lambda>s. s\<lparr>bs_depth_snapshot_messages := bs_depth_snapshot_messages s + taken\<rparr>) x0;
          (sink, stored) =
            (case bn_sink x of
               None \<Rightarrow> (None, Inr ())
             | Some sink \<Rightarrow>
                 (case binance_finalize_storage (bz_deps z) (bz_health_ms z) (bz_symbol_ms z) (bn_stats x) sink of
                    (sink', r) \<Rightarrow> (Some sink', r)))
      in (sink,
          and_then stored (\<lambda>_.
          and_then (map_err BJson (bz_log_report z)) (\<lambda>_.
          binance_validate_report
            (binance_build_report cfg planned taken deriv (map_option report sink) (bn_stats x))
            (brc_allow_partial_symbol_coverage cfg)))))"

definition run_binance_l0_smoke ::
    "binance_outside \<Rightarrow> binance_run_config \<Rightarrow> (l0_sink option \<times> (unit, binance_ingest_error) result) option" where
  "run_binance_l0_smoke z cfg =
     (case and_then (map_err BMarketData (combined_stream_names_for_kinds (brc_stream_config cfg) (brc_stream_kinds cfg))) (\<lambda>names.
           and_then (map_err BJson (bz_log_start z)) (\<lambda>_.
           and_then (binance_open_storage z cfg) (\<lambda>sink. Inr (length names, sink)))) of
        Inl e \<Rightarrow> Some (None, Inl e)
      | Inr (planned, sink0) \<Rightarrow>
          (case binance_opening_snapshots z cfg sink0 of
             (sink, Inl e) \<Rightarrow> Some (sink, Inl e)
           | (sink, Inr (taken, deriv)) \<Rightarrow>
               (case snd (watch_binance_l0_streams (bz_deps z) (brc_stream_config cfg) (brc_markets cfg) (brc_stream_kinds cfg)
                            \<lparr>wc_duration = from_secs (brc_duration_seconds cfg),
                             wc_log_interval = from_secs (brc_log_interval_seconds cfg),
                             wc_derivative_snapshot_interval = from_secs (brc_derivative_snapshot_interval_seconds cfg),
                             wc_futures_rest_base_url = brc_futures_rest_base_url cfg\<rparr>
                            (bz_listener z) (bz_start z) (bz_attempts z) sink) of
                  None \<Rightarrow> None
                | Some (Inl e) \<Rightarrow> Some (sink, Inl e)
                | Some (Inr x) \<Rightarrow> Some (binance_conclude z cfg planned taken deriv x))))"

section \<open>Properties\<close>

lemma binance_watch_result:
  assumes "watch_binance_l0_streams deps scfg ms kinds rt listener start as sink = (sleeps, Some (Inr x))"
  shows "binance_inv x \<and> sleeps = map backoff_delay [0 ..< bs_reconnect_count (bn_stats x)]"
proof -
  let ?session = "binance_run_session deps ms rt (start + wc_duration rt) (from_secs 30)"
  obtain url planned y f where w: "watch_loop binance_reconnect binance_terminal binance_not_ready ?session default_24x7
      (start + wc_duration rt) as (backoff_delay 0) \<lparr>bn_stats = binance_stats_new url planned, bn_sink = sink\<rparr> = (y, sleeps, f)"
    and x: "x = upd_bstats binance_update_health y"
    using assms by (auto simp: watch_binance_l0_streams_def Let_def backoff_delay_def default_24x7_def from_secs_def
        split: sum.splits prod.splits if_splits)
  have i0: "binance_inv \<lparr>bn_stats = binance_stats_new url planned, bn_sink = sink\<rparr>"
    by (simp add: binance_inv_def binance_stats_ok_new)
  have "binance_inv y" using binance_watch.loop_inv [OF i0] w by (metis fst_conv)
  moreover have "sleeps = map backoff_delay [0 ..< bs_reconnect_count (bn_stats y)]"
    using binance_watch.loop_sleeps [OF w i0] by (simp add: binance_stats_new_def)
  ultimately show ?thesis
    by (simp add: x binance_inv_def binance_health_ok binance_update_health_def)
qed

text \<open>C23: The comment before the session call says that the backoff resets after a healthy session. It does not: the
  delays of a Binance watch are \<open>min (2 ^ n) 60\<close> seconds for the \<open>n\<close>-th reconnection, whatever the sessions
  delivered.\<close>

theorem binance_backoff_never_resets:
  assumes "watch_binance_l0_streams deps scfg ms kinds rt listener start as sink = (sleeps, Some (Inr x))"
  shows "sleeps = map (\<lambda>n. from_secs (min (2 ^ n) 60)) [0 ..< bs_reconnect_count (bn_stats x)]"
  using binance_watch_result [OF assms] by (simp add: backoff_delay_def)

text \<open>The statistics a Binance watch returns add up exactly, however the sessions went: parsed events are the sum of
  the four kinds, counted once per kind and per symbol; alerts are anomalies plus reconnections; control messages are
  pings, pongs and closes; and the stored alerts are the newest 1000.\<close>

theorem binance_watch_counters:
  assumes "watch_binance_l0_streams deps scfg ms kinds rt listener start as sink = (sleeps, Some (Inr x))"
  shows "binance_stats_ok (bn_stats x)"
  using binance_watch_result [OF assms] by (simp add: binance_inv_def)

section \<open>A run that succeeds although a record was lost\<close>

text \<open>The disk refuses the first trade file; everything else works. Texts \<open>t\<close> are trades, others tickers.\<close>

definition lossy_codec :: binance_codec where
  "lossy_codec = \<lparr>bc_from_str = (\<lambda>s. Inr (JString s)), bc_to_string = (\<lambda>_. Inr ''{}''), bc_display = (\<lambda>_. ''{}''),
     bc_combined = (\<lambda>v. Inr (if v = JString ''t'' then ''btcusdt@trade'' else ''btcusdt@ticker'', JNull)),
     bc_trade = (\<lambda>_. Inr \<lparr>btr_event_time_ms = 1, btr_symbol = ''BTCUSDT'', btr_trade_id = 7, btr_trade_time_ms = 2\<rparr>),
     bc_ticker = (\<lambda>_. Inr \<lparr>bk_event_time_ms = 3, bk_symbol = ''BTCUSDT'', bk_last_trade_id = 7\<rparr>),
     bc_book_ticker = (\<lambda>_. Inl ''b''), bc_diff_depth = (\<lambda>_. Inl ''d'')\<rparr>"

definition lossy_env :: l0_env where
  "lossy_env = \<lparr>e_create_dir = (\<lambda>_. Inr ()),
     e_write_parquet = (\<lambda>k. if starts_with ''raw_market_event/venue=binance/event_type=trade'' k then Inl (Io ''full'') else Inr ()),
     e_upload_file = (\<lambda>_. Inr ()), e_write_sealed = (\<lambda>_. True), e_publish = (\<lambda>_ _. Inr []), e_flush_live = Inr (),
     e_upload_json = (\<lambda>_. Inr ())\<rparr>"

definition lossy_deps :: binance_deps where
  "lossy_deps = \<lparr>bx_params = demo_params, bx_env = lossy_env, bx_codec = lossy_codec,
     bx_url_parse = (\<lambda>s. Inr \<lparr>url_scheme = (if starts_with ''https'' s then ''https'' else ''wss''), url_host = Some ''h'',
        url_username = [], url_password = None, url_query = None, url_fragment = None, url_as_str = s\<rparr>),
     bx_get = (\<lambda>_. Inr (JObject [(''lastUpdateId'', JNumber (PosInt 5))])), bx_log = Inr ()\<rparr>"

definition lossy_market :: binance_market where
  "lossy_market = \<lparr>bm_raw_symbol = ''BTCUSDT'', bm_base_asset = ''BTC'', bm_quote_asset = ''USDT''\<rparr>"

definition lossy_start :: l0_sink where
  "lossy_start = demo_sink\<lparr>config := demo_cfg\<lparr>flush_records := 1\<rparr>\<rparr>"

definition lossy_turn :: "bool \<Rightarrow> poll \<Rightarrow> binance_turn" where
  "lossy_turn stop p = \<lparr>st_shutdown = stop, st_now = 0, st_poll = p, st_message_at = 0, st_wall_ms = 6,
     st_house_now = 0, st_ping = Inr (), tn_derivative_ms = 0, tn_get = (\<lambda>_. Inl ''x''), tn_flush_live = Inr (),
     tn_readings = []\<rparr>"

definition lossy_attempt :: "binance_turn list \<Rightarrow> binance_turn attempt" where
  "lossy_attempt ts = \<lparr>a_shutdown = False, a_now = 0, a_connect = Inr (), a_subscribe = Inr (), a_started = 0,
     a_turns = ts, a_reconnect_ms = 9\<rparr>"

definition lossy_outside :: binance_outside where
  "lossy_outside = \<lparr>bz_deps = lossy_deps, bz_new_uploader = (\<lambda>_. Inr ()), bz_connect_live = (\<lambda>_. Inr ()),
     bz_log_start = Inr (), bz_log_report = Inr (), bz_depth_clocks = (\<lambda>_. 1), bz_derivative_ms = 1, bz_listener = Inr (),
     bz_start = 0, bz_attempts = [lossy_attempt [lossy_turn False (PollMessage (WsText ''t''))],
       lossy_attempt [lossy_turn False (PollMessage (WsText ''k'')), lossy_turn True PollTimeout]],
     bz_health_ms = 10, bz_symbol_ms = 11\<rparr>"

definition lossy_cfg :: binance_run_config where
  "lossy_cfg = \<lparr>brc_config_dir = [], brc_rest_base_url = ''https://h'', brc_futures_rest_base_url = ''https://f'',
     brc_derivative_snapshot_interval_seconds = 300, brc_stream_config = demo_config, brc_markets = [lossy_market],
     brc_duration_seconds = 1, brc_log_interval_seconds = 1, brc_depth_snapshot_limit = 5, brc_expect_symbol_count = 1,
     brc_allow_partial_symbol_coverage = False, brc_stream_kinds = [KTrade, KTicker],
     brc_l0_storage = Some (demo_cfg\<lparr>flush_records := 1\<rparr>)\<rparr>"

definition lossy_opened :: l0_sink where
  "lossy_opened = the (fst (binance_opening_snapshots lossy_outside lossy_cfg (Some lossy_start)))"

lemma lossy_opening: "binance_opening_snapshots lossy_outside lossy_cfg (Some lossy_start) =
    (Some lossy_opened, Inr (1, derivative_report_default\<lparr>dr_unsupported_futures_symbol_count := 1\<rparr>))"
proof -
  have "snd (binance_opening_snapshots lossy_outside lossy_cfg (Some lossy_start)) =
      Inr (1, derivative_report_default\<lparr>dr_unsupported_futures_symbol_count := 1\<rparr>)"
    "fst (binance_opening_snapshots lossy_outside lossy_cfg (Some lossy_start)) \<noteq> None" by code_simp+
  then show ?thesis unfolding lossy_opened_def by (metis option.collapse prod.collapse)
qed

lemma lossy_streams:
  "\<exists>url. combined_stream_url_for_kinds (bx_url_parse lossy_deps) demo_config [KTrade, KTicker] = Inr url"
  "\<exists>names. combined_stream_names_for_kinds demo_config [KTrade, KTicker] = Inr names"
proof -
  have "\<not> is_err (combined_stream_url_for_kinds (bx_url_parse lossy_deps) demo_config [KTrade, KTicker])"
    "\<not> is_err (combined_stream_names_for_kinds demo_config [KTrade, KTicker])" by code_simp+
  then show "\<exists>url. combined_stream_url_for_kinds (bx_url_parse lossy_deps) demo_config [KTrade, KTicker] = Inr url"
    "\<exists>names. combined_stream_names_for_kinds demo_config [KTrade, KTicker] = Inr names"
    by (auto simp: is_err_def split: sum.splits)
qed

definition lossy_draft :: "string \<Rightarrow> raw_draft" where
  "lossy_draft t = the (raw_market_event_draft (projr (parse_binance_payload lossy_codec t)) (markets_by_raw [lossy_market]) 6)"

definition lossy_after_trade :: l0_sink where
  "lossy_after_trade = fst (append_draft lossy_deps (lossy_draft ''t'') lossy_opened)"

definition lossy_after_ticker :: l0_sink where
  "lossy_after_ticker = fst (append_draft lossy_deps (lossy_draft ''k'') lossy_after_trade)"

lemma lossy_appends:
  "is_err (snd (append_draft lossy_deps (lossy_draft ''t'') lossy_opened))"
  "snd (append_draft lossy_deps (lossy_draft ''k'') lossy_after_trade) = Inr ()"
  by code_simp+

lemma lossy_append:
  "\<exists>e. append_draft lossy_deps (lossy_draft ''t'') lossy_opened = (lossy_after_trade, Inl e)"
  "append_draft lossy_deps (lossy_draft ''k'') lossy_after_trade = (lossy_after_ticker, Inr ())"
  using lossy_appends unfolding lossy_after_trade_def lossy_after_ticker_def is_err_def
  by (auto split: sum.splits) (metis prod.collapse)+

definition lossy_ticker :: binance_parsed_envelope where
  "lossy_ticker = \<lparr>be_stream = ''btcusdt@ticker'',
     be_event = BTicker \<lparr>bk_event_time_ms = 3, bk_symbol = ''BTCUSDT'', bk_last_trade_id = 7\<rparr>, be_payload_json = ''{}''\<rparr>"

lemma lossy_parse:
  "\<exists>e. parse_binance_payload lossy_codec ''t'' = Inr e \<and> raw_market_event_draft e (markets_by_raw [lossy_market]) 6 = Some (lossy_draft ''t'')"
  "parse_binance_payload lossy_codec ''k'' = Inr lossy_ticker"
  "raw_market_event_draft lossy_ticker (markets_by_raw [lossy_market]) 6 = Some (lossy_draft ''k'')"
  by (simp_all add: parse_binance_payload_def lossy_codec_def binance_stream_kind_of_def parse_binance_event_def
      raw_market_event_draft_def markets_by_raw_def lossy_market_def lossy_draft_def lossy_ticker_def binance_symbol_def
      to_ascii_uppercase_def to_upper_def Let_def)

definition lossy_stats :: "string \<Rightarrow> nat \<Rightarrow> binance_l0_watch_stats" where
  "lossy_stats url planned =
     (let s1 = (binance_stats_new url planned)\<lparr>bs_received_messages := 1\<rparr>;
          s2 = binance_record_reconnect s1 ''message_error'' 9;
          s3 = binance_record_event lossy_ticker 6 (s2\<lparr>bs_received_messages := 2\<rparr>)
      in binance_update_health (s3\<lparr>bs_source_health_status := ''shutdown'',
           bs_source_health_events := bs_source_health_events s3 + 1\<rparr>))"

lemma lossy_deps_codec: "bx_codec lossy_deps = lossy_codec"
  by (simp add: lossy_deps_def)

lemma lossy_new: "bs_received_messages (binance_stats_new url planned) = 0"
  "bs_received_messages (binance_record_reconnect s r t) = bs_received_messages s"
  by (simp_all add: binance_stats_new_def binance_record_reconnect_def binance_record_gap_alert_def)

lemma lossy_watch:
  "\<exists>url planned. watch_binance_l0_streams lossy_deps demo_config [lossy_market] [KTrade, KTicker]
     \<lparr>wc_duration = from_secs 1, wc_log_interval = from_secs 1, wc_derivative_snapshot_interval = from_secs 300,
      wc_futures_rest_base_url = ''https://f''\<rparr> (Inr ()) 0 (bz_attempts lossy_outside) (Some lossy_opened) =
   ([from_secs 1], Some (Inr \<lparr>bn_stats = lossy_stats url planned, bn_sink = Some lossy_after_ticker\<rparr>))"
proof -
  obtain url names where u: "combined_stream_url_for_kinds (bx_url_parse lossy_deps) demo_config [KTrade, KTicker] = Inr url"
    "combined_stream_names_for_kinds demo_config [KTrade, KTicker] = Inr names" using lossy_streams by blast
  obtain e env where f: "append_draft lossy_deps (lossy_draft ''t'') lossy_opened = (lossy_after_trade, Inl e)"
    "parse_binance_payload lossy_codec ''t'' = Inr env" "raw_market_event_draft env (markets_by_raw [lossy_market]) 6 = Some (lossy_draft ''t'')"
    using lossy_append(1) lossy_parse(1) by blast
  show ?thesis
    by (intro exI [of _ url] exI [of _ "length names"])
      (simp add: watch_binance_l0_streams_def u f lossy_append(2) lossy_parse(2,3) lossy_outside_def lossy_attempt_def lossy_turn_def
        default_24x7_def binance_not_ready_def is_err_def binance_run_session_def binance_handle_message_def
        binance_record_text_payload_def binance_housekeeping_def derivative_step_def poll_session_def lossy_deps_codec
        from_secs_def upd_bstats_def binance_terminal_def binance_reconnect_def lossy_stats_def lossy_new next_backoff_def numeral_2_eq_2 Let_def)
qed

lemma lossy_stats_fields:
  "bs_symbol_counts (lossy_stats url planned) = [(''BTCUSDT'', 1)]" "bs_received_messages (lossy_stats url planned) = 2"
  "bs_malformed_messages (lossy_stats url planned) = 0" "bs_gap_alert_count (lossy_stats url planned) = 1"
  "bs_source_health_status (lossy_stats url planned) = ''degraded''"
  "bs_gap_alerts (lossy_stats url planned) = [\<lparr>bg_gap_type = ''ws_reconnect'', bg_symbol = [], bg_detected_at_ms = 9,
        bg_expected_sequence_id = None, bg_observed_sequence_id = None,
        bg_heal_action = ''reconnect_with_backoff'', bg_heal_status = ''message_error''\<rparr>]"
  "bs_last_ingest_timestamp_ms (lossy_stats url planned) = Some 6" "bs_latest_stream_lag_ms (lossy_stats url planned) = 3"
  "bs_symbol_last_event_time_ms (lossy_stats url planned) = [(''BTCUSDT'', 3)]"
  "bs_symbol_last_ingest_time_ms (lossy_stats url planned) = [(''BTCUSDT'', 6)]"
  "bs_depth_snapshot_messages (lossy_stats url planned) = 0"
  by (simp_all add: lossy_stats_def lossy_ticker_def binance_stats_new_def binance_record_reconnect_def binance_record_gap_alert_def
      binance_record_event_def binance_count_def binance_record_timing_def binance_update_health_def push_bounded_def
      MAX_STORED_GAP_ALERTS_def MAX_RECENT_GAP_ALERTS_def bump_def binance_symbol_def binance_exchange_timestamp_ms_def
      to_ascii_uppercase_def to_upper_def i64_saturating_sub_def sat_i64_def int_range_defs Let_def)

definition lossy_health :: source_health_draft where
  "lossy_health = \<lparr>sd_venue = ''binance'', sd_source_role = ''reference'', sd_observed_at_ms = 10,
     sd_connection_status = ''degraded'', sd_heartbeat_delay_ms = 4, sd_stream_lag_ms = 3, sd_recent_gap_count = 1,
     sd_book_rebuild_count = 0, sd_health_level = ''degraded'', sd_payload_json = ''{}''\<rparr>"

definition lossy_symbol :: symbol_health_draft where
  "lossy_symbol = \<lparr>yd_venue = ''binance'', yd_symbol_native = ''BTCUSDT'', yd_observed_at_ms = 11, yd_last_event_time_ms = 3,
     yd_latency_ms = 3, yd_is_tradeable = False, yd_reason_codes = [''source_gap_detected'']\<rparr>"

definition lossy_gap :: gap_draft where
  "lossy_gap = \<lparr>gd_venue = ''binance'', gd_source_role = ''reference'', gd_symbol_native = [], gd_gap_type = ''ws_reconnect'',
     gd_detected_at_ms = 9, gd_expected_sequence_id = None, gd_observed_sequence_id = None,
     gd_heal_action = ''reconnect_with_backoff'', gd_heal_status = ''message_error'', gd_payload_json = ''{}''\<rparr>"

lemma lossy_drafts:
  "binance_source_health_draft lossy_codec 10 (lossy_stats url planned\<lparr>bs_depth_snapshot_messages := n\<rparr>) = lossy_health"
  "binance_symbol_health_drafts 11 (lossy_stats url planned\<lparr>bs_depth_snapshot_messages := n\<rparr>) = [lossy_symbol]"
  "map (binance_gap_alert_draft lossy_codec) (bs_gap_alerts (lossy_stats url planned)) = [lossy_gap]"
  by (simp_all add: binance_source_health_draft_def binance_symbol_health_drafts_def binance_symbol_health_draft_def
      binance_gap_alert_draft_def binance_heartbeat_delay_ms_at_def binance_health_level_def lossy_stats_fields lossy_health_def
      lossy_symbol_def lossy_gap_def lossy_codec_def bt_keys_def BINANCE_STALE_AFTER_MS_def
      i64_saturating_sub_def sat_i64_def int_range_defs cmp_by_def Let_def)

definition lossy_end :: l0_sink where
  "lossy_end = fst (write_final_records demo_params lossy_env lossy_health [lossy_symbol] [lossy_gap] lossy_after_ticker)"

text \<open>The parts of a sink that the final records depend on.\<close>

definition sink_view where
  "sink_view s = (live_publisher s, buffers (raw s), health s, symbol_health s, gap s, failed_upload_count s,
     uploaded_object_count s, map uo_family (uploaded_objects s), next_ordinal s, size (uploaded (world s)),
     flush_records (config s), shard_count (config s))"

lemma lossy_view: "sink_view lossy_after_ticker = (False, [], empty_family, empty_family, empty_family, 0, 2,
    [''raw_market_event'', ''raw_market_event''], 4, 2, 1, 4)"
  by code_simp

lemma lossy_final_view:
  assumes "sink_view s = (False, [], empty_family, empty_family, empty_family, 0, 2, [''raw_market_event'', ''raw_market_event''], 4, 2, 1, 4)"
    and "write_final_records demo_params lossy_env lossy_health [lossy_symbol] [lossy_gap] s = (s', r)"
  shows "r = Inr () \<and> failed_upload_count s' = 0 \<and> next_ordinal s' = 7 \<and> uploaded_object_count s' = 6 \<and>
    map uo_family (uploaded_objects s') =
      [''raw_market_event'', ''raw_market_event'', ''source_health'', ''symbol_health'', ''gap_alert'', ''manifest''] \<and>
    manifest_key s' \<noteq> None \<and> size (uploaded (world s')) = 5"
proof -
  have v: "live_publisher s = False" "buffers (raw s) = []" "health s = empty_family" "symbol_health s = empty_family"
    "gap s = empty_family" "failed_upload_count s = 0" "uploaded_object_count s = 2"
    "map uo_family (uploaded_objects s) = [''raw_market_event'', ''raw_market_event'']" "next_ordinal s = 4"
    "size (\<Sum>p \<leftarrow> map snd (objects (world s)). payload_any p) = 2" "flush_records (config s) = 1"
    using assms(1) by (simp_all add: sink_view_def uploaded_def)
  have l: "length (uploaded_objects s) = 2" using arg_cong [OF v(8), of length] by simp
  show ?thesis
    using assms(2) v l
    by (simp add: write_final_records_def append_source_health_def append_symbol_health_def append_gap_alert_def take_ordinal_def
      push_buffer_def empty_family_def flush_health_partition_def flush_symbol_health_partition_def flush_gap_partition_def
      next_part_number_def cmp_by_def write_and_upload_def local_path_def lossy_env_def key_defs starts_with_def
      upload_def record_uploaded_object_def push_capped_deque_def MAX_REPORTED_OBJECTS_def seq_result_def flush_all_def bt_keys_def
      upload_manifest_def append_capped_def report_def uploaded_def Let_def)
      (elim conjE, hypsubst, simp)
qed

lemma lossy_written: "write_final_records demo_params lossy_env lossy_health [lossy_symbol] [lossy_gap] lossy_after_ticker = (lossy_end, Inr ())"
  using lossy_final_view [OF lossy_view] unfolding lossy_end_def by (metis prod.collapse)

lemma lossy_counts: "failed_upload_count lossy_end = 0" "next_ordinal lossy_end = 7" "uploaded_object_count lossy_end = 6"
  "map uo_family (uploaded_objects lossy_end) = [''raw_market_event'', ''raw_market_event'', ''source_health'', ''symbol_health'', ''gap_alert'', ''manifest'']"
  "manifest_key lossy_end \<noteq> None" "size (uploaded (world lossy_end)) = 5"
  using lossy_final_view [OF lossy_view lossy_written] by simp_all

lemma lossy_storage_ok: "validate_common_storage_report (report lossy_end) ''Binance'' = Inr ()"
    "storage_has_family (report lossy_end) ''gap_alert''"
proof -
  have "storage_has_family r f \<longleftrightarrow> f \<in> set (map uo_family (sp_uploaded_objects r))" for r f
    by (auto simp: storage_has_family_def list_ex_iff)
  then have "storage_has_family (report lossy_end) f \<longleftrightarrow>
      f \<in> set [''raw_market_event'', ''raw_market_event'', ''source_health'', ''symbol_health'', ''gap_alert'', ''manifest'']" for f
    by (simp only: report_def storage_report.simps lossy_counts(4))
  then show "validate_common_storage_report (report lossy_end) ''Binance'' = Inr ()"
    "storage_has_family (report lossy_end) ''gap_alert''"
    using lossy_counts by (simp_all add: validate_common_storage_report_def require_storage_family_def report_def)
qed

text \<open>C21: A Binance run can report success although a record was lost: when storing a message fails, the session ends
  and is reconnected, but unlike in the Upbit runtime the failure is not counted as a malformed message, and nothing the
  final validation looks at remembers it. In this run the sink was given 6 records and the bucket holds 5.\<close>

theorem binance_success_can_lose_a_record:
  "\<exists>z cfg s. run_binance_l0_smoke z cfg = Some (Some s, Inr ()) \<and> size (uploaded (world s)) + 1 = unat (next_ordinal s - 1)"
proof -
  obtain url planned where w: "watch_binance_l0_streams lossy_deps demo_config [lossy_market] [KTrade, KTicker]
     \<lparr>wc_duration = from_secs 1, wc_log_interval = from_secs 1, wc_derivative_snapshot_interval = from_secs 300,
      wc_futures_rest_base_url = ''https://f''\<rparr> (Inr ()) 0 (bz_attempts lossy_outside) (Some lossy_opened) =
   ([from_secs 1], Some (Inr \<lparr>bn_stats = lossy_stats url planned, bn_sink = Some lossy_after_ticker\<rparr>))"
    using lossy_watch by blast
  obtain names where n: "combined_stream_names_for_kinds demo_config [KTrade, KTicker] = Inr names"
    using lossy_streams by blast
  have o: "binance_open_storage lossy_outside lossy_cfg = Inr (Some lossy_start)"
    by (simp add: binance_open_storage_def lossy_outside_def lossy_cfg_def sink_new_def validate_config_def
        connect_live_publisher_def demo_cfg_def demo_sink_def lossy_start_def)
  have fin: "write_final_records demo_params lossy_env lossy_health [lossy_symbol] [lossy_gap] lossy_after_ticker = (lossy_end, Inr ())"
    by (rule lossy_written)
  have fs: "binance_finalize_storage lossy_deps 10 11 (lossy_stats url planned\<lparr>bs_depth_snapshot_messages := n\<rparr>) lossy_after_ticker =
      (lossy_end, Inr ())" for n
    by (simp add: binance_finalize_storage_def lossy_drafts fin) (simp add: lossy_deps_def lossy_drafts fin)
  have c: "binance_conclude lossy_outside lossy_cfg p 1 r \<lparr>bn_stats = lossy_stats url planned, bn_sink = Some lossy_after_ticker\<rparr> =
      (Some lossy_end, Inr ())" for p r
    using lossy_storage_ok
    by (simp add: binance_conclude_def fs lossy_stats_fields binance_validate_report_def
        binance_validate_message_report_def binance_validate_storage_report_def binance_build_report_def bt_contains_key_def
        lossy_outside_def lossy_cfg_def lossy_market_def to_ascii_uppercase_def to_upper_def upd_bstats_def cmp_by_def Let_def)
  have "run_binance_l0_smoke lossy_outside lossy_cfg = Some (Some lossy_end, Inr ())"
    using o n w c lossy_opening
    by (simp add: run_binance_l0_smoke_def) (simp add: lossy_outside_def lossy_cfg_def)
  then show ?thesis using lossy_counts by (intro exI [of _ lossy_outside] exI [of _ lossy_cfg] exI [of _ lossy_end]) simp
qed

section \<open>Witnesses\<close>

theorem binance_backoff_never_resets_witness:
  "\<exists>x :: binance_run. [from_secs 1] = map (\<lambda>n. from_secs (min (2 ^ n) 60)) [0 ..< bs_reconnect_count (bn_stats x)]"
  using lossy_watch binance_backoff_never_resets by blast

theorem binance_watch_counters_witness:
  "\<exists>x :: binance_run. bn_sink x = Some lossy_after_ticker \<and> binance_stats_ok (bn_stats x)"
proof -
  obtain url planned where w: "watch_binance_l0_streams lossy_deps demo_config [lossy_market] [KTrade, KTicker]
     \<lparr>wc_duration = from_secs 1, wc_log_interval = from_secs 1, wc_derivative_snapshot_interval = from_secs 300,
      wc_futures_rest_base_url = ''https://f''\<rparr> (Inr ()) 0 (bz_attempts lossy_outside) (Some lossy_opened) =
   ([from_secs 1], Some (Inr \<lparr>bn_stats = lossy_stats url planned, bn_sink = Some lossy_after_ticker\<rparr>))"
    using lossy_watch by blast
  from binance_watch_counters [OF w] show ?thesis
    by (intro exI [of _ "\<lparr>bn_stats = lossy_stats url planned, bn_sink = Some lossy_after_ticker\<rparr>"]) simp
qed

theorem derivative_report_exact_witness:
  "\<exists>s r. append_derivative_snapshots lossy_deps ''https://f'' [lossy_market] 1 lossy_start = (s, Inr r) \<and>
     dr_open_interest_snapshot_records r + dr_unsupported_futures_symbol_count r + dr_failure_count r = 1"
proof -
  have "\<not> is_err (snd (append_derivative_snapshots lossy_deps ''https://f'' [lossy_market] 1 lossy_start))"
    "\<not> is_err (fetch_funding_rate_snapshot_batch lossy_deps ''https://f'' [lossy_market] 1)" by code_simp+
  then obtain s r where a: "append_derivative_snapshots lossy_deps ''https://f'' [lossy_market] 1 lossy_start = (s, Inr r)"
    and f: "\<not> is_err (fetch_funding_rate_snapshot_batch lossy_deps ''https://f'' [lossy_market] 1)"
    by (cases "append_derivative_snapshots lossy_deps ''https://f'' [lossy_market] 1 lossy_start")
      (auto simp: is_err_def split: sum.splits)
  from derivative_report_exact [OF a] f a show ?thesis by auto
qed

end
