(* ===== verification/Spec2Isabelle.thy ===== *)
theory Spec2Isabelle
  imports Retention Spool Supervisor Feature_Delta Regime Universe Upbit_Smoke Binance_Smoke
begin

text \<open>
  Verification of the market-data ingestor \<open>market-ingest-app\<close>.
\<close>

end
